(* ===== verification/Base.thy ===== *)
theory Base
  imports Main "HOL-Library.AList" "HOL-Library.Char_ord" "HOL-Library.List_Lexorder"
    "HOL-Library.Product_Lexorder" "HOL-Library.Option_ord"
begin

text \<open>
  The prelude of the development.  It holds what every component shares:

  \<^item> pure fallible computations, as values of the sum type \<open>'e + 'a\<close> (\<open>Inl\<close> is the thrown error),
    with \<open>bindR\<close>, \<open>ensureR\<close>;
  \<^item> stateful computations of the services: an action takes the world and gives a result (a thrown
    error or a value) and the new world.  As in the program, there is no transaction: the writes made
    before an error stay;
  \<^item> \<open>wp\<close>, the weakest precondition of an action, with one equation for each combinator (collection
    \<open>wp_simps\<close>), so that the simplifier computes what a service does on each branch;
  \<^item> the JavaScript \<open>Map\<close> objects of the repositories, as association lists in insertion order
    (\<open>AList.update\<close> keeps the position of a key that is present, as \<open>Map.set\<close> does);
  \<^item> helper functions on strings.
\<close>

named_theorems wp_simps \<open>equations that compute the weakest precondition of an action\<close>
named_theorems table_simps \<open>laws of the tables of the repositories\<close>

section \<open>Fallible computations\<close>

definition bindR :: "'e + 'a \<Rightarrow> ('a \<Rightarrow> 'e + 'b) \<Rightarrow> 'e + 'b" where
  "bindR r f = (case r of Inl e \<Rightarrow> Inl e | Inr x \<Rightarrow> f x)"

definition ensureR :: "bool \<Rightarrow> 'e \<Rightarrow> 'e + unit" where
  "ensureR b e = (if b then Inr () else Inl e)"

lemma bindR_simps [simp]:
  "bindR (Inl e) f = Inl e"
  "bindR (Inr x) f = f x"
  by (simp_all add: bindR_def)

lemma bindR_eq_Inr: "bindR r f = Inr y \<longleftrightarrow> (\<exists>x. r = Inr x \<and> f x = Inr y)"
  by (cases r) simp_all

lemma bindR_eq_Inl: "bindR r f = Inl e \<longleftrightarrow> r = Inl e \<or> (\<exists>x. r = Inr x \<and> f x = Inl e)"
  by (cases r) simp_all

lemma ensureR_eq [simp]:
  "ensureR b e = Inr u \<longleftrightarrow> b"
  "ensureR b e = Inl e' \<longleftrightarrow> \<not> b \<and> e' = e"
  by (auto simp: ensureR_def)

lemma ensureR_cases [simp]:
  "ensureR True e = Inr ()"
  "ensureR False e = Inl e"
  by (simp_all add: ensureR_def)

section \<open>Actions\<close>

type_synonym ('w, 'e, 'a) act = "'w \<Rightarrow> ('e + 'a) \<times> 'w"

definition retM :: "'a \<Rightarrow> ('w, 'e, 'a) act" where
  "retM x = (\<lambda>w. (Inr x, w))"

definition throwM :: "'e \<Rightarrow> ('w, 'e, 'a) act" where
  "throwM e = (\<lambda>w. (Inl e, w))"

definition bindM :: "('w, 'e, 'a) act \<Rightarrow> ('a \<Rightarrow> ('w, 'e, 'b) act) \<Rightarrow> ('w, 'e, 'b) act" where
  "bindM m f = (\<lambda>w. case m w of (Inl e, w') \<Rightarrow> (Inl e, w') | (Inr x, w') \<Rightarrow> f x w')"

definition thenM :: "('w, 'e, 'a) act \<Rightarrow> ('w, 'e, 'b) act \<Rightarrow> ('w, 'e, 'b) act" where
  "thenM m n = bindM m (\<lambda>_. n)"

definition getsM :: "('w \<Rightarrow> 'a) \<Rightarrow> ('w, 'e, 'a) act" where
  "getsM f = (\<lambda>w. (Inr (f w), w))"

definition modifyM :: "('w \<Rightarrow> 'w) \<Rightarrow> ('w, 'e, unit) act" where
  "modifyM f = (\<lambda>w. (Inr (), f w))"

text \<open>A pure fallible computation as an action.\<close>

definition liftR :: "'e + 'a \<Rightarrow> ('w, 'e, 'a) act" where
  "liftR r = (\<lambda>w. (r, w))"

definition whenM :: "bool \<Rightarrow> ('w, 'e, unit) act \<Rightarrow> ('w, 'e, unit) act" where
  "whenM b m = (if b then m else retM ())"

text \<open>\<open>if (!x) throw e\<close> on a value that may be missing.\<close>

definition requireM :: "'e \<Rightarrow> 'a option \<Rightarrow> ('w, 'e, 'a) act" where
  "requireM e x = (case x of None \<Rightarrow> throwM e | Some y \<Rightarrow> retM y)"

text \<open>\<open>try m catch (e) h\<close>, and the \<open>try ... catch\<close> that only logs.\<close>

definition catchM :: "('w, 'e, 'a) act \<Rightarrow> ('e \<Rightarrow> ('w, 'e, 'a) act) \<Rightarrow> ('w, 'e, 'a) act" where
  "catchM m h = (\<lambda>w. case m w of (Inl e, w') \<Rightarrow> h e w' | (Inr x, w') \<Rightarrow> (Inr x, w'))"

definition attemptM :: "('w, 'e, 'a) act \<Rightarrow> ('w, 'e, 'a option) act" where
  "attemptM m = (\<lambda>w. case m w of (Inl e, w') \<Rightarrow> (Inr None, w') | (Inr x, w') \<Rightarrow> (Inr (Some x), w'))"

text \<open>The \<open>for ... of\<close> loops, without and with results.\<close>

primrec forM :: "'a list \<Rightarrow> ('a \<Rightarrow> ('w, 'e, unit) act) \<Rightarrow> ('w, 'e, unit) act" where
  "forM [] f = retM ()"
| "forM (x # xs) f = thenM (f x) (forM xs f)"

primrec mapM :: "('a \<Rightarrow> ('w, 'e, 'b) act) \<Rightarrow> 'a list \<Rightarrow> ('w, 'e, 'b list) act" where
  "mapM f [] = retM []"
| "mapM f (x # xs) = bindM (f x) (\<lambda>y. bindM (mapM f xs) (\<lambda>ys. retM (y # ys)))"

primrec foldM :: "('b \<Rightarrow> 'a \<Rightarrow> ('w, 'e, 'b) act) \<Rightarrow> 'b \<Rightarrow> 'a list \<Rightarrow> ('w, 'e, 'b) act" where
  "foldM f acc [] = retM acc"
| "foldM f acc (x # xs) = bindM (f acc x) (\<lambda>acc'. foldM f acc' xs)"

lemmas action_defs =
  retM_def throwM_def bindM_def thenM_def getsM_def modifyM_def liftR_def whenM_def requireM_def
  catchM_def attemptM_def

subsection \<open>Weakest preconditions\<close>

definition wp :: "('w, 'e, 'a) act \<Rightarrow> ('a \<Rightarrow> 'w \<Rightarrow> bool) \<Rightarrow> ('e \<Rightarrow> 'w \<Rightarrow> bool) \<Rightarrow> 'w \<Rightarrow> bool" where
  "wp m Q E w = (case m w of (Inl e, w') \<Rightarrow> E e w' | (Inr x, w') \<Rightarrow> Q x w')"

lemma wp_ret [wp_simps]: "wp (retM x) Q E w = Q x w"
  by (simp add: wp_def retM_def)

lemma wp_throw [wp_simps]: "wp (throwM e) Q E w = E e w"
  by (simp add: wp_def throwM_def)

lemma wp_gets [wp_simps]: "wp (getsM g) Q E w = Q (g w) w"
  by (simp add: wp_def getsM_def)

lemma wp_modify [wp_simps]: "wp (modifyM h) Q E w = Q () (h w)"
  by (simp add: wp_def modifyM_def)

lemma wp_bind [wp_simps]: "wp (bindM m f) Q E w = wp m (\<lambda>x. wp (f x) Q E) E w"
  by (auto simp: wp_def bindM_def split: prod.splits sum.splits)

lemma wp_then [wp_simps]: "wp (thenM m n) Q E w = wp m (\<lambda>_. wp n Q E) E w"
  by (simp add: thenM_def wp_bind)

lemma wp_liftR [wp_simps]:
  "wp (liftR r) Q E w = (case r of Inl e \<Rightarrow> E e w | Inr x \<Rightarrow> Q x w)"
  by (simp add: wp_def liftR_def split: sum.splits)

lemma wp_when [wp_simps]: "wp (whenM b m) Q E w = (if b then wp m Q E w else Q () w)"
  by (simp add: whenM_def wp_ret)

lemma wp_require [wp_simps]:
  "wp (requireM e x) Q E w = (case x of None \<Rightarrow> E e w | Some y \<Rightarrow> Q y w)"
  by (simp add: requireM_def wp_ret wp_throw split: option.splits)

lemma wp_catch [wp_simps]: "wp (catchM m h) Q E w = wp m Q (\<lambda>e. wp (h e) Q E) w"
  by (auto simp: wp_def catchM_def split: prod.splits sum.splits)

lemma wp_attempt [wp_simps]:
  "wp (attemptM m) Q E w = wp m (\<lambda>x. Q (Some x)) (\<lambda>e. Q None) w"
  by (auto simp: wp_def attemptM_def split: prod.splits sum.splits)

lemma wp_if [wp_simps]: "wp (if b then m else n) Q E w = (if b then wp m Q E w else wp n Q E w)"
  by simp

lemma wp_option [wp_simps]:
  "wp (case x of None \<Rightarrow> m | Some y \<Rightarrow> f y) Q E w
     = (case x of None \<Rightarrow> wp m Q E w | Some y \<Rightarrow> wp (f y) Q E w)"
  by (simp split: option.splits)

lemma wp_forM_simps [wp_simps]:
  "wp (forM [] f) Q E w = Q () w"
  "wp (forM (x # xs) f) Q E w = wp (f x) (\<lambda>_. wp (forM xs f) Q E) E w"
  by (simp_all add: wp_simps)

lemma wp_mono:
  assumes "wp m Q E w"
    and "\<And>x w'. Q x w' \<Longrightarrow> Q' x w'" and "\<And>e w'. E e w' \<Longrightarrow> E' e w'"
  shows "wp m Q' E' w"
  using assms by (auto simp: wp_def split: prod.splits sum.splits)

lemma wp_conj: "wp m Q E w \<Longrightarrow> wp m Q' E' w \<Longrightarrow> wp m (\<lambda>x w. Q x w \<and> Q' x w) (\<lambda>e w. E e w \<and> E' e w) w"
  by (auto simp: wp_def split: prod.splits sum.splits)

lemma wp_resultD:
  "wp m Q E w \<Longrightarrow> m w = (Inr x, w') \<Longrightarrow> Q x w'"
  "wp m Q E w \<Longrightarrow> m w = (Inl e, w') \<Longrightarrow> E e w'"
  by (simp_all add: wp_def)

lemma wpI:
  assumes "\<And>x w'. m w = (Inr x, w') \<Longrightarrow> Q x w'" and "\<And>e w'. m w = (Inl e, w') \<Longrightarrow> E e w'"
  shows "wp m Q E w"
  using assms by (auto simp: wp_def split: prod.splits sum.splits)

lemma wp_snd: "wp m (\<lambda>_. P) (\<lambda>_. P) w \<longleftrightarrow> P (snd (m w))"
  by (auto simp: wp_def split: prod.splits sum.splits)

lemma wp_forM_inv:
  assumes "I [] w" and "\<And>done x rest w. xs = done @ x # rest \<Longrightarrow> I done w \<Longrightarrow> wp (f x) (\<lambda>_. I (done @ [x])) E w"
    and "\<And>w. I xs w \<Longrightarrow> Q () w"
  shows "wp (forM xs f) Q E w"
proof -
  have "xs = done @ rest \<Longrightarrow> I done w \<Longrightarrow> wp (forM rest f) (\<lambda>_. I xs) E w" for "done" rest w
  proof (induction rest arbitrary: "done" w)
    case Nil
    then show ?case by (simp add: wp_simps)
  next
    case (Cons x rest)
    show ?case unfolding wp_forM_simps
    proof (rule wp_mono[OF assms(2)[OF Cons.prems]])
      fix u w'
      assume "I (done @ [x]) w'"
      then show "wp (forM rest f) (\<lambda>_. I xs) E w'" using Cons.IH Cons.prems(1) by simp
    qed
  qed
  from wp_mono[OF this[of "[]" xs w]] show ?thesis using assms(1,3) by simp
qed

lemma wp_foldM_simps [wp_simps]:
  "wp (foldM f acc []) Q E w = Q acc w"
  "wp (foldM f acc (x # xs)) Q E w = wp (f acc x) (\<lambda>acc'. wp (foldM f acc' xs) Q E) E w"
  by (simp_all add: wp_simps)

lemma wp_foldM_inv:
  assumes "I [] acc w"
    and "\<And>done x rest acc w. xs = done @ x # rest \<Longrightarrow> I done acc w \<Longrightarrow> wp (f acc x) (I (done @ [x])) E w"
    and "\<And>acc w. I xs acc w \<Longrightarrow> Q acc w"
  shows "wp (foldM f acc xs) Q E w"
proof -
  have "xs = done @ rest \<Longrightarrow> I done acc w \<Longrightarrow> wp (foldM f acc rest) (I xs) E w" for "done" rest acc w
  proof (induction rest arbitrary: "done" acc w)
    case Nil
    then show ?case by (simp add: wp_simps)
  next
    case (Cons x rest)
    show ?case unfolding wp_foldM_simps
    proof (rule wp_mono[OF assms(2)[OF Cons.prems]])
      fix acc' w'
      assume "I (done @ [x]) acc' w'"
      then show "wp (foldM f acc' rest) (I xs) E w'" using Cons.IH Cons.prems(1) by simp
    qed
  qed
  from wp_mono[OF this[of "[]" xs acc w]] show ?thesis using assms(1,3) by simp
qed

lemma wp_forM_const:
  assumes "I w" and "\<And>x w. x \<in> set xs \<Longrightarrow> I w \<Longrightarrow> wp (f x) (\<lambda>_. I) (\<lambda>_. I) w"
  shows "wp (forM xs f) (\<lambda>_. I) (\<lambda>_. I) w"
  using assms
proof (induction xs arbitrary: w)
  case (Cons x xs)
  have "wp (f x) (\<lambda>_. wp (forM xs f) (\<lambda>_. I) (\<lambda>_. I)) (\<lambda>_. I) w"
    by (rule wp_mono[OF Cons.prems(2)[of x]]) (use Cons in auto)
  then show ?case by (simp add: wp_simps)
qed (simp add: wp_simps)

subsection \<open>Invariants of actions\<close>

definition keeps :: "('w \<Rightarrow> bool) \<Rightarrow> ('w, 'e, 'a) act \<Rightarrow> bool" where
  "keeps I m \<longleftrightarrow> (\<forall>w. I w \<longrightarrow> I (snd (m w)))"

named_theorems keeps_intros \<open>rules that an action keeps an invariant\<close>

lemma keepsI: "(\<And>w. I w \<Longrightarrow> wp m (\<lambda>_. I) (\<lambda>_. I) w) \<Longrightarrow> keeps I m"
  by (simp add: keeps_def wp_snd)

lemma keepsD: "keeps I m \<Longrightarrow> I w \<Longrightarrow> wp m (\<lambda>_. I) (\<lambda>_. I) w"
  by (simp add: keeps_def wp_snd)

lemma keeps_snd: "keeps I m \<Longrightarrow> I w \<Longrightarrow> I (snd (m w))"
  by (simp add: keeps_def)

lemma keeps_ret [keeps_intros]: "keeps I (retM x)"
  by (simp add: keeps_def retM_def)

lemma keeps_throw [keeps_intros]: "keeps I (throwM e)"
  by (simp add: keeps_def throwM_def)

lemma keeps_gets [keeps_intros]: "keeps I (getsM g)"
  by (simp add: keeps_def getsM_def)

lemma keeps_liftR [keeps_intros]: "keeps I (liftR r)"
  by (simp add: keeps_def liftR_def)

lemma keeps_require [keeps_intros]: "keeps I (requireM e y)"
  by (simp add: requireM_def keeps_ret keeps_throw split: option.splits)

lemmas keeps_basic = keeps_ret keeps_throw keeps_gets keeps_liftR keeps_require

lemma keeps_bind [keeps_intros]:
  "keeps I m \<Longrightarrow> (\<And>x. keeps I (f x)) \<Longrightarrow> keeps I (bindM m f)"
  by (fastforce simp: keeps_def bindM_def split: prod.splits sum.splits)

lemma keeps_then [keeps_intros]: "keeps I m \<Longrightarrow> keeps I n \<Longrightarrow> keeps I (thenM m n)"
  by (simp add: thenM_def keeps_bind)

lemma keeps_when [keeps_intros]: "(b \<Longrightarrow> keeps I m) \<Longrightarrow> keeps I (whenM b m)"
  by (auto simp: whenM_def keeps_basic)

lemma keeps_if [keeps_intros]:
  "(b \<Longrightarrow> keeps I m) \<Longrightarrow> (\<not> b \<Longrightarrow> keeps I n) \<Longrightarrow> keeps I (if b then m else n)"
  by simp

lemma keeps_option [keeps_intros]:
  "(x = None \<Longrightarrow> keeps I m) \<Longrightarrow> (\<And>y. x = Some y \<Longrightarrow> keeps I (f y))
    \<Longrightarrow> keeps I (case x of None \<Rightarrow> m | Some y \<Rightarrow> f y)"
  by (cases x) simp_all

lemma keeps_catch [keeps_intros]:
  "keeps I m \<Longrightarrow> (\<And>e. keeps I (h e)) \<Longrightarrow> keeps I (catchM m h)"
  by (fastforce simp: keeps_def catchM_def split: prod.splits sum.splits)

lemma keeps_attempt [keeps_intros]: "keeps I m \<Longrightarrow> keeps I (attemptM m)"
  by (fastforce simp: keeps_def attemptM_def split: prod.splits sum.splits)

lemma keeps_forM [keeps_intros]: "(\<And>x. x \<in> set xs \<Longrightarrow> keeps I (f x)) \<Longrightarrow> keeps I (forM xs f)"
  by (induction xs) (auto intro: keeps_basic keeps_then)

lemma keeps_mapM [keeps_intros]: "(\<And>x. x \<in> set xs \<Longrightarrow> keeps I (f x)) \<Longrightarrow> keeps I (mapM f xs)"
  by (induction xs) (auto intro!: keeps_basic keeps_bind)

lemma keeps_foldM [keeps_intros]:
  "(\<And>x acc. x \<in> set xs \<Longrightarrow> keeps I (f acc x)) \<Longrightarrow> keeps I (foldM f acc xs)"
  by (induction xs arbitrary: acc) (auto intro!: keeps_basic keeps_bind)

lemma keeps_modify: "(\<And>w. I w \<Longrightarrow> I (h w)) \<Longrightarrow> keeps I (modifyM h)"
  by (simp add: keeps_def modifyM_def)

lemma keeps_conj: "keeps I m \<Longrightarrow> keeps J m \<Longrightarrow> keeps (\<lambda>w. I w \<and> J w) m"
  by (simp add: keeps_def)

subsection \<open>Reading loops\<close>

lemma mapM_reads: "(\<And>x. x \<in> set xs \<Longrightarrow> f x w = (Inr (g x), w)) \<Longrightarrow> mapM f xs w = (Inr (map g xs), w)"
  by (induction xs) (simp_all add: bindM_def retM_def)

lemma foldM_reads:
  "(\<And>acc x. x \<in> set xs \<Longrightarrow> f acc x w = (Inr (acc @ h x), w)) \<Longrightarrow>
    foldM f acc xs w = (Inr (acc @ concat (map h xs)), w)"
  by (induction xs arbitrary: acc) (simp_all add: bindM_def retM_def)

lemma wp_reads: "m w = (Inr x, w) \<Longrightarrow> wp m Q E w = Q x w"
  by (simp add: wp_def)

lemma reads_wp: "wp m (\<lambda>x w'. w' = w \<and> r = Inr x) (\<lambda>e w'. w' = w \<and> r = Inl e) w \<Longrightarrow> m w = (r, w)"
  by (auto simp: wp_def split: prod.splits sum.splits)

section \<open>Tables\<close>

type_synonym 'v table = "(string \<times> 'v) list"

definition tvals :: "'v table \<Rightarrow> 'v list" where
  "tvals t = map snd t"

text \<open>A table is well formed when its keys are distinct and each value lies under its own id.\<close>

definition wf_table :: "('v \<Rightarrow> string) \<Rightarrow> 'v table \<Rightarrow> bool" where
  "wf_table key t \<longleftrightarrow> distinct (map fst t) \<and> (\<forall>(k, v) \<in> set t. key v = k)"

lemma wf_table_Nil [simp]: "wf_table key []"
  by (simp add: wf_table_def)

lemma map_of_update [table_simps]: "map_of (AList.update k v t) = (map_of t)(k \<mapsto> v)"
  by (rule update_conv')

lemma map_of_delete [table_simps]: "map_of (AList.delete k t) = (map_of t)(k := None)"
  by (rule AList.delete_conv')

lemma wf_table_update: "wf_table key t \<Longrightarrow> key v = k \<Longrightarrow> wf_table key (AList.update k v t)"
proof -
  assume wf: "wf_table key t" and k: "key v = k"
  have d: "distinct (map fst (AList.update k v t))"
    using wf by (simp add: wf_table_def distinct_update)
  have "key v' = k'" if "(k', v') \<in> set (AList.update k v t)" for k' v'
  proof -
    from that d have "map_of (AList.update k v t) k' = Some v'" by simp
    then have "k' = k \<and> v' = v \<or> map_of t k' = Some v'"
      by (auto simp: map_of_update split: if_splits)
    with wf k show ?thesis by (auto simp: wf_table_def dest: map_of_SomeD)
  qed
  with d show ?thesis by (auto simp: wf_table_def)
qed

lemma wf_table_delete: "wf_table key t \<Longrightarrow> wf_table key (AList.delete k t)"
  by (auto simp: wf_table_def AList.delete_eq distinct_map_filter)

lemma tvals_map_of: "wf_table key t \<Longrightarrow> v \<in> set (tvals t) \<longleftrightarrow> map_of t (key v) = Some v"
proof
  assume wf: "wf_table key t" and "v \<in> set (tvals t)"
  then obtain k where "(k, v) \<in> set t" by (auto simp: tvals_def)
  with wf show "map_of t (key v) = Some v" by (auto simp: wf_table_def)
next
  assume "map_of t (key v) = Some v"
  from map_of_SomeD[OF this] show "v \<in> set (tvals t)" by (force simp: tvals_def)
qed

lemma set_tvals: "wf_table key t \<Longrightarrow> set (tvals t) = {v. map_of t (key v) = Some v}"
  by (auto simp: tvals_map_of)

lemma wf_table_key: "wf_table key t \<Longrightarrow> map_of t k = Some v \<Longrightarrow> key v = k"
  by (auto simp: wf_table_def dest: map_of_SomeD)

lemma tvals_lookup: "wf_table key t \<Longrightarrow> map_of t k = Some v \<Longrightarrow> v \<in> set (tvals t)"
  by (simp add: tvals_map_of wf_table_key)

lemma tvals_update:
  "wf_table key t \<Longrightarrow> key v = k \<Longrightarrow>
    set (tvals (AList.update k v t)) = insert v {u \<in> set (tvals t). key u \<noteq> k}"
  by (auto simp: set_tvals[of key] wf_table_update table_simps)

lemma tvals_update_fresh:
  "map_of t k = None \<Longrightarrow> tvals (AList.update k v t) = tvals t @ [v]"
  by (simp add: tvals_def update_nonempty[symmetric] map_of_eq_None_iff)
     (induction t, auto)

text \<open>Replacing rows in place: an update of present keys is a map over the rows.\<close>

definition mapRows :: "('v \<Rightarrow> 'v) \<Rightarrow> 'v table \<Rightarrow> 'v table" where
  "mapRows f t = map (\<lambda>(k, x). (k, f x)) t"

lemma tvals_mapRows [simp]: "tvals (mapRows f t) = map f (tvals t)"
  by (simp add: mapRows_def tvals_def split_def)

lemma keys_mapRows [simp]: "map fst (mapRows f t) = map fst t"
  by (simp add: mapRows_def split_def)

lemma map_of_mapRows [simp]: "map_of (mapRows f t) k = map_option f (map_of t k)"
  unfolding mapRows_def by (induction t) auto

lemma mapRows_mapRows: "mapRows f (mapRows g t) = mapRows (\<lambda>x. f (g x)) t"
  by (simp add: mapRows_def split_def)

lemma mapRows_id: "(\<And>x. x \<in> set (tvals t) \<Longrightarrow> f x = x) \<Longrightarrow> mapRows f t = t"
  unfolding mapRows_def by (rule map_idI) (force simp: tvals_def)

lemma mapRows_cong: "(\<And>x. x \<in> set (tvals t) \<Longrightarrow> f x = g x) \<Longrightarrow> mapRows f t = mapRows g t"
  unfolding mapRows_def by (rule map_cong) (force simp: tvals_def)+

lemma wf_table_mapRows: "wf_table key t \<Longrightarrow> (\<And>x. x \<in> set (tvals t) \<Longrightarrow> key (f x) = key x) \<Longrightarrow> wf_table key (mapRows f t)"
  by (auto simp: wf_table_def keys_mapRows simp del: map_map) (force simp: mapRows_def tvals_def)

lemma update_present:
  assumes "wf_table key t" "map_of t k = Some x0"
  shows "AList.update k v t = mapRows (\<lambda>x. if key x = k then v else x) t"
proof -
  have "distinct (map fst t) \<Longrightarrow> k \<in> fst ` set t \<Longrightarrow>
      AList.update k v t = map (\<lambda>(k', x). (k', if k' = k then v else x)) t"
  proof (induction t)
    case (Cons kx t)
    then show ?case
    proof (cases "fst kx = k")
      case True
      with Cons.prems have "map (\<lambda>(k', x). (k', if k' = k then v else x)) t = t"
        by (intro map_idI) (auto simp: image_iff split: prod.splits)
      with True show ?thesis by (cases kx) simp
    qed (use Cons in \<open>auto simp: split_def\<close>)
  qed simp
  moreover from assms have "distinct (map fst t)" "k \<in> fst ` set t"
    by (auto simp: wf_table_def dest!: map_of_SomeD intro: image_eqI[rotated])
  ultimately have "AList.update k v t = map (\<lambda>(k', x). (k', if k' = k then v else x)) t" by simp
  also have "\<dots> = mapRows (\<lambda>x. if key x = k then v else x) t"
    using assms(1) unfolding mapRows_def wf_table_def by (auto intro!: map_cong)
  finally show ?thesis .
qed

lemma tvals_key_inj: "wf_table key t \<Longrightarrow> x \<in> set (tvals t) \<Longrightarrow> y \<in> set (tvals t) \<Longrightarrow> key x = key y \<Longrightarrow> x = y"
  by (simp add: tvals_map_of)

lemma distinct_tvals: "wf_table key t \<Longrightarrow> distinct (tvals t)"
proof -
  assume wf: "wf_table key t"
  then have "map key (tvals t) = map fst t" by (auto simp: wf_table_def tvals_def)
  with wf have "distinct (map key (tvals t))" by (simp add: wf_table_def)
  then show ?thesis by (rule distinct_map[THEN iffD1, THEN conjunct1])
qed

lemma update_row:
  assumes wf: "wf_table key t" and s: "s \<in> set (tvals t)" "s \<notin> set dn" and g: "\<And>x. key (g x) = key x"
  shows "AList.update (key s) (g s) (mapRows (\<lambda>x. if x \<in> set dn then g x else x) t)
    = mapRows (\<lambda>x. if x \<in> set (dn @ [s]) then g x else x) t"
proof -
  let ?h = "\<lambda>x. if x \<in> set dn then g x else x"
  have wf': "wf_table key (mapRows ?h t)" by (rule wf_table_mapRows[OF wf]) (simp add: g)
  have "map_of t (key s) = Some s" using wf s(1) by (simp add: tvals_map_of)
  then have row: "map_of (mapRows ?h t) (key s) = Some s" using s(2) by simp
  have "AList.update (key s) (g s) (mapRows ?h t) = mapRows (\<lambda>y. if key y = key s then g s else y) (mapRows ?h t)"
    by (rule update_present[OF wf' row])
  also have "\<dots> = mapRows (\<lambda>x. if x \<in> set (dn @ [s]) then g x else x) t"
    unfolding mapRows_mapRows
  proof (rule mapRows_cong)
    fix x assume "x \<in> set (tvals t)"
    then have "key x = key s \<longleftrightarrow> x = s" using tvals_key_inj[OF wf] s(1) by auto
    moreover have "key (?h x) = key x" by (simp add: g)
    ultimately show "(if key (?h x) = key s then g s else ?h x) = (if x \<in> set (dn @ [s]) then g x else x)"
      using s(2) by simp
  qed
  finally show ?thesis .
qed

lemma fold_update_rows:
  assumes wf: "wf_table key t" and "set L \<subseteq> set (tvals t)" "distinct L" and g: "\<And>x. key (g x) = key x"
  shows "fold (\<lambda>s. AList.update (key s) (g s)) L t = mapRows (\<lambda>x. if x \<in> set L then g x else x) t"
  using assms(2,3)
proof (induction L rule: rev_induct)
  case (snoc s L)
  then have IH: "fold (\<lambda>s. AList.update (key s) (g s)) L t = mapRows (\<lambda>x. if x \<in> set L then g x else x) t" by simp
  have s: "s \<in> set (tvals t)" "s \<notin> set L" using snoc.prems by simp_all
  have "fold (\<lambda>s. AList.update (key s) (g s)) (L @ [s]) t
      = AList.update (key s) (g s) (mapRows (\<lambda>x. if x \<in> set L then g x else x) t)"
    using IH by simp
  also note update_row[where g = g, OF wf s g]
  finally show ?case .
qed (simp add: mapRows_id)

text \<open>\<open>[...map.values()].find(p)\<close>.\<close>

lemma find_SomeD: "find p xs = Some x \<Longrightarrow> p x \<and> x \<in> set xs"
  by (auto simp: find_Some_iff)

lemma find_NoneD: "find p xs = None \<Longrightarrow> x \<in> set xs \<Longrightarrow> \<not> p x"
  by (auto simp: find_None_iff)

section \<open>Strings\<close>

definition isSpaceChar :: "char \<Rightarrow> bool" where
  "isSpaceChar c \<longleftrightarrow> c \<in> set [CHR '' '', CHR 0x09, CHR 0x0A, CHR 0x0B, CHR 0x0C, CHR 0x0D]"

text \<open>\<open>String.prototype.trim\<close> on the ASCII white space.\<close>

definition trim :: "string \<Rightarrow> string" where
  "trim s = rev (dropWhile isSpaceChar (rev (dropWhile isSpaceChar s)))"

definition upperChar :: "char \<Rightarrow> char" where
  "upperChar c = (let n = of_char c :: nat in if 97 \<le> n \<and> n \<le> 122 then char_of (n - 32) else c)"

definition lowerChar :: "char \<Rightarrow> char" where
  "lowerChar c = (let n = of_char c :: nat in if 65 \<le> n \<and> n \<le> 90 then char_of (n + 32) else c)"

definition toUpperCase :: "string \<Rightarrow> string" where
  "toUpperCase s = map upperChar s"

definition toLowerCase :: "string \<Rightarrow> string" where
  "toLowerCase s = map lowerChar s"

lemma of_char_upperChar:
  "(of_char (upperChar c) :: nat) =
     (let n = of_char c in if 97 \<le> n \<and> n \<le> 122 then n - 32 else n)"
  by (auto simp: upperChar_def Let_def intro!: mod_less)

lemma of_char_lowerChar:
  "(of_char (lowerChar c) :: nat) =
     (let n = of_char c in if 65 \<le> n \<and> n \<le> 90 then n + 32 else n)"
  by (auto simp: lowerChar_def Let_def intro!: mod_less)

lemma char_eqI: "(of_char c :: nat) = of_char d \<Longrightarrow> c = d"
  using of_char_eq_iff by blast

text \<open>\<open>a ?? b\<close>.\<close>

definition orElse :: "'a option \<Rightarrow> 'a \<Rightarrow> 'a" where
  "orElse x d = (case x of None \<Rightarrow> d | Some y \<Rightarrow> y)"

lemma orElse_simps [simp]: "orElse None d = d" "orElse (Some y) d = y"
  by (simp_all add: orElse_def)

text \<open>\<open>xs.join(sep)\<close>.\<close>

fun joinWith :: "string \<Rightarrow> string list \<Rightarrow> string" where
  "joinWith sep [] = []"
| "joinWith sep [x] = x"
| "joinWith sep (x # y # zs) = x @ sep @ joinWith sep (y # zs)"

end
