(* ===== verification/Domain_Types.thy ===== *)
theory Domain_Types
  imports Base
begin

text \<open>
  The data of \<open>src/src/domain/types.ts\<close>, the error codes of \<open>common/errors.ts\<close> and the actor of
  \<open>common/auth/actor.ts\<close>.  Each interface is a record with the fields of the source (with a prefix,
  since record fields are global in HOL), each union of string literals is a datatype with the
  source's constructors, an optional field is an \<open>option\<close>.  A \<open>Date\<close> is the number of its
  milliseconds (\<open>getTime()\<close>), an \<open>int\<close>.
\<close>

section \<open>Errors\<close>

datatype DomainErrorCode =
    FORBIDDEN | VERSION_NOT_FOUND | VERSION_IMMUTABLE | ALREADY_ACCEPTED | VERSION_NOT_CURRENT
  | CHANGE_SUMMARY_REQUIRED | CONSENT_TEXT_REQUIRED | UNKNOWN_AUDIENCE | UNKNOWN_DOCUMENT_TYPE
  | DOCUMENT_TYPE_EXTERNAL | DOCUMENT_TYPE_NOT_EXTERNAL | ROLE_MISMATCH | CONSENT_TEXT_MISMATCH
  | OBJECTION_NOT_APPLICABLE | OBJECTION_PERIOD_EXPIRED | CUSTOMER_NOT_FOUND | LINK_NOT_FOUND
  | RATE_LIMITED | INVALID_STATE

text \<open>
  What the code throws: a \<open>DomainError\<close> with its code, one of the HTTP exceptions of the framework
  that the services throw themselves, or another \<open>Error\<close> (from a plugin, say).  Messages are not
  modelled.
\<close>

datatype failure =
    DomainError DomainErrorCode
  | NotFoundException | BadRequestException | ConflictException | OtherError

fun HTTP_STATUS_BY_CODE :: "DomainErrorCode \<Rightarrow> nat" where
  "HTTP_STATUS_BY_CODE FORBIDDEN = 403"
| "HTTP_STATUS_BY_CODE VERSION_NOT_FOUND = 404"
| "HTTP_STATUS_BY_CODE CUSTOMER_NOT_FOUND = 404"
| "HTTP_STATUS_BY_CODE LINK_NOT_FOUND = 404"
| "HTTP_STATUS_BY_CODE RATE_LIMITED = 429"
| "HTTP_STATUS_BY_CODE VERSION_IMMUTABLE = 409"
| "HTTP_STATUS_BY_CODE ALREADY_ACCEPTED = 409"
| "HTTP_STATUS_BY_CODE VERSION_NOT_CURRENT = 422"
| "HTTP_STATUS_BY_CODE CHANGE_SUMMARY_REQUIRED = 422"
| "HTTP_STATUS_BY_CODE CONSENT_TEXT_REQUIRED = 422"
| "HTTP_STATUS_BY_CODE UNKNOWN_AUDIENCE = 422"
| "HTTP_STATUS_BY_CODE UNKNOWN_DOCUMENT_TYPE = 422"
| "HTTP_STATUS_BY_CODE DOCUMENT_TYPE_EXTERNAL = 422"
| "HTTP_STATUS_BY_CODE DOCUMENT_TYPE_NOT_EXTERNAL = 422"
| "HTTP_STATUS_BY_CODE ROLE_MISMATCH = 422"
| "HTTP_STATUS_BY_CODE CONSENT_TEXT_MISMATCH = 422"
| "HTTP_STATUS_BY_CODE OBJECTION_NOT_APPLICABLE = 422"
| "HTTP_STATUS_BY_CODE OBJECTION_PERIOD_EXPIRED = 422"
| "HTTP_STATUS_BY_CODE INVALID_STATE = 422"

type_synonym 'a result = "failure + 'a"

definition domainError :: "DomainErrorCode \<Rightarrow> 'a result" where
  "domainError c = Inl (DomainError c)"

section \<open>Actors\<close>

record Actor =
  act_userId :: string
  act_name :: "string option"
  act_email :: "string option"
  act_portalRole :: "string option"

record CustomerContext =
  ctx_customerId :: string
  ctx_actor :: Actor
  ctx_ipAddress :: "string option"
  ctx_userAgent :: "string option"

section \<open>Catalogue: document types, templates, audiences, documents\<close>

type_synonym Date = int

record DocumentTypeDef =
  dt_id :: string
  dt_key :: string
  dt_name :: string
  dt_notificationTemplateId :: "string option"
  dt_reminderTemplateId :: "string option"
  dt_acceptanceConfirmationTemplateId :: "string option"
  dt_external :: "bool option"

record SignedDocument =
  sd_id :: string
  sd_customerId :: string
  sd_documentTypeKey :: string
  sd_audience :: "string option"
  sd_fileName :: string
  sd_storageKey :: string
  sd_contentHash :: string
  sd_fileSize :: int
  sd_signedAt :: Date
  sd_signerName :: "string option"
  sd_reference :: "string option"
  sd_note :: "string option"
  sd_uploadedBy :: string
  sd_uploadedAt :: Date

datatype EmailTemplateKind = VERSION_NOTIFICATION | REMINDER | ACCEPTANCE_CONFIRMATION

record EmailTemplate =
  et_id :: string
  et_name :: string
  et_kind :: EmailTemplateKind
  et_subject :: string
  et_design :: string
  et_html :: string
  et_createdAt :: Date
  et_updatedAt :: Date

record Audience =
  au_id :: string
  au_key :: string
  au_name :: string

record AgreementDocument =
  d_id :: string
  d_type :: string
  d_audience :: string
  d_name :: string

section \<open>Versions\<close>

datatype VersionStatus = DRAFT | PUBLISHED | RETIRED

datatype AcceptanceMode = ACTIVE | PASSIVE

definition DEFAULT_GRACE_PERIOD_DAYS :: int where
  "DEFAULT_GRACE_PERIOD_DAYS = 14"

record AgreementVersion =
  v_id :: string
  v_documentId :: string
  v_versionLabel :: string
  v_status :: VersionStatus
  v_acceptanceMode :: AcceptanceMode
  v_objectionPeriodDays :: "int option"
  v_objectionConsequence :: "string option"
  v_gracePeriodDays :: "int option"
  v_hardDeadlineAt :: "Date option"
  v_changeSummary :: string
  v_consentText :: "string option"
  v_storageKey :: string
  v_fileName :: string
  v_contentHash :: string
  v_fileSize :: int
  v_validFrom :: Date
  v_publishedAt :: "Date option"
  v_publishedBy :: "string option"

section \<open>Customers and their rollout states\<close>

record Customer =
  c_id :: string
  c_externalRef :: string
  c_firstName :: string
  c_lastName :: string
  c_companyName :: "string option"
  c_roles :: "string list"
  c_contactEmails :: "string list"
  c_source :: "string option"
  c_deletedAt :: "Date option"

datatype CustomerVersionStateValue =
  PENDING_NOTIFICATION | NOTIFIED | ACCEPTED | OBJECTED | EXPIRED_BLOCKING | SUPERSEDED

record CustomerVersionState =
  cvs_id :: string
  cvs_customerId :: string
  cvs_versionId :: string
  cvs_state :: CustomerVersionStateValue
  cvs_notifiedAt :: "Date option"
  cvs_deadlineAt :: "Date option"
  cvs_remindersSent :: int
  cvs_carryOverBlocking :: "bool option"
  cvs_notificationDueAt :: "Date option"

text \<open>The literal \<open>{ id, customerId, versionId, state: 'PENDING_NOTIFICATION', remindersSent: 0 }\<close>.\<close>

definition newState :: "string \<Rightarrow> string \<Rightarrow> string \<Rightarrow> CustomerVersionState" where
  "newState sid customerId versionId =
    \<lparr>cvs_id = sid, cvs_customerId = customerId, cvs_versionId = versionId,
     cvs_state = PENDING_NOTIFICATION, cvs_notifiedAt = None, cvs_deadlineAt = None,
     cvs_remindersSent = 0, cvs_carryOverBlocking = None, cvs_notificationDueAt = None\<rparr>"

section \<open>Evidence\<close>

datatype AcceptanceMethod = ACTIVE_CONSENT | TACIT | IMPORT

datatype AcceptanceChannel = ChPORTAL | ChADMIN | ChSYSTEM | ChLINK

record Acceptance =
  a_id :: string
  a_customerId :: string
  a_versionId :: string
  a_method :: AcceptanceMethod
  a_channel :: AcceptanceChannel
  a_acceptedAt :: Date
  a_actor :: Actor
  a_isEffective :: bool
  a_supersededByAcceptanceId :: "string option"
  a_consentText :: "string option"
  a_consentTextHash :: "string option"
  a_contentHash :: "string option"
  a_ipAddress :: "string option"
  a_userAgent :: "string option"
  a_evidenceNote :: "string option"

datatype ObjectionResolution = WITHDRAWN | RESOLVED_ACCEPTED | RESOLVED_TERMINATED

record Objection =
  o_id :: string
  o_customerId :: string
  o_versionId :: string
  o_objectedAt :: Date
  o_actor :: Actor
  o_reason :: "string option"
  o_channel :: AcceptanceChannel
  o_resolution :: "ObjectionResolution option"
  o_resolvedBy :: "string option"
  o_resolvedAt :: "Date option"

datatype NotificationChannel = NEMAIL | NPORTAL | NLINK

datatype AcceptanceLinkKind = STANDARD | PERMANENT

record AcceptanceLink =
  al_id :: string
  al_tokenHash :: string
  al_customerId :: string
  al_kind :: AcceptanceLinkKind
  al_audienceKey :: "string option"
  al_createdBy :: string
  al_createdAt :: Date
  al_expiresAt :: "Date option"
  al_revokedAt :: "Date option"
  al_lastUsedAt :: "Date option"

record NotificationEvent =
  ne_id :: string
  ne_customerVersionStateId :: string
  ne_channel :: NotificationChannel
  ne_recipient :: string
  ne_occurredAt :: Date
  ne_providerRef :: "string option"

section \<open>The activity log\<close>

datatype EventCategory = COMMUNICATION | ACCESS | CONSENT | ADMINISTRATION

datatype EventActorKind = AkADMIN | AkCUSTOMER | AkSYSTEM

datatype EventType =
    EMAIL_SENT | EMAIL_DELIVERED | EMAIL_BOUNCED | PAGE_ACCESSED | VERSION_ACCEPTED
  | OBJECTION_RAISED | OBJECTION_REOPENED | VERSION_PUBLISHED | VERSION_ACTIVATED | VERSION_RETIRED
  | DEADLINE_EXTENDED | DEADLINE_EXPIRED | BLOCK_SUSPENDED | BLOCK_CARRIED_OVER
  | OBLIGATION_ROLLED_OUT | REMINDER_TRIGGERED | MANUAL_ACCEPTANCE | ACCEPTANCE_LINK_CREATED
  | CUSTOMER_CREATED | CUSTOMER_UPDATED | CUSTOMER_DELETED | DOCUMENT_CREATED
  | VERSION_DRAFT_CREATED | VERSION_UPDATED | VERSION_DRAFT_DELETED | SIGNED_DOCUMENT_UPLOADED
  | DOCUMENT_TYPE_CREATED | DOCUMENT_TYPE_UPDATED | DOCUMENT_TYPE_DELETED | AUDIENCE_CREATED
  | AUDIENCE_UPDATED | AUDIENCE_DELETED | EMAIL_TEMPLATE_CREATED | EMAIL_TEMPLATE_UPDATED
  | EMAIL_TEMPLATE_DELETED

text \<open>The values a \<open>metadata\<close> record holds in the program, and JSON values in general: \<open>MReal\<close> is the
  literal of a number that is not written as an integer.\<close>

datatype meta =
  MStr string | MInt int | MReal string | MBool bool | MNull | MList "meta list" | MObj "(string \<times> meta) list"

record DomainEvent =
  ev_id :: string
  ev_type :: EventType
  ev_category :: EventCategory
  ev_occurredAt :: Date
  ev_actorKind :: EventActorKind
  ev_actorLabel :: string
  ev_customerId :: "string option"
  ev_customerName :: "string option"
  ev_versionId :: "string option"
  ev_documentType :: "string option"
  ev_audience :: "string option"
  ev_versionLabel :: "string option"
  ev_channel :: "string option"
  ev_recipient :: "string option"
  ev_summary :: string
  ev_metadata :: "(string \<times> meta) list option"

definition EVENTS_PAGE_SIZE :: int where
  "EVENTS_PAGE_SIZE = 50"

section \<open>The literals of the unions as strings\<close>

fun methodName :: "AcceptanceMethod \<Rightarrow> string" where
  "methodName ACTIVE_CONSENT = ''ACTIVE_CONSENT''"
| "methodName TACIT = ''TACIT''"
| "methodName IMPORT = ''IMPORT''"

fun channelName :: "AcceptanceChannel \<Rightarrow> string" where
  "channelName ChPORTAL = ''PORTAL''"
| "channelName ChADMIN = ''ADMIN''"
| "channelName ChSYSTEM = ''SYSTEM''"
| "channelName ChLINK = ''LINK''"

fun notificationChannelName :: "NotificationChannel \<Rightarrow> string" where
  "notificationChannelName NEMAIL = ''EMAIL''"
| "notificationChannelName NPORTAL = ''PORTAL''"
| "notificationChannelName NLINK = ''LINK''"

fun modeName :: "AcceptanceMode \<Rightarrow> string" where
  "modeName ACTIVE = ''ACTIVE''"
| "modeName PASSIVE = ''PASSIVE''"

fun stateName :: "CustomerVersionStateValue \<Rightarrow> string" where
  "stateName PENDING_NOTIFICATION = ''PENDING_NOTIFICATION''"
| "stateName NOTIFIED = ''NOTIFIED''"
| "stateName ACCEPTED = ''ACCEPTED''"
| "stateName OBJECTED = ''OBJECTED''"
| "stateName EXPIRED_BLOCKING = ''EXPIRED_BLOCKING''"
| "stateName SUPERSEDED = ''SUPERSEDED''"

end
