(* ===== verification/State_Machine.thy ===== *)
theory State_Machine
  imports Domain_Types
begin

text \<open>
  The pure transition functions of \<open>src/src/domain/state-machine.ts\<close>, the time source being the
  argument \<open>now\<close> (\<open>clock.now()\<close>; the clock gives one reading per operation).  The lemmas: which
  states a transition leaves and enters, that \<open>SUPERSEDED\<close> and \<open>ACCEPTED\<close> are not left, what the
  deadline is, that the objection window and the sweep share the deadline without overlap.
\<close>

section \<open>Deadlines\<close>

definition MS_PER_DAY :: int where
  "MS_PER_DAY = 24 * 60 * 60 * 1000"

definition addDays :: "Date \<Rightarrow> int \<Rightarrow> Date" where
  "addDays base days = base + days * MS_PER_DAY"

definition objectionPeriodDaysFor :: "AgreementVersion \<Rightarrow> int result" where
  "objectionPeriodDaysFor version =
    (case v_objectionPeriodDays version of None \<Rightarrow> domainError INVALID_STATE | Some d \<Rightarrow> Inr d)"

definition laterOf :: "Date \<Rightarrow> Date \<Rightarrow> Date" where
  "laterOf a b = (if a \<ge> b then a else b)"

definition rolloutDeadlineFor :: "AgreementVersion \<Rightarrow> Date option" where
  "rolloutDeadlineFor version =
    (if v_acceptanceMode version = ACTIVE then v_hardDeadlineAt version else None)"

section \<open>Transitions\<close>

definition recordAccess ::
  "CustomerVersionState \<Rightarrow> Date \<Rightarrow> AgreementVersion \<Rightarrow> bool \<Rightarrow> CustomerVersionState result" where
  "recordAccess state now version predecessorWasBlocking =
    (if cvs_state state \<noteq> PENDING_NOTIFICATION \<or> cvs_notifiedAt state \<noteq> None then Inr state
     else if v_acceptanceMode version = ACTIVE
       then Inr (state\<lparr>cvs_state := NOTIFIED, cvs_notifiedAt := Some now\<rparr>)
     else bindR (if predecessorWasBlocking then Inr now
                 else bindR (objectionPeriodDaysFor version) (\<lambda>d. Inr (addDays now d)))
       (\<lambda>base. Inr (state\<lparr>cvs_state := NOTIFIED, cvs_notifiedAt := Some now,
                          cvs_deadlineAt := Some (laterOf base (v_validFrom version))\<rparr>)))"

definition ACCEPTABLE_FROM :: "CustomerVersionStateValue list" where
  "ACCEPTABLE_FROM = [PENDING_NOTIFICATION, NOTIFIED, EXPIRED_BLOCKING, OBJECTED]"

definition accept :: "CustomerVersionState \<Rightarrow> AcceptanceMethod \<Rightarrow> CustomerVersionState result" where
  "accept state meth =
    (if meth = TACIT then domainError INVALID_STATE
     else if cvs_state state = ACCEPTED then domainError ALREADY_ACCEPTED
     else if cvs_state state \<notin> set ACCEPTABLE_FROM then domainError INVALID_STATE
     else Inr (state\<lparr>cvs_state := ACCEPTED\<rparr>))"

definition objectState ::
  "CustomerVersionState \<Rightarrow> AgreementVersion \<Rightarrow> Date \<Rightarrow> CustomerVersionState result" where
  "objectState state version now =
    (if v_acceptanceMode version \<noteq> PASSIVE then domainError OBJECTION_NOT_APPLICABLE
     else if cvs_state state \<noteq> NOTIFIED then domainError INVALID_STATE
     else (case cvs_deadlineAt state of
         None \<Rightarrow> domainError OBJECTION_PERIOD_EXPIRED
       | Some deadlineAt \<Rightarrow>
           if now \<ge> deadlineAt then domainError OBJECTION_PERIOD_EXPIRED
           else Inr (state\<lparr>cvs_state := OBJECTED\<rparr>)))"

datatype SweepOutcome = TACIT_ACCEPTED | SWEPT_BLOCKING | NOOP

record SweepResult =
  sr_state :: CustomerVersionState
  sr_outcome :: SweepOutcome

definition ACTIVE_SWEEPABLE_STATES :: "CustomerVersionStateValue list" where
  "ACTIVE_SWEEPABLE_STATES = [PENDING_NOTIFICATION, NOTIFIED]"

definition sweep :: "CustomerVersionState \<Rightarrow> AgreementVersion \<Rightarrow> Date \<Rightarrow> SweepResult" where
  "sweep state version now =
    (case cvs_deadlineAt state of
       None \<Rightarrow> \<lparr>sr_state = state, sr_outcome = NOOP\<rparr>
     | Some deadlineAt \<Rightarrow>
         if now < deadlineAt then \<lparr>sr_state = state, sr_outcome = NOOP\<rparr>
         else if v_acceptanceMode version = ACTIVE then
           (if cvs_state state \<in> set ACTIVE_SWEEPABLE_STATES
            then \<lparr>sr_state = state\<lparr>cvs_state := EXPIRED_BLOCKING\<rparr>, sr_outcome = SWEPT_BLOCKING\<rparr>
            else \<lparr>sr_state = state, sr_outcome = NOOP\<rparr>)
         else if cvs_state state \<noteq> NOTIFIED then \<lparr>sr_state = state, sr_outcome = NOOP\<rparr>
         else \<lparr>sr_state = state\<lparr>cvs_state := ACCEPTED\<rparr>, sr_outcome = TACIT_ACCEPTED\<rparr>)"

record SupersedeResult =
  su_state :: CustomerVersionState
  su_wasBlocking :: bool

definition supersede :: "CustomerVersionState \<Rightarrow> SupersedeResult result" where
  "supersede state =
    (if cvs_state state = SUPERSEDED then Inr \<lparr>su_state = state, su_wasBlocking = False\<rparr>
     else if cvs_state state = ACCEPTED then domainError INVALID_STATE
     else Inr \<lparr>su_state = state\<lparr>cvs_state := SUPERSEDED\<rparr>,
               su_wasBlocking = (cvs_state state = EXPIRED_BLOCKING)\<rparr>)"

definition CARRY_OVER_BLOCKING_STATES :: "CustomerVersionStateValue list" where
  "CARRY_OVER_BLOCKING_STATES = [PENDING_NOTIFICATION, NOTIFIED]"

definition isBlocking :: "CustomerVersionState \<Rightarrow> bool" where
  "isBlocking state \<longleftrightarrow>
    cvs_state state = EXPIRED_BLOCKING
    \<or> (cvs_carryOverBlocking state = Some True \<and> cvs_state state \<in> set CARRY_OVER_BLOCKING_STATES)"

section \<open>Which transitions there are\<close>

lemmas state_lists =
  ACCEPTABLE_FROM_def ACTIVE_SWEEPABLE_STATES_def CARRY_OVER_BLOCKING_STATES_def

lemma domainError_neq [simp]: "domainError c \<noteq> Inr x" "Inr x \<noteq> domainError c"
  by (simp_all add: domainError_def)

lemma domainError_eq [simp]:
  "domainError c = Inl e \<longleftrightarrow> e = DomainError c"
  "domainError c = (domainError c' :: 'a result) \<longleftrightarrow> c = c'"
  by (auto simp: domainError_def)

lemma accept_Inr:
  "accept s m = Inr s' \<longleftrightarrow> m \<noteq> TACIT \<and> cvs_state s \<noteq> ACCEPTED \<and> cvs_state s \<noteq> SUPERSEDED
     \<and> s' = s\<lparr>cvs_state := ACCEPTED\<rparr>"
  by (cases "cvs_state s") (auto simp: accept_def state_lists)

lemma accept_Inl:
  "accept s m = Inl e \<longleftrightarrow>
     m = TACIT \<and> e = DomainError INVALID_STATE
     \<or> m \<noteq> TACIT \<and> cvs_state s = ACCEPTED \<and> e = DomainError ALREADY_ACCEPTED
     \<or> m \<noteq> TACIT \<and> cvs_state s = SUPERSEDED \<and> e = DomainError INVALID_STATE"
  by (cases "cvs_state s") (auto simp: accept_def state_lists)

lemma objectState_Inr:
  "objectState s v now = Inr s' \<longleftrightarrow>
     v_acceptanceMode v = PASSIVE \<and> cvs_state s = NOTIFIED
     \<and> (\<exists>t. cvs_deadlineAt s = Some t \<and> now < t) \<and> s' = s\<lparr>cvs_state := OBJECTED\<rparr>"
  by (auto simp: objectState_def split: option.splits)

lemma supersede_Inr:
  "supersede s = Inr r \<longleftrightarrow> cvs_state s \<noteq> ACCEPTED
     \<and> su_state r = s\<lparr>cvs_state := SUPERSEDED\<rparr> \<and> su_wasBlocking r = (cvs_state s = EXPIRED_BLOCKING)"
  by (cases r) (auto simp: supersede_def)

lemma recordAccess_state:
  assumes "recordAccess s now v b = Inr s'"
  shows "s' = s \<or> cvs_state s = PENDING_NOTIFICATION \<and> cvs_notifiedAt s = None
           \<and> cvs_state s' = NOTIFIED \<and> cvs_notifiedAt s' = Some now"
  using assms by (auto simp: recordAccess_def bindR_eq_Inr split: if_splits)

lemma recordAccess_frame:
  assumes "recordAccess s now v b = Inr s'"
  shows "cvs_id s' = cvs_id s" "cvs_customerId s' = cvs_customerId s"
    "cvs_versionId s' = cvs_versionId s" "cvs_carryOverBlocking s' = cvs_carryOverBlocking s"
  using assms by (auto simp: recordAccess_def bindR_eq_Inr split: if_splits)

lemma recordAccess_rebuild:
  assumes "recordAccess s now v b = Inr s'"
  shows "s\<lparr>cvs_state := cvs_state s', cvs_notifiedAt := cvs_notifiedAt s', cvs_deadlineAt := cvs_deadlineAt s'\<rparr> = s'"
  using assms by (auto simp: recordAccess_def bindR_eq_Inr split: if_splits)

lemma recordAccess_first:
  assumes "recordAccess s now v b = Inr s'" "cvs_state s = PENDING_NOTIFICATION" "cvs_notifiedAt s = None"
  shows "cvs_state s' = NOTIFIED" "cvs_notifiedAt s' = Some now"
  using assms by (auto simp: recordAccess_def bindR_eq_Inr split: if_splits)

lemma recordAccess_later:
  assumes "recordAccess s now v b = Inr s'" "\<not> (cvs_state s = PENDING_NOTIFICATION \<and> cvs_notifiedAt s = None)"
  shows "s' = s"
  using assms by (auto simp: recordAccess_def split: if_splits)

lemma sweep_disj:
  "sweep s v now = \<lparr>sr_state = s, sr_outcome = NOOP\<rparr>
   \<or> (\<exists>t. cvs_deadlineAt s = Some t \<and> t \<le> now) \<and> v_acceptanceMode v = ACTIVE
      \<and> cvs_state s \<in> {PENDING_NOTIFICATION, NOTIFIED}
      \<and> sweep s v now = \<lparr>sr_state = s\<lparr>cvs_state := EXPIRED_BLOCKING\<rparr>, sr_outcome = SWEPT_BLOCKING\<rparr>
   \<or> (\<exists>t. cvs_deadlineAt s = Some t \<and> t \<le> now) \<and> v_acceptanceMode v = PASSIVE \<and> cvs_state s = NOTIFIED
      \<and> sweep s v now = \<lparr>sr_state = s\<lparr>cvs_state := ACCEPTED\<rparr>, sr_outcome = TACIT_ACCEPTED\<rparr>"
  by (cases "v_acceptanceMode v") (auto simp: sweep_def state_lists split: option.splits)

lemma sweep_cases:
  obtains (noop) "sweep s v now = \<lparr>sr_state = s, sr_outcome = NOOP\<rparr>"
  | (blocking) t where "cvs_deadlineAt s = Some t" "t \<le> now" "v_acceptanceMode v = ACTIVE"
      "cvs_state s \<in> {PENDING_NOTIFICATION, NOTIFIED}"
      "sweep s v now = \<lparr>sr_state = s\<lparr>cvs_state := EXPIRED_BLOCKING\<rparr>, sr_outcome = SWEPT_BLOCKING\<rparr>"
  | (tacit) t where "cvs_deadlineAt s = Some t" "t \<le> now" "v_acceptanceMode v = PASSIVE"
      "cvs_state s = NOTIFIED"
      "sweep s v now = \<lparr>sr_state = s\<lparr>cvs_state := ACCEPTED\<rparr>, sr_outcome = TACIT_ACCEPTED\<rparr>"
  using sweep_disj[of s v now] by blast

section \<open>The one-step relation of a rollout state\<close>

text \<open>
  One step of the state machine, through any of its five transition functions, at some time and for
  some version.
\<close>

inductive cvs_step :: "AgreementVersion \<Rightarrow> CustomerVersionState \<Rightarrow> CustomerVersionState \<Rightarrow> bool"
  for version where
  access: "recordAccess s now version b = Inr s' \<Longrightarrow> cvs_step version s s'"
| accepted: "accept s m = Inr s' \<Longrightarrow> cvs_step version s s'"
| objected: "objectState s version now = Inr s' \<Longrightarrow> cvs_step version s s'"
| swept: "sweep s version now = r \<Longrightarrow> cvs_step version s (sr_state r)"
| superseded: "supersede s = Inr r \<Longrightarrow> cvs_step version s (su_state r)"

inductive_cases cvs_stepE: "cvs_step version s s'"

lemma cvs_step_terminal:
  "cvs_step v s s' \<Longrightarrow> cvs_state s \<in> {ACCEPTED, SUPERSEDED} \<Longrightarrow> s' = s"
  by (erule cvs_stepE; rule sweep_cases[of s v])
     (auto simp: recordAccess_def accept_Inr objectState_Inr supersede_Inr sweep_def supersede_def
           state_lists split: option.splits if_splits)

lemma cvs_step_frame:
  "cvs_step v s s' \<Longrightarrow> cvs_id s' = cvs_id s \<and> cvs_customerId s' = cvs_customerId s
     \<and> cvs_versionId s' = cvs_versionId s"
proof (induction rule: cvs_step.induct)
  case (swept s now r)
  then show ?case by (cases rule: sweep_cases[of s v now]) auto
qed (auto simp: recordAccess_frame accept_Inr objectState_Inr supersede_Inr)

lemma cvs_step_notifiedAt:
  "cvs_step v s s' \<Longrightarrow> cvs_notifiedAt s = Some t \<Longrightarrow> cvs_notifiedAt s' = Some t"
proof (induction rule: cvs_step.induct)
  case (swept s now r)
  then show ?case by (cases rule: sweep_cases[of s v now]) auto
next
  case (access s now b s')
  then show ?case by (auto simp: recordAccess_def)
qed (auto simp: accept_Inr objectState_Inr supersede_Inr)

abbreviation cvs_steps :: "AgreementVersion \<Rightarrow> CustomerVersionState \<Rightarrow> CustomerVersionState \<Rightarrow> bool" where
  "cvs_steps v \<equiv> (cvs_step v)\<^sup>*\<^sup>*"

text \<open>Which fields a state has, and which states a mode has.\<close>

definition cvs_shape :: "AgreementVersion \<Rightarrow> CustomerVersionState \<Rightarrow> bool" where
  "cvs_shape v s \<longleftrightarrow>
     (cvs_state s = PENDING_NOTIFICATION \<longrightarrow> cvs_notifiedAt s = None)
     \<and> (cvs_state s \<in> {NOTIFIED, OBJECTED} \<longrightarrow> cvs_notifiedAt s \<noteq> None)
     \<and> (if v_acceptanceMode v = ACTIVE
        then cvs_deadlineAt s = v_hardDeadlineAt v \<and> cvs_state s \<noteq> OBJECTED
          \<and> (cvs_state s = EXPIRED_BLOCKING \<longrightarrow> cvs_deadlineAt s \<noteq> None)
        else cvs_state s \<noteq> EXPIRED_BLOCKING
          \<and> (cvs_deadlineAt s \<noteq> None \<longleftrightarrow> cvs_notifiedAt s \<noteq> None)
          \<and> (\<forall>t. cvs_deadlineAt s = Some t \<longrightarrow> v_validFrom v \<le> t))"

lemma cvs_step_shape:
  assumes "cvs_step v s s'" "cvs_shape v s"
  shows "cvs_shape v s'"
  using assms
proof (induction rule: cvs_step.induct)
  case (swept s now r)
  show ?case
  proof (cases rule: sweep_cases[of s v now])
    case noop
    with swept show ?thesis by auto
  next
    case (blocking t)
    with swept(2) have "cvs_deadlineAt s = v_hardDeadlineAt v" by (simp add: cvs_shape_def)
    with blocking(1) have "v_hardDeadlineAt v = Some t" by metis
    with blocking swept show ?thesis by (auto simp: cvs_shape_def)
  next
    case (tacit t)
    with swept show ?thesis by (auto simp: cvs_shape_def)
  qed
next
  case (access s now b s')
  then show ?case
    by (cases "v_acceptanceMode v") (auto simp: cvs_shape_def recordAccess_def bindR_eq_Inr laterOf_def split: if_splits)
next
  case (objected s now s')
  then show ?case by (auto simp: cvs_shape_def objectState_Inr)
qed (auto simp: cvs_shape_def accept_Inr supersede_Inr)

section \<open>Properties\<close>

text \<open>C29: Along any sequence of transitions of a rollout state the first provable access keeps its
  time, the key (customer, version) never changes, and once the state is ACCEPTED or SUPERSEDED the
  record is frozen.\<close>

theorem rollout_state_evidence_stable:
  assumes "cvs_steps v s s'"
  shows "cvs_customerId s' = cvs_customerId s \<and> cvs_versionId s' = cvs_versionId s
    \<and> (cvs_notifiedAt s \<noteq> None \<longrightarrow> cvs_notifiedAt s' = cvs_notifiedAt s)
    \<and> (cvs_state s \<in> {ACCEPTED, SUPERSEDED} \<longrightarrow> s' = s)"
  using assms
proof (induction rule: rtranclp_induct)
  case (step y z)
  then show ?case using cvs_step_frame cvs_step_notifiedAt cvs_step_terminal
    by (metis not_Some_eq)
qed simp

definition ver_ex :: AgreementVersion where
  "ver_ex = \<lparr>v_id = ''v'', v_documentId = ''d'', v_versionLabel = ''1'', v_status = PUBLISHED,
     v_acceptanceMode = PASSIVE, v_objectionPeriodDays = Some 14, v_objectionConsequence = None,
     v_gracePeriodDays = None, v_hardDeadlineAt = None, v_changeSummary = ''s'',
     v_consentText = None, v_storageKey = ''k'', v_fileName = ''f'', v_contentHash = ''h'',
     v_fileSize = 1, v_validFrom = 0, v_publishedAt = Some 0, v_publishedBy = None\<rparr>"

definition cvs_ex :: CustomerVersionState where
  "cvs_ex = newState ''cvs-1'' ''c'' ''v''"

lemma rollout_state_evidence_stable_witness:
  "\<exists>s' s''. recordAccess cvs_ex 100 ver_ex False = Inr s' \<and> accept s' ACTIVE_CONSENT = Inr s''
     \<and> cvs_notifiedAt s'' = Some 100 \<and> cvs_customerId s'' = ''c''"
proof -
  define s' where "s' = cvs_ex\<lparr>cvs_state := NOTIFIED, cvs_notifiedAt := Some 100,
    cvs_deadlineAt := Some (addDays 100 14)\<rparr>"
  define s'' where "s'' = s'\<lparr>cvs_state := ACCEPTED\<rparr>"
  have 1: "recordAccess cvs_ex 100 ver_ex False = Inr s'"
    by (simp add: recordAccess_def cvs_ex_def newState_def ver_ex_def objectionPeriodDaysFor_def
        s'_def laterOf_def addDays_def MS_PER_DAY_def)
  have 2: "accept s' ACTIVE_CONSENT = Inr s''"
    by (simp add: accept_Inr s''_def s'_def)
  from 2 have "cvs_steps ver_ex s' s''" by (auto intro: cvs_step.intros)
  from rollout_state_evidence_stable[OF this] 1 2 show ?thesis
    by (auto simp: s'_def cvs_ex_def newState_def)
qed

text \<open>C31: The deadline of a first access.  ACTIVE: access records the time and never moves the
  deadline stamped at rollout.  PASSIVE: the deadline is the access time plus the objection period
  (the access time alone under block carry-over), never before the version is in force.  Any later
  access leaves the state as it is.\<close>

theorem recordAccess_deadline:
  assumes "cvs_state s = PENDING_NOTIFICATION" "cvs_notifiedAt s = None"
    and "v_acceptanceMode v = PASSIVE \<Longrightarrow> \<not> carry \<Longrightarrow> v_objectionPeriodDays v = Some d"
  shows "\<exists>s'. recordAccess s now v carry = Inr s'
    \<and> cvs_state s' = NOTIFIED \<and> cvs_notifiedAt s' = Some now
    \<and> cvs_deadlineAt s' =
        (if v_acceptanceMode v = ACTIVE then cvs_deadlineAt s
         else Some (max (if carry then now else now + d * 86400000) (v_validFrom v)))
    \<and> (\<forall>later carry'. recordAccess s' later v carry' = Inr s')"
  using assms
  by (cases "v_acceptanceMode v"; cases carry)
     (auto simp: recordAccess_def objectionPeriodDaysFor_def addDays_def MS_PER_DAY_def laterOf_def max_def)

lemma recordAccess_deadline_witness:
  "\<exists>s'. recordAccess cvs_ex 100 ver_ex False = Inr s' \<and> cvs_deadlineAt s' = Some 1209600100"
  using recordAccess_deadline[of cvs_ex ver_ex False 14 100]
  by (auto simp: cvs_ex_def newState_def ver_ex_def)

text \<open>C32: For a customer with a running objection period of a PASSIVE version, at every moment
  exactly one of objecting and tacit acceptance by the sweeper is possible: the sweep accepts iff
  the objection is refused, and it is refused as expired iff the deadline is reached.\<close>

theorem objection_xor_sweep:
  assumes "v_acceptanceMode v = PASSIVE" "cvs_state s = NOTIFIED" "cvs_deadlineAt s = Some t"
  shows "(now < t \<longrightarrow> objectState s v now = Inr (s\<lparr>cvs_state := OBJECTED\<rparr>)
            \<and> sr_outcome (sweep s v now) = NOOP \<and> sr_state (sweep s v now) = s)
       \<and> (t \<le> now \<longrightarrow> objectState s v now = Inl (DomainError OBJECTION_PERIOD_EXPIRED)
            \<and> sr_outcome (sweep s v now) = TACIT_ACCEPTED
            \<and> cvs_state (sr_state (sweep s v now)) = ACCEPTED)"
  using assms by (auto simp: objectState_def sweep_def)

lemma objection_xor_sweep_witness:
  "sr_outcome (sweep (cvs_ex\<lparr>cvs_state := NOTIFIED, cvs_deadlineAt := Some 5\<rparr>) ver_ex 5) = TACIT_ACCEPTED"
  using objection_xor_sweep[of ver_ex "cvs_ex\<lparr>cvs_state := NOTIFIED, cvs_deadlineAt := Some 5\<rparr>" 5 5]
  by (simp add: ver_ex_def)

text \<open>A sweep that had an effect is final: sweeping its result again at any time does nothing.\<close>

theorem sweep_safe_and_idempotent:
  "sweep (sr_state (sweep s v now)) v later =
      \<lparr>sr_state = sr_state (sweep s v now), sr_outcome = NOOP\<rparr>
    \<or> sweep s v now = \<lparr>sr_state = s, sr_outcome = NOOP\<rparr>"
  by (cases rule: sweep_cases[of s v now]) (simp_all add: sweep_def state_lists split: option.splits)

text \<open>C30: The shape of a rollout state.  However often the five functions of \<open>state-machine.ts\<close> (access,
  acceptance, objection, sweep, supersession) are applied to a state as the rollout makes it (the patches of the
  administration, which set single fields, are not among them), the result was
  never accessed while it is PENDING_NOTIFICATION, and was when it is NOTIFIED; it has the deadline of
  the rollout if its version is ACTIVE, and otherwise one that is set at the first access and lies at
  or after the date of the version; only an ACTIVE version blocks by expiry, after a deadline, and only a
  PASSIVE one is objected to, after an access.\<close>

theorem cvs_steps_shape:
  assumes "cvs_steps v (s\<lparr>cvs_deadlineAt := rolloutDeadlineFor v\<rparr>) s'"
    and "cvs_state s = PENDING_NOTIFICATION" "cvs_notifiedAt s = None"
  shows "cvs_shape v s'"
  using assms(1)
proof (induction rule: rtranclp_induct)
  case base
  with assms(2,3) show ?case by (simp add: cvs_shape_def rolloutDeadlineFor_def)
next
  case (step y z)
  from step.hyps(2) step.IH show ?case by (rule cvs_step_shape)
qed

lemma cvs_steps_shape_witness:
  "\<exists>s'. recordAccess cvs_ex 100 ver_ex False = Inr s' \<and> cvs_state s' = NOTIFIED \<and> cvs_shape ver_ex s'"
proof -
  obtain s' where s': "recordAccess cvs_ex 100 ver_ex False = Inr s'" "cvs_state s' = NOTIFIED"
    by (simp add: recordAccess_def cvs_ex_def newState_def ver_ex_def objectionPeriodDaysFor_def)
  have same: "cvs_ex\<lparr>cvs_deadlineAt := rolloutDeadlineFor ver_ex\<rparr> = cvs_ex"
    by (simp add: rolloutDeadlineFor_def cvs_ex_def newState_def ver_ex_def)
  from s'(1) have "cvs_steps ver_ex (cvs_ex\<lparr>cvs_deadlineAt := rolloutDeadlineFor ver_ex\<rparr>) s'"
    unfolding same by (auto intro: cvs_step.access)
  from cvs_steps_shape[OF this] s' show ?thesis by (auto simp: cvs_ex_def newState_def)
qed

end
