(* ===== verification/Crypto.thy ===== *)
theory Crypto
  imports Base "HOL-Library.Word"
begin

text \<open>
  What the program uses of \<open>node:crypto\<close>: SHA-256 (\<open>createHash('sha256')\<close>), HMAC-SHA-256
  (\<open>createHmac\<close>) and the encodings \<open>hex\<close> and \<open>base64url\<close>.  A string is the list of the bytes of
  its UTF-8 form; words are kept at their 32 bits.
\<close>

unbundle bit_operations_syntax

type_synonym word32 = "32 word"
type_synonym byte = "8 word"

section \<open>SHA-256\<close>

text \<open>The constants are the first 32 bits of the fractional parts of roots of the first primes: the
  square roots for the initial state, the cube roots for the rounds.  \<open>rootBits e x b 0\<close> is the largest
  number of \<open>b\<close> bits whose power \<open>e\<close> is at most \<open>x\<close>.\<close>

fun rootBits :: "nat \<Rightarrow> int \<Rightarrow> nat \<Rightarrow> int \<Rightarrow> int" where
  "rootBits e x 0 r = r"
| "rootBits e x (Suc b) r = rootBits e x b (if (r + 2 ^ b) ^ e \<le> x then r + 2 ^ b else r)"

definition primesUpTo :: "int \<Rightarrow> int list" where
  "primesUpTo n = filter (\<lambda>p. list_all (\<lambda>d. p mod d \<noteq> 0) [2..p - 1]) [2..n]"

definition sha_k :: "word32 list" where
  "sha_k = map (\<lambda>p. of_int (rootBits 3 (p * 2 ^ 96) 36 0)) (primesUpTo 311)"

definition sha_init :: "word32 list" where
  "sha_init = map (\<lambda>p. of_int (rootBits 2 (p * 2 ^ 64) 37 0)) (primesUpTo 19)"

definition toBytes :: "string \<Rightarrow> byte list" where
  "toBytes s = map of_char s"

text \<open>The eight bytes of the length in bits, the most significant first.\<close>

definition lengthBytes :: "nat \<Rightarrow> byte list" where
  "lengthBytes n = map (\<lambda>i. of_nat (n div 256 ^ i)) (rev [0..<8])"

definition shaPad :: "byte list \<Rightarrow> byte list" where
  "shaPad bs = bs @ [0x80] @ replicate ((119 - length bs mod 64) mod 64) 0 @ lengthBytes (8 * length bs)"

fun wordsOf :: "byte list \<Rightarrow> word32 list" where
  "wordsOf (a # b # c # d # bs) =
     (push_bit 24 (ucast a) OR push_bit 16 (ucast b) OR push_bit 8 (ucast c) OR ucast d) # wordsOf bs"
| "wordsOf _ = []"

definition rotr :: "nat \<Rightarrow> word32 \<Rightarrow> word32" where
  "rotr n x = drop_bit n x OR push_bit (32 - n) x"

definition smallSigma0 :: "word32 \<Rightarrow> word32" where
  "smallSigma0 x = rotr 7 x XOR rotr 18 x XOR drop_bit 3 x"

definition smallSigma1 :: "word32 \<Rightarrow> word32" where
  "smallSigma1 x = rotr 17 x XOR rotr 19 x XOR drop_bit 10 x"

definition bigSigma0 :: "word32 \<Rightarrow> word32" where
  "bigSigma0 x = rotr 2 x XOR rotr 13 x XOR rotr 22 x"

definition bigSigma1 :: "word32 \<Rightarrow> word32" where
  "bigSigma1 x = rotr 6 x XOR rotr 11 x XOR rotr 25 x"

text \<open>The message schedule, kept with its last word first.\<close>

primrec scheduleRev :: "nat \<Rightarrow> word32 list \<Rightarrow> word32 list" where
  "scheduleRev 0 ws = ws"
| "scheduleRev (Suc n) ws =
     scheduleRev n ((smallSigma1 (ws ! 1) + ws ! 6 + smallSigma0 (ws ! 14) + ws ! 15) # ws)"

definition schedule :: "word32 list \<Rightarrow> word32 list" where
  "schedule block = rev (scheduleRev 48 (rev block))"

fun shaRound :: "word32 \<times> word32 \<Rightarrow> word32 list \<Rightarrow> word32 list" where
  "shaRound (k, w) [a, b, c, d, e, f, g, h] =
    (let t1 = h + bigSigma1 e + ((e AND f) XOR ((NOT e) AND g)) + k + w;
         t2 = bigSigma0 a + ((a AND b) XOR (a AND c) XOR (b AND c))
     in [t1 + t2, a, b, c, d + t1, e, f, g])"
| "shaRound _ hs = hs"

definition shaBlock :: "word32 list \<Rightarrow> word32 list \<Rightarrow> word32 list" where
  "shaBlock hs block = map2 (+) hs (fold shaRound (zip sha_k (schedule block)) hs)"

fun chunks :: "nat \<Rightarrow> nat \<Rightarrow> 'a list \<Rightarrow> 'a list list" where
  "chunks 0 n xs = []"
| "chunks (Suc k) n xs = take n xs # chunks k n (drop n xs)"

definition bytesOfWord :: "word32 \<Rightarrow> byte list" where
  "bytesOfWord w = [ucast (drop_bit 24 w), ucast (drop_bit 16 w), ucast (drop_bit 8 w), ucast w]"

definition sha256 :: "byte list \<Rightarrow> byte list" where
  "sha256 bs = (let ws = wordsOf (shaPad bs)
     in concat (map bytesOfWord (foldl shaBlock sha_init (chunks (length ws div 16) 16 ws))))"

section \<open>HMAC\<close>

definition hmacSha256 :: "byte list \<Rightarrow> byte list \<Rightarrow> byte list" where
  "hmacSha256 key msg =
    (let k = (if length key > 64 then sha256 key else key);
         k' = k @ replicate (64 - length k) 0
     in sha256 (map (\<lambda>b. b XOR 0x5C) k' @ sha256 (map (\<lambda>b. b XOR 0x36) k' @ msg)))"

section \<open>Encodings\<close>

definition hexDigit :: "nat \<Rightarrow> char" where
  "hexDigit n = ''0123456789abcdef'' ! n"

definition toHex :: "byte list \<Rightarrow> string" where
  "toHex bs = concat (map (\<lambda>b. [hexDigit (unat b div 16), hexDigit (unat b mod 16)]) bs)"

definition base64Digit :: "nat \<Rightarrow> char" where
  "base64Digit n = ''ABCDEFGHIJKLMNOPQRSTUVWXYZabcdefghijklmnopqrstuvwxyz0123456789-_'' ! n"

fun toBase64Url :: "byte list \<Rightarrow> string" where
  "toBase64Url (a # b # c # bs) =
    (let n = unat a * 65536 + unat b * 256 + unat c
     in base64Digit (n div 262144) # base64Digit (n div 4096 mod 64)
        # base64Digit (n div 64 mod 64) # base64Digit (n mod 64) # toBase64Url bs)"
| "toBase64Url [a, b] =
    (let n = unat a * 1024 + unat b * 4
     in [base64Digit (n div 4096), base64Digit (n div 64 mod 64), base64Digit (n mod 64)])"
| "toBase64Url [a] = (let n = unat a * 16 in [base64Digit (n div 64), base64Digit (n mod 64)])"
| "toBase64Url [] = []"

end
