(* ===== verification/Consent_Rules.thy ===== *)
theory Consent_Rules
  imports State_Machine Crypto
begin

text \<open>
  The pure rules of the domain: \<open>domain/consent-rules.ts\<close> (who may consent to what, the evidence
  chain, the publish validation), \<open>domain/keys.ts\<close>, \<open>domain/customer.ts\<close>, \<open>domain/compliance.ts\<close>
  (the tool gate) and \<open>domain/acceptance-links.ts\<close>.
\<close>

section \<open>Consent rules\<close>

fun ALLOWED_CHANNELS :: "AcceptanceMethod \<Rightarrow> AcceptanceChannel list" where
  "ALLOWED_CHANNELS ACTIVE_CONSENT = [ChPORTAL, ChADMIN, ChLINK]"
| "ALLOWED_CHANNELS IMPORT = [ChADMIN]"
| "ALLOWED_CHANNELS TACIT = [ChSYSTEM]"

definition assertMethodChannelAllowed :: "AcceptanceMethod \<Rightarrow> AcceptanceChannel \<Rightarrow> unit result" where
  "assertMethodChannelAllowed meth channel =
    (if channel \<notin> set (ALLOWED_CHANNELS meth) then domainError INVALID_STATE else Inr ())"

definition sha256Hex :: "string \<Rightarrow> string" where
  "sha256Hex input = toHex (sha256 (toBytes input))"

definition consentTextHashFor :: "AgreementVersion \<Rightarrow> string result" where
  "consentTextHashFor version =
    (case v_consentText version of
       None \<Rightarrow> domainError CONSENT_TEXT_REQUIRED
     | Some t \<Rightarrow> Inr (''sha256:'' @ sha256Hex t))"

definition assertDisplayedConsentTextMatches :: "AgreementVersion \<Rightarrow> string \<Rightarrow> unit result" where
  "assertDisplayedConsentTextMatches version displayedConsentText =
    (case v_consentText version of
       None \<Rightarrow> domainError CONSENT_TEXT_REQUIRED
     | Some t \<Rightarrow> if displayedConsentText \<noteq> t then domainError CONSENT_TEXT_MISMATCH else Inr ())"

definition assertVersionCurrent ::
  "AgreementVersion \<Rightarrow> AgreementVersion option \<Rightarrow> Date \<Rightarrow> unit result" where
  "assertVersionCurrent version currentVersion now =
    (if (case currentVersion of None \<Rightarrow> False | Some c \<Rightarrow> v_id version = v_id c) then Inr ()
     else if v_status version = PUBLISHED \<and> v_validFrom version > now then Inr ()
     else domainError VERSION_NOT_CURRENT)"

definition assertCustomerHasRole :: "Customer \<Rightarrow> string \<Rightarrow> unit result" where
  "assertCustomerHasRole customer audienceKey =
    (if audienceKey \<notin> set (c_roles customer) then domainError ROLE_MISMATCH else Inr ())"

definition assertDraftMutable :: "AgreementVersion \<Rightarrow> unit result" where
  "assertDraftMutable version =
    (if v_status version \<noteq> DRAFT then domainError VERSION_IMMUTABLE else Inr ())"

definition isBlank :: "string option \<Rightarrow> bool" where
  "isBlank value \<longleftrightarrow> (case value of None \<Rightarrow> True | Some s \<Rightarrow> trim s = [])"

definition validateForPublish :: "AgreementVersion \<Rightarrow> unit result" where
  "validateForPublish version =
    bindR (assertDraftMutable version) (\<lambda>_.
    if isBlank (Some (v_changeSummary version)) then domainError CHANGE_SUMMARY_REQUIRED
    else if v_acceptanceMode version = ACTIVE then
      (if isBlank (v_consentText version) then domainError CONSENT_TEXT_REQUIRED
       else (case v_hardDeadlineAt version of
           None \<Rightarrow> domainError INVALID_STATE
         | Some t \<Rightarrow> if t < v_validFrom version then domainError INVALID_STATE else Inr ()))
    else if v_objectionPeriodDays version = None then domainError INVALID_STATE
    else if v_hardDeadlineAt version \<noteq> None then domainError INVALID_STATE
    else Inr ())"

section \<open>Entity keys\<close>

definition isSlugChar :: "char \<Rightarrow> bool" where
  "isSlugChar c \<longleftrightarrow> c \<in> set ''abcdefghijklmnopqrstuvwxyz0123456789-''"

text \<open>\<open>ENTITY_KEY_PATTERN = /^[a-z0-9-]{2,32}$/\<close>.\<close>

definition isValidEntityKey :: "string \<Rightarrow> bool" where
  "isValidEntityKey key \<longleftrightarrow> list_all isSlugChar key \<and> 2 \<le> length key \<and> length key \<le> 32"

definition assertValidEntityKey :: "string \<Rightarrow> unit result" where
  "assertValidEntityKey key = (if \<not> isValidEntityKey key then domainError INVALID_STATE else Inr ())"

definition detailKey :: "string \<Rightarrow> string \<Rightarrow> string" where
  "detailKey typeKey audienceKey = toUpperCase (typeKey @ ''_'' @ audienceKey)"

definition customerDisplayName :: "Customer \<Rightarrow> string" where
  "customerDisplayName customer =
    (let company = orElse (map_option trim (c_companyName customer)) []
     in if company \<noteq> [] then company
        else trim (c_firstName customer @ '' '' @ c_lastName customer))"

section \<open>Compliance\<close>

record CurrentVersionEntry =
  cve_document :: AgreementDocument
  cve_version :: AgreementVersion

record ComplianceDetail =
  cd_requiredVersionId :: string
  cd_requiredVersionLabel :: string
  cd_state :: "CustomerVersionStateValue option"
  cd_compliant :: bool
  cd_pendingMode :: "AcceptanceMode option"
  cd_deadlineAt :: "Date option"

record ComplianceResult =
  cr_customerId :: string
  cr_audience :: "string option"
  cr_roles :: "string list"
  cr_compliant :: bool
  cr_details :: "ComplianceDetail table"

definition OPEN_STATES :: "CustomerVersionStateValue list" where
  "OPEN_STATES = [NOTIFIED, EXPIRED_BLOCKING]"

text \<open>\<open>audience ? ... : ...\<close>: the empty string is falsy.\<close>

definition relevantAudiences :: "Customer \<Rightarrow> string option \<Rightarrow> string list" where
  "relevantAudiences customer audience =
    (case audience of
       None \<Rightarrow> c_roles customer
     | Some a \<Rightarrow> if a = [] then c_roles customer else filter (\<lambda>role. role = a) (c_roles customer))"

definition stateFor :: "CustomerVersionState list \<Rightarrow> string \<Rightarrow> string \<Rightarrow> CustomerVersionState option" where
  "stateFor states customerId versionId =
    find (\<lambda>s. cvs_customerId s = customerId \<and> cvs_versionId s = versionId) states"

definition complianceDetail ::
  "CustomerVersionState option \<Rightarrow> AgreementVersion \<Rightarrow> ComplianceDetail" where
  "complianceDetail state version =
    (let detailCompliant = (case state of None \<Rightarrow> True | Some s \<Rightarrow> \<not> isBlocking s);
         isOpen = (case state of None \<Rightarrow> False | Some s \<Rightarrow> cvs_state s \<in> set OPEN_STATES)
     in \<lparr>cd_requiredVersionId = v_id version, cd_requiredVersionLabel = v_versionLabel version,
         cd_state = map_option cvs_state state, cd_compliant = detailCompliant,
         cd_pendingMode = (if isOpen then Some (v_acceptanceMode version) else None),
         cd_deadlineAt = (if isOpen then Option.bind state cvs_deadlineAt else None)\<rparr>)"

fun complianceLoop ::
  "Customer \<Rightarrow> string list \<Rightarrow> CustomerVersionState list \<Rightarrow> CurrentVersionEntry list \<Rightarrow>
   bool \<times> ComplianceDetail table \<Rightarrow> bool \<times> ComplianceDetail table" where
  "complianceLoop customer audiences states [] acc = acc"
| "complianceLoop customer audiences states (entry # entries) (compliant, details) =
    (let document = cve_document entry; version = cve_version entry in
     if d_audience document \<notin> set audiences
     then complianceLoop customer audiences states entries (compliant, details)
     else (let detail = complianceDetail (stateFor states (c_id customer) (v_id version)) version
           in complianceLoop customer audiences states entries
               (compliant \<and> cd_compliant detail,
                AList.update (detailKey (d_type document) (d_audience document)) detail details)))"

definition computeCompliance ::
  "Customer \<Rightarrow> CurrentVersionEntry list \<Rightarrow> CustomerVersionState list \<Rightarrow> string option \<Rightarrow> ComplianceResult" where
  "computeCompliance customer currentVersions states audience =
    (if c_deletedAt customer \<noteq> None
     then \<lparr>cr_customerId = c_id customer, cr_audience = audience, cr_roles = c_roles customer,
           cr_compliant = True, cr_details = []\<rparr>
     else (let (compliant, details) =
             complianceLoop customer (relevantAudiences customer audience) states currentVersions (True, [])
           in \<lparr>cr_customerId = c_id customer, cr_audience = audience, cr_roles = c_roles customer,
               cr_compliant = compliant, cr_details = details\<rparr>))"

section \<open>Acceptance links\<close>

definition DEFAULT_LINK_EXPIRY_DAYS :: int where
  "DEFAULT_LINK_EXPIRY_DAYS = 30"

definition MAX_LINK_EXPIRY_DAYS :: int where
  "MAX_LINK_EXPIRY_DAYS = 365"

text \<open>The random bytes of \<open>randomBytes(32)\<close> are an argument.\<close>

definition newAcceptanceLinkToken :: "byte list \<Rightarrow> string" where
  "newAcceptanceLinkToken random = toBase64Url random"

definition permanentAcceptanceLinkToken :: "string \<Rightarrow> string \<Rightarrow> string" where
  "permanentAcceptanceLinkToken secret customerId =
    toBase64Url (hmacSha256 (toBytes secret) (toBytes (''acceptance-link:permanent:'' @ customerId)))"

definition acceptanceLinkTokenHash :: "string \<Rightarrow> string" where
  "acceptanceLinkTokenHash token = sha256Hex token"

definition isAcceptanceLinkUsable :: "AcceptanceLink \<Rightarrow> Date \<Rightarrow> bool" where
  "isAcceptanceLinkUsable link now =
    (if al_revokedAt link \<noteq> None then False
     else if al_kind link = PERMANENT then True
     else (case al_expiresAt link of None \<Rightarrow> False | Some t \<Rightarrow> now < t))"

definition acceptanceLinkActorUserId :: "string \<Rightarrow> string" where
  "acceptanceLinkActorUserId linkId = ''link:'' @ linkId"

definition acceptanceLinkEvidenceNote :: "string \<Rightarrow> string" where
  "acceptanceLinkEvidenceNote linkId = ''identity self-declared via acceptance link '' @ linkId"

section \<open>Facts about the rules\<close>

lemma assertMethodChannelAllowed_Inr [simp]:
  "assertMethodChannelAllowed m c = Inr u \<longleftrightarrow> c \<in> set (ALLOWED_CHANNELS m)"
  by (simp add: assertMethodChannelAllowed_def)

lemma assertVersionCurrent_Inr:
  "assertVersionCurrent v cur now = Inr u \<longleftrightarrow>
     (\<exists>c. cur = Some c \<and> v_id c = v_id v) \<or> v_status v = PUBLISHED \<and> now < v_validFrom v"
  by (auto simp: assertVersionCurrent_def split: option.splits)

lemma assertCustomerHasRole_Inr [simp]:
  "assertCustomerHasRole c a = Inr u \<longleftrightarrow> a \<in> set (c_roles c)"
  by (simp add: assertCustomerHasRole_def)

lemma assertDraftMutable_Inr [simp]: "assertDraftMutable v = Inr u \<longleftrightarrow> v_status v = DRAFT"
  by (simp add: assertDraftMutable_def)

lemma assertDisplayedConsentTextMatches_Inr [simp]:
  "assertDisplayedConsentTextMatches v t = Inr u \<longleftrightarrow> v_consentText v = Some t"
  by (auto simp: assertDisplayedConsentTextMatches_def split: option.splits)

lemma consentTextHashFor_Inr:
  "consentTextHashFor v = Inr h \<longleftrightarrow> (\<exists>t. v_consentText v = Some t \<and> h = ''sha256:'' @ sha256Hex t)"
  by (auto simp: consentTextHashFor_def split: option.splits)

lemma validateForPublish_Inr:
  "validateForPublish v = Inr u \<longleftrightarrow>
     v_status v = DRAFT \<and> trim (v_changeSummary v) \<noteq> []
     \<and> (if v_acceptanceMode v = ACTIVE
        then (\<exists>t. v_consentText v = Some t \<and> trim t \<noteq> [])
          \<and> (\<exists>t. v_hardDeadlineAt v = Some t \<and> v_validFrom v \<le> t)
        else v_objectionPeriodDays v \<noteq> None \<and> v_hardDeadlineAt v = None)"
  by (auto simp: validateForPublish_def bindR_def isBlank_def assertDraftMutable_def domainError_def
      split: option.splits)

lemma rolloutDeadline_of_valid:
  "validateForPublish v = Inr u \<Longrightarrow> rolloutDeadlineFor v = v_hardDeadlineAt v"
  by (cases "v_acceptanceMode v") (auto simp: validateForPublish_Inr rolloutDeadlineFor_def)

subsection \<open>Detail keys\<close>

lemma isSlugChar_code:
  assumes "isSlugChar c"
  shows "let n = of_char c :: nat in 97 \<le> n \<and> n \<le> 122 \<or> 48 \<le> n \<and> n \<le> 57 \<or> n = 45"
proof -
  have "\<forall>c \<in> set ''abcdefghijklmnopqrstuvwxyz0123456789-''.
      let n = of_char c :: nat in 97 \<le> n \<and> n \<le> 122 \<or> 48 \<le> n \<and> n \<le> 57 \<or> n = 45"
    by (simp add: Let_def)
  with assms show ?thesis unfolding isSlugChar_def by blast
qed

lemma upperChar_inj: "isSlugChar c \<Longrightarrow> isSlugChar d \<Longrightarrow> upperChar c = upperChar d \<Longrightarrow> c = d"
  using isSlugChar_code[of c] isSlugChar_code[of d] of_char_upperChar[of c] of_char_upperChar[of d]
  by (intro char_eqI) (simp only: Let_def split: if_splits; presburger)

lemma upperChar_underscore: "isSlugChar c \<Longrightarrow> upperChar c \<noteq> CHR ''_''"
  using isSlugChar_code[of c] of_char_upperChar[of c] by (auto simp: Let_def split: if_splits)

lemma upperChar_underscore_eq: "upperChar CHR ''_'' = CHR ''_''"
  by (simp add: upperChar_def)

lemma toUpperCase_inj:
  "list_all isSlugChar s \<Longrightarrow> list_all isSlugChar t \<Longrightarrow> toUpperCase s = toUpperCase t \<Longrightarrow> s = t"
  unfolding toUpperCase_def
proof (induction s arbitrary: t)
  case (Cons c s)
  then show ?case by (cases t) (auto dest: upperChar_inj)
qed simp

lemma underscore_split:
  assumes "CHR ''_'' \<notin> set a" "CHR ''_'' \<notin> set b" "a @ CHR ''_'' # x = b @ CHR ''_'' # y"
  shows "a = b \<and> x = y"
  using assms by (induction a arbitrary: b) (auto simp: Cons_eq_append_conv split: list.splits)

lemma detailKey_toUpper:
  assumes "isValidEntityKey t" "isValidEntityKey a" "isValidEntityKey t'" "isValidEntityKey a'"
    and eq: "detailKey t a = detailKey t' a'"
  shows "toUpperCase t = toUpperCase t' \<and> toUpperCase a = toUpperCase a'"
proof -
  have no: "CHR ''_'' \<notin> set (toUpperCase k)" if "isValidEntityKey k" for k
    using that upperChar_underscore by (fastforce simp: isValidEntityKey_def toUpperCase_def list_all_iff)
  from eq have "toUpperCase t @ CHR ''_'' # toUpperCase a = toUpperCase t' @ CHR ''_'' # toUpperCase a'"
    by (simp add: detailKey_def toUpperCase_def upperChar_underscore_eq)
  from underscore_split[OF no no this] assms show ?thesis by auto
qed

text \<open>The key of a compliance detail identifies its document type and audience: two entries of a
  compliance result never overwrite each other, since entity keys are slugs.\<close>

theorem detailKey_injective:
  assumes "isValidEntityKey t" "isValidEntityKey a" "isValidEntityKey t'" "isValidEntityKey a'"
  shows "detailKey t a = detailKey t' a' \<longleftrightarrow> t = t' \<and> a = a'"
  using detailKey_toUpper[OF assms] assms by (auto simp: isValidEntityKey_def intro: toUpperCase_inj)

lemma detailKey_injective_witness: "detailKey ''dpa'' ''customer'' \<noteq> detailKey ''dpa-customer'' ''x1''"
  using detailKey_injective[of "''dpa''" "''customer''" "''dpa-customer''" "''x1''"]
  by (simp add: isValidEntityKey_def isSlugChar_def)

subsection \<open>Compliance\<close>

definition blockedFor :: "Customer \<Rightarrow> CustomerVersionState list \<Rightarrow> CurrentVersionEntry \<Rightarrow> bool" where
  "blockedFor customer states entry \<longleftrightarrow>
    (case stateFor states (c_id customer) (v_id (cve_version entry)) of
       None \<Rightarrow> False | Some s \<Rightarrow> isBlocking s)"

abbreviation relevantEntries ::
  "Customer \<Rightarrow> string option \<Rightarrow> CurrentVersionEntry list \<Rightarrow> CurrentVersionEntry list" where
  "relevantEntries customer audience entries \<equiv>
    filter (\<lambda>e. d_audience (cve_document e) \<in> set (relevantAudiences customer audience)) entries"

lemma set_relevantAudiences:
  "set (relevantAudiences c aud) =
     (case aud of None \<Rightarrow> set (c_roles c)
      | Some a \<Rightarrow> if a = [] then set (c_roles c) else set (c_roles c) \<inter> {a})"
  by (auto simp: relevantAudiences_def split: option.splits)

lemma cd_compliant_detail:
  "cd_compliant (complianceDetail (stateFor sts (c_id c) (v_id (cve_version e))) (cve_version e))
     \<longleftrightarrow> \<not> blockedFor c sts e"
  by (simp add: complianceDetail_def blockedFor_def Let_def split: option.splits)

lemma complianceLoop_compliant:
  "fst (complianceLoop c auds sts es acc) \<longleftrightarrow>
     fst acc \<and> (\<forall>e \<in> set es. d_audience (cve_document e) \<in> set auds \<longrightarrow> \<not> blockedFor c sts e)"
  by (induction c auds sts es acc rule: complianceLoop.induct)
     (auto simp: Let_def cd_compliant_detail)

abbreviation entryKey :: "CurrentVersionEntry \<Rightarrow> string" where
  "entryKey e \<equiv> detailKey (d_type (cve_document e)) (d_audience (cve_document e))"

lemma complianceLoop_keeps:
  "k \<notin> entryKey ` set es \<Longrightarrow> map_of (snd (complianceLoop c auds sts es acc)) k = map_of (snd acc) k"
  by (induction c auds sts es acc rule: complianceLoop.induct) (auto simp: Let_def table_simps)

lemma complianceLoop_detail:
  assumes "e \<in> set es" "d_audience (cve_document e) \<in> set auds" "distinct (map entryKey es)"
  shows "map_of (snd (complianceLoop c auds sts es acc)) (entryKey e)
    = Some (complianceDetail (stateFor sts (c_id c) (v_id (cve_version e))) (cve_version e))"
  using assms
proof (induction c auds sts es acc rule: complianceLoop.induct)
  case (2 c auds sts entry es compliant details)
  show ?case
  proof (cases "e = entry")
    case True
    with 2 show ?thesis by (simp add: Let_def complianceLoop_keeps table_simps)
  next
    case False
    with 2 show ?thesis by (simp add: Let_def)
  qed
qed simp

text \<open>C33: The tool gate.  A customer is compliant iff it is deleted, or no document of an audience it
  holds (restricted to the queried one) has a current version whose state of the customer blocks;
  a missing state never blocks.\<close>

theorem computeCompliance_correct:
  "cr_compliant (computeCompliance c entries sts audience) \<longleftrightarrow>
     c_deletedAt c \<noteq> None
     \<or> filter (blockedFor c sts) (relevantEntries c audience entries) = []"
  using complianceLoop_compliant[of c "relevantAudiences c audience" sts entries "(True, [])"]
  by (auto simp: computeCompliance_def filter_empty_conv split: prod.splits)

text \<open>Every relevant document of a live customer has its own entry in the details, with the
  required version, the customer's state, and mode and deadline exactly while it is pending.\<close>

theorem computeCompliance_details:
  assumes "c_deletedAt c = None"
    and "e \<in> set (relevantEntries c audience entries)"
    and "distinct (map (\<lambda>e. (d_type (cve_document e), d_audience (cve_document e))) entries)"
    and "\<forall>e \<in> set entries. isValidEntityKey (d_type (cve_document e))
                         \<and> isValidEntityKey (d_audience (cve_document e))"
  shows "\<exists>d. map_of (cr_details (computeCompliance c entries sts audience)) (entryKey e) = Some d
    \<and> cd_requiredVersionId d = v_id (cve_version e)
    \<and> cd_state d = map_option cvs_state (stateFor sts (c_id c) (v_id (cve_version e)))
    \<and> cd_compliant d = (\<not> blockedFor c sts e)
    \<and> cd_pendingMode d =
        (if cd_state d \<in> {Some NOTIFIED, Some EXPIRED_BLOCKING}
         then Some (v_acceptanceMode (cve_version e)) else None)"
proof -
  have "inj_on entryKey (set entries)"
  proof (rule inj_onI)
    fix x y assume in_set: "x \<in> set entries" "y \<in> set entries" and "entryKey x = entryKey y"
    with assms(4) have "toUpperCase (d_type (cve_document x)) = toUpperCase (d_type (cve_document y))
        \<and> toUpperCase (d_audience (cve_document x)) = toUpperCase (d_audience (cve_document y))"
      by (intro detailKey_toUpper) auto
    with assms(4) in_set have "d_type (cve_document x) = d_type (cve_document y)
        \<and> d_audience (cve_document x) = d_audience (cve_document y)"
      by (auto simp: isValidEntityKey_def intro: toUpperCase_inj)
    with assms(3) in_set show "x = y" by (auto simp: distinct_map dest: inj_onD)
  qed
  with assms(3) have "distinct (map entryKey entries)" by (simp add: distinct_map)
  from complianceLoop_detail[OF _ _ this, of e "relevantAudiences c audience" c sts "(True, [])"] assms(1,2)
  have "map_of (cr_details (computeCompliance c entries sts audience)) (entryKey e)
      = Some (complianceDetail (stateFor sts (c_id c) (v_id (cve_version e))) (cve_version e))"
    by (auto simp: computeCompliance_def split: prod.splits)
  then show ?thesis
    by (intro exI conjI, assumption)
       (auto simp: complianceDetail_def blockedFor_def Let_def OPEN_STATES_def split: option.splits)
qed

definition cust_ex :: Customer where
  "cust_ex = \<lparr>c_id = ''c'', c_externalRef = ''crm-1'', c_firstName = ''Ada'', c_lastName = ''L'',
     c_companyName = None, c_roles = [''customer''], c_contactEmails = [''a@x''], c_source = None,
     c_deletedAt = None\<rparr>"

definition doc_ex :: AgreementDocument where
  "doc_ex = \<lparr>d_id = ''d'', d_type = ''dpa'', d_audience = ''customer'', d_name = ''DPA''\<rparr>"

definition entry_ex :: CurrentVersionEntry where
  "entry_ex = \<lparr>cve_document = doc_ex, cve_version = ver_ex\<rparr>"

lemma computeCompliance_details_witness:
  "\<exists>d. map_of (cr_details (computeCompliance cust_ex [entry_ex] [cvs_ex\<lparr>cvs_state := EXPIRED_BLOCKING\<rparr>] None))
         (entryKey entry_ex) = Some d \<and> cd_pendingMode d = Some PASSIVE"
  using computeCompliance_details[of cust_ex entry_ex None "[entry_ex]" "[cvs_ex\<lparr>cvs_state := EXPIRED_BLOCKING\<rparr>]"]
  by (auto simp: cust_ex_def entry_ex_def doc_ex_def relevantAudiences_def isValidEntityKey_def
      isSlugChar_def stateFor_def ver_ex_def cvs_ex_def newState_def)

lemma computeCompliance_correct_witness:
  "\<not> cr_compliant (computeCompliance cust_ex [entry_ex] [cvs_ex\<lparr>cvs_state := EXPIRED_BLOCKING\<rparr>] None)"
  using computeCompliance_correct[of cust_ex "[entry_ex]" "[cvs_ex\<lparr>cvs_state := EXPIRED_BLOCKING\<rparr>]" None]
  by (simp add: cust_ex_def entry_ex_def doc_ex_def relevantAudiences_def
      blockedFor_def isBlocking_def stateFor_def ver_ex_def cvs_ex_def newState_def)

subsection \<open>Links\<close>

lemma usable_earlier: "isAcceptanceLinkUsable l now \<Longrightarrow> before \<le> now \<Longrightarrow> isAcceptanceLinkUsable l before"
  by (auto simp: isAcceptanceLinkUsable_def split: if_splits option.splits)

lemma revoked_unusable: "al_revokedAt l = Some t \<Longrightarrow> \<not> isAcceptanceLinkUsable l now"
  by (simp add: isAcceptanceLinkUsable_def)

subsection \<open>Publish validation and currentness\<close>

text \<open>The publish validation accepts exactly the drafts with a change summary whose deadline is
  determined: ACTIVE with a consent text and a hard deadline not before the version is in force,
  PASSIVE with an objection period and no hard deadline.  Every accepted version has a rollout
  deadline exactly when it is ACTIVE.\<close>

theorem validateForPublish_correct:
  "(validateForPublish v = Inr () \<longleftrightarrow>
     v_status v = DRAFT \<and> trim (v_changeSummary v) \<noteq> []
     \<and> (if v_acceptanceMode v = ACTIVE
        then (\<exists>t. v_consentText v = Some t \<and> trim t \<noteq> [])
          \<and> (\<exists>t. v_hardDeadlineAt v = Some t \<and> v_validFrom v \<le> t)
        else v_objectionPeriodDays v \<noteq> None \<and> v_hardDeadlineAt v = None))
   \<and> (validateForPublish v = Inr () \<longrightarrow>
        (v_acceptanceMode v = ACTIVE \<longleftrightarrow> rolloutDeadlineFor v \<noteq> None))"
  using validateForPublish_Inr[of v "()"] by (auto simp: rolloutDeadlineFor_def)

lemma validateForPublish_correct_witness:
  "validateForPublish (ver_ex\<lparr>v_status := DRAFT\<rparr>) = Inr ()
   \<and> rolloutDeadlineFor (ver_ex\<lparr>v_status := DRAFT\<rparr>) = None"
  using validateForPublish_correct[of "ver_ex\<lparr>v_status := DRAFT\<rparr>"]
  by (simp add: ver_ex_def trim_def isSpaceChar_def)

end
