(* ===== verification/World.thy ===== *)
theory World
  imports Consent_Rules
begin

text \<open>
  The state of a running server with \<open>REPOSITORY_DRIVER=inmemory\<close>: the repositories of
  \<open>src/src/persistence/inmemory\<close>, the admin audit log, the escalation log, the outbound e-mails, the
  idempotency store and the hits of the rate limiter, in one record.  A repository holds a JavaScript
  \<open>Map\<close>, here a table in insertion order; its methods are actions on the world.  The repositories copy
  the objects they take and give (\<open>deepCopy\<close>), so values and not references are stored.

  What the host gives is the record \<open>env\<close>: the sequence of random UUIDs and of random bytes, the
  collation key of \<open>localeCompare\<close>, the environment variables the code reads, and the parsing and
  printing of dates (\<open>new Date(s)\<close>, \<open>toISOString\<close>).
\<close>

section \<open>The world\<close>

datatype AdminAuditAction =
    PUBLISH | AUDIT_MANUAL_ACCEPTANCE | CUSTOMER_VERSION_STATE_PATCH | REMIND
  | AUDIENCE_CREATE | AUDIENCE_UPDATE | AUDIENCE_DELETE
  | DOCUMENT_TYPE_CREATE | DOCUMENT_TYPE_UPDATE | DOCUMENT_TYPE_DELETE
  | CUSTOMER_CREATE | CUSTOMER_UPDATE | ACCEPTANCE_LINK_CREATE
  | EMAIL_TEMPLATE_CREATE | EMAIL_TEMPLATE_UPDATE | EMAIL_TEMPLATE_DELETE
  | SIGNED_DOCUMENT_UPLOAD

record AdminAuditLog =
  aud_id :: string
  aud_action :: AdminAuditAction
  aud_actor :: string
  aud_targetType :: string
  aud_targetId :: string
  aud_reason :: "string option"
  aud_metadata :: "(string \<times> meta) list option"
  aud_createdAt :: Date

datatype EscalationKind = OBJECTION_AFTER_PERIOD | EMAIL_BOUNCE

record EscalationEntry =
  esc_id :: string
  esc_kind :: EscalationKind
  esc_customerId :: "string option"
  esc_versionId :: "string option"
  esc_occurredAt :: Date
  esc_actor :: "Actor option"
  esc_reason :: "string option"
  esc_note :: "string option"
  esc_recipient :: "string option"
  esc_inactivatedEmail :: "bool option"

record OutboundEmail =
  oe_providerRef :: string
  oe_customerId :: string
  oe_versionId :: string
  oe_recipient :: string
  oe_sentAt :: Date
  oe_deliveredAt :: "Date option"

text \<open>The values of the idempotency store: the marker of a reservation, or a stored response.\<close>

datatype IdempotencyValue =
    IDEMPOTENCY_PENDING
  | AcceptanceResponse string
  | ObjectionResponse string

record world =
  w_now :: Date
  w_uuid :: nat
  w_documentTypes :: "DocumentTypeDef table"
  w_audiences :: "Audience table"
  w_templates :: "EmailTemplate table"
  w_documents :: "AgreementDocument table"
  w_versions :: "AgreementVersion table"
  w_customers :: "Customer table"
  w_states :: "CustomerVersionState table"
  w_acceptances :: "Acceptance table"
  w_objections :: "Objection table"
  w_links :: "AcceptanceLink table"
  w_notifications :: "NotificationEvent table"
  w_signed :: "SignedDocument table"
  w_events :: "DomainEvent table"
  w_idempotency :: "IdempotencyValue table"
  w_audit :: "AdminAuditLog list"
  w_escalations :: "EscalationEntry list"
  w_outbound :: "OutboundEmail table"
  w_hits :: "(Date list) table"

record env =
  e_uuid :: "nat \<Rightarrow> string"
  e_randomBytes :: "nat \<Rightarrow> byte list"
  e_collate :: "string \<Rightarrow> string"
  e_sweeperEnabled :: bool
  e_publicBaseUrl :: "string option"
  e_linkSecret :: "string option"
  e_parseDate :: "string \<Rightarrow> Date option"
  e_toISOString :: "Date \<Rightarrow> string"

type_synonym 'a M = "(world, failure, 'a) act"

definition emptyWorld :: "Date \<Rightarrow> world" where
  "emptyWorld now = \<lparr>w_now = now, w_uuid = 0, w_documentTypes = [], w_audiences = [], w_templates = [],
     w_documents = [], w_versions = [], w_customers = [], w_states = [], w_acceptances = [],
     w_objections = [], w_links = [], w_notifications = [], w_signed = [], w_events = [],
     w_idempotency = [], w_audit = [], w_escalations = [], w_outbound = [], w_hits = []\<rparr>"

abbreviation throwD :: "DomainErrorCode \<Rightarrow> 'a M" where
  "throwD c \<equiv> throwM (DomainError c)"

abbreviation requireD :: "DomainErrorCode \<Rightarrow> 'a option \<Rightarrow> 'a M" where
  "requireD c x \<equiv> requireM (DomainError c) x"

section \<open>Clock and identifiers\<close>

definition clock_now :: "Date M" where
  "clock_now = getsM w_now"

definition randomUUID :: "env \<Rightarrow> string M" where
  "randomUUID E = (\<lambda>w. (Inr (e_uuid E (w_uuid w)), w\<lparr>w_uuid := Suc (w_uuid w)\<rparr>))"

definition newId :: "env \<Rightarrow> string \<Rightarrow> string M" where
  "newId E prefix = bindM (randomUUID E) (\<lambda>u. retM (prefix @ ''-'' @ u))"

definition ids_next :: "env \<Rightarrow> string \<Rightarrow> string M" where
  "ids_next E prefix = bindM (randomUUID E) (\<lambda>u. retM (prefix @ ''-'' @ u))"

lemma wp_clock [wp_simps]: "wp clock_now Q X w = Q (w_now w) w"
  by (simp add: clock_now_def wp_simps)

lemma wp_randomUUID [wp_simps]:
  "wp (randomUUID E) Q X w = Q (e_uuid E (w_uuid w)) (w\<lparr>w_uuid := Suc (w_uuid w)\<rparr>)"
  by (simp add: randomUUID_def wp_def)

lemma wp_newId [wp_simps]:
  "wp (newId E p) Q X w = Q (p @ ''-'' @ e_uuid E (w_uuid w)) (w\<lparr>w_uuid := Suc (w_uuid w)\<rparr>)"
  by (simp add: newId_def wp_simps)

lemma wp_ids_next [wp_simps]:
  "wp (ids_next E p) Q X w = Q (p @ ''-'' @ e_uuid E (w_uuid w)) (w\<lparr>w_uuid := Suc (w_uuid w)\<rparr>)"
  by (simp add: ids_next_def wp_simps)

section \<open>Documents\<close>

definition documents_save :: "AgreementDocument \<Rightarrow> AgreementDocument M" where
  "documents_save document =
    bindM (getsM w_documents) (\<lambda>t.
    if list_ex (\<lambda>d. d_id d \<noteq> d_id document \<and> d_type d = d_type document
                   \<and> d_audience d = d_audience document) (tvals t)
    then throwD INVALID_STATE
    else thenM (modifyM (\<lambda>w. w\<lparr>w_documents := AList.update (d_id document) document (w_documents w)\<rparr>))
      (retM document))"

definition documents_findById :: "string \<Rightarrow> AgreementDocument option M" where
  "documents_findById docId = getsM (\<lambda>w. map_of (w_documents w) docId)"

definition findByTypeAndAudience ::
  "AgreementDocument table \<Rightarrow> string \<Rightarrow> string \<Rightarrow> AgreementDocument option" where
  "findByTypeAndAudience t typeKey audienceKey =
    find (\<lambda>d. d_type d = typeKey \<and> d_audience d = audienceKey) (tvals t)"

definition documents_findByTypeAndAudience :: "string \<Rightarrow> string \<Rightarrow> AgreementDocument option M" where
  "documents_findByTypeAndAudience typeKey audienceKey =
    getsM (\<lambda>w. findByTypeAndAudience (w_documents w) typeKey audienceKey)"

definition documents_findAll :: "AgreementDocument list M" where
  "documents_findAll = getsM (\<lambda>w. tvals (w_documents w))"

section \<open>Versions\<close>

definition versions_save :: "AgreementVersion \<Rightarrow> AgreementVersion M" where
  "versions_save version =
    bindM (documents_findById (v_documentId version)) (\<lambda>document.
    case document of
      None \<Rightarrow> throwD INVALID_STATE
    | Some _ \<Rightarrow>
        thenM (modifyM (\<lambda>w. w\<lparr>w_versions := AList.update (v_id version) version (w_versions w)\<rparr>))
          (retM version))"

definition versions_findById :: "string \<Rightarrow> AgreementVersion option M" where
  "versions_findById versionId = getsM (\<lambda>w. map_of (w_versions w) versionId)"

definition versions_findByDocument :: "string \<Rightarrow> AgreementVersion list M" where
  "versions_findByDocument documentId =
    getsM (\<lambda>w. filter (\<lambda>v. v_documentId v = documentId) (tvals (w_versions w)))"

text \<open>\<open>sort\<close> with the comparison of \<open>validFrom\<close>, then of \<open>publishedAt\<close>, is stable: a \<open>sort_key\<close>.\<close>

definition findCurrentPublished :: "world \<Rightarrow> string \<Rightarrow> string \<Rightarrow> Date \<Rightarrow> AgreementVersion option" where
  "findCurrentPublished w typeKey audienceKey now =
    (case findByTypeAndAudience (w_documents w) typeKey audienceKey of
       None \<Rightarrow> None
     | Some document \<Rightarrow>
         (case sort_key (\<lambda>v. (- v_validFrom v, - orElse (v_publishedAt v) 0))
             (filter (\<lambda>v. v_documentId v = d_id document \<and> v_status v = PUBLISHED
                        \<and> v_validFrom v \<le> now) (tvals (w_versions w)))
          of [] \<Rightarrow> None | v # _ \<Rightarrow> Some v))"

definition findUpcomingPublishedList :: "world \<Rightarrow> string \<Rightarrow> string \<Rightarrow> Date \<Rightarrow> AgreementVersion list" where
  "findUpcomingPublishedList w typeKey audienceKey now =
    (case findByTypeAndAudience (w_documents w) typeKey audienceKey of
       None \<Rightarrow> []
     | Some document \<Rightarrow>
         sort_key (\<lambda>v. (v_validFrom v, - orElse (v_publishedAt v) 0))
           (filter (\<lambda>v. v_documentId v = d_id document \<and> v_status v = PUBLISHED
                      \<and> v_validFrom v > now) (tvals (w_versions w))))"

definition versions_findCurrentPublished :: "string \<Rightarrow> string \<Rightarrow> Date \<Rightarrow> AgreementVersion option M" where
  "versions_findCurrentPublished typeKey audienceKey now =
    getsM (\<lambda>w. findCurrentPublished w typeKey audienceKey now)"

definition versions_findUpcomingPublishedList :: "string \<Rightarrow> string \<Rightarrow> Date \<Rightarrow> AgreementVersion list M" where
  "versions_findUpcomingPublishedList typeKey audienceKey now =
    getsM (\<lambda>w. findUpcomingPublishedList w typeKey audienceKey now)"

definition versions_delete :: "string \<Rightarrow> unit M" where
  "versions_delete versionId =
    bindM (versions_findById versionId) (\<lambda>version.
    case version of
      None \<Rightarrow> throwD VERSION_NOT_FOUND
    | Some v \<Rightarrow>
        if v_status v \<noteq> DRAFT then throwD VERSION_IMMUTABLE
        else modifyM (\<lambda>w. w\<lparr>w_versions := AList.delete versionId (w_versions w)\<rparr>))"

section \<open>Customers\<close>

definition customers_save :: "Customer \<Rightarrow> Customer M" where
  "customers_save customer =
    thenM (modifyM (\<lambda>w. w\<lparr>w_customers := AList.update (c_id customer) customer (w_customers w)\<rparr>))
      (retM customer)"

definition customers_findById :: "string \<Rightarrow> Customer option M" where
  "customers_findById customerId = getsM (\<lambda>w. map_of (w_customers w) customerId)"

definition customers_findAllByExternalRef :: "string \<Rightarrow> Customer list M" where
  "customers_findAllByExternalRef externalRef =
    getsM (\<lambda>w. filter (\<lambda>c. c_externalRef c = externalRef) (tvals (w_customers w)))"

definition customers_findByRole :: "string \<Rightarrow> Customer list M" where
  "customers_findByRole audienceKey =
    getsM (\<lambda>w. filter (\<lambda>c. audienceKey \<in> set (c_roles c)) (tvals (w_customers w)))"

definition customers_findAll :: "Customer list M" where
  "customers_findAll = getsM (\<lambda>w. tvals (w_customers w))"

definition customers_softDelete :: "string \<Rightarrow> Date \<Rightarrow> unit M" where
  "customers_softDelete customerId at =
    bindM (customers_findById customerId) (\<lambda>existing.
    case existing of
      None \<Rightarrow> retM ()
    | Some c \<Rightarrow> modifyM (\<lambda>w. w\<lparr>w_customers :=
        AList.update customerId (c\<lparr>c_deletedAt := Some at\<rparr>) (w_customers w)\<rparr>))"

section \<open>Rollout states\<close>

definition REPO_OPEN_STATES :: "CustomerVersionStateValue list" where
  "REPO_OPEN_STATES = [PENDING_NOTIFICATION, NOTIFIED, OBJECTED, EXPIRED_BLOCKING]"

definition SWEEPABLE_STATES :: "CustomerVersionStateValue list" where
  "SWEEPABLE_STATES = [PENDING_NOTIFICATION, NOTIFIED]"

definition states_put :: "string \<Rightarrow> CustomerVersionState \<Rightarrow> unit M" where
  "states_put stateId s = modifyM (\<lambda>w. w\<lparr>w_states := AList.update stateId s (w_states w)\<rparr>)"

definition states_save :: "CustomerVersionState \<Rightarrow> CustomerVersionState M" where
  "states_save state = thenM (states_put (cvs_id state) state) (retM state)"

definition states_findById :: "string \<Rightarrow> CustomerVersionState option M" where
  "states_findById stateId = getsM (\<lambda>w. map_of (w_states w) stateId)"

definition states_findByCustomerAndVersion :: "string \<Rightarrow> string \<Rightarrow> CustomerVersionState option M" where
  "states_findByCustomerAndVersion customerId versionId =
    getsM (\<lambda>w. stateFor (tvals (w_states w)) customerId versionId)"

definition states_findByCustomer :: "string \<Rightarrow> CustomerVersionState list M" where
  "states_findByCustomer customerId =
    getsM (\<lambda>w. filter (\<lambda>s. cvs_customerId s = customerId) (tvals (w_states w)))"

definition states_findOpenByVersion :: "string \<Rightarrow> CustomerVersionState list M" where
  "states_findOpenByVersion versionId =
    getsM (\<lambda>w. filter (\<lambda>s. cvs_versionId s = versionId \<and> cvs_state s \<in> set REPO_OPEN_STATES)
                 (tvals (w_states w)))"

definition states_findByVersion :: "string \<Rightarrow> CustomerVersionState list M" where
  "states_findByVersion versionId =
    getsM (\<lambda>w. filter (\<lambda>s. cvs_versionId s = versionId) (tvals (w_states w)))"

definition dueForSweep :: "Date \<Rightarrow> CustomerVersionState \<Rightarrow> bool" where
  "dueForSweep now s \<longleftrightarrow> cvs_state s \<in> set SWEEPABLE_STATES
     \<and> (case cvs_deadlineAt s of None \<Rightarrow> False | Some t \<Rightarrow> t \<le> now)"

definition states_findDueForSweep :: "Date \<Rightarrow> CustomerVersionState list M" where
  "states_findDueForSweep now = getsM (\<lambda>w. filter (dueForSweep now) (tvals (w_states w)))"

definition states_findDueForNotification :: "nat \<Rightarrow> CustomerVersionState list M" where
  "states_findDueForNotification limit =
    getsM (\<lambda>w. take limit (sort_key (\<lambda>s. orElse (cvs_notificationDueAt s) 0)
      (filter (\<lambda>s. cvs_state s = PENDING_NOTIFICATION \<and> cvs_notificationDueAt s \<noteq> None)
        (tvals (w_states w)))))"

definition states_clearNotificationDue :: "string \<Rightarrow> unit M" where
  "states_clearNotificationDue stateId =
    bindM (states_findById stateId) (\<lambda>stored.
    case stored of
      None \<Rightarrow> retM ()
    | Some s \<Rightarrow> states_put stateId (s\<lparr>cvs_notificationDueAt := None\<rparr>))"

definition states_setNotifiedAtomically ::
  "string \<Rightarrow> CustomerVersionStateValue \<Rightarrow> Date option \<Rightarrow> Date option \<Rightarrow> CustomerVersionState M" where
  "states_setNotifiedAtomically stateId newValue notifiedAt deadlineAt =
    bindM (states_findById stateId) (\<lambda>stored.
    case stored of
      None \<Rightarrow> throwD INVALID_STATE
    | Some s \<Rightarrow>
        if cvs_notifiedAt s = None \<and> cvs_state s = PENDING_NOTIFICATION
        then (let s' = s\<lparr>cvs_state := newValue, cvs_notifiedAt := notifiedAt, cvs_deadlineAt := deadlineAt\<rparr>
              in thenM (states_put stateId s') (retM s'))
        else retM s)"

text \<open>The conditional update: the target state, and the reminder counter where one is given.\<close>

definition states_transition ::
  "string \<Rightarrow> CustomerVersionStateValue \<Rightarrow> CustomerVersionStateValue \<Rightarrow> int option \<Rightarrow>
   CustomerVersionState option M" where
  "states_transition stateId expectedState newValue remindersSent =
    bindM (states_findById stateId) (\<lambda>stored.
    case stored of
      None \<Rightarrow> retM None
    | Some s \<Rightarrow>
        if cvs_state s \<noteq> expectedState then retM None
        else (let s' = s\<lparr>cvs_state := newValue,
                         cvs_remindersSent := orElse remindersSent (cvs_remindersSent s)\<rparr>
              in thenM (states_put stateId s') (retM (Some s'))))"

end
