(* ===== verification/Stores.thy ===== *)
theory Stores
  imports World
begin

text \<open>
  The other repositories: the evidence stores (acceptances, objections, delivery evidence, signed
  documents), the links, the catalogue, the activity log, the idempotency store, the audit and
  escalation logs, the outbound e-mails.
\<close>

section \<open>Acceptances\<close>

definition effectiveFor :: "Acceptance table \<Rightarrow> string \<Rightarrow> string \<Rightarrow> Acceptance option" where
  "effectiveFor t customerId versionId =
    find (\<lambda>a. a_customerId a = customerId \<and> a_versionId a = versionId \<and> a_isEffective a) (tvals t)"

definition acceptances_append :: "Acceptance \<Rightarrow> Acceptance M" where
  "acceptances_append acceptance =
    bindM (getsM w_acceptances) (\<lambda>t.
    if map_of t (a_id acceptance) \<noteq> None then throwD INVALID_STATE
    else if a_isEffective acceptance
            \<and> effectiveFor t (a_customerId acceptance) (a_versionId acceptance) \<noteq> None
    then throwD ALREADY_ACCEPTED
    else thenM (modifyM (\<lambda>w. w\<lparr>w_acceptances :=
                  AList.update (a_id acceptance) acceptance (w_acceptances w)\<rparr>))
      (retM acceptance))"

definition acceptances_supersede :: "string \<Rightarrow> string \<Rightarrow> Acceptance M" where
  "acceptances_supersede acceptanceId byAcceptanceId =
    bindM (getsM (\<lambda>w. map_of (w_acceptances w) acceptanceId)) (\<lambda>stored.
    case stored of
      None \<Rightarrow> throwD INVALID_STATE
    | Some a \<Rightarrow>
        (let updated = a\<lparr>a_isEffective := False, a_supersededByAcceptanceId := Some byAcceptanceId\<rparr>
         in thenM (modifyM (\<lambda>w. w\<lparr>w_acceptances := AList.update acceptanceId updated (w_acceptances w)\<rparr>))
              (retM updated)))"

definition acceptances_findById :: "string \<Rightarrow> Acceptance option M" where
  "acceptances_findById acceptanceId = getsM (\<lambda>w. map_of (w_acceptances w) acceptanceId)"

definition acceptances_findEffective :: "string \<Rightarrow> string \<Rightarrow> Acceptance option M" where
  "acceptances_findEffective customerId versionId =
    getsM (\<lambda>w. effectiveFor (w_acceptances w) customerId versionId)"

definition acceptances_findEffectiveByVersion :: "string \<Rightarrow> Acceptance list M" where
  "acceptances_findEffectiveByVersion versionId =
    getsM (\<lambda>w. filter (\<lambda>a. a_versionId a = versionId \<and> a_isEffective a) (tvals (w_acceptances w)))"

definition acceptances_findByCustomer :: "string \<Rightarrow> Acceptance list M" where
  "acceptances_findByCustomer customerId =
    getsM (\<lambda>w. sort_key a_acceptedAt
      (filter (\<lambda>a. a_customerId a = customerId) (tvals (w_acceptances w))))"

definition acceptances_findAll :: "Acceptance list M" where
  "acceptances_findAll = getsM (\<lambda>w. sort_key a_acceptedAt (tvals (w_acceptances w)))"

section \<open>Objections\<close>

definition objections_append :: "Objection \<Rightarrow> Objection M" where
  "objections_append objection =
    bindM (getsM w_objections) (\<lambda>t.
    if map_of t (o_id objection) \<noteq> None then throwD INVALID_STATE
    else thenM (modifyM (\<lambda>w. w\<lparr>w_objections := AList.update (o_id objection) objection (w_objections w)\<rparr>))
      (retM objection))"

definition objections_findById :: "string \<Rightarrow> Objection option M" where
  "objections_findById objectionId = getsM (\<lambda>w. map_of (w_objections w) objectionId)"

definition objections_findByCustomerAndVersion :: "string \<Rightarrow> string \<Rightarrow> Objection list M" where
  "objections_findByCustomerAndVersion customerId versionId =
    getsM (\<lambda>w. filter (\<lambda>o'. o_customerId o' = customerId \<and> o_versionId o' = versionId)
                 (tvals (w_objections w)))"

definition objections_findByCustomer :: "string \<Rightarrow> Objection list M" where
  "objections_findByCustomer customerId =
    getsM (\<lambda>w. filter (\<lambda>o'. o_customerId o' = customerId) (tvals (w_objections w)))"

definition objections_findAll :: "Objection list M" where
  "objections_findAll = getsM (\<lambda>w. tvals (w_objections w))"

definition objections_resolve ::
  "string \<Rightarrow> ObjectionResolution \<Rightarrow> string \<Rightarrow> Date \<Rightarrow> Objection M" where
  "objections_resolve objectionId resolution resolvedBy resolvedAt =
    bindM (objections_findById objectionId) (\<lambda>stored.
    case stored of
      None \<Rightarrow> throwD INVALID_STATE
    | Some o' \<Rightarrow>
        (let updated = o'\<lparr>o_resolution := Some resolution, o_resolvedBy := Some resolvedBy,
                          o_resolvedAt := Some resolvedAt\<rparr>
         in thenM (modifyM (\<lambda>w. w\<lparr>w_objections := AList.update objectionId updated (w_objections w)\<rparr>))
              (retM updated)))"

section \<open>Acceptance links\<close>

definition links_findBy :: "(AcceptanceLink \<Rightarrow> bool) \<Rightarrow> AcceptanceLink table \<Rightarrow> AcceptanceLink option" where
  "links_findBy p t = find p (tvals t)"

definition links_put :: "string \<Rightarrow> AcceptanceLink \<Rightarrow> unit M" where
  "links_put linkId link = modifyM (\<lambda>w. w\<lparr>w_links := AList.update linkId link (w_links w)\<rparr>)"

definition links_create :: "AcceptanceLink \<Rightarrow> AcceptanceLink M" where
  "links_create link =
    bindM (getsM w_links) (\<lambda>t.
    if map_of t (al_id link) \<noteq> None then throwD INVALID_STATE
    else if list_ex (\<lambda>existing. al_tokenHash existing = al_tokenHash link) (tvals t)
    then throwD INVALID_STATE
    else thenM (links_put (al_id link) link) (retM link))"

definition links_findByTokenHash :: "string \<Rightarrow> AcceptanceLink option M" where
  "links_findByTokenHash tokenHash = getsM (\<lambda>w. links_findBy (\<lambda>l. al_tokenHash l = tokenHash) (w_links w))"

definition links_touch :: "string \<Rightarrow> Date \<Rightarrow> unit M" where
  "links_touch linkId lastUsedAt =
    bindM (getsM (\<lambda>w. map_of (w_links w) linkId)) (\<lambda>stored.
    case stored of
      None \<Rightarrow> retM ()
    | Some l \<Rightarrow> links_put linkId (l\<lparr>al_lastUsedAt := Some lastUsedAt\<rparr>))"

definition links_revoke :: "string \<Rightarrow> Date \<Rightarrow> AcceptanceLink option M" where
  "links_revoke linkId revokedAt =
    bindM (getsM (\<lambda>w. map_of (w_links w) linkId)) (\<lambda>stored.
    case stored of
      None \<Rightarrow> retM None
    | Some l \<Rightarrow>
        thenM (whenM (al_revokedAt l = None) (links_put linkId (l\<lparr>al_revokedAt := Some revokedAt\<rparr>)))
          (getsM (\<lambda>w. map_of (w_links w) linkId)))"

definition links_listByCustomer :: "string \<Rightarrow> AcceptanceLink list M" where
  "links_listByCustomer customerId =
    getsM (\<lambda>w. filter (\<lambda>l. al_customerId l = customerId) (tvals (w_links w)))"

section \<open>Delivery evidence\<close>

definition notifications_append :: "NotificationEvent \<Rightarrow> NotificationEvent M" where
  "notifications_append event =
    bindM (getsM w_notifications) (\<lambda>t.
    if map_of t (ne_id event) \<noteq> None then throwD INVALID_STATE
    else thenM (modifyM (\<lambda>w. w\<lparr>w_notifications := AList.update (ne_id event) event (w_notifications w)\<rparr>))
      (retM event))"

definition notifications_findByState :: "string \<Rightarrow> NotificationEvent list M" where
  "notifications_findByState stateId =
    getsM (\<lambda>w. filter (\<lambda>e. ne_customerVersionStateId e = stateId) (tvals (w_notifications w)))"

definition notifications_findByProviderRef :: "string \<Rightarrow> NotificationEvent option M" where
  "notifications_findByProviderRef providerRef =
    getsM (\<lambda>w. find (\<lambda>e. ne_providerRef e = Some providerRef) (tvals (w_notifications w)))"

definition notifications_findAll :: "NotificationEvent list M" where
  "notifications_findAll = getsM (\<lambda>w. tvals (w_notifications w))"

section \<open>Signed documents\<close>

definition signed_append :: "SignedDocument \<Rightarrow> SignedDocument M" where
  "signed_append document =
    thenM (modifyM (\<lambda>w. w\<lparr>w_signed := AList.update (sd_id document) document (w_signed w)\<rparr>))
      (retM document)"

definition signed_findById :: "string \<Rightarrow> SignedDocument option M" where
  "signed_findById documentId = getsM (\<lambda>w. map_of (w_signed w) documentId)"

text \<open>\<open>b.id.localeCompare(a.id)\<close> sorts the ids downwards: upwards by collation key, then reversed,
  with the time compared first.\<close>

definition signed_findByCustomer :: "env \<Rightarrow> string \<Rightarrow> SignedDocument list M" where
  "signed_findByCustomer E customerId =
    getsM (\<lambda>w. rev (sort_key (\<lambda>d. (sd_uploadedAt d, e_collate E (sd_id d)))
      (rev (filter (\<lambda>d. sd_customerId d = customerId) (tvals (w_signed w))))))"

section \<open>The catalogue\<close>

definition audiences_save :: "Audience \<Rightarrow> Audience M" where
  "audiences_save audience =
    thenM (liftR (assertValidEntityKey (au_key audience)))
    (bindM (getsM w_audiences) (\<lambda>t.
    if list_ex (\<lambda>a. au_id a \<noteq> au_id audience \<and> au_key a = au_key audience) (tvals t)
    then throwD INVALID_STATE
    else thenM (modifyM (\<lambda>w. w\<lparr>w_audiences := AList.update (au_id audience) audience (w_audiences w)\<rparr>))
      (retM audience)))"

definition audiences_findByKey :: "string \<Rightarrow> Audience option M" where
  "audiences_findByKey key = getsM (\<lambda>w. find (\<lambda>a. au_key a = key) (tvals (w_audiences w)))"

definition audiences_findAll :: "Audience list M" where
  "audiences_findAll = getsM (\<lambda>w. tvals (w_audiences w))"

definition audiences_deleteIfUnused :: "string \<Rightarrow> bool M" where
  "audiences_deleteIfUnused key =
    bindM (audiences_findByKey key) (\<lambda>existing.
    case existing of
      None \<Rightarrow> retM False
    | Some a \<Rightarrow>
        bindM documents_findAll (\<lambda>documents.
        if list_ex (\<lambda>d. d_audience d = key) documents then retM False
        else bindM customers_findAll (\<lambda>customers.
        if list_ex (\<lambda>c. key \<in> set (c_roles c)) customers then retM False
        else thenM (modifyM (\<lambda>w. w\<lparr>w_audiences := AList.delete (au_id a) (w_audiences w)\<rparr>))
          (retM True))))"

definition documentTypes_save :: "DocumentTypeDef \<Rightarrow> DocumentTypeDef M" where
  "documentTypes_save documentType =
    thenM (liftR (assertValidEntityKey (dt_key documentType)))
    (bindM (getsM w_documentTypes) (\<lambda>t.
    if list_ex (\<lambda>d. dt_id d \<noteq> dt_id documentType \<and> dt_key d = dt_key documentType) (tvals t)
    then throwD INVALID_STATE
    else thenM (modifyM (\<lambda>w. w\<lparr>w_documentTypes :=
                  AList.update (dt_id documentType) documentType (w_documentTypes w)\<rparr>))
      (retM documentType)))"

definition documentTypes_findByKey :: "string \<Rightarrow> DocumentTypeDef option M" where
  "documentTypes_findByKey key = getsM (\<lambda>w. find (\<lambda>t. dt_key t = key) (tvals (w_documentTypes w)))"

definition documentTypes_findAll :: "DocumentTypeDef list M" where
  "documentTypes_findAll = getsM (\<lambda>w. tvals (w_documentTypes w))"

definition documentTypes_deleteIfUnused :: "string \<Rightarrow> bool M" where
  "documentTypes_deleteIfUnused key =
    bindM (documentTypes_findByKey key) (\<lambda>existing.
    case existing of
      None \<Rightarrow> retM False
    | Some t \<Rightarrow>
        bindM documents_findAll (\<lambda>documents.
        if list_ex (\<lambda>d. d_type d = key) documents then retM False
        else thenM (modifyM (\<lambda>w. w\<lparr>w_documentTypes := AList.delete (dt_id t) (w_documentTypes w)\<rparr>))
          (retM True)))"

definition templates_save :: "EmailTemplate \<Rightarrow> EmailTemplate M" where
  "templates_save template =
    thenM (modifyM (\<lambda>w. w\<lparr>w_templates := AList.update (et_id template) template (w_templates w)\<rparr>))
      (retM template)"

definition templates_findById :: "string \<Rightarrow> EmailTemplate option M" where
  "templates_findById templateId = getsM (\<lambda>w. map_of (w_templates w) templateId)"

definition templates_findAll :: "EmailTemplate list M" where
  "templates_findAll = getsM (\<lambda>w. tvals (w_templates w))"

definition templates_deleteIfUnused :: "string \<Rightarrow> bool M" where
  "templates_deleteIfUnused templateId =
    bindM (templates_findById templateId) (\<lambda>existing.
    case existing of
      None \<Rightarrow> retM False
    | Some _ \<Rightarrow>
        bindM documentTypes_findAll (\<lambda>types.
        if list_ex (\<lambda>t. dt_notificationTemplateId t = Some templateId
                      \<or> dt_reminderTemplateId t = Some templateId) types
        then retM False
        else thenM (modifyM (\<lambda>w. w\<lparr>w_templates := AList.delete templateId (w_templates w)\<rparr>))
          (retM True)))"

section \<open>The activity log\<close>

record EventQueryFilters =
  q_customerId :: "string option"
  q_from :: "Date option"
  q_to :: "Date option"
  q_category :: "EventCategory option"
  q_documentType :: "string option"
  q_versionId :: "string option"

definition events_append :: "DomainEvent \<Rightarrow> DomainEvent M" where
  "events_append event =
    bindM (getsM w_events) (\<lambda>t.
    if map_of t (ev_id event) \<noteq> None then throwD INVALID_STATE
    else thenM (modifyM (\<lambda>w. w\<lparr>w_events := AList.update (ev_id event) event (w_events w)\<rparr>))
      (retM event))"

definition eventMatches :: "DomainEvent \<Rightarrow> EventQueryFilters \<Rightarrow> bool" where
  "eventMatches event f =
    (if q_customerId f \<noteq> None \<and> ev_customerId event \<noteq> q_customerId f then False
     else if q_category f \<noteq> None \<and> Some (ev_category event) \<noteq> q_category f then False
     else if q_documentType f \<noteq> None \<and> ev_documentType event \<noteq> q_documentType f then False
     else if q_versionId f \<noteq> None \<and> ev_versionId event \<noteq> q_versionId f then False
     else if (case q_from f of None \<Rightarrow> False | Some t \<Rightarrow> ev_occurredAt event < t) then False
     else if (case q_to f of None \<Rightarrow> False | Some t \<Rightarrow> ev_occurredAt event > t) then False
     else True)"

definition sortedEvents :: "env \<Rightarrow> EventQueryFilters \<Rightarrow> DomainEvent table \<Rightarrow> DomainEvent list" where
  "sortedEvents E filters t =
    sort_key (\<lambda>e. (- ev_occurredAt e, e_collate E (ev_id e)))
      (filter (\<lambda>e. eventMatches e filters) (tvals t))"

definition events_query ::
  "env \<Rightarrow> EventQueryFilters \<Rightarrow> int option \<Rightarrow> (DomainEvent list \<times> nat) M" where
  "events_query E filters page =
    getsM (\<lambda>w.
      (let filtered = sortedEvents E filters (w_events w);
           p = (case page of None \<Rightarrow> 1 | Some n \<Rightarrow> if n > 0 then n else 1);
           start = (p - 1) * EVENTS_PAGE_SIZE
       in (take (nat EVENTS_PAGE_SIZE) (drop (nat start) filtered), length filtered)))"

section \<open>Idempotency store\<close>

definition idempotency_get :: "string \<Rightarrow> IdempotencyValue option M" where
  "idempotency_get key =
    getsM (\<lambda>w. case map_of (w_idempotency w) key of
        Some IDEMPOTENCY_PENDING \<Rightarrow> None
      | value \<Rightarrow> value)"

definition idempotency_put :: "string \<Rightarrow> IdempotencyValue \<Rightarrow> unit M" where
  "idempotency_put key value =
    modifyM (\<lambda>w. w\<lparr>w_idempotency := AList.update key value (w_idempotency w)\<rparr>)"

definition idempotency_reserve :: "string \<Rightarrow> bool M" where
  "idempotency_reserve key =
    bindM (getsM (\<lambda>w. map_of (w_idempotency w) key)) (\<lambda>value.
    if value \<noteq> None then retM False
    else thenM (idempotency_put key IDEMPOTENCY_PENDING) (retM True))"

definition idempotency_release :: "string \<Rightarrow> unit M" where
  "idempotency_release key =
    bindM (getsM (\<lambda>w. map_of (w_idempotency w) key)) (\<lambda>value.
    whenM (value = Some IDEMPOTENCY_PENDING)
      (modifyM (\<lambda>w. w\<lparr>w_idempotency := AList.delete key (w_idempotency w)\<rparr>)))"

section \<open>Logs and outbound e-mails\<close>

definition audit_append :: "AdminAuditLog \<Rightarrow> AdminAuditLog M" where
  "audit_append log = thenM (modifyM (\<lambda>w. w\<lparr>w_audit := w_audit w @ [log]\<rparr>)) (retM log)"

definition audit_findAll :: "AdminAuditLog list M" where
  "audit_findAll = getsM w_audit"

definition audit_findByTarget :: "string \<Rightarrow> string \<Rightarrow> AdminAuditLog list M" where
  "audit_findByTarget targetType targetId =
    getsM (\<lambda>w. filter (\<lambda>l. aud_targetType l = targetType \<and> aud_targetId l = targetId) (w_audit w))"

definition escalations_record :: "EscalationEntry \<Rightarrow> EscalationEntry M" where
  "escalations_record entry =
    thenM (modifyM (\<lambda>w. w\<lparr>w_escalations := w_escalations w @ [entry]\<rparr>)) (retM entry)"

definition escalations_findByCustomer :: "string \<Rightarrow> EscalationEntry list M" where
  "escalations_findByCustomer customerId =
    getsM (\<lambda>w. filter (\<lambda>e. esc_customerId e = Some customerId) (w_escalations w))"

definition escalations_findAll :: "EscalationEntry list M" where
  "escalations_findAll = getsM w_escalations"

definition outbound_save :: "OutboundEmail \<Rightarrow> OutboundEmail M" where
  "outbound_save email =
    thenM (modifyM (\<lambda>w. w\<lparr>w_outbound := AList.update (oe_providerRef email) email (w_outbound w)\<rparr>))
      (retM email)"

definition outbound_findByProviderRef :: "string \<Rightarrow> OutboundEmail option M" where
  "outbound_findByProviderRef providerRef = getsM (\<lambda>w. map_of (w_outbound w) providerRef)"

definition outbound_markDelivered :: "string \<Rightarrow> Date \<Rightarrow> OutboundEmail option M" where
  "outbound_markDelivered providerRef deliveredAt =
    bindM (outbound_findByProviderRef providerRef) (\<lambda>stored.
    case stored of
      None \<Rightarrow> retM None
    | Some m \<Rightarrow>
        thenM (whenM (oe_deliveredAt m = None)
          (modifyM (\<lambda>w. w\<lparr>w_outbound :=
             AList.update providerRef (m\<lparr>oe_deliveredAt := Some deliveredAt\<rparr>) (w_outbound w)\<rparr>)))
        (outbound_findByProviderRef providerRef))"

definition outbound_findPendingOlderThan :: "Date \<Rightarrow> OutboundEmail list M" where
  "outbound_findPendingOlderThan olderThan =
    getsM (\<lambda>w. filter (\<lambda>m. oe_deliveredAt m = None \<and> oe_sentAt m < olderThan) (tvals (w_outbound w)))"

end
