(* ===== verification/Store_Facts.thy ===== *)
theory Store_Facts
  imports Stores
begin

text \<open>
  What the services rely on of the repositories.  The definitions of the operations go to the
  collection \<open>wp_simps\<close>, so the weakest precondition of a service computes down to table updates.
  Two contracts are stated as locales and interpreted on the repositories of the program:

  \<^item> \<open>append_only\<close>: an evidence store only grows, and no entry is ever changed or removed;
  \<^item> \<open>guarded_update\<close>: the conditional update of the rollout states (\<open>UPDATE ... WHERE state = $2\<close>)
    never overwrites what it did not observe.
\<close>

lemmas store_defs [wp_simps] =
    documents_save_def documents_findById_def documents_findByTypeAndAudience_def
    documents_findAll_def versions_save_def versions_findById_def versions_findByDocument_def
    versions_findCurrentPublished_def versions_findUpcomingPublishedList_def versions_delete_def
    customers_save_def customers_findById_def customers_findAllByExternalRef_def
    customers_findByRole_def customers_findAll_def customers_softDelete_def states_put_def
    states_save_def states_findById_def states_findByCustomerAndVersion_def
    states_findByCustomer_def states_findOpenByVersion_def states_findByVersion_def
    states_findDueForSweep_def states_findDueForNotification_def states_clearNotificationDue_def
    states_setNotifiedAtomically_def states_transition_def acceptances_append_def
    acceptances_supersede_def acceptances_findById_def acceptances_findEffective_def
    acceptances_findEffectiveByVersion_def acceptances_findByCustomer_def acceptances_findAll_def
    objections_append_def objections_findById_def objections_findByCustomerAndVersion_def
    objections_findByCustomer_def objections_findAll_def objections_resolve_def links_put_def
    links_create_def links_findByTokenHash_def links_touch_def links_revoke_def
    links_listByCustomer_def notifications_append_def notifications_findByState_def
    notifications_findByProviderRef_def notifications_findAll_def signed_append_def
    signed_findById_def signed_findByCustomer_def audiences_save_def audiences_findByKey_def
    audiences_findAll_def audiences_deleteIfUnused_def documentTypes_save_def
    documentTypes_findByKey_def documentTypes_findAll_def documentTypes_deleteIfUnused_def
    templates_save_def templates_findById_def templates_findAll_def templates_deleteIfUnused_def
    events_append_def events_query_def idempotency_get_def idempotency_put_def
    idempotency_reserve_def idempotency_release_def audit_append_def audit_findAll_def
    audit_findByTarget_def escalations_record_def escalations_findByCustomer_def
    escalations_findAll_def outbound_save_def outbound_findByProviderRef_def
    outbound_markDelivered_def outbound_findPendingOlderThan_def

lemma wp_let [wp_simps]: "wp (Let x f) Q X w = wp (f x) Q X w"
  by simp

section \<open>Append-only stores\<close>

locale append_only =
  fixes append :: "'v \<Rightarrow> 'v M"
    and tbl :: "world \<Rightarrow> 'v table"
    and key :: "'v \<Rightarrow> string"
  assumes append_ok: "append v w = (Inr r, w') \<Longrightarrow>
      r = v \<and> map_of (tbl w) (key v) = None \<and> tbl w' = AList.update (key v) v (tbl w)"
    and append_error: "append v w = (Inl e, w') \<Longrightarrow> w' = w"

context append_only begin

lemma append_cases:
  obtains (ok) w' where "append v w = (Inr v, w')" "map_of (tbl w) (key v) = None"
      "tvals (tbl w') = tvals (tbl w) @ [v]"
  | (error) e where "append v w = (Inl e, w)"
proof (cases "append v w")
  case (Pair r w')
  then show ?thesis
    using append_ok[of v w _ w'] append_error[of v w _ w'] that
    by (cases r) (auto simp: tvals_update_fresh)
qed

lemma history_grows: "\<exists>new. tvals (tbl (snd (append v w))) = tvals (tbl w) @ new"
  by (cases rule: append_cases[of v w]) auto

lemma entry_kept: "map_of (tbl w) k = Some u \<Longrightarrow> map_of (tbl (snd (append v w))) k = Some u"
  by (cases "append v w"; cases "fst (append v w)")
     (auto dest!: append_ok append_error simp: map_of_update)

lemma wf_kept: "wf_table key (tbl w) \<Longrightarrow> wf_table key (tbl (snd (append v w)))"
  by (cases "append v w"; cases "fst (append v w)")
     (auto dest!: append_ok append_error simp: wf_table_update)

end

interpretation objections: append_only objections_append w_objections o_id
  by unfold_locales
     (auto simp: objections_append_def action_defs split: if_splits)

interpretation notifications: append_only notifications_append w_notifications ne_id
  by unfold_locales
     (auto simp: notifications_append_def action_defs split: if_splits)

interpretation events: append_only events_append w_events ev_id
  by unfold_locales
     (auto simp: events_append_def action_defs split: if_splits)

interpretation acceptances: append_only acceptances_append w_acceptances a_id
  by unfold_locales
     (auto simp: acceptances_append_def action_defs split: if_splits)

interpretation links: append_only links_create w_links al_id
  by unfold_locales
     (auto simp: links_create_def links_put_def action_defs split: if_splits)

section \<open>The conditional update\<close>

locale guarded_update =
  fixes transition :: "string \<Rightarrow> 'obs \<Rightarrow> 'upd \<Rightarrow> 'v option M"
    and tbl :: "world \<Rightarrow> 'v table"
    and obs :: "'v \<Rightarrow> 'obs"
    and apply_upd :: "'upd \<Rightarrow> 'v \<Rightarrow> 'v"
  assumes transition_eq: "transition k e u w =
     (case map_of (tbl w) k of
        Some v \<Rightarrow> if obs v = e then (Inr (Some (apply_upd u v)), snd (transition k e u w)) else (Inr None, w)
      | None \<Rightarrow> (Inr None, w))"
    and transition_tbl: "map_of (tbl w) k = Some v \<Longrightarrow> obs v = e \<Longrightarrow>
        tbl (snd (transition k e u w)) = AList.update k (apply_upd u v) (tbl w)"

context guarded_update begin

lemma transition_applies_iff:
  "(\<exists>v' w'. transition k e u w = (Inr (Some v'), w')) \<longleftrightarrow> (\<exists>v. map_of (tbl w) k = Some v \<and> obs v = e)"
  by (subst transition_eq) (auto split: option.splits)

lemma transition_missed: "transition k e u w = (Inr None, w') \<Longrightarrow> w' = w"
  by (subst (asm) transition_eq) (auto split: option.splits if_splits)

lemma transition_entry:
  "map_of (tbl (snd (transition k e u w))) k' =
     (case map_of (tbl w) k of
        Some v \<Rightarrow> if k' = k \<and> obs v = e then Some (apply_upd u v) else map_of (tbl w) k'
      | None \<Rightarrow> map_of (tbl w) k')"
proof (cases "\<exists>v. map_of (tbl w) k = Some v \<and> obs v = e")
  case True
  then show ?thesis by (auto simp: transition_tbl map_of_update)
next
  case False
  then have "snd (transition k e u w) = w"
    by (subst transition_eq) (auto split: option.splits)
  with False show ?thesis by (auto split: option.splits)
qed

text \<open>What was not observed in the expected value is never overwritten.\<close>

lemma transition_keeps_unobserved:
  "map_of (tbl w) k' = Some v \<Longrightarrow> obs v \<noteq> e \<Longrightarrow> map_of (tbl (snd (transition k e u w))) k' = Some v"
  by (auto simp: transition_entry split: option.splits)

end

definition applyTransition ::
  "CustomerVersionStateValue \<times> int option \<Rightarrow> CustomerVersionState \<Rightarrow> CustomerVersionState" where
  "applyTransition u s = s\<lparr>cvs_state := fst u, cvs_remindersSent := orElse (snd u) (cvs_remindersSent s)\<rparr>"

interpretation cas: guarded_update "\<lambda>k e u. states_transition k e (fst u) (snd u)"
    w_states cvs_state applyTransition
  by unfold_locales
     (auto simp: states_transition_def states_findById_def states_put_def applyTransition_def
         action_defs Let_def split: option.splits)

section \<open>Effective acceptances\<close>

definition oneEffective :: "Acceptance table \<Rightarrow> bool" where
  "oneEffective t \<longleftrightarrow> (\<forall>a \<in> set (tvals t). \<forall>b \<in> set (tvals t).
     a_isEffective a \<and> a_isEffective b \<and> a_customerId a = a_customerId b \<and> a_versionId a = a_versionId b
     \<longrightarrow> a = b)"

lemma effectiveFor_SomeD:
  "effectiveFor t c v = Some a \<Longrightarrow>
     a \<in> set (tvals t) \<and> a_isEffective a \<and> a_customerId a = c \<and> a_versionId a = v"
  by (auto simp: effectiveFor_def dest: find_SomeD)

lemma effectiveFor_NoneD:
  "effectiveFor t c v = None \<Longrightarrow> a \<in> set (tvals t) \<Longrightarrow> a_isEffective a \<Longrightarrow>
     a_customerId a = c \<Longrightarrow> a_versionId a \<noteq> v"
  by (auto simp: effectiveFor_def dest: find_NoneD)

lemma effectiveFor_None_iff:
  "effectiveFor t c v = None \<longleftrightarrow>
     (\<forall>a \<in> set (tvals t). \<not> (a_customerId a = c \<and> a_versionId a = v \<and> a_isEffective a))"
  by (auto simp: effectiveFor_def find_None_iff)

lemma effectiveFor_not_None:
  "effectiveFor t c v \<noteq> None \<longleftrightarrow>
     (\<exists>a \<in> set (tvals t). a_customerId a = c \<and> a_versionId a = v \<and> a_isEffective a)"
  unfolding effectiveFor_None_iff by blast

lemma oneEffective_append:
  assumes "oneEffective t" "map_of t (a_id a) = None"
    and "a_isEffective a \<Longrightarrow> effectiveFor t (a_customerId a) (a_versionId a) = None"
  shows "oneEffective (AList.update (a_id a) a t)"
  using assms by (auto simp: oneEffective_def tvals_update_fresh dest: effectiveFor_NoneD)

lemma effectiveFor_update:
  assumes "oneEffective (AList.update (a_id a) a t)" "map_of t (a_id a) = None" "a_isEffective a"
  shows "effectiveFor (AList.update (a_id a) a t) (a_customerId a) (a_versionId a) = Some a"
proof -
  have "a \<in> set (tvals (AList.update (a_id a) a t))" using assms(2) by (simp add: tvals_update_fresh)
  with assms(1,3) show ?thesis
    using effectiveFor_not_None[of "AList.update (a_id a) a t" "a_customerId a" "a_versionId a"]
    by (fastforce simp: oneEffective_def dest: effectiveFor_SomeD)
qed

section \<open>Reads of the version repository\<close>

lemma sort_key_hd_le:
  "sort_key f xs = y # ys \<Longrightarrow> x \<in> set xs \<Longrightarrow> f y \<le> f x"
  by (metis list.map(2) set_sort sorted_sort_key sorted_wrt.simps(2) image_eqI list.set_map
      order_refl set_ConsD)

lemma findByTypeAndAudience_SomeD:
  "findByTypeAndAudience t ty au = Some d \<Longrightarrow> d \<in> set (tvals t) \<and> d_type d = ty \<and> d_audience d = au"
  by (auto simp: findByTypeAndAudience_def dest: find_SomeD)

text \<open>The applicable revision of a document is in force and published, and no published revision
  in force has a later validity date, nor the same one and a later publication; there is none only
  when nothing published is in force.\<close>

theorem findCurrentPublished_correct:
  "case findCurrentPublished w ty au now of
     Some v \<Rightarrow> v_status v = PUBLISHED \<and> v_validFrom v \<le> now \<and> v \<in> set (tvals (w_versions w))
       \<and> (\<forall>u \<in> set (tvals (w_versions w)).
            v_documentId u = v_documentId v \<and> v_status u = PUBLISHED \<and> v_validFrom u \<le> now \<longrightarrow>
            v_validFrom u < v_validFrom v
            \<or> v_validFrom u = v_validFrom v \<and> orElse (v_publishedAt u) 0 \<le> orElse (v_publishedAt v) 0)
   | None \<Rightarrow> (case findByTypeAndAudience (w_documents w) ty au of
       None \<Rightarrow> True
     | Some d \<Rightarrow> \<not> list_ex (\<lambda>u. v_documentId u = d_id d \<and> v_status u = PUBLISHED \<and> v_validFrom u \<le> now)
                   (tvals (w_versions w)))"
proof (cases "findByTypeAndAudience (w_documents w) ty au")
  case None
  then show ?thesis by (simp add: findCurrentPublished_def)
next
  case (Some d)
  define cand where "cand = filter (\<lambda>v. v_documentId v = d_id d \<and> v_status v = PUBLISHED
    \<and> v_validFrom v \<le> now) (tvals (w_versions w))"
  define k where "k = (\<lambda>v :: AgreementVersion. (- v_validFrom v, - orElse (v_publishedAt v) 0))"
  show ?thesis
  proof (cases "sort_key k cand")
    case Nil
    then have "cand = []" by (metis length_sort length_0_conv)
    with Nil Some show ?thesis
      by (auto simp: findCurrentPublished_def k_def cand_def filter_empty_conv list_ex_iff)
  next
    case (Cons v vs)
    then have "v \<in> set cand" by (metis list.set_intros(1) set_sort)
    moreover have "v_validFrom u < v_validFrom v
        \<or> v_validFrom u = v_validFrom v \<and> orElse (v_publishedAt u) 0 \<le> orElse (v_publishedAt v) 0"
      if "u \<in> set cand" for u
      using sort_key_hd_le[OF Cons that] by (auto simp: k_def less_eq_prod_def)
    moreover have "findCurrentPublished w ty au now = Some v"
      using Some Cons by (simp add: findCurrentPublished_def k_def cand_def)
    ultimately show ?thesis by (simp add: cand_def)
  qed
qed

definition published_world_ex :: world where
  "published_world_ex = (emptyWorld 20)\<lparr>w_documents := [(''d'', doc_ex)],
     w_versions := [(''a'', ver_ex\<lparr>v_id := ''a'', v_documentId := ''d'', v_status := PUBLISHED, v_validFrom := 5\<rparr>),
                    (''b'', ver_ex\<lparr>v_id := ''b'', v_documentId := ''d'', v_status := PUBLISHED, v_validFrom := 10\<rparr>)]\<rparr>"

lemma findCurrentPublished_correct_witness:
  "map_option v_id (findCurrentPublished published_world_ex ''dpa'' ''customer'' 20) = Some ''b''"
proof -
  obtain v where v: "findCurrentPublished published_world_ex ''dpa'' ''customer'' 20 = Some v"
    by (simp add: findCurrentPublished_def published_world_ex_def emptyWorld_def doc_ex_def tvals_def
        findByTypeAndAudience_def split: list.splits)
  show ?thesis
    using findCurrentPublished_correct[where w = published_world_ex and ty = "''dpa''" and au = "''customer''" and now = 20] unfolding v
    by (auto simp: published_world_ex_def emptyWorld_def tvals_def v)
qed

end
