(* ===== verification/Events.thy ===== *)
theory Events
  imports Store_Facts "HOL-Library.Multiset"
begin

text \<open>
  The activity log: \<open>EventRecorder\<close> (\<open>src/src/events/event-recorder.ts\<close>), which every service calls
  after its writes, and \<open>EventsService\<close> (\<open>events/events.service.ts\<close>), the paginated query.  The
  recorder never fails and changes only the event table (and takes a UUID); \<open>afterEvent\<close> names the
  world after a call, and its selectors are in \<open>wp_simps\<close>.
\<close>

section \<open>The recorder\<close>

text \<open>The literal of an event with its five required fields; \<open>id\<close> and \<open>occurredAt\<close> are the recorder's.\<close>

definition newEvent ::
  "EventType \<Rightarrow> EventCategory \<Rightarrow> EventActorKind \<Rightarrow> string \<Rightarrow> string \<Rightarrow> DomainEvent" where
  "newEvent type category actorKind actorLabel summary =
    \<lparr>ev_id = [], ev_type = type, ev_category = category, ev_occurredAt = 0, ev_actorKind = actorKind,
     ev_actorLabel = actorLabel, ev_customerId = None, ev_customerName = None, ev_versionId = None,
     ev_documentType = None, ev_audience = None, ev_versionLabel = None, ev_channel = None,
     ev_recipient = None, ev_summary = summary, ev_metadata = None\<rparr>"

text \<open>\<open>a ??= b\<close>.\<close>

definition orSet :: "'a option \<Rightarrow> 'a \<Rightarrow> 'a option" where
  "orSet x d = (case x of None \<Rightarrow> Some d | Some _ \<Rightarrow> x)"

definition resolveVersion :: "DomainEvent \<Rightarrow> DomainEvent M" where
  "resolveVersion event =
    (case ev_versionId event of
       None \<Rightarrow> retM event
     | Some versionId \<Rightarrow>
        if ev_documentType event \<noteq> None \<and> ev_audience event \<noteq> None \<and> ev_versionLabel event \<noteq> None
        then retM event
        else bindM (versions_findById versionId) (\<lambda>version.
          case version of
            None \<Rightarrow> retM event
          | Some v \<Rightarrow>
             (let event1 = event\<lparr>ev_versionLabel := orSet (ev_versionLabel event) (v_versionLabel v)\<rparr> in
              if ev_documentType event1 = None \<or> ev_audience event1 = None
              then bindM (documents_findById (v_documentId v)) (\<lambda>document.
                case document of
                  None \<Rightarrow> retM event1
                | Some d \<Rightarrow> retM (event1\<lparr>ev_documentType := orSet (ev_documentType event1) (d_type d),
                                       ev_audience := orSet (ev_audience event1) (d_audience d)\<rparr>))
              else retM event1)))"

definition resolveCustomer :: "DomainEvent \<Rightarrow> DomainEvent M" where
  "resolveCustomer event =
    (case ev_customerId event of
       None \<Rightarrow> retM event
     | Some customerId \<Rightarrow>
        if ev_customerName event \<noteq> None then retM event
        else bindM (customers_findById customerId) (\<lambda>customer.
          case customer of
            None \<Rightarrow> retM event
          | Some c \<Rightarrow> retM (event\<lparr>ev_customerName := Some (customerDisplayName c)\<rparr>)))"

definition resolveDenormalized :: "DomainEvent \<Rightarrow> DomainEvent M" where
  "resolveDenormalized event = bindM (resolveVersion event) resolveCustomer"

definition recordEvent :: "env \<Rightarrow> DomainEvent \<Rightarrow> unit M" where
  "recordEvent E input =
    bindM (newId E ''evt'') (\<lambda>eventId.
    bindM clock_now (\<lambda>now.
    (let event = input\<lparr>ev_id := eventId, ev_occurredAt := now\<rparr> in
     thenM (attemptM (bindM (resolveDenormalized event) events_append)) (retM ()))))"

section \<open>What a call of the recorder changes\<close>

definition afterEvent :: "env \<Rightarrow> DomainEvent \<Rightarrow> world \<Rightarrow> world" where
  "afterEvent E input w = snd (recordEvent E input w)"

lemma read_only_resolve: "\<exists>ev'. resolveDenormalized ev w = (Inr ev', w) \<and> ev_id ev' = ev_id ev
    \<and> ev_type ev' = ev_type ev \<and> ev_occurredAt ev' = ev_occurredAt ev \<and> ev_summary ev' = ev_summary ev
    \<and> ev_customerId ev' = ev_customerId ev \<and> ev_versionId ev' = ev_versionId ev"
  by (simp add: resolveDenormalized_def resolveVersion_def resolveCustomer_def action_defs Let_def
      versions_findById_def documents_findById_def customers_findById_def split: option.splits)

lemma recordEvent_shape:
  "\<exists>ev'. recordEvent E input w =
     (Inr (), w\<lparr>w_uuid := Suc (w_uuid w),
        w_events := if map_of (w_events w) (ev_id ev') = None
          then AList.update (ev_id ev') ev' (w_events w) else w_events w\<rparr>)
     \<and> ev_id ev' = ''evt-'' @ e_uuid E (w_uuid w) \<and> ev_type ev' = ev_type input
     \<and> ev_occurredAt ev' = w_now w \<and> ev_summary ev' = ev_summary input
     \<and> ev_customerId ev' = ev_customerId input \<and> ev_versionId ev' = ev_versionId input"
proof -
  define w1 where "w1 = w\<lparr>w_uuid := Suc (w_uuid w)\<rparr>"
  define ev where "ev = input\<lparr>ev_id := ''evt-'' @ e_uuid E (w_uuid w), ev_occurredAt := w_now w\<rparr>"
  obtain ev' where r: "resolveDenormalized ev w1 = (Inr ev', w1)" "ev_id ev' = ev_id ev"
    "ev_type ev' = ev_type ev" "ev_occurredAt ev' = ev_occurredAt ev" "ev_summary ev' = ev_summary ev"
    "ev_customerId ev' = ev_customerId ev" "ev_versionId ev' = ev_versionId ev"
    using read_only_resolve[of ev w1] by blast
  have "recordEvent E input w = (case bindM (resolveDenormalized ev) events_append w1 of (_, w') \<Rightarrow> (Inr (), w'))"
    by (simp add: recordEvent_def newId_def randomUUID_def clock_now_def action_defs Let_def ev_def w1_def
        split: prod.splits sum.splits)
  with r have "recordEvent E input w = (Inr (), w\<lparr>w_uuid := Suc (w_uuid w),
        w_events := if map_of (w_events w) (ev_id ev') = None
          then AList.update (ev_id ev') ev' (w_events w) else w_events w\<rparr>)"
    by (simp add: events_append_def action_defs w1_def)
  with r show ?thesis by (intro exI[of _ ev']) (simp add: ev_def)
qed

lemma wp_recordEvent [wp_simps]: "wp (recordEvent E input) Q X w = Q () (afterEvent E input w)"
  using recordEvent_shape[of E input w] by (auto simp: wp_def afterEvent_def)

lemma afterEvent_other [simp]:
  "w_now (afterEvent E input w) = w_now w"
  "w_uuid (afterEvent E input w) = Suc (w_uuid w)"
  "w_documentTypes (afterEvent E input w) = w_documentTypes w"
  "w_audiences (afterEvent E input w) = w_audiences w"
  "w_templates (afterEvent E input w) = w_templates w"
  "w_documents (afterEvent E input w) = w_documents w"
  "w_versions (afterEvent E input w) = w_versions w"
  "w_customers (afterEvent E input w) = w_customers w"
  "w_states (afterEvent E input w) = w_states w"
  "w_acceptances (afterEvent E input w) = w_acceptances w"
  "w_objections (afterEvent E input w) = w_objections w"
  "w_links (afterEvent E input w) = w_links w"
  "w_notifications (afterEvent E input w) = w_notifications w"
  "w_signed (afterEvent E input w) = w_signed w"
  "w_idempotency (afterEvent E input w) = w_idempotency w"
  "w_audit (afterEvent E input w) = w_audit w"
  "w_escalations (afterEvent E input w) = w_escalations w"
  "w_outbound (afterEvent E input w) = w_outbound w"
  "w_hits (afterEvent E input w) = w_hits w"
  using recordEvent_shape[of E input w] by (auto simp: afterEvent_def)

lemma afterEvent_events:
  assumes "map_of (w_events w) (''evt-'' @ e_uuid E (w_uuid w)) = None"
  shows "\<exists>ev. tvals (w_events (afterEvent E input w)) = tvals (w_events w) @ [ev]
    \<and> ev_type ev = ev_type input \<and> ev_occurredAt ev = w_now w \<and> ev_summary ev = ev_summary input
    \<and> ev_customerId ev = ev_customerId input \<and> ev_versionId ev = ev_versionId input"
  using recordEvent_shape[of E input w] assms by (auto simp: afterEvent_def tvals_update_fresh)

lemma afterEvent_log_grows:
  "\<exists>new. tvals (w_events (afterEvent E input w)) = tvals (w_events w) @ new \<and> length new \<le> 1"
  using recordEvent_shape[of E input w] by (auto simp: afterEvent_def tvals_update_fresh)

section \<open>Identifiers\<close>

text \<open>
  What the code relies on of \<open>randomUUID\<close>: the UUIDs are pairwise different, and a UUID does not look
  like an acceptance id \<open>a-...\<close> (its first hyphen is its ninth character).  \<open>freshIds\<close> is the invariant
  that the ids of a table were drawn.
\<close>

definition goodIds :: "env \<Rightarrow> bool" where
  "goodIds E \<longleftrightarrow> inj (e_uuid E) \<and> (\<forall>n. CHR ''-'' \<notin> set (take 8 (e_uuid E n)) \<and> 8 \<le> length (e_uuid E n))"

definition drawnIds :: "env \<Rightarrow> string list \<Rightarrow> nat \<Rightarrow> string set" where
  "drawnIds E prefixes n = {p @ e_uuid E m | p m. p \<in> set prefixes \<and> m < n}"

lemma drawnIds_mono: "n \<le> n' \<Longrightarrow> k \<in> drawnIds E ps n \<Longrightarrow> k \<in> drawnIds E ps n'"
  by (auto simp: drawnIds_def intro: order_less_le_trans)

lemma goodIds_short_prefix:
  assumes "goodIds E" "p @ e_uuid E n = q @ e_uuid E m" "length p = length q"
  shows "n = m"
  using assms by (auto simp: goodIds_def dest: injD)

lemma goodIds_hyphen: "goodIds E \<Longrightarrow> ''a-'' @ e_uuid E n \<noteq> e_uuid E m"
proof
  assume g: "goodIds E" and eq: "''a-'' @ e_uuid E n = e_uuid E m"
  have "CHR ''-'' \<in> set (take 8 (''a-'' @ e_uuid E n))" by simp
  with g eq show False by (simp add: goodIds_def)
qed

section \<open>The query\<close>

record EventView =
  vw_id :: string
  vw_occurredAt :: string
  vw_event :: DomainEvent

record EventQuery =
  eq_customerId :: "string option"
  eq_from :: "string option"
  eq_to :: "string option"
  eq_category :: "EventCategory option"
  eq_documentType :: "string option"
  eq_versionId :: "string option"
  eq_page :: "int option"

definition isDigit :: "char \<Rightarrow> bool" where
  "isDigit c \<longleftrightarrow> c \<in> set ''0123456789''"

text \<open>\<open>DATE_ONLY = /^\\d{4}-\\d{2}-\\d{2}$/\<close>.\<close>

definition isDateOnly :: "string \<Rightarrow> bool" where
  "isDateOnly s \<longleftrightarrow> length s = 10 \<and> s ! 4 = CHR ''-'' \<and> s ! 7 = CHR ''-''
     \<and> list_all isDigit (take 4 s) \<and> list_all isDigit (take 2 (drop 5 s)) \<and> list_all isDigit (drop 8 s)"

definition parseBound :: "env \<Rightarrow> string option \<Rightarrow> string \<Rightarrow> Date option" where
  "parseBound E value dayTime =
    (case value of
       None \<Rightarrow> None
     | Some s \<Rightarrow> if s = [] then None
         else e_parseDate E (if isDateOnly s then s @ dayTime else s))"

definition parseFrom :: "env \<Rightarrow> string option \<Rightarrow> Date option" where
  "parseFrom E value = parseBound E value ''T00:00:00.000Z''"

definition parseTo :: "env \<Rightarrow> string option \<Rightarrow> Date option" where
  "parseTo E value = parseBound E value ''T23:59:59.999Z''"

definition toView :: "env \<Rightarrow> DomainEvent \<Rightarrow> EventView" where
  "toView E event = \<lparr>vw_id = ev_id event, vw_occurredAt = e_toISOString E (ev_occurredAt event), vw_event = event\<rparr>"

definition events_list :: "env \<Rightarrow> EventQuery \<Rightarrow> (EventView list \<times> nat) M" where
  "events_list E query =
    bindM (events_query E
        \<lparr>q_customerId = eq_customerId query, q_from = parseFrom E (eq_from query),
         q_to = parseTo E (eq_to query), q_category = eq_category query,
         q_documentType = eq_documentType query, q_versionId = eq_versionId query\<rparr>
        (eq_page query))
      (\<lambda>(items, total). retM (map (toView E) items, total))"

section \<open>Properties\<close>

lemma sorted_sortedEvents:
  "sorted_wrt (\<lambda>x y. ev_occurredAt y \<le> ev_occurredAt x) (sortedEvents E f t)"
proof -
  have "sorted (map (\<lambda>e. (- ev_occurredAt e, e_collate E (ev_id e))) (sortedEvents E f t))"
    by (simp add: sortedEvents_def)
  then show ?thesis
    unfolding sorted_map by (rule sorted_wrt_mono_rel[rotated]) (auto simp: less_eq_prod_def)
qed

lemma set_sortedEvents: "set (sortedEvents E f t) = {e \<in> set (tvals t). eventMatches e f}"
  by (simp add: sortedEvents_def)

lemma events_query_eq:
  "events_query E f page w =
    (Inr (take 50 (drop (nat ((max 1 (orElse page 1) - 1) * 50)) (sortedEvents E f (w_events w))),
          length (sortedEvents E f (w_events w))), w)"
  by (cases page) (auto simp: events_query_def getsM_def Let_def EVENTS_PAGE_SIZE_def max_def)

text \<open>The pages of the event log.  The first \<open>k\<close> pages put one after the other are the first
  50*k matching events, newest first, so pages neither overlap nor miss an event; the total is the
  number of matching events.\<close>

theorem events_pages:
  "concat (map (\<lambda>p. case fst (events_query E f (Some (int p)) w) of Inr (items, _) \<Rightarrow> items | Inl _ \<Rightarrow> []) [1..<Suc k])
     = take (50 * k) (sortedEvents E f (w_events w))
   \<and> sorted_wrt (\<lambda>x y. ev_occurredAt y \<le> ev_occurredAt x) (sortedEvents E f (w_events w))
   \<and> mset (sortedEvents E f (w_events w)) = mset (filter (\<lambda>e. eventMatches e f) (tvals (w_events w)))
   \<and> map_sum id snd (fst (events_query E f page w))
       = Inr (length (filter (\<lambda>e. eventMatches e f) (tvals (w_events w))))"
proof -
  have page: "(case fst (events_query E f (Some (int p)) w) of Inr (items, _) \<Rightarrow> items | Inl _ \<Rightarrow> [])
      = take 50 (drop (50 * (p - 1)) (sortedEvents E f (w_events w)))" if "p \<in> set [1..<Suc k]" for p
  proof -
    from that have "nat ((max 1 (int p) - 1) * 50) = 50 * (p - 1)" by auto
    then show ?thesis by (simp add: events_query_eq)
  qed
  have pages: "concat (map (\<lambda>p. take 50 (drop (50 * (p - 1)) xs)) [1..<Suc n]) = take (50 * n) xs"
    for n and xs :: "DomainEvent list"
  proof (induction n)
    case (Suc n)
    have "take (50 + 50 * n) xs = take (50 * n) xs @ take 50 (drop (50 * n) xs)"
      by (metis add.commute take_add)
    with Suc show ?case by simp
  qed simp
  have "concat (map (\<lambda>p. case fst (events_query E f (Some (int p)) w) of Inr (items, _) \<Rightarrow> items | Inl _ \<Rightarrow> []) [1..<Suc k])
      = concat (map (\<lambda>p. take 50 (drop (50 * (p - 1)) (sortedEvents E f (w_events w)))) [1..<Suc k])"
    using page by (intro arg_cong[where f = concat] map_cong) auto
  then show ?thesis
    using pages[of _ k] sorted_sortedEvents by (simp add: events_query_eq sortedEvents_def del: upt_Suc)
qed

end
