(* ===== verification/Consent_Inv.thy ===== *)
theory Consent_Inv
  imports Events
begin

text \<open>
  The invariant that ties the rollout states to the acceptance evidence, and how each kind of write
  keeps it.  \<open>consentInv\<close>: the ids of states and acceptances were drawn and identify their rows; there
  is at most one effective acceptance for a customer and a version; a state is ACCEPTED only with an
  effective acceptance; and where there is an effective acceptance, the state the services find for
  the pair is ACCEPTED.
\<close>

definition accepted :: "CustomerVersionState option \<Rightarrow> bool" where
  "accepted s \<longleftrightarrow> map_option cvs_state s = Some ACCEPTED"

definition consentInv :: "env \<Rightarrow> world \<Rightarrow> bool" where
  "consentInv E w \<longleftrightarrow>
     wf_table cvs_id (w_states w) \<and> wf_table a_id (w_acceptances w)
     \<and> fst ` set (w_states w) \<subseteq> drawnIds E [''cvs-''] (w_uuid w)
     \<and> fst ` set (w_acceptances w) \<subseteq> drawnIds E [''a-'', []] (w_uuid w)
     \<and> oneEffective (w_acceptances w)
     \<and> (\<forall>s \<in> set (tvals (w_states w)). cvs_state s = ACCEPTED \<longrightarrow>
          effectiveFor (w_acceptances w) (cvs_customerId s) (cvs_versionId s) \<noteq> None)
     \<and> (\<forall>c v. effectiveFor (w_acceptances w) c v \<noteq> None \<longrightarrow> accepted (stateFor (tvals (w_states w)) c v))"

section \<open>Fresh identifiers\<close>

lemma fresh_cvs:
  assumes "goodIds E" "fst ` set t \<subseteq> drawnIds E [''cvs-''] n"
  shows "map_of t (''cvs-'' @ e_uuid E n) = None"
proof (rule ccontr)
  assume "map_of t (''cvs-'' @ e_uuid E n) \<noteq> None"
  then have "''cvs-'' @ e_uuid E n \<in> fst ` set t" by (metis map_of_eq_None_iff)
  with assms(2) obtain m where "m < n" "''cvs-'' @ e_uuid E n = ''cvs-'' @ e_uuid E m"
    by (auto simp: drawnIds_def)
  with goodIds_short_prefix[OF assms(1) this(2)] show False by simp
qed

lemma fresh_a:
  assumes "goodIds E" "fst ` set t \<subseteq> drawnIds E [''a-'', []] n"
  shows "map_of t (''a-'' @ e_uuid E n) = None" and "map_of t (e_uuid E n) = None"
proof -
  have sub: "\<exists>m < n. k = ''a-'' @ e_uuid E m \<or> k = e_uuid E m" if "k \<in> fst ` set t" for k
    using subsetD[OF assms(2) that] by (auto simp: drawnIds_def)
  have hyphen: "''a-'' @ e_uuid E m \<noteq> e_uuid E m'" for m m' by (rule goodIds_hyphen[OF assms(1)])
  have inj: "e_uuid E m = e_uuid E m' \<Longrightarrow> m = m'" for m m'
    using assms(1) by (auto simp: goodIds_def dest: injD)
  have "''a-'' @ e_uuid E n \<notin> fst ` set t"
  proof
    assume "''a-'' @ e_uuid E n \<in> fst ` set t"
    with sub obtain m where "m < n" "''a-'' @ e_uuid E n = ''a-'' @ e_uuid E m
        \<or> ''a-'' @ e_uuid E n = e_uuid E m" by blast
    with hyphen[of n m] inj[of n m] show False by auto
  qed
  then show "map_of t (''a-'' @ e_uuid E n) = None" by (metis map_of_eq_None_iff)
  have "e_uuid E n \<notin> fst ` set t"
  proof
    assume "e_uuid E n \<in> fst ` set t"
    with sub obtain m where "m < n" "e_uuid E n = ''a-'' @ e_uuid E m \<or> e_uuid E n = e_uuid E m"
      by blast
    with hyphen[of m n] inj[of n m] show False by auto
  qed
  then show "map_of t (e_uuid E n) = None" by (metis map_of_eq_None_iff)
qed

lemma drawn_Suc:
  "fst ` set t \<subseteq> drawnIds E ps n \<Longrightarrow> n \<le> n' \<Longrightarrow> fst ` set t \<subseteq> drawnIds E ps n'"
  by (meson drawnIds_mono subset_iff)

lemma drawn_new: "p \<in> set ps \<Longrightarrow> n < n' \<Longrightarrow> p @ e_uuid E n \<in> drawnIds E ps n'"
  by (auto simp: drawnIds_def)

lemma keys_update: "fst ` set (AList.update k v t) = insert k (fst ` set t)"
  by (simp add: dom_map_of_conv_image_fst[symmetric] map_of_update)

section \<open>Finding a state after a write\<close>

definition samePair :: "CustomerVersionState \<Rightarrow> CustomerVersionState \<Rightarrow> bool" where
  "samePair s s' \<longleftrightarrow> cvs_id s' = cvs_id s \<and> cvs_customerId s' = cvs_customerId s
     \<and> cvs_versionId s' = cvs_versionId s"

lemma stateFor_SomeD:
  "stateFor ss c v = Some s \<Longrightarrow> s \<in> set ss \<and> cvs_customerId s = c \<and> cvs_versionId s = v"
  by (auto simp: stateFor_def dest: find_SomeD)

lemma stateFor_NoneD: "stateFor ss c v = None \<Longrightarrow> s \<in> set ss \<Longrightarrow> \<not> (cvs_customerId s = c \<and> cvs_versionId s = v)"
  by (auto simp: stateFor_def dest: find_NoneD)

lemma stateFor_stored:
  "wf_table cvs_id t \<Longrightarrow> stateFor (tvals t) c v = Some s \<Longrightarrow> map_of t (cvs_id s) = Some s"
  using stateFor_SomeD[of "tvals t" c v s] by (simp add: tvals_map_of)

lemma stateFor_append:
  "stateFor (ss @ [s]) c v =
     (case stateFor ss c v of Some x \<Rightarrow> Some x
      | None \<Rightarrow> if cvs_customerId s = c \<and> cvs_versionId s = v then Some s else None)"
  by (induction ss) (auto simp: stateFor_def)

lemma stateFor_update:
  assumes "distinct (map fst t)" "\<And>k x. (k, x) \<in> set t \<Longrightarrow> cvs_id x = k"
    and "map_of t (cvs_id s) = Some s" "samePair s s'"
  shows "stateFor (tvals (AList.update (cvs_id s) s' t)) c v =
     (case stateFor (tvals t) c v of
        None \<Rightarrow> None
      | Some x \<Rightarrow> if cvs_id x = cvs_id s then Some s' else Some x)"
  using assms
proof (induction t)
  case (Cons kx t)
  let ?p = "\<lambda>s. cvs_customerId s = c \<and> cvs_versionId s = v"
  obtain k x where kx: "kx = (k, x)" by (cases kx)
  from Cons.prems(2)[of k x] kx have kid: "cvs_id x = k" by simp
  show ?case
  proof (cases "k = cvs_id s")
    case True
    with Cons.prems(3) kx have "x = s" by simp
    have other: "cvs_id y \<noteq> cvs_id s" if "find ?p (map snd t) = Some y" for y
    proof -
      from find_SomeD[OF that] obtain k' where y: "(k', y) \<in> set t" by auto
      with Cons.prems(2)[of k' y] have "cvs_id y = k'" by simp
      moreover have "k' \<noteq> k" using y Cons.prems(1) kx by force
      ultimately show ?thesis using True by simp
    qed
    from True kx \<open>x = s\<close> Cons.prems(4) show ?thesis
      by (simp add: tvals_def stateFor_def samePair_def other split: option.split)
  next
    case False
    have IH: "stateFor (tvals (AList.update (cvs_id s) s' t)) c v =
        (case stateFor (tvals t) c v of None \<Rightarrow> None
         | Some x \<Rightarrow> if cvs_id x = cvs_id s then Some s' else Some x)"
      using Cons.prems(1,3) kx False by (intro Cons.IH Cons.prems(2) assms(4)) auto
    from False kid kx IH show ?thesis by (simp add: tvals_def stateFor_def)
  qed
qed (simp add: stateFor_def tvals_def)

lemma stateFor_update_wf:
  assumes "wf_table cvs_id t" "map_of t (cvs_id s) = Some s" "samePair s s'"
  shows "stateFor (tvals (AList.update (cvs_id s) s' t)) c v =
     (case stateFor (tvals t) c v of
        None \<Rightarrow> None
      | Some x \<Rightarrow> if cvs_id x = cvs_id s then Some s' else Some x)"
  using assms by (intro stateFor_update) (auto simp: wf_table_def)

section \<open>How the writes keep the invariant\<close>

lemma consentInv_frame:
  assumes "consentInv E w" "w_states w' = w_states w" "w_acceptances w' = w_acceptances w"
    and "w_uuid w \<le> w_uuid w'"
  shows "consentInv E w'"
  using assms by (auto simp: consentInv_def intro: drawn_Suc[THEN subsetD])

text \<open>A state row is replaced, its key kept: \<open>ACCEPTED\<close> only where there is an effective acceptance.\<close>

lemma consentInv_update:
  assumes inv: "consentInv E w"
    and row: "map_of (w_states w) (cvs_id s) = Some s" "samePair s s'"
    and acc: "cvs_state s = ACCEPTED \<Longrightarrow> cvs_state s' = ACCEPTED"
      "cvs_state s' = ACCEPTED \<Longrightarrow> cvs_state s = ACCEPTED \<or>
         effectiveFor (w_acceptances w) (cvs_customerId s) (cvs_versionId s) \<noteq> None"
    and w': "w_states w' = AList.update (cvs_id s) s' (w_states w)"
      "w_acceptances w' = w_acceptances w" "w_uuid w \<le> w_uuid w'"
  shows "consentInv E w'"
proof -
  have wf: "wf_table cvs_id (w_states w)" using inv by (simp add: consentInv_def)
  have id: "cvs_id s' = cvs_id s" using row by (simp add: samePair_def)
  have s_in: "s \<in> set (tvals (w_states w))" using wf row by (simp add: tvals_map_of)
  have vals: "set (tvals (w_states w')) = insert s' {u \<in> set (tvals (w_states w)). cvs_id u \<noteq> cvs_id s}"
    using tvals_update[OF wf id] w' by simp
  have keys: "fst ` set (w_states w') = fst ` set (w_states w)"
    using row(1) w'(1) by (metis domI dom_map_of_conv_image_fst insert_absorb keys_update)
  have found: "accepted (stateFor (tvals (w_states w')) c v)"
    if "accepted (stateFor (tvals (w_states w)) c v)" for c v
  proof -
    from that obtain x where x: "stateFor (tvals (w_states w)) c v = Some x" "cvs_state x = ACCEPTED"
      by (auto simp: accepted_def)
    have "x = s" if "cvs_id x = cvs_id s"
      using stateFor_stored[OF wf x(1)] row(1) that by (metis option.inject)
    then have "cvs_id x = cvs_id s \<Longrightarrow> cvs_state s' = ACCEPTED" using x(2) acc(1) by simp
    then show ?thesis by (simp add: w'(1) stateFor_update_wf[OF wf row] accepted_def x)
  qed
  have evidence: "effectiveFor (w_acceptances w) (cvs_customerId u) (cvs_versionId u) \<noteq> None"
    if "u \<in> set (tvals (w_states w'))" "cvs_state u = ACCEPTED" for u
  proof (cases "u = s'")
    case True
    with that(2) acc(2) s_in inv show ?thesis
      using row(2) unfolding consentInv_def samePair_def by metis
  next
    case False
    with that vals have "u \<in> set (tvals (w_states w))" by auto
    with that(2) inv show ?thesis unfolding consentInv_def by blast
  qed
  show ?thesis
    using inv w' wf_table_update[OF wf id] keys found evidence
      drawn_Suc[of "w_states w" E "[''cvs-'']" "w_uuid w" "w_uuid w'"]
      drawn_Suc[of "w_acceptances w" E "[''a-'', []]" "w_uuid w" "w_uuid w'"]
    by (simp add: consentInv_def)
qed

text \<open>A new row under a fresh id, not ACCEPTED unless there is an effective acceptance.\<close>

lemma consentInv_insert:
  assumes good: "goodIds E" and inv: "consentInv E w"
    and s: "cvs_id s = ''cvs-'' @ e_uuid E (w_uuid w)"
      "cvs_state s = ACCEPTED \<Longrightarrow> effectiveFor (w_acceptances w) (cvs_customerId s) (cvs_versionId s) \<noteq> None"
    and w': "w_states w' = AList.update (cvs_id s) s (w_states w)"
      "w_acceptances w' = w_acceptances w" "w_uuid w < w_uuid w'"
  shows "consentInv E w'"
proof -
  have wf: "wf_table cvs_id (w_states w)" using inv by (simp add: consentInv_def)
  have fresh: "map_of (w_states w) (cvs_id s) = None"
    using fresh_cvs[OF good, of "w_states w" "w_uuid w"] inv s by (simp add: consentInv_def)
  have found: "stateFor (tvals (w_states w')) c v = Some x" if "stateFor (tvals (w_states w)) c v = Some x"
    for c v x using that by (simp add: w' tvals_update_fresh[OF fresh] stateFor_append)
  have keys: "fst ` set (w_states w') \<subseteq> drawnIds E [''cvs-''] (w_uuid w')"
    using inv w' s drawn_Suc[of "w_states w" E "[''cvs-'']" "w_uuid w" "w_uuid w'"]
      drawn_new[of "''cvs-''" "[''cvs-'']" "w_uuid w" "w_uuid w'" E]
    by (simp add: consentInv_def keys_update)
  have "tvals (w_states w') = tvals (w_states w) @ [s]"
    by (simp only: w'(1) tvals_update_fresh[OF fresh])
  then have "\<forall>s \<in> set (tvals (w_states w')). cvs_state s = ACCEPTED \<longrightarrow>
          effectiveFor (w_acceptances w) (cvs_customerId s) (cvs_versionId s) \<noteq> None"
    using inv s(2) unfolding consentInv_def by auto
  moreover have "\<forall>c v. effectiveFor (w_acceptances w) c v \<noteq> None \<longrightarrow> accepted (stateFor (tvals (w_states w')) c v)"
  proof (intro allI impI)
    fix c v assume "effectiveFor (w_acceptances w) c v \<noteq> None"
    with inv have "accepted (stateFor (tvals (w_states w)) c v)" unfolding consentInv_def by blast
    then show "accepted (stateFor (tvals (w_states w')) c v)" by (auto simp: accepted_def dest: found)
  qed
  ultimately show ?thesis
    using inv w' keys wf_table_update[OF wf refl, of s]
      drawn_Suc[of "w_acceptances w" E "[''a-'', []]" "w_uuid w" "w_uuid w'"]
    by (simp add: consentInv_def)
qed

text \<open>The state of a pair without effective acceptance becomes ACCEPTED and its acceptance is appended.\<close>

lemma consentInv_accept:
  assumes inv: "consentInv E w"
    and S: "wf_table cvs_id S" "fst ` set S \<subseteq> drawnIds E [''cvs-''] (w_uuid w')"
      "\<And>s. s \<in> set (tvals S) \<Longrightarrow> cvs_state s = ACCEPTED \<Longrightarrow>
         s \<in> set (tvals (w_states w)) \<or> cvs_customerId s = a_customerId a \<and> cvs_versionId s = a_versionId a"
      "\<And>c v. accepted (stateFor (tvals (w_states w)) c v) \<Longrightarrow> accepted (stateFor (tvals S) c v)"
      "accepted (stateFor (tvals S) (a_customerId a) (a_versionId a))"
    and a: "a_isEffective a" "map_of (w_acceptances w) (a_id a) = None"
      "effectiveFor (w_acceptances w) (a_customerId a) (a_versionId a) = None"
      "a_id a \<in> drawnIds E [''a-'', []] (w_uuid w')"
    and w': "w_states w' = S" "w_acceptances w' = AList.update (a_id a) a (w_acceptances w)"
      "w_uuid w \<le> w_uuid w'"
  shows "consentInv E w' \<and> effectiveFor (w_acceptances w') (a_customerId a) (a_versionId a) = Some a"
proof -
  have wf: "wf_table a_id (w_acceptances w)" and one: "oneEffective (w_acceptances w)"
    using inv by (simp_all add: consentInv_def)
  have one': "oneEffective (w_acceptances w')"
    using oneEffective_append[OF one a(2)] a w' by simp
  have vals: "tvals (w_acceptances w') = tvals (w_acceptances w) @ [a]"
    by (simp add: w' tvals_update_fresh[OF a(2)])
  have eff: "effectiveFor (w_acceptances w') c v \<noteq> None \<longleftrightarrow>
      effectiveFor (w_acceptances w) c v \<noteq> None \<or> c = a_customerId a \<and> v = a_versionId a" for c v
    using a(1) unfolding effectiveFor_not_None vals by auto
  have "\<forall>s \<in> set (tvals S). cvs_state s = ACCEPTED \<longrightarrow>
          effectiveFor (w_acceptances w') (cvs_customerId s) (cvs_versionId s) \<noteq> None"
    using S(3) inv unfolding eff consentInv_def by blast
  moreover have "\<forall>c v. effectiveFor (w_acceptances w') c v \<noteq> None \<longrightarrow> accepted (stateFor (tvals S) c v)"
    using S(4,5) inv unfolding eff consentInv_def by blast
  moreover have "fst ` set (w_acceptances w') \<subseteq> drawnIds E [''a-'', []] (w_uuid w')"
    using inv w' a(4) drawn_Suc[of "w_acceptances w" E "[''a-'', []]" "w_uuid w" "w_uuid w'"]
    by (simp add: consentInv_def keys_update)
  ultimately show ?thesis
    using S(1,2) one' w' wf_table_update[OF wf refl, of a] effectiveFor_update[OF _ a(2) a(1)]
    by (simp add: consentInv_def)
qed

text \<open>The same for the row the services find for the pair.\<close>

lemma consentInv_accept_row:
  assumes inv: "consentInv E w"
    and some: "stateFor (tvals (w_states w)) (a_customerId a) (a_versionId a) = Some s"
    and a: "a_isEffective a" "map_of (w_acceptances w) (a_id a) = None"
      "effectiveFor (w_acceptances w) (a_customerId a) (a_versionId a) = None"
      "a_id a \<in> drawnIds E [''a-'', []] (w_uuid w')"
    and w': "w_states w' = AList.update (cvs_id s) (s\<lparr>cvs_state := ACCEPTED\<rparr>) (w_states w)"
      "w_acceptances w' = AList.update (a_id a) a (w_acceptances w)" "w_uuid w \<le> w_uuid w'"
  shows "consentInv E w' \<and> effectiveFor (w_acceptances w') (a_customerId a) (a_versionId a) = Some a
    \<and> accepted (stateFor (tvals (w_states w')) (a_customerId a) (a_versionId a))"
proof -
  let ?s' = "s\<lparr>cvs_state := ACCEPTED\<rparr>"
  have wf: "wf_table cvs_id (w_states w)" using inv by (simp add: consentInv_def)
  have row: "map_of (w_states w) (cvs_id s) = Some s" by (rule stateFor_stored[OF wf some])
  have pair: "cvs_customerId s = a_customerId a" "cvs_versionId s = a_versionId a"
    using stateFor_SomeD[OF some] by simp_all
  have same: "samePair s ?s'" by (simp add: samePair_def)
  have lookup: "stateFor (tvals (w_states w')) c v =
     (case stateFor (tvals (w_states w)) c v of None \<Rightarrow> None
      | Some x \<Rightarrow> if cvs_id x = cvs_id s then Some ?s' else Some x)" for c v
    using stateFor_update_wf[OF wf row same] by (simp add: w')
  have found: "accepted (stateFor (tvals (w_states w')) c v)"
    if "accepted (stateFor (tvals (w_states w)) c v)" for c v
    using that by (auto simp: lookup accepted_def)
  have here: "accepted (stateFor (tvals (w_states w')) (a_customerId a) (a_versionId a))"
    by (simp add: lookup some accepted_def)
  have sv: "set (tvals (w_states w')) = insert ?s' {u \<in> set (tvals (w_states w)). cvs_id u \<noteq> cvs_id s}"
    using tvals_update[OF wf, of ?s' "cvs_id s"] by (simp add: w')
  have "consentInv E w' \<and> effectiveFor (w_acceptances w') (a_customerId a) (a_versionId a) = Some a"
  proof (rule consentInv_accept[OF inv])
    show "wf_table cvs_id (w_states w')" using wf by (simp add: w' wf_table_update)
    have "cvs_id s \<in> fst ` set (w_states w)" using row by (metis domI dom_map_of_conv_image_fst)
    then show "fst ` set (w_states w') \<subseteq> drawnIds E [''cvs-''] (w_uuid w')"
      using inv w'(3) drawn_Suc[of "w_states w" E "[''cvs-'']" "w_uuid w" "w_uuid w'"]
      by (auto simp: consentInv_def keys_update w')
    show "\<And>t. t \<in> set (tvals (w_states w')) \<Longrightarrow> cvs_state t = ACCEPTED \<Longrightarrow>
        t \<in> set (tvals (w_states w)) \<or> cvs_customerId t = a_customerId a \<and> cvs_versionId t = a_versionId a"
      by (auto simp: sv pair)
  qed (use found here a w' in simp_all)
  with here show ?thesis by simp
qed

section \<open>The logs\<close>

text \<open>The ids of the log entries were drawn, too.\<close>

definition logsInv :: "env \<Rightarrow> world \<Rightarrow> bool" where
  "logsInv E w \<longleftrightarrow>
     fst ` set (w_notifications w) \<subseteq> drawnIds E [''n-'', []] (w_uuid w)
     \<and> fst ` set (w_objections w) \<subseteq> drawnIds E [''o-''] (w_uuid w)"

lemma fresh_prefix:
  assumes "goodIds E" "fst ` set t \<subseteq> drawnIds E [p] n" "n \<le> m"
  shows "map_of t (p @ e_uuid E m) = None"
proof (rule ccontr)
  assume "map_of t (p @ e_uuid E m) \<noteq> None"
  then have "p @ e_uuid E m \<in> fst ` set t" by (metis map_of_eq_None_iff)
  with assms(2) obtain k where "k < n" "p @ e_uuid E m = p @ e_uuid E k" by (auto simp: drawnIds_def)
  with goodIds_short_prefix[OF assms(1) this(2)] assms(3) show False by simp
qed

lemma fresh_either:
  assumes "goodIds E" "fst ` set t \<subseteq> drawnIds E [[c, CHR ''-''], []] n" "n \<le> m"
  shows "map_of t ([c, CHR ''-''] @ e_uuid E m) = None" and "map_of t (e_uuid E m) = None"
proof -
  have hyphen: "[c, CHR ''-''] @ e_uuid E i \<noteq> e_uuid E j" for i j
  proof
    assume eq: "[c, CHR ''-''] @ e_uuid E i = e_uuid E j"
    have "CHR ''-'' \<in> set (take 8 ([c, CHR ''-''] @ e_uuid E i))" by simp
    with assms(1) eq show False by (simp add: goodIds_def)
  qed
  have inj: "e_uuid E i = e_uuid E j \<longleftrightarrow> i = j" for i j
    using assms(1) by (auto simp: goodIds_def dest: injD)
  have "[c, CHR ''-''] @ e_uuid E m \<notin> fst ` set t" "e_uuid E m \<notin> fst ` set t"
    using assms(2,3) hyphen hyphen[symmetric] inj by (auto simp: drawnIds_def simp del: append_Cons)
  then show "map_of t ([c, CHR ''-''] @ e_uuid E m) = None" and "map_of t (e_uuid E m) = None"
    by (metis map_of_eq_None_iff)+
qed

lemma logsInv_fresh:
  assumes "goodIds E" "logsInv E w" "w_uuid w \<le> m"
  shows "map_of (w_notifications w) (''n-'' @ e_uuid E m) = None"
    "map_of (w_notifications w) (e_uuid E m) = None"
    "map_of (w_objections w) (''o-'' @ e_uuid E m) = None"
  using assms fresh_prefix[OF assms(1) _ assms(3)] fresh_either[OF assms(1) _ assms(3)]
  by (auto simp: logsInv_def simp del: append_Cons)

section \<open>A small world for the witnesses\<close>

text \<open>One document with one published PASSIVE version in force, one customer with the role, notified.\<close>

definition env_ex :: env where
  "env_ex = \<lparr>e_uuid = (\<lambda>n. ''00000000'' @ replicate n (CHR ''1'')), e_randomBytes = (\<lambda>n. [of_nat n]),
     e_collate = (\<lambda>s. s), e_sweeperEnabled = True, e_publicBaseUrl = None, e_linkSecret = None,
     e_parseDate = (\<lambda>s. None), e_toISOString = (\<lambda>t. [])\<rparr>"

lemma goodIds_ex: "goodIds env_ex"
proof -
  have "inj (\<lambda>n. ''00000000'' @ replicate n (CHR ''1''))"
    by (rule injI) (auto dest: arg_cong[where f = length])
  then show ?thesis by (simp add: goodIds_def env_ex_def)
qed

definition state_ex :: CustomerVersionState where
  "state_ex = (newState ''cvs-00000000'' ''c'' ''v'')
     \<lparr>cvs_state := NOTIFIED, cvs_notifiedAt := Some 10, cvs_deadlineAt := Some 1000\<rparr>"

definition world_ex :: world where
  "world_ex = (emptyWorld 100)\<lparr>w_uuid := 1, w_documents := [(''d'', doc_ex)], w_versions := [(''v'', ver_ex)],
     w_customers := [(''c'', cust_ex)], w_states := [(''cvs-00000000'', state_ex)]\<rparr>"

lemma consentInv_ex: "consentInv env_ex world_ex"
  by (auto simp: consentInv_def world_ex_def emptyWorld_def state_ex_def newState_def wf_table_def
      drawnIds_def env_ex_def oneEffective_def tvals_def effectiveFor_def)

lemma logsInv_ex: "logsInv env_ex world_ex"
  by (simp add: logsInv_def world_ex_def emptyWorld_def)

end
