(* ===== verification/Agreements.thy ===== *)
theory Agreements
  imports Consent_Inv
begin

text \<open>
  The agreements module (\<open>src/src/agreements\<close>): documents, drafts, and \<open>PublishService\<close>, the core of
  the rollout: a publish that is effective at once retires the predecessors, supersedes their open
  states and carries blocks over; a scheduled one only rolls out.  The file storage plugin is a record
  of its operations.
\<close>

text \<open>The port through which a rollout notifies a customer by e-mail.\<close>

type_synonym rolloutNotifier = "Customer \<Rightarrow> AgreementVersion \<Rightarrow> unit M"

section \<open>PDF storage\<close>

record FileStorage =
  fs_store :: "string \<Rightarrow> string \<Rightarrow> string M"
  fs_getPresignedUrl :: "string \<Rightarrow> string M"
  fs_retrieve :: "string \<Rightarrow> string M"

record PdfUpload =
  pu_buffer :: string
  pu_fileName :: string

record StoredPdf =
  sp_storageKey :: string
  sp_contentHash :: string
  sp_fileName :: string
  sp_fileSize :: int

definition pdf_store :: "FileStorage \<Rightarrow> PdfUpload \<Rightarrow> StoredPdf M" where
  "pdf_store F upload =
    bindM (fs_store F (pu_buffer upload) (pu_fileName upload)) (\<lambda>storageKey.
    retM \<lparr>sp_storageKey = storageKey,
          sp_contentHash = ''sha256:'' @ toHex (sha256 (toBytes (pu_buffer upload))),
          sp_fileName = pu_fileName upload, sp_fileSize = int (length (pu_buffer upload))\<rparr>)"

section \<open>Public URLs\<close>

definition isUnreserved :: "char \<Rightarrow> bool" where
  "isUnreserved c \<longleftrightarrow> c \<in> set (''ABCDEFGHIJKLMNOPQRSTUVWXYZabcdefghijklmnopqrstuvwxyz0123456789-_.!~*()'' @ [CHR 0x27])"

definition hexUpper :: "nat \<Rightarrow> char" where
  "hexUpper n = ''0123456789ABCDEF'' ! n"

definition encodeURIComponent :: "string \<Rightarrow> string" where
  "encodeURIComponent s = concat (map (\<lambda>c. if isUnreserved c then [c]
     else [CHR ''%'', hexUpper (of_char c div 16), hexUpper (of_char c mod 16)]) s)"

definition latestPdfPath :: "string \<Rightarrow> string \<Rightarrow> string" where
  "latestPdfPath typeKey audienceKey =
    ''/documents/'' @ encodeURIComponent typeKey @ ''/'' @ encodeURIComponent audienceKey @ ''/latest.pdf''"

definition publicBaseUrl :: "env \<Rightarrow> string option" where
  "publicBaseUrl E =
    (let raw = trim (orElse (e_publicBaseUrl E) [])
     in if raw = [] then None else Some (rev (dropWhile (\<lambda>c. c = CHR ''/'') (rev raw))))"

section \<open>Version DTOs\<close>

record VersionDto =
  vd_id :: string
  vd_documentId :: string
  vd_versionLabel :: string
  vd_status :: VersionStatus
  vd_acceptanceMode :: AcceptanceMode
  vd_changeSummary :: string
  vd_consentText :: "string option"
  vd_objectionPeriodDays :: "int option"
  vd_objectionConsequence :: "string option"
  vd_gracePeriodDays :: "int option"
  vd_hardDeadlineAt :: "Date option"
  vd_validFrom :: Date
  vd_publishedAt :: "Date option"
  vd_contentHash :: string
  vd_fileName :: string
  vd_pdfUrl :: string

definition toVersionDto :: "AgreementVersion \<Rightarrow> string \<Rightarrow> VersionDto" where
  "toVersionDto version pdfUrl =
    \<lparr>vd_id = v_id version, vd_documentId = v_documentId version,
     vd_versionLabel = v_versionLabel version, vd_status = v_status version,
     vd_acceptanceMode = v_acceptanceMode version, vd_changeSummary = v_changeSummary version,
     vd_consentText = v_consentText version, vd_objectionPeriodDays = v_objectionPeriodDays version,
     vd_objectionConsequence = v_objectionConsequence version,
     vd_gracePeriodDays = v_gracePeriodDays version, vd_hardDeadlineAt = v_hardDeadlineAt version,
     vd_validFrom = v_validFrom version, vd_publishedAt = v_publishedAt version,
     vd_contentHash = v_contentHash version, vd_fileName = v_fileName version, vd_pdfUrl = pdfUrl\<rparr>"

section \<open>DocumentService\<close>

record CreateDocumentInput =
  cdi_type :: string
  cdi_audience :: string
  cdi_name :: string

record DocumentListEntry =
  dle_id :: string
  dle_type :: string
  dle_audience :: string
  dle_name :: string
  dle_currentVersion :: "VersionDto option"
  dle_upcomingVersions :: "VersionDto list"
  dle_latestPdfUrl :: "string option"

definition document_create :: "env \<Rightarrow> CreateDocumentInput \<Rightarrow> string \<Rightarrow> AgreementDocument M" where
  "document_create E input adminUserId =
    bindM (bindM (documentTypes_findByKey (cdi_type input)) (requireD UNKNOWN_DOCUMENT_TYPE)) (\<lambda>documentType.
    if dt_external documentType = Some True then throwD DOCUMENT_TYPE_EXTERNAL
    else bindM (bindM (audiences_findByKey (cdi_audience input)) (requireD UNKNOWN_AUDIENCE)) (\<lambda>_.
    bindM (documents_findByTypeAndAudience (cdi_type input) (cdi_audience input)) (\<lambda>existing.
    if existing \<noteq> None then throwD INVALID_STATE
    else bindM (newId E ''doc'') (\<lambda>docId.
    bindM (documents_save \<lparr>d_id = docId, d_type = cdi_type input, d_audience = cdi_audience input,
                           d_name = cdi_name input\<rparr>) (\<lambda>saved.
    thenM (recordEvent E
      ((newEvent DOCUMENT_CREATED ADMINISTRATION AkADMIN adminUserId
         (''Document '' @ [CHR 0x22] @ d_name saved @ [CHR 0x22] @ '' created ('' @ d_type saved @ '' / ''
            @ d_audience saved @ '')''))
        \<lparr>ev_documentType := Some (d_type saved), ev_audience := Some (d_audience saved),
         ev_metadata := Some [(''documentId'', MStr (d_id saved))]\<rparr>))
    (retM saved))))))"

definition document_list :: "env \<Rightarrow> FileStorage \<Rightarrow> DocumentListEntry list M" where
  "document_list E F =
    bindM documents_findAll (\<lambda>documents.
    bindM clock_now (\<lambda>now.
    mapM (\<lambda>document.
      bindM (versions_findCurrentPublished (d_type document) (d_audience document) now) (\<lambda>current.
      bindM (versions_findUpcomingPublishedList (d_type document) (d_audience document) now) (\<lambda>upcoming.
      bindM (case current of
          None \<Rightarrow> retM None
        | Some c \<Rightarrow> bindM (fs_getPresignedUrl F (v_storageKey c)) (\<lambda>url. retM (Some (toVersionDto c url))))
        (\<lambda>currentVersion.
      bindM (mapM (\<lambda>v. bindM (fs_getPresignedUrl F (v_storageKey v)) (\<lambda>url. retM (toVersionDto v url))) upcoming)
        (\<lambda>upcomingVersions.
      retM \<lparr>dle_id = d_id document, dle_type = d_type document, dle_audience = d_audience document,
            dle_name = d_name document, dle_currentVersion = currentVersion,
            dle_upcomingVersions = upcomingVersions,
            dle_latestPdfUrl = (case publicBaseUrl E of
                Some baseUrl \<Rightarrow> if current \<noteq> None \<and> baseUrl \<noteq> []
                  then Some (baseUrl @ latestPdfPath (d_type document) (d_audience document)) else None
              | None \<Rightarrow> None)\<rparr>))))) documents))"

section \<open>VersionService\<close>

record CreateDraftInput =
  cd_documentId :: string
  cd_versionLabel :: string
  cd_changeSummary :: string
  cd_acceptanceMode :: AcceptanceMode
  cd_consentText :: "string option"
  cd_objectionPeriodDays :: "int option"
  cd_objectionConsequence :: "string option"
  cd_gracePeriodDays :: "int option"
  cd_hardDeadlineAt :: "Date option"
  cd_validFrom :: Date
  cd_file :: PdfUpload

text \<open>
  \<open>PatchDraftInput\<close> is a TypeScript type; the object that arrives at run time is what the controller
  spread from the request body.  A patch is the list of the properties it has, and a property of any
  field of a version may be among them, the id and the status included; only \<open>fileName\<close> is taken out by
  the controller.
\<close>

datatype VersionField =
    FId string
  | FVersionLabel string
  | FChangeSummary string
  | FAcceptanceMode AcceptanceMode
  | FConsentText "string option"
  | FObjectionPeriodDays "int option"
  | FObjectionConsequence "string option"
  | FGracePeriodDays "int option"
  | FHardDeadlineAt "Date option"
  | FValidFrom Date
  | FStatus VersionStatus
  | FDocumentId string
  | FStorageKey string
  | FContentHash string
  | FFileSize int
  | FPublishedAt "Date option"
  | FPublishedBy "string option"

fun setField :: "VersionField \<Rightarrow> AgreementVersion \<Rightarrow> AgreementVersion" where
  "setField (FId x) v = v\<lparr>v_id := x\<rparr>"
| "setField (FVersionLabel x) v = v\<lparr>v_versionLabel := x\<rparr>"
| "setField (FChangeSummary x) v = v\<lparr>v_changeSummary := x\<rparr>"
| "setField (FAcceptanceMode x) v = v\<lparr>v_acceptanceMode := x\<rparr>"
| "setField (FConsentText x) v = v\<lparr>v_consentText := x\<rparr>"
| "setField (FObjectionPeriodDays x) v = v\<lparr>v_objectionPeriodDays := x\<rparr>"
| "setField (FObjectionConsequence x) v = v\<lparr>v_objectionConsequence := x\<rparr>"
| "setField (FGracePeriodDays x) v = v\<lparr>v_gracePeriodDays := x\<rparr>"
| "setField (FHardDeadlineAt x) v = v\<lparr>v_hardDeadlineAt := x\<rparr>"
| "setField (FValidFrom x) v = v\<lparr>v_validFrom := x\<rparr>"
| "setField (FStatus x) v = v\<lparr>v_status := x\<rparr>"
| "setField (FDocumentId x) v = v\<lparr>v_documentId := x\<rparr>"
| "setField (FStorageKey x) v = v\<lparr>v_storageKey := x\<rparr>"
| "setField (FContentHash x) v = v\<lparr>v_contentHash := x\<rparr>"
| "setField (FFileSize x) v = v\<lparr>v_fileSize := x\<rparr>"
| "setField (FPublishedAt x) v = v\<lparr>v_publishedAt := x\<rparr>"
| "setField (FPublishedBy x) v = v\<lparr>v_publishedBy := x\<rparr>"

text \<open>\<open>{ ...version, ...patch }\<close>.\<close>

definition spreadPatch :: "AgreementVersion \<Rightarrow> VersionField list \<Rightarrow> AgreementVersion" where
  "spreadPatch version patch = fold setField patch version"

definition getVersion :: "string \<Rightarrow> AgreementVersion M" where
  "getVersion versionId = bindM (versions_findById versionId) (requireD VERSION_NOT_FOUND)"

definition getAffectedCustomerCount :: "string \<Rightarrow> (string \<times> nat) M" where
  "getAffectedCustomerCount versionId =
    bindM (bindM (versions_findById versionId) (requireD VERSION_NOT_FOUND)) (\<lambda>version.
    bindM (bindM (documents_findById (v_documentId version)) (requireD INVALID_STATE)) (\<lambda>document.
    bindM (customers_findByRole (d_audience document)) (\<lambda>targets.
    retM (d_audience document, length targets))))"

definition createDraft :: "env \<Rightarrow> FileStorage \<Rightarrow> CreateDraftInput \<Rightarrow> string \<Rightarrow> AgreementVersion M" where
  "createDraft E F input adminUserId =
    bindM (bindM (documents_findById (cd_documentId input)) (requireD INVALID_STATE)) (\<lambda>document.
    bindM (pdf_store F (cd_file input)) (\<lambda>stored.
    bindM (newId E ''v'') (\<lambda>versionId.
    bindM (versions_save
      \<lparr>v_id = versionId, v_documentId = cd_documentId input, v_versionLabel = cd_versionLabel input,
       v_status = DRAFT, v_acceptanceMode = cd_acceptanceMode input,
       v_objectionPeriodDays = cd_objectionPeriodDays input,
       v_objectionConsequence = cd_objectionConsequence input,
       v_gracePeriodDays = cd_gracePeriodDays input, v_hardDeadlineAt = cd_hardDeadlineAt input,
       v_changeSummary = cd_changeSummary input, v_consentText = cd_consentText input,
       v_storageKey = sp_storageKey stored, v_fileName = sp_fileName stored,
       v_contentHash = sp_contentHash stored, v_fileSize = sp_fileSize stored,
       v_validFrom = cd_validFrom input, v_publishedAt = None, v_publishedBy = None\<rparr>) (\<lambda>saved.
    thenM (recordEvent E
      ((newEvent VERSION_DRAFT_CREATED ADMINISTRATION AkADMIN adminUserId
         (''Draft version '' @ v_versionLabel saved @ '' created''))
        \<lparr>ev_versionId := Some (v_id saved), ev_documentType := Some (d_type document),
         ev_audience := Some (d_audience document), ev_versionLabel := Some (v_versionLabel saved)\<rparr>))
    (retM saved)))))"

definition patchDraft ::
  "env \<Rightarrow> FileStorage \<Rightarrow> string \<Rightarrow> VersionField list \<Rightarrow> PdfUpload option \<Rightarrow> string \<Rightarrow> AgreementVersion M" where
  "patchDraft E F versionId patch file adminUserId =
    bindM (getVersion versionId) (\<lambda>version.
    thenM (liftR (assertDraftMutable version))
    (bindM (case file of
        None \<Rightarrow> retM (spreadPatch version patch)
      | Some upload \<Rightarrow> bindM (pdf_store F upload) (\<lambda>stored.
          retM ((spreadPatch version patch)
            \<lparr>v_storageKey := sp_storageKey stored, v_fileName := sp_fileName stored,
             v_contentHash := sp_contentHash stored, v_fileSize := sp_fileSize stored\<rparr>))) (\<lambda>updated.
    bindM (versions_save updated) (\<lambda>saved.
    thenM (recordEvent E
      ((newEvent VERSION_UPDATED ADMINISTRATION AkADMIN adminUserId
         (''Draft version '' @ v_versionLabel saved @ '' updated''))
        \<lparr>ev_versionId := Some (v_id saved), ev_versionLabel := Some (v_versionLabel saved)\<rparr>))
    (retM saved)))))"

definition deleteDraft :: "env \<Rightarrow> string \<Rightarrow> string \<Rightarrow> unit M" where
  "deleteDraft E versionId adminUserId =
    bindM (getVersion versionId) (\<lambda>version.
    thenM (liftR (assertDraftMutable version))
    (bindM (documents_findById (v_documentId version)) (\<lambda>document.
    thenM (versions_delete versionId)
    (recordEvent E
      ((newEvent VERSION_DRAFT_DELETED ADMINISTRATION AkADMIN adminUserId
         (''Draft version '' @ v_versionLabel version @ '' deleted''))
        \<lparr>ev_versionId := Some versionId, ev_documentType := map_option d_type document,
         ev_audience := map_option d_audience document,
         ev_versionLabel := Some (v_versionLabel version)\<rparr>)))))"

definition toDto :: "FileStorage \<Rightarrow> AgreementVersion \<Rightarrow> VersionDto M" where
  "toDto F version = bindM (fs_getPresignedUrl F (v_storageKey version)) (\<lambda>url. retM (toVersionDto version url))"

definition listDtosByDocument :: "FileStorage \<Rightarrow> string \<Rightarrow> VersionDto list M" where
  "listDtosByDocument F documentId = bindM (versions_findByDocument documentId) (mapM (toDto F))"

definition getVersionDto :: "FileStorage \<Rightarrow> string \<Rightarrow> VersionDto M" where
  "getVersionDto F versionId = bindM (getVersion versionId) (toDto F)"

definition getPdfUrl :: "FileStorage \<Rightarrow> string \<Rightarrow> string M" where
  "getPdfUrl F versionId = bindM (getVersion versionId) (\<lambda>version. fs_getPresignedUrl F (v_storageKey version))"

end
