(* ===== verification/Publish.thy ===== *)
theory Publish
  imports Agreements
begin

text \<open>
  \<open>PublishService\<close> (\<open>src/src/agreements/publish.service.ts\<close>), the core of the rollout.  A publish that
  is effective at once retires the predecessors, supersedes their open states and carries blocks over
  to the new states; a scheduled one only rolls out, and the activation sweeper does the rest when
  the version comes into force.
\<close>

section \<open>PublishService\<close>

record PublishResult =
  pr_versionId :: string
  pr_rolloutCustomers :: nat
  pr_publishedAt :: Date

text \<open>The predecessor's open state is closed; the result says whether it was blocking.\<close>

definition supersedeOpen :: "CustomerVersionState \<Rightarrow> bool M" where
  "supersedeOpen openState =
    bindM (liftR (supersede openState)) (\<lambda>r.
    thenM (states_save (su_state r)) (retM (su_wasBlocking r)))"

definition retiredEvent :: "EventActorKind \<Rightarrow> string \<Rightarrow> AgreementDocument \<Rightarrow> AgreementVersion \<Rightarrow> DomainEvent" where
  "retiredEvent kind actorLabel document predecessor =
    (newEvent VERSION_RETIRED ADMINISTRATION kind actorLabel
       (''Version '' @ v_versionLabel predecessor @ '' retired''))
      \<lparr>ev_versionId := Some (v_id predecessor), ev_documentType := Some (d_type document),
       ev_audience := Some (d_audience document), ev_versionLabel := Some (v_versionLabel predecessor)\<rparr>"

text \<open>The body of the loop over the predecessors; the accumulator is \<open>blockingByCustomer\<close>.\<close>

definition retirePredecessor ::
  "env \<Rightarrow> string \<Rightarrow> AgreementDocument \<Rightarrow> bool table \<Rightarrow> AgreementVersion \<Rightarrow> bool table M" where
  "retirePredecessor E adminUserId document blockingByCustomer predecessor =
    thenM (versions_save (predecessor\<lparr>v_status := RETIRED\<rparr>))
    (thenM (recordEvent E (retiredEvent AkADMIN adminUserId document predecessor))
    (bindM (states_findOpenByVersion (v_id predecessor)) (\<lambda>openStates.
    foldM (\<lambda>blocking openState.
      bindM (supersedeOpen openState) (\<lambda>wasBlocking.
      retM (if wasBlocking then AList.update (cvs_customerId openState) True blocking else blocking)))
      blockingByCustomer openStates)))"

definition rolloutState ::
  "string \<Rightarrow> AgreementVersion \<Rightarrow> Date \<Rightarrow> bool \<Rightarrow> Customer \<Rightarrow> CustomerVersionState" where
  "rolloutState cvsId version publishedAt carryOverBlocking customer =
    (newState cvsId (c_id customer) (v_id version))
      \<lparr>cvs_deadlineAt := rolloutDeadlineFor version,
       cvs_carryOverBlocking := (if carryOverBlocking then Some True else None),
       cvs_notificationDueAt := Some publishedAt\<rparr>"

definition rolloutEvent ::
  "string \<Rightarrow> AgreementDocument \<Rightarrow> AgreementVersion \<Rightarrow> Customer \<Rightarrow> DomainEvent" where
  "rolloutEvent adminUserId document version customer =
    (newEvent OBLIGATION_ROLLED_OUT CONSENT AkADMIN adminUserId
       (''Customer put under obligation for version '' @ v_versionLabel version))
      \<lparr>ev_customerId := Some (c_id customer), ev_customerName := Some (customerDisplayName customer),
       ev_versionId := Some (v_id version), ev_documentType := Some (d_type document),
       ev_audience := Some (d_audience document), ev_versionLabel := Some (v_versionLabel version)\<rparr>"

definition rolloutOne ::
  "env \<Rightarrow> string \<Rightarrow> AgreementDocument \<Rightarrow> AgreementVersion \<Rightarrow> Date \<Rightarrow> bool table \<Rightarrow> Customer \<Rightarrow> unit M" where
  "rolloutOne E adminUserId document version publishedAt blockingByCustomer customer =
    (let carryOverBlocking = (map_of blockingByCustomer (c_id customer) = Some True) in
     bindM (newId E ''cvs'') (\<lambda>cvsId.
     thenM (states_save (rolloutState cvsId version publishedAt carryOverBlocking customer))
     (recordEvent E (rolloutEvent adminUserId document version customer))))"

definition publishMeta :: "AgreementDocument \<Rightarrow> nat \<Rightarrow> (string \<times> meta) list" where
  "publishMeta document n = [(''documentId'', MStr (d_id document)), (''rolloutCustomers'', MInt (int n))]"

definition publishedEvent :: "string \<Rightarrow> AgreementDocument \<Rightarrow> AgreementVersion \<Rightarrow> nat \<Rightarrow> DomainEvent" where
  "publishedEvent adminUserId document version n =
    (newEvent VERSION_PUBLISHED ADMINISTRATION AkADMIN adminUserId
       (''Version '' @ v_versionLabel version @ '' published''))
      \<lparr>ev_versionId := Some (v_id version), ev_documentType := Some (d_type document),
       ev_audience := Some (d_audience document), ev_versionLabel := Some (v_versionLabel version),
       ev_metadata := Some (publishMeta document n)\<rparr>"

definition publish_retire ::
  "env \<Rightarrow> string \<Rightarrow> AgreementDocument \<Rightarrow> AgreementVersion \<Rightarrow> bool table M" where
  "publish_retire E adminUserId document version =
    bindM (versions_findByDocument (d_id document)) (\<lambda>siblings.
    foldM (retirePredecessor E adminUserId document) []
      (filter (\<lambda>v. v_id v \<noteq> v_id version \<and> v_status v = PUBLISHED) siblings))"

definition publish :: "env \<Rightarrow> string \<Rightarrow> string \<Rightarrow> PublishResult M" where
  "publish E versionId adminUserId =
    bindM (bindM (versions_findById versionId) (requireD VERSION_NOT_FOUND)) (\<lambda>version.
    thenM (liftR (validateForPublish version))
    (bindM (bindM (documents_findById (v_documentId version)) (requireD INVALID_STATE)) (\<lambda>document.
    bindM clock_now (\<lambda>publishedAt.
    (let effectiveImmediately = (v_validFrom version \<le> publishedAt) in
    thenM (versions_save (version\<lparr>v_status := PUBLISHED, v_publishedAt := Some publishedAt,
                                  v_publishedBy := Some adminUserId\<rparr>))
    (bindM (if effectiveImmediately then publish_retire E adminUserId document version else retM [])
      (\<lambda>blockingByCustomer.
    bindM (customers_findByRole (d_audience document)) (\<lambda>targets.
    thenM (forM targets (rolloutOne E adminUserId document version publishedAt blockingByCustomer))
    (bindM (newId E ''audit'') (\<lambda>auditId.
    thenM (audit_append
      \<lparr>aud_id = auditId, aud_action = PUBLISH, aud_actor = adminUserId,
       aud_targetType = ''AgreementVersion'', aud_targetId = v_id version, aud_reason = None,
       aud_metadata = Some (publishMeta document (length targets)), aud_createdAt = publishedAt\<rparr>)
    (thenM (recordEvent E (publishedEvent adminUserId document version (length targets)))
    (retM \<lparr>pr_versionId = v_id version, pr_rolloutCustomers = length targets,
           pr_publishedAt = publishedAt\<rparr>))))))))))))"

end
