(* ===== verification/Consent.thy ===== *)
theory Consent
  imports Consent_Inv
begin

text \<open>
  The consent module (\<open>src/src/consent\<close>): the services behind the portal popup and the hosted page.
  \<open>AcceptanceService\<close> records an active consent under an idempotency key, \<open>NotificationService\<close> the
  first provable access, \<open>ObjectionService\<close> an objection; then the handlers of the controller.

  The optional collaborators are arguments: \<open>conf\<close> sends the acceptance confirmation, \<open>notifyAdmins\<close>
  fans out to the admin notifiers.  The \<open>EventRecorder\<close> is always injected by the server's modules.
\<close>

section \<open>AcceptanceService\<close>

record AcceptanceInput =
  ai_customerId :: string
  ai_versionId :: string
  ai_displayedConsentText :: "string option"
  ai_idempotencyKey :: string
  ai_context :: CustomerContext
  ai_channel :: "AcceptanceChannel option"
  ai_evidenceNote :: "string option"

type_synonym confirmation = "(AgreementVersion \<Rightarrow> Acceptance \<Rightarrow> unit M) option"

text \<open>\<open>await this.confirmation?.sendForAcceptance(version, acceptance)\<close>.\<close>

definition callConfirmation :: "confirmation \<Rightarrow> AgreementVersion \<times> Acceptance \<Rightarrow> unit M" where
  "callConfirmation conf x = (case conf of None \<Rightarrow> retM () | Some send \<Rightarrow> send (fst x) (snd x))"

definition PASSIVE_EARLY_AFFIRMATION :: string where
  "PASSIVE_EARLY_AFFIRMATION = ''Actively accepted before the objection deadline''"

text \<open>The em dash between two blanks, in UTF-8.\<close>

definition emDash :: string where
  "emDash = [CHR 0xE2, CHR 0x80, CHR 0x94]"

definition throwStaleStateError :: "string \<Rightarrow> 'a M" where
  "throwStaleStateError stateId =
    bindM (states_findById stateId) (\<lambda>current.
    if map_option cvs_state current = Some ACCEPTED then throwD ALREADY_ACCEPTED
    else throwD INVALID_STATE)"

definition requiresConsentText :: "AgreementVersion \<Rightarrow> bool" where
  "requiresConsentText version \<longleftrightarrow> v_acceptanceMode version = ACTIVE"

definition checkConsentText :: "AgreementVersion \<Rightarrow> string option \<Rightarrow> unit result" where
  "checkConsentText version displayed =
    (if requiresConsentText version then
       (case displayed of
          None \<Rightarrow> domainError CONSENT_TEXT_REQUIRED
        | Some t \<Rightarrow> assertDisplayedConsentTextMatches version t)
     else Inr ())"

definition evidenceNoteFor :: "AgreementVersion \<Rightarrow> string option \<Rightarrow> string option" where
  "evidenceNoteFor version note =
    (if requiresConsentText version then note
     else Some (joinWith ('' '' @ emDash @ '' '')
       (filter (\<lambda>s. s \<noteq> []) [orElse note [], PASSIVE_EARLY_AFFIRMATION])))"

definition buildAcceptance ::
  "AcceptanceInput \<Rightarrow> AgreementVersion \<Rightarrow> AcceptanceChannel \<Rightarrow> string \<Rightarrow> Date \<Rightarrow> Acceptance result" where
  "buildAcceptance input version channel acceptanceId at =
    bindR (if requiresConsentText version then bindR (consentTextHashFor version) (\<lambda>h. Inr (Some h))
           else Inr None)
      (\<lambda>hash. Inr
        \<lparr>a_id = acceptanceId, a_customerId = ai_customerId input, a_versionId = ai_versionId input,
         a_method = ACTIVE_CONSENT, a_channel = channel, a_acceptedAt = at,
         a_actor = ctx_actor (ai_context input), a_isEffective = True,
         a_supersededByAcceptanceId = None,
         a_consentText = (if requiresConsentText version then v_consentText version else None),
         a_consentTextHash = hash, a_contentHash = Some (v_contentHash version),
         a_ipAddress = ctx_ipAddress (ai_context input), a_userAgent = ctx_userAgent (ai_context input),
         a_evidenceNote = evidenceNoteFor version (ai_evidenceNote input)\<rparr>)"

definition actorLabelOr :: "Actor \<Rightarrow> string \<Rightarrow> string" where
  "actorLabelOr actor fallback = orElse (act_name actor) (orElse (act_email actor) fallback)"

definition acceptedEvent ::
  "AcceptanceInput \<Rightarrow> Customer \<Rightarrow> AgreementVersion \<Rightarrow> AgreementDocument \<Rightarrow> AcceptanceChannel \<Rightarrow> DomainEvent" where
  "acceptedEvent input customer version document channel =
    (newEvent VERSION_ACCEPTED CONSENT AkCUSTOMER (actorLabelOr (ctx_actor (ai_context input)) ''customer'')
       (''Version '' @ v_versionLabel version @ '' accepted (ACTIVE_CONSENT, '' @ channelName channel @ '')''))
      \<lparr>ev_customerId := Some (ai_customerId input), ev_customerName := Some (customerDisplayName customer),
       ev_versionId := Some (ai_versionId input), ev_documentType := Some (d_type document),
       ev_audience := Some (d_audience document), ev_versionLabel := Some (v_versionLabel version),
       ev_channel := Some (channelName channel),
       ev_metadata := Some [(''method'', MStr ''ACTIVE_CONSENT'')]\<rparr>"

text \<open>The write part of \<open>process\<close>: the state first, conditional on what was read, then the evidence.\<close>

definition acceptance_write ::
  "env \<Rightarrow> AcceptanceInput \<Rightarrow> AgreementVersion \<Rightarrow> CustomerVersionState option \<Rightarrow> AcceptanceChannel \<Rightarrow> Acceptance M" where
  "acceptance_write E input version existing channel =
    bindM (case existing of
        Some s \<Rightarrow> retM s
      | None \<Rightarrow> bindM (ids_next E ''cvs'') (\<lambda>cvsId.
          retM (newState cvsId (ai_customerId input) (ai_versionId input)))) (\<lambda>state.
    bindM (liftR (accept state ACTIVE_CONSENT)) (\<lambda>accepted.
    thenM (case existing of
        Some s \<Rightarrow>
          bindM (states_transition (cvs_id s) (cvs_state s) ACCEPTED None) (\<lambda>transitioned.
          if transitioned = None then throwStaleStateError (cvs_id s) else retM ())
      | None \<Rightarrow> thenM (states_save accepted) (retM ()))
    (bindM (ids_next E ''a'') (\<lambda>acceptanceId.
    bindM clock_now (\<lambda>at.
    bindM (liftR (buildAcceptance input version channel acceptanceId at)) (\<lambda>acceptance.
    acceptances_append acceptance))))))"

definition acceptance_process ::
  "env \<Rightarrow> confirmation \<Rightarrow> AcceptanceInput \<Rightarrow> IdempotencyValue M" where
  "acceptance_process E conf input =
    bindM (bindM (versions_findById (ai_versionId input)) (requireD VERSION_NOT_FOUND)) (\<lambda>version.
    bindM (bindM (documents_findById (v_documentId version)) (requireD VERSION_NOT_FOUND)) (\<lambda>document.
    bindM clock_now (\<lambda>now.
    bindM (versions_findCurrentPublished (d_type document) (d_audience document) now) (\<lambda>current.
    thenM (liftR (assertVersionCurrent version current now))
    (bindM (bindM (customers_findById (ai_customerId input)) (requireD CUSTOMER_NOT_FOUND)) (\<lambda>customer.
    thenM (liftR (assertCustomerHasRole customer (d_audience document)))
    (thenM (liftR (checkConsentText version (ai_displayedConsentText input)))
    (let channel = orElse (ai_channel input) ChPORTAL in
     thenM (liftR (assertMethodChannelAllowed ACTIVE_CONSENT channel))
    (bindM (states_findByCustomerAndVersion (ai_customerId input) (ai_versionId input)) (\<lambda>existing.
    bindM (acceptance_write E input version existing channel) (\<lambda>acceptance.
    thenM (recordEvent E (acceptedEvent input customer version document channel))
    (thenM (callConfirmation conf (version, acceptance))
    (retM (AcceptanceResponse (a_id acceptance))))))))))))))) "

definition REPLAY_POLL_ATTEMPTS :: nat where
  "REPLAY_POLL_ATTEMPTS = 50"

text \<open>Each poll reads the store again; between the polls other requests may run, here none does.\<close>

primrec awaitReplayLoop :: "nat \<Rightarrow> string \<Rightarrow> IdempotencyValue M" where
  "awaitReplayLoop 0 idemKey = throwD INVALID_STATE"
| "awaitReplayLoop (Suc n) idemKey =
    bindM (idempotency_get idemKey) (\<lambda>replay.
    case replay of Some r \<Rightarrow> retM r | None \<Rightarrow> awaitReplayLoop n idemKey)"

definition awaitReplay :: "string \<Rightarrow> IdempotencyValue M" where
  "awaitReplay idemKey = awaitReplayLoop REPLAY_POLL_ATTEMPTS idemKey"

definition acceptanceKey :: "AcceptanceInput \<Rightarrow> string" where
  "acceptanceKey input = ''acceptance:'' @ ai_customerId input @ '':'' @ ai_idempotencyKey input"

definition acceptance_accept ::
  "env \<Rightarrow> confirmation \<Rightarrow> AcceptanceInput \<Rightarrow> IdempotencyValue M" where
  "acceptance_accept E conf input =
    (let idemKey = acceptanceKey input in
     bindM (idempotency_get idemKey) (\<lambda>replay.
     case replay of
       Some r \<Rightarrow> retM r
     | None \<Rightarrow>
        bindM (idempotency_reserve idemKey) (\<lambda>reserved.
        if \<not> reserved then awaitReplay idemKey
        else catchM
          (bindM (acceptance_process E conf input) (\<lambda>response.
           thenM (idempotency_put idemKey response) (retM response)))
          (\<lambda>err. thenM (idempotency_release idemKey) (throwM err)))))"

section \<open>NotificationService\<close>

definition PLAUSIBILITY_WINDOW_MS :: int where
  "PLAUSIBILITY_WINDOW_MS = 10 * 60 * 1000"

record NotificationInput =
  ni_customerId :: string
  ni_versionId :: string
  ni_channel :: NotificationChannel
  ni_displayedAt :: "Date option"
  ni_context :: CustomerContext

record NotificationResponse =
  nr_state :: CustomerVersionStateValue
  nr_notifiedAt :: "Date option"
  nr_deadlineAt :: "Date option"

definition assessPlausibility :: "Date option \<Rightarrow> bool M" where
  "assessPlausibility displayedAt =
    (case displayedAt of
       None \<Rightarrow> retM True
     | Some t \<Rightarrow> bindM clock_now (\<lambda>now. retM (\<bar>now - t\<bar> \<le> PLAUSIBILITY_WINDOW_MS)))"

definition notification_notify :: "env \<Rightarrow> NotificationInput \<Rightarrow> NotificationResponse M" where
  "notification_notify E input =
    bindM (bindM (versions_findById (ni_versionId input)) (requireD VERSION_NOT_FOUND)) (\<lambda>version.
    bindM (bindM (states_findByCustomerAndVersion (ni_customerId input) (ni_versionId input))
        (requireD INVALID_STATE)) (\<lambda>state.
    thenM (assessPlausibility (ni_displayedAt input))
    (let wasFirstAccess = (cvs_notifiedAt state = None) in
    bindM clock_now (\<lambda>now.
    bindM (liftR (recordAccess state now version (orElse (cvs_carryOverBlocking state) False))) (\<lambda>updated.
    bindM (states_setNotifiedAtomically (cvs_id state) (cvs_state updated) (cvs_notifiedAt updated)
        (cvs_deadlineAt updated)) (\<lambda>saved.
    thenM (whenM (wasFirstAccess \<and> cvs_notifiedAt saved \<noteq> None)
      (bindM (ids_next E ''n'') (\<lambda>eventId.
       bindM clock_now (\<lambda>at.
       thenM (notifications_append
         \<lparr>ne_id = eventId, ne_customerVersionStateId = cvs_id state, ne_channel = ni_channel input,
          ne_recipient = act_userId (ctx_actor (ni_context input)), ne_occurredAt = at,
          ne_providerRef = None\<rparr>)
       (retM ())))))
    (thenM (whenM (cvs_notifiedAt saved \<noteq> None)
      (recordEvent E
        ((newEvent PAGE_ACCESSED ACCESS AkCUSTOMER
            (actorLabelOr (ctx_actor (ni_context input)) (act_userId (ctx_actor (ni_context input))))
            (''Acceptance page opened via '' @ notificationChannelName (ni_channel input)
              @ '' (version '' @ v_versionLabel version @ '')''))
          \<lparr>ev_customerId := Some (ni_customerId input), ev_versionId := Some (ni_versionId input),
           ev_versionLabel := Some (v_versionLabel version),
           ev_channel := Some (notificationChannelName (ni_channel input)),
           ev_recipient := Some (act_userId (ctx_actor (ni_context input)))\<rparr>)))
    (retM \<lparr>nr_state = cvs_state saved, nr_notifiedAt = cvs_notifiedAt saved,
           nr_deadlineAt = cvs_deadlineAt saved\<rparr>))))))))"

section \<open>ObjectionService\<close>

record ObjectionInput =
  oi_customerId :: string
  oi_versionId :: string
  oi_reason :: "string option"
  oi_idempotencyKey :: string
  oi_context :: CustomerContext

record AdminNotification =
  an_event :: string
  an_title :: string
  an_body :: string
  an_customerId :: "string option"
  an_customerName :: "string option"
  an_versionId :: "string option"
  an_versionLabel :: "string option"
  an_reason :: "string option"
  an_occurredAt :: string

type_synonym adminNotifications = "(AdminNotification \<Rightarrow> unit M) option"

definition callNotifier :: "adminNotifications \<Rightarrow> AdminNotification \<Rightarrow> unit M" where
  "callNotifier notifyAdmins notification =
    (case notifyAdmins of None \<Rightarrow> retM () | Some notify \<Rightarrow> notify notification)"

definition objectionKey :: "ObjectionInput \<Rightarrow> string" where
  "objectionKey input = ''objection:'' @ oi_customerId input @ '':'' @ oi_idempotencyKey input"

definition newLine :: string where
  "newLine = [CHR 0x0A]"

definition objectionNotification ::
  "env \<Rightarrow> ObjectionInput \<Rightarrow> AgreementVersion \<Rightarrow> Objection \<Rightarrow> AdminNotification" where
  "objectionNotification E input version objection =
    (let actor = ctx_actor (oi_context input) in
     \<lparr>an_event = ''OBJECTION_RAISED'',
      an_title = ''Objection raised against '' @ v_versionLabel version,
      an_body = joinWith newLine
        [''A customer raised an objection (Widerspruch).'',
         ''Customer: '' @ oi_customerId input,
         ''Version: '' @ v_versionLabel version @ '' ('' @ oi_versionId input @ '')'',
         ''Raised by: '' @ actorLabelOr actor ''unknown'',
         ''Reason: '' @ orElse (oi_reason input) emDash,
         ''At: '' @ e_toISOString E (o_objectedAt objection)],
      an_customerId = Some (oi_customerId input), an_customerName = act_name actor,
      an_versionId = Some (oi_versionId input), an_versionLabel = Some (v_versionLabel version),
      an_reason = oi_reason input, an_occurredAt = e_toISOString E (o_objectedAt objection)\<rparr>)"

definition objectionEvent :: "ObjectionInput \<Rightarrow> AgreementVersion \<Rightarrow> DomainEvent" where
  "objectionEvent input version =
    (newEvent OBJECTION_RAISED CONSENT AkCUSTOMER (actorLabelOr (ctx_actor (oi_context input)) ''customer'')
       (''Objection raised against version '' @ v_versionLabel version
         @ (if orElse (oi_reason input) [] \<noteq> [] then '': '' @ orElse (oi_reason input) [] else [])))
      \<lparr>ev_customerId := Some (oi_customerId input), ev_versionId := Some (oi_versionId input),
       ev_versionLabel := Some (v_versionLabel version), ev_channel := Some ''PORTAL'',
       ev_metadata := Some (case oi_reason input of Some r \<Rightarrow> [(''reason'', MStr r)] | None \<Rightarrow> [])\<rparr>"

definition recordLateObjection :: "env \<Rightarrow> ObjectionInput \<Rightarrow> unit M" where
  "recordLateObjection E input =
    bindM (ids_next E ''esc'') (\<lambda>escId.
    bindM clock_now (\<lambda>at.
    thenM (escalations_record
      \<lparr>esc_id = escId, esc_kind = OBJECTION_AFTER_PERIOD, esc_customerId = Some (oi_customerId input),
       esc_versionId = Some (oi_versionId input), esc_occurredAt = at,
       esc_actor = Some (ctx_actor (oi_context input)), esc_reason = oi_reason input,
       esc_note = Some ''Objection received after the objection period expired (escalation note only).'',
       esc_recipient = None, esc_inactivatedEmail = None\<rparr>)
    (retM ())))"

definition objection_object ::
  "env \<Rightarrow> adminNotifications \<Rightarrow> ObjectionInput \<Rightarrow> IdempotencyValue M" where
  "objection_object E notifyAdmins input =
    (let idemKey = objectionKey input in
     bindM (idempotency_get idemKey) (\<lambda>replay.
     case replay of
       Some r \<Rightarrow> retM r
     | None \<Rightarrow>
    bindM (bindM (versions_findById (oi_versionId input)) (requireD VERSION_NOT_FOUND)) (\<lambda>version.
    bindM (bindM (states_findByCustomerAndVersion (oi_customerId input) (oi_versionId input))
        (requireD INVALID_STATE)) (\<lambda>state.
    bindM clock_now (\<lambda>now.
    bindM (catchM (liftR (objectState state version now))
        (\<lambda>err. thenM (whenM (err = DomainError OBJECTION_PERIOD_EXPIRED) (recordLateObjection E input))
                 (throwM err))) (\<lambda>objected.
    bindM (states_transition (cvs_id state) NOTIFIED (cvs_state objected) None) (\<lambda>transitioned.
    thenM (if transitioned = None then throwD INVALID_STATE else retM ())
    (bindM (ids_next E ''o'') (\<lambda>objectionId.
    bindM clock_now (\<lambda>at.
    (let objection =
          \<lparr>o_id = objectionId, o_customerId = oi_customerId input, o_versionId = oi_versionId input,
           o_objectedAt = at, o_actor = ctx_actor (oi_context input), o_reason = oi_reason input,
           o_channel = ChPORTAL, o_resolution = None, o_resolvedBy = None, o_resolvedAt = None\<rparr> in
    thenM (objections_append objection)
    (thenM (recordEvent E (objectionEvent input version))
    (thenM (callNotifier notifyAdmins (objectionNotification E input version objection))
    (let response = ObjectionResponse objectionId in
     thenM (idempotency_put idemKey response) (retM response)))))))))))))))"

end
