(* ===== verification/Sweepers.thy ===== *)
theory Sweepers
  imports Publish Consent
begin

text \<open>
  The scheduled jobs (\<open>src/src/sweeper\<close>): the activation sweeper (the deferred half of a scheduled
  publish), the deadline sweeper (tacit acceptance and blocking), the reminder job and the rollout
  notifications.  The mailers are arguments.
\<close>

section \<open>ActivationSweeperService\<close>

definition ACTIVATION_SWEEPER_ACTOR :: string where
  "ACTIVATION_SWEEPER_ACTOR = ''system:activation-sweeper''"

definition isSweeperEnabled :: "env \<Rightarrow> bool" where
  "isSweeperEnabled E = e_sweeperEnabled E"

definition recordBlockCarriedOver :: "env \<Rightarrow> string \<Rightarrow> AgreementVersion \<Rightarrow> unit M" where
  "recordBlockCarriedOver E customerId current =
    recordEvent E
      ((newEvent BLOCK_CARRIED_OVER CONSENT AkSYSTEM ACTIVATION_SWEEPER_ACTOR ''Predecessor block carried over'')
        \<lparr>ev_customerId := Some customerId, ev_versionId := Some (v_id current),
         ev_versionLabel := Some (v_versionLabel current)\<rparr>)"

definition carryBlockOver :: "env \<Rightarrow> string \<Rightarrow> AgreementVersion \<Rightarrow> unit M" where
  "carryBlockOver E customerId current =
    bindM (states_findByCustomerAndVersion customerId (v_id current)) (\<lambda>successor.
    case successor of
      None \<Rightarrow>
        bindM (newId E ''cvs'') (\<lambda>cvsId.
        thenM (states_save ((newState cvsId customerId (v_id current))
            \<lparr>cvs_deadlineAt := rolloutDeadlineFor current, cvs_carryOverBlocking := Some True\<rparr>))
        (thenM (recordEvent E
          ((newEvent OBLIGATION_ROLLED_OUT CONSENT AkSYSTEM ACTIVATION_SWEEPER_ACTOR
              (''Customer put under obligation for version '' @ v_versionLabel current))
            \<lparr>ev_customerId := Some customerId, ev_versionId := Some (v_id current),
             ev_versionLabel := Some (v_versionLabel current)\<rparr>))
        (recordBlockCarriedOver E customerId current)))
    | Some s \<Rightarrow>
        (let isOpenForCarryOver = (cvs_state s = PENDING_NOTIFICATION \<or> cvs_state s = NOTIFIED) in
         whenM (isOpenForCarryOver \<and> cvs_carryOverBlocking s \<noteq> Some True)
           (thenM (states_save (s\<lparr>cvs_carryOverBlocking := Some True\<rparr>))
             (recordBlockCarriedOver E customerId current))))"

definition activatePredecessor ::
  "env \<Rightarrow> AgreementDocument \<Rightarrow> AgreementVersion \<Rightarrow> AgreementVersion \<Rightarrow> unit M" where
  "activatePredecessor E document current predecessor =
    thenM (versions_save (predecessor\<lparr>v_status := RETIRED\<rparr>))
    (thenM (recordEvent E (retiredEvent AkSYSTEM ACTIVATION_SWEEPER_ACTOR document predecessor))
    (bindM (states_findOpenByVersion (v_id predecessor)) (\<lambda>openStates.
    forM openStates (\<lambda>openState.
      bindM (supersedeOpen openState) (\<lambda>wasBlocking.
      whenM wasBlocking (carryBlockOver E (cvs_customerId openState) current))))))"

definition activateOne :: "env \<Rightarrow> AgreementDocument \<Rightarrow> unit M" where
  "activateOne E document =
    bindM clock_now (\<lambda>now.
    bindM (versions_findCurrentPublished (d_type document) (d_audience document) now) (\<lambda>found.
    case found of
      None \<Rightarrow> retM ()
    | Some current \<Rightarrow>
        bindM (versions_findByDocument (d_id document)) (\<lambda>siblings.
        (let predecessors = filter (\<lambda>v. v_id v \<noteq> v_id current \<and> v_status v = PUBLISHED
                                       \<and> v_validFrom v \<le> now) siblings in
         if predecessors = [] then retM ()
         else
           thenM (recordEvent E
             ((newEvent VERSION_ACTIVATED ADMINISTRATION AkSYSTEM ACTIVATION_SWEEPER_ACTOR
                (''Version '' @ v_versionLabel current @ '' activated (scheduled publish became effective)''))
               \<lparr>ev_versionId := Some (v_id current), ev_documentType := Some (d_type document),
                ev_audience := Some (d_audience document),
                ev_versionLabel := Some (v_versionLabel current)\<rparr>))
           (forM predecessors (activatePredecessor E document current))))))"

definition activation_run :: "env \<Rightarrow> unit M" where
  "activation_run E =
    whenM (isSweeperEnabled E)
      (bindM documents_findAll (\<lambda>documents.
       forM documents (\<lambda>document. thenM (attemptM (activateOne E document)) (retM ()))))"

section \<open>DeadlineSweeperService\<close>

definition SWEEPER_SYSTEM_ACTOR :: Actor where
  "SWEEPER_SYSTEM_ACTOR = \<lparr>act_userId = ''system:deadline-sweeper'', act_name = Some ''Deadline-Sweeper'',
     act_email = None, act_portalRole = None\<rparr>"

definition tacitAcceptance ::
  "string \<Rightarrow> CustomerVersionState \<Rightarrow> AgreementVersion \<Rightarrow> Date \<Rightarrow> Acceptance result" where
  "tacitAcceptance acceptanceId state version at =
    bindR (if v_consentText version \<noteq> None then bindR (consentTextHashFor version) (\<lambda>h. Inr (Some h))
           else Inr None)
      (\<lambda>hash. Inr
        \<lparr>a_id = acceptanceId, a_customerId = cvs_customerId state, a_versionId = cvs_versionId state,
         a_method = TACIT, a_channel = ChSYSTEM, a_acceptedAt = at, a_actor = SWEEPER_SYSTEM_ACTOR,
         a_isEffective = True, a_supersededByAcceptanceId = None,
         a_consentText = v_consentText version, a_consentTextHash = hash,
         a_contentHash = Some (v_contentHash version), a_ipAddress = None, a_userAgent = None,
         a_evidenceNote = None\<rparr>)"

definition sweptEvent ::
  "EventType \<Rightarrow> string \<Rightarrow> CustomerVersionState \<Rightarrow> AgreementVersion \<Rightarrow> DomainEvent" where
  "sweptEvent type summary state version =
    (newEvent type CONSENT AkSYSTEM (act_userId SWEEPER_SYSTEM_ACTOR) summary)
      \<lparr>ev_customerId := Some (cvs_customerId state), ev_versionId := Some (cvs_versionId state),
       ev_versionLabel := Some (v_versionLabel version)\<rparr>"

definition sweepOne :: "env \<Rightarrow> confirmation \<Rightarrow> CustomerVersionState \<Rightarrow> unit M" where
  "sweepOne E conf state =
    bindM (versions_findById (cvs_versionId state)) (\<lambda>found.
    case found of
      None \<Rightarrow> retM ()
    | Some version \<Rightarrow>
        bindM clock_now (\<lambda>now.
        (let result = sweep state version now in
         if sr_outcome result = NOOP then retM ()
         else bindM (states_transition (cvs_id state) (cvs_state state) (cvs_state (sr_state result)) None)
           (\<lambda>transitioned.
         if transitioned = None then retM ()
         else if sr_outcome result = TACIT_ACCEPTED then
           bindM (randomUUID E) (\<lambda>acceptanceId.
           bindM clock_now (\<lambda>at.
           bindM (liftR (tacitAcceptance acceptanceId state version at)) (\<lambda>acceptance.
           thenM (acceptances_append acceptance)
           (thenM (recordEvent E
             ((sweptEvent VERSION_ACCEPTED ''Passively accepted (objection period lapsed)'' state version)
               \<lparr>ev_channel := Some ''SYSTEM'', ev_metadata := Some [(''method'', MStr ''TACIT'')]\<rparr>))
           (callConfirmation conf (version, acceptance))))))
         else if sr_outcome result = SWEPT_BLOCKING then
           recordEvent E (sweptEvent DEADLINE_EXPIRED (''Deadline expired '' @ emDash @ '' became blocking'') state version)
         else retM ()))))"

definition deadline_run :: "env \<Rightarrow> confirmation \<Rightarrow> unit M" where
  "deadline_run E conf =
    whenM (isSweeperEnabled E)
      (bindM clock_now (\<lambda>now.
       bindM (states_findDueForSweep now) (\<lambda>dueStates.
       forM dueStates (\<lambda>state. thenM (attemptM (sweepOne E conf state)) (retM ())))))"

text \<open>The hourly job: the activation sweep first, then the deadlines.\<close>

definition sweeper_job :: "env \<Rightarrow> confirmation \<Rightarrow> unit M" where
  "sweeper_job E conf = thenM (activation_run E) (deadline_run E conf)"

section \<open>ReminderService\<close>

record ReminderCandidate =
  rc_state :: CustomerVersionState
  rc_customer :: Customer
  rc_version :: AgreementVersion
  rc_recipient :: string

text \<open>\<open>ReminderMailer.sendReminder(customer, recipient, version, deadlineAt)\<close>; the reference it returns
  is not used here.\<close>

type_synonym reminderMailer = "Customer \<Rightarrow> string \<Rightarrow> AgreementVersion \<Rightarrow> Date \<Rightarrow> unit M"

definition REMINDER_THRESHOLDS_DAYS :: "int list" where
  "REMINDER_THRESHOLDS_DAYS = [7, 2]"

definition resolveRecipient :: "string \<Rightarrow> string option M" where
  "resolveRecipient stateId =
    bindM (notifications_findByState stateId) (\<lambda>events.
    retM (case sort_key (\<lambda>e. - ne_occurredAt e) events of [] \<Rightarrow> None | latest # _ \<Rightarrow> Some (ne_recipient latest)))"

definition isDueForReminder :: "Date \<Rightarrow> CustomerVersionState \<Rightarrow> bool" where
  "isDueForReminder before state \<longleftrightarrow>
    \<not> ((cvs_state state \<noteq> NOTIFIED \<and> cvs_state state \<noteq> PENDING_NOTIFICATION)
       \<or> (case cvs_deadlineAt state of None \<Rightarrow> True | Some t \<Rightarrow> t > before))"

definition candidateOf :: "Date \<Rightarrow> Customer \<Rightarrow> CustomerVersionState \<Rightarrow> ReminderCandidate option M" where
  "candidateOf before customer state =
    (if \<not> isDueForReminder before state then retM None
     else bindM (versions_findById (cvs_versionId state)) (\<lambda>version.
       bindM (resolveRecipient (cvs_id state)) (\<lambda>recipient.
       retM (case (version, recipient) of
           (Some v, Some r) \<Rightarrow>
             Some \<lparr>rc_state = state, rc_customer = customer, rc_version = v, rc_recipient = r\<rparr>
         | _ \<Rightarrow> None))))"

definition reminders_findDue :: "Date \<Rightarrow> ReminderCandidate list M" where
  "reminders_findDue before =
    bindM customers_findAll (\<lambda>customers.
    bindM (mapM (\<lambda>customer.
        bindM (states_findByCustomer (c_id customer)) (\<lambda>states.
        mapM (candidateOf before customer) states)) customers) (\<lambda>found.
    retM (List.map_filter id (concat found))))"

text \<open>An index below 0 is \<open>undefined\<close> in the array, and the comparison with \<open>NaN\<close> is false.\<close>

definition isThresholdDue :: "Date \<Rightarrow> int \<Rightarrow> Date \<Rightarrow> bool" where
  "isThresholdDue deadlineAt thresholdIndex now \<longleftrightarrow>
    0 \<le> thresholdIndex \<and> nat thresholdIndex < length REMINDER_THRESHOLDS_DAYS
    \<and> now \<ge> deadlineAt - REMINDER_THRESHOLDS_DAYS ! nat thresholdIndex * MS_PER_DAY"

function remindLoop ::
  "reminderMailer \<Rightarrow> ReminderCandidate \<Rightarrow> Date \<Rightarrow> Date \<Rightarrow> int \<Rightarrow> int M" where
  "remindLoop mailer candidate deadlineAt now remindersSent =
    (if remindersSent < int (length REMINDER_THRESHOLDS_DAYS) \<and> isThresholdDue deadlineAt remindersSent now
     then thenM (mailer (rc_customer candidate) (rc_recipient candidate) (rc_version candidate) deadlineAt)
       (remindLoop mailer candidate deadlineAt now (remindersSent + 1))
     else retM remindersSent)"
  by pat_completeness auto
termination
  by (relation "measure (\<lambda>(_, _, _, _, n). nat (int (length REMINDER_THRESHOLDS_DAYS) - n))") auto

declare remindLoop.simps [simp del]

definition remindOne :: "reminderMailer \<Rightarrow> Date \<Rightarrow> ReminderCandidate \<Rightarrow> unit M" where
  "remindOne mailer now candidate =
    (let state = rc_state candidate in
     if v_acceptanceMode (rc_version candidate) = PASSIVE then retM ()
     else (case cvs_deadlineAt state of
         None \<Rightarrow> retM ()
       | Some deadlineAt \<Rightarrow>
           bindM (remindLoop mailer candidate deadlineAt now (cvs_remindersSent state)) (\<lambda>remindersSent.
           if remindersSent \<noteq> cvs_remindersSent state
           then thenM (states_transition (cvs_id state) (cvs_state state) (cvs_state state) (Some remindersSent))
             (retM ())
           else retM ())))"

definition reminder_run :: "reminderMailer \<Rightarrow> unit M" where
  "reminder_run mailer =
    bindM clock_now (\<lambda>now.
    bindM (reminders_findDue (now + hd REMINDER_THRESHOLDS_DAYS * MS_PER_DAY)) (\<lambda>candidates.
    forM candidates (remindOne mailer now)))"

section \<open>RolloutNotificationService\<close>

definition DEFAULT_BATCH :: nat where
  "DEFAULT_BATCH = 100"

text \<open>The accumulator is the version cache of the run.\<close>

definition rolloutNotifyOne ::
  "rolloutNotifier \<Rightarrow> (AgreementVersion option) table \<Rightarrow> CustomerVersionState \<Rightarrow>
   (AgreementVersion option) table M" where
  "rolloutNotifyOne notifier versionCache state =
    thenM (states_clearNotificationDue (cvs_id state))
    (bindM (if map_of versionCache (cvs_versionId state) = None
        then bindM (versions_findById (cvs_versionId state)) (\<lambda>v.
          retM (AList.update (cvs_versionId state) v versionCache))
        else retM versionCache) (\<lambda>cache.
    bindM (customers_findById (cvs_customerId state)) (\<lambda>customer.
    case (map_of cache (cvs_versionId state), customer) of
      (Some (Some version), Some c) \<Rightarrow>
        if c_deletedAt c \<noteq> None then retM cache
        else thenM (attemptM (notifier c version)) (retM cache)
    | _ \<Rightarrow> retM cache)))"

definition rolloutNotification_run :: "bool \<Rightarrow> rolloutNotifier \<Rightarrow> nat \<Rightarrow> unit M" where
  "rolloutNotification_run disabled notifier batchSize =
    (if disabled then retM ()
     else bindM (states_findDueForNotification batchSize) (\<lambda>due.
       thenM (foldM (rolloutNotifyOne notifier) [] due) (retM ())))"

end
