(* ===== verification/Email_Template.thy ===== *)
theory Email_Template
  imports Stores
begin

text \<open>
  \<open>src/src/domain/email-template.ts\<close>: substitution of placeholders, escaping, and the derivation of the
  text part.  A regular expression of the source is a scanner that finds the same leftmost match; where
  a quantifier may backtrack, the scanner tries the same choices in the same order.
\<close>

section \<open>Replacing\<close>

text \<open>\<open>s.replace(/x/g, y)\<close> for a literal \<open>x\<close>.\<close>

function replaceAll :: "string \<Rightarrow> string \<Rightarrow> string \<Rightarrow> string" where
  "replaceAll x y s =
    (if s = [] \<or> x = [] then s
     else if take (length x) s = x then y @ replaceAll x y (drop (length x) s)
     else hd s # replaceAll x y (tl s))"
  by pat_completeness auto
termination
  by (relation "measure (\<lambda>(_, _, s). length s)") auto

declare replaceAll.simps [simp del]

section \<open>Variables\<close>

definition EMAIL_TEMPLATE_VARIABLES :: "string list" where
  "EMAIL_TEMPLATE_VARIABLES =
    [''customerName'', ''firstName'', ''lastName'', ''companyName'', ''documentName'', ''documentType'',
     ''audience'', ''versionLabel'', ''changeSummary'', ''validFrom'', ''deadlineAt'', ''acceptedAt'',
     ''acceptanceLink'', ''documentPdfUrl'', ''appName'']"

type_synonym TemplateVars = "string table"

definition emptyTemplateVars :: TemplateVars where
  "emptyTemplateVars = map (\<lambda>name. (name, [])) EMAIL_TEMPLATE_VARIABLES"

record RenderedTemplate =
  rt_subject :: string
  rt_html :: string
  rt_text :: string

section \<open>Escaping\<close>

definition escapeHtml :: "string \<Rightarrow> string" where
  "escapeHtml value =
    replaceAll [CHR 0x27] ''&#39;''
      (replaceAll [CHR 0x22] ''&quot;''
        (replaceAll ''>'' ''&gt;''
          (replaceAll ''<'' ''&lt;''
            (replaceAll ''&'' ''&amp;'' value))))"

definition decodeEntities :: "string \<Rightarrow> string" where
  "decodeEntities input =
    replaceAll ''&#39;'' [CHR 0x27]
      (replaceAll ''&quot;'' [CHR 0x22]
        (replaceAll ''&gt;'' ''>''
          (replaceAll ''&lt;'' ''<''
            (replaceAll ''&amp;'' ''&''
              (replaceAll ''&nbsp;'' '' '' input)))))"

section \<open>Substitution\<close>

definition isNameChar :: "char \<Rightarrow> bool" where
  "isNameChar c \<longleftrightarrow>
    c \<in> set ''abcdefghijklmnopqrstuvwxyzABCDEFGHIJKLMNOPQRSTUVWXYZ0123456789_''"

text \<open>A match of \<open>\{\{\s*([a-zA-Z0-9_]+)\s*\}\}\<close> at the start: the name and what follows the match.\<close>

definition placeholderAt :: "string \<Rightarrow> (string \<times> string) option" where
  "placeholderAt s =
    (if take 2 s \<noteq> ''{{'' then None
     else (let s1 = dropWhile isSpaceChar (drop 2 s);
               name = takeWhile isNameChar s1;
               s2 = dropWhile isSpaceChar (dropWhile isNameChar s1)
           in if name = [] \<or> take 2 s2 \<noteq> ''}}'' then None else Some (name, drop 2 s2)))"

lemma placeholderAt_shorter: "placeholderAt s = Some (n, r) \<Longrightarrow> length r < length s"
proof -
  assume "placeholderAt s = Some (n, r)"
  then have s: "take 2 s = ''{{''" and r: "r = drop 2 (dropWhile isSpaceChar (dropWhile isNameChar (dropWhile isSpaceChar (drop 2 s))))"
    by (auto simp: placeholderAt_def Let_def split: if_splits)
  have "length s \<ge> 2" using s by (cases s; cases "tl s") auto
  moreover have "length r \<le> length (drop 2 s)"
  proof -
    have shorter: "length (dropWhile P xs) \<le> length xs" for P and xs :: string
      by (rule length_dropWhile_le)
    have "length r \<le> length (dropWhile isSpaceChar (dropWhile isNameChar (dropWhile isSpaceChar (drop 2 s))))"
      by (simp add: r)
    also note shorter
    also note shorter
    also note shorter
    finally show ?thesis .
  qed
  ultimately show ?thesis by simp
qed

definition placeholderText :: "TemplateVars \<Rightarrow> bool \<Rightarrow> string \<Rightarrow> string" where
  "placeholderText vars escape name =
    (case map_of vars name of
       None \<Rightarrow> ''{{'' @ name @ ''}}''
     | Some value \<Rightarrow> if escape then escapeHtml value else value)"

function substitute :: "TemplateVars \<Rightarrow> bool \<Rightarrow> string \<Rightarrow> string" where
  "substitute vars escape s =
    (case s of
       [] \<Rightarrow> []
     | c # cs \<Rightarrow>
        (case placeholderAt s of
           Some (name, rest) \<Rightarrow> placeholderText vars escape name @ substitute vars escape rest
         | None \<Rightarrow> c # substitute vars escape cs))"
  by pat_completeness auto
termination
  by (relation "measure (\<lambda>(_, _, s). length s)") (auto dest: placeholderAt_shorter)

declare substitute.simps [simp del]

section \<open>The text part\<close>

text \<open>\<open>replace(/<[^>]+>/g, '')\<close>.\<close>

function stripTags :: "string \<Rightarrow> string" where
  "stripTags s =
    (case s of
       [] \<Rightarrow> []
     | c # cs \<Rightarrow>
        (let body = takeWhile (\<lambda>x. x \<noteq> CHR ''>'') cs; rest = dropWhile (\<lambda>x. x \<noteq> CHR ''>'') cs in
         if c = CHR ''<'' \<and> body \<noteq> [] \<and> rest \<noteq> [] then stripTags (tl rest) else c # stripTags cs))"
  by pat_completeness auto
termination
proof (relation "measure length")
  fix s :: string and c cs body rest
  assume "s = c # cs" and r: "rest = dropWhile (\<lambda>x. x \<noteq> CHR ''>'') cs"
  then show "(tl rest, s) \<in> measure length"
    using length_dropWhile_le[of "\<lambda>x. x \<noteq> CHR ''>''" cs] by simp
qed auto

declare stripTags.simps [simp del]

text \<open>The lazy \<open>([\s\S]*?)<\/a>\<close>, without regard to case: what precedes the first \<open></a>\<close> and what follows.\<close>

fun untilAnchorEnd :: "string \<Rightarrow> (string \<times> string) option" where
  "untilAnchorEnd [] = None"
| "untilAnchorEnd (c # cs) =
    (if toLowerCase (take 4 (c # cs)) = ''</a>'' then Some ([], drop 4 (c # cs))
     else map_option (\<lambda>(inner, rest). (c # inner, rest)) (untilAnchorEnd cs))"

definition isQuote :: "char \<Rightarrow> bool" where
  "isQuote c \<longleftrightarrow> c = CHR 0x22 \<or> c = CHR 0x27"

text \<open>\<open>href=["']([^"']*)["'][^>]*>([\s\S]*?)<\/a>\<close> at the start: the link, the inner text, the rest.\<close>

definition hrefAt :: "string \<Rightarrow> (string \<times> string \<times> string) option" where
  "hrefAt s =
    (if toLowerCase (take 5 s) \<noteq> ''href='' then None
     else (case drop 5 s of
         [] \<Rightarrow> None
       | q # s1 \<Rightarrow>
           (if \<not> isQuote q then None
            else (let href = takeWhile (\<lambda>c. \<not> isQuote c) s1; s2 = dropWhile (\<lambda>c. \<not> isQuote c) s1 in
              if s2 = [] then None
              else (let s3 = dropWhile (\<lambda>c. c \<noteq> CHR ''>'') (tl s2) in
                if s3 = [] then None
                else map_option (\<lambda>(inner, rest). (href, inner, rest)) (untilAnchorEnd (tl s3)))))))"

text \<open>The greedy \<open>[^>]*\<close> before it: the longest prefix first.\<close>

fun lastHref :: "nat \<Rightarrow> string \<Rightarrow> (string \<times> string \<times> string) option" where
  "lastHref 0 s = hrefAt s"
| "lastHref (Suc n) s = (case hrefAt (drop (Suc n) s) of Some m \<Rightarrow> Some m | None \<Rightarrow> lastHref n s)"

definition isWordChar :: "char \<Rightarrow> bool" where
  "isWordChar c = isNameChar c"

definition anchorAt :: "string \<Rightarrow> (string \<times> string \<times> string) option" where
  "anchorAt s =
    (if toLowerCase (take 2 s) \<noteq> ''<a'' \<or> (drop 2 s \<noteq> [] \<and> isWordChar (s ! 2)) then None
     else lastHref (length (takeWhile (\<lambda>c. c \<noteq> CHR ''>'') (drop 2 s))) (drop 2 s))"

definition linkText :: "string \<Rightarrow> string \<Rightarrow> string" where
  "linkText href inner =
    (let label = trim (stripTags inner); url = trim (decodeEntities href) in
     if url = [] then label
     else if label = [] \<or> label = url then url
     else label @ '' ('' @ url @ '')'')"

text \<open>The fuel is the length of the text, since each step consumes a character.\<close>

fun replaceAnchors :: "nat \<Rightarrow> string \<Rightarrow> string" where
  "replaceAnchors 0 s = s"
| "replaceAnchors (Suc n) [] = []"
| "replaceAnchors (Suc n) (c # cs) =
    (case anchorAt (c # cs) of
       Some (href, inner, rest) \<Rightarrow> linkText href inner @ replaceAnchors n rest
     | None \<Rightarrow> c # replaceAnchors n cs)"

text \<open>\<open><\s*br\s*\/?\s*>\<close> and \<open><\/\s*(p|div|tr|h[1-6]|li|table)\s*>\<close> at the start: what follows.\<close>

definition closeTag :: "string \<Rightarrow> string option" where
  "closeTag s = (case dropWhile isSpaceChar s of
      [] \<Rightarrow> None | c # cs \<Rightarrow> if c = CHR ''>'' then Some cs else None)"

definition brAt :: "string \<Rightarrow> string option" where
  "brAt s =
    (if take 1 s \<noteq> ''<'' then None
     else (let s1 = dropWhile isSpaceChar (drop 1 s) in
       if toLowerCase (take 2 s1) \<noteq> ''br'' then None
       else (let s2 = dropWhile isSpaceChar (drop 2 s1) in
         closeTag (if take 1 s2 = ''/'' then drop 1 s2 else s2))))"

definition BLOCK_TAGS :: "string list" where
  "BLOCK_TAGS = [''p'', ''div'', ''tr'', ''h1'', ''h2'', ''h3'', ''h4'', ''h5'', ''h6'', ''li'', ''table'']"

definition blockEndAt :: "string \<Rightarrow> string option" where
  "blockEndAt s =
    (if take 2 s \<noteq> ''</'' then None
     else (let s1 = dropWhile isSpaceChar (drop 2 s);
               inName = (\<lambda>c. \<not> isSpaceChar c \<and> c \<noteq> CHR ''>'') in
       if toLowerCase (takeWhile inName s1) \<notin> set BLOCK_TAGS then None
       else closeTag (dropWhile inName s1)))"

fun breakTags :: "(string \<Rightarrow> string option) \<Rightarrow> nat \<Rightarrow> string \<Rightarrow> string" where
  "breakTags tagAt 0 s = s"
| "breakTags tagAt (Suc n) [] = []"
| "breakTags tagAt (Suc n) (c # cs) =
    (case tagAt (c # cs) of
       Some rest \<Rightarrow> CHR 0x0A # breakTags tagAt n rest
     | None \<Rightarrow> c # breakTags tagAt n cs)"

fun splitLines :: "string \<Rightarrow> string \<Rightarrow> string list" where
  "splitLines cur [] = [cur]"
| "splitLines cur (c # cs) =
    (if c = CHR 0x0A then cur # splitLines [] cs else splitLines (cur @ [c]) cs)"

definition isBlank :: "char \<Rightarrow> bool" where
  "isBlank c \<longleftrightarrow> c = CHR '' '' \<or> c = CHR 0x09"

text \<open>\<open>replace(/[ \t]+/g, ' ')\<close> and \<open>replace(/\n{3,}/g, '\n\n')\<close>; the flag and the number say what precedes.\<close>

fun collapseBlanks :: "bool \<Rightarrow> string \<Rightarrow> string" where
  "collapseBlanks inRun [] = []"
| "collapseBlanks inRun (c # cs) =
    (if isBlank c then (if inRun then collapseBlanks True cs else CHR '' '' # collapseBlanks True cs)
     else c # collapseBlanks False cs)"

fun collapseBreaks :: "nat \<Rightarrow> string \<Rightarrow> string" where
  "collapseBreaks n [] = []"
| "collapseBreaks n (c # cs) =
    (if c = CHR 0x0A then (if n < 2 then c # collapseBreaks (Suc n) cs else collapseBreaks n cs)
     else c # collapseBreaks 0 cs)"

definition deriveTextFromHtml :: "string \<Rightarrow> string" where
  "deriveTextFromHtml html =
    (let withLinks = replaceAnchors (length html) html;
         withBr = breakTags brAt (length withLinks) withLinks;
         withBreaks = breakTags blockEndAt (length withBr) withBr;
         stripped = decodeEntities (stripTags withBreaks)
     in trim (collapseBreaks 0
          (joinWith [CHR 0x0A] (map (\<lambda>line. trim (collapseBlanks False line)) (splitLines [] stripped)))))"

definition renderTemplate :: "EmailTemplate \<Rightarrow> TemplateVars \<Rightarrow> RenderedTemplate" where
  "renderTemplate template vars =
    (let subject = substitute vars False (et_subject template);
         html = substitute vars True (et_html template)
     in \<lparr>rt_subject = subject, rt_html = html, rt_text = deriveTextFromHtml html\<rparr>)"

section \<open>The built-in templates\<close>

definition DEFAULT_NOTIFICATION_TEMPLATE_ID :: string where
  "DEFAULT_NOTIFICATION_TEMPLATE_ID = ''tpl-default-notification''"

definition DEFAULT_REMINDER_TEMPLATE_ID :: string where
  "DEFAULT_REMINDER_TEMPLATE_ID = ''tpl-default-reminder''"

definition DEFAULT_ACCEPTANCE_CONFIRMATION_TEMPLATE_ID :: string where
  "DEFAULT_ACCEPTANCE_CONFIRMATION_TEMPLATE_ID = ''tpl-default-acceptance-confirmation''"

fun defaultTemplateIdForKind :: "EmailTemplateKind \<Rightarrow> string" where
  "defaultTemplateIdForKind VERSION_NOTIFICATION = DEFAULT_NOTIFICATION_TEMPLATE_ID"
| "defaultTemplateIdForKind REMINDER = DEFAULT_REMINDER_TEMPLATE_ID"
| "defaultTemplateIdForKind ACCEPTANCE_CONFIRMATION = DEFAULT_ACCEPTANCE_CONFIRMATION_TEMPLATE_ID"

definition isDefaultEmailTemplateId :: "string \<Rightarrow> bool" where
  "isDefaultEmailTemplateId templateId \<longleftrightarrow>
    templateId \<in> set (map defaultTemplateIdForKind [VERSION_NOTIFICATION, REMINDER, ACCEPTANCE_CONFIRMATION])"

end
