(* ===== verification/Json.thy ===== *)
theory Json
  imports Domain_Types
begin

text \<open>
  \<open>JSON.stringify\<close> and \<open>JSON.parse\<close> of the standard library, on the values the program prints and reads.
  The texts are UTF-8.  A printer differs from another only in how it escapes a character of a string;
  every printer whose escapes the reader undoes is read back.
\<close>

section \<open>Printing\<close>

fun decimalNat :: "nat \<Rightarrow> string" where
  "decimalNat n = (if n < 10 then [char_of (48 + n)] else decimalNat (n div 10) @ [char_of (48 + n mod 10)])"

declare decimalNat.simps [simp del]

definition decimal :: "int \<Rightarrow> string" where
  "decimal i = (if i < 0 then CHR ''-'' # decimalNat (nat (- i)) else decimalNat (nat i))"

definition lowerHex :: "nat \<Rightarrow> char" where
  "lowerHex n = ''0123456789abcdef'' ! n"

definition jsonEscape :: "char \<Rightarrow> string" where
  "jsonEscape c =
    (if c = CHR 0x22 \<or> c = CHR 0x5C then [CHR 0x5C, c]
     else if c = CHR 0x08 then [CHR 0x5C, CHR ''b'']
     else if c = CHR 0x09 then [CHR 0x5C, CHR ''t'']
     else if c = CHR 0x0A then [CHR 0x5C, CHR ''n'']
     else if c = CHR 0x0C then [CHR 0x5C, CHR ''f'']
     else if c = CHR 0x0D then [CHR 0x5C, CHR ''r'']
     else let n = of_char c :: nat in
       if n < 32 then [CHR 0x5C, CHR ''u'', CHR ''0'', CHR ''0'', lowerHex (n div 16), lowerHex (n mod 16)]
       else [c])"

definition quoted :: "(char \<Rightarrow> string) \<Rightarrow> string \<Rightarrow> string" where
  "quoted esc s = [CHR 0x22] @ concat (map esc s) @ [CHR 0x22]"

fun printJson :: "(char \<Rightarrow> string) \<Rightarrow> meta \<Rightarrow> string" where
  "printJson esc (MStr s) = quoted esc s"
| "printJson esc (MInt i) = decimal i"
| "printJson esc (MReal s) = s"
| "printJson esc (MBool b) = (if b then ''true'' else ''false'')"
| "printJson esc MNull = ''null''"
| "printJson esc (MList xs) = ''['' @ joinWith '','' (map (printJson esc) xs) @ '']''"
| "printJson esc (MObj ps) =
     ''{'' @ joinWith '','' (map (\<lambda>(k, v). quoted esc k @ '':'' @ printJson esc v) ps) @ ''}''"

definition jsonString :: "string \<Rightarrow> string" where
  "jsonString = quoted jsonEscape"

definition jsonText :: "meta \<Rightarrow> string" where
  "jsonText = printJson jsonEscape"

text \<open>The block embedded in the acceptance page has every \<open><\<close> as an escape.\<close>

definition scriptEscape :: "char \<Rightarrow> string" where
  "scriptEscape c =
    (if c = CHR ''<'' then [CHR 0x5C, CHR ''u'', CHR ''0'', CHR ''0'', CHR ''3'', CHR ''c''] else jsonEscape c)"

section \<open>Reading\<close>

definition isJsonDigit :: "char \<Rightarrow> bool" where
  "isJsonDigit c \<longleftrightarrow> (let n = of_char c :: nat in 48 \<le> n \<and> n \<le> 57)"

definition digitValue :: "char \<Rightarrow> nat" where
  "digitValue c = of_char c - 48"

definition decimalValue :: "string \<Rightarrow> nat" where
  "decimalValue s = foldl (\<lambda>n c. 10 * n + digitValue c) 0 s"

definition hexValue :: "char \<Rightarrow> nat option" where
  "hexValue c =
    (let n = of_char c :: nat in
     if 48 \<le> n \<and> n \<le> 57 then Some (n - 48)
     else if 97 \<le> n \<and> n \<le> 102 then Some (n - 87)
     else if 65 \<le> n \<and> n \<le> 70 then Some (n - 55) else None)"

text \<open>The code unit of \<open>\uXXXX\<close> and its UTF-8 form; the halves of a surrogate pair are joined.\<close>

fun hex4 :: "string \<Rightarrow> (nat \<times> string) option" where
  "hex4 (a # b # c # d # s) =
    (case (hexValue a, hexValue b, hexValue c, hexValue d) of
       (Some w, Some x, Some y, Some z) \<Rightarrow> Some (4096 * w + 256 * x + 16 * y + z, s)
     | _ \<Rightarrow> None)"
| "hex4 _ = None"

definition utf8 :: "nat \<Rightarrow> string" where
  "utf8 n =
    (if n < 128 then [char_of n]
     else if n < 2048 then [char_of (192 + n div 64), char_of (128 + n mod 64)]
     else if n < 65536 then
       [char_of (224 + n div 4096), char_of (128 + n div 64 mod 64), char_of (128 + n mod 64)]
     else [char_of (240 + n div 262144), char_of (128 + n div 4096 mod 64),
           char_of (128 + n div 64 mod 64), char_of (128 + n mod 64)])"

definition unicodeEscape :: "string \<Rightarrow> (string \<times> string) option" where
  "unicodeEscape s =
    (case hex4 s of
       None \<Rightarrow> None
     | Some (hi, r) \<Rightarrow>
        if 55296 \<le> hi \<and> hi < 56320 \<and> take 2 r = [CHR 0x5C, CHR ''u'']
        then (case hex4 (drop 2 r) of
            Some (lo, r') \<Rightarrow>
              if 56320 \<le> lo \<and> lo < 57344 then Some (utf8 (65536 + (hi - 55296) * 1024 + (lo - 56320)), r')
              else Some (utf8 hi, r)
          | None \<Rightarrow> Some (utf8 hi, r))
        else Some (utf8 hi, r))"

definition simpleEscape :: "char \<Rightarrow> char option" where
  "simpleEscape c =
    (if c \<in> set [CHR 0x22, CHR 0x5C, CHR ''/''] then Some c
     else if c = CHR ''b'' then Some (CHR 0x08) else if c = CHR ''f'' then Some (CHR 0x0C)
     else if c = CHR ''n'' then Some (CHR 0x0A) else if c = CHR ''r'' then Some (CHR 0x0D)
     else if c = CHR ''t'' then Some (CHR 0x09) else None)"

text \<open>The characters of a string up to its closing quote, and what follows.\<close>

function readChars :: "string \<Rightarrow> (string \<times> string) option" where
  "readChars [] = None"
| "readChars (c # cs) =
    (if c = CHR 0x22 then Some ([], cs)
     else if c = CHR 0x5C then
       (case cs of
          [] \<Rightarrow> None
        | e # ds \<Rightarrow>
          if e = CHR ''u'' then
            (case unicodeEscape ds of
               None \<Rightarrow> None
             | Some (u, r) \<Rightarrow> if length r \<le> length ds then map_option (apfst ((@) u)) (readChars r) else None)
          else (case simpleEscape e of None \<Rightarrow> None | Some x \<Rightarrow> map_option (apfst (Cons x)) (readChars ds)))
     else if of_char c < (32 :: nat) then None
     else map_option (apfst (Cons c)) (readChars cs))"
  by pat_completeness auto

termination
  by (relation "measure length") auto

definition isJsonSpace :: "char \<Rightarrow> bool" where
  "isJsonSpace c \<longleftrightarrow> c \<in> set [CHR '' '', CHR 0x09, CHR 0x0A, CHR 0x0D]"

abbreviation skipSpace :: "string \<Rightarrow> string" where
  "skipSpace \<equiv> dropWhile isJsonSpace"

text \<open>The fraction and the exponent of a number: its text and what follows.\<close>

definition readFraction :: "string \<Rightarrow> (string \<times> string) option" where
  "readFraction s =
    (case s of
       c # cs \<Rightarrow>
         if c \<noteq> CHR ''.'' then Some ([], s)
         else let ds = takeWhile isJsonDigit cs in
           if ds = [] then None else Some (c # ds, dropWhile isJsonDigit cs)
     | [] \<Rightarrow> Some ([], s))"

definition readExponent :: "string \<Rightarrow> (string \<times> string) option" where
  "readExponent s =
    (case s of
       c # cs \<Rightarrow>
         if c \<noteq> CHR ''e'' \<and> c \<noteq> CHR ''E'' then Some ([], s)
         else let sign = takeWhile (\<lambda>d. d = CHR ''+'' \<or> d = CHR ''-'') cs; r = drop (length sign) cs;
                  ds = takeWhile isJsonDigit r in
           if ds = [] \<or> length sign > 1 then None else Some (c # sign @ ds, dropWhile isJsonDigit r)
     | [] \<Rightarrow> Some ([], s))"

definition readNumber :: "string \<Rightarrow> (meta \<times> string) option" where
  "readNumber s =
    (let neg = (take 1 s = ''-''); t = (if neg then tl s else s); ds = takeWhile isJsonDigit t in
     if ds = [] \<or> (hd ds = CHR ''0'' \<and> length ds > 1) then None
     else case readFraction (dropWhile isJsonDigit t) of
         None \<Rightarrow> None
       | Some (frac, r) \<Rightarrow>
         (case readExponent r of
            None \<Rightarrow> None
          | Some (expo, r') \<Rightarrow>
             if frac = [] \<and> expo = []
             then Some (MInt (if neg then - int (decimalValue ds) else int (decimalValue ds)), r')
             else Some (MReal ((if neg then ''-'' else []) @ ds @ frac @ expo), r')))"

text \<open>A repeated key takes the last value, at the first place.\<close>

definition objectOf :: "(string \<times> meta) list \<Rightarrow> (string \<times> meta) list" where
  "objectOf ps = fold (\<lambda>(k, v). AList.update k v) ps []"

text \<open>The reader takes fuel for its depth; the length of a text is enough for what is printed.\<close>

fun readValue :: "nat \<Rightarrow> string \<Rightarrow> (meta \<times> string) option"
  and readItems :: "nat \<Rightarrow> string \<Rightarrow> (meta list \<times> string) option"
  and readMembers :: "nat \<Rightarrow> string \<Rightarrow> ((string \<times> meta) list \<times> string) option" where
  "readValue 0 s = None"
| "readValue (Suc n) s =
    (case skipSpace s of
       [] \<Rightarrow> None
     | c # cs \<Rightarrow>
        if c = CHR 0x22 then map_option (apfst MStr) (readChars cs)
        else if c = CHR ''['' then
          (if take 1 (skipSpace cs) = '']'' then Some (MList [], tl (skipSpace cs))
           else map_option (apfst MList) (readItems n cs))
        else if c = CHR ''{'' then
          (if take 1 (skipSpace cs) = ''}'' then Some (MObj [], tl (skipSpace cs))
           else map_option (apfst (MObj \<circ> objectOf)) (readMembers n cs))
        else if take 4 (c # cs) = ''true'' then Some (MBool True, drop 4 (c # cs))
        else if take 5 (c # cs) = ''false'' then Some (MBool False, drop 5 (c # cs))
        else if take 4 (c # cs) = ''null'' then Some (MNull, drop 4 (c # cs))
        else readNumber (c # cs))"
| "readItems 0 s = None"
| "readItems (Suc n) s =
    (case readValue n s of
       None \<Rightarrow> None
     | Some (v, r) \<Rightarrow>
       (case skipSpace r of
          [] \<Rightarrow> None
        | c # cs \<Rightarrow>
          if c = CHR '','' then map_option (apfst (Cons v)) (readItems n cs)
          else if c = CHR '']'' then Some ([v], cs) else None))"
| "readMembers 0 s = None"
| "readMembers (Suc n) s =
    (case skipSpace s of
       [] \<Rightarrow> None
     | q # qs \<Rightarrow>
       if q \<noteq> CHR 0x22 then None
       else case readChars qs of
           None \<Rightarrow> None
         | Some (k, r) \<Rightarrow>
           (case skipSpace r of
              [] \<Rightarrow> None
            | c # cs \<Rightarrow>
              if c \<noteq> CHR '':'' then None
              else case readValue n cs of
                  None \<Rightarrow> None
                | Some (v, r') \<Rightarrow>
                  (case skipSpace r' of
                     [] \<Rightarrow> None
                   | d # ds \<Rightarrow>
                     if d = CHR '','' then map_option (apfst (Cons (k, v))) (readMembers n ds)
                     else if d = CHR ''}'' then Some ([(k, v)], ds) else None)))"

definition parseJson :: "string \<Rightarrow> meta option" where
  "parseJson s =
    (case readValue (2 * length s + 2) s of
       None \<Rightarrow> None
     | Some (v, r) \<Rightarrow> if skipSpace r = [] then Some v else None)"

end
