(* ===== verification/Page_Text.thy ===== *)
theory Page_Text
  imports Base
begin

text \<open>
  The static texts of the hosted acceptance page: the strings of \<open>accept/i18n.ts\<close> in both languages, and the
  style sheet and the script of \<open>accept/accept-page.view.ts\<close>.  Texts are UTF-8.
\<close>

section \<open>Characters\<close>

definition apostrophe :: string where "apostrophe = [CHR 0x27]"
definition backslash :: string where "backslash = [CHR 0x5C]"

definition a_uml :: string where "a_uml = [CHR 0xC3, CHR 0xA4]"
definition o_uml :: string where "o_uml = [CHR 0xC3, CHR 0xB6]"
definition u_uml :: string where "u_uml = [CHR 0xC3, CHR 0xBC]"
definition A_uml :: string where "A_uml = [CHR 0xC3, CHR 0x84]"
definition U_uml :: string where "U_uml = [CHR 0xC3, CHR 0x9C]"
definition sharp_s :: string where "sharp_s = [CHR 0xC3, CHR 0x9F]"
definition ellipsis :: string where "ellipsis = [CHR 0xE2, CHR 0x80, CHR 0xA6]"
definition middleDot :: string where "middleDot = [CHR 0xC2, CHR 0xB7]"

text \<open>The dash of the texts.\<close>

definition longDash :: string where "longDash = [CHR 0xE2, CHR 0x80, CHR 0x94]"

section \<open>Strings of the page\<close>

record AcceptPageStrings =
  aps_htmlLang :: string
  aps_pageTitle :: string
  aps_heading :: string
  aps_intro :: string
  aps_identityNote :: string
  aps_companyContext :: string
  aps_signerName :: string
  aps_signerEmail :: string
  aps_versionLabel :: string
  aps_changeSummary :: string
  aps_openPdf :: string
  aps_deadline :: string
  aps_upcomingValidFrom :: string
  aps_blockingWarning :: string
  aps_passiveInfo :: string
  aps_passiveAcceptButton :: string
  aps_objectButton :: string
  aps_objectionReasonLabel :: string
  aps_objectionReasonPlaceholder :: string
  aps_objectionConsequenceLabel :: string
  aps_objectedBadge :: string
  aps_errorObjectionReasonRequired :: string
  aps_acceptButton :: string
  aps_acceptedBadge :: string
  aps_allDoneTitle :: string
  aps_allDoneBody :: string
  aps_notFoundTitle :: string
  aps_notFoundBody :: string
  aps_errorMissingSigner :: string
  aps_errorInvalidEmail :: string
  aps_errorConsentRequired :: string
  aps_errorAlreadyAccepted :: string
  aps_errorVersionNotCurrent :: string
  aps_errorRateLimited :: string
  aps_errorGeneric :: string

definition strings_en :: AcceptPageStrings where
  "strings_en =
    \<lparr>aps_htmlLang = ''en'',
     aps_pageTitle = ''Review & accept documents'',
     aps_heading = ''Documents awaiting your review'',
     aps_intro = ''Please review the following document(s) for {customerName} and confirm your acceptance.'',
     aps_identityNote = ''Your name and e-mail address are recorded together with your consent, along with the time and your device details.'',
     aps_companyContext = ''On behalf of {company}'',
     aps_signerName = ''Your full name'',
     aps_signerEmail = ''Your e-mail address'',
     aps_versionLabel = ''Version'',
     aps_changeSummary = ''What changed'',
     aps_openPdf = ''Open document (PDF)'',
     aps_deadline = ''Deadline'',
     aps_upcomingValidFrom = ''Valid from {date} '' @ longDash @ '' the current version remains in effect until then.'',
     aps_blockingWarning = ''Access is currently blocked until this document is accepted.'',
     aps_passiveInfo = ''This document takes effect automatically unless an objection is raised before the deadline. No action is required here.'',
     aps_passiveAcceptButton = ''Accept now'',
     aps_objectButton = ''Object to this document'',
     aps_objectionReasonLabel = ''Reason for your objection (required)'',
     aps_objectionReasonPlaceholder = ''Please state why you object'' @ ellipsis,
     aps_objectionConsequenceLabel = ''What objecting means'',
     aps_objectedBadge = ''Objection recorded '' @ longDash @ '' thank you.'',
     aps_errorObjectionReasonRequired = ''Please state a reason for your objection.'',
     aps_acceptButton = ''I agree '' @ longDash @ '' accept'',
     aps_acceptedBadge = ''Accepted '' @ longDash @ '' thank you!'',
     aps_allDoneTitle = ''Everything is accepted'',
     aps_allDoneBody = ''There are currently no documents waiting for acceptance. You can close this page.'',
     aps_notFoundTitle = ''Link not available'',
     aps_notFoundBody = ''This link is not available. It may have expired or been revoked. Please contact the person who sent it to you to request a new link.'',
     aps_errorMissingSigner = ''Please enter your full name and e-mail address first.'',
     aps_errorInvalidEmail = ''Please enter a valid e-mail address.'',
     aps_errorConsentRequired = ''Please confirm the checkbox to accept.'',
     aps_errorAlreadyAccepted = ''This document has already been accepted.'',
     aps_errorVersionNotCurrent = ''A newer version of this document exists '' @ longDash @ '' please reload the page.'',
     aps_errorRateLimited = ''Too many requests '' @ longDash @ '' please wait a minute and try again.'',
     aps_errorGeneric = ''Something went wrong. Please reload the page and try again.''\<rparr>"

definition strings_de :: AcceptPageStrings where
  "strings_de =
    \<lparr>aps_htmlLang = ''de'',
     aps_pageTitle = ''Dokumente pr'' @ u_uml @ ''fen & akzeptieren'',
     aps_heading = ''Dokumente zur Pr'' @ u_uml @ ''fung'',
     aps_intro = ''Bitte pr'' @ u_uml @ ''fen Sie die folgenden Dokumente f'' @ u_uml @ ''r {customerName} und best'' @ a_uml @ ''tigen Sie Ihre Zustimmung.'',
     aps_identityNote = ''Ihr Name und Ihre E-Mail-Adresse werden zusammen mit Ihrer Zustimmung erfasst, ebenso Zeitpunkt und Ger'' @ a_uml @ ''teinformationen.'',
     aps_companyContext = ''Im Namen von {company}'',
     aps_signerName = ''Ihr vollst'' @ a_uml @ ''ndiger Name'',
     aps_signerEmail = ''Ihre E-Mail-Adresse'',
     aps_versionLabel = ''Version'',
     aps_changeSummary = ''Was hat sich ge'' @ a_uml @ ''ndert'',
     aps_openPdf = ''Dokument '' @ o_uml @ ''ffnen (PDF)'',
     aps_deadline = ''Frist'',
     aps_upcomingValidFrom = ''G'' @ u_uml @ ''ltig ab {date} '' @ longDash @ '' bis dahin bleibt die aktuelle Version in Kraft.'',
     aps_blockingWarning = ''Der Zugang ist derzeit gesperrt, bis dieses Dokument akzeptiert wurde.'',
     aps_passiveInfo = ''Dieses Dokument tritt automatisch in Kraft, sofern nicht vor Ablauf der Frist widersprochen wird. Hier ist keine Aktion erforderlich.'',
     aps_passiveAcceptButton = ''Jetzt akzeptieren'',
     aps_objectButton = ''Diesem Dokument widersprechen'',
     aps_objectionReasonLabel = ''Grund f'' @ u_uml @ ''r Ihren Widerspruch (erforderlich)'',
     aps_objectionReasonPlaceholder = ''Bitte begr'' @ u_uml @ ''nden Sie Ihren Widerspruch'' @ ellipsis,
     aps_objectionConsequenceLabel = ''Was ein Widerspruch bedeutet'',
     aps_objectedBadge = ''Widerspruch erfasst '' @ longDash @ '' vielen Dank.'',
     aps_errorObjectionReasonRequired = ''Bitte geben Sie einen Grund f'' @ u_uml @ ''r Ihren Widerspruch an.'',
     aps_acceptButton = ''Ich stimme zu '' @ longDash @ '' akzeptieren'',
     aps_acceptedBadge = ''Akzeptiert '' @ longDash @ '' vielen Dank!'',
     aps_allDoneTitle = ''Alles akzeptiert'',
     aps_allDoneBody = ''Derzeit warten keine Dokumente auf eine Zustimmung. Sie k'' @ o_uml @ ''nnen diese Seite schlie'' @ sharp_s @ ''en.'',
     aps_notFoundTitle = ''Link nicht verf'' @ u_uml @ ''gbar'',
     aps_notFoundBody = ''Dieser Link ist nicht verf'' @ u_uml @ ''gbar. Er ist m'' @ o_uml @ ''glicherweise abgelaufen oder wurde zur'' @ u_uml @ ''ckgezogen. Bitte wenden Sie sich an die Person, die Ihnen den Link geschickt hat, um einen neuen Link zu erhalten.'',
     aps_errorMissingSigner = ''Bitte geben Sie zuerst Ihren vollst'' @ a_uml @ ''ndigen Namen und Ihre E-Mail-Adresse ein.'',
     aps_errorInvalidEmail = ''Bitte geben Sie eine g'' @ u_uml @ ''ltige E-Mail-Adresse ein.'',
     aps_errorConsentRequired = ''Bitte best'' @ a_uml @ ''tigen Sie die Checkbox, um zu akzeptieren.'',
     aps_errorAlreadyAccepted = ''Dieses Dokument wurde bereits akzeptiert.'',
     aps_errorVersionNotCurrent = ''Es gibt eine neuere Version dieses Dokuments '' @ longDash @ '' bitte laden Sie die Seite neu.'',
     aps_errorRateLimited = ''Zu viele Anfragen '' @ longDash @ '' bitte warten Sie eine Minute und versuchen Sie es erneut.'',
     aps_errorGeneric = ''Etwas ist schiefgelaufen. Bitte laden Sie die Seite neu und versuchen Sie es erneut.''\<rparr>"

section \<open>Style sheet and script\<close>

definition STYLES :: string where
  \<open>STYLES = ''
  :root { color-scheme: light; }
  * { box-sizing: border-box; }
  body { margin: 0; font-family: system-ui, -apple-system, 'Segoe UI', Roboto, sans-serif;
         background: #f4f6f8; color: #1a2027; line-height: 1.5; }
  main { max-width: 40rem; margin: 0 auto; padding: 1rem; }
  h1 { font-size: 1.35rem; margin: 0.5rem 0; }
  h2 { font-size: 1.05rem; margin: 0 0 0.25rem; }
  .card { background: #fff; border: 1px solid #dde3e9; border-radius: 0.75rem;
          padding: 1rem; margin: 1rem 0; }
  .muted { color: #5b6770; font-size: 0.875rem; }
  .meta { color: #5b6770; font-size: 0.875rem; margin: 0.25rem 0 0.75rem; }
  .warning { background: #fdecea; border: 1px solid #f5c6c2; color: #8a1c12;
             border-radius: 0.5rem; padding: 0.6rem 0.75rem; font-size: 0.875rem; margin: 0.75rem 0; }
  .info { background: #eef4fb; border: 1px solid #c9dcf1; color: #1d4f91;
          border-radius: 0.5rem; padding: 0.6rem 0.75rem; font-size: 0.875rem; margin: 0.75rem 0; }
  .consent { display: flex; gap: 0.6rem; align-items: flex-start; margin: 0.75rem 0;
             padding: 0.75rem; background: #f8fafc; border: 1px solid #e2e8f0; border-radius: 0.5rem; }
  .consent input { margin-top: 0.2rem; width: 1.1rem; height: 1.1rem; flex: none; }
  label.field { display: block; margin: 0.75rem 0; }
  label.field span { display: block; font-size: 0.875rem; margin-bottom: 0.25rem; }
  input[type='text'], input[type='email'] { width: 100%; padding: 0.6rem 0.7rem; font-size: 1rem;
             border: 1px solid #c3ccd4; border-radius: 0.5rem; background: #fff; }
  button { width: 100%; padding: 0.75rem 1rem; font-size: 1rem; font-weight: 600; border: 0;
           border-radius: 0.5rem; background: #1d4f91; color: #fff; cursor: pointer; }
  button:disabled { background: #9fb4cc; cursor: not-allowed; }
  button.secondary { background: #fff; color: #8a1c12; border: 1px solid #e2b3ae; }
  button.secondary:disabled { background: #fff; color: #b79490; border-color: #ecd6d4; cursor: not-allowed; }
  .objection { margin-top: 1rem; padding-top: 1rem; border-top: 1px dashed #dde3e9; }
  .objection label { display: block; font-size: 0.875rem; margin-bottom: 0.25rem; }
  .objection textarea { width: 100%; padding: 0.6rem 0.7rem; font-size: 1rem; font-family: inherit;
           border: 1px solid #c3ccd4; border-radius: 0.5rem; background: #fff; margin-bottom: 0.5rem; resize: vertical; }
  a.pdf { display: inline-block; margin: 0.25rem 0 0.5rem; color: #1d4f91; font-weight: 600; }
  .msg-error { color: #8a1c12; font-size: 0.875rem; margin: 0.5rem 0 0; }
  .accepted { background: #e8f5ec; border: 1px solid #bfe3c8; color: #1d6b34;
              border-radius: 0.5rem; padding: 0.75rem; font-weight: 600; text-align: center; }
  .center { text-align: center; padding: 3rem 1rem; }
  @media (min-width: 30rem) { main { padding: 2rem 1rem; } button { width: auto; } }
''\<close>

definition PAGE_SCRIPT :: string where
  \<open>PAGE_SCRIPT = ''
(function () {
  var data = JSON.parse(document.getElementById('accept-page-data').textContent);
  var nameInput = document.getElementById('signer-name');
  var emailInput = document.getElementById('signer-email');
  var emailPattern = /^[^'' @ backslash @ ''s@]+@[^'' @ backslash @ ''s@]+'' @ backslash @ ''.[^'' @ backslash @ ''s@]+$/;

  function markAccepted(card, text) {
    var button = card.querySelector('[data-accept-button]');
    var consent = card.querySelector('.consent');
    if (button) button.remove();
    if (consent) consent.remove();
    var done = document.createElement('div');
    done.className = 'accepted';
    done.textContent = text;
    card.appendChild(done);
  }

  document.querySelectorAll('[data-accept-card]').forEach(function (card) {
    var button = card.querySelector('[data-accept-button]');
    if (!button) return;
    var versionId = card.getAttribute('data-version-id');
    var checkbox = card.querySelector('[data-consent-checkbox]');
    var message = card.querySelector('[data-message]');

    function showError(text) {
      message.textContent = text;
      message.hidden = false;
    }

    button.addEventListener('click', function () {
      message.hidden = true;
      var signerName = (nameInput.value || '' @ apostrophe @ apostrophe @ '').trim();
      var signerEmail = (emailInput.value || '' @ apostrophe @ apostrophe @ '').trim();
      if (!signerName || !signerEmail) return showError(data.strings.errorMissingSigner);
      if (!emailPattern.test(signerEmail)) return showError(data.strings.errorInvalidEmail);
      // PASSIVE items have no consent checkbox '' @ longDash @ '' the checkbox-required check only applies when one exists.
      if (checkbox && !checkbox.checked) return showError(data.strings.errorConsentRequired);

      button.disabled = true;
      var idempotencyKey = (window.crypto && crypto.randomUUID)
        ? crypto.randomUUID()
        : String(Date.now()) + '-' + Math.random().toString(36).slice(2);
      fetch(window.location.pathname.replace(/'' @ backslash @ ''/$/, '' @ apostrophe @ apostrophe @ '') + '/acceptances', {
        method: 'POST',
        headers: { 'Content-Type': 'application/json', 'Idempotency-Key': idempotencyKey },
        body: JSON.stringify({
          versionId: versionId,
          displayedConsentText: data.consentTexts[versionId],
          signerName: signerName,
          signerEmail: signerEmail,
        }),
      })
        .then(function (response) {
          if (response.ok) return { accepted: true };
          return response.json().then(
            function (body) { return { accepted: false, code: body && body.code }; },
            function () { return { accepted: false }; }
          );
        })
        .then(function (result) {
          if (result.accepted) return markAccepted(card, data.strings.acceptedBadge);
          if (result.code === 'ALREADY_ACCEPTED') return markAccepted(card, data.strings.errorAlreadyAccepted);
          button.disabled = false;
          if (result.code === 'VERSION_NOT_CURRENT') return showError(data.strings.errorVersionNotCurrent);
          if (result.code === 'RATE_LIMITED') return showError(data.strings.errorRateLimited);
          showError(data.strings.errorGeneric);
        })
        .catch(function () {
          button.disabled = false;
          showError(data.strings.errorGeneric);
        });
    });
  });

  // Objection (#30): PASSIVE, in-effect items carry an object button + required reason. Same signer
  // block, same idempotency + rate-limit handling, but POSTs to <path>/objections.
  function markObjected(card, text) {
    var button = card.querySelector('[data-object-button]');
    var reason = card.querySelector('[data-objection-reason]');
    var reasonLabel = card.querySelector('label');
    if (button) button.remove();
    if (reason) reason.remove();
    if (reasonLabel) reasonLabel.remove();
    var done = document.createElement('div');
    done.className = 'accepted';
    done.textContent = text;
    card.appendChild(done);
  }

  document.querySelectorAll('[data-objection-card]').forEach(function (card) {
    var button = card.querySelector('[data-object-button]');
    if (!button) return;
    var versionId = card.getAttribute('data-version-id');
    var reasonEl = card.querySelector('[data-objection-reason]');
    var message = card.querySelector('[data-objection-message]');

    function showError(text) {
      message.textContent = text;
      message.hidden = false;
    }

    button.addEventListener('click', function () {
      message.hidden = true;
      var reason = (reasonEl.value || '' @ apostrophe @ apostrophe @ '').trim();
      if (!reason) return showError(data.strings.errorObjectionReasonRequired);
      var signerName = (nameInput.value || '' @ apostrophe @ apostrophe @ '').trim();
      var signerEmail = (emailInput.value || '' @ apostrophe @ apostrophe @ '').trim();
      // Signer is optional for an objection, but an e-mail, if given, must be well-formed
      // (the server rejects a malformed one) '' @ longDash @ '' surface that here rather than as a generic error.
      if (signerEmail && !emailPattern.test(signerEmail)) return showError(data.strings.errorInvalidEmail);

      button.disabled = true;
      var idempotencyKey = (window.crypto && crypto.randomUUID)
        ? crypto.randomUUID()
        : String(Date.now()) + '-' + Math.random().toString(36).slice(2);
      var body = { versionId: versionId, reason: reason };
      if (signerName) body.signerName = signerName;
      if (signerEmail) body.signerEmail = signerEmail;
      fetch(window.location.pathname.replace(/'' @ backslash @ ''/$/, '' @ apostrophe @ apostrophe @ '') + '/objections', {
        method: 'POST',
        headers: { 'Content-Type': 'application/json', 'Idempotency-Key': idempotencyKey },
        body: JSON.stringify(body),
      })
        .then(function (response) {
          if (response.ok) return { ok: true };
          return response.json().then(
            function (b) { return { ok: false, code: b && b.code }; },
            function () { return { ok: false }; }
          );
        })
        .then(function (result) {
          if (result.ok) return markObjected(card, data.strings.objectedBadge);
          button.disabled = false;
          if (result.code === 'RATE_LIMITED') return showError(data.strings.errorRateLimited);
          showError(data.strings.errorGeneric);
        })
        .catch(function () {
          button.disabled = false;
          showError(data.strings.errorGeneric);
        });
    });
  });
})();
''\<close>

end
