(* ===== verification/Default_Templates.thy ===== *)
theory Default_Templates
  imports Email_Template Json Page_Text
begin

text \<open>
  The built-in e-mail templates of \<open>src/src/domain/email-template.ts\<close>: lists of blocks, from which both
  the exported HTML and the design document of the editor are built, and the seeder of
  \<open>admin/default-email-template.seeder.ts\<close>.  The design is a JSON document, printed as
  \<open>JSON.stringify\<close> does.
\<close>

section \<open>Blocks\<close>

datatype DefaultBlock =
    BHeading string
  | BText string
  | BButton string string
  | BDivider
  | BFooter string

fun blockToHtmlRow :: "DefaultBlock \<Rightarrow> string" where
  \<open>blockToHtmlRow (BHeading t) =
    ''<tr><td style="background:#1f2937;padding:20px 32px;color:#ffffff;font-size:18px;font-weight:bold;">'' @ t @ ''</td></tr>''\<close>
| \<open>blockToHtmlRow (BText h) =
    ''<tr><td style="padding:8px 32px;font-size:15px;line-height:1.5;">'' @ h @ ''</td></tr>''\<close>
| \<open>blockToHtmlRow (BButton href label) =
    ''<tr><td style="padding:8px 32px 24px;">''
    @ ''<table role="presentation" cellpadding="0" cellspacing="0"><tr><td style="border-radius:6px;background:#2563eb;">''
    @ ''<a href="'' @ href @ ''" style="display:inline-block;padding:12px 24px;color:#ffffff;text-decoration:none;font-size:15px;font-weight:bold;">'' @ label @ ''</a>''
    @ ''</td></tr></table></td></tr>''\<close>
| \<open>blockToHtmlRow BDivider =
    ''<tr><td style="padding:8px 32px;"><hr style="border:0;border-top:1px solid #e5e7eb;margin:0;"></td></tr>''\<close>
| \<open>blockToHtmlRow (BFooter h) =
    ''<tr><td style="padding:20px 32px;background:#f9fafb;font-size:12px;color:#6b7280;">'' @ h @ ''</td></tr>''\<close>

definition contentObject :: "nat \<Rightarrow> string \<Rightarrow> (string \<times> meta) list \<Rightarrow> meta" where
  "contentObject index type vals =
    MObj [(''id'', MStr (''content-'' @ decimalNat index)), (''type'', MStr type), (''values'', MObj vals)]"

fun blockToContent :: "DefaultBlock \<Rightarrow> nat \<Rightarrow> meta" where
  "blockToContent (BHeading t) index = contentObject index ''heading''
    [(''headingType'', MStr ''h1''), (''text'', MStr t), (''fontSize'', MStr ''20px''), (''color'', MStr ''#ffffff'')]"
| "blockToContent (BText h) index = contentObject index ''text'' [(''text'', MStr h)]"
| "blockToContent (BFooter h) index = contentObject index ''text'' [(''text'', MStr h)]"
| "blockToContent (BButton href label) index = contentObject index ''button''
    [(''text'', MStr label),
     (''href'', MObj [(''name'', MStr ''web''),
        (''values'', MObj [(''href'', MStr href), (''target'', MStr ''_blank'')])]),
     (''buttonColors'', MObj [(''color'', MStr ''#ffffff''), (''backgroundColor'', MStr ''#2563eb'')])]"
| "blockToContent BDivider index = contentObject index ''divider''
    [(''border'', MObj [(''borderTopWidth'', MStr ''1px''), (''borderTopStyle'', MStr ''solid''),
       (''borderTopColor'', MStr ''#e5e7eb'')])]"

definition shellHtml :: "string list \<Rightarrow> string" where
  \<open>shellHtml rows = joinWith [CHR 0x0A]
    ([''<!DOCTYPE html>'',
      ''<html><body style="margin:0;padding:0;background:#f4f5f7;font-family:Arial,Helvetica,sans-serif;color:#1a1a1a;">'',
      ''<table role="presentation" width="100%" cellpadding="0" cellspacing="0" style="background:#f4f5f7;padding:24px 0;">'',
      ''<tr><td align="center">'',
      ''<table role="presentation" width="600" cellpadding="0" cellspacing="0" style="max-width:600px;width:100%;background:#ffffff;border-radius:8px;overflow:hidden;">'']
     @ rows @ [''</table></td></tr></table></body></html>''])\<close>

definition designRow :: "nat \<times> DefaultBlock \<Rightarrow> meta" where
  "designRow entry =
    (case entry of (index, block) \<Rightarrow>
      MObj [(''id'', MStr (''row-'' @ decimalNat index)), (''cells'', MList [MInt 1]),
        (''columns'', MList [MObj [(''id'', MStr (''col-'' @ decimalNat index)),
           (''contents'', MList [blockToContent block index]), (''values'', MObj [])]]),
        (''values'', MObj [])])"

definition designOf :: "DefaultBlock list \<Rightarrow> meta" where
  "designOf blocks =
    (let n = int (length blocks) in
     MObj [(''counters'', MObj [(''u_row'', MInt n), (''u_column'', MInt n), (''u_content_heading'', MInt 1),
         (''u_content_text'', MInt 1), (''u_content_button'', MInt 1), (''u_content_divider'', MInt 1)]),
       (''body'', MObj [(''id'', MStr ''default-body''), (''rows'', MList (map designRow (enumerate 0 blocks))),
         (''values'', MObj [(''contentWidth'', MStr ''600px'')])]),
       (''schemaVersion'', MInt 16)])"

text \<open>The pair of \<open>design\<close> and \<open>html\<close>.\<close>

definition buildDefaultTemplate :: "DefaultBlock list \<Rightarrow> string \<times> string" where
  "buildDefaultTemplate blocks = (jsonText (designOf blocks), shellHtml (map blockToHtmlRow blocks))"

section \<open>The three templates\<close>

definition greetingBlock :: DefaultBlock where
  \<open>greetingBlock = BText ''<p style="margin:0;">Hello {{customerName}},</p>''\<close>

definition footerBlock :: DefaultBlock where
  "footerBlock = BFooter
    (''This message was sent to {{companyName}} on behalf of {{appName}}. ''
     @ ''A copy of the document is available at {{documentPdfUrl}}.'')"

definition notificationBlocks :: "string \<Rightarrow> DefaultBlock list" where
  \<open>notificationBlocks intro =
    [BHeading ''{{appName}}'', greetingBlock,
     BText (''<p style="margin:0;">'' @ intro @ ''</p>''),
     BText ''<p style="margin:0;">{{changeSummary}}</p>'',
     BButton ''{{acceptanceLink}}'' ''Review & accept'',
     BText (''<p style="margin:0 0 8px;color:#4b5563;">You can read the full document here:</p>''
       @ ''<p style="margin:0;"><a href="{{documentPdfUrl}}" style="color:#2563eb;">{{documentPdfUrl}}</a></p>''),
     BDivider, footerBlock]\<close>

definition confirmationBlocks :: "DefaultBlock list" where
  \<open>confirmationBlocks =
    [BHeading ''{{appName}}'', greetingBlock,
     BText (''<p style="margin:0;">Thank you '' @ longDash @ '' we have recorded your acceptance of {{documentName}} ''
       @ ''({{documentType}}), version {{versionLabel}}, on {{acceptedAt}}.</p>''),
     BText ''<p style="margin:0;">A copy of the accepted document is attached to this e-mail for your records.</p>'',
     BText (''<p style="margin:0 0 8px;color:#4b5563;">You can also download it here:</p>''
       @ ''<p style="margin:0;"><a href="{{documentPdfUrl}}" style="color:#2563eb;">{{documentPdfUrl}}</a></p>''),
     BButton ''{{acceptanceLink}}'' ''Manage your agreements'',
     BDivider, footerBlock]\<close>

definition defaultTemplate ::
  "string \<Rightarrow> string \<Rightarrow> EmailTemplateKind \<Rightarrow> string \<Rightarrow> DefaultBlock list \<Rightarrow> Date \<Rightarrow> EmailTemplate" where
  "defaultTemplate tplId name kind subject blocks now =
    \<lparr>et_id = tplId, et_name = name, et_kind = kind, et_subject = subject,
     et_design = fst (buildDefaultTemplate blocks), et_html = snd (buildDefaultTemplate blocks),
     et_createdAt = now, et_updatedAt = now\<rparr>"

definition defaultEmailTemplates :: "Date \<Rightarrow> EmailTemplate list" where
  "defaultEmailTemplates now =
    [defaultTemplate DEFAULT_NOTIFICATION_TEMPLATE_ID (''Default '' @ longDash @ '' version notification'')
       VERSION_NOTIFICATION (''{{appName}}: new version of {{documentName}} '' @ longDash @ '' {{versionLabel}}'')
       (notificationBlocks (''A new version of {{documentName}} ({{documentType}}) is now available: ''
         @ ''{{versionLabel}}, effective {{validFrom}}.'')) now,
     defaultTemplate DEFAULT_REMINDER_TEMPLATE_ID (''Default '' @ longDash @ '' reminder'')
       REMINDER (''Reminder: please accept {{documentName}} '' @ longDash @ '' {{versionLabel}}'')
       (notificationBlocks (''{{documentName}} ({{versionLabel}}) is still awaiting your acceptance. ''
         @ ''The deadline is {{deadlineAt}}.'')) now,
     defaultTemplate DEFAULT_ACCEPTANCE_CONFIRMATION_TEMPLATE_ID (''Default '' @ longDash @ '' acceptance confirmation'')
       ACCEPTANCE_CONFIRMATION (''{{appName}}: your acceptance of {{documentName}} '' @ longDash @ '' {{versionLabel}}'')
       confirmationBlocks now]"

section \<open>The seeder\<close>

definition ensureDefaults :: "unit M" where
  "ensureDefaults =
    bindM clock_now (\<lambda>now.
    forM (defaultEmailTemplates now) (\<lambda>template.
      bindM (templates_findById (et_id template)) (\<lambda>existing.
      whenM (existing = None) (thenM (templates_save template) (retM ())))))"

end
