(* ===== verification/Email_Core.thy ===== *)
theory Email_Core
  imports Default_Templates Consent Agreements
begin

text \<open>
  The provider-independent part of the e-mail plugin (\<open>src/src/plugins/email/core\<close>): the permanent
  link of a customer, the content of a mail, the senders, and the processing of delivery and bounce
  events.  The provider, the file storage and the configuration read from the environment are
  arguments.
\<close>

record NotificationConfig =
  cfg_appName :: string
  cfg_publicBaseUrl :: string
  cfg_acceptanceLinkSecret :: string

record EmailAttachment =
  at_filename :: string
  at_contentBase64 :: string
  at_contentType :: string

record OutboundMail =
  om_to :: string
  om_subject :: string
  om_text :: string
  om_html :: "string option"
  om_attachments :: "EmailAttachment list option"

datatype DeliveryStatus = StDelivered | StPending | StUnsupported

record EmailDeliveryProvider =
  ep_send :: "OutboundMail \<Rightarrow> string M"
  ep_fetchDeliveryStatus :: "(string \<Rightarrow> DeliveryStatus M) option"

text \<open>\<open>url.replace(/\/+$/, '')\<close>, \<open>toString('base64')\<close> and \<open>date.toISOString().slice(0, 10)\<close>.\<close>

definition stripSlashes :: "string \<Rightarrow> string" where
  "stripSlashes url = rev (dropWhile (\<lambda>c. c = CHR ''/'') (rev url))"

definition toBase64 :: "byte list \<Rightarrow> string" where
  "toBase64 bs =
    (let s = map (\<lambda>c. if c = CHR ''-'' then CHR ''+'' else if c = CHR ''_'' then CHR ''/'' else c) (toBase64Url bs)
     in s @ replicate ((4 - length s mod 4) mod 4) CHR ''='')"

definition isoDate :: "env \<Rightarrow> Date \<Rightarrow> string" where
  "isoDate E date = take 10 (e_toISOString E date)"

section \<open>PermanentAcceptanceLinkService\<close>

definition tokenFor :: "NotificationConfig \<Rightarrow> string \<Rightarrow> string" where
  "tokenFor cfg customerId = permanentAcceptanceLinkToken (cfg_acceptanceLinkSecret cfg) customerId"

definition ensureForCustomer :: "env \<Rightarrow> NotificationConfig \<Rightarrow> string \<Rightarrow> AcceptanceLink M" where
  "ensureForCustomer E cfg customerId =
    (let tokenHash = acceptanceLinkTokenHash (tokenFor cfg customerId) in
     bindM (links_findByTokenHash tokenHash) (\<lambda>existing.
     case existing of
       Some link \<Rightarrow> retM link
     | None \<Rightarrow>
        catchM
          (bindM (newId E ''al'') (\<lambda>linkId.
           bindM clock_now (\<lambda>now.
           bindM (links_create
             \<lparr>al_id = linkId, al_tokenHash = tokenHash, al_customerId = customerId, al_kind = PERMANENT,
              al_audienceKey = None, al_createdBy = ''system'', al_createdAt = now, al_expiresAt = None,
              al_revokedAt = None, al_lastUsedAt = None\<rparr>) (\<lambda>created.
           thenM (recordEvent E
             ((newEvent ACCEPTANCE_LINK_CREATED ADMINISTRATION AkSYSTEM ''system'' ''Permanent acceptance link created'')
               \<lparr>ev_customerId := Some customerId, ev_channel := Some ''LINK'',
                ev_metadata := Some [(''linkId'', MStr (al_id created)), (''kind'', MStr ''PERMANENT'')]\<rparr>))
           (retM created)))))
          (\<lambda>err.
           if err = DomainError INVALID_STATE
           then bindM (links_findByTokenHash tokenHash) (\<lambda>raced.
             case raced of Some link \<Rightarrow> retM link | None \<Rightarrow> throwM err)
           else throwM err)))"

definition urlFor :: "NotificationConfig \<Rightarrow> string \<Rightarrow> string" where
  "urlFor cfg customerId =
    (let baseUrl = stripSlashes (cfg_publicBaseUrl cfg) in
     if baseUrl = [] then [] else baseUrl @ ''/accept/'' @ tokenFor cfg customerId)"

section \<open>EmailContentService\<close>

definition assignedTemplateId :: "EmailTemplateKind \<Rightarrow> AgreementVersion \<Rightarrow> string option M" where
  "assignedTemplateId kind version =
    bindM (documents_findById (v_documentId version)) (\<lambda>document.
    case document of
      None \<Rightarrow> retM None
    | Some d \<Rightarrow>
        bindM (documentTypes_findByKey (d_type d)) (\<lambda>documentType.
        case documentType of
          None \<Rightarrow> retM None
        | Some t \<Rightarrow> retM (if kind = VERSION_NOTIFICATION then dt_notificationTemplateId t
                            else dt_reminderTemplateId t)))"

definition resolveTemplate :: "EmailTemplateKind \<Rightarrow> AgreementVersion \<Rightarrow> EmailTemplate M" where
  "resolveTemplate kind version =
    bindM (assignedTemplateId kind version) (\<lambda>assignedId.
    bindM (case assignedId of None \<Rightarrow> retM None | Some tplId \<Rightarrow> templates_findById tplId) (\<lambda>assigned.
    case assigned of
      Some t \<Rightarrow> retM t
    | None \<Rightarrow>
        (let fallbackId = defaultTemplateIdForKind kind in
         bindM (templates_findById fallbackId) (\<lambda>defaultRow.
         case defaultRow of
           Some t \<Rightarrow> retM t
         | None \<Rightarrow>
            bindM clock_now (\<lambda>now.
            requireM OtherError (find (\<lambda>t. et_id t = fallbackId) (defaultEmailTemplates now)))))))"

definition resolveAcceptanceLink :: "env \<Rightarrow> NotificationConfig \<Rightarrow> string \<Rightarrow> string M" where
  "resolveAcceptanceLink E cfg customerId =
    (let url = urlFor cfg customerId in
     if url = [] then retM [] else thenM (ensureForCustomer E cfg customerId) (retM url))"

definition resolveDocumentPdfUrl :: "NotificationConfig \<Rightarrow> AgreementDocument option \<Rightarrow> string" where
  "resolveDocumentPdfUrl cfg document =
    (let base = stripSlashes (cfg_publicBaseUrl cfg) in
     case document of
       None \<Rightarrow> []
     | Some d \<Rightarrow> if base = [] then []
         else base @ ''/documents/'' @ d_type d @ ''/'' @ d_audience d @ ''/latest.pdf'')"

definition buildVars ::
  "env \<Rightarrow> NotificationConfig \<Rightarrow> Customer \<Rightarrow> AgreementVersion \<Rightarrow> Date option \<Rightarrow> Date option \<Rightarrow> TemplateVars M" where
  "buildVars E cfg customer version deadlineAt acceptedAt =
    bindM (documents_findById (v_documentId version)) (\<lambda>document.
    bindM (case document of None \<Rightarrow> retM None | Some d \<Rightarrow> documentTypes_findByKey (d_type d)) (\<lambda>documentType.
    bindM (case document of None \<Rightarrow> retM None | Some d \<Rightarrow> audiences_findByKey (d_audience d)) (\<lambda>audience.
    bindM (resolveAcceptanceLink E cfg (c_id customer)) (\<lambda>acceptanceLink.
    retM (fold (\<lambda>(k, v). AList.update k v)
      [(''customerName'', customerDisplayName customer), (''firstName'', c_firstName customer),
       (''lastName'', c_lastName customer), (''companyName'', orElse (c_companyName customer) []),
       (''documentName'', orElse (map_option d_name document) []),
       (''documentType'', orElse (map_option dt_name documentType) (orElse (map_option d_type document) [])),
       (''audience'', orElse (map_option au_name audience) (orElse (map_option d_audience document) [])),
       (''versionLabel'', v_versionLabel version), (''changeSummary'', v_changeSummary version),
       (''validFrom'', isoDate E (v_validFrom version)),
       (''deadlineAt'', (case deadlineAt of None \<Rightarrow> [] | Some t \<Rightarrow> isoDate E t)),
       (''acceptedAt'', (case acceptedAt of None \<Rightarrow> [] | Some t \<Rightarrow> e_toISOString E t)),
       (''acceptanceLink'', acceptanceLink), (''documentPdfUrl'', resolveDocumentPdfUrl cfg document),
       (''appName'', cfg_appName cfg)] emptyTemplateVars)))))"

definition renderFor ::
  "env \<Rightarrow> NotificationConfig \<Rightarrow> EmailTemplateKind \<Rightarrow> Customer \<Rightarrow> AgreementVersion \<Rightarrow>
   Date option \<Rightarrow> Date option \<Rightarrow> RenderedTemplate M" where
  "renderFor E cfg kind customer version deadlineAt acceptedAt =
    (if kind = REMINDER \<and> deadlineAt = None then throwM OtherError
     else bindM (resolveTemplate kind version) (\<lambda>template.
     bindM (buildVars E cfg customer version deadlineAt acceptedAt) (\<lambda>vars.
     retM (renderTemplate template vars))))"

section \<open>AgreementEmailService and AgreementRolloutNotifier\<close>

definition mailOf :: "string \<Rightarrow> RenderedTemplate \<Rightarrow> EmailAttachment list option \<Rightarrow> OutboundMail" where
  "mailOf recipient content attachments =
    \<lparr>om_to = recipient, om_subject = rt_subject content, om_text = rt_text content,
     om_html = Some (rt_html content), om_attachments = attachments\<rparr>"

definition versionPdfAttachment :: "FileStorage \<Rightarrow> AgreementVersion \<Rightarrow> EmailAttachment M" where
  "versionPdfAttachment F version =
    bindM (fs_retrieve F (v_storageKey version)) (\<lambda>pdf.
    retM \<lparr>at_filename = v_fileName version, at_contentBase64 = toBase64 (toBytes pdf),
          at_contentType = ''application/pdf''\<rparr>)"

text \<open>One send: the provider, the record of the send, the event; \<open>notifiedAt\<close> is not touched.\<close>

definition sendMail ::
  "env \<Rightarrow> EmailDeliveryProvider \<Rightarrow> Customer \<Rightarrow> AgreementVersion \<Rightarrow> OutboundMail \<Rightarrow> string \<Rightarrow>
   (string \<times> meta) list \<Rightarrow> string M" where
  "sendMail E P customer version mail what extra =
    bindM (ep_send P mail) (\<lambda>providerRef.
    bindM clock_now (\<lambda>now.
    thenM (outbound_save
      \<lparr>oe_providerRef = providerRef, oe_customerId = c_id customer, oe_versionId = v_id version,
       oe_recipient = om_to mail, oe_sentAt = now, oe_deliveredAt = None\<rparr>)
    (thenM (recordEvent E
      ((newEvent EMAIL_SENT COMMUNICATION AkSYSTEM ''system''
         (what @ '' sent to '' @ om_to mail @ '' (version '' @ v_versionLabel version @ '')''))
        \<lparr>ev_customerId := Some (c_id customer), ev_customerName := Some (customerDisplayName customer),
         ev_versionId := Some (v_id version), ev_versionLabel := Some (v_versionLabel version),
         ev_channel := Some ''EMAIL'', ev_recipient := Some (om_to mail),
         ev_metadata := Some ((''providerRef'', MStr providerRef) # extra)\<rparr>))
    (retM providerRef))))"

definition sendVersionNotification ::
  "env \<Rightarrow> NotificationConfig \<Rightarrow> EmailDeliveryProvider \<Rightarrow> FileStorage option \<Rightarrow>
   Customer \<Rightarrow> string \<Rightarrow> AgreementVersion \<Rightarrow> string M" where
  "sendVersionNotification E cfg P F customer recipient version =
    bindM (renderFor E cfg VERSION_NOTIFICATION customer version None None) (\<lambda>content.
    bindM (if v_acceptanceMode version = PASSIVE
        then (case F of
            None \<Rightarrow> retM None
          | Some storage \<Rightarrow> bindM (versionPdfAttachment storage version) (\<lambda>a. retM (Some [a])))
        else retM None) (\<lambda>attachments.
    sendMail E P customer version (mailOf recipient content attachments) ''E-mail'' []))"

definition sendReminder ::
  "env \<Rightarrow> NotificationConfig \<Rightarrow> EmailDeliveryProvider \<Rightarrow>
   Customer \<Rightarrow> string \<Rightarrow> AgreementVersion \<Rightarrow> Date \<Rightarrow> string M" where
  "sendReminder E cfg P customer recipient version deadlineAt =
    bindM (renderFor E cfg REMINDER customer version (Some deadlineAt) None) (\<lambda>content.
    sendMail E P customer version (mailOf recipient content None) ''E-mail'' [])"

definition notifyVersionPublished ::
  "env \<Rightarrow> NotificationConfig \<Rightarrow> EmailDeliveryProvider \<Rightarrow> FileStorage option \<Rightarrow> rolloutNotifier" where
  "notifyVersionPublished E cfg P F customer version =
    forM (c_contactEmails customer) (\<lambda>recipient.
      thenM (sendVersionNotification E cfg P F customer recipient version) (retM ()))"

definition notifier_remind ::
  "env \<Rightarrow> NotificationConfig \<Rightarrow> EmailDeliveryProvider \<Rightarrow> FileStorage option \<Rightarrow>
   Customer \<Rightarrow> CustomerVersionState \<Rightarrow> AgreementVersion \<Rightarrow> unit M" where
  "notifier_remind E cfg P F customer state version =
    forM (c_contactEmails customer) (\<lambda>recipient.
      case cvs_deadlineAt state of
        Some deadlineAt \<Rightarrow> thenM (sendReminder E cfg P customer recipient version deadlineAt) (retM ())
      | None \<Rightarrow> thenM (sendVersionNotification E cfg P F customer recipient version) (retM ()))"

section \<open>AcceptanceConfirmationService\<close>

definition resolveRecipients :: "Customer \<Rightarrow> Acceptance \<Rightarrow> string list" where
  "resolveRecipients customer acceptance =
    (let actorEmail = (case act_email (a_actor acceptance) of None \<Rightarrow> [] | Some s \<Rightarrow> trim s) in
     if actorEmail \<noteq> [] then [actorEmail] else c_contactEmails customer)"

definition sendConfirmationTo ::
  "env \<Rightarrow> NotificationConfig \<Rightarrow> EmailDeliveryProvider \<Rightarrow> FileStorage \<Rightarrow>
   string list \<Rightarrow> Customer \<Rightarrow> AgreementVersion \<Rightarrow> Acceptance \<Rightarrow> unit M" where
  "sendConfirmationTo E cfg P F recipients customer version acceptance =
    bindM (renderFor E cfg ACCEPTANCE_CONFIRMATION customer version None (Some (a_acceptedAt acceptance)))
      (\<lambda>content.
    bindM (versionPdfAttachment F version) (\<lambda>attachment.
    forM recipients (\<lambda>recipient.
      thenM (sendMail E P customer version (mailOf recipient content (Some [attachment]))
        ''Acceptance-confirmation e-mail'' [(''kind'', MStr ''ACCEPTANCE_CONFIRMATION'')]) (retM ()))))"

definition sendForAcceptance ::
  "env \<Rightarrow> NotificationConfig \<Rightarrow> EmailDeliveryProvider \<Rightarrow> FileStorage \<Rightarrow>
   AgreementVersion \<Rightarrow> Acceptance \<Rightarrow> unit M" where
  "sendForAcceptance E cfg P F version acceptance =
    thenM (attemptM
      (if a_method acceptance = IMPORT then retM ()
       else bindM (customers_findById (a_customerId acceptance)) (\<lambda>found.
         case found of
           None \<Rightarrow> retM ()
         | Some customer \<Rightarrow>
            (let recipients = resolveRecipients customer acceptance in
             if recipients = [] then retM ()
             else sendConfirmationTo E cfg P F recipients customer version acceptance))))
    (retM ())"

section \<open>Notifying the administrators\<close>

text \<open>The active notifiers are run one after the other; each failure is only logged.\<close>

definition notifyAll :: "(AdminNotification \<Rightarrow> unit M) list \<Rightarrow> AdminNotification \<Rightarrow> unit M" where
  "notifyAll notifiers notification =
    forM notifiers (\<lambda>notify. thenM (attemptM (notify notification)) (retM ()))"

definition escapeBody :: "string \<Rightarrow> string" where
  "escapeBody value = replaceAll ''>'' ''&gt;'' (replaceAll ''<'' ''&lt;'' (replaceAll ''&'' ''&amp;'' value))"

definition emailAdminNotifier :: "EmailDeliveryProvider \<Rightarrow> string \<Rightarrow> AdminNotification \<Rightarrow> unit M" where
  "emailAdminNotifier P recipient notification =
    thenM (attemptM (ep_send P
      \<lparr>om_to = recipient, om_subject = an_title notification, om_text = an_body notification,
       om_html = Some (''<pre style='' @ [CHR 0x22] @ ''font-family:inherit;white-space:pre-wrap'' @ [CHR 0x22]
         @ ''>'' @ escapeBody (an_body notification) @ ''</pre>''),
       om_attachments = None\<rparr>)) (retM ())"

section \<open>DeliveryEventService\<close>

datatype DeliveryKind = DELIVERED | BOUNCED

record InboundDeliveryEvent =
  ide_providerRef :: string
  ide_recipient :: string
  ide_kind :: DeliveryKind
  ide_inactivatedRecipient :: "bool option"

definition recordDelivery :: "env \<Rightarrow> string \<Rightarrow> unit M" where
  "recordDelivery E providerRef =
    bindM (outbound_findByProviderRef providerRef) (\<lambda>found.
    case found of
      None \<Rightarrow> retM ()
    | Some outboundEmail \<Rightarrow>
    thenM (whenM (oe_deliveredAt outboundEmail = None)
      (bindM clock_now (\<lambda>now. thenM (outbound_markDelivered providerRef now) (retM ()))))
    (bindM (states_findByCustomerAndVersion (oe_customerId outboundEmail) (oe_versionId outboundEmail))
      (\<lambda>stateOpt.
    case stateOpt of
      None \<Rightarrow> retM ()
    | Some state \<Rightarrow>
    if cvs_state state = SUPERSEDED then retM ()
    else bindM (notifications_findByProviderRef providerRef) (\<lambda>alreadyRecorded.
    thenM (whenM (alreadyRecorded = None)
      (bindM (randomUUID E) (\<lambda>eventId.
       bindM clock_now (\<lambda>now.
       thenM (notifications_append
         \<lparr>ne_id = eventId, ne_customerVersionStateId = cvs_id state, ne_channel = NEMAIL,
          ne_recipient = oe_recipient outboundEmail, ne_occurredAt = now,
          ne_providerRef = Some providerRef\<rparr>)
       (recordEvent E
         ((newEvent EMAIL_DELIVERED COMMUNICATION AkSYSTEM ''system''
            (''E-mail delivered to '' @ oe_recipient outboundEmail))
           \<lparr>ev_customerId := Some (oe_customerId outboundEmail), ev_versionId := Some (oe_versionId outboundEmail),
            ev_channel := Some ''EMAIL'', ev_recipient := Some (oe_recipient outboundEmail),
            ev_metadata := Some [(''providerRef'', MStr providerRef)]\<rparr>))))))
    (bindM (versions_findById (oe_versionId outboundEmail)) (\<lambda>versionOpt.
    case versionOpt of
      None \<Rightarrow> retM ()
    | Some version \<Rightarrow>
    bindM clock_now (\<lambda>now.
    bindM (liftR (recordAccess state now version (cvs_carryOverBlocking state = Some True))) (\<lambda>updated.
    thenM (states_setNotifiedAtomically (cvs_id state) (cvs_state updated) (cvs_notifiedAt updated)
        (cvs_deadlineAt updated))
    (retM ())))))))))"

definition recordBounce :: "env \<Rightarrow> InboundDeliveryEvent \<Rightarrow> unit M" where
  "recordBounce E event =
    bindM (outbound_findByProviderRef (ide_providerRef event)) (\<lambda>found.
    case found of
      None \<Rightarrow> retM ()
    | Some outboundEmail \<Rightarrow>
        (let inactivatedEmail = (ide_inactivatedRecipient event = Some True) in
         bindM (randomUUID E) (\<lambda>escId.
         bindM clock_now (\<lambda>now.
         thenM (escalations_record
           \<lparr>esc_id = escId, esc_kind = EMAIL_BOUNCE, esc_customerId = Some (oe_customerId outboundEmail),
            esc_versionId = Some (oe_versionId outboundEmail), esc_occurredAt = now, esc_actor = None,
            esc_reason = None, esc_note = None, esc_recipient = Some (ide_recipient event),
            esc_inactivatedEmail = Some inactivatedEmail\<rparr>)
         (recordEvent E
           ((newEvent EMAIL_BOUNCED COMMUNICATION AkSYSTEM ''system'' ''E-mail bounced (recipient unreachable)'')
             \<lparr>ev_customerId := Some (oe_customerId outboundEmail), ev_versionId := Some (oe_versionId outboundEmail),
              ev_channel := Some ''EMAIL'', ev_recipient := Some (ide_recipient event),
              ev_metadata := Some [(''inactivatedEmail'', MBool inactivatedEmail)]\<rparr>))))))"

definition delivery_handle :: "env \<Rightarrow> InboundDeliveryEvent \<Rightarrow> unit M" where
  "delivery_handle E event =
    (if ide_kind event = DELIVERED then recordDelivery E (ide_providerRef event) else recordBounce E event)"

definition pollPendingDeliveries :: "env \<Rightarrow> EmailDeliveryProvider \<Rightarrow> Date \<Rightarrow> unit M" where
  "pollPendingDeliveries E P olderThan =
    (case ep_fetchDeliveryStatus P of
       None \<Rightarrow> retM ()
     | Some fetch \<Rightarrow>
        bindM (outbound_findPendingOlderThan olderThan) (\<lambda>pending.
        forM pending (\<lambda>email.
          bindM (fetch (oe_providerRef email)) (\<lambda>status.
          whenM (status = StDelivered) (recordDelivery E (oe_providerRef email))))))"

end
