(* ===== verification/Areas.thy ===== *)
theory Areas
  imports Email_Core
begin

text \<open>
  Which tables an action may change.  \<open>modifies T m\<close>: whatever the world and the result of \<open>m\<close>, every
  table outside \<open>T\<close> is left as it was, the clock stands still, UUIDs are only drawn, and the logs
  (acceptances, objections, delivery evidence, events, audit, escalations) only grow at their end.  Here the
  rules for the combinators, the repositories and the senders of the e-mail core; \<open>Frames\<close> has one lemma
  for each operation of the services.
\<close>

section \<open>Areas of the world\<close>

datatype area =
    DocumentArea | VersionArea | CustomerArea | StateArea | AcceptanceLog | ObjectionLog | LinkArea
  | NotificationLog | SignedArea | EventLog | IdempotencyArea | AuditLog | EscalationLog | OutboundArea
  | HitArea | AudienceArea | TypeArea | TemplateArea

fun agree :: "area \<Rightarrow> world \<Rightarrow> world \<Rightarrow> bool" where
  "agree DocumentArea w w' \<longleftrightarrow> w_documents w' = w_documents w"
| "agree VersionArea w w' \<longleftrightarrow> w_versions w' = w_versions w"
| "agree CustomerArea w w' \<longleftrightarrow> w_customers w' = w_customers w"
| "agree StateArea w w' \<longleftrightarrow> w_states w' = w_states w"
| "agree AcceptanceLog w w' \<longleftrightarrow> w_acceptances w' = w_acceptances w"
| "agree ObjectionLog w w' \<longleftrightarrow> w_objections w' = w_objections w"
| "agree LinkArea w w' \<longleftrightarrow> w_links w' = w_links w"
| "agree NotificationLog w w' \<longleftrightarrow> w_notifications w' = w_notifications w"
| "agree SignedArea w w' \<longleftrightarrow> w_signed w' = w_signed w"
| "agree EventLog w w' \<longleftrightarrow> w_events w' = w_events w"
| "agree IdempotencyArea w w' \<longleftrightarrow> w_idempotency w' = w_idempotency w"
| "agree AuditLog w w' \<longleftrightarrow> w_audit w' = w_audit w"
| "agree EscalationLog w w' \<longleftrightarrow> w_escalations w' = w_escalations w"
| "agree OutboundArea w w' \<longleftrightarrow> w_outbound w' = w_outbound w"
| "agree HitArea w w' \<longleftrightarrow> w_hits w' = w_hits w"
| "agree AudienceArea w w' \<longleftrightarrow> w_audiences w' = w_audiences w"
| "agree TypeArea w w' \<longleftrightarrow> w_documentTypes w' = w_documentTypes w"
| "agree TemplateArea w w' \<longleftrightarrow> w_templates w' = w_templates w"

definition grown :: "'a list \<Rightarrow> 'a list \<Rightarrow> bool" where
  "grown xs ys \<longleftrightarrow> (\<exists>new. ys = xs @ new)"

lemma grown_refl [simp]: "grown xs xs"
  by (simp add: grown_def)

lemma grown_append [simp]: "grown xs (xs @ ys)"
  by (auto simp: grown_def)

lemma grown_trans: "grown xs ys \<Longrightarrow> grown ys zs \<Longrightarrow> grown xs zs"
  by (auto simp: grown_def)

text \<open>What the append-only logs may do.\<close>

definition logsGrown :: "world \<Rightarrow> world \<Rightarrow> bool" where
  "logsGrown w w' \<longleftrightarrow>
     grown (tvals (w_acceptances w)) (tvals (w_acceptances w'))
     \<and> grown (tvals (w_objections w)) (tvals (w_objections w'))
     \<and> grown (tvals (w_notifications w)) (tvals (w_notifications w'))
     \<and> grown (tvals (w_events w)) (tvals (w_events w'))
     \<and> grown (w_audit w) (w_audit w') \<and> grown (w_escalations w) (w_escalations w')"

definition change :: "area set \<Rightarrow> world \<Rightarrow> world \<Rightarrow> bool" where
  "change T w w' \<longleftrightarrow> w_now w' = w_now w \<and> w_uuid w \<le> w_uuid w' \<and> logsGrown w w' \<and> (\<forall>t. t \<notin> T \<longrightarrow> agree t w w')"

lemma agree_refl [simp]: "agree t w w"
  by (cases t) simp_all

lemma agree_trans: "agree t w w' \<Longrightarrow> agree t w' w'' \<Longrightarrow> agree t w w''"
  by (cases t) simp_all

lemma logsGrown_refl [simp]: "logsGrown w w"
  by (simp add: logsGrown_def)

lemma logsGrown_trans: "logsGrown w w' \<Longrightarrow> logsGrown w' w'' \<Longrightarrow> logsGrown w w''"
  unfolding logsGrown_def by (blast intro: grown_trans)

lemma change_refl [simp]: "change T w w"
  by (simp add: change_def)

lemma change_trans: "change T w w' \<Longrightarrow> change T w' w'' \<Longrightarrow> change T w w''"
  unfolding change_def by (auto intro: logsGrown_trans agree_trans)

text \<open>
  A relation between the worlds before and after an action that composes.  An action may be followed by
  others, so what it does is stated relative to any earlier world: \<open>keeps (R w0) m\<close>.
\<close>

locale history =
  fixes R :: "world \<Rightarrow> world \<Rightarrow> bool"
  assumes refl: "R w w"
    and trans: "R w w' \<Longrightarrow> R w' w'' \<Longrightarrow> R w w''"

context history begin

lemma keeps_local: "(\<And>w. wp m (\<lambda>_. R w) (\<lambda>_. R w) w) \<Longrightarrow> keeps (R w0) m"
  by (auto simp: keeps_def wp_snd intro: trans)

lemma from_keeps: "(\<And>w0. keeps (R w0) m) \<Longrightarrow> R w (snd (m w))"
  using refl by (auto simp: keeps_def)

lemma wp_from: "keeps (R w) m \<Longrightarrow> wp m (\<lambda>_. R w) (\<lambda>_. R w) w"
  by (erule keepsD) (rule refl)

lemma keeps_iff: "(\<forall>w. R w (snd (m w))) \<longleftrightarrow> (\<forall>w0. keeps (R w0) m)"
  using from_keeps keeps_local[unfolded wp_snd] by blast

end

interpretation changes: history "change T" for T
  by unfold_locales (auto intro: change_trans)

lemma change_agree: "change T w w' \<Longrightarrow> t \<notin> T \<Longrightarrow> agree t w w'"
  by (simp add: change_def)

section \<open>Modification clauses\<close>

definition modifies :: "area set \<Rightarrow> 'a M \<Rightarrow> bool" where
  "modifies T m \<longleftrightarrow> (\<forall>w. change T w (snd (m w)))"

named_theorems modifies_intros \<open>which tables an action may change\<close>

lemma modifies_keeps: "modifies T m \<longleftrightarrow> (\<forall>w0. keeps (change T w0) m)"
  unfolding modifies_def by (rule changes.keeps_iff)

lemma modifiesI: "(\<And>w. wp m (\<lambda>_. change T w) (\<lambda>_. change T w) w) \<Longrightarrow> modifies T m"
  by (simp add: modifies_def wp_snd)

lemma modifiesD: "modifies T m \<Longrightarrow> wp m (\<lambda>_. change T w) (\<lambda>_. change T w) w"
  by (simp add: modifies_def wp_snd)

lemma modifies_area:
  "modifies T m \<Longrightarrow> t \<notin> T \<Longrightarrow> agree t w (snd (m w)) \<and> w_uuid w \<le> w_uuid (snd (m w))"
  unfolding modifies_def change_def by blast

lemma modifies_basic [modifies_intros]:
  "modifies T (retM x)" "modifies T (throwM e)" "modifies T (getsM g)" "modifies T (liftR r)"
  "modifies T (requireM e y)"
  by (simp_all add: modifies_keeps keeps_basic)

lemma modifies_bind [modifies_intros]:
  "modifies T m \<Longrightarrow> (\<And>x. modifies T (f x)) \<Longrightarrow> modifies T (bindM m f)"
  by (simp add: modifies_keeps keeps_bind)

lemma modifies_then [modifies_intros]: "modifies T m \<Longrightarrow> modifies T n \<Longrightarrow> modifies T (thenM m n)"
  by (simp add: modifies_keeps keeps_then)

lemma modifies_when [modifies_intros]: "(b \<Longrightarrow> modifies T m) \<Longrightarrow> modifies T (whenM b m)"
  by (simp add: modifies_keeps keeps_when)

lemma modifies_if [modifies_intros]:
  "(b \<Longrightarrow> modifies T m) \<Longrightarrow> (\<not> b \<Longrightarrow> modifies T n) \<Longrightarrow> modifies T (if b then m else n)"
  by simp

lemma modifies_option [modifies_intros]:
  "(x = None \<Longrightarrow> modifies T m) \<Longrightarrow> (\<And>y. x = Some y \<Longrightarrow> modifies T (f y))
    \<Longrightarrow> modifies T (case x of None \<Rightarrow> m | Some y \<Rightarrow> f y)"
  by (cases x) simp_all

lemma modifies_catch [modifies_intros]:
  "modifies T m \<Longrightarrow> (\<And>e. modifies T (h e)) \<Longrightarrow> modifies T (catchM m h)"
  by (simp add: modifies_keeps keeps_catch)

lemma modifies_attempt [modifies_intros]: "modifies T m \<Longrightarrow> modifies T (attemptM m)"
  by (simp add: modifies_keeps keeps_attempt)

lemma modifies_loops [modifies_intros]:
  "(\<And>x. x \<in> set xs \<Longrightarrow> modifies T (f x)) \<Longrightarrow> modifies T (forM xs f)"
  "(\<And>x. x \<in> set xs \<Longrightarrow> modifies T (g x)) \<Longrightarrow> modifies T (mapM g xs)"
  "(\<And>x acc. x \<in> set xs \<Longrightarrow> modifies T (h acc x)) \<Longrightarrow> modifies T (foldM h acc0 xs)"
  by (simp_all add: modifies_keeps keeps_forM keeps_mapM keeps_foldM)

lemma modifies_let [modifies_intros]: "modifies T (f x) \<Longrightarrow> modifies T (Let x f)"
  by simp

lemma modifies_mono: "modifies S m \<Longrightarrow> S \<subseteq> T \<Longrightarrow> modifies T m"
  unfolding modifies_def change_def by blast

text \<open>How an invariant that speaks of other tables follows.\<close>

lemma modifies_inv:
  assumes "modifies T m" "\<And>w w'. change T w w' \<Longrightarrow> I w \<Longrightarrow> I w'"
  shows "keeps I m"
  using assms unfolding modifies_def keeps_def by blast

section \<open>The primitive writes\<close>

text \<open>One field is written.\<close>

lemma change_writes:
  "DocumentArea \<in> T \<Longrightarrow> change T w (w\<lparr>w_documents := x1\<rparr>)"
  "VersionArea \<in> T \<Longrightarrow> change T w (w\<lparr>w_versions := x2\<rparr>)"
  "CustomerArea \<in> T \<Longrightarrow> change T w (w\<lparr>w_customers := x3\<rparr>)"
  "StateArea \<in> T \<Longrightarrow> change T w (w\<lparr>w_states := x4\<rparr>)"
  "LinkArea \<in> T \<Longrightarrow> change T w (w\<lparr>w_links := x5\<rparr>)"
  "SignedArea \<in> T \<Longrightarrow> change T w (w\<lparr>w_signed := x6\<rparr>)"
  "IdempotencyArea \<in> T \<Longrightarrow> change T w (w\<lparr>w_idempotency := x7\<rparr>)"
  "OutboundArea \<in> T \<Longrightarrow> change T w (w\<lparr>w_outbound := x8\<rparr>)"
  "HitArea \<in> T \<Longrightarrow> change T w (w\<lparr>w_hits := x9\<rparr>)"
  "AudienceArea \<in> T \<Longrightarrow> change T w (w\<lparr>w_audiences := x10\<rparr>)"
  "TypeArea \<in> T \<Longrightarrow> change T w (w\<lparr>w_documentTypes := x11\<rparr>)"
  "TemplateArea \<in> T \<Longrightarrow> change T w (w\<lparr>w_templates := x12\<rparr>)"
  "change T w (w\<lparr>w_uuid := Suc (w_uuid w)\<rparr>)"
  unfolding change_def logsGrown_def
  by (intro conjI allI impI; (simp; fail)?; case_tac t; simp)+

lemma change_logs:
  "AcceptanceLog \<in> T \<Longrightarrow> grown (tvals (w_acceptances w)) (tvals x1) \<Longrightarrow> change T w (w\<lparr>w_acceptances := x1\<rparr>)"
  "ObjectionLog \<in> T \<Longrightarrow> grown (tvals (w_objections w)) (tvals x2) \<Longrightarrow> change T w (w\<lparr>w_objections := x2\<rparr>)"
  "NotificationLog \<in> T \<Longrightarrow> grown (tvals (w_notifications w)) (tvals x3) \<Longrightarrow> change T w (w\<lparr>w_notifications := x3\<rparr>)"
  "EventLog \<in> T \<Longrightarrow> grown (tvals (w_events w)) (tvals x4) \<Longrightarrow> change T w (w\<lparr>w_events := x4\<rparr>)"
  "AuditLog \<in> T \<Longrightarrow> grown (w_audit w) x5 \<Longrightarrow> change T w (w\<lparr>w_audit := x5\<rparr>)"
  "EscalationLog \<in> T \<Longrightarrow> grown (w_escalations w) x6 \<Longrightarrow> change T w (w\<lparr>w_escalations := x6\<rparr>)"
  unfolding change_def logsGrown_def
  by (intro conjI allI impI; (simp; fail)?; case_tac t; simp)+

lemma modifies_modify: "(\<And>w. change T w (g w)) \<Longrightarrow> modifies T (modifyM g)"
  by (rule modifiesI) (simp add: wp_simps)

lemma modifies_world [modifies_intros]:
  "modifies T clock_now" "modifies T (randomUUID E)" "modifies T (newId E p)" "modifies T (ids_next E p)"
  by (auto intro!: modifiesI simp: wp_simps change_writes)

lemma modifies_catalogue [modifies_intros]:
  "DocumentArea \<in> T \<Longrightarrow> modifies T (documents_save d)"
  "VersionArea \<in> T \<Longrightarrow> modifies T (versions_save v)"
  "VersionArea \<in> T \<Longrightarrow> modifies T (versions_delete k)"
  "CustomerArea \<in> T \<Longrightarrow> modifies T (customers_save c)"
  "CustomerArea \<in> T \<Longrightarrow> modifies T (customers_softDelete k at)"
  "AudienceArea \<in> T \<Longrightarrow> modifies T (audiences_save au)"
  "AudienceArea \<in> T \<Longrightarrow> modifies T (audiences_deleteIfUnused k)"
  "TypeArea \<in> T \<Longrightarrow> modifies T (documentTypes_save dt)"
  "TypeArea \<in> T \<Longrightarrow> modifies T (documentTypes_deleteIfUnused k)"
  "TemplateArea \<in> T \<Longrightarrow> modifies T (templates_save et)"
  "TemplateArea \<in> T \<Longrightarrow> modifies T (templates_deleteIfUnused k)"
  unfolding documents_save_def versions_save_def versions_delete_def customers_save_def
    customers_softDelete_def audiences_save_def audiences_deleteIfUnused_def documentTypes_save_def
    documentTypes_deleteIfUnused_def templates_save_def templates_deleteIfUnused_def
    documents_findById_def versions_findById_def customers_findById_def audiences_findByKey_def
    documentTypes_findByKey_def templates_findById_def documents_findAll_def customers_findAll_def
    documentTypes_findAll_def
  by (intro modifies_intros modifies_modify change_writes; assumption)+

lemma modifies_states [modifies_intros]:
  "StateArea \<in> T \<Longrightarrow> modifies T (states_put k s)"
  "StateArea \<in> T \<Longrightarrow> modifies T (states_save s)"
  "StateArea \<in> T \<Longrightarrow> modifies T (states_clearNotificationDue k)"
  "StateArea \<in> T \<Longrightarrow> modifies T (states_setNotifiedAtomically k st n dl)"
  "StateArea \<in> T \<Longrightarrow> modifies T (states_transition k st st' r)"
  unfolding states_put_def states_save_def states_clearNotificationDue_def states_setNotifiedAtomically_def
    states_transition_def states_findById_def Let_def
  by (intro modifies_intros modifies_modify change_writes; assumption)+

lemma modifies_links [modifies_intros]:
  "LinkArea \<in> T \<Longrightarrow> modifies T (links_create l)"
  "LinkArea \<in> T \<Longrightarrow> modifies T (links_touch k t)"
  "LinkArea \<in> T \<Longrightarrow> modifies T (links_revoke k t)"
  unfolding links_create_def links_touch_def links_revoke_def links_put_def
  by (intro modifies_intros modifies_modify change_writes; assumption)+

lemma modifies_stores [modifies_intros]:
  "SignedArea \<in> T \<Longrightarrow> modifies T (signed_append sd)"
  "IdempotencyArea \<in> T \<Longrightarrow> modifies T (idempotency_put k v)"
  "IdempotencyArea \<in> T \<Longrightarrow> modifies T (idempotency_reserve k)"
  "IdempotencyArea \<in> T \<Longrightarrow> modifies T (idempotency_release k)"
  "OutboundArea \<in> T \<Longrightarrow> modifies T (outbound_save oe)"
  "OutboundArea \<in> T \<Longrightarrow> modifies T (outbound_markDelivered k t)"
  unfolding signed_append_def idempotency_put_def idempotency_reserve_def idempotency_release_def
    outbound_save_def outbound_markDelivered_def outbound_findByProviderRef_def Let_def
  by (intro modifies_intros modifies_modify change_writes; assumption)+

lemma modifies_logs [modifies_intros]:
  "AcceptanceLog \<in> T \<Longrightarrow> modifies T (acceptances_append a)"
  "ObjectionLog \<in> T \<Longrightarrow> modifies T (objections_append ob)"
  "NotificationLog \<in> T \<Longrightarrow> modifies T (notifications_append ne)"
  "EventLog \<in> T \<Longrightarrow> modifies T (events_append ev)"
  "AuditLog \<in> T \<Longrightarrow> modifies T (audit_append l)"
  "EscalationLog \<in> T \<Longrightarrow> modifies T (escalations_record en)"
  by (rule modifiesI,
      simp add: wp_simps acceptances_append_def objections_append_def notifications_append_def
        events_append_def audit_append_def escalations_record_def change_logs tvals_update_fresh)+

lemma modifies_event [modifies_intros]: "EventLog \<in> T \<Longrightarrow> modifies T (recordEvent E ev)"
  unfolding recordEvent_def resolveDenormalized_def resolveVersion_def resolveCustomer_def
    versions_findById_def documents_findById_def customers_findById_def Let_def
  by (intro modifies_intros)

section \<open>Reads\<close>

lemma modifies_reads [modifies_intros]:
  "modifies T (documents_findById k)" "modifies T (documents_findByTypeAndAudience k k')"
  "modifies T documents_findAll" "modifies T (versions_findById k)" "modifies T (versions_findByDocument k)"
  "modifies T (versions_findCurrentPublished k k' t)" "modifies T (versions_findUpcomingPublishedList k k' t)"
  "modifies T (customers_findById k)" "modifies T (customers_findAllByExternalRef k)"
  "modifies T (customers_findByRole k)" "modifies T customers_findAll" "modifies T (states_findById k)"
  "modifies T (states_findByCustomerAndVersion k k')" "modifies T (states_findByCustomer k)"
  "modifies T (states_findOpenByVersion k)" "modifies T (states_findByVersion k)"
  "modifies T (states_findDueForSweep t)" "modifies T (states_findDueForNotification n)"
  "modifies T (acceptances_findEffective k k')" "modifies T (links_findByTokenHash k)"
  "modifies T (notifications_findByState k)" "modifies T (notifications_findByProviderRef k)"
  "modifies T (audiences_findByKey k)" "modifies T audiences_findAll" "modifies T (documentTypes_findByKey k)"
  "modifies T documentTypes_findAll" "modifies T (templates_findById k)" "modifies T (idempotency_get k)"
  "modifies T (outbound_findByProviderRef k)" "modifies T (outbound_findPendingOlderThan t)"
  unfolding store_defs by (rule modifies_basic)+

section \<open>What lies outside the program\<close>

text \<open>An action of the file storage or of the mail provider may fail, but does not reach into the tables; a
  provider may draw UUIDs.\<close>

definition outside :: "'a M \<Rightarrow> bool" where
  "outside m \<longleftrightarrow> (\<forall>w. snd (m w) = w)"

lemma modifies_outside: "outside m \<Longrightarrow> modifies T m"
  by (simp add: outside_def modifies_def)

definition drawsOnly :: "'a M \<Rightarrow> bool" where
  "drawsOnly m \<longleftrightarrow> (\<forall>w. \<exists>n. snd (m w) = w\<lparr>w_uuid := w_uuid w + n\<rparr>)"

lemma outside_draws: "outside m \<Longrightarrow> drawsOnly m"
  unfolding outside_def drawsOnly_def by (metis add_0_right world.surjective world.update_convs(2))

lemma modifies_draws: "drawsOnly m \<Longrightarrow> modifies T m"
  unfolding modifies_def
proof
  fix w assume "drawsOnly m"
  then obtain n where "snd (m w) = w\<lparr>w_uuid := w_uuid w + n\<rparr>" by (auto simp: drawsOnly_def)
  moreover have "agree t w (w\<lparr>w_uuid := w_uuid w + n\<rparr>)" for t by (cases t) simp_all
  ultimately show "change T w (snd (m w))" by (simp add: change_def logsGrown_def)
qed

definition mailOutside :: "EmailDeliveryProvider \<Rightarrow> bool" where
  "mailOutside P \<longleftrightarrow> (\<forall>mail. drawsOnly (ep_send P mail))
     \<and> (\<forall>fetch ref. ep_fetchDeliveryStatus P = Some fetch \<longrightarrow> drawsOnly (fetch ref))"

definition filesOutside :: "FileStorage \<Rightarrow> bool" where
  "filesOutside F \<longleftrightarrow> (\<forall>b n k. outside (fs_store F b n) \<and> outside (fs_getPresignedUrl F k) \<and> outside (fs_retrieve F k))"

lemma modifies_provider:
  "mailOutside P \<Longrightarrow> modifies T (ep_send P mail)"
  "mailOutside P \<Longrightarrow> ep_fetchDeliveryStatus P = Some fetch \<Longrightarrow> modifies T (fetch ref)"
  "filesOutside F \<Longrightarrow> modifies T (fs_store F b n)"
  "filesOutside F \<Longrightarrow> modifies T (fs_getPresignedUrl F k)"
  "filesOutside F \<Longrightarrow> modifies T (fs_retrieve F k)"
  by (simp_all add: mailOutside_def filesOutside_def modifies_outside modifies_draws)

lemma modifies_pdf_store [modifies_intros]: "filesOutside F \<Longrightarrow> modifies T (pdf_store F u)"
  unfolding pdf_store_def by (intro modifies_intros modifies_provider)

section \<open>E-mails\<close>

abbreviation mailAreas :: "area set" where
  "mailAreas \<equiv> {LinkArea, OutboundArea, EventLog}"

lemma modifies_render [modifies_intros]:
  assumes "mailAreas \<subseteq> T"
  shows "modifies T (renderFor E cfg kind c v d a)"
  unfolding renderFor_def resolveTemplate_def assignedTemplateId_def buildVars_def resolveAcceptanceLink_def
    ensureForCustomer_def Let_def
  using assms by (intro modifies_intros) auto

lemma modifies_sendMail [modifies_intros]:
  assumes "mailAreas \<subseteq> T" "mailOutside P"
  shows "modifies T (sendMail E P c v mail what extra)"
  unfolding sendMail_def using assms by (intro modifies_intros modifies_provider) auto

lemma modifies_senders [modifies_intros]:
  assumes "mailAreas \<subseteq> T" "mailOutside P"
  shows "filesOutside F \<Longrightarrow> modifies T (notifyVersionPublished E cfg P (Some F) c v)"
    and "filesOutside F \<Longrightarrow> modifies T (notifier_remind E cfg P (Some F) c s v)"
    and "modifies T (sendReminder E cfg P c r v d)"
    and "filesOutside F \<Longrightarrow> modifies T (sendForAcceptance E cfg P F v a)"
  unfolding notifyVersionPublished_def notifier_remind_def sendVersionNotification_def sendReminder_def
    sendForAcceptance_def sendConfirmationTo_def versionPdfAttachment_def Let_def option.case
  by (intro modifies_intros modifies_provider assms; assumption?)+

lemma modifies_notifyAll [modifies_intros]:
  "mailOutside P \<Longrightarrow> modifies T (notifyAll [emailAdminNotifier P recipient] n)"
  unfolding notifyAll_def emailAdminNotifier_def by (auto intro!: modifies_intros modifies_provider)

lemma modifies_confirmation:
  "mailAreas \<subseteq> T \<Longrightarrow> mailOutside P \<Longrightarrow> filesOutside F \<Longrightarrow>
    modifies T (callConfirmation (Some (sendForAcceptance E cfg P F)) x)"
  by (simp add: callConfirmation_def modifies_senders)

end
