(* ===== verification/Mail_Facts.thy ===== *)
theory Mail_Facts
  imports Areas
begin

text \<open>
  The collaborators that the consent services call after their writes: the acceptance confirmation and
  the notification of the administrators.  They are a locale, \<open>best_effort\<close>: they neither throw nor touch
  the consent data.  The senders of the e-mail core are instances of it, whatever the mail provider and
  the file storage behind them do in their own systems; only that those do not reach into the tables is
  relied on.
\<close>

section \<open>Collaborators that never fail\<close>

text \<open>The worlds differ at most in the drawn UUIDs, the activity log, the outbound e-mails and the
  permanent links.\<close>

definition sameCore :: "world \<Rightarrow> world \<Rightarrow> bool" where
  "sameCore w w' \<longleftrightarrow> w_uuid w \<le> w_uuid w' \<and> w_now w' = w_now w \<and> w_states w' = w_states w
     \<and> w_acceptances w' = w_acceptances w \<and> w_objections w' = w_objections w
     \<and> w_notifications w' = w_notifications w \<and> w_idempotency w' = w_idempotency w
     \<and> w_versions w' = w_versions w \<and> w_documents w' = w_documents w \<and> w_customers w' = w_customers w
     \<and> w_audit w' = w_audit w \<and> w_escalations w' = w_escalations w \<and> w_audiences w' = w_audiences w
     \<and> w_documentTypes w' = w_documentTypes w \<and> w_templates w' = w_templates w
     \<and> w_signed w' = w_signed w \<and> w_hits w' = w_hits w"

lemma sameCoreD:
  assumes "sameCore w w'"
  shows "w_now w' = w_now w" "w_uuid w \<le> w_uuid w'" "w_states w' = w_states w"
    "w_acceptances w' = w_acceptances w" "w_objections w' = w_objections w"
    "w_notifications w' = w_notifications w" "w_idempotency w' = w_idempotency w"
    "w_versions w' = w_versions w" "w_documents w' = w_documents w" "w_customers w' = w_customers w"
    "w_audit w' = w_audit w" "w_escalations w' = w_escalations w" "w_audiences w' = w_audiences w"
    "w_documentTypes w' = w_documentTypes w" "w_templates w' = w_templates w" "w_signed w' = w_signed w"
  using assms by (simp_all add: sameCore_def)

lemma sameCore_refl [simp]: "sameCore w w"
  by (simp add: sameCore_def)

lemma sameCore_trans: "sameCore w w' \<Longrightarrow> sameCore w' w'' \<Longrightarrow> sameCore w w''"
  by (auto simp: sameCore_def)

locale best_effort =
  fixes run :: "'x \<Rightarrow> unit M"
  assumes quiet: "run x w = (r, w') \<Longrightarrow> r = Inr () \<and> sameCore w w'"

context best_effort begin

lemma wp_run: "(\<And>w'. sameCore w w' \<Longrightarrow> Q () w') \<Longrightarrow> wp (run x) Q X w"
  by (rule wpI) (auto dest: quiet)

lemma keeps_run: "(\<And>w w'. sameCore w w' \<Longrightarrow> I w \<Longrightarrow> I w') \<Longrightarrow> keeps I (run x)"
  by (rule keepsI) (auto intro: wp_run)

end

interpretation no_confirmation: best_effort "callConfirmation None"
  by unfold_locales (auto simp: callConfirmation_def retM_def)

interpretation no_notifier: best_effort "callNotifier None"
  by unfold_locales (auto simp: callNotifier_def retM_def)

section \<open>The senders are best effort\<close>

lemma change_sameCore: "change T w w' \<Longrightarrow> T \<subseteq> mailAreas \<Longrightarrow> sameCore w w'"
proof -
  assume c: "change T w w'" and T: "T \<subseteq> mailAreas"
  have "agree t w w'" if "t \<notin> mailAreas" for t using change_agree[OF c] T that by blast
  from this[of StateArea] this[of AcceptanceLog] this[of ObjectionLog] this[of NotificationLog]
    this[of IdempotencyArea] this[of VersionArea] this[of DocumentArea] this[of CustomerArea] this[of AuditLog]
    this[of EscalationLog] this[of AudienceArea] this[of TypeArea] this[of TemplateArea] this[of SignedArea]
    this[of HitArea] c
  show "sameCore w w'" by (simp add: sameCore_def change_def)
qed

lemma attempt_returns: "fst (thenM (attemptM m) (retM ()) w) = Inr ()"
  by (simp add: thenM_def bindM_def attemptM_def retM_def split: prod.splits sum.splits)

lemma sendForAcceptance_returns: "fst (sendForAcceptance E cfg P F v a w) = Inr ()"
  unfolding sendForAcceptance_def by (rule attempt_returns)

lemma notifyAll_returns: "fst (notifyAll ns n w) = Inr ()"
proof -
  have "wp (notifyAll ns n) (\<lambda>_ _. True) (\<lambda>_ _. False) w"
    unfolding notifyAll_def
  proof (rule wp_forM_inv[where I = "\<lambda>_ _. True"])
    fix dn rest w1 and x :: "AdminNotification \<Rightarrow> unit M"
    show "wp (thenM (attemptM (x n)) (retM ())) (\<lambda>_ _. True) (\<lambda>_ _. False) w1"
      using attempt_returns[of "x n" w1] by (auto simp: wp_def split: prod.splits sum.splits)
  qed simp_all
  then show ?thesis by (auto simp: wp_def split: prod.splits sum.splits)
qed

lemma modifies_notifiers:
  "(\<And>notify n. notify \<in> set ns \<Longrightarrow> drawsOnly (notify n)) \<Longrightarrow> modifies T (notifyAll ns n)"
  unfolding notifyAll_def by (intro modifies_intros modifies_draws) simp

lemma emailNotifier_draws: "mailOutside P \<Longrightarrow> drawsOnly (emailAdminNotifier P recipient n)"
  unfolding drawsOnly_def
proof
  fix w assume "mailOutside P"
  moreover define mail where "mail = \<lparr>om_to = recipient, om_subject = an_title n, om_text = an_body n,
       om_html = Some (''<pre style='' @ [CHR 0x22] @ ''font-family:inherit;white-space:pre-wrap'' @ [CHR 0x22]
         @ ''>'' @ escapeBody (an_body n) @ ''</pre>''), om_attachments = None\<rparr>"
  ultimately obtain k where "snd (ep_send P mail w) = w\<lparr>w_uuid := w_uuid w + k\<rparr>"
    unfolding mailOutside_def drawsOnly_def by blast
  moreover have "snd (emailAdminNotifier P recipient n w) = snd (ep_send P mail w)"
    by (simp add: emailAdminNotifier_def mail_def thenM_def bindM_def attemptM_def retM_def split: prod.splits sum.splits)
  ultimately show "\<exists>k. snd (emailAdminNotifier P recipient n w) = w\<lparr>w_uuid := w_uuid w + k\<rparr>"
    by (intro exI[of _ k]) simp
qed

text \<open>The services the senders use: a mail provider and a file storage that keep out of the tables.\<close>

locale mail_services =
  fixes P :: EmailDeliveryProvider and F :: FileStorage
  assumes mail: "mailOutside P" and files: "filesOutside F"

sublocale mail_services \<subseteq> confirmation: best_effort "callConfirmation (Some (sendForAcceptance E cfg P F))" for E cfg
proof (unfold_locales, rule conjI)
  fix x w r w'
  let ?m = "callConfirmation (Some (sendForAcceptance E cfg P F)) x"
  assume run: "?m w = (r, w')"
  show "r = Inr ()"
    using sendForAcceptance_returns[of E cfg P F "fst x" "snd x" w] run by (simp add: callConfirmation_def)
  have "change mailAreas w (snd (?m w))"
    using modifies_confirmation[OF order_refl mail files] by (simp add: modifies_def)
  with run show "sameCore w w'" using change_sameCore[OF _ order_refl] by simp
qed

context mail_services begin

lemma confirmation_quiet: "best_effort (callConfirmation (Some (sendForAcceptance E cfg P F)))"
  by (rule confirmation.best_effort_axioms)

end

lemma notifier_quiet:
  assumes "\<And>notify n. notify \<in> set ns \<Longrightarrow> drawsOnly (notify n)"
  shows "best_effort (callNotifier (Some (notifyAll ns)))"
proof (unfold_locales, rule conjI)
  fix x w r w'
  assume run: "callNotifier (Some (notifyAll ns)) x w = (r, w')"
  then show "r = Inr ()" using notifyAll_returns[of ns x w] by (simp add: callNotifier_def)
  have "change {} w (snd (notifyAll ns x w))"
    using assms modifies_notifiers[of ns] unfolding modifies_def by blast
  with run show "sameCore w w'" using change_sameCore[of "{}"] by (simp add: callNotifier_def)
qed

text \<open>What the server is wired with: no confirmation, or the one of the e-mail core; no notification of
  administrators, or the active notifiers run by \<open>notifyAll\<close>, each of which may fail.\<close>

definition wiredConfirmation :: "env \<Rightarrow> confirmation \<Rightarrow> bool" where
  "wiredConfirmation E conf \<longleftrightarrow> conf = None
     \<or> (\<exists>cfg P F. conf = Some (sendForAcceptance E cfg P F) \<and> mailOutside P \<and> filesOutside F)"

definition wiredNotifier :: "adminNotifications \<Rightarrow> bool" where
  "wiredNotifier notifyAdmins \<longleftrightarrow> notifyAdmins = None
     \<or> (\<exists>ns. notifyAdmins = Some (notifyAll ns) \<and> (\<forall>notify \<in> set ns. \<forall>n. drawsOnly (notify n)))"

lemma wiredConfirmation_quiet: "wiredConfirmation E conf \<Longrightarrow> best_effort (callConfirmation conf)"
  unfolding wiredConfirmation_def
  using no_confirmation.best_effort_axioms mail_services.confirmation_quiet mail_services.intro by metis

lemma wiredNotifier_quiet: "wiredNotifier notifyAdmins \<Longrightarrow> best_effort (callNotifier notifyAdmins)"
  unfolding wiredNotifier_def using no_notifier.best_effort_axioms notifier_quiet by metis

section \<open>A small instance\<close>

text \<open>A provider that accepts every mail, a storage that has one file, and the senders on them.\<close>

definition mail_ex :: EmailDeliveryProvider where
  "mail_ex = \<lparr>ep_send = (\<lambda>_. retM ''ref''), ep_fetchDeliveryStatus = None\<rparr>"

definition files_ex :: FileStorage where
  "files_ex = \<lparr>fs_store = (\<lambda>_ _. retM ''key''), fs_getPresignedUrl = (\<lambda>_. retM ''url''), fs_retrieve = (\<lambda>_. retM ''pdf'')\<rparr>"

definition cfg_ex :: NotificationConfig where
  "cfg_ex = \<lparr>cfg_appName = ''app'', cfg_publicBaseUrl = [], cfg_acceptanceLinkSecret = ''s''\<rparr>"

definition confirmation_ex :: confirmation where
  "confirmation_ex = Some (sendForAcceptance env_ex cfg_ex mail_ex files_ex)"

definition notifier_ex :: adminNotifications where
  "notifier_ex = Some (notifyAll [emailAdminNotifier mail_ex ''admin@example.org''])"

interpretation small_services: mail_services mail_ex files_ex
  by unfold_locales
    (simp_all add: mailOutside_def filesOutside_def mail_ex_def files_ex_def outside_draws outside_def retM_def)

lemma wired_senders_ex: "wiredConfirmation env_ex confirmation_ex" "wiredNotifier notifier_ex"
proof -
  show "wiredConfirmation env_ex confirmation_ex"
    using small_services.mail small_services.files unfolding wiredConfirmation_def confirmation_ex_def by blast
  show "wiredNotifier notifier_ex"
    using emailNotifier_draws[OF small_services.mail] unfolding wiredNotifier_def notifier_ex_def
    by (intro disjI2 exI[of _ "[emailAdminNotifier mail_ex ''admin@example.org'']"]) simp
qed

end
