(* ===== verification/Consent_Facts.thy ===== *)
theory Consent_Facts
  imports Mail_Facts
begin

text \<open>
  The consent services are correct: an acceptance is recorded with its evidence or nothing is written,
  a repeated request is answered from the store, the first display starts the period, an objection is
  recorded only within it.  The collaborators that send mail are those of \<open>Mail_Facts\<close>.
\<close>

section \<open>Recording an acceptance\<close>

lemma applyTransition_None [simp]:
  "s\<lparr>cvs_state := x, cvs_remindersSent := orElse None (cvs_remindersSent s)\<rparr> = s\<lparr>cvs_state := x\<rparr>"
  by simp

lemma buildAcceptance_ok:
  assumes "checkConsentText version displayed = Inr ()"
  shows "\<exists>a. buildAcceptance input version channel aid at = Inr a"
  using assms
  by (auto simp: buildAcceptance_def checkConsentText_def consentTextHashFor_def split: option.splits if_splits)

lemma buildAcceptance_fields:
  assumes "buildAcceptance input version channel aid at = Inr a"
  shows "a_id a = aid" "a_customerId a = ai_customerId input" "a_versionId a = ai_versionId input"
    "a_isEffective a" "a_method a = ACTIVE_CONSENT" "a_channel a = channel" "a_acceptedAt a = at"
    "a_actor a = ctx_actor (ai_context input)" "a_contentHash a = Some (v_contentHash version)"
    "a_consentText a = (if v_acceptanceMode version = ACTIVE then v_consentText version else None)"
    "a_consentTextHash a = (if v_acceptanceMode version = ACTIVE
        then map_option (\<lambda>t. ''sha256:'' @ sha256Hex t) (v_consentText version) else None)"
  using assms
  by (auto simp: buildAcceptance_def requiresConsentText_def consentTextHashFor_def bindR_eq_Inr
      split: if_splits option.splits)

text \<open>No other pair of a customer and a version gets another state.\<close>

definition otherPairsKept :: "string \<Rightarrow> string \<Rightarrow> world \<Rightarrow> world \<Rightarrow> bool" where
  "otherPairsKept c v w w' \<longleftrightarrow> (\<forall>c' v'. (c', v') \<noteq> (c, v) \<longrightarrow>
     stateFor (tvals (w_states w')) c' v' = stateFor (tvals (w_states w)) c' v')"

lemma otherPairsKept_append:
  "tvals (w_states w') = tvals (w_states w) @ [s] \<Longrightarrow> otherPairsKept (cvs_customerId s) (cvs_versionId s) w w'"
  by (auto simp: otherPairsKept_def stateFor_append split: option.split)

lemma otherPairsKept_update:
  assumes wf: "wf_table cvs_id (w_states w)" and row: "map_of (w_states w) (cvs_id s) = Some s" "samePair s s'"
    and w': "w_states w' = AList.update (cvs_id s) s' (w_states w)"
  shows "otherPairsKept (cvs_customerId s) (cvs_versionId s) w w'"
  unfolding otherPairsKept_def
proof (intro allI impI)
  fix c v assume other: "(c, v) \<noteq> (cvs_customerId s, cvs_versionId s)"
  have "cvs_id x \<noteq> cvs_id s" if "stateFor (tvals (w_states w)) c v = Some x" for x
    using stateFor_stored[OF wf that] stateFor_SomeD[OF that] row(1) other by (metis option.inject)
  then show "stateFor (tvals (w_states w')) c v = stateFor (tvals (w_states w)) c v"
    by (simp add: w' stateFor_update_wf[OF wf row] split: option.split)
qed

definition wroteAcceptance :: "env \<Rightarrow> AcceptanceInput \<Rightarrow> world \<Rightarrow> Acceptance \<Rightarrow> world \<Rightarrow> bool" where
  "wroteAcceptance E input w a w' \<longleftrightarrow>
     consentInv E w'
     \<and> effectiveFor (w_acceptances w) (ai_customerId input) (ai_versionId input) = None
     \<and> effectiveFor (w_acceptances w') (ai_customerId input) (ai_versionId input) = Some a
     \<and> tvals (w_acceptances w') = tvals (w_acceptances w) @ [a]
     \<and> accepted (stateFor (tvals (w_states w')) (ai_customerId input) (ai_versionId input))
     \<and> otherPairsKept (ai_customerId input) (ai_versionId input) w w'
     \<and> sameCore w (w'\<lparr>w_states := w_states w, w_acceptances := w_acceptances w\<rparr>)"

lemma acceptance_write_new:
  assumes good: "goodIds E" and inv: "consentInv E w"
    and none: "stateFor (tvals (w_states w)) (ai_customerId input) (ai_versionId input) = None"
    and chk: "checkConsentText version displayed = Inr ()"
  shows "wp (acceptance_write E input version None channel)
     (\<lambda>a w'. wroteAcceptance E input w a w'
        \<and> (\<exists>aid. buildAcceptance input version channel aid (w_now w) = Inr a)) (\<lambda>e w'. False) w"
proof -
  define sid where "sid = ''cvs-'' @ e_uuid E (w_uuid w)"
  define s where "s = newState sid (ai_customerId input) (ai_versionId input)\<lparr>cvs_state := ACCEPTED\<rparr>"
  define aid where "aid = ''a-'' @ e_uuid E (Suc (w_uuid w))"
  obtain a where a: "buildAcceptance input version channel aid (w_now w) = Inr a"
    using buildAcceptance_ok[OF chk] by blast
  note f = buildAcceptance_fields[OF a]
  have sfresh: "map_of (w_states w) sid = None"
    using fresh_cvs[OF good, of "w_states w" "w_uuid w"] inv by (simp add: consentInv_def sid_def)
  have afresh: "map_of (w_acceptances w) aid = None"
    using fresh_a(1)[OF good, of "w_acceptances w" "Suc (w_uuid w)"] inv
      drawn_Suc[of "w_acceptances w" E "[''a-'', []]" "w_uuid w" "Suc (w_uuid w)"]
    by (simp add: consentInv_def aid_def)
  have noeff: "effectiveFor (w_acceptances w) (ai_customerId input) (ai_versionId input) = None"
    using inv none unfolding consentInv_def accepted_def by (metis map_option_is_None option.distinct(1))
  define w' where "w' = w\<lparr>w_states := AList.update sid s (w_states w), w_uuid := Suc (Suc (w_uuid w)),
    w_acceptances := AList.update aid a (w_acceptances w)\<rparr>"
  have sv: "tvals (w_states w') = tvals (w_states w) @ [s]"
    by (simp add: w'_def tvals_update_fresh[OF sfresh])
  have found: "accepted (stateFor (tvals (w_states w')) c v)"
    if "accepted (stateFor (tvals (w_states w)) c v)" for c v
    using that by (auto simp: sv stateFor_append accepted_def)
  have "consentInv E w' \<and> effectiveFor (w_acceptances w') (a_customerId a) (a_versionId a) = Some a"
  proof (rule consentInv_accept[OF inv])
    show "wf_table cvs_id (w_states w')"
      using inv by (simp add: w'_def consentInv_def s_def newState_def wf_table_update)
    show "fst ` set (w_states w') \<subseteq> drawnIds E [''cvs-''] (w_uuid w')"
      using inv drawn_Suc[of "w_states w" E "[''cvs-'']" "w_uuid w" "w_uuid w'"]
        drawn_new[of "''cvs-''" "[''cvs-'']" "w_uuid w" "w_uuid w'" E]
      by (simp add: consentInv_def keys_update w'_def sid_def)
    show "a_id a \<in> drawnIds E [''a-'', []] (w_uuid w')"
      unfolding f aid_def by (rule drawn_new) (simp_all add: w'_def)
    show "accepted (stateFor (tvals (w_states w')) (a_customerId a) (a_versionId a))"
      using none by (simp add: sv stateFor_append f accepted_def s_def newState_def)
    show "\<And>t. t \<in> set (tvals (w_states w')) \<Longrightarrow> cvs_state t = ACCEPTED \<Longrightarrow>
        t \<in> set (tvals (w_states w)) \<or> cvs_customerId t = a_customerId a \<and> cvs_versionId t = a_versionId a"
      by (auto simp: sv f s_def newState_def)
  qed (use found f noeff afresh in \<open>simp_all add: w'_def\<close>)
  moreover have "otherPairsKept (ai_customerId input) (ai_versionId input) w w'"
    using otherPairsKept_append[OF sv] by (simp add: s_def newState_def)
  ultimately have post: "wroteAcceptance E input w a w'"
    using noeff none unfolding wroteAcceptance_def f
    by (auto simp: w'_def tvals_update_fresh[OF afresh] tvals_update_fresh[OF sfresh] stateFor_append
        accepted_def s_def newState_def sameCore_def)
  show ?thesis
    using a afresh noeff post f(1-4)
    by (auto simp: acceptance_write_def wp_simps accept_Inr accept_def ACCEPTABLE_FROM_def
        newState_def sid_def s_def aid_def w'_def)
qed

lemma acceptance_write_existing:
  assumes good: "goodIds E" and inv: "consentInv E w"
    and some: "stateFor (tvals (w_states w)) (ai_customerId input) (ai_versionId input) = Some s"
    and open_state: "cvs_state s \<noteq> ACCEPTED" "cvs_state s \<noteq> SUPERSEDED"
    and chk: "checkConsentText version displayed = Inr ()"
  shows "wp (acceptance_write E input version (Some s) channel)
     (\<lambda>a w'. wroteAcceptance E input w a w'
        \<and> (\<exists>aid. buildAcceptance input version channel aid (w_now w) = Inr a)) (\<lambda>e w'. False) w"
proof -
  define aid where "aid = ''a-'' @ e_uuid E (w_uuid w)"
  define s' where "s' = s\<lparr>cvs_state := ACCEPTED\<rparr>"
  obtain a where a: "buildAcceptance input version channel aid (w_now w) = Inr a"
    using buildAcceptance_ok[OF chk] by blast
  note f = buildAcceptance_fields[OF a]
  have wf: "wf_table cvs_id (w_states w)" using inv by (simp add: consentInv_def)
  have row: "map_of (w_states w) (cvs_id s) = Some s" by (rule stateFor_stored[OF wf some])
  have afresh: "map_of (w_acceptances w) aid = None"
    using fresh_a(1)[OF good, of "w_acceptances w" "w_uuid w"] inv by (simp add: consentInv_def aid_def)
  have noeff: "effectiveFor (w_acceptances w) (ai_customerId input) (ai_versionId input) = None"
    using inv some open_state unfolding consentInv_def accepted_def
    by (metis option.inject option.simps(9))
  define w' where "w' = w\<lparr>w_states := AList.update (cvs_id s) s' (w_states w), w_uuid := Suc (w_uuid w),
    w_acceptances := AList.update aid a (w_acceptances w)\<rparr>"
  have drawn: "a_id a \<in> drawnIds E [''a-'', []] (w_uuid w')"
    unfolding f aid_def by (rule drawn_new) (simp_all add: w'_def)
  have "consentInv E w' \<and> effectiveFor (w_acceptances w') (a_customerId a) (a_versionId a) = Some a
    \<and> accepted (stateFor (tvals (w_states w')) (a_customerId a) (a_versionId a))"
    by (rule consentInv_accept_row[OF inv, of a s]) (use some noeff afresh f drawn in \<open>simp_all add: w'_def s'_def\<close>)
  moreover have "tvals (w_acceptances w') = tvals (w_acceptances w) @ [a]"
    by (simp add: w'_def tvals_update_fresh[OF afresh])
  moreover have "sameCore w (w'\<lparr>w_states := w_states w, w_acceptances := w_acceptances w\<rparr>)"
    by (simp add: w'_def sameCore_def)
  moreover have "otherPairsKept (ai_customerId input) (ai_versionId input) w w'"
    using otherPairsKept_update[OF wf row, of s' w'] stateFor_SomeD[OF some]
    by (simp add: samePair_def s'_def w'_def)
  ultimately have post: "wroteAcceptance E input w a w'"
    using noeff unfolding wroteAcceptance_def f by blast
  have "accept s ACTIVE_CONSENT = Inr s'" by (simp add: accept_Inr open_state s'_def)
  then show ?thesis
    using a afresh noeff post f(1-4) row
    by (auto simp: acceptance_write_def wp_simps s'_def aid_def w'_def)
qed

lemma acceptance_write_closed:
  assumes "cvs_state s \<in> {ACCEPTED, SUPERSEDED}"
  shows "acceptance_write E input version (Some s) channel w =
    (domainError (if cvs_state s = ACCEPTED then ALREADY_ACCEPTED else INVALID_STATE), w)"
  using assms
  by (auto simp: acceptance_write_def accept_def ACCEPTABLE_FROM_def action_defs domainError_def)

text \<open>All cases of the write: it succeeds exactly when the state of the pair is open or missing.\<close>

lemma acceptance_write_wp:
  assumes "goodIds E" "consentInv E w" "checkConsentText version displayed = Inr ()"
    and ex: "existing = stateFor (tvals (w_states w)) (ai_customerId input) (ai_versionId input)"
  shows "wp (acceptance_write E input version existing channel)
     (\<lambda>a w'. wroteAcceptance E input w a w' \<and> map_option cvs_state existing \<notin> {Some ACCEPTED, Some SUPERSEDED}
        \<and> (\<exists>aid. buildAcceptance input version channel aid (w_now w) = Inr a))
     (\<lambda>e w'. w' = w \<and> map_option cvs_state existing \<in> {Some ACCEPTED, Some SUPERSEDED}
        \<and> e = DomainError (if accepted existing then ALREADY_ACCEPTED else INVALID_STATE)) w"
proof (cases existing)
  case None
  with assms have "stateFor (tvals (w_states w)) (ai_customerId input) (ai_versionId input) = None" by simp
  from wp_mono[OF acceptance_write_new[OF assms(1,2) this assms(3)]] None show ?thesis by auto
next
  case (Some s)
  show ?thesis
  proof (cases "cvs_state s \<in> {ACCEPTED, SUPERSEDED}")
    case True
    then show ?thesis
      using Some by (auto simp: acceptance_write_closed wp_def domainError_def accepted_def)
  next
    case False
    from Some ex have "stateFor (tvals (w_states w)) (ai_customerId input) (ai_versionId input) = Some s" by simp
    from wp_mono[OF acceptance_write_existing[OF assms(1,2) this _ _ assms(3)]] False Some show ?thesis by auto
  qed
qed

section \<open>The acceptance service\<close>

text \<open>When a consent may be recorded: the version is the applicable one or scheduled, the customer
  holds the role, the displayed text is the stored one (ACTIVE), the state of the pair is open.\<close>

definition mayAccept :: "world \<Rightarrow> AcceptanceInput \<Rightarrow> bool" where
  "mayAccept w input \<longleftrightarrow>
    (case map_of (w_versions w) (ai_versionId input) of
       None \<Rightarrow> False
     | Some version \<Rightarrow>
    (case map_of (w_documents w) (v_documentId version) of
       None \<Rightarrow> False
     | Some document \<Rightarrow>
    (case map_of (w_customers w) (ai_customerId input) of
       None \<Rightarrow> False
     | Some customer \<Rightarrow>
         (v_status version = PUBLISHED \<and> v_validFrom version > w_now w
          \<or> map_option v_id (findCurrentPublished w (d_type document) (d_audience document) (w_now w))
              = Some (v_id version))
         \<and> d_audience document \<in> set (c_roles customer)
         \<and> (v_acceptanceMode version = ACTIVE \<longrightarrow>
              v_consentText version \<noteq> None \<and> ai_displayedConsentText input = v_consentText version)
         \<and> orElse (ai_channel input) ChPORTAL \<noteq> ChSYSTEM
         \<and> map_option cvs_state (stateFor (tvals (w_states w)) (ai_customerId input) (ai_versionId input))
             \<notin> {Some ACCEPTED, Some SUPERSEDED})))"

text \<open>The evidence an acceptance must carry.\<close>

definition evidenceOf :: "world \<Rightarrow> AcceptanceInput \<Rightarrow> Acceptance \<Rightarrow> bool" where
  "evidenceOf w input a \<longleftrightarrow>
     a_customerId a = ai_customerId input \<and> a_versionId a = ai_versionId input
     \<and> a_method a = ACTIVE_CONSENT \<and> a_channel a = orElse (ai_channel input) ChPORTAL
     \<and> a_acceptedAt a = w_now w \<and> a_actor a = ctx_actor (ai_context input) \<and> a_isEffective a
     \<and> (case map_of (w_versions w) (ai_versionId input) of
          None \<Rightarrow> False
        | Some version \<Rightarrow> a_contentHash a = Some (v_contentHash version)
            \<and> (if v_acceptanceMode version = ACTIVE
               then a_consentText a = ai_displayedConsentText input
                 \<and> a_consentTextHash a = map_option (\<lambda>t. ''sha256:'' @ sha256Hex t) (ai_displayedConsentText input)
               else a_consentText a = None \<and> a_consentTextHash a = None))"

lemma checkConsentText_Inr:
  "checkConsentText version displayed = Inr () \<longleftrightarrow>
     (v_acceptanceMode version = ACTIVE \<longrightarrow> v_consentText version \<noteq> None \<and> displayed = v_consentText version)"
  by (auto simp: checkConsentText_def requiresConsentText_def split: option.splits)

lemma channel_allowed:
  "assertMethodChannelAllowed ACTIVE_CONSENT ch = Inr () \<longleftrightarrow> ch \<noteq> ChSYSTEM"
  by (cases ch) (simp_all add: assertMethodChannelAllowed_def)

lemma current_or_upcoming:
  "assertVersionCurrent v cur now = Inr () \<longleftrightarrow>
     v_status v = PUBLISHED \<and> v_validFrom v > now \<or> map_option v_id cur = Some (v_id v)"
  by (auto simp: assertVersionCurrent_Inr)

lemma liftR_unit_wp:
  "wp (liftR (r :: unit result)) Q X w = (if r = Inr () then Q () w else X (projl r) w)"
  by (cases r) (simp_all add: wp_simps)

lemma afterEvent_sameCore: "sameCore w (afterEvent E ev w)"
  by (simp add: sameCore_def)

lemma recorded_frame:
  assumes "wroteAcceptance E input w a w1" "sameCore w1 w'"
  shows "wroteAcceptance E input w a w'"
proof -
  note s = sameCoreD[OF assms(2)]
  have "consentInv E w'"
    using assms(1) s by (auto simp: wroteAcceptance_def intro: consentInv_frame)
  moreover have "sameCore w (w'\<lparr>w_states := w_states w, w_acceptances := w_acceptances w\<rparr>)"
    using assms unfolding wroteAcceptance_def sameCore_def by simp
  ultimately show ?thesis using assms(1) s unfolding wroteAcceptance_def otherPairsKept_def by simp
qed

lemma acceptance_process_wp:
  assumes good: "goodIds E" and inv: "consentInv E w" and conf: "best_effort (callConfirmation conf)"
  shows "wp (acceptance_process E conf input)
     (\<lambda>r w'. mayAccept w input \<and>
        (\<exists>a. r = AcceptanceResponse (a_id a) \<and> evidenceOf w input a \<and> wroteAcceptance E input w a w'))
     (\<lambda>e w'. w' = w \<and> \<not> mayAccept w input) w"
proof (cases "map_of (w_versions w) (ai_versionId input)")
  case None
  then show ?thesis by (simp add: acceptance_process_def wp_simps mayAccept_def)
next
  case v: (Some version)
  show ?thesis
  proof (cases "map_of (w_documents w) (v_documentId version)")
    case None
    with v show ?thesis by (simp add: acceptance_process_def wp_simps mayAccept_def)
  next
    case d: (Some document)
    show ?thesis
    proof (cases "map_of (w_customers w) (ai_customerId input)")
      case None
      with v d show ?thesis
        by (simp add: acceptance_process_def wp_simps mayAccept_def liftR_unit_wp del: wp_liftR)
    next
      case c: (Some customer)
      let ?ch = "orElse (ai_channel input) ChPORTAL"
      let ?ex = "stateFor (tvals (w_states w)) (ai_customerId input) (ai_versionId input)"
      have may: "mayAccept w input \<longleftrightarrow>
          assertVersionCurrent version
            (findCurrentPublished w (d_type document) (d_audience document) (w_now w)) (w_now w) = Inr ()
          \<and> assertCustomerHasRole customer (d_audience document) = Inr ()
          \<and> checkConsentText version (ai_displayedConsentText input) = Inr ()
          \<and> assertMethodChannelAllowed ACTIVE_CONSENT ?ch = Inr ()
          \<and> map_option cvs_state ?ex \<notin> {Some ACCEPTED, Some SUPERSEDED}"
        using v d c by (simp add: mayAccept_def current_or_upcoming checkConsentText_Inr channel_allowed
            del: assertMethodChannelAllowed_Inr)
      show ?thesis
      proof (cases "checkConsentText version (ai_displayedConsentText input) = Inr ()")
        case False
        with v d c may show ?thesis
          by (simp add: acceptance_process_def wp_simps liftR_unit_wp del: wp_liftR)
      next
        case chk: True
        have core: "wp (acceptance_write E input version ?ex ?ch)
            (\<lambda>a. wp (thenM (recordEvent E (acceptedEvent input customer version document ?ch))
                 (thenM (callConfirmation conf (version, a)) (retM (AcceptanceResponse (a_id a)))))
              (\<lambda>r w'. map_option cvs_state ?ex \<notin> {Some ACCEPTED, Some SUPERSEDED} \<and>
                 (\<exists>a. r = AcceptanceResponse (a_id a) \<and> evidenceOf w input a \<and> wroteAcceptance E input w a w'))
              (\<lambda>e w'. w' = w \<and> map_option cvs_state ?ex \<in> {Some ACCEPTED, Some SUPERSEDED}))
            (\<lambda>e w'. w' = w \<and> map_option cvs_state ?ex \<in> {Some ACCEPTED, Some SUPERSEDED}) w"
        proof (rule wp_mono[OF acceptance_write_wp[OF good inv chk refl]])
          fix a w1
          assume post: "wroteAcceptance E input w a w1 \<and>
              map_option cvs_state ?ex \<notin> {Some ACCEPTED, Some SUPERSEDED} \<and>
              (\<exists>aid. buildAcceptance input version ?ch aid (w_now w) = Inr a)"
          then obtain aid where "buildAcceptance input version ?ch aid (w_now w) = Inr a" by blast
          from buildAcceptance_fields[OF this] have "evidenceOf w input a"
            using v chk by (auto simp: evidenceOf_def checkConsentText_Inr)
          then show "wp (thenM (recordEvent E (acceptedEvent input customer version document ?ch))
                 (thenM (callConfirmation conf (version, a)) (retM (AcceptanceResponse (a_id a)))))
              (\<lambda>r w'. map_option cvs_state ?ex \<notin> {Some ACCEPTED, Some SUPERSEDED} \<and>
                 (\<exists>a. r = AcceptanceResponse (a_id a) \<and> evidenceOf w input a \<and> wroteAcceptance E input w a w'))
              (\<lambda>e w'. w' = w \<and> map_option cvs_state ?ex \<in> {Some ACCEPTED, Some SUPERSEDED}) w1"
            using post recorded_frame sameCore_trans[OF afterEvent_sameCore]
            by (auto simp: wp_simps intro!: best_effort.wp_run[OF conf] exI[of _ a])
        qed auto
        from v d c may core chk show ?thesis
          by (simp add: acceptance_process_def wp_simps liftR_unit_wp del: wp_liftR assertMethodChannelAllowed_Inr)
      qed
    qed
  qed
qed

lemma consentInv_idempotency:
  "consentInv E (w\<lparr>w_idempotency := t\<rparr>) \<longleftrightarrow> consentInv E w"
  by (simp add: consentInv_def)

lemma mayAccept_idempotency: "mayAccept (w\<lparr>w_idempotency := t\<rparr>) input \<longleftrightarrow> mayAccept w input"
  by (simp add: mayAccept_def findCurrentPublished_def cong: option.case_cong)

lemma evidenceOf_idempotency: "evidenceOf (w\<lparr>w_idempotency := t\<rparr>) input a \<longleftrightarrow> evidenceOf w input a"
  by (simp add: evidenceOf_def)

lemma delete_update_fresh: "map_of t k = None \<Longrightarrow> AList.delete k (AList.update k v t) = t"
  by (induction t) (auto split: if_splits)

text \<open>What a recorded acceptance leaves, apart from its own tables and the store of the responses.\<close>

lemma wroteAcceptance_idempotency:
  "wroteAcceptance E input (w\<lparr>w_idempotency := t\<rparr>) a w' \<longleftrightarrow> wroteAcceptance E input w a (w'\<lparr>w_idempotency := w_idempotency w\<rparr>)
     \<and> w_idempotency w' = t"
  by (auto simp: wroteAcceptance_def sameCore_def otherPairsKept_def consentInv_idempotency)

text \<open>The service under a new key.\<close>

lemma acceptance_accept_wp:
  assumes "goodIds E" "consentInv E w" "best_effort (callConfirmation conf)"
    "map_of (w_idempotency w) (acceptanceKey input) = None"
  shows "wp (acceptance_accept E conf input)
     (\<lambda>r w'. mayAccept w input \<and> map_of (w_idempotency w') = (map_of (w_idempotency w))(acceptanceKey input \<mapsto> r)
        \<and> (\<exists>a. r = AcceptanceResponse (a_id a) \<and> evidenceOf w input a
              \<and> wroteAcceptance E input w a (w'\<lparr>w_idempotency := w_idempotency w\<rparr>)))
     (\<lambda>e w'. \<not> mayAccept w input \<and> w' = w) w"
proof -
  define w1 where "w1 = w\<lparr>w_idempotency := AList.update (acceptanceKey input) IDEMPOTENCY_PENDING (w_idempotency w)\<rparr>"
  have inv1: "consentInv E w1" using assms(2) by (simp add: w1_def consentInv_idempotency)
  have restored: "w1\<lparr>w_idempotency := AList.delete (acceptanceKey input) (w_idempotency w1)\<rparr> = w"
    by (simp add: w1_def delete_update_fresh[OF assms(4)])
  show ?thesis
    unfolding acceptance_accept_def Let_def wp_simps using assms(4)
    by (simp add: wp_simps w1_def[symmetric])
       (rule wp_mono[OF acceptance_process_wp[OF assms(1) inv1 assms(3)]],
        auto simp: wp_simps restored, auto simp: w1_def mayAccept_idempotency evidenceOf_idempotency
          wroteAcceptance_idempotency wroteAcceptance_def consentInv_idempotency table_simps sameCore_def otherPairsKept_def)
qed

text \<open>C1: \<open>AcceptanceService.accept\<close> under a new idempotency key, without a confirmation or with the one of
  the e-mail core, whose provider may fail.  It succeeds exactly when the consent
  is allowed.  On success exactly one acceptance is appended, it is the effective one of the pair, its
  evidence is the server's (actor of the context, server time, stored consent text with its hash,
  content hash), the state of the pair is ACCEPTED, no other pair's state changes, the response is
  stored under the key, and beside the activity log, the record of sent mails and the permanent links no
  other table changes.  On an error nothing at all is written: the world, the store of the keys included,
  is the one before.\<close>

theorem acceptance_accept_correct:
  assumes "goodIds E" "consentInv E w" "wiredConfirmation E conf"
    and new_key: "map_of (w_idempotency w) (acceptanceKey input) = None"
  shows "case acceptance_accept E conf input w of
     (Inr r, w') \<Rightarrow> mayAccept w input \<and>
       (\<exists>a. r = AcceptanceResponse (a_id a) \<and> evidenceOf w input a
          \<and> tvals (w_acceptances w') = tvals (w_acceptances w) @ [a]
          \<and> effectiveFor (w_acceptances w) (ai_customerId input) (ai_versionId input) = None
          \<and> effectiveFor (w_acceptances w') (ai_customerId input) (ai_versionId input) = Some a
          \<and> accepted (stateFor (tvals (w_states w')) (ai_customerId input) (ai_versionId input))
          \<and> otherPairsKept (ai_customerId input) (ai_versionId input) w w'
          \<and> map_of (w_idempotency w') = (map_of (w_idempotency w))(acceptanceKey input \<mapsto> r)
          \<and> sameCore w (w'\<lparr>w_states := w_states w, w_acceptances := w_acceptances w, w_idempotency := w_idempotency w\<rparr>)
          \<and> consentInv E w')
   | (Inl e, w') \<Rightarrow> \<not> mayAccept w input \<and> w' = w"
  using acceptance_accept_wp[OF assms(1,2) wiredConfirmation_quiet[OF assms(3)] new_key]
  by (auto simp: wp_def wroteAcceptance_def consentInv_idempotency otherPairsKept_def sameCore_def
      split: prod.splits sum.splits)

definition acceptance_input_ex :: AcceptanceInput where
  "acceptance_input_ex = \<lparr>ai_customerId = ''c'', ai_versionId = ''v'', ai_displayedConsentText = None,
     ai_idempotencyKey = ''k'', ai_context = \<lparr>ctx_customerId = ''c'',
       ctx_actor = \<lparr>act_userId = ''u'', act_name = None, act_email = None, act_portalRole = None\<rparr>,
       ctx_ipAddress = None, ctx_userAgent = None\<rparr>, ai_channel = None, ai_evidenceNote = None\<rparr>"

lemma mayAccept_ex: "mayAccept world_ex acceptance_input_ex"
  by (simp add: mayAccept_def world_ex_def acceptance_input_ex_def emptyWorld_def ver_ex_def doc_ex_def
      cust_ex_def findCurrentPublished_def findByTypeAndAudience_def tvals_def stateFor_def state_ex_def newState_def)

lemma acceptance_accept_correct_witness:
  "\<exists>r w' a. acceptance_accept env_ex confirmation_ex acceptance_input_ex world_ex = (Inr r, w')
     \<and> tvals (w_acceptances w') = [a] \<and> a_acceptedAt a = 100
     \<and> accepted (stateFor (tvals (w_states w')) ''c'' ''v'')"
  using acceptance_accept_correct[OF goodIds_ex consentInv_ex wired_senders_ex(1),
      of acceptance_input_ex] mayAccept_ex
  by (auto simp: evidenceOf_def acceptance_input_ex_def world_ex_def emptyWorld_def tvals_def
      split: prod.splits sum.splits)

text \<open>C5: A repeated request is answered from the store: with a stored response it returns that
  response whatever the rest of the request says, while the key is only reserved it is refused, and
  in both cases nothing at all is written.\<close>

theorem acceptance_replay:
  assumes "map_of (w_idempotency w) (acceptanceKey input) = Some r"
  shows "acceptance_accept E conf input w =
    (if r = IDEMPOTENCY_PENDING then domainError INVALID_STATE else Inr r, w)"
proof -
  have poll: "awaitReplayLoop n (acceptanceKey input) w = (domainError INVALID_STATE, w)"
    if "map_of (w_idempotency w) (acceptanceKey input) = Some IDEMPOTENCY_PENDING" for n
    using that by (induction n) (simp_all add: action_defs idempotency_get_def domainError_def)
  show ?thesis
    using assms poll
    by (cases r) (auto simp: acceptance_accept_def Let_def action_defs idempotency_get_def
        idempotency_reserve_def awaitReplay_def)
qed

lemma acceptance_replay_witness:
  "acceptance_accept env_ex None acceptance_input_ex
      (world_ex\<lparr>w_idempotency := [(''acceptance:c:k'', AcceptanceResponse ''a-1'')]\<rparr>)
    = (Inr (AcceptanceResponse ''a-1''),
       world_ex\<lparr>w_idempotency := [(''acceptance:c:k'', AcceptanceResponse ''a-1'')]\<rparr>)"
  using acceptance_replay[of "world_ex\<lparr>w_idempotency := [(''acceptance:c:k'', AcceptanceResponse ''a-1'')]\<rparr>"
      acceptance_input_ex "AcceptanceResponse ''a-1''" env_ex None]
  by (simp add: acceptanceKey_def acceptance_input_ex_def)

section \<open>The first display\<close>

lemma wp_assessPlausibility [wp_simps]:
  "wp (assessPlausibility d) Q X w = Q (case d of None \<Rightarrow> True | Some t \<Rightarrow> \<bar>w_now w - t\<bar> \<le> PLAUSIBILITY_WINDOW_MS) w"
  by (simp add: assessPlausibility_def wp_simps split: option.splits)

text \<open>What a display of a version to a customer does: the state moves as \<open>recordAccess\<close> says, and the
  delivery evidence is written once, with the first access.\<close>

definition displayed :: "NotificationInput \<Rightarrow> CustomerVersionState \<Rightarrow> CustomerVersionState \<Rightarrow> world \<Rightarrow> world \<Rightarrow> bool" where
  "displayed input s s' w w' \<longleftrightarrow>
     map_of (w_states w') = (map_of (w_states w))(cvs_id s \<mapsto> s')
     \<and> (if cvs_state s = PENDING_NOTIFICATION \<and> cvs_notifiedAt s = None
        then (\<exists>e. tvals (w_notifications w') = tvals (w_notifications w) @ [e]
               \<and> ne_customerVersionStateId e = cvs_id s \<and> ne_occurredAt e = w_now w
               \<and> ne_channel e = ni_channel input \<and> ne_recipient e = act_userId (ctx_actor (ni_context input)))
        else s' = s \<and> w_notifications w' = w_notifications w)"

text \<open>C3: \<open>NotificationService.notify\<close>.  The display of a version that has a rollout state of the
  customer moves the state by \<open>recordAccess\<close> at the server's time, whatever \<open>displayedAt\<close> says, and
  writes the delivery evidence exactly at the first access.  It fails only when the version or the
  state is missing or the objection period is undetermined, and then writes nothing.\<close>

theorem notification_notify_correct:
  assumes "goodIds E" "consentInv E w" "logsInv E w"
  shows "case notification_notify E input w of
     (Inr r, w') \<Rightarrow> (\<exists>v s s'. map_of (w_versions w) (ni_versionId input) = Some v
        \<and> stateFor (tvals (w_states w)) (ni_customerId input) (ni_versionId input) = Some s
        \<and> recordAccess s (w_now w) v (orElse (cvs_carryOverBlocking s) False) = Inr s'
        \<and> r = \<lparr>nr_state = cvs_state s', nr_notifiedAt = cvs_notifiedAt s', nr_deadlineAt = cvs_deadlineAt s'\<rparr>
        \<and> displayed input s s' w w' \<and> consentInv E w')
   | (Inl e, w') \<Rightarrow> w' = w \<and>
       (map_of (w_versions w) (ni_versionId input) = None
        \<or> stateFor (tvals (w_states w)) (ni_customerId input) (ni_versionId input) = None
        \<or> map_option v_objectionPeriodDays (map_of (w_versions w) (ni_versionId input)) = Some None)"
proof (cases "map_of (w_versions w) (ni_versionId input)")
  case None
  then show ?thesis
    by (simp add: notification_notify_def action_defs versions_findById_def)
next
  case v: (Some v)
  show ?thesis
  proof (cases "stateFor (tvals (w_states w)) (ni_customerId input) (ni_versionId input)")
    case None
    with v show ?thesis
      by (simp add: notification_notify_def action_defs versions_findById_def states_findByCustomerAndVersion_def)
  next
    case s: (Some s)
    have wf: "wf_table cvs_id (w_states w)" using assms(2) by (simp add: consentInv_def)
    note row = stateFor_stored[OF wf s]
    let ?b = "orElse (cvs_carryOverBlocking s) False"
    show ?thesis
    proof (cases "recordAccess s (w_now w) v ?b")
      case (Inl e)
      then have "v_objectionPeriodDays v = None"
        by (auto simp: recordAccess_def objectionPeriodDaysFor_def bindR_eq_Inl split: if_splits option.splits)
      with Inl v s have "wp (notification_notify E input) (\<lambda>_ _. False)
          (\<lambda>e w'. w' = w \<and> map_option v_objectionPeriodDays (map_of (w_versions w) (ni_versionId input)) = Some None) w"
        by (simp add: notification_notify_def wp_simps)
      then show ?thesis by (auto simp: wp_def split: prod.splits sum.splits)
    next
      case (Inr s')
      show ?thesis
      proof (cases "cvs_state s = PENDING_NOTIFICATION \<and> cvs_notifiedAt s = None")
        case True
        note first = recordAccess_first[OF Inr True[THEN conjunct1] True[THEN conjunct2]]
        have rebuild: "s\<lparr>cvs_state := NOTIFIED, cvs_notifiedAt := Some (w_now w),
            cvs_deadlineAt := cvs_deadlineAt s'\<rparr> = s'"
          using recordAccess_rebuild[OF Inr] first by simp
        have same: "samePair s s'" using recordAccess_frame[OF Inr] by (simp add: samePair_def)
        have inv: "consentInv E w'" if "w_states w' = AList.update (cvs_id s) s' (w_states w)"
            "w_acceptances w' = w_acceptances w" "w_uuid w \<le> w_uuid w'" for w'
          by (rule consentInv_update[OF assms(2) row same _ _ that]) (simp_all add: True first)
        have core: "wp (notification_notify E input)
            (\<lambda>r w'. r = \<lparr>nr_state = cvs_state s', nr_notifiedAt = cvs_notifiedAt s', nr_deadlineAt = cvs_deadlineAt s'\<rparr>
               \<and> displayed input s s' w w' \<and> w_states w' = AList.update (cvs_id s) s' (w_states w)
               \<and> w_acceptances w' = w_acceptances w \<and> w_uuid w \<le> w_uuid w') (\<lambda>_ _. False) w"
          using v s Inr row True first rebuild logsInv_fresh(1)[OF assms(1,3) le_refl]
          by (simp add: notification_notify_def wp_simps displayed_def table_simps tvals_update_fresh)
        have "wp (notification_notify E input)
            (\<lambda>r w'. r = \<lparr>nr_state = cvs_state s', nr_notifiedAt = cvs_notifiedAt s', nr_deadlineAt = cvs_deadlineAt s'\<rparr>
               \<and> displayed input s s' w w' \<and> consentInv E w') (\<lambda>_ _. False) w"
          by (rule wp_mono[OF core]) (auto intro: inv)
        then show ?thesis using v s Inr by (auto simp: wp_def split: prod.splits sum.splits)
      next
        case False
        with recordAccess_later[OF Inr] have "s' = s" by simp
        have core: "wp (notification_notify E input)
            (\<lambda>r w'. r = \<lparr>nr_state = cvs_state s', nr_notifiedAt = cvs_notifiedAt s', nr_deadlineAt = cvs_deadlineAt s'\<rparr>
               \<and> displayed input s s' w w' \<and> w_states w' = w_states w
               \<and> w_acceptances w' = w_acceptances w \<and> w_uuid w \<le> w_uuid w') (\<lambda>_ _. False) w"
          using v s Inr row False \<open>s' = s\<close>
          by (auto simp add: notification_notify_def wp_simps displayed_def fun_upd_idem)
        have "wp (notification_notify E input)
            (\<lambda>r w'. r = \<lparr>nr_state = cvs_state s', nr_notifiedAt = cvs_notifiedAt s', nr_deadlineAt = cvs_deadlineAt s'\<rparr>
               \<and> displayed input s s' w w' \<and> consentInv E w') (\<lambda>_ _. False) w"
          by (rule wp_mono[OF core]) (auto intro: consentInv_frame[OF assms(2)])
        then show ?thesis using v s Inr by (auto simp: wp_def split: prod.splits sum.splits)
      qed
    qed
  qed
qed

definition notification_input_ex :: NotificationInput where
  "notification_input_ex = \<lparr>ni_customerId = ''c'', ni_versionId = ''v'', ni_channel = NPORTAL,
     ni_displayedAt = None, ni_context = ai_context acceptance_input_ex\<rparr>"

lemma notification_notify_correct_witness:
  "case notification_notify env_ex notification_input_ex world_ex of
     (Inr r, w') \<Rightarrow> r = \<lparr>nr_state = NOTIFIED, nr_notifiedAt = Some 10, nr_deadlineAt = Some 1000\<rparr>
        \<and> w_notifications w' = []
   | (Inl e, w') \<Rightarrow> False"
  using notification_notify_correct[OF goodIds_ex consentInv_ex logsInv_ex, of notification_input_ex]
  by (auto simp: displayed_def notification_input_ex_def world_ex_def emptyWorld_def tvals_def stateFor_def
      state_ex_def newState_def ver_ex_def recordAccess_def split: prod.splits sum.splits)

section \<open>Objections\<close>

definition mayObject :: "world \<Rightarrow> ObjectionInput \<Rightarrow> bool" where
  "mayObject w input \<longleftrightarrow>
    (case map_of (w_versions w) (oi_versionId input) of
       None \<Rightarrow> False
     | Some v \<Rightarrow> v_acceptanceMode v = PASSIVE \<and>
        (case stateFor (tvals (w_states w)) (oi_customerId input) (oi_versionId input) of
           None \<Rightarrow> False
         | Some s \<Rightarrow> cvs_state s = NOTIFIED \<and>
            (case cvs_deadlineAt s of None \<Rightarrow> False | Some t \<Rightarrow> w_now w < t)))"

lemma objectState_ok:
  "(\<exists>s'. objectState s v now = Inr s') \<longleftrightarrow>
     v_acceptanceMode v = PASSIVE \<and> cvs_state s = NOTIFIED
     \<and> (case cvs_deadlineAt s of None \<Rightarrow> False | Some t \<Rightarrow> now < t)"
  by (auto simp: objectState_Inr split: option.splits)

text \<open>The escalation note of an objection that comes after the period.\<close>

definition lateObjection :: "world \<Rightarrow> ObjectionInput \<Rightarrow> bool" where
  "lateObjection w input \<longleftrightarrow> \<not> mayObject w input
     \<and> (case map_of (w_versions w) (oi_versionId input) of None \<Rightarrow> False | Some v \<Rightarrow> v_acceptanceMode v = PASSIVE)
     \<and> (case stateFor (tvals (w_states w)) (oi_customerId input) (oi_versionId input) of
          None \<Rightarrow> False | Some s \<Rightarrow> cvs_state s = NOTIFIED)"

definition lateNote :: "env \<Rightarrow> world \<Rightarrow> ObjectionInput \<Rightarrow> EscalationEntry" where
  "lateNote E w input =
    \<lparr>esc_id = ''esc-'' @ e_uuid E (w_uuid w), esc_kind = OBJECTION_AFTER_PERIOD, esc_customerId = Some (oi_customerId input),
     esc_versionId = Some (oi_versionId input), esc_occurredAt = w_now w,
     esc_actor = Some (ctx_actor (oi_context input)), esc_reason = oi_reason input,
     esc_note = Some ''Objection received after the objection period expired (escalation note only).'',
     esc_recipient = None, esc_inactivatedEmail = None\<rparr>"

definition objected :: "env \<Rightarrow> ObjectionInput \<Rightarrow> world \<Rightarrow> IdempotencyValue \<Rightarrow> world \<Rightarrow> bool" where
  "objected E input w r w' \<longleftrightarrow> mayObject w input \<and> (\<exists>ob. r = ObjectionResponse (o_id ob)
     \<and> tvals (w_objections w') = tvals (w_objections w) @ [ob]
     \<and> o_customerId ob = oi_customerId input \<and> o_versionId ob = oi_versionId input \<and> o_reason ob = oi_reason input
     \<and> o_objectedAt ob = w_now w \<and> o_actor ob = ctx_actor (oi_context input) \<and> o_resolution ob = None
     \<and> map_option cvs_state (stateFor (tvals (w_states w')) (oi_customerId input) (oi_versionId input)) = Some OBJECTED
     \<and> otherPairsKept (oi_customerId input) (oi_versionId input) w w'
     \<and> map_of (w_idempotency w') = (map_of (w_idempotency w))(objectionKey input \<mapsto> r)
     \<and> sameCore w (w'\<lparr>w_states := w_states w, w_objections := w_objections w, w_idempotency := w_idempotency w\<rparr>)
     \<and> consentInv E w')"

definition notObjected :: "env \<Rightarrow> ObjectionInput \<Rightarrow> world \<Rightarrow> failure \<Rightarrow> world \<Rightarrow> bool" where
  "notObjected E input w e w' \<longleftrightarrow> \<not> mayObject w input
     \<and> (e = DomainError OBJECTION_PERIOD_EXPIRED \<longleftrightarrow> lateObjection w input)
     \<and> w' = (if lateObjection w input
         then w\<lparr>w_uuid := Suc (w_uuid w), w_escalations := w_escalations w @ [lateNote E w input]\<rparr> else w)"

lemma objectState_Inl:
  "objectState s v now = Inl e \<Longrightarrow>
     e = DomainError OBJECTION_PERIOD_EXPIRED \<longleftrightarrow> v_acceptanceMode v = PASSIVE \<and> cvs_state s = NOTIFIED"
  by (auto simp: objectState_def domainError_def split: if_splits option.splits)

lemma objection_object_wp:
  assumes "goodIds E" "consentInv E w" "logsInv E w" "best_effort (callNotifier notifyAdmins)"
    and "map_of (w_idempotency w) (objectionKey input) = None"
  shows "wp (objection_object E notifyAdmins input) (objected E input w) (notObjected E input w) w"
proof (cases "map_of (w_versions w) (oi_versionId input)")
  case None
  then show ?thesis using assms(5)
    by (simp add: objection_object_def wp_simps notObjected_def lateObjection_def mayObject_def)
next
  case v: (Some v)
  show ?thesis
  proof (cases "stateFor (tvals (w_states w)) (oi_customerId input) (oi_versionId input)")
    case None
    then show ?thesis using assms(5) v
      by (simp add: objection_object_def wp_simps notObjected_def lateObjection_def mayObject_def)
  next
    case s: (Some s)
    have may: "mayObject w input \<longleftrightarrow> (\<exists>s'. objectState s v (w_now w) = Inr s')"
      using v s by (simp add: mayObject_def objectState_ok)
    show ?thesis
    proof (cases "objectState s v (w_now w)")
      case (Inl e)
      then show ?thesis using assms(5) v s may objectState_Inl[OF Inl]
        by (auto simp add: objection_object_def wp_simps notObjected_def lateObjection_def recordLateObjection_def
            lateNote_def)
    next
      case (Inr s')
      then have s': "s' = s\<lparr>cvs_state := OBJECTED\<rparr>" "cvs_state s = NOTIFIED"
        by (auto simp: objectState_Inr)
      have wf: "wf_table cvs_id (w_states w)" using assms(2) by (simp add: consentInv_def)
      note row = stateFor_stored[OF wf s] and pair = stateFor_SomeD[OF s]
      have same: "samePair s s'" by (simp add: s' samePair_def)
      have found: "map_option cvs_state (stateFor (tvals (AList.update (cvs_id s) s' (w_states w)))
          (oi_customerId input) (oi_versionId input)) = Some OBJECTED"
        by (subst stateFor_update_wf[OF wf row same]) (simp add: s s')
      have others: "otherPairsKept (oi_customerId input) (oi_versionId input) w w'"
        if "w_states w' = AList.update (cvs_id s) s' (w_states w)" for w'
        using otherPairsKept_update[OF wf row same that] pair by simp
      have inv: "consentInv E w'" if "w_states w' = AList.update (cvs_id s) s' (w_states w)"
          "w_acceptances w' = w_acceptances w" "w_uuid w \<le> w_uuid w'" for w'
        by (rule consentInv_update[OF assms(2) row same _ _ that]) (simp_all add: s')
      show ?thesis
        using assms(5) v s Inr row may s' found inv others logsInv_fresh(3)[OF assms(1,3) le_refl]
        by (auto simp: objection_object_def wp_simps objected_def tvals_update_fresh sameCore_def table_simps
            intro!: best_effort.wp_run[OF assms(4)])
    qed
  qed
qed

text \<open>C2: \<open>ObjectionService.object\<close> with a new key, whatever the notifiers of the administrators do.  It
  succeeds exactly for a PASSIVE version within the running objection period; then one objection is
  appended with the server's time and the actor of the context, the state of the pair is OBJECTED, no other
  pair's state changes, the response is stored, and beside the activity log (and mails, links) no other table
  changes.  An objection that comes too late leaves exactly one escalation note, that of the customer and
  version, and nothing else; any other refusal writes nothing at all.\<close>

theorem objection_object_correct:
  assumes "goodIds E" "consentInv E w" "logsInv E w" "wiredNotifier notifyAdmins"
    and "map_of (w_idempotency w) (objectionKey input) = None"
  shows "case objection_object E notifyAdmins input w of
     (Inr r, w') \<Rightarrow> objected E input w r w'
   | (Inl e, w') \<Rightarrow> notObjected E input w e w'"
  using objection_object_wp[OF assms(1-3) wiredNotifier_quiet[OF assms(4)] assms(5)]
  by (auto simp: wp_def split: prod.splits sum.splits)

definition objection_input_ex :: ObjectionInput where
  "objection_input_ex = \<lparr>oi_customerId = ''c'', oi_versionId = ''v'', oi_reason = None,
     oi_idempotencyKey = ''k'', oi_context = ai_context acceptance_input_ex\<rparr>"

lemma objection_object_correct_witness:
  "\<exists>r w' ob. objection_object env_ex notifier_ex objection_input_ex world_ex = (Inr r, w')
     \<and> tvals (w_objections w') = [ob] \<and> o_objectedAt ob = 100"
  using objection_object_correct[OF goodIds_ex consentInv_ex logsInv_ex wired_senders_ex(2),
      of objection_input_ex]
  by (auto simp: mayObject_def objected_def notObjected_def objection_input_ex_def world_ex_def emptyWorld_def tvals_def
      stateFor_def state_ex_def newState_def ver_ex_def split: prod.splits sum.splits)

end
