(* ===== verification/Event_Line.thy ===== *)
theory Event_Line
  imports Areas
begin

text \<open>
  What a run of actions leaves in the activity log.  \<open>eventLine\<close> is the log as a list of types with the
  customer and the version concerned; \<open>emits E L m\<close>: an action that succeeds adds exactly \<open>L\<close> to it.
  The rules follow the structure of the action; what does not touch the log emits nothing by its
  modification clause.
\<close>

type_synonym logged = "EventType \<times> string option \<times> string option"

definition eventLine :: "world \<Rightarrow> logged list" where
  "eventLine w = map (\<lambda>e. (ev_type e, ev_customerId e, ev_versionId e)) (tvals (w_events w))"

text \<open>The ids of the events were drawn.\<close>

definition eventsInv :: "env \<Rightarrow> world \<Rightarrow> bool" where
  "eventsInv E w \<longleftrightarrow> fst ` set (w_events w) \<subseteq> drawnIds E [''evt-''] (w_uuid w)"

definition hasLine :: "env \<Rightarrow> logged list \<Rightarrow> world \<Rightarrow> bool" where
  "hasLine E L w \<longleftrightarrow> eventsInv E w \<and> eventLine w = L"

definition emits :: "env \<Rightarrow> logged list \<Rightarrow> 'a M \<Rightarrow> bool" where
  "emits E L m \<longleftrightarrow> (\<forall>w L0. hasLine E L0 w \<longrightarrow> wp m (\<lambda>_. hasLine E (L0 @ L)) (\<lambda>_ _. True) w)"

named_theorems emits_intros \<open>what an action adds to the activity log\<close>

lemma emitsD: "emits E L m \<Longrightarrow> hasLine E L0 w \<Longrightarrow> wp m (\<lambda>_. hasLine E (L0 @ L)) (\<lambda>_ _. True) w"
  by (simp add: emits_def)

lemma hasLine_frame: "hasLine E L w \<Longrightarrow> w_events w' = w_events w \<Longrightarrow> w_uuid w \<le> w_uuid w' \<Longrightarrow> hasLine E L w'"
  unfolding hasLine_def eventsInv_def eventLine_def by (auto intro: drawnIds_mono)

lemma emits_quiet: "modifies T m \<Longrightarrow> EventLog \<notin> T \<Longrightarrow> emits E [] m"
  unfolding emits_def
proof (intro allI impI)
  fix w L0 assume m: "modifies T m" "EventLog \<notin> T" and w: "hasLine E L0 w"
  have "hasLine E L0 (snd (m w))"
    using modifies_area[OF m, of w] by (intro hasLine_frame[OF w]) simp_all
  then show "wp m (\<lambda>_. hasLine E (L0 @ [])) (\<lambda>_ _. True) w"
    by (auto simp: wp_def split: prod.splits sum.splits)
qed

lemma emits_event [emits_intros]:
  assumes "goodIds E"
  shows "emits E [(ev_type ev, ev_customerId ev, ev_versionId ev)] (recordEvent E ev)"
  unfolding emits_def
proof (intro allI impI)
  fix w L0 assume w: "hasLine E L0 w"
  have ids: "fst ` set (w_events w) \<subseteq> drawnIds E [''evt-''] (w_uuid w)" using w by (simp add: hasLine_def eventsInv_def)
  define i where "i = ''evt-'' @ e_uuid E (w_uuid w)"
  have fresh: "map_of (w_events w) i = None" unfolding i_def by (rule fresh_prefix[OF assms ids le_refl])
  obtain e where e: "recordEvent E ev w = (Inr (), w\<lparr>w_uuid := Suc (w_uuid w), w_events := AList.update i e (w_events w)\<rparr>)"
    "ev_type e = ev_type ev" "ev_customerId e = ev_customerId ev" "ev_versionId e = ev_versionId ev"
    using recordEvent_shape[of E ev w] fresh unfolding i_def by (auto simp del: append_Cons)
  have "i \<in> drawnIds E [''evt-''] (Suc (w_uuid w))" unfolding i_def by (rule drawn_new) simp_all
  moreover have "fst ` set (w_events w) \<subseteq> drawnIds E [''evt-''] (Suc (w_uuid w))"
    using ids drawnIds_mono[of "w_uuid w" "Suc (w_uuid w)"] by auto
  ultimately have "hasLine E (L0 @ [(ev_type ev, ev_customerId ev, ev_versionId ev)])
      (w\<lparr>w_uuid := Suc (w_uuid w), w_events := AList.update i e (w_events w)\<rparr>)"
    using w e(2-4) by (simp add: hasLine_def eventsInv_def eventLine_def keys_update tvals_update_fresh[OF fresh])
  then show "wp (recordEvent E ev) (\<lambda>_. hasLine E (L0 @ [(ev_type ev, ev_customerId ev, ev_versionId ev)])) (\<lambda>_ _. True) w"
    by (simp add: wp_def e(1))
qed

lemma emits_bind: "emits E L m \<Longrightarrow> (\<And>x. emits E L' (f x)) \<Longrightarrow> emits E (L @ L') (bindM m f)"
  unfolding emits_def wp_bind
proof (intro allI impI)
  fix w L0
  assume m: "\<forall>w L0. hasLine E L0 w \<longrightarrow> wp m (\<lambda>_. hasLine E (L0 @ L)) (\<lambda>_ _. True) w"
    and f: "\<And>x. \<forall>w L0. hasLine E L0 w \<longrightarrow> wp (f x) (\<lambda>_. hasLine E (L0 @ L')) (\<lambda>_ _. True) w"
    and w: "hasLine E L0 w"
  show "wp m (\<lambda>x. wp (f x) (\<lambda>_. hasLine E (L0 @ L @ L')) (\<lambda>_ _. True)) (\<lambda>_ _. True) w"
    by (rule wp_mono[OF m[rule_format, OF w]]) (use f[rule_format] append_assoc in metis, simp)
qed

lemma emits_then: "emits E L m \<Longrightarrow> emits E L' n \<Longrightarrow> emits E (L @ L') (thenM m n)"
  unfolding thenM_def by (rule emits_bind)

lemma emits_forM: "(\<And>x. x \<in> set xs \<Longrightarrow> emits E [g x] (f x)) \<Longrightarrow> emits E (map g xs) (forM xs f)"
proof (induction xs)
  case Nil
  then show ?case by (simp add: emits_def wp_simps)
next
  case (Cons x xs)
  from emits_then[OF Cons.prems[of x] Cons.IH] Cons.prems show ?case by simp
qed

lemma emits_foldM: "(\<And>acc x. x \<in> set xs \<Longrightarrow> emits E [g x] (f acc x)) \<Longrightarrow> emits E (map g xs) (foldM f acc xs)"
proof (induction xs arbitrary: acc)
  case Nil
  then show ?case by (simp add: emits_def wp_simps)
next
  case (Cons x xs)
  have "emits E (map g xs) (foldM f acc' xs)" for acc' using Cons.IH Cons.prems by simp
  from emits_bind[OF Cons.prems[of x] this] show ?case by simp
qed

end
