(* ===== verification/Compliance.thy ===== *)
theory Compliance
  imports Consent Agreements
begin

text \<open>
  The integration API around a customer: the resolution of the addressed customer
  (\<open>common/integration/resolve-customer.ts\<close>), the tool gate \<open>ComplianceService\<close>, the popup content
  \<open>PendingAgreementsService\<close>, the public PDF link (\<open>src/src/compliance\<close>) and the handlers of
  \<open>consent/consent.controller.ts\<close>.  The provider of presigned URLs is an argument.
\<close>

section \<open>Selecting the customer\<close>

definition resolveAudienceKey :: "string option \<Rightarrow> string option M" where
  "resolveAudienceKey audienceKey =
    (case audienceKey of
       None \<Rightarrow> retM None
     | Some key \<Rightarrow>
        bindM (audiences_findByKey key) (\<lambda>known.
        if known = None then throwD UNKNOWN_AUDIENCE else retM (Some key)))"

record CustomerSelector =
  sel_customerId :: "string option"
  sel_externalRef :: "string option"
  sel_audience :: "string option"

text \<open>\<open>x?.trim()\<close>, where \<open>undefined\<close> and the empty string are falsy.\<close>

definition trimmed :: "string option \<Rightarrow> string" where
  "trimmed x = (case x of None \<Rightarrow> [] | Some s \<Rightarrow> trim s)"

definition resolveIntegrationCustomer :: "CustomerSelector \<Rightarrow> Customer M" where
  "resolveIntegrationCustomer selector =
    (let customerId = trimmed (sel_customerId selector);
         externalRef = trimmed (sel_externalRef selector)
     in if (customerId \<noteq> []) = (externalRef \<noteq> []) then throwM BadRequestException
        else if customerId \<noteq> [] then
          bindM (bindM (customers_findById customerId) (requireD CUSTOMER_NOT_FOUND)) (\<lambda>customer.
          if c_deletedAt customer \<noteq> None then throwD CUSTOMER_NOT_FOUND else retM customer)
        else (let audience = trimmed (sel_audience selector) in
          if audience = [] then throwM BadRequestException
          else thenM (resolveAudienceKey (Some audience))
            (bindM (customers_findAllByExternalRef externalRef) (\<lambda>found.
             requireD CUSTOMER_NOT_FOUND
               (find (\<lambda>c. c_deletedAt c = None \<and> audience \<in> set (c_roles c)) found)))))"

section \<open>ComplianceService\<close>

record ComplianceDetailResponse =
  cdr_requiredVersionId :: string
  cdr_requiredVersionLabel :: string
  cdr_acceptedVersionId :: "string option"
  cdr_state :: "CustomerVersionStateValue option"
  cdr_method :: "AcceptanceMethod option"
  cdr_deadlineAt :: "Date option"
  cdr_pendingMode :: "AcceptanceMode option"

record ComplianceResponse =
  crs_customerId :: string
  crs_audience :: "string option"
  crs_roles :: "string list"
  crs_compliant :: bool
  crs_details :: "ComplianceDetailResponse table"

definition loadCurrentVersions :: "CurrentVersionEntry list M" where
  "loadCurrentVersions =
    bindM clock_now (\<lambda>now.
    bindM documents_findAll (\<lambda>documents.
    foldM (\<lambda>entries document.
      bindM (versions_findCurrentPublished (d_type document) (d_audience document) now) (\<lambda>version.
      case version of
        None \<Rightarrow> retM entries
      | Some v \<Rightarrow> retM (entries @ [\<lparr>cve_document = document, cve_version = v\<rparr>]))) [] documents))"

fun latestConsent :: "string \<Rightarrow> AgreementVersion list \<Rightarrow> Acceptance option M" where
  "latestConsent customerId [] = retM None"
| "latestConsent customerId (version # versions) =
    bindM (acceptances_findEffective customerId (v_id version)) (\<lambda>acceptance.
    case acceptance of Some a \<Rightarrow> retM (Some a) | None \<Rightarrow> latestConsent customerId versions)"

definition newestFirst :: "AgreementVersion list \<Rightarrow> AgreementVersion list" where
  "newestFirst versions = sort_key (\<lambda>v. (- v_validFrom v, - orElse (v_publishedAt v) 0)) versions"

definition enrichDetail ::
  "string \<Rightarrow> CurrentVersionEntry list \<Rightarrow> string \<Rightarrow> ComplianceDetail \<Rightarrow> ComplianceDetailResponse M" where
  "enrichDetail customerId currentVersions key detail =
    (let base = \<lparr>cdr_requiredVersionId = cd_requiredVersionId detail,
                 cdr_requiredVersionLabel = cd_requiredVersionLabel detail,
                 cdr_acceptedVersionId = None, cdr_state = cd_state detail, cdr_method = None,
                 cdr_deadlineAt = cd_deadlineAt detail, cdr_pendingMode = cd_pendingMode detail\<rparr> in
     case find (\<lambda>e. detailKey (d_type (cve_document e)) (d_audience (cve_document e)) = key) currentVersions of
       None \<Rightarrow> retM base
     | Some entry \<Rightarrow>
        bindM (versions_findByDocument (d_id (cve_document entry))) (\<lambda>documentVersions.
        bindM (latestConsent customerId (newestFirst documentVersions)) (\<lambda>consent.
        retM (case consent of
            None \<Rightarrow> base
          | Some a \<Rightarrow> base\<lparr>cdr_acceptedVersionId := Some (a_versionId a), cdr_method := Some (a_method a)\<rparr>))))"

definition getCompliance :: "string \<Rightarrow> string option \<Rightarrow> ComplianceResponse M" where
  "getCompliance customerId audience =
    bindM (resolveAudienceKey audience) (\<lambda>audienceKey.
    bindM (bindM (customers_findById customerId) (requireD CUSTOMER_NOT_FOUND)) (\<lambda>customer.
    bindM loadCurrentVersions (\<lambda>currentVersions.
    bindM (states_findByCustomer customerId) (\<lambda>states.
    (let result = computeCompliance customer currentVersions states audienceKey in
     bindM (mapM (\<lambda>(key, detail).
        bindM (enrichDetail customerId currentVersions key detail) (\<lambda>d. retM (key, d)))
        (cr_details result)) (\<lambda>details.
     retM \<lparr>crs_customerId = cr_customerId result, crs_audience = cr_audience result,
           crs_roles = cr_roles result, crs_compliant = cr_compliant result,
           crs_details = details\<rparr>))))))"

section \<open>PendingAgreementsService\<close>

record PendingAgreementItem =
  pai_versionId :: string
  pai_documentType :: string
  pai_documentName :: string
  pai_audience :: string
  pai_versionLabel :: string
  pai_changeSummary :: string
  pai_pdfUrl :: string
  pai_mode :: AcceptanceMode
  pai_consentText :: "string option"
  pai_deadlineAt :: "Date option"
  pai_blocking :: bool
  pai_upcoming :: bool
  pai_validFrom :: Date
  pai_canObject :: bool
  pai_objectionConsequence :: "string option"

definition POPUP_OPEN_STATES :: "CustomerVersionStateValue list" where
  "POPUP_OPEN_STATES = [PENDING_NOTIFICATION, NOTIFIED, EXPIRED_BLOCKING]"

type_synonym pdfUrlProvider = "string \<Rightarrow> string M"

definition pendingItem ::
  "AgreementDocument \<Rightarrow> AgreementVersion \<Rightarrow> bool \<Rightarrow> CustomerVersionState \<Rightarrow> string \<Rightarrow> PendingAgreementItem" where
  "pendingItem document version isUpcoming state pdfUrl =
    \<lparr>pai_versionId = v_id version, pai_documentType = d_type document, pai_documentName = d_name document,
     pai_audience = d_audience document, pai_versionLabel = v_versionLabel version,
     pai_changeSummary = v_changeSummary version, pai_pdfUrl = pdfUrl, pai_mode = v_acceptanceMode version,
     pai_consentText = v_consentText version, pai_deadlineAt = cvs_deadlineAt state,
     pai_blocking = isBlocking state, pai_upcoming = isUpcoming, pai_validFrom = v_validFrom version,
     pai_canObject = (v_acceptanceMode version = PASSIVE \<and> \<not> isUpcoming),
     pai_objectionConsequence = v_objectionConsequence version\<rparr>"

definition pendingForVersion ::
  "pdfUrlProvider \<Rightarrow> string \<Rightarrow> AgreementDocument \<Rightarrow> PendingAgreementItem list \<Rightarrow>
   AgreementVersion \<times> bool \<Rightarrow> PendingAgreementItem list M" where
  "pendingForVersion pdfUrl customerId document items entry =
    (case entry of (version, isUpcoming) \<Rightarrow>
      bindM (states_findByCustomerAndVersion customerId (v_id version)) (\<lambda>state.
      case state of
        None \<Rightarrow> retM items
      | Some s \<Rightarrow>
          if cvs_state s \<notin> set POPUP_OPEN_STATES then retM items
          else bindM (pdfUrl (v_storageKey version)) (\<lambda>url.
            retM (items @ [pendingItem document version isUpcoming s url]))))"

definition pendingForDocument ::
  "pdfUrlProvider \<Rightarrow> string \<Rightarrow> string list \<Rightarrow> Date \<Rightarrow> PendingAgreementItem list \<Rightarrow> AgreementDocument \<Rightarrow>
   PendingAgreementItem list M" where
  "pendingForDocument pdfUrl customerId audiences now items document =
    (if d_audience document \<notin> set audiences then retM items
     else bindM (versions_findCurrentPublished (d_type document) (d_audience document) now) (\<lambda>current.
     bindM (versions_findUpcomingPublishedList (d_type document) (d_audience document) now) (\<lambda>upcoming.
     foldM (pendingForVersion pdfUrl customerId document) items
       ((case current of None \<Rightarrow> [] | Some v \<Rightarrow> [(v, False)]) @ map (\<lambda>v. (v, True)) upcoming))))"

definition getPendingAgreements ::
  "pdfUrlProvider \<Rightarrow> string \<Rightarrow> string option \<Rightarrow> PendingAgreementItem list M" where
  "getPendingAgreements pdfUrl customerId audience =
    bindM (resolveAudienceKey audience) (\<lambda>audienceKey.
    bindM (bindM (customers_findById customerId) (requireD CUSTOMER_NOT_FOUND)) (\<lambda>customer.
    bindM clock_now (\<lambda>now.
    bindM documents_findAll (\<lambda>documents.
    foldM (pendingForDocument pdfUrl customerId (relevantAudiences customer audienceKey) now) [] documents))))"

section \<open>Public documents\<close>

definition resolveLatestPdfUrl :: "pdfUrlProvider \<Rightarrow> string \<Rightarrow> string \<Rightarrow> string option M" where
  "resolveLatestPdfUrl pdfUrl typeKey audienceKey =
    bindM clock_now (\<lambda>now.
    bindM (versions_findCurrentPublished typeKey audienceKey now) (\<lambda>current.
    case current of
      None \<Rightarrow> retM None
    | Some v \<Rightarrow> bindM (pdfUrl (v_storageKey v)) (\<lambda>url. retM (Some url))))"

section \<open>The consent controller\<close>

record ServiceRequest =
  rq_serviceActor :: "Actor option"
  rq_ip :: "string option"
  rq_userAgent :: "string option"

definition requireIdempotencyKey :: "string option \<Rightarrow> string result" where
  "requireIdempotencyKey key =
    (case key of
       None \<Rightarrow> Inl BadRequestException
     | Some k \<Rightarrow> if trim k = [] then Inl BadRequestException else Inr k)"

definition orOpt :: "'a option \<Rightarrow> 'a option \<Rightarrow> 'a option" where
  "orOpt x y = (case x of None \<Rightarrow> y | Some _ \<Rightarrow> x)"

definition contextFor ::
  "ServiceRequest \<Rightarrow> string \<Rightarrow> string option \<Rightarrow> string option \<Rightarrow> CustomerContext" where
  "contextFor req customerId signerName signerEmail =
    (let actor = orElse (rq_serviceActor req)
           \<lparr>act_userId = ''service'', act_name = None, act_email = None, act_portalRole = None\<rparr>
     in \<lparr>ctx_customerId = customerId,
         ctx_actor = \<lparr>act_userId = act_userId actor, act_name = orOpt signerName (act_name actor),
                      act_email = orOpt signerEmail (act_email actor), act_portalRole = act_portalRole actor\<rparr>,
         ctx_ipAddress = rq_ip req, ctx_userAgent = rq_userAgent req\<rparr>)"

record IntegrationAcceptanceBody =
  iab_versionId :: string
  iab_displayedConsentText :: "string option"
  iab_signerName :: "string option"
  iab_signerEmail :: "string option"

definition controller_accept ::
  "env \<Rightarrow> confirmation \<Rightarrow> CustomerSelector \<Rightarrow> IntegrationAcceptanceBody \<Rightarrow> string option \<Rightarrow> ServiceRequest \<Rightarrow>
   IdempotencyValue M" where
  "controller_accept E conf selector body idempotencyKey req =
    bindM (resolveIntegrationCustomer selector) (\<lambda>customer.
    bindM (liftR (requireIdempotencyKey idempotencyKey)) (\<lambda>key.
    acceptance_accept E conf
      \<lparr>ai_customerId = c_id customer, ai_versionId = iab_versionId body,
       ai_displayedConsentText = iab_displayedConsentText body, ai_idempotencyKey = key,
       ai_context = contextFor req (c_id customer) (iab_signerName body) (iab_signerEmail body),
       ai_channel = Some ChPORTAL, ai_evidenceNote = None\<rparr>))"

record ObjectionBody =
  ob_versionId :: string
  ob_reason :: "string option"

definition controller_object ::
  "env \<Rightarrow> adminNotifications \<Rightarrow> CustomerSelector \<Rightarrow> ObjectionBody \<Rightarrow> string option \<Rightarrow> ServiceRequest \<Rightarrow>
   IdempotencyValue M" where
  "controller_object E notifyAdmins selector body idempotencyKey req =
    bindM (resolveIntegrationCustomer selector) (\<lambda>customer.
    bindM (liftR (requireIdempotencyKey idempotencyKey)) (\<lambda>key.
    objection_object E notifyAdmins
      \<lparr>oi_customerId = c_id customer, oi_versionId = ob_versionId body, oi_reason = ob_reason body,
       oi_idempotencyKey = key, oi_context = contextFor req (c_id customer) None None\<rparr>))"

record NotificationBody =
  nb_versionId :: string
  nb_channel :: NotificationChannel
  nb_displayedAt :: "Date option"

definition controller_notify ::
  "env \<Rightarrow> CustomerSelector \<Rightarrow> NotificationBody \<Rightarrow> ServiceRequest \<Rightarrow> NotificationResponse M" where
  "controller_notify E selector body req =
    bindM (resolveIntegrationCustomer selector) (\<lambda>customer.
    notification_notify E
      \<lparr>ni_customerId = c_id customer, ni_versionId = nb_versionId body, ni_channel = nb_channel body,
       ni_displayedAt = nb_displayedAt body, ni_context = contextFor req (c_id customer) None None\<rparr>)"

end
