(* ===== verification/Customers.thy ===== *)
theory Customers
  imports Publish
begin

text \<open>
  \<open>CustomerAdminService\<close> (\<open>src/src/customers/customer-admin.service.ts\<close>) and the customer search: the
  list with its compliance indicator, creation with imported acceptances and the onboarding rollout,
  update, and the inbound upsert and deactivation by external reference.  The notifier is an argument.
\<close>

section \<open>Inputs and rows\<close>

text \<open>The schemas of \<open>customers/dto.ts\<close> let only ISO timestamps through for \<open>acceptedAt\<close>; the effective
  date of signed documents is parsed by the service, \<open>None\<close> is \<open>Invalid Date\<close>.\<close>

record AcceptedVersionImport =
  avi_versionId :: string
  avi_acceptedAt :: "Date option"
  avi_reference :: "string option"

record SignedDocumentsInput =
  sdi_effectiveDate :: "Date option"
  sdi_documentTypes :: "string list"
  sdi_reference :: "string option"

record CreateCustomerInput =
  cci_externalRef :: string
  cci_firstName :: "string option"
  cci_lastName :: "string option"
  cci_companyName :: "string option"
  cci_roles :: "string list"
  cci_contactEmails :: "string list"
  cci_acceptedVersions :: "AcceptedVersionImport list option"
  cci_signedDocuments :: "SignedDocumentsInput option"
  cci_source :: "string option"

definition DEFAULT_INBOUND_SOURCE :: string where
  "DEFAULT_INBOUND_SOURCE = ''external''"

record UpsertByExternalRefInput =
  uei_externalRef :: string
  uei_firstName :: "string option"
  uei_lastName :: "string option"
  uei_companyName :: "string option"
  uei_contactEmails :: "string list"
  uei_roles :: "string list"
  uei_source :: "string option"

record UpdateCustomerInput =
  uci_firstName :: "string option"
  uci_lastName :: "string option"
  uci_companyName :: "string option"
  uci_roles :: "string list option"
  uci_contactEmails :: "string list option"

datatype ComplianceFilter = FCompliant | FNonCompliant | FPending | FBlocked | FObjected

datatype CustomerComplianceStatus = SCompliant | SPending | SObjected | SBlocked

record CustomerListFilters =
  clf_audience :: "string option"
  clf_documentType :: "string option"
  clf_compliance :: "ComplianceFilter option"

record CustomerRow =
  cro_id :: string
  cro_externalRef :: string
  cro_firstName :: string
  cro_lastName :: string
  cro_companyName :: "string option"
  cro_roles :: "string list"
  cro_contactEmails :: "string list"
  cro_deletedAt :: "Date option"
  cro_compliant :: "bool option"
  cro_complianceStatus :: "CustomerComplianceStatus option"

record ImportedAcceptance =
  ia_versionId :: string
  ia_acceptanceId :: string

record CreateCustomerResult = CustomerRow +
  ccr_importedAcceptances :: "ImportedAcceptance list"

datatype CustomerCreateSource = CsAdmin | CsIntegration

fun sourceName :: "CustomerCreateSource \<Rightarrow> string" where
  "sourceName CsAdmin = ''admin''"
| "sourceName CsIntegration = ''integration''"

definition OUTSTANDING_PENDING :: "CustomerVersionStateValue list" where
  "OUTSTANDING_PENDING = [PENDING_NOTIFICATION, NOTIFIED]"

definition PAGE_SIZE :: nat where
  "PAGE_SIZE = 50"

text \<open>\<open>/^[^\s@]+@[^\s@]+\.[^\s@]+$/\<close>: the part before the first at sign, and a dot inside the rest.\<close>

definition isPlainChar :: "char \<Rightarrow> bool" where
  "isPlainChar c \<longleftrightarrow> \<not> isSpaceChar c \<and> c \<noteq> CHR ''@''"

definition EMAIL_PATTERN :: "string \<Rightarrow> bool" where
  "EMAIL_PATTERN s =
    (let user = takeWhile isPlainChar s; rest = dropWhile isPlainChar s
     in user \<noteq> [] \<and> rest \<noteq> [] \<and> hd rest = CHR ''@''
        \<and> (let host = tl rest
           in list_all isPlainChar host
              \<and> list_ex (\<lambda>i. host ! i = CHR ''.'') [1..<length host - 1]))"

record ValidatedImport =
  vi_version :: AgreementVersion
  vi_acceptedAt :: Date
  vi_reference :: "string option"

section \<open>Rows and filters\<close>

text \<open>\<open>value.includes(needle)\<close>, and a condition on an optional string, where the empty one is falsy.\<close>

fun includesSub :: "string \<Rightarrow> string \<Rightarrow> bool" where
  "includesSub [] needle = (needle = [])"
| "includesSub (c # cs) needle = (take (length needle) (c # cs) = needle \<or> includesSub cs needle)"

definition truthy :: "string option \<Rightarrow> bool" where
  "truthy x = (case x of None \<Rightarrow> False | Some s \<Rightarrow> s \<noteq> [])"

text \<open>\<open>x?.trim() ? x : undefined\<close>.\<close>

definition nonBlank :: "string option \<Rightarrow> string option" where
  "nonBlank x = (case x of None \<Rightarrow> None | Some s \<Rightarrow> if trim s = [] then None else Some s)"

definition matchesCustomerSearch :: "Customer \<Rightarrow> string \<Rightarrow> bool" where
  "matchesCustomerSearch customer term =
    (let needle = toLowerCase (trim term) in
     if needle = [] then True
     else list_ex (\<lambda>value. includesSub (toLowerCase value) needle)
       ([c_firstName customer, c_lastName customer, orElse (c_companyName customer) [],
         c_externalRef customer] @ c_contactEmails customer))"

definition matchesAssignment :: "Customer \<Rightarrow> AgreementDocument list \<Rightarrow> CustomerListFilters \<Rightarrow> bool" where
  "matchesAssignment customer documents filters =
    (let audience = orElse (clf_audience filters) []; documentType = orElse (clf_documentType filters) [] in
     if audience \<noteq> [] \<and> audience \<notin> set (c_roles customer) then False
     else if documentType \<noteq> []
       \<and> \<not> list_ex (\<lambda>d. d_type d = documentType \<and> d_audience d \<in> set (c_roles customer)
                      \<and> (audience = [] \<or> d_audience d = audience)) documents then False
     else True)"

definition detailValues :: "ComplianceResult \<Rightarrow> ComplianceDetail list" where
  "detailValues compliance = tvals (cr_details compliance)"

definition isOutstanding :: "ComplianceDetail \<Rightarrow> bool" where
  "isOutstanding d = (case cd_state d of None \<Rightarrow> False | Some s \<Rightarrow> s \<in> set OUTSTANDING_PENDING)"

definition summarizeCompliance :: "ComplianceResult \<Rightarrow> CustomerComplianceStatus" where
  "summarizeCompliance compliance =
    (let details = detailValues compliance in
     if \<not> cr_compliant compliance then SBlocked
     else if list_ex (\<lambda>d. cd_state d = Some OBJECTED) details then SObjected
     else if list_ex isOutstanding details then SPending
     else SCompliant)"

fun matchesCompliance :: "ComplianceFilter \<Rightarrow> ComplianceResult \<Rightarrow> bool" where
  "matchesCompliance FNonCompliant compliance = (\<not> cr_compliant compliance)"
| "matchesCompliance FBlocked compliance =
    list_ex (\<lambda>d. cd_state d = Some EXPIRED_BLOCKING) (detailValues compliance)"
| "matchesCompliance FObjected compliance =
    list_ex (\<lambda>d. cd_state d = Some OBJECTED) (detailValues compliance)"
| "matchesCompliance FPending compliance = list_ex isOutstanding (detailValues compliance)"
| "matchesCompliance FCompliant compliance =
    (cr_compliant compliance
     \<and> list_all (\<lambda>d. cd_state d = None \<or> cd_state d = Some ACCEPTED) (detailValues compliance))"

definition toRow :: "Customer \<Rightarrow> ComplianceResult option \<Rightarrow> CustomerRow" where
  "toRow customer compliance =
    \<lparr>cro_id = c_id customer, cro_externalRef = c_externalRef customer,
     cro_firstName = c_firstName customer, cro_lastName = c_lastName customer,
     cro_companyName = nonBlank (c_companyName customer), cro_roles = c_roles customer,
     cro_contactEmails = c_contactEmails customer, cro_deletedAt = c_deletedAt customer,
     cro_compliant = map_option cr_compliant compliance,
     cro_complianceStatus = map_option summarizeCompliance compliance\<rparr>"

definition sameStringSet :: "string list \<Rightarrow> string list \<Rightarrow> bool" where
  "sameStringSet a b =
    (if length a \<noteq> length b then False else list_all2 (=) (sort a) (sort b))"

section \<open>The list\<close>

definition scopedCurrentVersions ::
  "AgreementDocument list \<Rightarrow> string option \<Rightarrow> CurrentVersionEntry list M" where
  "scopedCurrentVersions documents documentType =
    bindM clock_now (\<lambda>now.
    foldM (\<lambda>entries document.
      if truthy documentType \<and> Some (d_type document) \<noteq> documentType then retM entries
      else bindM (versions_findCurrentPublished (d_type document) (d_audience document) now) (\<lambda>version.
        case version of
          None \<Rightarrow> retM entries
        | Some v \<Rightarrow> retM (entries @ [\<lparr>cve_document = document, cve_version = v\<rparr>])))
      [] documents)"

definition evaluateCompliance ::
  "Customer \<Rightarrow> CurrentVersionEntry list \<Rightarrow> string option \<Rightarrow> ComplianceResult M" where
  "evaluateCompliance customer scopedEntries audience =
    bindM (states_findByCustomer (c_id customer)) (\<lambda>states.
    retM (computeCompliance customer scopedEntries states audience))"

definition slicePage :: "nat \<Rightarrow> 'a list \<Rightarrow> 'a list" where
  "slicePage p xs = take PAGE_SIZE (drop ((p - 1) * PAGE_SIZE) xs)"

definition customer_list ::
  "env \<Rightarrow> int option \<Rightarrow> string option \<Rightarrow> CustomerListFilters \<Rightarrow> (CustomerRow list \<times> nat) M" where
  "customer_list E page search filters =
    bindM customers_findAll (\<lambda>stored.
    (let all = filter (\<lambda>c. c_deletedAt c = None) stored;
         found = (if truthy search then filter (\<lambda>c. matchesCustomerSearch c (orElse search [])) all else all);
         searched = sort_key (\<lambda>c. (e_collate E (customerDisplayName c), e_collate E (c_externalRef c))) found
     in bindM documents_findAll (\<lambda>documents.
     (let narrowed = filter (\<lambda>c. matchesAssignment c documents filters) searched
      in bindM (scopedCurrentVersions documents (clf_documentType filters)) (\<lambda>scopedEntries.
      (let p = (case page of None \<Rightarrow> 1 | Some n \<Rightarrow> if n > 0 then nat n else 1) in
       case clf_compliance filters of
         Some wanted \<Rightarrow>
           bindM (foldM (\<lambda>matched customer.
             bindM (evaluateCompliance customer scopedEntries (clf_audience filters)) (\<lambda>compliance.
             retM (if matchesCompliance wanted compliance
               then matched @ [toRow customer (Some compliance)] else matched))) [] narrowed) (\<lambda>matched.
           retM (slicePage p matched, length matched))
       | None \<Rightarrow>
           bindM (mapM (\<lambda>customer.
             bindM (evaluateCompliance customer scopedEntries (clf_audience filters)) (\<lambda>compliance.
             retM (toRow customer (Some compliance)))) (slicePage p narrowed)) (\<lambda>items.
           retM (items, length narrowed))))))))"

definition customer_get :: "string \<Rightarrow> CustomerRow M" where
  "customer_get customerId =
    bindM (bindM (customers_findById customerId) (requireD CUSTOMER_NOT_FOUND)) (\<lambda>customer.
    retM (toRow customer None))"

section \<open>Validation\<close>

definition overlaps :: "string list \<Rightarrow> Customer \<Rightarrow> bool" where
  "overlaps roles c = list_ex (\<lambda>role. role \<in> set roles) (c_roles c)"

definition assertExternalRefUniqueForRoles :: "string \<Rightarrow> string list \<Rightarrow> string option \<Rightarrow> unit M" where
  "assertExternalRefUniqueForRoles externalRef roles excludeId =
    bindM (customers_findAllByExternalRef externalRef) (\<lambda>found.
    if find (\<lambda>c. Some (c_id c) \<noteq> excludeId \<and> overlaps roles c) found \<noteq> None
    then throwD INVALID_STATE else retM ())"

definition assertRolesKnown :: "string list \<Rightarrow> unit M" where
  "assertRolesKnown roles =
    forM roles (\<lambda>role. bindM (audiences_findByKey role) (\<lambda>found.
      if found = None then throwD UNKNOWN_AUDIENCE else retM ()))"

definition assertEmailsValid :: "string list \<Rightarrow> unit M" where
  "assertEmailsValid emails =
    forM emails (\<lambda>email. if \<not> EMAIL_PATTERN email then throwD INVALID_STATE else retM ())"

text \<open>The accumulator of the loop is the pair of \<open>seen\<close> and \<open>validated\<close>.\<close>

definition validateImport ::
  "string list \<Rightarrow> string list \<times> ValidatedImport list \<Rightarrow> AcceptedVersionImport \<Rightarrow>
   (string list \<times> ValidatedImport list) M" where
  "validateImport roles acc entry =
    (if avi_versionId entry \<in> set (fst acc) then throwD INVALID_STATE
     else bindM (bindM (versions_findById (avi_versionId entry)) (requireD VERSION_NOT_FOUND)) (\<lambda>version.
     if v_status version \<noteq> PUBLISHED \<and> v_status version \<noteq> RETIRED then throwD INVALID_STATE
     else bindM (bindM (documents_findById (v_documentId version)) (requireD INVALID_STATE)) (\<lambda>document.
     if d_audience document \<notin> set roles then throwD ROLE_MISMATCH
     else bindM clock_now (\<lambda>now.
     retM (fst acc @ [avi_versionId entry],
           snd acc @ [\<lparr>vi_version = version, vi_acceptedAt = orElse (avi_acceptedAt entry) now,
                       vi_reference = avi_reference entry\<rparr>])))))"

definition validateImports :: "AcceptedVersionImport list \<Rightarrow> string list \<Rightarrow> ValidatedImport list M" where
  "validateImports imports roles =
    bindM (foldM (validateImport roles) ([], []) imports) (\<lambda>acc. retM (snd acc))"

text \<open>\<open>undefined\<close>: no such document; \<open>null\<close>: nothing in force at the date.\<close>

datatype effective = NoDocument | NothingEffective | Effective AgreementVersion

definition eligibleAt :: "Date \<Rightarrow> AgreementVersion \<Rightarrow> bool" where
  "eligibleAt date v \<longleftrightarrow> (v_status v = PUBLISHED \<or> v_status v = RETIRED)
     \<and> (case v_publishedAt v of None \<Rightarrow> False | Some t \<Rightarrow> t \<le> date) \<and> v_validFrom v \<le> date"

definition resolveEffectiveVersionAt :: "string \<Rightarrow> string \<Rightarrow> Date \<Rightarrow> effective M" where
  "resolveEffectiveVersionAt type audience date =
    bindM (documents_findByTypeAndAudience type audience) (\<lambda>document.
    case document of
      None \<Rightarrow> retM NoDocument
    | Some d \<Rightarrow>
        bindM (versions_findByDocument (d_id d)) (\<lambda>versions.
        retM (case sort_key (\<lambda>v. (- v_validFrom v, - orElse (v_publishedAt v) 0))
                (filter (eligibleAt date) versions)
          of [] \<Rightarrow> NothingEffective | v # _ \<Rightarrow> Effective v)))"

text \<open>The inner loop over the roles: \<open>resolved\<close> (with \<open>seen\<close>, the ids of its versions),
  \<open>matchedAnyDocument\<close>, \<open>acceptedForType\<close>.\<close>

definition resolveForRole ::
  "string \<Rightarrow> Date \<Rightarrow> string option \<Rightarrow> ValidatedImport list \<times> bool \<times> bool \<Rightarrow> string \<Rightarrow>
   (ValidatedImport list \<times> bool \<times> bool) M" where
  "resolveForRole type date reference acc audience =
    bindM (resolveEffectiveVersionAt type audience date) (\<lambda>version.
    case acc of (resolved, matchedAnyDocument, acceptedForType) \<Rightarrow>
      retM (case version of
          NoDocument \<Rightarrow> acc
        | NothingEffective \<Rightarrow> (resolved, True, acceptedForType)
        | Effective v \<Rightarrow>
            (if v_id v \<in> set (map (\<lambda>i. v_id (vi_version i)) resolved) then resolved
             else resolved @ [\<lparr>vi_version = v, vi_acceptedAt = date, vi_reference = reference\<rparr>],
             True, True)))"

definition resolveSignedType ::
  "string list \<Rightarrow> Date \<Rightarrow> string option \<Rightarrow> ValidatedImport list \<Rightarrow> string \<Rightarrow> ValidatedImport list M" where
  "resolveSignedType roles date reference resolved rawType =
    bindM (foldM (resolveForRole (trim rawType) date reference) (resolved, False, False) roles) (\<lambda>acc.
    case acc of (resolved', matchedAnyDocument, acceptedForType) \<Rightarrow>
      if \<not> matchedAnyDocument then throwD UNKNOWN_DOCUMENT_TYPE
      else if \<not> acceptedForType then throwD INVALID_STATE
      else retM resolved')"

definition resolveSignedDocuments ::
  "SignedDocumentsInput option \<Rightarrow> string list \<Rightarrow> ValidatedImport list M" where
  "resolveSignedDocuments given roles =
    (case given of
       None \<Rightarrow> retM []
     | Some s \<Rightarrow>
        (case sdi_effectiveDate s of
           None \<Rightarrow> throwD INVALID_STATE
         | Some date \<Rightarrow>
            foldM (resolveSignedType roles date (sdi_reference s)) [] (sdi_documentTypes s)))"

section \<open>Imports and the onboarding rollout\<close>

definition importState :: "string \<Rightarrow> string \<Rightarrow> AgreementVersion \<Rightarrow> CustomerVersionState" where
  "importState cvsId customerId version = (newState cvsId customerId (v_id version))\<lparr>cvs_state := ACCEPTED\<rparr>"

definition importedEvidence :: "string \<Rightarrow> string \<Rightarrow> ValidatedImport \<Rightarrow> Actor \<Rightarrow> Acceptance" where
  "importedEvidence acceptanceId customerId item actor =
    \<lparr>a_id = acceptanceId, a_customerId = customerId, a_versionId = v_id (vi_version item),
     a_method = IMPORT, a_channel = ChADMIN, a_acceptedAt = vi_acceptedAt item, a_actor = actor,
     a_isEffective = True, a_supersededByAcceptanceId = None, a_consentText = None,
     a_consentTextHash = None, a_contentHash = Some (v_contentHash (vi_version item)),
     a_ipAddress = None, a_userAgent = None, a_evidenceNote = vi_reference item\<rparr>"

definition importAcceptance ::
  "env \<Rightarrow> string \<Rightarrow> ValidatedImport \<Rightarrow> Actor \<Rightarrow> ImportedAcceptance M" where
  "importAcceptance E customerId item actor =
    (let version = vi_version item in
     bindM (newId E ''cvs'') (\<lambda>cvsId.
     thenM (states_save (importState cvsId customerId version))
     (bindM (newId E ''a'') (\<lambda>acceptanceId.
     bindM (acceptances_append (importedEvidence acceptanceId customerId item actor)) (\<lambda>saved.
     thenM (recordEvent E
       ((newEvent VERSION_ACCEPTED CONSENT AkSYSTEM (act_userId actor)
          (''Version '' @ v_versionLabel version @ '' accepted (IMPORT, ADMIN)''))
         \<lparr>ev_customerId := Some customerId, ev_versionId := Some (v_id version),
          ev_versionLabel := Some (v_versionLabel version), ev_channel := Some ''ADMIN'',
          ev_metadata := Some ((''method'', MStr ''IMPORT'')
            # (case vi_reference item of None \<Rightarrow> [] | Some r \<Rightarrow> [(''evidenceNote'', MStr r)]))\<rparr>))
     (retM \<lparr>ia_versionId = v_id version, ia_acceptanceId = a_id saved\<rparr>))))))"

definition notifyRolledOut :: "rolloutNotifier \<Rightarrow> Customer \<Rightarrow> AgreementVersion list \<Rightarrow> unit M" where
  "notifyRolledOut notifier customer versions =
    (if versions = [] then retM ()
     else if c_contactEmails customer = [] then retM ()
     else forM versions (\<lambda>version. thenM (attemptM (notifier customer version)) (retM ())))"

definition onboardingState :: "string \<Rightarrow> Customer \<Rightarrow> AgreementVersion \<Rightarrow> CustomerVersionState" where
  "onboardingState cvsId customer version =
    (newState cvsId (c_id customer) (v_id version))\<lparr>cvs_deadlineAt := rolloutDeadlineFor version\<rparr>"

text \<open>The body of the two loops; the accumulator is \<open>rolledOut\<close>.\<close>

definition onboardVersion ::
  "env \<Rightarrow> Customer \<Rightarrow> EventActorKind \<Rightarrow> string \<Rightarrow> AgreementDocument \<Rightarrow> AgreementVersion list \<Rightarrow>
   AgreementVersion \<Rightarrow> AgreementVersion list M" where
  "onboardVersion E customer actorKind actorLabel document rolledOut version =
    bindM (states_findByCustomerAndVersion (c_id customer) (v_id version)) (\<lambda>existing.
    if existing \<noteq> None then retM rolledOut
    else bindM (newId E ''cvs'') (\<lambda>cvsId.
      thenM (states_save (onboardingState cvsId customer version))
      (thenM (recordEvent E
        ((newEvent OBLIGATION_ROLLED_OUT CONSENT actorKind actorLabel
           (''Customer put under obligation for version '' @ v_versionLabel version))
          \<lparr>ev_customerId := Some (c_id customer), ev_customerName := Some (customerDisplayName customer),
           ev_versionId := Some (v_id version), ev_documentType := Some (d_type document),
           ev_audience := Some (d_audience document), ev_versionLabel := Some (v_versionLabel version)\<rparr>))
      (retM (rolledOut @ [version])))))"

definition rolloutVersions :: "AgreementDocument \<Rightarrow> Date \<Rightarrow> AgreementVersion list M" where
  "rolloutVersions document now =
    bindM (versions_findCurrentPublished (d_type document) (d_audience document) now) (\<lambda>current.
    bindM (versions_findUpcomingPublishedList (d_type document) (d_audience document) now) (\<lambda>upcoming.
    retM ((case current of None \<Rightarrow> [] | Some v \<Rightarrow> [v]) @ upcoming)))"

definition onboardDocument ::
  "env \<Rightarrow> Customer \<Rightarrow> string list \<Rightarrow> EventActorKind \<Rightarrow> string \<Rightarrow> Date \<Rightarrow> AgreementVersion list \<Rightarrow>
   AgreementDocument \<Rightarrow> AgreementVersion list M" where
  "onboardDocument E customer roles actorKind actorLabel now rolledOut document =
    (if d_audience document \<notin> set roles then retM rolledOut
     else bindM (rolloutVersions document now) (\<lambda>versions.
       foldM (onboardVersion E customer actorKind actorLabel document) rolledOut versions))"

definition rolloutCurrentVersions ::
  "env \<Rightarrow> rolloutNotifier \<Rightarrow> Customer \<Rightarrow> string list \<Rightarrow> EventActorKind \<Rightarrow> string \<Rightarrow> nat M" where
  "rolloutCurrentVersions E notifier customer roles actorKind actorLabel =
    bindM clock_now (\<lambda>now.
    bindM documents_findAll (\<lambda>documents.
    bindM (foldM (onboardDocument E customer roles actorKind actorLabel now) [] documents) (\<lambda>rolledOut.
    thenM (notifyRolledOut notifier customer rolledOut)
    (retM (length rolledOut)))))"

section \<open>Create and update\<close>

definition mergeImports :: "ValidatedImport list \<Rightarrow> ValidatedImport list \<Rightarrow> ValidatedImport list" where
  "mergeImports validated fromSigned =
    fold (\<lambda>item acc. if v_id (vi_version item) \<in> set (map (\<lambda>i. v_id (vi_version i)) acc) then acc
                     else acc @ [item]) fromSigned validated"

fun sourceActorKind :: "CustomerCreateSource \<Rightarrow> EventActorKind" where
  "sourceActorKind CsIntegration = AkSYSTEM"
| "sourceActorKind CsAdmin = AkADMIN"

definition stringList :: "string list \<Rightarrow> meta" where
  "stringList xs = MList (map MStr xs)"

definition newCustomer :: "string \<Rightarrow> CreateCustomerInput \<Rightarrow> Customer" where
  "newCustomer customerId input =
    \<lparr>c_id = customerId, c_externalRef = cci_externalRef input,
     c_firstName = orElse (cci_firstName input) [], c_lastName = orElse (cci_lastName input) [],
     c_companyName = nonBlank (cci_companyName input), c_roles = cci_roles input,
     c_contactEmails = cci_contactEmails input,
     c_source = Some (orElse (nonBlank (cci_source input)) ''manual''), c_deletedAt = None\<rparr>"

definition customerEvent ::
  "EventType \<Rightarrow> EventActorKind \<Rightarrow> Actor \<Rightarrow> Customer \<Rightarrow> string \<Rightarrow> (string \<times> meta) list \<Rightarrow> DomainEvent" where
  "customerEvent type actorKind actor customer what metadata =
    (newEvent type ADMINISTRATION actorKind (act_userId actor)
       (''Customer '' @ customerDisplayName customer @ '' '' @ what))
      \<lparr>ev_customerId := Some (c_id customer), ev_customerName := Some (customerDisplayName customer),
       ev_metadata := Some metadata\<rparr>"

definition customer_validate :: "CreateCustomerInput \<Rightarrow> ValidatedImport list M" where
  "customer_validate input =
    (if trim (cci_externalRef input) = [] then throwD INVALID_STATE
     else thenM (assertRolesKnown (cci_roles input))
     (thenM (assertEmailsValid (cci_contactEmails input))
     (thenM (assertExternalRefUniqueForRoles (cci_externalRef input) (cci_roles input) None)
     (bindM (validateImports (orElse (cci_acceptedVersions input) []) (cci_roles input)) (\<lambda>validated.
     bindM (resolveSignedDocuments (cci_signedDocuments input) (cci_roles input)) (\<lambda>fromSigned.
     retM (mergeImports validated fromSigned)))))))"

text \<open>What follows the write of the customer: imports, rollout, audit, event.\<close>

definition customer_onboard ::
  "env \<Rightarrow> rolloutNotifier \<Rightarrow> ValidatedImport list \<Rightarrow> Actor \<Rightarrow> CustomerCreateSource \<Rightarrow> Customer \<Rightarrow>
   CreateCustomerResult M" where
  "customer_onboard E notifier validated actor source saved =
    bindM (mapM (\<lambda>item. importAcceptance E (c_id saved) item actor) validated) (\<lambda>importedAcceptances.
    bindM (rolloutCurrentVersions E notifier saved (c_roles saved) (sourceActorKind source) (act_userId actor))
      (\<lambda>rolloutStates.
    bindM (newId E ''audit'') (\<lambda>auditId.
    bindM clock_now (\<lambda>createdAt.
    thenM (audit_append
      \<lparr>aud_id = auditId, aud_action = CUSTOMER_CREATE, aud_actor = act_userId actor,
       aud_targetType = ''Customer'', aud_targetId = c_id saved, aud_reason = None,
       aud_metadata = Some [(''source'', MStr (sourceName source)),
         (''externalRef'', MStr (c_externalRef saved)),
         (''importedAcceptances'', MInt (int (length importedAcceptances))),
         (''rolloutStates'', MInt (int rolloutStates))], aud_createdAt = createdAt\<rparr>)
    (thenM (recordEvent E (customerEvent CUSTOMER_CREATED (sourceActorKind source) actor saved ''created''
      [(''source'', MStr (sourceName source)), (''externalRef'', MStr (c_externalRef saved)),
       (''roles'', stringList (c_roles saved))]))
    (retM (CustomerRow.extend (toRow saved None) \<lparr>ccr_importedAcceptances = importedAcceptances\<rparr>)))))))"

definition customer_create ::
  "env \<Rightarrow> rolloutNotifier \<Rightarrow> CreateCustomerInput \<Rightarrow> Actor \<Rightarrow> CustomerCreateSource \<Rightarrow> CreateCustomerResult M" where
  "customer_create E notifier input actor source =
    bindM (customer_validate input) (\<lambda>validated.
    bindM (newId E ''c'') (\<lambda>customerId.
    bindM (customers_save (newCustomer customerId input)) (\<lambda>saved.
    customer_onboard E notifier validated actor source saved)))"

definition applyChanges :: "UpdateCustomerInput \<Rightarrow> Customer \<Rightarrow> Customer" where
  "applyChanges input existing =
    existing\<lparr>c_firstName := orElse (uci_firstName input) (c_firstName existing),
      c_lastName := orElse (uci_lastName input) (c_lastName existing),
      c_companyName := (case uci_companyName input of
          None \<Rightarrow> c_companyName existing
        | Some _ \<Rightarrow> nonBlank (uci_companyName input)),
      c_roles := orElse (uci_roles input) (c_roles existing),
      c_contactEmails := orElse (uci_contactEmails input) (c_contactEmails existing)\<rparr>"

definition addedRoles :: "UpdateCustomerInput \<Rightarrow> Customer \<Rightarrow> string list" where
  "addedRoles input existing = (case uci_roles input of
     None \<Rightarrow> [] | Some roles \<Rightarrow> filter (\<lambda>role. role \<notin> set (c_roles existing)) roles)"

definition customer_checkUpdate :: "UpdateCustomerInput \<Rightarrow> Customer \<Rightarrow> unit M" where
  "customer_checkUpdate input existing =
    thenM (case uci_roles input of
        None \<Rightarrow> retM ()
      | Some roles \<Rightarrow>
          thenM (assertRolesKnown roles)
            (assertExternalRefUniqueForRoles (c_externalRef existing) roles (Some (c_id existing))))
    (case uci_contactEmails input of None \<Rightarrow> retM () | Some emails \<Rightarrow> assertEmailsValid emails)"

definition customer_updated ::
  "env \<Rightarrow> rolloutNotifier \<Rightarrow> string \<Rightarrow> string list \<Rightarrow> Actor \<Rightarrow> CustomerCreateSource \<Rightarrow> Customer \<Rightarrow> CustomerRow M" where
  "customer_updated E notifier customerId added actor source updated =
    bindM (if added \<noteq> []
        then rolloutCurrentVersions E notifier updated added AkADMIN (act_userId actor)
        else retM 0) (\<lambda>rolloutStates.
    bindM (newId E ''audit'') (\<lambda>auditId.
    bindM clock_now (\<lambda>createdAt.
    thenM (audit_append
      \<lparr>aud_id = auditId, aud_action = CUSTOMER_UPDATE, aud_actor = act_userId actor,
       aud_targetType = ''Customer'', aud_targetId = customerId, aud_reason = None,
       aud_metadata = Some [(''firstName'', MStr (c_firstName updated)),
         (''lastName'', MStr (c_lastName updated)),
         (''companyName'', MStr (orElse (c_companyName updated) [])),
         (''roles'', stringList (c_roles updated)),
         (''contactEmails'', stringList (c_contactEmails updated)),
         (''rolloutStates'', MInt (int rolloutStates))], aud_createdAt = createdAt\<rparr>)
    (thenM (recordEvent E (customerEvent CUSTOMER_UPDATED (sourceActorKind source) actor updated ''updated''
      [(''roles'', stringList (c_roles updated))]))
    (retM (toRow updated None))))))"

definition customer_update ::
  "env \<Rightarrow> rolloutNotifier \<Rightarrow> string \<Rightarrow> UpdateCustomerInput \<Rightarrow> Actor \<Rightarrow> CustomerCreateSource \<Rightarrow> CustomerRow M" where
  "customer_update E notifier customerId input actor source =
    bindM (bindM (customers_findById customerId) (requireD CUSTOMER_NOT_FOUND)) (\<lambda>existing.
    if c_deletedAt existing \<noteq> None then throwD INVALID_STATE
    else thenM (customer_checkUpdate input existing)
    (bindM (customers_save (applyChanges input existing)) (\<lambda>updated.
    customer_updated E notifier customerId (addedRoles input existing) actor source updated)))"

section \<open>The inbound integration\<close>

definition resolveByExternalRefAndRoles :: "string \<Rightarrow> string list \<Rightarrow> Customer option M" where
  "resolveByExternalRefAndRoles externalRef roles =
    bindM (customers_findAllByExternalRef externalRef) (\<lambda>found.
    retM (find (overlaps roles) found))"

definition reactivateByExternalRef ::
  "env \<Rightarrow> Customer \<Rightarrow> UpsertByExternalRefInput \<Rightarrow> Actor \<Rightarrow> CustomerRow M" where
  "reactivateByExternalRef E existing input actor =
    thenM (assertExternalRefUniqueForRoles (c_externalRef existing) (uei_roles input) (Some (c_id existing)))
    (bindM (customers_save (existing\<lparr>c_deletedAt := None,
        c_firstName := orElse (uei_firstName input) [], c_lastName := orElse (uei_lastName input) [],
        c_companyName := nonBlank (uei_companyName input), c_contactEmails := uei_contactEmails input,
        c_roles := uei_roles input\<rparr>)) (\<lambda>reactivated.
    thenM (recordEvent E (customerEvent CUSTOMER_UPDATED AkSYSTEM actor reactivated
      (''reactivated (re-pushed to source '' @ orElse (c_source reactivated) ''undefined'' @ '')'')
      ((case c_source reactivated of None \<Rightarrow> [] | Some s \<Rightarrow> [(''source'', MStr s)])
        @ [(''externalRef'', MStr (c_externalRef reactivated)), (''reactivated'', MBool True)])))
    (retM (toRow reactivated None))))"

definition changed :: "'a \<Rightarrow> 'a \<Rightarrow> 'a option" where
  "changed new old = (if new = old then None else Some new)"

definition diffInbound :: "Customer \<Rightarrow> UpsertByExternalRefInput \<Rightarrow> UpdateCustomerInput" where
  "diffInbound existing input =
    \<lparr>uci_firstName = changed (orElse (uei_firstName input) []) (c_firstName existing),
     uci_lastName = changed (orElse (uei_lastName input) []) (c_lastName existing),
     uci_companyName = (let companyName = nonBlank (uei_companyName input) in
       if companyName = c_companyName existing then None else Some (orElse companyName [])),
     uci_roles = (if sameStringSet (uei_roles input) (c_roles existing) then None
       else Some (uei_roles input)),
     uci_contactEmails = (if sameStringSet (uei_contactEmails input) (c_contactEmails existing) then None
       else Some (uei_contactEmails input))\<rparr>"

definition noChanges :: UpdateCustomerInput where
  "noChanges = \<lparr>uci_firstName = None, uci_lastName = None, uci_companyName = None,
     uci_roles = None, uci_contactEmails = None\<rparr>"

definition upsertByExternalRef ::
  "env \<Rightarrow> rolloutNotifier \<Rightarrow> UpsertByExternalRefInput \<Rightarrow> Actor \<Rightarrow> CustomerRow M" where
  "upsertByExternalRef E notifier input actor =
    (if trim (uei_externalRef input) = [] then throwD INVALID_STATE
     else thenM (assertRolesKnown (uei_roles input))
     (thenM (assertEmailsValid (uei_contactEmails input))
     (bindM (resolveByExternalRefAndRoles (uei_externalRef input) (uei_roles input)) (\<lambda>found.
     case found of
       None \<Rightarrow>
         bindM (customer_create E notifier
           \<lparr>cci_externalRef = uei_externalRef input, cci_firstName = uei_firstName input,
            cci_lastName = uei_lastName input, cci_companyName = uei_companyName input,
            cci_roles = uei_roles input, cci_contactEmails = uei_contactEmails input,
            cci_acceptedVersions = None, cci_signedDocuments = None,
            cci_source = Some (orElse (nonBlank (uei_source input)) DEFAULT_INBOUND_SOURCE)\<rparr>
           actor CsIntegration) (\<lambda>created.
         retM (CustomerRow.truncate created))
     | Some existing \<Rightarrow>
         if c_deletedAt existing \<noteq> None then reactivateByExternalRef E existing input actor
         else (let changes = diffInbound existing input in
           if changes = noChanges then retM (toRow existing None)
           else customer_update E notifier (c_id existing) changes actor CsIntegration)))))"

definition deactivateByExternalRef :: "env \<Rightarrow> string \<Rightarrow> string \<Rightarrow> Actor \<Rightarrow> unit M" where
  "deactivateByExternalRef E externalRef audience actor =
    bindM (customers_findAllByExternalRef externalRef) (\<lambda>found.
    case find (\<lambda>c. c_deletedAt c = None \<and> audience \<in> set (c_roles c)) found of
      None \<Rightarrow> retM ()
    | Some existing \<Rightarrow>
        bindM clock_now (\<lambda>now.
        thenM (customers_softDelete (c_id existing) now)
        (recordEvent E (customerEvent CUSTOMER_DELETED AkSYSTEM actor existing
          (''deactivated (removed for audience '' @ audience @ '')'')
          [(''audience'', MStr audience), (''externalRef'', MStr (c_externalRef existing))]))))"

end
