(* ===== verification/Accept_Page.thy ===== *)
theory Accept_Page
  imports Compliance Customers
begin

text \<open>
  The hosted acceptance page (\<open>src/src/accept\<close>): minting of links, the rate limiter, and the page
  service, whose writes go through the services of the portal.  \<open>Page_View\<close> renders the view that the
  page service answers.
\<close>

section \<open>Minting links\<close>

text \<open>A JSON number that is not an integer is \<open>JsFraction\<close>.\<close>

datatype JsNumber = JsInt int | JsFraction

record CreateAcceptanceLinkInput =
  cal_audienceKey :: "string option"
  cal_expiresInDays :: "JsNumber option"

record CreateAcceptanceLinkResult =
  calr_linkId :: string
  calr_url :: string
  calr_expiresAt :: Date

definition randomBytes :: "env \<Rightarrow> byte list M" where
  "randomBytes E = (\<lambda>w. (Inr (e_randomBytes E (w_uuid w)), w\<lparr>w_uuid := Suc (w_uuid w)\<rparr>))"

definition requirePublicBaseUrl :: "env \<Rightarrow> string result" where
  "requirePublicBaseUrl E =
    (case publicBaseUrl E of None \<Rightarrow> domainError INVALID_STATE | Some url \<Rightarrow> Inr url)"

definition resolveExpiryDays :: "JsNumber option \<Rightarrow> int result" where
  "resolveExpiryDays requested =
    (case requested of
       None \<Rightarrow> Inr DEFAULT_LINK_EXPIRY_DAYS
     | Some JsFraction \<Rightarrow> domainError INVALID_STATE
     | Some (JsInt n) \<Rightarrow>
         if n < 1 \<or> n > MAX_LINK_EXPIRY_DAYS then domainError INVALID_STATE else Inr n)"

definition link_create ::
  "env \<Rightarrow> string \<Rightarrow> CreateAcceptanceLinkInput \<Rightarrow> string \<Rightarrow> CreateAcceptanceLinkResult M" where
  "link_create E customerId input adminUserId =
    bindM (liftR (requirePublicBaseUrl E)) (\<lambda>baseUrl.
    thenM (bindM (customers_findById customerId) (requireD CUSTOMER_NOT_FOUND))
    (thenM (case cal_audienceKey input of
        None \<Rightarrow> retM ()
      | Some key \<Rightarrow> bindM (audiences_findByKey key) (\<lambda>known.
          if known = None then throwD UNKNOWN_AUDIENCE else retM ()))
    (bindM (liftR (resolveExpiryDays (cal_expiresInDays input))) (\<lambda>expiresInDays.
    bindM clock_now (\<lambda>createdAt.
    (let expiresAt = createdAt + expiresInDays * MS_PER_DAY in
    bindM (bindM (randomBytes E) (\<lambda>b. retM (newAcceptanceLinkToken b))) (\<lambda>token.
    bindM (newId E ''al'') (\<lambda>linkId.
    bindM (links_create
      \<lparr>al_id = linkId, al_tokenHash = acceptanceLinkTokenHash token, al_customerId = customerId,
       al_kind = STANDARD, al_audienceKey = cal_audienceKey input, al_createdBy = adminUserId,
       al_createdAt = createdAt, al_expiresAt = Some expiresAt, al_revokedAt = None,
       al_lastUsedAt = None\<rparr>) (\<lambda>link.
    bindM (newId E ''audit'') (\<lambda>auditId.
    (let scope = (case cal_audienceKey input of None \<Rightarrow> [] | Some key \<Rightarrow> [(''audienceKey'', MStr key)]);
         until = [(''expiresAt'', MStr (e_toISOString E expiresAt))] in
    thenM (audit_append
      \<lparr>aud_id = auditId, aud_action = ACCEPTANCE_LINK_CREATE, aud_actor = adminUserId,
       aud_targetType = ''AcceptanceLink'', aud_targetId = al_id link, aud_reason = None,
       aud_metadata = Some ((''customerId'', MStr customerId) # scope @ until), aud_createdAt = createdAt\<rparr>)
    (thenM (recordEvent E
      ((newEvent ACCEPTANCE_LINK_CREATED ADMINISTRATION AkADMIN adminUserId ''Acceptance link created'')
        \<lparr>ev_customerId := Some customerId, ev_audience := cal_audienceKey input, ev_channel := Some ''LINK'',
         ev_metadata := Some ((''linkId'', MStr (al_id link)) # scope @ until)\<rparr>))
    (retM \<lparr>calr_linkId = al_id link, calr_url = baseUrl @ ''/accept/'' @ token,
           calr_expiresAt = expiresAt\<rparr>)))))))))))))"

section \<open>The rate limiter\<close>

definition ACCEPT_PAGE_RATE_LIMIT :: nat where
  "ACCEPT_PAGE_RATE_LIMIT = 20"

definition ACCEPT_PAGE_RATE_WINDOW_MS :: int where
  "ACCEPT_PAGE_RATE_WINDOW_MS = 60 * 1000"

definition rateLimiter_allow :: "nat \<Rightarrow> int \<Rightarrow> string \<Rightarrow> bool M" where
  "rateLimiter_allow limit windowMs key =
    bindM clock_now (\<lambda>now.
    bindM (getsM (\<lambda>w. orElse (map_of (w_hits w) key) [])) (\<lambda>hits.
    (let recent = filter (\<lambda>at. at > now - windowMs) hits;
         put = (\<lambda>xs. modifyM (\<lambda>w. w\<lparr>w_hits := AList.update key xs (w_hits w)\<rparr>)) in
     if length recent \<ge> limit then thenM (put recent) (retM False)
     else thenM (put (recent @ [now])) (retM True))))"

definition assertWithinRateLimit :: "string \<Rightarrow> unit M" where
  "assertWithinRateLimit token =
    bindM (rateLimiter_allow ACCEPT_PAGE_RATE_LIMIT ACCEPT_PAGE_RATE_WINDOW_MS (acceptanceLinkTokenHash token))
      (\<lambda>ok. if \<not> ok then throwD RATE_LIMITED else retM ())"

section \<open>The page\<close>

record AcceptancePageItem =
  api_versionId :: string
  api_documentName :: string
  api_documentType :: string
  api_audience :: string
  api_versionLabel :: string
  api_changeSummary :: string
  api_pdfUrl :: string
  api_mode :: AcceptanceMode
  api_consentText :: "string option"
  api_deadlineAt :: "Date option"
  api_blocking :: bool
  api_upcoming :: bool
  api_validFrom :: Date
  api_canObject :: bool
  api_objectionConsequence :: "string option"

record AcceptancePageView =
  apv_linkId :: string
  apv_customerName :: string
  apv_firstName :: string
  apv_lastName :: string
  apv_companyName :: string
  apv_suggestedEmail :: string
  apv_items :: "AcceptancePageItem list"

definition resolveUsableLink :: "string \<Rightarrow> AcceptanceLink option M" where
  "resolveUsableLink token =
    bindM (links_findByTokenHash (acceptanceLinkTokenHash token)) (\<lambda>link.
    case link of
      None \<Rightarrow> retM None
    | Some l \<Rightarrow> bindM clock_now (\<lambda>now. retM (if isAcceptanceLinkUsable l now then Some l else None)))"

definition linkActor :: "AcceptanceLink \<Rightarrow> string option \<Rightarrow> string option \<Rightarrow> Actor" where
  "linkActor link name email =
    \<lparr>act_userId = acceptanceLinkActorUserId (al_id link), act_name = name, act_email = email,
     act_portalRole = None\<rparr>"

definition pageItem :: "env \<Rightarrow> AcceptanceLink \<Rightarrow> PendingAgreementItem \<Rightarrow> AcceptancePageItem M" where
  "pageItem E link item =
    bindM (notification_notify E
      \<lparr>ni_customerId = al_customerId link, ni_versionId = pai_versionId item, ni_channel = NLINK,
       ni_displayedAt = None,
       ni_context = \<lparr>ctx_customerId = al_customerId link, ctx_actor = linkActor link None None,
                     ctx_ipAddress = None, ctx_userAgent = None\<rparr>\<rparr>) (\<lambda>notified.
    bindM (versions_findById (pai_versionId item)) (\<lambda>version.
    bindM (case version of None \<Rightarrow> retM None | Some v \<Rightarrow> documents_findById (v_documentId v)) (\<lambda>document.
    retM \<lparr>api_versionId = pai_versionId item,
          api_documentName = (case document of None \<Rightarrow> pai_documentType item | Some d \<Rightarrow> d_name d),
          api_documentType = pai_documentType item, api_audience = pai_audience item,
          api_versionLabel = pai_versionLabel item, api_changeSummary = pai_changeSummary item,
          api_pdfUrl = pai_pdfUrl item, api_mode = pai_mode item,
          api_consentText = Option.bind version v_consentText,
          api_deadlineAt = orOpt (nr_deadlineAt notified) (pai_deadlineAt item),
          api_blocking = pai_blocking item, api_upcoming = pai_upcoming item,
          api_validFrom = pai_validFrom item,
          api_canObject = (pai_mode item = PASSIVE \<and> \<not> pai_upcoming item),
          api_objectionConsequence = Option.bind version v_objectionConsequence\<rparr>)))"

definition loadPage :: "env \<Rightarrow> pdfUrlProvider \<Rightarrow> string \<Rightarrow> AcceptancePageView option M" where
  "loadPage E pdfUrl token =
    bindM (resolveUsableLink token) (\<lambda>found.
    case found of
      None \<Rightarrow> retM None
    | Some link \<Rightarrow>
        bindM (customers_findById (al_customerId link)) (\<lambda>owner.
        case owner of
          None \<Rightarrow> retM None
        | Some customer \<Rightarrow>
            bindM (getPendingAgreements pdfUrl (al_customerId link) (al_audienceKey link)) (\<lambda>pending.
            bindM (mapM (pageItem E link) pending) (\<lambda>items.
            bindM clock_now (\<lambda>now.
            thenM (links_touch (al_id link) now)
            (retM (Some
              \<lparr>apv_linkId = al_id link, apv_customerName = customerDisplayName customer,
               apv_firstName = c_firstName customer, apv_lastName = c_lastName customer,
               apv_companyName = orElse (c_companyName customer) [],
               apv_suggestedEmail = (case c_contactEmails customer of [] \<Rightarrow> [] | m # _ \<Rightarrow> m),
               apv_items = items\<rparr>)))))))"

record LinkAcceptanceRequest =
  lar_versionId :: string
  lar_displayedConsentText :: "string option"
  lar_signerName :: string
  lar_signerEmail :: string
  lar_ipAddress :: "string option"
  lar_userAgent :: "string option"
  lar_idempotencyKey :: "string option"

definition assertVersionInLinkScope :: "AcceptanceLink \<Rightarrow> string \<Rightarrow> unit M" where
  "assertVersionInLinkScope link versionId =
    (case al_audienceKey link of
       None \<Rightarrow> retM ()
     | Some audience \<Rightarrow>
        bindM (versions_findById versionId) (\<lambda>version.
        case version of
          None \<Rightarrow> retM ()
        | Some v \<Rightarrow>
            bindM (documents_findById (v_documentId v)) (\<lambda>document.
            case document of
              None \<Rightarrow> retM ()
            | Some d \<Rightarrow> if d_audience d \<noteq> audience then throwD VERSION_NOT_FOUND else retM ())))"

definition orRandomKey :: "env \<Rightarrow> string option \<Rightarrow> string M" where
  "orRandomKey E key = (case key of None \<Rightarrow> randomUUID E | Some k \<Rightarrow> retM k)"

definition page_accept ::
  "env \<Rightarrow> confirmation \<Rightarrow> string \<Rightarrow> LinkAcceptanceRequest \<Rightarrow> IdempotencyValue M" where
  "page_accept E conf token request =
    bindM (bindM (resolveUsableLink token) (requireD LINK_NOT_FOUND)) (\<lambda>link.
    (let signerName = trim (lar_signerName request); signerEmail = trim (lar_signerEmail request) in
     if signerName = [] then throwD INVALID_STATE
     else if \<not> EMAIL_PATTERN signerEmail then throwD INVALID_STATE
     else thenM (assertVersionInLinkScope link (lar_versionId request))
     (bindM (orRandomKey E (lar_idempotencyKey request)) (\<lambda>key.
     bindM (acceptance_accept E conf
       \<lparr>ai_customerId = al_customerId link, ai_versionId = lar_versionId request,
        ai_displayedConsentText = lar_displayedConsentText request, ai_idempotencyKey = key,
        ai_context = \<lparr>ctx_customerId = al_customerId link,
          ctx_actor = linkActor link (Some signerName) (Some signerEmail),
          ctx_ipAddress = lar_ipAddress request, ctx_userAgent = lar_userAgent request\<rparr>,
        ai_channel = Some ChLINK, ai_evidenceNote = Some (acceptanceLinkEvidenceNote (al_id link))\<rparr>)
       (\<lambda>response.
     bindM clock_now (\<lambda>now.
     thenM (links_touch (al_id link) now) (retM response)))))))"

record LinkObjectionRequest =
  lor_versionId :: string
  lor_reason :: string
  lor_signerName :: "string option"
  lor_signerEmail :: "string option"
  lor_ipAddress :: "string option"
  lor_userAgent :: "string option"
  lor_idempotencyKey :: "string option"

text \<open>\<open>x?.trim() || undefined\<close>.\<close>

definition trimmedOpt :: "string option \<Rightarrow> string option" where
  "trimmedOpt x = (case x of None \<Rightarrow> None | Some s \<Rightarrow> if trim s = [] then None else Some (trim s))"

definition page_object ::
  "env \<Rightarrow> adminNotifications \<Rightarrow> string \<Rightarrow> LinkObjectionRequest \<Rightarrow> IdempotencyValue M" where
  "page_object E notifyAdmins token request =
    bindM (bindM (resolveUsableLink token) (requireD LINK_NOT_FOUND)) (\<lambda>link.
    (let reason = trim (lor_reason request) in
     if reason = [] then throwD INVALID_STATE
     else thenM (assertVersionInLinkScope link (lor_versionId request))
     (bindM (orRandomKey E (lor_idempotencyKey request)) (\<lambda>key.
     bindM (objection_object E notifyAdmins
       \<lparr>oi_customerId = al_customerId link, oi_versionId = lor_versionId request, oi_reason = Some reason,
        oi_idempotencyKey = key,
        oi_context = \<lparr>ctx_customerId = al_customerId link,
          ctx_actor = linkActor link (trimmedOpt (lor_signerName request)) (trimmedOpt (lor_signerEmail request)),
          ctx_ipAddress = lor_ipAddress request, ctx_userAgent = lor_userAgent request\<rparr>\<rparr>) (\<lambda>response.
     bindM clock_now (\<lambda>now.
     thenM (links_touch (al_id link) now) (retM response)))))))"

section \<open>The controller\<close>

definition page_get :: "env \<Rightarrow> pdfUrlProvider \<Rightarrow> string \<Rightarrow> AcceptancePageView option M" where
  "page_get E pdfUrl token = thenM (assertWithinRateLimit token) (loadPage E pdfUrl token)"

definition page_postAcceptance ::
  "env \<Rightarrow> confirmation \<Rightarrow> string \<Rightarrow> LinkAcceptanceRequest \<Rightarrow> IdempotencyValue M" where
  "page_postAcceptance E conf token body =
    thenM (assertWithinRateLimit token)
      (page_accept E conf token (body\<lparr>lar_idempotencyKey := nonBlank (lar_idempotencyKey body)\<rparr>))"

definition page_postObjection ::
  "env \<Rightarrow> adminNotifications \<Rightarrow> string \<Rightarrow> LinkObjectionRequest \<Rightarrow> IdempotencyValue M" where
  "page_postObjection E notifyAdmins token body =
    thenM (assertWithinRateLimit token)
      (page_object E notifyAdmins token (body\<lparr>lor_idempotencyKey := None\<rparr>))"

end
