(* ===== verification/Signed_Documents.thy ===== *)
theory Signed_Documents
  imports Agreements
begin

text \<open>
  The archive of externally signed documents (\<open>src/src/signed-documents\<close>) and the handlers of the
  version administration that build a draft or a patch from a request
  (\<open>agreements/agreements-admin.controller.ts\<close>).  A multipart file is given with its contents; the
  base64 fallback is decoded by the host function \<open>fromBase64\<close>.
\<close>

section \<open>Uploads\<close>

definition resolveUpload ::
  "(string \<Rightarrow> string) \<Rightarrow> PdfUpload option \<Rightarrow> string option \<Rightarrow> string option \<Rightarrow> PdfUpload option" where
  "resolveUpload fromBase64 multipartFile base64File base64FileName =
    (case multipartFile of
       Some f \<Rightarrow> Some f
     | None \<Rightarrow>
        (case (base64File, base64FileName) of
           (Some file, Some name) \<Rightarrow> Some \<lparr>pu_buffer = fromBase64 file, pu_fileName = name\<rparr>
         | _ \<Rightarrow> None))"

record SignedDocumentUploadBody =
  sub_file :: "string option"
  sub_fileName :: "string option"
  sub_documentTypeKey :: "string option"
  sub_signedAt :: "string option"
  sub_signerName :: "string option"
  sub_reference :: "string option"
  sub_audience :: "string option"
  sub_note :: "string option"

text \<open>\<open>signedAt\<close> is \<open>None\<close> for \<open>Invalid Date\<close>.\<close>

record UploadSignedDocumentInput =
  usi_documentTypeKey :: string
  usi_signedAt :: "Date option"
  usi_file :: PdfUpload
  usi_signerName :: "string option"
  usi_reference :: "string option"
  usi_audience :: "string option"
  usi_note :: "string option"

definition buildUploadInput ::
  "env \<Rightarrow> (string \<Rightarrow> string) \<Rightarrow> SignedDocumentUploadBody \<Rightarrow> PdfUpload option \<Rightarrow> UploadSignedDocumentInput result" where
  "buildUploadInput E fromBase64 body multipartFile =
    (case resolveUpload fromBase64 multipartFile (sub_file body) (sub_fileName body) of
       None \<Rightarrow> Inl BadRequestException
     | Some upload \<Rightarrow>
        if orElse (sub_documentTypeKey body) [] = [] then Inl BadRequestException
        else if orElse (sub_signedAt body) [] = [] then Inl BadRequestException
        else Inr \<lparr>usi_documentTypeKey = orElse (sub_documentTypeKey body) [],
                  usi_signedAt = e_parseDate E (orElse (sub_signedAt body) []), usi_file = upload,
                  usi_signerName = sub_signerName body, usi_reference = sub_reference body,
                  usi_audience = sub_audience body, usi_note = sub_note body\<rparr>)"

section \<open>SignedDocumentService\<close>

record SignedDocumentDto =
  sdd_id :: string
  sdd_customerId :: string
  sdd_documentTypeKey :: string
  sdd_audience :: "string option"
  sdd_fileName :: string
  sdd_contentHash :: string
  sdd_fileSize :: int
  sdd_signedAt :: Date
  sdd_signerName :: "string option"
  sdd_reference :: "string option"
  sdd_note :: "string option"
  sdd_uploadedBy :: string
  sdd_uploadedAt :: Date
  sdd_pdfUrl :: string

definition toSignedDocumentDto :: "SignedDocument \<Rightarrow> string \<Rightarrow> SignedDocumentDto" where
  "toSignedDocumentDto document pdfUrl =
    \<lparr>sdd_id = sd_id document, sdd_customerId = sd_customerId document,
     sdd_documentTypeKey = sd_documentTypeKey document, sdd_audience = sd_audience document,
     sdd_fileName = sd_fileName document, sdd_contentHash = sd_contentHash document,
     sdd_fileSize = sd_fileSize document, sdd_signedAt = sd_signedAt document,
     sdd_signerName = sd_signerName document, sdd_reference = sd_reference document,
     sdd_note = sd_note document, sdd_uploadedBy = sd_uploadedBy document,
     sdd_uploadedAt = sd_uploadedAt document, sdd_pdfUrl = pdfUrl\<rparr>"

definition signedDto :: "FileStorage \<Rightarrow> SignedDocument \<Rightarrow> SignedDocumentDto M" where
  "signedDto F document =
    bindM (fs_getPresignedUrl F (sd_storageKey document)) (\<lambda>url. retM (toSignedDocumentDto document url))"

definition signed_upload ::
  "env \<Rightarrow> FileStorage \<Rightarrow> string \<Rightarrow> UploadSignedDocumentInput \<Rightarrow> Actor \<Rightarrow> bool \<Rightarrow> SignedDocumentDto M" where
  "signed_upload E F customerId input actor recordAudit =
    (if pu_buffer (usi_file input) = [] then throwD INVALID_STATE
     else bindM (requireD INVALID_STATE (usi_signedAt input)) (\<lambda>signedAt.
    bindM (bindM (customers_findById customerId) (requireD CUSTOMER_NOT_FOUND)) (\<lambda>customer.
    bindM (bindM (documentTypes_findByKey (usi_documentTypeKey input)) (requireD UNKNOWN_DOCUMENT_TYPE))
      (\<lambda>documentType.
    if dt_external documentType \<noteq> Some True then throwD DOCUMENT_TYPE_NOT_EXTERNAL
    else thenM (case usi_audience input of
        None \<Rightarrow> retM ()
      | Some key \<Rightarrow> bindM (audiences_findByKey key) (\<lambda>known.
          if known = None then throwD UNKNOWN_AUDIENCE else retM ()))
    (bindM (pdf_store F (usi_file input)) (\<lambda>stored.
    bindM clock_now (\<lambda>now.
    bindM (newId E ''sd'') (\<lambda>sdId.
    bindM (signed_append
      \<lparr>sd_id = sdId, sd_customerId = customerId, sd_documentTypeKey = usi_documentTypeKey input,
       sd_audience = usi_audience input, sd_fileName = sp_fileName stored,
       sd_storageKey = sp_storageKey stored, sd_contentHash = sp_contentHash stored,
       sd_fileSize = sp_fileSize stored, sd_signedAt = signedAt, sd_signerName = usi_signerName input,
       sd_reference = usi_reference input, sd_note = usi_note input, sd_uploadedBy = act_userId actor,
       sd_uploadedAt = now\<rparr>) (\<lambda>saved.
    thenM (whenM recordAudit
      (bindM (newId E ''audit'') (\<lambda>auditId.
       thenM (audit_append
         \<lparr>aud_id = auditId, aud_action = SIGNED_DOCUMENT_UPLOAD, aud_actor = act_userId actor,
          aud_targetType = ''SignedDocument'', aud_targetId = sd_id saved, aud_reason = None,
          aud_metadata = Some [(''customerId'', MStr customerId),
            (''documentTypeKey'', MStr (sd_documentTypeKey saved)),
            (''contentHash'', MStr (sd_contentHash saved)), (''storageKey'', MStr (sd_storageKey saved))],
          aud_createdAt = now\<rparr>) (retM ()))))
    (thenM (recordEvent E
      ((newEvent SIGNED_DOCUMENT_UPLOADED ADMINISTRATION (if recordAudit then AkADMIN else AkSYSTEM)
         (act_userId actor) (''Signed document uploaded ('' @ sd_documentTypeKey saved @ '')''))
        \<lparr>ev_customerId := Some customerId, ev_customerName := Some (customerDisplayName customer),
         ev_documentType := Some (sd_documentTypeKey saved), ev_audience := sd_audience saved,
         ev_metadata := Some [(''signedDocumentId'', MStr (sd_id saved)),
                              (''contentHash'', MStr (sd_contentHash saved))]\<rparr>))
    (signedDto F saved)))))))))))"

definition signed_list :: "env \<Rightarrow> FileStorage \<Rightarrow> string \<Rightarrow> SignedDocumentDto list M" where
  "signed_list E F customerId = bindM (signed_findByCustomer E customerId) (mapM (signedDto F))"

definition signed_getPdfUrl :: "FileStorage \<Rightarrow> string \<Rightarrow> string M" where
  "signed_getPdfUrl F documentId =
    bindM (bindM (signed_findById documentId) (requireD VERSION_NOT_FOUND)) (\<lambda>document.
    fs_getPresignedUrl F (sd_storageKey document))"

section \<open>The version controller\<close>

text \<open>A number field arrives as a number or as a string; \<open>toNumber\<close> is \<open>Number(s)\<close>, \<open>None\<close> is \<open>NaN\<close>.\<close>

datatype numberField = NumAbsent | NumValue int | NumString string

definition toOptionalNumber :: "(string \<Rightarrow> int option) \<Rightarrow> numberField \<Rightarrow> int option result" where
  "toOptionalNumber toNumber value =
    (case value of
       NumAbsent \<Rightarrow> Inr None
     | NumValue n \<Rightarrow> Inr (Some n)
     | NumString s \<Rightarrow>
         if s = [] then Inr None
         else (case toNumber s of None \<Rightarrow> Inl BadRequestException | Some n \<Rightarrow> Inr (Some n)))"

record PatchVersionBody =
  pvb_rest :: "VersionField list"
  pvb_validFrom :: "Date option"
  pvb_objectionPeriodDays :: numberField
  pvb_gracePeriodDays :: numberField
  pvb_hardDeadlineAt :: "Date option option"
  pvb_file :: "string option"
  pvb_fileName :: "string option"

text \<open>The dates of the body are already parsed; \<open>Some None\<close> is the empty string for \<open>hardDeadlineAt\<close>.
  \<open>pvb_rest\<close> holds every other property of the body, whatever its name.\<close>

definition buildPatch :: "(string \<Rightarrow> int option) \<Rightarrow> PatchVersionBody \<Rightarrow> VersionField list result" where
  "buildPatch toNumber body =
    bindR (if pvb_objectionPeriodDays body = NumAbsent then Inr []
           else bindR (toOptionalNumber toNumber (pvb_objectionPeriodDays body)) (\<lambda>n. Inr [FObjectionPeriodDays n]))
      (\<lambda>objectionPeriod.
    bindR (if pvb_gracePeriodDays body = NumAbsent then Inr []
           else bindR (toOptionalNumber toNumber (pvb_gracePeriodDays body)) (\<lambda>n. Inr [FGracePeriodDays n]))
      (\<lambda>gracePeriod.
    Inr (pvb_rest body
      @ (case pvb_validFrom body of None \<Rightarrow> [] | Some t \<Rightarrow> [FValidFrom t])
      @ objectionPeriod @ gracePeriod
      @ (case pvb_hardDeadlineAt body of None \<Rightarrow> [] | Some t \<Rightarrow> [FHardDeadlineAt t]))))"

definition controller_patchVersion ::
  "env \<Rightarrow> FileStorage \<Rightarrow> (string \<Rightarrow> int option) \<Rightarrow> (string \<Rightarrow> string) \<Rightarrow> string \<Rightarrow> PatchVersionBody \<Rightarrow>
   PdfUpload option \<Rightarrow> string \<Rightarrow> AgreementVersion M" where
  "controller_patchVersion E F toNumber fromBase64 versionId body multipartFile adminUserId =
    bindM (liftR (buildPatch toNumber body)) (\<lambda>patch.
    patchDraft E F versionId patch
      (resolveUpload fromBase64 multipartFile (pvb_file body) (pvb_fileName body)) adminUserId)"

record CreateVersionBody =
  cvb_file :: "string option"
  cvb_fileName :: "string option"
  cvb_versionLabel :: string
  cvb_changeSummary :: string
  cvb_acceptanceMode :: AcceptanceMode
  cvb_consentText :: "string option"
  cvb_objectionPeriodDays :: numberField
  cvb_objectionConsequence :: "string option"
  cvb_gracePeriodDays :: numberField
  cvb_hardDeadlineAt :: "Date option"
  cvb_validFrom :: Date

definition controller_createVersion ::
  "env \<Rightarrow> FileStorage \<Rightarrow> (string \<Rightarrow> int option) \<Rightarrow> (string \<Rightarrow> string) \<Rightarrow> string \<Rightarrow> CreateVersionBody \<Rightarrow>
   PdfUpload option \<Rightarrow> string \<Rightarrow> AgreementVersion M" where
  "controller_createVersion E F toNumber fromBase64 documentId body multipartFile adminUserId =
    bindM (requireM BadRequestException
      (resolveUpload fromBase64 multipartFile (cvb_file body) (cvb_fileName body))) (\<lambda>upload.
    bindM (liftR (toOptionalNumber toNumber (cvb_objectionPeriodDays body))) (\<lambda>objectionPeriodDays.
    bindM (liftR (toOptionalNumber toNumber (cvb_gracePeriodDays body))) (\<lambda>gracePeriodDays.
    createDraft E F
      \<lparr>cd_documentId = documentId, cd_versionLabel = cvb_versionLabel body,
       cd_changeSummary = cvb_changeSummary body, cd_acceptanceMode = cvb_acceptanceMode body,
       cd_consentText = cvb_consentText body, cd_objectionPeriodDays = objectionPeriodDays,
       cd_objectionConsequence = cvb_objectionConsequence body, cd_gracePeriodDays = gracePeriodDays,
       cd_hardDeadlineAt = cvb_hardDeadlineAt body, cd_validFrom = cvb_validFrom body,
       cd_file = upload\<rparr> adminUserId)))"

end
