(* ===== verification/Legal_Entities.thy ===== *)
theory Legal_Entities
  imports Stores
begin

text \<open>
  The declarative configuration of audiences and document types (\<open>src/src/legal-entities\<close>): the schema
  of the configuration and its reconciliation with the stores at boot.  The raw configuration is a
  parsed JSON value; reading the file is not modelled.
\<close>

section \<open>The configuration\<close>

record ConfigAudience =
  ca_key :: string
  ca_name :: string

record ConfigDocumentType =
  cdt_key :: string
  cdt_name :: string
  cdt_external :: bool
  cdt_notificationTemplateId :: "string option"
  cdt_reminderTemplateId :: "string option"
  cdt_acceptanceConfirmationTemplateId :: "string option"

record LegalEntitiesConfig =
  lec_audiences :: "ConfigAudience list"
  lec_documentTypes :: "ConfigDocumentType list"

text \<open>A violation of the schema is \<open>None\<close>.  \<open>.strict()\<close> refuses unknown properties.\<close>

definition strictObject :: "string list \<Rightarrow> meta \<Rightarrow> ((string \<times> meta) list) option" where
  "strictObject known raw =
    (case raw of
       MObj ps \<Rightarrow> if list_all (\<lambda>(k, _). k \<in> set known) ps then Some ps else None
     | _ \<Rightarrow> None)"

definition entityKeyField :: "(string \<times> meta) list \<Rightarrow> string option" where
  "entityKeyField ps = (case map_of ps ''key'' of
      Some (MStr s) \<Rightarrow> if isValidEntityKey s then Some s else None | _ \<Rightarrow> None)"

definition nonEmptyField :: "(string \<times> meta) list \<Rightarrow> string \<Rightarrow> string option" where
  "nonEmptyField ps field = (case map_of ps field of
      Some (MStr s) \<Rightarrow> if s \<noteq> [] then Some s else None | _ \<Rightarrow> None)"

text \<open>\<open>z.string().min(1).nullish()\<close>, with \<open>null\<close> and absence read as no template.\<close>

definition templateField :: "(string \<times> meta) list \<Rightarrow> string \<Rightarrow> string option option" where
  "templateField ps field = (case map_of ps field of
      None \<Rightarrow> Some None
    | Some MNull \<Rightarrow> Some None
    | Some (MStr s) \<Rightarrow> if s \<noteq> [] then Some (Some s) else None
    | Some _ \<Rightarrow> None)"

definition externalField :: "(string \<times> meta) list \<Rightarrow> bool option" where
  "externalField ps = (case map_of ps ''external'' of
      None \<Rightarrow> Some False | Some (MBool b) \<Rightarrow> Some b | Some _ \<Rightarrow> None)"

definition parseAudience :: "meta \<Rightarrow> ConfigAudience option" where
  "parseAudience raw =
    Option.bind (strictObject [''key'', ''name''] raw) (\<lambda>ps.
    Option.bind (entityKeyField ps) (\<lambda>key.
    Option.bind (nonEmptyField ps ''name'') (\<lambda>name.
    Some \<lparr>ca_key = key, ca_name = name\<rparr>)))"

definition parseDocumentType :: "meta \<Rightarrow> ConfigDocumentType option" where
  "parseDocumentType raw =
    Option.bind (strictObject [''key'', ''name'', ''external'', ''notificationTemplateId'',
       ''reminderTemplateId'', ''acceptanceConfirmationTemplateId''] raw) (\<lambda>ps.
    Option.bind (entityKeyField ps) (\<lambda>key.
    Option.bind (nonEmptyField ps ''name'') (\<lambda>name.
    Option.bind (externalField ps) (\<lambda>external.
    Option.bind (templateField ps ''notificationTemplateId'') (\<lambda>n.
    Option.bind (templateField ps ''reminderTemplateId'') (\<lambda>r.
    Option.bind (templateField ps ''acceptanceConfirmationTemplateId'') (\<lambda>c.
    Some \<lparr>cdt_key = key, cdt_name = name, cdt_external = external, cdt_notificationTemplateId = n,
          cdt_reminderTemplateId = r, cdt_acceptanceConfirmationTemplateId = c\<rparr>)))))))"

fun parseAll :: "(meta \<Rightarrow> 'a option) \<Rightarrow> meta list \<Rightarrow> 'a list option" where
  "parseAll f [] = Some []"
| "parseAll f (x # xs) = Option.bind (f x) (\<lambda>y. map_option ((#) y) (parseAll f xs))"

definition parseArray :: "(meta \<Rightarrow> 'a option) \<Rightarrow> (string \<times> meta) list \<Rightarrow> string \<Rightarrow> 'a list option" where
  "parseArray f ps field = (case map_of ps field of Some (MList xs) \<Rightarrow> parseAll f xs | _ \<Rightarrow> None)"

definition parseLegalEntitiesConfig :: "meta \<Rightarrow> LegalEntitiesConfig result" where
  "parseLegalEntitiesConfig raw =
    (case Option.bind (strictObject [''audiences'', ''documentTypes''] raw) (\<lambda>ps.
        Option.bind (parseArray parseAudience ps ''audiences'') (\<lambda>as.
        Option.bind (parseArray parseDocumentType ps ''documentTypes'') (\<lambda>ds.
        Some \<lparr>lec_audiences = as, lec_documentTypes = ds\<rparr>)))
     of None \<Rightarrow> Inl OtherError | Some cfg \<Rightarrow> Inr cfg)"

section \<open>Reconciliation\<close>

record ReconcileCounts =
  rc_created :: nat
  rc_updated :: nat
  rc_kept :: nat
  rc_deleted :: nat

definition noCounts :: ReconcileCounts where
  "noCounts = \<lparr>rc_created = 0, rc_updated = 0, rc_kept = 0, rc_deleted = 0\<rparr>"

definition audienceChanged :: "Audience \<Rightarrow> ConfigAudience \<Rightarrow> bool" where
  "audienceChanged existing entry \<longleftrightarrow> au_name existing \<noteq> ca_name entry"

definition upsertAudience :: "env \<Rightarrow> ReconcileCounts \<Rightarrow> ConfigAudience \<Rightarrow> ReconcileCounts M" where
  "upsertAudience E counts entry =
    bindM (audiences_findByKey (ca_key entry)) (\<lambda>existing.
    case existing of
      None \<Rightarrow>
        bindM (newId E ''aud'') (\<lambda>audId.
        thenM (audiences_save \<lparr>au_id = audId, au_key = ca_key entry, au_name = ca_name entry\<rparr>)
          (retM (counts\<lparr>rc_created := rc_created counts + 1\<rparr>)))
    | Some a \<Rightarrow>
        if audienceChanged a entry
        then thenM (audiences_save (a\<lparr>au_name := ca_name entry\<rparr>))
          (retM (counts\<lparr>rc_updated := rc_updated counts + 1\<rparr>))
        else retM counts)"

definition pruneAudience :: "string list \<Rightarrow> ReconcileCounts \<Rightarrow> Audience \<Rightarrow> ReconcileCounts M" where
  "pruneAudience configuredKeys counts existing =
    (if au_key existing \<in> set configuredKeys then retM counts
     else bindM (audiences_deleteIfUnused (au_key existing)) (\<lambda>deleted.
       retM (if deleted then counts\<lparr>rc_deleted := rc_deleted counts + 1\<rparr>
             else counts\<lparr>rc_kept := rc_kept counts + 1\<rparr>)))"

definition reconcileAudiences :: "env \<Rightarrow> ConfigAudience list \<Rightarrow> ReconcileCounts M" where
  "reconcileAudiences E configured =
    bindM (foldM (upsertAudience E) noCounts configured) (\<lambda>counts.
    bindM audiences_findAll (\<lambda>stored.
    foldM (pruneAudience (map ca_key configured)) counts stored))"

definition documentTypeChanged :: "DocumentTypeDef \<Rightarrow> ConfigDocumentType \<Rightarrow> bool" where
  "documentTypeChanged existing entry \<longleftrightarrow>
     dt_name existing \<noteq> cdt_name entry
     \<or> orElse (dt_external existing) False \<noteq> cdt_external entry
     \<or> dt_notificationTemplateId existing \<noteq> cdt_notificationTemplateId entry
     \<or> dt_reminderTemplateId existing \<noteq> cdt_reminderTemplateId entry
     \<or> dt_acceptanceConfirmationTemplateId existing \<noteq> cdt_acceptanceConfirmationTemplateId entry"

definition toDocumentType :: "env \<Rightarrow> ConfigDocumentType \<Rightarrow> DocumentTypeDef option \<Rightarrow> DocumentTypeDef M" where
  "toDocumentType E entry existing =
    bindM (case existing of Some t \<Rightarrow> retM (dt_id t) | None \<Rightarrow> newId E ''dt'') (\<lambda>dtId.
    retM \<lparr>dt_id = dtId, dt_key = cdt_key entry, dt_name = cdt_name entry,
          dt_notificationTemplateId = cdt_notificationTemplateId entry,
          dt_reminderTemplateId = cdt_reminderTemplateId entry,
          dt_acceptanceConfirmationTemplateId = cdt_acceptanceConfirmationTemplateId entry,
          dt_external = Some (cdt_external entry)\<rparr>)"

definition upsertDocumentType :: "env \<Rightarrow> ReconcileCounts \<Rightarrow> ConfigDocumentType \<Rightarrow> ReconcileCounts M" where
  "upsertDocumentType E counts entry =
    bindM (documentTypes_findByKey (cdt_key entry)) (\<lambda>existing.
    bindM (toDocumentType E entry existing) (\<lambda>desired.
    case existing of
      None \<Rightarrow> thenM (documentTypes_save desired) (retM (counts\<lparr>rc_created := rc_created counts + 1\<rparr>))
    | Some t \<Rightarrow>
        if documentTypeChanged t entry
        then thenM (documentTypes_save desired) (retM (counts\<lparr>rc_updated := rc_updated counts + 1\<rparr>))
        else retM counts))"

definition pruneDocumentType :: "string list \<Rightarrow> ReconcileCounts \<Rightarrow> DocumentTypeDef \<Rightarrow> ReconcileCounts M" where
  "pruneDocumentType configuredKeys counts existing =
    (if dt_key existing \<in> set configuredKeys then retM counts
     else bindM (documentTypes_deleteIfUnused (dt_key existing)) (\<lambda>deleted.
       retM (if deleted then counts\<lparr>rc_deleted := rc_deleted counts + 1\<rparr>
             else counts\<lparr>rc_kept := rc_kept counts + 1\<rparr>)))"

definition reconcileDocumentTypes :: "env \<Rightarrow> ConfigDocumentType list \<Rightarrow> ReconcileCounts M" where
  "reconcileDocumentTypes E configured =
    bindM (foldM (upsertDocumentType E) noCounts configured) (\<lambda>counts.
    bindM documentTypes_findAll (\<lambda>stored.
    foldM (pruneDocumentType (map cdt_key configured)) counts stored))"

definition reconcile :: "env \<Rightarrow> LegalEntitiesConfig \<Rightarrow> (ReconcileCounts \<times> ReconcileCounts) M" where
  "reconcile E cfg =
    bindM (reconcileAudiences E (lec_audiences cfg)) (\<lambda>audiences.
    bindM (reconcileDocumentTypes E (lec_documentTypes cfg)) (\<lambda>documentTypes.
    retM (audiences, documentTypes)))"

definition legalEntities_boot :: "env \<Rightarrow> meta \<Rightarrow> unit M" where
  "legalEntities_boot E raw =
    bindM (liftR (parseLegalEntitiesConfig raw)) (\<lambda>cfg. thenM (reconcile E cfg) (retM ()))"

end
