(* ===== verification/Admin.thy ===== *)
theory Admin
  imports Customers Consent Email_Template
begin

text \<open>
  The administration (\<open>src/src/admin\<close>): manual recording of acceptances, operations on rollout states,
  the catalogue (audiences, document types, e-mail templates) with its audit trail, and the read
  services (history, dashboard, customers of a version).  A raw JSON body is a list of its properties;
  a \<open>Date\<close> in a metadata record is the number of its milliseconds.
\<close>

text \<open>\<open>audit.append({ id: newId('audit'), ..., createdAt: clock.now() })\<close>.\<close>

definition appendAudit ::
  "env \<Rightarrow> AdminAuditAction \<Rightarrow> string \<Rightarrow> string \<Rightarrow> string \<Rightarrow> string option \<Rightarrow> (string \<times> meta) list option \<Rightarrow> unit M" where
  "appendAudit E action actor targetType targetId reason metadata =
    bindM (newId E ''audit'') (\<lambda>auditId.
    bindM clock_now (\<lambda>now.
    thenM (audit_append
      \<lparr>aud_id = auditId, aud_action = action, aud_actor = actor, aud_targetType = targetType,
       aud_targetId = targetId, aud_reason = reason, aud_metadata = metadata, aud_createdAt = now\<rparr>)
    (retM ())))"

text \<open>The literal of an administration event.\<close>

definition adminEvent :: "EventType \<Rightarrow> string \<Rightarrow> string \<Rightarrow> (string \<times> meta) list \<Rightarrow> DomainEvent" where
  "adminEvent type actor summary metadata =
    (newEvent type ADMINISTRATION AkADMIN actor summary)\<lparr>ev_metadata := Some metadata\<rparr>"

section \<open>ManualAcceptanceService\<close>

record ManualAcceptanceInput =
  mai_versionId :: string
  mai_method :: AcceptanceMethod
  mai_reason :: string
  mai_evidenceDocument :: "PdfUpload option"

record ManualAcceptanceResult =
  mar_acceptanceId :: string
  mar_state :: CustomerVersionStateValue

definition manualAcceptance ::
  "string \<Rightarrow> string \<Rightarrow> AgreementVersion \<Rightarrow> AcceptanceMethod \<Rightarrow> Actor \<Rightarrow> Date \<Rightarrow> Acceptance result" where
  "manualAcceptance acceptanceId customerId version method adminActor at =
    bindR (if method = ACTIVE_CONSENT \<and> v_consentText version \<noteq> None
        then bindR (consentTextHashFor version) (\<lambda>h. Inr (Some h)) else Inr None)
      (\<lambda>hash. Inr
        \<lparr>a_id = acceptanceId, a_customerId = customerId, a_versionId = v_id version, a_method = method,
         a_channel = ChADMIN, a_acceptedAt = at, a_actor = adminActor, a_isEffective = True,
         a_supersededByAcceptanceId = None,
         a_consentText = (if method = ACTIVE_CONSENT then v_consentText version else None),
         a_consentTextHash = hash, a_contentHash = Some (v_contentHash version),
         a_ipAddress = None, a_userAgent = None, a_evidenceNote = None\<rparr>)"

definition stateForManual :: "env \<Rightarrow> string \<Rightarrow> string \<Rightarrow> CustomerVersionState M" where
  "stateForManual E customerId versionId =
    bindM (states_findByCustomerAndVersion customerId versionId) (\<lambda>existing.
    case existing of
      Some s \<Rightarrow> retM s
    | None \<Rightarrow> bindM (newId E ''cvs'') (\<lambda>cvsId. states_save (newState cvsId customerId versionId)))"

definition manual_record ::
  "env \<Rightarrow> FileStorage \<Rightarrow> confirmation \<Rightarrow> string \<Rightarrow> ManualAcceptanceInput \<Rightarrow> Actor \<Rightarrow> ManualAcceptanceResult M" where
  "manual_record E F conf customerId input adminActor =
    (if trim (mai_reason input) = [] then throwD INVALID_STATE
     else (case mai_evidenceDocument input of
       None \<Rightarrow> throwD INVALID_STATE
     | Some evidence \<Rightarrow>
    if pu_buffer evidence = [] then throwD INVALID_STATE
    else thenM (liftR (assertMethodChannelAllowed (mai_method input) ChADMIN))
    (bindM (bindM (customers_findById customerId) (requireD CUSTOMER_NOT_FOUND)) (\<lambda>customer.
    bindM (bindM (versions_findById (mai_versionId input)) (requireD VERSION_NOT_FOUND)) (\<lambda>version.
    bindM (bindM (documents_findById (v_documentId version)) (requireD INVALID_STATE)) (\<lambda>document.
    thenM (liftR (assertCustomerHasRole customer (d_audience document)))
    (bindM (pdf_store F evidence) (\<lambda>stored.
    bindM (stateForManual E customerId (v_id version)) (\<lambda>state.
    bindM (liftR (accept state (mai_method input))) (\<lambda>accepted.
    bindM (states_transition (cvs_id state) (cvs_state state) (cvs_state accepted) None) (\<lambda>transitioned.
    thenM (if transitioned = None then throwStaleStateError (cvs_id state) else retM ())
    (bindM (newId E ''a'') (\<lambda>acceptanceId.
    bindM clock_now (\<lambda>at.
    bindM (liftR (manualAcceptance acceptanceId customerId version (mai_method input) adminActor at)) (\<lambda>acceptance.
    bindM (acceptances_append acceptance) (\<lambda>saved.
    thenM (appendAudit E AUDIT_MANUAL_ACCEPTANCE (act_userId adminActor) ''Acceptance'' (a_id saved)
      (Some (mai_reason input))
      (Some [(''customerId'', MStr customerId), (''versionId'', MStr (v_id version)),
             (''method'', MStr (methodName (mai_method input))),
             (''evidenceStorageKey'', MStr (sp_storageKey stored))]))
    (thenM (recordEvent E
      ((newEvent MANUAL_ACCEPTANCE CONSENT AkADMIN (act_userId adminActor)
         (''Manual acceptance recorded for version '' @ v_versionLabel version @ '' '' @ emDash @ '' ''
           @ mai_reason input))
        \<lparr>ev_customerId := Some customerId, ev_customerName := Some (customerDisplayName customer),
         ev_versionId := Some (v_id version), ev_documentType := Some (d_type document),
         ev_audience := Some (d_audience document), ev_versionLabel := Some (v_versionLabel version),
         ev_channel := Some ''ADMIN'',
         ev_metadata := Some [(''method'', MStr (methodName (mai_method input))),
                              (''reason'', MStr (mai_reason input))]\<rparr>))
    (thenM (callConfirmation conf (version, acceptance))
    (retM \<lparr>mar_acceptanceId = a_id saved, mar_state = cvs_state accepted\<rparr>)))))))))))))))))))"

section \<open>CustomerVersionStateAdminService\<close>

record PatchStateInput =
  psi_deadlineAt :: "Date option"
  psi_suspendBlock :: bool
  psi_reopenObjection :: bool
  psi_reason :: string

definition requireState :: "string \<Rightarrow> CustomerVersionState M" where
  "requireState stateId = bindM (states_findById stateId) (requireD INVALID_STATE)"

definition patchedState :: "PatchStateInput \<Rightarrow> CustomerVersionState \<Rightarrow> CustomerVersionState result" where
  "patchedState input state =
    (if psi_reopenObjection input then
       (if cvs_state state \<noteq> OBJECTED then domainError INVALID_STATE
        else Inr (state\<lparr>cvs_state := NOTIFIED\<rparr>))
     else if psi_suspendBlock input then
       (if cvs_state state \<noteq> EXPIRED_BLOCKING then domainError INVALID_STATE
        else (case psi_deadlineAt input of
            None \<Rightarrow> domainError INVALID_STATE
          | Some t \<Rightarrow> Inr (state\<lparr>cvs_state := NOTIFIED, cvs_deadlineAt := Some t\<rparr>)))
     else (case psi_deadlineAt input of
         None \<Rightarrow> domainError INVALID_STATE
       | Some t \<Rightarrow> Inr (state\<lparr>cvs_deadlineAt := Some t\<rparr>)))"

definition state_patch :: "env \<Rightarrow> string \<Rightarrow> PatchStateInput \<Rightarrow> string \<Rightarrow> CustomerVersionState M" where
  "state_patch E stateId input adminUserId =
    (if trim (psi_reason input) = [] then throwD INVALID_STATE
     else bindM (requireState stateId) (\<lambda>state.
     bindM (liftR (patchedState input state)) (\<lambda>updated.
     bindM (states_save updated) (\<lambda>saved.
     thenM (appendAudit E CUSTOMER_VERSION_STATE_PATCH adminUserId ''CustomerVersionState'' stateId
       (Some (psi_reason input))
       (Some ((case psi_deadlineAt input of None \<Rightarrow> [] | Some t \<Rightarrow> [(''deadlineAt'', MInt t)])
         @ [(''suspendBlock'', MBool (psi_suspendBlock input)),
            (''reopenObjection'', MBool (psi_reopenObjection input))])))
     (thenM (recordEvent E
       ((adminEvent
          (if psi_reopenObjection input then OBJECTION_REOPENED
           else if psi_suspendBlock input then BLOCK_SUSPENDED else DEADLINE_EXTENDED)
          adminUserId
          ((if psi_reopenObjection input then ''Objection reset''
            else if psi_suspendBlock input then ''Block suspended'' else ''Deadline extended'')
           @ '' '' @ emDash @ '' '' @ psi_reason input)
          ((''reason'', MStr (psi_reason input))
           # (case psi_deadlineAt input of None \<Rightarrow> [] | Some t \<Rightarrow> [(''deadlineAt'', MStr (e_toISOString E t))])))
         \<lparr>ev_customerId := Some (cvs_customerId saved), ev_versionId := Some (cvs_versionId saved)\<rparr>))
     (retM saved))))))"

type_synonym remindNotifier = "Customer \<Rightarrow> CustomerVersionState \<Rightarrow> AgreementVersion \<Rightarrow> unit M"

definition state_remind :: "env \<Rightarrow> remindNotifier \<Rightarrow> string \<Rightarrow> string \<Rightarrow> CustomerVersionState M" where
  "state_remind E remind stateId adminUserId =
    bindM (requireState stateId) (\<lambda>state.
    bindM (bindM (versions_findById (cvs_versionId state)) (requireD VERSION_NOT_FOUND)) (\<lambda>version.
    bindM (bindM (customers_findById (cvs_customerId state)) (requireD CUSTOMER_NOT_FOUND)) (\<lambda>customer.
    thenM (remind customer state version)
    (bindM (states_save (state\<lparr>cvs_remindersSent := cvs_remindersSent state + 1\<rparr>)) (\<lambda>saved.
    thenM (appendAudit E REMIND adminUserId ''CustomerVersionState'' stateId None None)
    (thenM (recordEvent E
      ((newEvent REMINDER_TRIGGERED ADMINISTRATION AkADMIN adminUserId ''Reminder e-mail re-sent'')
        \<lparr>ev_customerId := Some (c_id customer), ev_customerName := Some (customerDisplayName customer),
         ev_versionId := Some (v_id version), ev_versionLabel := Some (v_versionLabel version)\<rparr>))
    (retM saved)))))))"

section \<open>The catalogue\<close>

type_synonym body = "(string \<times> meta) list"

definition hasProp :: "body \<Rightarrow> string \<Rightarrow> bool" where
  "hasProp body name \<longleftrightarrow> map_of body name \<noteq> None"

text \<open>\<open>typeof body.name === 'string' && body.name.trim() !== '' ? body.name : existing.name\<close>.\<close>

definition nameOr :: "body \<Rightarrow> string \<Rightarrow> string" where
  "nameOr body current =
    (case map_of body ''name'' of
       Some (MStr s) \<Rightarrow> if trim s \<noteq> [] then s else current
     | _ \<Rightarrow> current)"

definition quoted :: "string \<Rightarrow> string" where
  "quoted s = [CHR 0x22] @ s @ [CHR 0x22]"

subsection \<open>Audiences\<close>

definition audience_list :: "env \<Rightarrow> Audience list M" where
  "audience_list E = bindM audiences_findAll (\<lambda>all. retM (sort_key (\<lambda>a. e_collate E (au_key a)) all))"

definition audience_create :: "env \<Rightarrow> string \<Rightarrow> string \<Rightarrow> string \<Rightarrow> Audience M" where
  "audience_create E key name actor =
    (if trim name = [] then throwD INVALID_STATE
     else bindM (newId E ''aud'') (\<lambda>audId.
     bindM (audiences_save \<lparr>au_id = audId, au_key = key, au_name = name\<rparr>) (\<lambda>saved.
     thenM (appendAudit E AUDIENCE_CREATE actor ''Audience'' (au_id saved) None
       (Some [(''key'', MStr (au_key saved)), (''name'', MStr (au_name saved))]))
     (thenM (recordEvent E
       ((adminEvent AUDIENCE_CREATED actor (''Audience '' @ quoted (au_name saved) @ '' created'')
          [(''key'', MStr (au_key saved)), (''name'', MStr (au_name saved))])
         \<lparr>ev_audience := Some (au_key saved)\<rparr>))
     (retM saved)))))"

definition audience_byIdOrThrow :: "string \<Rightarrow> Audience M" where
  "audience_byIdOrThrow audienceId =
    bindM audiences_findAll (\<lambda>all. requireM NotFoundException (find (\<lambda>a. au_id a = audienceId) all))"

definition audience_update :: "env \<Rightarrow> string \<Rightarrow> body \<Rightarrow> string \<Rightarrow> Audience M" where
  "audience_update E audienceId body actor =
    (if hasProp body ''key'' then throwD INVALID_STATE
     else bindM (audience_byIdOrThrow audienceId) (\<lambda>existing.
     bindM (audiences_save (existing\<lparr>au_name := nameOr body (au_name existing)\<rparr>)) (\<lambda>updated.
     thenM (appendAudit E AUDIENCE_UPDATE actor ''Audience'' audienceId None
       (Some [(''name'', MStr (au_name updated))]))
     (thenM (recordEvent E
       ((adminEvent AUDIENCE_UPDATED actor (''Audience '' @ quoted (au_name updated) @ '' updated'')
          [(''name'', MStr (au_name updated))])
         \<lparr>ev_audience := Some (au_key updated)\<rparr>))
     (retM updated)))))"

definition audience_remove :: "env \<Rightarrow> string \<Rightarrow> string \<Rightarrow> unit M" where
  "audience_remove E audienceId actor =
    bindM (audience_byIdOrThrow audienceId) (\<lambda>existing.
    bindM (audiences_deleteIfUnused (au_key existing)) (\<lambda>deleted.
    if \<not> deleted then throwD INVALID_STATE
    else thenM (appendAudit E AUDIENCE_DELETE actor ''Audience'' audienceId None
        (Some [(''key'', MStr (au_key existing))]))
      (recordEvent E
        ((adminEvent AUDIENCE_DELETED actor (''Audience '' @ quoted (au_name existing) @ '' deleted'')
           [(''key'', MStr (au_key existing))])
          \<lparr>ev_audience := Some (au_key existing)\<rparr>))))"

subsection \<open>Document types\<close>

definition documentType_list :: "env \<Rightarrow> DocumentTypeDef list M" where
  "documentType_list E = bindM documentTypes_findAll (\<lambda>all. retM (sort_key (\<lambda>t. e_collate E (dt_key t)) all))"

definition documentType_create ::
  "env \<Rightarrow> string \<Rightarrow> string \<Rightarrow> bool option \<Rightarrow> string \<Rightarrow> DocumentTypeDef M" where
  "documentType_create E key name external actor =
    (if trim name = [] then throwD INVALID_STATE
     else bindM (newId E ''dt'') (\<lambda>dtId.
     bindM (documentTypes_save
       \<lparr>dt_id = dtId, dt_key = key, dt_name = name, dt_notificationTemplateId = None,
        dt_reminderTemplateId = None, dt_acceptanceConfirmationTemplateId = None,
        dt_external = Some (external = Some True)\<rparr>) (\<lambda>saved.
     (let metadata = [(''key'', MStr (dt_key saved)), (''name'', MStr (dt_name saved)),
                      (''external'', MBool (dt_external saved = Some True))] in
     thenM (appendAudit E DOCUMENT_TYPE_CREATE actor ''DocumentType'' (dt_id saved) None (Some metadata))
     (thenM (recordEvent E
       ((adminEvent DOCUMENT_TYPE_CREATED actor (''Document type '' @ quoted (dt_name saved) @ '' created'') metadata)
         \<lparr>ev_documentType := Some (dt_key saved)\<rparr>))
     (retM saved))))))"

definition documentType_byIdOrThrow :: "string \<Rightarrow> DocumentTypeDef M" where
  "documentType_byIdOrThrow dtId =
    bindM documentTypes_findAll (\<lambda>all. requireM NotFoundException (find (\<lambda>t. dt_id t = dtId) all))"

definition resolveAssignment :: "body \<Rightarrow> string \<Rightarrow> EmailTemplateKind \<Rightarrow> string option \<Rightarrow> string option M" where
  "resolveAssignment body field expectedKind current =
    (case map_of body field of
       None \<Rightarrow> retM current
     | Some MNull \<Rightarrow> retM None
     | Some (MStr value) \<Rightarrow>
        bindM (bindM (templates_findById value) (requireD INVALID_STATE)) (\<lambda>template.
        if et_kind template \<noteq> expectedKind then throwD INVALID_STATE else retM (Some value))
     | Some _ \<Rightarrow> throwD INVALID_STATE)"

definition orNull :: "string option \<Rightarrow> meta" where
  "orNull x = (case x of None \<Rightarrow> MNull | Some s \<Rightarrow> MStr s)"

definition documentType_update :: "env \<Rightarrow> string \<Rightarrow> body \<Rightarrow> string \<Rightarrow> DocumentTypeDef M" where
  "documentType_update E dtId body actor =
    (if hasProp body ''key'' then throwD INVALID_STATE
     else if hasProp body ''external'' then throwD INVALID_STATE
     else bindM (documentType_byIdOrThrow dtId) (\<lambda>existing.
     bindM (resolveAssignment body ''notificationTemplateId'' VERSION_NOTIFICATION
       (dt_notificationTemplateId existing)) (\<lambda>notificationTemplateId.
     bindM (resolveAssignment body ''reminderTemplateId'' REMINDER
       (dt_reminderTemplateId existing)) (\<lambda>reminderTemplateId.
     bindM (resolveAssignment body ''acceptanceConfirmationTemplateId'' ACCEPTANCE_CONFIRMATION
       (dt_acceptanceConfirmationTemplateId existing)) (\<lambda>confirmationTemplateId.
     bindM (documentTypes_save (existing
       \<lparr>dt_name := nameOr body (dt_name existing), dt_notificationTemplateId := notificationTemplateId,
        dt_reminderTemplateId := reminderTemplateId,
        dt_acceptanceConfirmationTemplateId := confirmationTemplateId\<rparr>)) (\<lambda>updated.
     thenM (appendAudit E DOCUMENT_TYPE_UPDATE actor ''DocumentType'' dtId None
       (Some [(''name'', MStr (dt_name updated)),
              (''notificationTemplateId'', orNull (dt_notificationTemplateId updated)),
              (''reminderTemplateId'', orNull (dt_reminderTemplateId updated)),
              (''acceptanceConfirmationTemplateId'', orNull (dt_acceptanceConfirmationTemplateId updated))]))
     (thenM (recordEvent E
       ((adminEvent DOCUMENT_TYPE_UPDATED actor (''Document type '' @ quoted (dt_name updated) @ '' updated'')
          [(''name'', MStr (dt_name updated))])
         \<lparr>ev_documentType := Some (dt_key updated)\<rparr>))
     (retM updated))))))))"

definition documentType_remove :: "env \<Rightarrow> string \<Rightarrow> string \<Rightarrow> unit M" where
  "documentType_remove E dtId actor =
    bindM (documentType_byIdOrThrow dtId) (\<lambda>existing.
    bindM (documentTypes_deleteIfUnused (dt_key existing)) (\<lambda>deleted.
    if \<not> deleted then throwD INVALID_STATE
    else thenM (appendAudit E DOCUMENT_TYPE_DELETE actor ''DocumentType'' dtId None
        (Some [(''key'', MStr (dt_key existing))]))
      (recordEvent E
        ((adminEvent DOCUMENT_TYPE_DELETED actor (''Document type '' @ quoted (dt_name existing) @ '' deleted'')
           [(''key'', MStr (dt_key existing))])
          \<lparr>ev_documentType := Some (dt_key existing)\<rparr>))))"

subsection \<open>E-mail templates\<close>

record CreateEmailTemplateInput =
  cet_name :: string
  cet_kind :: EmailTemplateKind
  cet_subject :: string
  cet_design :: string
  cet_html :: string

record UpdateEmailTemplateInput =
  uet_name :: "string option"
  uet_kind :: "EmailTemplateKind option"
  uet_subject :: "string option"
  uet_design :: "string option"
  uet_html :: "string option"

record EmailTemplateView = EmailTemplate +
  etv_isDefault :: bool

definition templateView :: "EmailTemplate \<Rightarrow> EmailTemplateView" where
  "templateView t = EmailTemplate.extend t \<lparr>etv_isDefault = isDefaultEmailTemplateId (et_id t)\<rparr>"

fun kindName :: "EmailTemplateKind \<Rightarrow> string" where
  "kindName VERSION_NOTIFICATION = ''VERSION_NOTIFICATION''"
| "kindName REMINDER = ''REMINDER''"
| "kindName ACCEPTANCE_CONFIRMATION = ''ACCEPTANCE_CONFIRMATION''"

definition template_list :: "env \<Rightarrow> EmailTemplateView list M" where
  "template_list E = bindM templates_findAll (\<lambda>all.
    retM (sort_key (\<lambda>t. e_collate E (et_name t)) (map templateView all)))"

definition templateMeta :: "EmailTemplate \<Rightarrow> (string \<times> meta) list" where
  "templateMeta t = [(''name'', MStr (et_name t)), (''kind'', MStr (kindName (et_kind t)))]"

definition template_create :: "env \<Rightarrow> CreateEmailTemplateInput \<Rightarrow> string \<Rightarrow> EmailTemplateView M" where
  "template_create E input actor =
    bindM clock_now (\<lambda>now.
    bindM (newId E ''tpl'') (\<lambda>tplId.
    bindM (templates_save
      \<lparr>et_id = tplId, et_name = cet_name input, et_kind = cet_kind input, et_subject = cet_subject input,
       et_design = cet_design input, et_html = cet_html input, et_createdAt = now, et_updatedAt = now\<rparr>) (\<lambda>saved.
    thenM (appendAudit E EMAIL_TEMPLATE_CREATE actor ''EmailTemplate'' (et_id saved) None
      (Some (templateMeta saved)))
    (thenM (recordEvent E
      (adminEvent EMAIL_TEMPLATE_CREATED actor (''E-mail template '' @ quoted (et_name saved) @ '' created'')
        ((''templateId'', MStr (et_id saved)) # templateMeta saved)))
    (retM (templateView saved))))))"

definition template_byIdOrThrow :: "string \<Rightarrow> EmailTemplate M" where
  "template_byIdOrThrow tplId = bindM (templates_findById tplId) (requireM NotFoundException)"

definition template_update :: "env \<Rightarrow> string \<Rightarrow> UpdateEmailTemplateInput \<Rightarrow> string \<Rightarrow> EmailTemplateView M" where
  "template_update E tplId input actor =
    bindM (template_byIdOrThrow tplId) (\<lambda>existing.
    bindM clock_now (\<lambda>now.
    bindM (templates_save (existing
      \<lparr>et_name := orElse (uet_name input) (et_name existing),
       et_kind := orElse (uet_kind input) (et_kind existing),
       et_subject := orElse (uet_subject input) (et_subject existing),
       et_design := orElse (uet_design input) (et_design existing),
       et_html := orElse (uet_html input) (et_html existing), et_updatedAt := now\<rparr>)) (\<lambda>updated.
    thenM (appendAudit E EMAIL_TEMPLATE_UPDATE actor ''EmailTemplate'' tplId None (Some (templateMeta updated)))
    (thenM (recordEvent E
      (adminEvent EMAIL_TEMPLATE_UPDATED actor (''E-mail template '' @ quoted (et_name updated) @ '' updated'')
        ((''templateId'', MStr (et_id updated)) # templateMeta updated)))
    (retM (templateView updated))))))"

definition template_remove :: "env \<Rightarrow> string \<Rightarrow> string \<Rightarrow> unit M" where
  "template_remove E tplId actor =
    bindM (template_byIdOrThrow tplId) (\<lambda>existing.
    if isDefaultEmailTemplateId tplId then throwD INVALID_STATE
    else bindM (templates_deleteIfUnused tplId) (\<lambda>deleted.
    if \<not> deleted then throwD INVALID_STATE
    else thenM (appendAudit E EMAIL_TEMPLATE_DELETE actor ''EmailTemplate'' tplId None
        (Some [(''name'', MStr (et_name existing))]))
      (recordEvent E
        (adminEvent EMAIL_TEMPLATE_DELETED actor (''E-mail template '' @ quoted (et_name existing) @ '' deleted'')
          [(''templateId'', MStr tplId), (''name'', MStr (et_name existing))]))))"

end
