(* ===== verification/Frames.thy ===== *)
theory Frames
  imports Accept_Page Signed_Documents Legal_Entities Areas Sweepers Admin Publish
begin

text \<open>
  Which tables each operation of the program may change (\<open>modifies\<close> of \<open>Areas\<close>), one lemma for each
  operation; the invariants of the system then need a proof only for the operations that touch the
  tables they speak of.
\<close>

section \<open>The operations\<close>

lemma modifies_randomBytes [modifies_intros]: "modifies T (randomBytes E)"
  by (simp add: modifies_def randomBytes_def change_writes)

lemma modifies_rateLimiter [modifies_intros]: "HitArea \<in> T \<Longrightarrow> modifies T (rateLimiter_allow limit win k)"
  unfolding rateLimiter_allow_def Let_def by (intro modifies_intros modifies_modify change_writes; assumption)

subsection \<open>Consent\<close>

lemma modifies_awaitReplay [modifies_intros]: "modifies T (awaitReplay k)"
proof -
  have "modifies T (awaitReplayLoop n k)" for n
    by (induction n) (auto intro!: modifies_intros)
  then show ?thesis by (simp add: awaitReplay_def)
qed

lemma modifies_stale [modifies_intros]: "modifies T (throwStaleStateError k)"
  unfolding throwStaleStateError_def by (intro modifies_intros)

lemma modifies_accept [modifies_intros]:
  assumes "{StateArea, AcceptanceLog, IdempotencyArea, EventLog} \<subseteq> T" "\<And>x. modifies T (callConfirmation conf x)"
  shows "modifies T (acceptance_accept E conf input)"
  unfolding acceptance_accept_def acceptance_process_def acceptance_write_def Let_def
  using assms by (intro modifies_intros) auto

lemma modifies_notify [modifies_intros]:
  assumes "{StateArea, NotificationLog, EventLog} \<subseteq> T"
  shows "modifies T (notification_notify E input)"
  unfolding notification_notify_def assessPlausibility_def Let_def
  using assms by (intro modifies_intros) auto

lemma modifies_object [modifies_intros]:
  assumes "{StateArea, ObjectionLog, IdempotencyArea, EventLog, EscalationLog} \<subseteq> T"
    and "\<And>n. modifies T (callNotifier notify n)"
  shows "modifies T (objection_object E notify input)"
  unfolding objection_object_def recordLateObjection_def Let_def
  using assms by (intro modifies_intros) auto

subsection \<open>Agreements\<close>

lemma modifies_document_create [modifies_intros]:
  "{DocumentArea, EventLog} \<subseteq> T \<Longrightarrow> modifies T (document_create E input admin)"
  unfolding document_create_def by (intro modifies_intros) auto

lemma modifies_versions [modifies_intros]:
  assumes "{VersionArea, EventLog} \<subseteq> T"
  shows "filesOutside F \<Longrightarrow> modifies T (controller_createVersion E F toN fromB k body upl admin)"
    and "filesOutside F \<Longrightarrow> modifies T (controller_patchVersion E F toN fromB k patch upl admin)"
    and "modifies T (deleteDraft E k admin)"
  unfolding controller_createVersion_def createDraft_def controller_patchVersion_def patchDraft_def
    deleteDraft_def getVersion_def
  using assms by (intro modifies_intros; auto)+

lemma modifies_supersedeOpen [modifies_intros]: "StateArea \<in> T \<Longrightarrow> modifies T (supersedeOpen s)"
  unfolding supersedeOpen_def by (intro modifies_intros)

lemma modifies_publish [modifies_intros]:
  assumes "{VersionArea, StateArea, AuditLog, EventLog} \<subseteq> T"
  shows "modifies T (publish E k admin)"
  unfolding publish_def publish_retire_def retirePredecessor_def rolloutOne_def Let_def
  using assms by (intro modifies_intros) auto

subsection \<open>Jobs\<close>

lemma modifies_activation [modifies_intros]:
  assumes "{VersionArea, StateArea, EventLog} \<subseteq> T"
  shows "modifies T (activation_run E)"
  unfolding activation_run_def activateOne_def activatePredecessor_def carryBlockOver_def
    recordBlockCarriedOver_def Let_def
  using assms by (intro modifies_intros) auto

lemma modifies_deadline [modifies_intros]:
  assumes "{StateArea, AcceptanceLog, EventLog} \<subseteq> T" "\<And>x. modifies T (callConfirmation conf x)"
  shows "modifies T (deadline_run E conf)"
  unfolding deadline_run_def sweepOne_def Let_def
  using assms by (intro modifies_intros) auto

lemma modifies_remindLoop:
  assumes "\<And>c r v d. modifies T (mailer c r v d)"
  shows "modifies T (remindLoop mailer candidate d now n)"
  using assms
proof (induction mailer candidate d now n rule: remindLoop.induct)
  case (1 mailer candidate d now n)
  then show ?case by (subst remindLoop.simps) (auto intro!: modifies_intros)
qed

lemma modifies_reminders [modifies_intros]:
  assumes "StateArea \<in> T" "\<And>c r v d. modifies T (mailer c r v d)"
  shows "modifies T (reminder_run mailer)"
  unfolding reminder_run_def reminders_findDue_def candidateOf_def resolveRecipient_def remindOne_def Let_def
  using assms by (intro modifies_intros modifies_remindLoop) auto

lemma modifies_rolloutMails [modifies_intros]:
  assumes "StateArea \<in> T" "\<And>c v. modifies T (notifier c v)"
  shows "modifies T (rolloutNotification_run disabled notifier n)"
proof -
  have one: "modifies T (rolloutNotifyOne notifier cache s)" for cache s
    unfolding rolloutNotifyOne_def
    using assms by (auto intro!: modifies_intros split: option.split)
  show ?thesis
    unfolding rolloutNotification_run_def by (intro modifies_intros one)
qed

subsection \<open>Customers\<close>

lemma modifies_checks [modifies_intros]:
  "modifies T (assertRolesKnown roles)" "modifies T (assertEmailsValid emails)"
  "modifies T (assertExternalRefUniqueForRoles ref roles excluded)" "modifies T (customer_validate input)"
  unfolding customer_validate_def assertRolesKnown_def assertEmailsValid_def
    assertExternalRefUniqueForRoles_def validateImports_def validateImport_def resolveSignedDocuments_def
    resolveSignedType_def resolveForRole_def resolveEffectiveVersionAt_def split_def
  by (intro modifies_intros)+

abbreviation onboardAreas :: "area set" where
  "onboardAreas \<equiv> {StateArea, AcceptanceLog, AuditLog, EventLog}"

lemma modifies_rolloutCurrent [modifies_intros]:
  assumes "{StateArea, EventLog} \<subseteq> T" "\<And>c v. modifies T (notifier c v)"
  shows "modifies T (rolloutCurrentVersions E notifier c roles kind label)"
  unfolding rolloutCurrentVersions_def onboardDocument_def rolloutVersions_def onboardVersion_def notifyRolledOut_def
  using assms by (intro modifies_intros) auto

lemma modifies_import [modifies_intros]:
  "{StateArea, AcceptanceLog, EventLog} \<subseteq> T \<Longrightarrow> modifies T (importAcceptance E k item actor)"
  unfolding importAcceptance_def Let_def by (intro modifies_intros) auto

lemma modifies_onboard [modifies_intros]:
  assumes "onboardAreas \<subseteq> T" "\<And>c v. modifies T (notifier c v)"
  shows "modifies T (customer_onboard E notifier vs actor source c)"
    and "modifies T (customer_updated E notifier k added actor source c)"
  unfolding customer_onboard_def customer_updated_def using assms by (intro modifies_intros; auto)+

lemma modifies_customers [modifies_intros]:
  assumes "insert CustomerArea onboardAreas \<subseteq> T" "\<And>c v. modifies T (notifier c v)"
  shows "modifies T (customer_create E notifier input actor source)"
    and "modifies T (customer_update E notifier k changes actor source)"
  unfolding customer_create_def customer_update_def customer_checkUpdate_def
  using assms by (intro modifies_intros; auto)+

lemma modifies_push [modifies_intros]:
  assumes "insert CustomerArea onboardAreas \<subseteq> T" "\<And>c v. modifies T (notifier c v)"
  shows "modifies T (upsertByExternalRef E notifier pushed actor)"
  unfolding upsertByExternalRef_def resolveByExternalRefAndRoles_def reactivateByExternalRef_def Let_def
  using assms by (intro modifies_intros) auto

lemma modifies_deactivate [modifies_intros]:
  "{CustomerArea, EventLog} \<subseteq> T \<Longrightarrow> modifies T (deactivateByExternalRef E ref aud actor)"
  unfolding deactivateByExternalRef_def by (intro modifies_intros) auto

lemma modifies_signed [modifies_intros]:
  "{SignedArea, AuditLog, EventLog} \<subseteq> T \<Longrightarrow> filesOutside F \<Longrightarrow> modifies T (signed_upload E F k input actor audit)"
  unfolding signed_upload_def signedDto_def by (intro modifies_intros modifies_provider) auto

subsection \<open>Administration\<close>

lemma modifies_appendAudit [modifies_intros]:
  "AuditLog \<in> T \<Longrightarrow> modifies T (appendAudit E action actor ty k reason m)"
  unfolding appendAudit_def by (intro modifies_intros)

lemma modifies_manual [modifies_intros]:
  assumes "onboardAreas \<subseteq> T" "filesOutside F" "\<And>x. modifies T (callConfirmation conf x)"
  shows "modifies T (manual_record E F conf k input actor)"
  unfolding manual_record_def stateForManual_def
  using assms by (intro modifies_intros) auto

lemma modifies_stateAdmin [modifies_intros]:
  assumes "{StateArea, AuditLog, EventLog} \<subseteq> T"
  shows "modifies T (state_patch E k patch admin)"
    and "(\<And>c s v. modifies T (remind c s v)) \<Longrightarrow> modifies T (state_remind E remind k admin)"
  unfolding state_patch_def state_remind_def requireState_def using assms by (intro modifies_intros; auto)+

lemma modifies_audienceAdmin [modifies_intros]:
  assumes "{AudienceArea, AuditLog, EventLog} \<subseteq> T"
  shows "modifies T (audience_create E k n admin)" "modifies T (audience_update E k body admin)"
    "modifies T (audience_remove E k admin)"
  unfolding audience_create_def audience_update_def audience_remove_def audience_byIdOrThrow_def
  using assms by (intro modifies_intros; auto)+

lemma modifies_resolveAssignment [modifies_intros]: "modifies T (resolveAssignment body field kind current)"
proof (cases "map_of body field")
  case (Some x)
  then show ?thesis unfolding resolveAssignment_def by (cases x) (auto intro!: modifies_intros)
qed (simp add: resolveAssignment_def modifies_basic)

lemma modifies_typeAdmin [modifies_intros]:
  assumes "{TypeArea, AuditLog, EventLog} \<subseteq> T"
  shows "modifies T (documentType_create E k n ext admin)" "modifies T (documentType_update E k body admin)"
    "modifies T (documentType_remove E k admin)"
  unfolding documentType_create_def documentType_update_def documentType_remove_def documentType_byIdOrThrow_def
    Let_def
  using assms by (intro modifies_intros; auto)+

lemma modifies_templateAdmin [modifies_intros]:
  assumes "{TemplateArea, AuditLog, EventLog} \<subseteq> T"
  shows "modifies T (template_create E ct admin)" "modifies T (template_update E k ut admin)"
    "modifies T (template_remove E k admin)"
  unfolding template_create_def template_update_def template_remove_def template_byIdOrThrow_def
  using assms by (intro modifies_intros; auto)+

lemma modifies_reconcile [modifies_intros]:
  "{AudienceArea, TypeArea} \<subseteq> T \<Longrightarrow> modifies T (legalEntities_boot E raw)"
  unfolding legalEntities_boot_def reconcile_def reconcileAudiences_def reconcileDocumentTypes_def
    upsertAudience_def pruneAudience_def upsertDocumentType_def pruneDocumentType_def toDocumentType_def
  by (intro modifies_intros) auto

subsection \<open>The hosted page and deliveries\<close>

lemma modifies_link_create [modifies_intros]:
  "{LinkArea, AuditLog, EventLog} \<subseteq> T \<Longrightarrow> modifies T (link_create E k l admin)"
  unfolding link_create_def Let_def by (intro modifies_intros) auto

lemma modifies_resolveLink [modifies_intros]:
  "modifies T (resolveUsableLink token)" "modifies T (assertVersionInLinkScope link k)"
  "modifies T (orRandomKey E key)" "HitArea \<in> T \<Longrightarrow> modifies T (assertWithinRateLimit token)"
  unfolding resolveUsableLink_def assertVersionInLinkScope_def orRandomKey_def assertWithinRateLimit_def
  by (intro modifies_intros; simp)+

lemma modifies_pending [modifies_intros]:
  assumes "\<And>k. modifies T (pdfUrl k)"
  shows "modifies T (getPendingAgreements pdfUrl cid aud)"
proof -
  have item: "modifies T (pendingForVersion pdfUrl cid d items e)" for d items e
    unfolding pendingForVersion_def split_def using assms by (intro modifies_intros)
  show ?thesis
    unfolding getPendingAgreements_def pendingForDocument_def resolveAudienceKey_def
    by (intro modifies_intros item)
qed

lemma modifies_page_get [modifies_intros]:
  assumes "{StateArea, NotificationLog, EventLog, LinkArea, HitArea} \<subseteq> T" "\<And>k. modifies T (pdfUrl k)"
  shows "modifies T (page_get E pdfUrl token)"
  unfolding page_get_def loadPage_def pageItem_def using assms by (intro modifies_intros) auto

lemma modifies_page_accept [modifies_intros]:
  assumes "{StateArea, AcceptanceLog, IdempotencyArea, EventLog, LinkArea, HitArea} \<subseteq> T"
    and "\<And>x. modifies T (callConfirmation conf x)"
  shows "modifies T (page_postAcceptance E conf token acc)"
  unfolding page_postAcceptance_def page_accept_def Let_def using assms by (intro modifies_intros) auto

lemma modifies_page_object [modifies_intros]:
  assumes "{StateArea, ObjectionLog, IdempotencyArea, EventLog, EscalationLog, LinkArea, HitArea} \<subseteq> T"
    and "\<And>n. modifies T (callNotifier notify n)"
  shows "modifies T (page_postObjection E notify token obj)"
  unfolding page_postObjection_def page_object_def Let_def using assms by (intro modifies_intros) auto

lemma modifies_delivery [modifies_intros]:
  assumes "{StateArea, NotificationLog, EventLog, OutboundArea} \<subseteq> T"
  shows "modifies T (recordDelivery E ref)" and "EscalationLog \<in> T \<Longrightarrow> modifies T (delivery_handle E ide)"
    and "mailOutside P \<Longrightarrow> modifies T (pollPendingDeliveries E P older)"
  unfolding delivery_handle_def recordBounce_def pollPendingDeliveries_def recordDelivery_def Let_def
  using assms by (intro modifies_intros modifies_provider; auto)+

lemma modifies_integration [modifies_intros]:
  shows "{StateArea, AcceptanceLog, IdempotencyArea, EventLog} \<subseteq> T \<Longrightarrow> (\<And>x. modifies T (callConfirmation conf x)) \<Longrightarrow>
      modifies T (controller_accept E conf sel iab key req)"
    and "{StateArea, ObjectionLog, IdempotencyArea, EventLog, EscalationLog} \<subseteq> T \<Longrightarrow>
      (\<And>n. modifies T (callNotifier notify n)) \<Longrightarrow> modifies T (controller_object E notify sel ob key req)"
    and "{StateArea, NotificationLog, EventLog} \<subseteq> T \<Longrightarrow> modifies T (controller_notify E sel nb req)"
  unfolding controller_accept_def controller_object_def controller_notify_def resolveIntegrationCustomer_def
    resolveAudienceKey_def Let_def
  by (intro modifies_intros; assumption?)+

end
