(* ===== verification/Publish_Facts.thy ===== *)
theory Publish_Facts
  imports Publish Consent_Facts Event_Line Frames
begin

text \<open>
  What a publish does, completely: the version becomes PUBLISHED, at once effective predecessors are
  RETIRED and their open states SUPERSEDED, every customer with the role gets one new state, which
  carries a block over.  The rows of the tables are described by maps over the old rows
  (\<open>retireRow\<close>, \<open>closeRow\<close>) and the appended new rows; \<open>consentInv_rows\<close> shows that such a rewrite of
  the state table keeps the consent invariant.
\<close>

section \<open>Rewriting the state table\<close>

definition isOpen :: "CustomerVersionState \<Rightarrow> bool" where
  "isOpen s \<longleftrightarrow> cvs_state s \<in> set REPO_OPEN_STATES"

lemma isOpen_iff: "isOpen s \<longleftrightarrow> cvs_state s \<noteq> ACCEPTED \<and> cvs_state s \<noteq> SUPERSEDED"
  by (cases "cvs_state s") (simp_all add: isOpen_def REPO_OPEN_STATES_def)

text \<open>The open states of the given versions are closed.\<close>

definition closeRow :: "string list \<Rightarrow> CustomerVersionState \<Rightarrow> CustomerVersionState" where
  "closeRow ids s = (if cvs_versionId s \<in> set ids \<and> isOpen s then s\<lparr>cvs_state := SUPERSEDED\<rparr> else s)"

definition retireRow :: "string list \<Rightarrow> AgreementVersion \<Rightarrow> AgreementVersion" where
  "retireRow ids v = (if v_id v \<in> set ids then v\<lparr>v_status := RETIRED\<rparr> else v)"

lemma closeRow_samePair: "samePair s (closeRow ids s)"
  by (simp add: closeRow_def samePair_def)

lemma closeRow_key [simp]:
  "cvs_id (closeRow ids s) = cvs_id s" "cvs_customerId (closeRow ids s) = cvs_customerId s"
  "cvs_versionId (closeRow ids s) = cvs_versionId s"
  by (simp_all add: closeRow_def)

lemma closeRow_accepted [simp]: "cvs_state (closeRow ids s) = ACCEPTED \<longleftrightarrow> cvs_state s = ACCEPTED"
  by (auto simp: closeRow_def isOpen_iff)

lemma closeRow_Nil [simp]: "closeRow [] = (\<lambda>s. s)"
  by (simp add: closeRow_def fun_eq_iff)

lemma closeRow_closeRow: "closeRow [i] (closeRow ids s) = closeRow (ids @ [i]) s"
  by (auto simp: closeRow_def isOpen_iff)

lemma retireRow_simps [simp]:
  "v_id (retireRow ids v) = v_id v" "v_documentId (retireRow ids v) = v_documentId v"
  "retireRow [] = (\<lambda>v. v)"
  by (simp_all add: retireRow_def fun_eq_iff)

lemma retireRow_retireRow: "retireRow [i] (retireRow ids v) = retireRow (ids @ [i]) v"
  by (auto simp: retireRow_def)

lemma stateFor_map:
  "(\<And>s. s \<in> set ss \<Longrightarrow> samePair s (f s)) \<Longrightarrow> stateFor (map f ss) c v = map_option f (stateFor ss c v)"
  unfolding stateFor_def by (induction ss) (auto simp: samePair_def)

lemma stateFor_append_list:
  "stateFor (ss @ ts) c v = (case stateFor ss c v of None \<Rightarrow> stateFor ts c v | Some s \<Rightarrow> Some s)"
  by (induction ss) (auto simp: stateFor_def)

text \<open>Rows may be rewritten under their key without leaving or entering ACCEPTED, and rows that are
  not ACCEPTED may be appended under new drawn ids.\<close>

lemma consentInv_rows:
  assumes inv: "consentInv E w"
    and st: "w_states w' = mapRows f (w_states w) @ new"
    and f: "\<And>s. samePair s (f s)" "\<And>s. cvs_state (f s) = ACCEPTED \<longleftrightarrow> cvs_state s = ACCEPTED"
    and wf: "wf_table cvs_id (w_states w')" "fst ` set new \<subseteq> drawnIds E [''cvs-''] (w_uuid w')"
    and new: "\<And>s. s \<in> set (tvals new) \<Longrightarrow> cvs_state s \<noteq> ACCEPTED"
    and acc: "w_acceptances w' = w_acceptances w" "w_uuid w \<le> w_uuid w'"
  shows "consentInv E w'"
proof -
  have vals: "tvals (w_states w') = map f (tvals (w_states w)) @ tvals new"
    by (simp add: st tvals_def mapRows_def split_def)
  have found: "accepted (stateFor (tvals (w_states w')) c v)" if "accepted (stateFor (tvals (w_states w)) c v)" for c v
    using that f by (auto simp: vals stateFor_append_list stateFor_map accepted_def)
  have "effectiveFor (w_acceptances w) (cvs_customerId s) (cvs_versionId s) \<noteq> None"
    if "s \<in> set (tvals (w_states w'))" "cvs_state s = ACCEPTED" for s
  proof -
    from that new obtain t where "t \<in> set (tvals (w_states w))" "s = f t" by (auto simp: vals)
    with that f inv show ?thesis unfolding consentInv_def samePair_def by metis
  qed
  moreover have "fst ` set (w_states w') \<subseteq> drawnIds E [''cvs-''] (w_uuid w')"
  proof -
    have "fst ` set (mapRows f (w_states w)) = fst ` set (w_states w)"
      by (metis keys_mapRows list.set_map)
    with inv wf(2) acc(2) show ?thesis
      using drawn_Suc[of "w_states w" E "[''cvs-'']" "w_uuid w" "w_uuid w'"]
      by (simp add: st consentInv_def image_Un)
  qed
  ultimately show ?thesis
    using inv wf acc found drawn_Suc[of "w_acceptances w" E "[''a-'', []]" "w_uuid w" "w_uuid w'"]
    by (simp add: consentInv_def)
qed

section \<open>Superseding the open states of a version\<close>

lemma wp_supersedeOpen:
  "isOpen s \<Longrightarrow> wp (supersedeOpen s) Q X w =
     Q (cvs_state s = EXPIRED_BLOCKING)
       (w\<lparr>w_states := AList.update (cvs_id s) (s\<lparr>cvs_state := SUPERSEDED\<rparr>) (w_states w)\<rparr>)"
  by (simp add: supersedeOpen_def supersede_def isOpen_iff wp_simps)

abbreviation blockStep :: "CustomerVersionState \<Rightarrow> bool table \<Rightarrow> bool table" where
  "blockStep s blk \<equiv> (if cvs_state s = EXPIRED_BLOCKING then AList.update (cvs_customerId s) True blk else blk)"

lemma wp_supersedeLoop:
  assumes "\<And>s. s \<in> set L \<Longrightarrow> isOpen s"
  shows "wp (foldM (\<lambda>blocking s. bindM (supersedeOpen s) (\<lambda>b.
            retM (if b then AList.update (cvs_customerId s) True blocking else blocking))) blk L) Q X w
    = Q (fold blockStep L blk)
        (w\<lparr>w_states := fold (\<lambda>s. AList.update (cvs_id s) (s\<lparr>cvs_state := SUPERSEDED\<rparr>)) L (w_states w)\<rparr>)"
  using assms by (induction L arbitrary: blk w) (simp_all add: wp_simps wp_supersedeOpen)

abbreviation openOf :: "string \<Rightarrow> CustomerVersionState list \<Rightarrow> CustomerVersionState list" where
  "openOf i \<equiv> filter (\<lambda>s. cvs_versionId s = i \<and> cvs_state s \<in> set REPO_OPEN_STATES)"

lemmas wp_supersedeOpens = wp_supersedeLoop[of "openOf i ss" for i ss, simplified isOpen_def set_filter, simplified]

lemma blockSteps:
  "map_of (fold blockStep L blk) c = Some True \<longleftrightarrow>
     map_of blk c = Some True \<or> list_ex (\<lambda>s. cvs_state s = EXPIRED_BLOCKING \<and> cvs_customerId s = c) L"
  by (induction L arbitrary: blk) (auto simp: table_simps)

lemma closeRows_fold:
  assumes wf: "wf_table cvs_id t"
  shows "fold (\<lambda>s. AList.update (cvs_id s) (s\<lparr>cvs_state := SUPERSEDED\<rparr>))
      (openOf i (tvals t)) t
    = mapRows (closeRow [i]) t"
proof -
  let ?L = "openOf i (tvals t)"
  have "fold (\<lambda>s. AList.update (cvs_id s) (s\<lparr>cvs_state := SUPERSEDED\<rparr>)) ?L t
      = mapRows (\<lambda>s. if s \<in> set ?L then s\<lparr>cvs_state := SUPERSEDED\<rparr> else s) t"
    by (rule fold_update_rows[OF wf]) (auto intro: distinct_filter distinct_tvals[OF wf])
  also have "\<dots> = mapRows (closeRow [i]) t"
    by (rule mapRows_cong) (auto simp: closeRow_def isOpen_def)
  finally show ?thesis .
qed

section \<open>Retiring the predecessors\<close>

text \<open>Was the customer blocked by an expired state of one of the versions?\<close>

definition wasBlocked :: "world \<Rightarrow> string list \<Rightarrow> string \<Rightarrow> bool" where
  "wasBlocked w ids c \<longleftrightarrow> list_ex (\<lambda>s. cvs_versionId s \<in> set ids \<and> cvs_state s = EXPIRED_BLOCKING
     \<and> cvs_customerId s = c) (tvals (w_states w))"

definition catalogInv :: "world \<Rightarrow> bool" where
  "catalogInv w \<longleftrightarrow> wf_table v_id (w_versions w) \<and> wf_table d_id (w_documents w)
     \<and> wf_table c_id (w_customers w)"

definition retiredSoFar :: "world \<Rightarrow> string list \<Rightarrow> bool table \<Rightarrow> world \<Rightarrow> bool" where
  "retiredSoFar w0 ids blk w \<longleftrightarrow>
     w_versions w = mapRows (retireRow ids) (w_versions w0)
     \<and> w_states w = mapRows (closeRow ids) (w_states w0)
     \<and> (\<forall>c. map_of blk c = Some True \<longleftrightarrow> wasBlocked w0 ids c)
     \<and> sameCore (w0\<lparr>w_versions := w_versions w, w_states := w_states w\<rparr>) w"

lemma retire_update:
  assumes wf: "wf_table v_id t" and p: "map_of t (v_id p) = Some p" "v_id p \<notin> set ids"
  shows "AList.update (v_id p) (p\<lparr>v_status := RETIRED\<rparr>) (mapRows (retireRow ids) t)
    = mapRows (retireRow (ids @ [v_id p])) t"
proof -
  have wf': "wf_table v_id (mapRows (retireRow ids) t)" by (rule wf_table_mapRows[OF wf]) simp
  have row: "map_of (mapRows (retireRow ids) t) (v_id p) = Some p" using p by (simp add: retireRow_def)
  have "AList.update (v_id p) (p\<lparr>v_status := RETIRED\<rparr>) (mapRows (retireRow ids) t)
      = mapRows (\<lambda>x. if v_id x = v_id p then p\<lparr>v_status := RETIRED\<rparr> else x) (mapRows (retireRow ids) t)"
    by (rule update_present[OF wf' row])
  also have "\<dots> = mapRows (retireRow (ids @ [v_id p])) t"
    unfolding mapRows_mapRows
  proof (intro mapRows_cong)
    fix x assume "x \<in> set (tvals t)"
    with p(1) have "v_id x = v_id p \<longleftrightarrow> x = p" using wf by (auto simp: tvals_map_of)
    then show "(if v_id (retireRow ids x) = v_id p then p\<lparr>v_status := RETIRED\<rparr> else retireRow ids x)
        = retireRow (ids @ [v_id p]) x"
      by (auto simp: retireRow_def)
  qed
  finally show ?thesis .
qed

lemma retirePredecessor_step:
  assumes wf: "wf_table v_id (w_versions w0)" "wf_table cvs_id (w_states w0)"
    and doc: "map_of (w_documents w0) (v_documentId p) \<noteq> None"
    and p: "map_of (w_versions w0) (v_id p) = Some p" "v_id p \<notin> set ids"
    and inv: "retiredSoFar w0 ids blk w"
  shows "wp (retirePredecessor E admin d blk p) (\<lambda>blk'. retiredSoFar w0 (ids @ [v_id p]) blk') X w"
proof -
  have vs: "w_versions w = mapRows (retireRow ids) (w_versions w0)"
    and ss: "w_states w = mapRows (closeRow ids) (w_states w0)" and "w_documents w = w_documents w0"
    using inv by (simp_all add: retiredSoFar_def sameCore_def)
  have wfs: "wf_table cvs_id (w_states w)"
    using wf_table_mapRows[OF wf(2), of "closeRow ids"] by (simp add: ss)
  note upd = retire_update[OF wf(1) p, folded vs]
  have blocked: "wasBlocked w0 (ids @ [i]) c \<longleftrightarrow> wasBlocked w0 ids c \<or>
      list_ex (\<lambda>s. cvs_state s = EXPIRED_BLOCKING \<and> cvs_customerId s = c)
        (openOf i (tvals (w_states w)))" if "i \<notin> set ids" for i c
    using that by (auto simp: ss wasBlocked_def list_ex_iff closeRow_def REPO_OPEN_STATES_def)
  have close: "mapRows (closeRow [i]) (w_states w) = mapRows (closeRow (ids @ [i])) (w_states w0)" for i
    by (simp add: ss mapRows_mapRows closeRow_closeRow)
  have blk: "\<forall>c. map_of blk c = Some True \<longleftrightarrow> wasBlocked w0 ids c"
    and core: "sameCore (w0\<lparr>w_versions := w_versions w, w_states := w_states w\<rparr>) w"
    using inv unfolding retiredSoFar_def by blast+
  show ?thesis
    using blk core doc \<open>w_documents w = w_documents w0\<close> p(2)
    by (auto simp: retirePredecessor_def wp_simps wp_supersedeOpens closeRows_fold[OF wfs]
        upd retiredSoFar_def blockSteps blocked sameCore_def close split: option.splits)
qed

text \<open>The other published versions of the document.\<close>

definition predecessors :: "world \<Rightarrow> AgreementVersion \<Rightarrow> AgreementVersion list" where
  "predecessors w v = filter (\<lambda>u. v_id u \<noteq> v_id v \<and> v_status u = PUBLISHED)
     (filter (\<lambda>u. v_documentId u = v_documentId v) (tvals (w_versions w)))"

lemma retiredSoFar_start: "retiredSoFar w [] [] w"
  by (simp add: retiredSoFar_def wasBlocked_def list_ex_iff mapRows_id)

lemma distinct_ids:
  assumes "wf_table v_id t" "distinct vs" "set vs \<subseteq> set (tvals t)"
  shows "distinct (map v_id vs)"
  using assms by (auto simp: distinct_map inj_on_def dest: tvals_key_inj)

lemma publish_retire_wp:
  assumes cat: "catalogInv w" and wfs: "wf_table cvs_id (w_states w)"
    and d: "d_id d = v_documentId v" "map_of (w_documents w) (v_documentId v) \<noteq> None"
  shows "wp (publish_retire E admin d v) (\<lambda>blk. retiredSoFar w (map v_id (predecessors w v)) blk) X w"
proof -
  let ?ps = "predecessors w v"
  have wf: "wf_table v_id (w_versions w)" using cat by (simp add: catalogInv_def)
  have dist: "distinct (map v_id ?ps)"
    by (rule distinct_ids[OF wf]) (auto simp: predecessors_def distinct_tvals[OF wf])
  have "wp (foldM (retirePredecessor E admin d) [] ?ps) (\<lambda>blk. retiredSoFar w (map v_id ?ps) blk) X w"
  proof (rule wp_foldM_inv[where I = "\<lambda>done. retiredSoFar w (map v_id done)"])
    show "retiredSoFar w (map v_id []) [] w" by (simp add: retiredSoFar_start)
  next
    fix dn p rest blk w'
    assume ps: "?ps = dn @ p # rest" and inv: "retiredSoFar w (map v_id dn) blk w'"
    from ps have "p \<in> set ?ps" by simp
    then have p: "p \<in> set (tvals (w_versions w))" "v_documentId p = v_documentId v"
      by (auto simp: predecessors_def)
    show "wp (retirePredecessor E admin d blk p) (retiredSoFar w (map v_id (dn @ [p]))) X w'"
      using retirePredecessor_step[OF wf wfs _ _ _ inv, of p E admin d X] p d dist ps wf
      by (simp add: tvals_map_of)
  qed simp
  then show ?thesis by (simp add: publish_retire_def wp_simps d predecessors_def)
qed

section \<open>The rollout\<close>

definition rolledOut ::
  "env \<Rightarrow> AgreementVersion \<Rightarrow> Date \<Rightarrow> (string \<Rightarrow> bool) \<Rightarrow> world \<Rightarrow> Customer list \<Rightarrow> world \<Rightarrow> bool" where
  "rolledOut E v at carry w0 targets w \<longleftrightarrow>
     (\<exists>new. w_states w = w_states w0 @ new \<and> wf_table cvs_id (w_states w)
        \<and> fst ` set (w_states w) \<subseteq> drawnIds E [''cvs-''] (w_uuid w)
        \<and> fst ` set new \<subseteq> drawnIds E [''cvs-''] (w_uuid w)
        \<and> list_all2 (\<lambda>s c. s = rolloutState (cvs_id s) v at (carry (c_id c)) c) (tvals new) targets)
     \<and> sameCore (w0\<lparr>w_states := w_states w\<rparr>) w"

lemma rolloutState_simps [simp]:
  "cvs_id (rolloutState i v at b c) = i" "cvs_state (rolloutState i v at b c) = PENDING_NOTIFICATION"
  "cvs_customerId (rolloutState i v at b c) = c_id c" "cvs_versionId (rolloutState i v at b c) = v_id v"
  "cvs_carryOverBlocking (rolloutState i v at b c) = (if b then Some True else None)"
  "cvs_deadlineAt (rolloutState i v at b c) = rolloutDeadlineFor v"
  by (simp_all add: rolloutState_def newState_def)

lemma update_fresh: "map_of t k = None \<Longrightarrow> AList.update k v t = t @ [(k, v)]"
  by (induction t) (auto split: if_splits)

lemma rolloutOne_step:
  assumes good: "goodIds E" and inv: "rolledOut E v at (\<lambda>c. map_of blk c = Some True) w0 dn w"
  shows "wp (rolloutOne E admin d v at blk c)
    (\<lambda>_. rolledOut E v at (\<lambda>c. map_of blk c = Some True) w0 (dn @ [c])) X w"
proof -
  let ?carry = "\<lambda>c. map_of blk c = Some True"
  obtain new where new: "w_states w = w_states w0 @ new" "wf_table cvs_id (w_states w)"
      "fst ` set (w_states w) \<subseteq> drawnIds E [''cvs-''] (w_uuid w)"
      "fst ` set new \<subseteq> drawnIds E [''cvs-''] (w_uuid w)"
      "list_all2 (\<lambda>s c. s = rolloutState (cvs_id s) v at (?carry (c_id c)) c) (tvals new) dn"
    and core: "sameCore (w0\<lparr>w_states := w_states w\<rparr>) w"
    using inv unfolding rolledOut_def by blast
  define i where "i = ''cvs-'' @ e_uuid E (w_uuid w)"
  define s where "s = rolloutState i v at (?carry (c_id c)) c"
  have none: "map_of (w_states w) i = None"
    using fresh_cvs[OF good new(3)] by (simp add: i_def)
  have upd: "AList.update i s (w_states w) = w_states w @ [(i, s)]" by (rule update_fresh[OF none])
  define w1 where "w1 = afterEvent E (rolloutEvent admin d v c)
    (w\<lparr>w_uuid := Suc (w_uuid w), w_states := w_states w @ [(i, s)]\<rparr>)"
  have st: "w_states w1 = w_states w0 @ new @ [(i, s)]" by (simp add: w1_def new(1))
  have drawn: "i \<in> drawnIds E [''cvs-''] (w_uuid w1)"
    unfolding i_def by (rule drawn_new) (simp_all add: w1_def)
  have "fst ` set (w_states w) \<subseteq> drawnIds E [''cvs-''] (w_uuid w1)"
    using drawn_Suc[OF new(3), of "w_uuid w1"] by (simp add: w1_def)
  then have "fst ` set (w_states w1) \<subseteq> drawnIds E [''cvs-''] (w_uuid w1)"
    using drawn by (simp add: w1_def)
  moreover have "fst ` set (new @ [(i, s)]) \<subseteq> drawnIds E [''cvs-''] (w_uuid w1)"
    using drawn drawn_Suc[OF new(4), of "w_uuid w1"] by (simp add: w1_def)
  moreover have "wf_table cvs_id (w_states w1)"
    using wf_table_update[OF new(2), of s i] upd by (simp add: s_def w1_def)
  moreover have "list_all2 (\<lambda>s c. s = rolloutState (cvs_id s) v at (?carry (c_id c)) c)
      (tvals (new @ [(i, s)])) (dn @ [c])"
    using new(5) by (simp add: tvals_def list_all2_appendI s_def)
  moreover have "sameCore (w0\<lparr>w_states := w_states w1\<rparr>) w1"
    using core by (simp add: sameCore_def w1_def)
  ultimately have "rolledOut E v at ?carry w0 (dn @ [c]) w1"
    unfolding rolledOut_def using st by blast
  then show ?thesis
    using upd by (simp add: rolloutOne_def wp_simps w1_def i_def s_def)
qed

lemma rollout_wp:
  assumes "goodIds E" "rolledOut E v at (\<lambda>c. map_of blk c = Some True) w [] w"
  shows "wp (forM targets (rolloutOne E admin d v at blk))
    (\<lambda>_. rolledOut E v at (\<lambda>c. map_of blk c = Some True) w targets) X w"
  by (rule wp_forM_inv[where I = "rolledOut E v at (\<lambda>c. map_of blk c = Some True) w"])
     (use assms rolloutOne_step in auto)

lemma rolledOut_start: "consentInv E w \<Longrightarrow> rolledOut E v at carry w [] w"
  by (simp add: rolledOut_def consentInv_def tvals_def)

section \<open>The publish\<close>

definition publishedVersion :: "AgreementVersion \<Rightarrow> Date \<Rightarrow> string \<Rightarrow> AgreementVersion" where
  "publishedVersion v at admin = v\<lparr>v_status := PUBLISHED, v_publishedAt := Some at, v_publishedBy := Some admin\<rparr>"

definition mayPublish :: "world \<Rightarrow> string \<Rightarrow> bool" where
  "mayPublish w vid \<longleftrightarrow> (case map_of (w_versions w) vid of
     None \<Rightarrow> False
   | Some v \<Rightarrow> validateForPublish v = Inr () \<and> map_of (w_documents w) (v_documentId v) \<noteq> None)"

text \<open>The versions a publish retires, and the customers it reaches.\<close>

definition retiredBy :: "world \<Rightarrow> AgreementVersion \<Rightarrow> string list" where
  "retiredBy w v = (if v_validFrom v \<le> w_now w then map v_id (predecessors w v) else [])"

definition targetsOf :: "world \<Rightarrow> AgreementDocument \<Rightarrow> Customer list" where
  "targetsOf w d = filter (\<lambda>c. d_audience d \<in> set (c_roles c)) (tvals (w_customers w))"

definition publishAudit :: "string \<Rightarrow> string \<Rightarrow> AgreementVersion \<Rightarrow> AgreementDocument \<Rightarrow> nat \<Rightarrow> Date \<Rightarrow> AdminAuditLog" where
  "publishAudit i admin v d n at =
    \<lparr>aud_id = i, aud_action = PUBLISH, aud_actor = admin, aud_targetType = ''AgreementVersion'',
     aud_targetId = v_id v, aud_reason = None, aud_metadata = Some (publishMeta d n), aud_createdAt = at\<rparr>"

definition published ::
  "env \<Rightarrow> AgreementVersion \<Rightarrow> AgreementDocument \<Rightarrow> string \<Rightarrow> world \<Rightarrow> PublishResult \<Rightarrow> world \<Rightarrow> bool" where
  "published E v d admin w r w' \<longleftrightarrow>
     w_versions w' = mapRows (retireRow (retiredBy w v))
       (AList.update (v_id v) (publishedVersion v (w_now w) admin) (w_versions w))
     \<and> (\<exists>new. tvals (w_states w') = map (closeRow (retiredBy w v)) (tvals (w_states w)) @ new
        \<and> list_all2 (\<lambda>s c. s = rolloutState (cvs_id s) v (w_now w) (wasBlocked w (retiredBy w v) (c_id c)) c)
            new (targetsOf w d))
     \<and> w_acceptances w' = w_acceptances w \<and> w_objections w' = w_objections w
     \<and> w_customers w' = w_customers w \<and> w_documents w' = w_documents w \<and> w_now w' = w_now w
     \<and> (\<exists>i. w_audit w' = w_audit w @ [publishAudit i admin v d (length (targetsOf w d)) (w_now w)])
     \<and> r = \<lparr>pr_versionId = v_id v, pr_rolloutCustomers = length (targetsOf w d), pr_publishedAt = w_now w\<rparr>
     \<and> consentInv E w'"

lemma tvals_update_present:
  "wf_table key t \<Longrightarrow> map_of t k = Some x0 \<Longrightarrow>
     tvals (AList.update k v t) = map (\<lambda>x. if key x = k then v else x) (tvals t)"
  by (simp add: update_present)

lemma predecessors_published:
  assumes "wf_table v_id (w_versions w)" "map_of (w_versions w) (v_id v) = Some v"
  shows "predecessors (w\<lparr>w_versions := AList.update (v_id v) (publishedVersion v at admin) (w_versions w)\<rparr>) v
    = predecessors w v"
proof -
  have rows: "filter Q (map (\<lambda>x. if v_id x = v_id v then u else x) xs) = filter Q xs"
    if "\<And>x. Q x \<Longrightarrow> v_id x \<noteq> v_id v" "v_id u = v_id v" for Q u and xs :: "AgreementVersion list"
    using that by (induction xs) auto
  show ?thesis
    by (simp add: predecessors_def tvals_update_present[OF assms] publishedVersion_def, subst rows) auto
qed

lemma retire_phase_wp:
  fixes w :: world and v :: AgreementVersion and admin :: string
  assumes cat: "catalogInv w" and inv: "consentInv E w"
    and v: "map_of (w_versions w) (v_id v) = Some v" and d: "map_of (w_documents w) (v_documentId v) = Some d"
  defines "w1 \<equiv> w\<lparr>w_versions := AList.update (v_id v) (publishedVersion v (w_now w) admin) (w_versions w)\<rparr>"
  shows "wp (if v_validFrom v \<le> w_now w then publish_retire E admin d v else retM [])
    (\<lambda>blk. retiredSoFar w1 (retiredBy w v) blk) X w1"
proof -
  have "catalogInv w1"
    using cat by (simp add: catalogInv_def w1_def wf_table_update publishedVersion_def)
  moreover have "wf_table cvs_id (w_states w1)" using inv by (simp add: w1_def consentInv_def)
  moreover have "d_id d = v_documentId v" using cat d by (auto simp: catalogInv_def dest: wf_table_key)
  moreover have "predecessors w1 v = predecessors w v"
    using predecessors_published[OF _ v] cat by (simp add: catalogInv_def w1_def)
  ultimately show ?thesis
    using publish_retire_wp[of w1 d v E admin X] d retiredSoFar_start[of w1]
    by (simp add: w1_def retiredBy_def wp_simps)
qed

lemma sameCore_states:
  "sameCore (w0\<lparr>w_versions := vs, w_states := ss\<rparr>) w \<Longrightarrow>
     w_uuid w0 \<le> w_uuid w \<and> w_acceptances w = w_acceptances w0"
  by (simp add: sameCore_def)

text \<open>Both phases together rewrite the state table as \<open>consentInv_rows\<close> wants it.\<close>

lemma rollout_phase:
  assumes inv: "consentInv E w"
    and ret: "retiredSoFar w1 ids blk w2" and w1: "w_states w1 = w_states w" "w_acceptances w1 = w_acceptances w"
      "w_uuid w1 = w_uuid w"
    and out: "rolledOut E v at (\<lambda>c. map_of blk c = Some True) w2 targets w3"
  shows "consentInv E w3 \<and> (\<exists>new. tvals (w_states w3) = map (closeRow ids) (tvals (w_states w)) @ new
    \<and> list_all2 (\<lambda>s c. s = rolloutState (cvs_id s) v at (wasBlocked w ids (c_id c)) c) new targets)"
proof -
  have carry: "(map_of blk c = Some True) = wasBlocked w ids c" for c
    using ret w1 by (simp add: retiredSoFar_def wasBlocked_def)
  obtain new where new: "w_states w3 = w_states w2 @ new" "wf_table cvs_id (w_states w3)"
      "fst ` set new \<subseteq> drawnIds E [''cvs-''] (w_uuid w3)"
      "list_all2 (\<lambda>s c. s = rolloutState (cvs_id s) v at (wasBlocked w ids (c_id c)) c) (tvals new) targets"
    and core: "sameCore (w2\<lparr>w_states := w_states w3\<rparr>) w3"
    using out unfolding rolledOut_def carry by blast
  have st: "w_states w3 = mapRows (closeRow ids) (w_states w) @ new"
    using new(1) ret w1 by (simp add: retiredSoFar_def)
  have "w_acceptances w3 = w_acceptances w" "w_uuid w \<le> w_uuid w3"
    using core ret w1 by (simp_all add: retiredSoFar_def sameCore_def)
  moreover have "cvs_state s \<noteq> ACCEPTED" if "s \<in> set (tvals new)" for s
  proof -
    from that new(4) obtain c where "s = rolloutState (cvs_id s) v at (wasBlocked w ids (c_id c)) c"
      by (auto simp: list_all2_conv_all_nth in_set_conv_nth)
    then have "cvs_state s = PENDING_NOTIFICATION" by (metis rolloutState_simps(2))
    then show ?thesis by simp
  qed
  ultimately have "consentInv E w3"
    using consentInv_rows[OF inv st] closeRow_samePair new(2,3) by simp
  moreover have "tvals (w_states w3) = map (closeRow ids) (tvals (w_states w)) @ tvals new"
    by (simp add: st tvals_def mapRows_def split_def)
  ultimately show ?thesis using new(4) by blast
qed

lemma publish_ok:
  assumes good: "goodIds E" and inv: "consentInv E w" and cat: "catalogInv w"
    and v: "map_of (w_versions w) vid = Some v" "validateForPublish v = Inr ()"
    and d: "map_of (w_documents w) (v_documentId v) = Some d"
  shows "wp (publish E vid admin) (published E v d admin w) (\<lambda>_ _. False) w"
proof -
  have vid: "v_id v = vid" using v(1) cat by (auto simp: catalogInv_def dest: wf_table_key)
  define w1 where "w1 = w\<lparr>w_versions := AList.update vid (publishedVersion v (w_now w) admin) (w_versions w)\<rparr>"
  let ?ids = "retiredBy w v"
  let ?rest = "\<lambda>targets. bindM (newId E ''audit'') (\<lambda>auditId.
    thenM (audit_append
      \<lparr>aud_id = auditId, aud_action = PUBLISH, aud_actor = admin,
       aud_targetType = ''AgreementVersion'', aud_targetId = v_id v, aud_reason = None,
       aud_metadata = Some (publishMeta d (length targets)), aud_createdAt = w_now w\<rparr>)
    (thenM (recordEvent E (publishedEvent admin d v (length targets)))
    (retM \<lparr>pr_versionId = v_id v, pr_rolloutCustomers = length targets, pr_publishedAt = w_now w\<rparr>)))"
  let ?tail = "\<lambda>blk. bindM (customers_findByRole (d_audience d)) (\<lambda>targets.
    thenM (forM targets (rolloutOne E admin d v (w_now w) blk)) (?rest targets))"
  have tail: "wp (?tail blk) (published E v d admin w) (\<lambda>_ _. False) w2" if ret: "retiredSoFar w1 ?ids blk w2" for blk w2
  proof -
    have same: "w_customers w2 = w_customers w" using ret by (simp add: retiredSoFar_def sameCore_def w1_def)
    have st2: "w_states w2 = mapRows (closeRow ?ids) (w_states w)" and acc2: "w_acceptances w2 = w_acceptances w"
      and uu2: "w_uuid w \<le> w_uuid w2"
      using ret by (simp_all add: retiredSoFar_def sameCore_def w1_def)
    have "wf_table cvs_id (w_states w2)"
      using inv closeRow_samePair by (simp add: st2 consentInv_def samePair_def wf_table_mapRows)
    then have "consentInv E w2"
      using consentInv_rows[of E w w2 "closeRow ?ids" "[]"] inv closeRow_samePair st2 acc2 uu2
      by (simp add: tvals_def)
    note roll = rollout_wp[where v = v and at = "w_now w" and blk = blk and w = w2, OF good rolledOut_start[OF this]]
    have "wp (forM (targetsOf w d) (rolloutOne E admin d v (w_now w) blk))
      (\<lambda>_. wp (?rest (targetsOf w d)) (published E v d admin w) (\<lambda>_ _. False)) (\<lambda>_ _. False) w2"
    proof (rule wp_mono[OF roll])
      fix u w3
      assume out: "rolledOut E v (w_now w) (\<lambda>c. map_of blk c = Some True) w2 (targetsOf w d) w3"
      have core: "sameCore (w2\<lparr>w_states := w_states w3\<rparr>) w3" using out by (simp add: rolledOut_def)
      from rollout_phase[OF inv ret _ _ _ out] have "consentInv E w3"
        and rows: "\<exists>new. tvals (w_states w3) = map (closeRow ?ids) (tvals (w_states w)) @ new
          \<and> list_all2 (\<lambda>s c. s = rolloutState (cvs_id s) v (w_now w) (wasBlocked w ?ids (c_id c)) c) new (targetsOf w d)"
        by (simp_all add: w1_def)
      with ret core consentInv_frame[OF \<open>consentInv E w3\<close>]
      show "wp (?rest (targetsOf w d)) (published E v d admin w) (\<lambda>_ _. False) w3"
        by (auto simp add: wp_simps published_def publishAudit_def retiredSoFar_def sameCore_def w1_def vid)
    qed simp
    then show ?thesis
      by (simp only: wp_bind wp_then customers_findByRole_def wp_gets targetsOf_def same)
  qed
  have "wp (if v_validFrom v \<le> w_now w then publish_retire E admin d v else retM [])
      (\<lambda>blk. wp (?tail blk) (published E v d admin w) (\<lambda>_ _. False)) (\<lambda>_ _. False) w1"
  proof (rule wp_mono)
    show "wp (if v_validFrom v \<le> w_now w then publish_retire E admin d v else retM [])
        (\<lambda>blk. retiredSoFar w1 ?ids blk) (\<lambda>_ _. False) w1"
      using retire_phase_wp[OF cat inv _ d, where admin = admin] v(1) vid by (simp add: w1_def)
  qed (use tail in simp_all)
  then show ?thesis
    using v d by (simp add: publish_def wp_simps w1_def publishedVersion_def vid Let_def)
qed

lemma publish_error:
  "\<not> mayPublish w vid \<Longrightarrow> \<exists>e. publish E vid admin w = (Inl e, w)"
proof -
  assume "\<not> mayPublish w vid"
  then have "wp (publish E vid admin) (\<lambda>_ _. False) (\<lambda>e w'. w' = w) w"
    by (cases "map_of (w_versions w) vid")
       (auto simp: publish_def wp_simps mayPublish_def split: option.splits sum.splits)
  then show ?thesis by (auto simp: wp_def split: prod.splits sum.splits)
qed






definition draft_ex :: AgreementVersion where
  "draft_ex = ver_ex\<lparr>v_id := ''v2'', v_status := DRAFT, v_publishedAt := None, v_validFrom := 50\<rparr>"

text \<open>The customer is blocked by the old version when the new one is published.\<close>

definition blocked_world_ex :: world where
  "blocked_world_ex = world_ex\<lparr>w_versions := [(''v'', ver_ex), (''v2'', draft_ex)],
     w_states := [(''cvs-00000000'', state_ex\<lparr>cvs_state := EXPIRED_BLOCKING\<rparr>)]\<rparr>"

lemma blocked_world_inv: "consentInv env_ex blocked_world_ex" "catalogInv blocked_world_ex"
  by (auto simp: consentInv_def blocked_world_ex_def world_ex_def emptyWorld_def state_ex_def newState_def
      wf_table_def drawnIds_def env_ex_def oneEffective_def tvals_def effectiveFor_def catalogInv_def
      ver_ex_def draft_ex_def doc_ex_def cust_ex_def)

lemma mayPublish_ex: "mayPublish blocked_world_ex ''v2''"
  by (simp add: mayPublish_def blocked_world_ex_def validateForPublish_Inr draft_ex_def ver_ex_def trim_def
      isSpaceChar_def world_ex_def)


lemma singleton_list: "distinct xs \<Longrightarrow> set xs = {a} \<Longrightarrow> xs = [a]"
  by (cases xs; cases "tl xs") auto

lemma filter_map_same:
  "(\<And>x. x \<in> set xs \<Longrightarrow> P (g x) \<Longrightarrow> g x = x) \<Longrightarrow> (\<And>x. x \<in> set xs \<Longrightarrow> P x \<Longrightarrow> g x = x)
     \<Longrightarrow> filter P (map g xs) = filter P xs"
  by (induction xs) (auto, metis+)

text \<open>At most one document for a type and an audience (\<open>documents_save\<close> refuses a second one).\<close>

definition uniqueDocuments :: "world \<Rightarrow> bool" where
  "uniqueDocuments w \<longleftrightarrow> (\<forall>d \<in> set (tvals (w_documents w)). \<forall>d' \<in> set (tvals (w_documents w)).
     d_type d = d_type d' \<and> d_audience d = d_audience d' \<longrightarrow> d = d')"

lemma findByTypeAndAudience_unique:
  assumes "catalogInv w" "uniqueDocuments w" "map_of (w_documents w) i = Some d"
  shows "findByTypeAndAudience (w_documents w) (d_type d) (d_audience d) = Some d"
proof -
  have d: "d \<in> set (tvals (w_documents w))" using assms by (auto simp: catalogInv_def intro: tvals_lookup)
  then obtain d' where "findByTypeAndAudience (w_documents w) (d_type d) (d_audience d) = Some d'"
    unfolding findByTypeAndAudience_def
    by (cases "find (\<lambda>x. d_type x = d_type d \<and> d_audience x = d_audience d) (tvals (w_documents w))")
       (auto dest: find_NoneD)
  with findByTypeAndAudience_SomeD[OF this] d assms(2) show ?thesis by (auto simp: uniqueDocuments_def)
qed

lemma published_rows:
  assumes "published E v d admin w r w'" "catalogInv w" "map_of (w_versions w) (v_id v) = Some v"
  shows "tvals (w_versions w') = map (\<lambda>x. if v_id x = v_id v then publishedVersion v (w_now w) admin
           else retireRow (retiredBy w v) x) (tvals (w_versions w))"
    and "wf_table v_id (w_versions w')"
proof -
  have wf: "wf_table v_id (w_versions w)" using assms(2) by (simp add: catalogInv_def)
  have no: "v_id v \<notin> set (retiredBy w v)" by (auto simp: retiredBy_def predecessors_def)
  show "tvals (w_versions w') = map (\<lambda>x. if v_id x = v_id v then publishedVersion v (w_now w) admin
           else retireRow (retiredBy w v) x) (tvals (w_versions w))"
    using assms(1) no by (auto simp: published_def tvals_update_present[OF wf assms(3)] retireRow_def publishedVersion_def)
  show "wf_table v_id (w_versions w')"
    using assms(1) wf wf_table_mapRows[of v_id _ "retireRow (retiredBy w v)"]
    by (simp add: published_def wf_table_update publishedVersion_def)
qed

text \<open>Which revision applies after a publish.  A version that is in force is the applicable one
  at once, whatever was published before; publishing a scheduled version changes nothing about the
  applicable revision, and the version is then listed as upcoming.\<close>

theorem publish_current:
  assumes "goodIds E" "consentInv E w" "catalogInv w" "uniqueDocuments w"
    and run: "publish E vid admin w = (Inr r, w')"
    and v: "map_of (w_versions w) vid = Some v" and d: "map_of (w_documents w) (v_documentId v) = Some d"
  shows "if v_validFrom v \<le> w_now w
    then findCurrentPublished w' (d_type d) (d_audience d) (w_now w) = Some (publishedVersion v (w_now w) admin)
    else findCurrentPublished w' (d_type d) (d_audience d) (w_now w)
           = findCurrentPublished w (d_type d) (d_audience d) (w_now w)
       \<and> publishedVersion v (w_now w) admin
           \<in> set (findUpcomingPublishedList w' (d_type d) (d_audience d) (w_now w))"
proof -
  have may: "mayPublish w vid" using publish_error[of w vid E admin] run by auto
  with v have "validateForPublish v = Inr ()" by (simp add: mayPublish_def)
  from publish_ok[OF assms(1-3) v this d, of admin] run have pub: "published E v d admin w r w'" by (simp add: wp_def)
  have vid: "vid = v_id v" using v assms(3) by (auto simp: catalogInv_def dest: wf_table_key)
  have draft: "v_status v = DRAFT" using may v by (simp add: mayPublish_def validateForPublish_Inr)
  have doc: "d_id d = v_documentId v" using d assms(3) by (auto simp: catalogInv_def dest: wf_table_key)
  have wf: "wf_table v_id (w_versions w)" using assms(3) by (simp add: catalogInv_def)
  have v_in: "v \<in> set (tvals (w_versions w))" using v vid wf by (simp add: tvals_map_of)
  have same: "x = v" if "x \<in> set (tvals (w_versions w))" "v_id x = v_id v" for x
    using tvals_key_inj[OF wf that(1) v_in that(2)] .
  note rows = published_rows[OF pub assms(3) v[unfolded vid]]
  let ?pv = "publishedVersion v (w_now w) admin"
  have docs: "findByTypeAndAudience (w_documents w') (d_type d) (d_audience d) = Some d"
      "findByTypeAndAudience (w_documents w) (d_type d) (d_audience d) = Some d"
    using findByTypeAndAudience_unique[OF assms(3,4) d] pub by (simp_all add: published_def)
  let ?P = "\<lambda>u. v_documentId u = d_id d \<and> v_status u = PUBLISHED \<and> v_validFrom u \<le> w_now w"
  show ?thesis
  proof (cases "v_validFrom v \<le> w_now w")
    case True
    have "set (filter ?P (tvals (w_versions w'))) = {?pv}"
      using True v_in doc by (auto simp: rows(1) publishedVersion_def retireRow_def retiredBy_def predecessors_def)
    then have "filter ?P (tvals (w_versions w')) = [?pv]"
      by (intro singleton_list) (simp_all add: distinct_tvals[OF rows(2)])
    then show ?thesis using True docs by (simp add: findCurrentPublished_def)
  next
    case False
    have "filter ?P (tvals (w_versions w')) = filter ?P (tvals (w_versions w))"
      unfolding rows(1)
      by (rule filter_map_same) (use False draft same in \<open>auto simp: publishedVersion_def retiredBy_def\<close>)
    then have "findCurrentPublished w' (d_type d) (d_audience d) (w_now w)
        = findCurrentPublished w (d_type d) (d_audience d) (w_now w)"
      using docs by (simp add: findCurrentPublished_def)
    moreover have "?pv \<in> set (findUpcomingPublishedList w' (d_type d) (d_audience d) (w_now w))"
      using False docs v_in doc
      by (auto simp: findUpcomingPublishedList_def rows(1) publishedVersion_def retiredBy_def)
    ultimately show ?thesis using False by simp
  qed
qed

lemma publish_current_witness:
  "map_option v_id (findCurrentPublished (snd (publish env_ex ''v2'' ''admin'' blocked_world_ex))
      ''dpa'' ''customer'' 100) = Some ''v2''"
proof -
  obtain r w' where run: "publish env_ex ''v2'' ''admin'' blocked_world_ex = (Inr r, w')"
    using publish_ok[OF goodIds_ex blocked_world_inv, of "''v2''" draft_ex doc_ex "''admin''"] mayPublish_ex
    by (auto simp: wp_def mayPublish_def blocked_world_ex_def world_ex_def draft_ex_def ver_ex_def
        split: prod.splits sum.splits)
  have "uniqueDocuments blocked_world_ex"
    by (simp add: uniqueDocuments_def blocked_world_ex_def world_ex_def tvals_def)
  from publish_current[OF goodIds_ex blocked_world_inv this run, of draft_ex doc_ex] show ?thesis
    by (simp add: run) (simp add: blocked_world_ex_def world_ex_def emptyWorld_def draft_ex_def ver_ex_def
        doc_ex_def publishedVersion_def)
qed

end
