(* ===== verification/Activation_Facts.thy ===== *)
theory Activation_Facts
  imports Sweepers Publish_Facts
begin

text \<open>
  The activation sweeper completes a scheduled publish: once a newer version is in force, the
  overtaken ones are retired, their open states superseded, and every expired block continues on the
  state of the new version (which is created where it is missing).  A second run at the same time
  changes nothing.
\<close>

section \<open>The invariant of the sweep\<close>

text \<open>The customer is blocked by, or done with, the state of the version.\<close>

definition carriedFor :: "world \<Rightarrow> string \<Rightarrow> string \<Rightarrow> bool" where
  "carriedFor w cur c \<longleftrightarrow> (case stateFor (tvals (w_states w)) c cur of
     None \<Rightarrow> False
   | Some s \<Rightarrow> isBlocking s \<or> cvs_state s \<in> {ACCEPTED, OBJECTED, SUPERSEDED})"

text \<open>
  Relative to the world at the start: the rows of other versions are closed where \<open>C\<close> says so, the
  rows of the current version are as they were or carry a block, new rows belong to the current
  version, and the customers of \<open>B\<close> are carried.
\<close>

definition actInv ::
  "env \<Rightarrow> world \<Rightarrow> string \<Rightarrow> (CustomerVersionState \<Rightarrow> bool) \<Rightarrow> string set \<Rightarrow> world \<Rightarrow> bool" where
  "actInv E w0 cur C B w \<longleftrightarrow>
     consentInv E w \<and> sameCore (w0\<lparr>w_states := w_states w, w_versions := w_versions w\<rparr>) w
     \<and> (\<forall>k s. map_of (w_states w0) k = Some s \<longrightarrow> cvs_versionId s \<noteq> cur \<longrightarrow>
          map_of (w_states w) k = Some (if C s then s\<lparr>cvs_state := SUPERSEDED\<rparr> else s))
     \<and> (\<forall>k s. map_of (w_states w0) k = Some s \<longrightarrow> cvs_versionId s = cur \<longrightarrow>
          map_of (w_states w) k = Some s \<or> map_of (w_states w) k = Some (s\<lparr>cvs_carryOverBlocking := Some True\<rparr>))
     \<and> (\<forall>k s. map_of (w_states w0) k = None \<longrightarrow> map_of (w_states w) k = Some s \<longrightarrow> cvs_versionId s = cur)
     \<and> (\<forall>c \<in> B. carriedFor w cur c)"

lemma actInvI:
  assumes "consentInv E w" "sameCore (w0\<lparr>w_states := w_states w, w_versions := w_versions w\<rparr>) w"
    and "\<And>k s. map_of (w_states w0) k = Some s \<Longrightarrow> cvs_versionId s \<noteq> cur \<Longrightarrow>
          map_of (w_states w) k = Some (if C s then s\<lparr>cvs_state := SUPERSEDED\<rparr> else s)"
    and "\<And>k s. map_of (w_states w0) k = Some s \<Longrightarrow> cvs_versionId s = cur \<Longrightarrow>
          map_of (w_states w) k = Some s \<or> map_of (w_states w) k = Some (s\<lparr>cvs_carryOverBlocking := Some True\<rparr>)"
    and "\<And>k s. map_of (w_states w0) k = None \<Longrightarrow> map_of (w_states w) k = Some s \<Longrightarrow> cvs_versionId s = cur"
    and "\<And>c. c \<in> B \<Longrightarrow> carriedFor w cur c"
  shows "actInv E w0 cur C B w"
  using assms unfolding actInv_def by blast

lemma actInvD:
  assumes "actInv E w0 cur C B w"
  shows "consentInv E w" "sameCore (w0\<lparr>w_states := w_states w, w_versions := w_versions w\<rparr>) w"
    and "map_of (w_states w0) k = Some s \<Longrightarrow> cvs_versionId s \<noteq> cur \<Longrightarrow>
          map_of (w_states w) k = Some (if C s then s\<lparr>cvs_state := SUPERSEDED\<rparr> else s)"
    and "map_of (w_states w0) k = Some s \<Longrightarrow> cvs_versionId s = cur \<Longrightarrow>
          map_of (w_states w) k = Some s \<or> map_of (w_states w) k = Some (s\<lparr>cvs_carryOverBlocking := Some True\<rparr>)"
    and "map_of (w_states w0) k = None \<Longrightarrow> map_of (w_states w) k = Some s \<Longrightarrow> cvs_versionId s = cur"
    and "c \<in> B \<Longrightarrow> carriedFor w cur c"
  using assms unfolding actInv_def by blast+

lemma actInv_frame:
  assumes "actInv E w0 cur C B w" "w_states w' = w_states w"
    and "sameCore (w\<lparr>w_versions := w_versions w'\<rparr>) w'"
  shows "actInv E w0 cur C B w'"
proof -
  have "consentInv E w'"
    by (rule consentInv_frame[of E w]) (use assms in \<open>simp_all add: actInv_def sameCore_def\<close>)
  then show ?thesis using assms by (simp add: actInv_def carriedFor_def sameCore_def)
qed

lemma isBlocking_carry:
  "isBlocking s \<Longrightarrow> isBlocking (s\<lparr>cvs_carryOverBlocking := Some True\<rparr>)"
  by (auto simp: isBlocking_def)

lemma open_carry:
  "cvs_state s \<in> {PENDING_NOTIFICATION, NOTIFIED} \<Longrightarrow> isBlocking (s\<lparr>cvs_carryOverBlocking := Some True\<rparr>)"
  by (auto simp: isBlocking_def CARRY_OVER_BLOCKING_STATES_def)

text \<open>A row of another version is superseded.\<close>

lemma actInv_supersede:
  assumes inv: "actInv E w0 cur C B w"
    and x: "map_of (w_states w0) (cvs_id x) = Some x" "map_of (w_states w) (cvs_id x) = Some x"
      "cvs_versionId x \<noteq> cur" "isOpen x"
    and wf0: "wf_table cvs_id (w_states w0)"
    and w': "w' = w\<lparr>w_states := AList.update (cvs_id x) (x\<lparr>cvs_state := SUPERSEDED\<rparr>) (w_states w)\<rparr>"
  shows "actInv E w0 cur (\<lambda>s. C s \<or> s = x) B w'"
proof -
  let ?x' = "x\<lparr>cvs_state := SUPERSEDED\<rparr>"
  have same: "samePair x ?x'" by (simp add: samePair_def)
  have inv': "consentInv E w" using inv by (simp add: actInv_def)
  have wf: "wf_table cvs_id (w_states w)" using inv' by (simp add: consentInv_def)
  have "consentInv E w'"
    by (rule consentInv_update[OF inv' x(2) same]) (use x(4) in \<open>simp_all add: w' isOpen_iff\<close>)
  moreover have "carriedFor w' cur c" if "carriedFor w cur c" for c
  proof -
    have "stateFor (tvals (w_states w')) c cur = stateFor (tvals (w_states w)) c cur"
    proof (cases "stateFor (tvals (w_states w)) c cur")
      case (Some y)
      have "cvs_id y \<noteq> cvs_id x"
      proof
        assume "cvs_id y = cvs_id x"
        with stateFor_stored[OF wf Some] x(2) have "y = x" by (metis option.inject)
        with stateFor_SomeD[OF Some] x(3) show False by simp
      qed
      with Some show ?thesis by (simp add: w' stateFor_update_wf[OF wf x(2) same])
    qed (simp add: w' stateFor_update_wf[OF wf x(2) same])
    with that show ?thesis by (simp add: carriedFor_def)
  qed
  moreover have "map_of (w_states w') k = Some (if C s \<or> s = x then s\<lparr>cvs_state := SUPERSEDED\<rparr> else s)"
    if s: "map_of (w_states w0) k = Some s" "cvs_versionId s \<noteq> cur" for k s
  proof (cases "k = cvs_id x")
    case True
    with s(1) x(1) have "s = x" by (metis option.inject)
    with True show ?thesis by (simp add: w' table_simps)
  next
    case False
    with wf_table_key[OF wf0 s(1)] have "s \<noteq> x" by blast
    moreover have "map_of (w_states w) k = Some (if C s then s\<lparr>cvs_state := SUPERSEDED\<rparr> else s)"
      using inv s unfolding actInv_def by blast
    ultimately show ?thesis using False by (simp add: w' table_simps)
  qed
  moreover have other: "map_of (w_states w') k = map_of (w_states w) k" if "k \<noteq> cvs_id x" for k
    using that by (simp add: w' table_simps)
  moreover have "sameCore (w0\<lparr>w_states := w_states w', w_versions := w_versions w'\<rparr>) w'"
    using inv by (simp add: actInv_def sameCore_def w')
  moreover have "k \<noteq> cvs_id x" if "map_of (w_states w0) k = Some s" "cvs_versionId s = cur" for k s
    using that x(1,3) by auto
  moreover have "k \<noteq> cvs_id x" if "map_of (w_states w0) k = None" for k
    using that x(1) by auto
  ultimately show ?thesis
    by (intro actInvI) (simp_all add: other actInvD[OF inv])
qed

text \<open>A row of the current version gets the block.\<close>

lemma actInv_carry:
  assumes inv: "actInv E w0 cur C B w"
    and s: "stateFor (tvals (w_states w)) c cur = Some s" "cvs_state s \<in> {PENDING_NOTIFICATION, NOTIFIED}"
    and wf0: "wf_table cvs_id (w_states w0)"
    and w': "w' = w\<lparr>w_states := AList.update (cvs_id s) (s\<lparr>cvs_carryOverBlocking := Some True\<rparr>) (w_states w)\<rparr>"
  shows "actInv E w0 cur C (insert c B) w'"
proof -
  let ?s' = "s\<lparr>cvs_carryOverBlocking := Some True\<rparr>"
  have same: "samePair s ?s'" by (simp add: samePair_def)
  have inv': "consentInv E w" using inv by (simp add: actInv_def)
  have wf: "wf_table cvs_id (w_states w)" using inv' by (simp add: consentInv_def)
  have row: "map_of (w_states w) (cvs_id s) = Some s" by (rule stateFor_stored[OF wf s(1)])
  have cur: "cvs_versionId s = cur" using stateFor_SomeD[OF s(1)] by simp
  have "consentInv E w'"
    by (rule consentInv_update[OF inv' row same]) (use s(2) in \<open>auto simp: w'\<close>)
  moreover have "carriedFor w' cur c'" if "carriedFor w cur c' \<or> c' = c" for c'
    using that s stateFor_update_wf[OF wf row same, of c' cur] stateFor_stored[OF wf, of c' cur] row
    by (auto simp: w' carriedFor_def isBlocking_carry open_carry split: option.splits)
  moreover have "k \<noteq> cvs_id s" if t: "map_of (w_states w0) k = Some t" "cvs_versionId t \<noteq> cur" for k t
  proof
    assume "k = cvs_id s"
    moreover have "map_of (w_states w) k = Some (if C t then t\<lparr>cvs_state := SUPERSEDED\<rparr> else t)"
      using inv t unfolding actInv_def by blast
    ultimately have "s = (if C t then t\<lparr>cvs_state := SUPERSEDED\<rparr> else t)" using row by simp
    with cur t(2) show False by (simp split: if_splits)
  qed
  moreover have "s\<lparr>cvs_carryOverBlocking := Some True\<rparr> = t\<lparr>cvs_carryOverBlocking := Some True\<rparr>"
    if t: "map_of (w_states w0) (cvs_id s) = Some t" "cvs_versionId t = cur" for t
  proof -
    have "s = t \<or> s = t\<lparr>cvs_carryOverBlocking := Some True\<rparr>"
      using inv t row unfolding actInv_def by (metis option.inject)
    then show ?thesis by auto
  qed
  ultimately show ?thesis
    using inv row cur unfolding actInv_def by (simp add: w' table_simps sameCore_def)
qed

text \<open>A missing state of the current version is created with the block.\<close>

lemma actInv_create:
  assumes good: "goodIds E" and inv: "actInv E w0 cur C B w"
    and none: "stateFor (tvals (w_states w)) c cur = None"
    and s: "cvs_id s = ''cvs-'' @ e_uuid E (w_uuid w)" "cvs_customerId s = c" "cvs_versionId s = cur"
      "cvs_state s = PENDING_NOTIFICATION" "cvs_carryOverBlocking s = Some True"
    and w': "w' = w\<lparr>w_uuid := Suc (w_uuid w), w_states := AList.update (cvs_id s) s (w_states w)\<rparr>"
  shows "actInv E w0 cur C (insert c B) w'"
proof -
  have inv': "consentInv E w" using actInvD(1)[OF inv] .
  have fresh: "map_of (w_states w) (cvs_id s) = None"
    using fresh_cvs[OF good, of "w_states w" "w_uuid w"] inv' s by (simp add: consentInv_def)
  have vals: "tvals (w_states w') = tvals (w_states w) @ [s]" by (simp add: w' tvals_update_fresh[OF fresh])
  have "consentInv E w'"
    by (rule consentInv_insert[OF good inv' s(1)]) (simp_all add: w' s(4))
  moreover have "carriedFor w' cur c'" if "carriedFor w cur c' \<or> c' = c" for c'
    using that none s by (auto simp: carriedFor_def vals stateFor_append isBlocking_def
        CARRY_OVER_BLOCKING_STATES_def split: option.splits)
  moreover have new: "map_of (w_states w0) (cvs_id s) = Some t \<Longrightarrow> False" for t
    using fresh actInvD(3)[OF inv, of "cvs_id s" t] actInvD(4)[OF inv, of "cvs_id s" t]
    by (cases "cvs_versionId t = cur") auto
  then have "map_of (w_states w') k = map_of (w_states w) k" if "map_of (w_states w0) k = Some t" for k t
    using that by (auto simp: w' table_simps)
  moreover have "sameCore (w0\<lparr>w_states := w_states w', w_versions := w_versions w'\<rparr>) w'"
    using actInvD(2)[OF inv] by (simp add: sameCore_def w')
  moreover have "cvs_versionId t = cur" if "map_of (w_states w0) k = None" "map_of (w_states w') k = Some t" for k t
    using that s(3) actInvD(5)[OF inv that(1)] by (auto simp: w' table_simps split: if_splits)
  ultimately show ?thesis by (intro actInvI) (auto simp: actInvD[OF inv])
qed

lemma actInv_weaken: "actInv E w0 cur C B w \<Longrightarrow> carriedFor w cur c \<Longrightarrow> actInv E w0 cur C (insert c B) w"
  unfolding actInv_def by blast

lemma carryBlockOver_step:
  assumes good: "goodIds E" and inv: "actInv E w0 (v_id cur) C B w" and wf0: "wf_table cvs_id (w_states w0)"
  shows "wp (carryBlockOver E c cur)
    (\<lambda>_ w'. actInv E w0 (v_id cur) C (insert c B) w' \<and> w_versions w' = w_versions w) X w"
proof (cases "stateFor (tvals (w_states w)) c (v_id cur)")
  case None
  define s where "s = (newState (''cvs-'' @ e_uuid E (w_uuid w)) c (v_id cur))
    \<lparr>cvs_deadlineAt := rolloutDeadlineFor cur, cvs_carryOverBlocking := Some True\<rparr>"
  define w1 where "w1 = w\<lparr>w_uuid := Suc (w_uuid w), w_states := AList.update (cvs_id s) s (w_states w)\<rparr>"
  have "actInv E w0 (v_id cur) C (insert c B) w1"
    by (rule actInv_create[OF good inv None _ _ _ _ _ w1_def]) (simp_all add: s_def newState_def)
  then have "actInv E w0 (v_id cur) C (insert c B) w'" if "w_states w' = w_states w1"
      "sameCore (w1\<lparr>w_versions := w_versions w'\<rparr>) w'" for w'
    using actInv_frame that by blast
  then show ?thesis
    using None by (simp add: carryBlockOver_def recordBlockCarriedOver_def wp_simps w1_def s_def
        newState_def sameCore_def)
next
  case (Some s)
  show ?thesis
  proof (cases "cvs_state s \<in> {PENDING_NOTIFICATION, NOTIFIED} \<and> cvs_carryOverBlocking s \<noteq> Some True")
    case True
    define w1 where "w1 = w\<lparr>w_states := AList.update (cvs_id s) (s\<lparr>cvs_carryOverBlocking := Some True\<rparr>) (w_states w)\<rparr>"
    have "actInv E w0 (v_id cur) C (insert c B) w1"
      by (rule actInv_carry[OF inv Some _ wf0 w1_def]) (use True in simp)
    then have "actInv E w0 (v_id cur) C (insert c B) w'" if "w_states w' = w_states w1"
        "sameCore (w1\<lparr>w_versions := w_versions w'\<rparr>) w'" for w'
      using actInv_frame that by blast
    then show ?thesis
      using Some True by (auto simp: carryBlockOver_def recordBlockCarriedOver_def wp_simps w1_def sameCore_def)
  next
    case False
    then have "carriedFor w (v_id cur) c"
      using Some by (cases "cvs_state s") (auto simp: carriedFor_def isBlocking_def CARRY_OVER_BLOCKING_STATES_def)
    with False Some inv show ?thesis
      by (auto simp: carryBlockOver_def wp_simps intro: actInv_weaken)
  qed
qed

section \<open>The loops\<close>

lemma actInv_cong:
  assumes "actInv E w0 cur C B w" "\<And>k s. map_of (w_states w0) k = Some s \<Longrightarrow> cvs_versionId s \<noteq> cur \<Longrightarrow> C s = C' s"
    and "\<And>c. c \<in> B' \<Longrightarrow> c \<in> B"
  shows "actInv E w0 cur C' B' w"
  by (intro actInvI) (use assms in \<open>auto simp: actInvD[OF assms(1)] actInvD(4,5)[OF assms(1)]\<close>)

definition expiredOf :: "CustomerVersionState list \<Rightarrow> string set" where
  "expiredOf L = {cvs_customerId s | s. s \<in> set L \<and> cvs_state s = EXPIRED_BLOCKING}"

lemma supersedeStep:
  assumes good: "goodIds E" and inv: "actInv E w0 (v_id cur) C B w" and wf0: "wf_table cvs_id (w_states w0)"
    and x: "map_of (w_states w0) (cvs_id x) = Some x" "\<not> C x" "cvs_versionId x \<noteq> v_id cur" "isOpen x"
  shows "wp (bindM (supersedeOpen x) (\<lambda>b. whenM b (carryBlockOver E (cvs_customerId x) cur)))
    (\<lambda>_ w'. actInv E w0 (v_id cur) (\<lambda>s. C s \<or> s = x) (B \<union> expiredOf [x]) w' \<and> w_versions w' = w_versions w) X w"
proof -
  define w1 where "w1 = w\<lparr>w_states := AList.update (cvs_id x) (x\<lparr>cvs_state := SUPERSEDED\<rparr>) (w_states w)\<rparr>"
  have row: "map_of (w_states w) (cvs_id x) = Some x" using actInvD(3)[OF inv x(1,3)] x(2) by simp
  note inv1 = actInv_supersede[OF inv x(1) row x(3,4) wf0 w1_def]
  have "w_versions w1 = w_versions w" by (simp add: w1_def)
  show ?thesis
  proof (cases "cvs_state x = EXPIRED_BLOCKING")
    case True
    then have "expiredOf [x] = {cvs_customerId x}" by (auto simp: expiredOf_def)
    with True show ?thesis
      using wp_mono[OF carryBlockOver_step[OF good inv1 wf0, of "cvs_customerId x" X]] \<open>w_versions w1 = w_versions w\<close>
      by (simp add: wp_bind wp_supersedeOpen[OF x(4)] wp_when w1_def[symmetric])
  next
    case False
    then have "expiredOf [x] = {}" by (auto simp: expiredOf_def)
    with False inv1 show ?thesis
      by (simp add: wp_simps wp_supersedeOpen[OF x(4)] w1_def[symmetric]) (simp add: w1_def)
  qed
qed

lemma supersedeLoop:
  assumes good: "goodIds E" and inv: "actInv E w0 (v_id cur) C B w" and wf0: "wf_table cvs_id (w_states w0)"
    and L: "distinct L" "\<And>x. x \<in> set L \<Longrightarrow> map_of (w_states w0) (cvs_id x) = Some x \<and> \<not> C x
      \<and> cvs_versionId x \<noteq> v_id cur \<and> isOpen x"
  shows "wp (forM L (\<lambda>x. bindM (supersedeOpen x) (\<lambda>b. whenM b (carryBlockOver E (cvs_customerId x) cur))))
    (\<lambda>_ w'. actInv E w0 (v_id cur) (\<lambda>s. C s \<or> s \<in> set L) (B \<union> expiredOf L) w' \<and> w_versions w' = w_versions w) X w"
proof (rule wp_forM_inv[where I = "\<lambda>dn w'. actInv E w0 (v_id cur) (\<lambda>s. C s \<or> s \<in> set dn) (B \<union> expiredOf dn) w'
    \<and> w_versions w' = w_versions w"])
  show "actInv E w0 (v_id cur) (\<lambda>s. C s \<or> s \<in> set []) (B \<union> expiredOf []) w \<and> w_versions w = w_versions w"
    using inv by (simp add: expiredOf_def)
next
  fix dn x rest w'
  assume split: "L = dn @ x # rest" and
    I: "actInv E w0 (v_id cur) (\<lambda>s. C s \<or> s \<in> set dn) (B \<union> expiredOf dn) w' \<and> w_versions w' = w_versions w"
  have x: "map_of (w_states w0) (cvs_id x) = Some x" "\<not> (C x \<or> x \<in> set dn)" "cvs_versionId x \<noteq> v_id cur" "isOpen x"
    using L(2)[of x] L(1) split by auto
  have sets: "B \<union> expiredOf (dn @ [x]) = B \<union> expiredOf dn \<union> expiredOf [x]" by (auto simp: expiredOf_def)
  show "wp (bindM (supersedeOpen x) (\<lambda>b. whenM b (carryBlockOver E (cvs_customerId x) cur)))
    (\<lambda>_ w'. actInv E w0 (v_id cur) (\<lambda>s. C s \<or> s \<in> set (dn @ [x])) (B \<union> expiredOf (dn @ [x])) w'
      \<and> w_versions w' = w_versions w) X w'"
    by (rule wp_mono[OF supersedeStep[OF good conjunct1[OF I] wf0 x]])
       (use I in \<open>auto simp: sets elim!: actInv_cong\<close>)
qed

text \<open>One overtaken version.\<close>

definition activated :: "env \<Rightarrow> world \<Rightarrow> string \<Rightarrow> string list \<Rightarrow> world \<Rightarrow> bool" where
  "activated E w0 cur ids w \<longleftrightarrow>
     w_versions w = mapRows (retireRow ids) (w_versions w0)
     \<and> actInv E w0 cur (\<lambda>s. cvs_versionId s \<in> set ids \<and> isOpen s) {c. wasBlocked w0 ids c} w"

lemma activatePredecessor_step:
  assumes good: "goodIds E" and wf: "wf_table v_id (w_versions w0)" and wf0: "wf_table cvs_id (w_states w0)"
    and doc: "map_of (w_documents w0) (v_documentId p) \<noteq> None"
    and p: "map_of (w_versions w0) (v_id p) = Some p" "v_id p \<notin> set ids" "v_id p \<noteq> v_id cur"
    and inv: "activated E w0 (v_id cur) ids w"
  shows "wp (activatePredecessor E d cur p) (\<lambda>_. activated E w0 (v_id cur) (ids @ [v_id p])) X w"
proof -
  let ?C = "\<lambda>s. cvs_versionId s \<in> set ids \<and> isOpen s"
  have vs: "w_versions w = mapRows (retireRow ids) (w_versions w0)"
    and act: "actInv E w0 (v_id cur) ?C {c. wasBlocked w0 ids c} w"
    using inv by (simp_all add: activated_def)
  define w1 where "w1 = afterEvent E (retiredEvent AkSYSTEM ACTIVATION_SWEEPER_ACTOR d p)
    (w\<lparr>w_versions := mapRows (retireRow (ids @ [v_id p])) (w_versions w0)\<rparr>)"
  have act1: "actInv E w0 (v_id cur) ?C {c. wasBlocked w0 ids c} w1"
    by (rule actInv_frame[OF act]) (simp_all add: w1_def sameCore_def)
  define L where "L = openOf (v_id p) (tvals (w_states w1))"
  have wfs: "wf_table cvs_id (w_states w1)" using actInvD(1)[OF act1] by (simp add: consentInv_def)
  have L: "map_of (w_states w0) (cvs_id x) = Some x" "cvs_versionId x = v_id p" "isOpen x" if x: "x \<in> set L" for x
  proof -
    from x have row: "map_of (w_states w1) (cvs_id x) = Some x" and ver: "cvs_versionId x = v_id p" and "isOpen x"
      using wfs by (auto simp: L_def tvals_map_of isOpen_def)
    then show "cvs_versionId x = v_id p" "isOpen x" by blast+
    show "map_of (w_states w0) (cvs_id x) = Some x"
    proof (cases "map_of (w_states w0) (cvs_id x)")
      case None
      from actInvD(5)[OF act1 None row] ver p(3) show ?thesis by simp
    next
      case (Some s)
      show ?thesis
      proof (cases "cvs_versionId s = v_id cur")
        case True
        with actInvD(4)[OF act1 Some True] row ver p(3) show ?thesis by auto
      next
        case False
        with actInvD(3)[OF act1 Some False] row \<open>isOpen x\<close> Some show ?thesis
          by (auto simp: isOpen_iff split: if_splits)
      qed
    qed
  qed
  have mem: "s \<in> set L \<longleftrightarrow> cvs_versionId s = v_id p \<and> isOpen s"
    if s: "map_of (w_states w0) k = Some s" "cvs_versionId s \<noteq> v_id cur" for k s
  proof
    assume "cvs_versionId s = v_id p \<and> isOpen s"
    moreover have "map_of (w_states w1) k = Some s" using actInvD(3)[OF act1 s] calculation p(2) by simp
    then have "s \<in> set (tvals (w_states w1))" using wfs by (rule tvals_lookup[rotated])
    ultimately show "s \<in> set L" by (simp add: L_def isOpen_def)
  qed (use L in auto)
  have exp: "c \<in> {c. wasBlocked w0 ids c} \<union> expiredOf L" if "wasBlocked w0 (ids @ [v_id p]) c" for c
  proof -
    from that obtain s where s: "s \<in> set (tvals (w_states w0))" "cvs_versionId s \<in> set ids \<or> cvs_versionId s = v_id p"
        "cvs_state s = EXPIRED_BLOCKING" "cvs_customerId s = c"
      by (auto simp: wasBlocked_def list_ex_iff)
    then show ?thesis
      using mem[of "cvs_id s" s] wf0 p(3)
      by (auto simp: wasBlocked_def list_ex_iff expiredOf_def tvals_map_of isOpen_iff)
  qed
  have "wp (forM L (\<lambda>x. bindM (supersedeOpen x) (\<lambda>b. whenM b (carryBlockOver E (cvs_customerId x) cur))))
      (\<lambda>_. activated E w0 (v_id cur) (ids @ [v_id p])) X w1"
  proof (rule wp_mono[OF supersedeLoop[OF good act1 wf0, of L]])
    show "distinct L" by (simp add: L_def distinct_tvals[OF wfs])
    show "map_of (w_states w0) (cvs_id x) = Some x \<and> \<not> ?C x \<and> cvs_versionId x \<noteq> v_id cur \<and> isOpen x"
      if "x \<in> set L" for x using L[OF that] p by simp
  next
    fix u w2
    assume post: "actInv E w0 (v_id cur) (\<lambda>s. ?C s \<or> s \<in> set L) ({c. wasBlocked w0 ids c} \<union> expiredOf L) w2
      \<and> w_versions w2 = w_versions w1"
    have "actInv E w0 (v_id cur) (\<lambda>s. cvs_versionId s \<in> set (ids @ [v_id p]) \<and> isOpen s)
        {c. wasBlocked w0 (ids @ [v_id p]) c} w2"
      by (rule actInv_cong[OF conjunct1[OF post]]) (use mem exp in auto)
    with post show "activated E w0 (v_id cur) (ids @ [v_id p]) w2" by (simp add: activated_def w1_def)
  qed
  moreover have "w_documents w = w_documents w0" using actInvD(2)[OF act] by (simp add: sameCore_def)
  ultimately show ?thesis
    using doc retire_update[OF wf p(1,2)]
    by (auto simp: activatePredecessor_def wp_simps vs L_def w1_def)
qed

section \<open>One document\<close>

definition docVersions :: "world \<Rightarrow> AgreementDocument \<Rightarrow> AgreementVersion list" where
  "docVersions w d = filter (\<lambda>v. v_documentId v = d_id d) (tvals (w_versions w))"

text \<open>The versions that the current one overtook.\<close>

definition overtaken :: "world \<Rightarrow> AgreementDocument \<Rightarrow> AgreementVersion \<Rightarrow> AgreementVersion list" where
  "overtaken w d cur = filter (\<lambda>v. v_id v \<noteq> v_id cur \<and> v_status v = PUBLISHED \<and> v_validFrom v \<le> w_now w)
     (docVersions w d)"

abbreviation currentOf :: "world \<Rightarrow> AgreementDocument \<Rightarrow> AgreementVersion option" where
  "currentOf w d \<equiv> findCurrentPublished w (d_type d) (d_audience d) (w_now w)"

lemma activated_start:
  assumes "consentInv E w" "w_states w' = w_states w" "w_versions w' = w_versions w" "sameCore w w'"
  shows "activated E w cur [] w'"
proof -
  have "consentInv E w'" by (rule consentInv_frame[OF assms(1)]) (use assms in \<open>simp_all add: sameCore_def\<close>)
  then show ?thesis
    using assms by (auto simp: activated_def mapRows_id wasBlocked_def list_ex_iff sameCore_def intro!: actInvI)
qed

lemma activateOne_wp:
  assumes good: "goodIds E" and inv: "consentInv E w" and cat: "catalogInv w"
    and d: "d \<in> set (tvals (w_documents w))"
  shows "wp (activateOne E d)
    (\<lambda>_ w'. case currentOf w d of
        None \<Rightarrow> w' = w
      | Some cur \<Rightarrow> if overtaken w d cur = [] then w' = w
          else activated E w (v_id cur) (map v_id (overtaken w d cur)) w') X w"
proof (cases "currentOf w d")
  case None
  then show ?thesis by (simp add: activateOne_def wp_simps)
next
  case (Some cur)
  let ?ps = "overtaken w d cur"
  have wf: "wf_table v_id (w_versions w)" and wfd: "wf_table d_id (w_documents w)"
    and wf0: "wf_table cvs_id (w_states w)"
    using cat inv by (simp_all add: catalogInv_def consentInv_def)
  have dist: "distinct (map v_id ?ps)"
    by (rule distinct_ids[OF wf]) (auto simp: overtaken_def docVersions_def distinct_tvals[OF wf])
  have "wp (forM ?ps (activatePredecessor E d cur)) (\<lambda>_. activated E w (v_id cur) (map v_id ?ps)) X w1"
    if w1: "activated E w (v_id cur) [] w1" for w1
  proof (rule wp_forM_inv[where I = "\<lambda>dn. activated E w (v_id cur) (map v_id dn)"])
    fix dn p rest w'
    assume ps: "?ps = dn @ p # rest" and I: "activated E w (v_id cur) (map v_id dn) w'"
    from ps have "p \<in> set ?ps" by simp
    then have p: "p \<in> set (tvals (w_versions w))" "v_documentId p = d_id d" "v_id p \<noteq> v_id cur"
      by (auto simp: overtaken_def docVersions_def)
    show "wp (activatePredecessor E d cur p) (\<lambda>_. activated E w (v_id cur) (map v_id (dn @ [p]))) X w'"
      using activatePredecessor_step[OF good wf wf0 _ _ _ p(3) I, of d X] p d dist ps wf wfd
      by (simp add: tvals_map_of)
  qed (use w1 in simp_all)
  then show ?thesis
    using Some activated_start[OF inv]
    by (auto simp: activateOne_def wp_simps overtaken_def docVersions_def Let_def sameCore_def)
qed

lemma findCurrentPublished_doc:
  "findByTypeAndAudience (w_documents w) (d_type d) (d_audience d) = Some d \<Longrightarrow>
     currentOf w d = (case sort_key (\<lambda>v. (- v_validFrom v, - orElse (v_publishedAt v) 0))
             (filter (\<lambda>v. v_status v = PUBLISHED \<and> v_validFrom v \<le> w_now w) (docVersions w d))
          of [] \<Rightarrow> None | v # _ \<Rightarrow> Some v)"
  by (simp add: findCurrentPublished_def docVersions_def conj_ac cong: conj_cong)

lemma sort_key_head:
  "(case sort_key f xs of [] \<Rightarrow> None | v # _ \<Rightarrow> Some v) = Some x \<Longrightarrow> x \<in> set xs"
  using set_sort[of f xs] by (cases "sort_key f xs") auto

lemma activateOne_total:
  assumes "goodIds E" "consentInv E w" "catalogInv w" "d \<in> set (tvals (w_documents w))"
  obtains w' where "activateOne E d w = (Inr (), w')"
    "case currentOf w d of
        None \<Rightarrow> w' = w
      | Some cur \<Rightarrow> if overtaken w d cur = [] then w' = w
          else activated E w (v_id cur) (map v_id (overtaken w d cur)) w'"
  using activateOne_wp[OF assms, of "\<lambda>_ _. False"] that
  by (auto simp: wp_def split: prod.splits sum.splits)

lemma activated_facts:
  assumes act: "activated E w cur ids w'" and wf: "wf_table cvs_id (w_states w)"
  shows "w_versions w' = mapRows (retireRow ids) (w_versions w)"
    and "sameCore (w\<lparr>w_states := w_states w', w_versions := w_versions w'\<rparr>) w'" and "consentInv E w'"
    and "s \<in> set (tvals (w_states w)) \<Longrightarrow> cvs_versionId s \<noteq> cur \<Longrightarrow>
      map_of (w_states w') (cvs_id s) = Some (closeRow ids s)"
    and "wasBlocked w ids c \<Longrightarrow> carriedFor w' cur c"
proof -
  have inv: "actInv E w cur (\<lambda>s. cvs_versionId s \<in> set ids \<and> isOpen s) {c. wasBlocked w ids c} w'"
    and "w_versions w' = mapRows (retireRow ids) (w_versions w)" using act by (simp_all add: activated_def)
  then show "w_versions w' = mapRows (retireRow ids) (w_versions w)"
    "sameCore (w\<lparr>w_states := w_states w', w_versions := w_versions w'\<rparr>) w'" "consentInv E w'"
    "wasBlocked w ids c \<Longrightarrow> carriedFor w' cur c"
    using actInvD[OF inv] by simp_all
  show "map_of (w_states w') (cvs_id s) = Some (closeRow ids s)"
    if "s \<in> set (tvals (w_states w))" "cvs_versionId s \<noteq> cur"
    using actInvD(3)[OF inv _ that(2)] that(1) wf by (simp add: tvals_map_of closeRow_def)
qed

definition settled :: "world \<Rightarrow> AgreementDocument \<Rightarrow> bool" where
  "settled w d \<longleftrightarrow> (case currentOf w d of None \<Rightarrow> True | Some cur \<Rightarrow> overtaken w d cur = [])"

lemma activated_settled:
  assumes cat: "catalogInv w" and uniq: "uniqueDocuments w" and d: "d \<in> set (tvals (w_documents w))"
    and cur: "currentOf w d = Some cur"
    and vs: "w_versions w' = mapRows (retireRow (map v_id (overtaken w d cur))) (w_versions w)"
    and same: "w_documents w' = w_documents w" "w_now w' = w_now w"
  shows "currentOf w' d = Some cur \<and> overtaken w' d cur = []"
proof -
  let ?ids = "map v_id (overtaken w d cur)"
  have wf: "wf_table v_id (w_versions w)" and wfd: "wf_table d_id (w_documents w)"
    using cat by (simp_all add: catalogInv_def)
  have "map_of (w_documents w) (d_id d) = Some d" using d wfd by (simp add: tvals_map_of)
  note doc = findByTypeAndAudience_unique[OF cat uniq this]
  have doc': "findByTypeAndAudience (w_documents w') (d_type d) (d_audience d) = Some d"
    using doc by (simp add: same)
  have "cur \<in> set (filter (\<lambda>v. v_status v = PUBLISHED \<and> v_validFrom v \<le> w_now w) (docVersions w d))"
    by (rule sort_key_head) (use cur in \<open>simp only: findCurrentPublished_doc[OF doc]\<close>)
  then have curp: "cur \<in> set (docVersions w d)" "v_status cur = PUBLISHED" "v_validFrom cur \<le> w_now w"
    by simp_all
  have rows: "docVersions w' d = map (retireRow ?ids) (docVersions w d)"
    unfolding docVersions_def vs tvals_mapRows by (simp add: filter_map comp_def)
  have no: "v_id cur \<notin> set ?ids" by (auto simp: overtaken_def)
  then have stays: "retireRow ?ids cur = cur" by (simp add: retireRow_def)
  have dist: "distinct (docVersions w' d)"
    unfolding docVersions_def vs
    by (intro distinct_filter distinct_tvals[of v_id] wf_table_mapRows[OF wf]) simp
  have "set (filter (\<lambda>v. v_status v = PUBLISHED \<and> v_validFrom v \<le> w_now w) (docVersions w' d)) = {cur}"
  proof (intro equalityI subsetI)
    fix x assume "x \<in> set (filter (\<lambda>v. v_status v = PUBLISHED \<and> v_validFrom v \<le> w_now w) (docVersions w' d))"
    then obtain v where v: "v \<in> set (docVersions w d)" "x = retireRow ?ids v" "v_status x = PUBLISHED" "v_validFrom x \<le> w_now w"
      by (auto simp: rows)
    then have "v_id v \<notin> set ?ids" "x = v" by (auto simp: retireRow_def split: if_splits)
    with v have "v_id v = v_id cur" by (auto simp: overtaken_def)
    with v(1) curp(1) have "v = cur" using tvals_key_inj[OF wf] by (auto simp: docVersions_def)
    with \<open>x = v\<close> show "x \<in> {cur}" by simp
  next
    fix x assume "x \<in> {cur}"
    with curp stays show "x \<in> set (filter (\<lambda>v. v_status v = PUBLISHED \<and> v_validFrom v \<le> w_now w) (docVersions w' d))"
      by (auto simp: rows intro: image_eqI[where x = cur])
  qed
  then have only: "filter (\<lambda>v. v_status v = PUBLISHED \<and> v_validFrom v \<le> w_now w) (docVersions w' d) = [cur]"
    by (intro singleton_list distinct_filter dist) simp
  then have "overtaken w' d cur = []"
    unfolding overtaken_def by (auto simp: filter_empty_conv same dest!: arg_cong[where f = set])
  with only show ?thesis using findCurrentPublished_doc[OF doc'] same by simp
qed

text \<open>C7: The flip of a scheduled version.  The sweep of a document whose applicable revision is
  \<open>cur\<close> cannot fail; it retires exactly the published versions in force that \<open>cur\<close> overtook and keeps
  \<open>cur\<close> the applicable revision; exactly their open states become SUPERSEDED (so none of them can be
  accepted tacitly afterwards) and no other state of another version changes; and every customer
  blocked by an expired state of theirs is blocked by the state of \<open>cur\<close>, unless that one is
  finished.  Acceptances are not touched and the consent invariant is kept.\<close>

theorem activation_correct:
  assumes "goodIds E" "consentInv E w" "catalogInv w" "uniqueDocuments w"
    and d: "d \<in> set (tvals (w_documents w))" and cur: "currentOf w d = Some cur"
  shows "\<exists>w'. activateOne E d w = (Inr (), w')
    \<and> w_versions w' = mapRows (retireRow (map v_id (overtaken w d cur))) (w_versions w)
    \<and> currentOf w' d = Some cur \<and> overtaken w' d cur = []
    \<and> (\<forall>s \<in> set (tvals (w_states w)). cvs_versionId s \<noteq> v_id cur \<longrightarrow>
         map_of (w_states w') (cvs_id s) = Some (closeRow (map v_id (overtaken w d cur)) s))
    \<and> (\<forall>c. wasBlocked w (map v_id (overtaken w d cur)) c \<longrightarrow> carriedFor w' (v_id cur) c)
    \<and> w_acceptances w' = w_acceptances w \<and> consentInv E w'"
proof -
  let ?ids = "map v_id (overtaken w d cur)"
  have wf0: "wf_table cvs_id (w_states w)" using assms(2) by (simp add: consentInv_def)
  obtain w' where run: "activateOne E d w = (Inr (), w')"
    and post: "if overtaken w d cur = [] then w' = w else activated E w (v_id cur) ?ids w'"
    using activateOne_total[OF assms(1-3) d] cur by auto
  show ?thesis
  proof (cases "overtaken w d cur = []")
    case True
    with run post cur assms(2) wf0 show ?thesis
      by (auto simp: mapRows_id wasBlocked_def list_ex_iff tvals_map_of)
  next
    case False
    with post have act: "activated E w (v_id cur) ?ids w'" by simp
    note facts = activated_facts[OF act wf0]
    have "currentOf w' d = Some cur \<and> overtaken w' d cur = []"
      by (rule activated_settled[OF assms(3,4) d cur facts(1)]) (use facts(2) in \<open>simp_all add: sameCore_def\<close>)
    with run facts show ?thesis by (simp add: sameCore_def)
  qed
qed

text \<open>The scheduled version comes into force at time 60 while the customer is blocked by the old one,
  and no state of the customer for the new version exists.\<close>

definition flip_ver_ex :: AgreementVersion where
  "flip_ver_ex = ver_ex\<lparr>v_id := ''v2'', v_validFrom := 60\<rparr>"

definition flip_world_ex :: world where
  "flip_world_ex = blocked_world_ex\<lparr>w_versions := [(''v'', ver_ex), (''v2'', flip_ver_ex)]\<rparr>"

lemma flip_world_inv: "consentInv env_ex flip_world_ex" "catalogInv flip_world_ex" "uniqueDocuments flip_world_ex"
proof -
  show "consentInv env_ex flip_world_ex"
    by (rule consentInv_frame[OF blocked_world_inv(1)]) (simp_all add: flip_world_ex_def)
  show "catalogInv flip_world_ex" "uniqueDocuments flip_world_ex"
    using blocked_world_inv(2)
    by (simp_all add: catalogInv_def flip_world_ex_def wf_table_def ver_ex_def flip_ver_ex_def uniqueDocuments_def
        blocked_world_ex_def world_ex_def tvals_def)
qed

lemma flip_current: "currentOf flip_world_ex doc_ex = Some flip_ver_ex"
  by (simp add: findCurrentPublished_def findByTypeAndAudience_def flip_world_ex_def blocked_world_ex_def
      world_ex_def emptyWorld_def tvals_def doc_ex_def ver_ex_def flip_ver_ex_def insort_key_def less_eq_prod_def less_prod_def)

lemma activation_correct_witness:
  "\<exists>w'. activateOne env_ex doc_ex flip_world_ex = (Inr (), w')
    \<and> map_option cvs_state (map_of (w_states w') ''cvs-00000000'') = Some SUPERSEDED
    \<and> carriedFor w' ''v2'' ''c''"
proof -
  have [simp]: "overtaken flip_world_ex doc_ex flip_ver_ex = [ver_ex]"
    by (simp add: overtaken_def docVersions_def flip_world_ex_def tvals_def ver_ex_def flip_ver_ex_def doc_ex_def
        blocked_world_ex_def world_ex_def emptyWorld_def)
  have [simp]: "v_id ver_ex = ''v''" "v_id flip_ver_ex = ''v2''" by (simp_all add: ver_ex_def flip_ver_ex_def)
  have d: "doc_ex \<in> set (tvals (w_documents flip_world_ex))"
    by (simp add: flip_world_ex_def blocked_world_ex_def world_ex_def tvals_def)
  have st: "tvals (w_states flip_world_ex) = [state_ex\<lparr>cvs_state := EXPIRED_BLOCKING\<rparr>]"
    by (simp add: flip_world_ex_def blocked_world_ex_def tvals_def)
  from activation_correct[OF goodIds_ex flip_world_inv d flip_current]
  show ?thesis
    by (auto simp: st wasBlocked_def closeRow_def isOpen_iff state_ex_def newState_def)
qed

section \<open>The run\<close>

definition goodWorld :: "env \<Rightarrow> world \<Rightarrow> bool" where
  "goodWorld E w \<longleftrightarrow> consentInv E w \<and> catalogInv w \<and> uniqueDocuments w"

lemma goodWorld_ex: "goodWorld env_ex flip_world_ex"
  using flip_world_inv by (simp add: goodWorld_def)

lemma settled_cong:
  assumes "goodWorld E w" "d \<in> set (tvals (w_documents w))" "w_documents w' = w_documents w" "w_now w' = w_now w"
    and "docVersions w' d = docVersions w d"
  shows "settled w' d = settled w d"
proof -
  have "map_of (w_documents w) (d_id d) = Some d"
    using assms(1,2) tvals_map_of[of d_id "w_documents w" d] by (simp add: goodWorld_def catalogInv_def)
  then have doc: "findByTypeAndAudience (w_documents w) (d_type d) (d_audience d) = Some d"
    using assms(1) findByTypeAndAudience_unique by (auto simp: goodWorld_def)
  then have "currentOf w' d = currentOf w d"
    using findCurrentPublished_doc[of w d] findCurrentPublished_doc[of w' d] assms(3-5) by simp
  moreover have "overtaken w' d = overtaken w d" using assms(3-5) by (simp add: overtaken_def fun_eq_iff)
  ultimately show ?thesis by (simp add: settled_def cong: option.case_cong)
qed

lemma retired_other_document:
  assumes "catalogInv w" "d \<in> set (tvals (w_documents w))" "d' \<in> set (tvals (w_documents w))" "d' \<noteq> d"
  shows "filter (\<lambda>v. v_documentId v = d_id d') (map (retireRow (map v_id (overtaken w d cur))) (tvals (w_versions w)))
    = docVersions w d'"
proof -
  have ne: "d_id d' \<noteq> d_id d"
    using assms tvals_key_inj[of d_id "w_documents w" d' d] by (auto simp: catalogInv_def)
  have wf: "wf_table v_id (w_versions w)" using assms(1) by (simp add: catalogInv_def)
  have "retireRow (map v_id (overtaken w d cur)) v = v"
    if v: "v \<in> set (tvals (w_versions w))" "v_documentId v = d_id d'" for v
  proof -
    have "v_id v \<noteq> v_id x" if "x \<in> set (overtaken w d cur)" for x
      using that v ne tvals_key_inj[OF wf v(1), of x] by (auto simp: overtaken_def docVersions_def)
    then show ?thesis by (auto simp: retireRow_def)
  qed
  then show ?thesis unfolding docVersions_def by (intro filter_map_same) simp_all
qed

lemma activateOne_good:
  assumes good: "goodIds E" and gw: "goodWorld E w" and d: "d \<in> set (tvals (w_documents w))"
  shows "\<exists>w'. activateOne E d w = (Inr (), w') \<and> goodWorld E w' \<and> settled w' d
    \<and> w_documents w' = w_documents w \<and> w_now w' = w_now w
    \<and> (\<forall>d' \<in> set (tvals (w_documents w)). d' \<noteq> d \<longrightarrow> docVersions w' d' = docVersions w d')
    \<and> (settled w d \<longrightarrow> w' = w)"
proof -
  have inv: "consentInv E w" "catalogInv w" "uniqueDocuments w" using gw by (simp_all add: goodWorld_def)
  have wf0: "wf_table cvs_id (w_states w)" using inv by (simp add: consentInv_def)
  obtain w' where run: "activateOne E d w = (Inr (), w')"
    and post: "case currentOf w d of None \<Rightarrow> w' = w
      | Some cur \<Rightarrow> if overtaken w d cur = [] then w' = w
          else activated E w (v_id cur) (map v_id (overtaken w d cur)) w'"
    using activateOne_total[OF good inv(1,2) d] by blast
  show ?thesis
  proof (cases "settled w d")
    case True
    with post have "w' = w" by (auto simp: settled_def split: option.splits)
    with run gw True show ?thesis by auto
  next
    case False
    then obtain cur where cur: "currentOf w d = Some cur" "overtaken w d cur \<noteq> []"
      by (auto simp: settled_def split: option.splits)
    with post have act: "activated E w (v_id cur) (map v_id (overtaken w d cur)) w'" by simp
    note facts = activated_facts[OF act wf0]
    have same: "w_documents w' = w_documents w" "w_now w' = w_now w" "w_customers w' = w_customers w"
      using facts(2) by (simp_all add: sameCore_def)
    have "catalogInv w'" using inv(2) facts(1) same by (simp add: catalogInv_def wf_table_mapRows)
    moreover have "uniqueDocuments w'" using inv(3) same by (simp add: uniqueDocuments_def)
    moreover have "settled w' d"
      using activated_settled[OF inv(2,3) d cur(1) facts(1) same(1,2)] by (simp add: settled_def)
    moreover have "docVersions w' d' = docVersions w d'" if "d' \<in> set (tvals (w_documents w))" "d' \<noteq> d" for d'
      using retired_other_document[OF inv(2) d that, of cur] by (simp add: docVersions_def facts(1))
    ultimately show ?thesis using run facts(3) same False by (auto simp: goodWorld_def)
  qed
qed

lemma activation_loop:
  assumes good: "goodIds E" and gw: "goodWorld E w"
  shows "wp (forM (tvals (w_documents w)) (\<lambda>d. thenM (attemptM (activateOne E d)) (retM ())))
    (\<lambda>_ w'. goodWorld E w' \<and> w_documents w' = w_documents w
       \<and> w_now w' = w_now w \<and> (\<forall>d \<in> set (tvals (w_documents w)). settled w' d)) X w"
proof (rule wp_forM_inv[where I = "\<lambda>dn w'. goodWorld E w' \<and> w_documents w' = w_documents w
    \<and> w_now w' = w_now w \<and> (\<forall>d \<in> set dn. settled w' d)"])
  fix dn d rest w'
  assume split: "tvals (w_documents w) = dn @ d # rest"
    and I: "goodWorld E w' \<and> w_documents w' = w_documents w \<and> w_now w' = w_now w \<and> (\<forall>d \<in> set dn. settled w' d)"
  have d: "d \<in> set (tvals (w_documents w'))" using split I by simp
  have "distinct (tvals (w_documents w))"
    using gw by (auto simp: goodWorld_def catalogInv_def intro: distinct_tvals)
  then have "d \<notin> set dn" using split by simp
  obtain w2 where run: "activateOne E d w' = (Inr (), w2)" "goodWorld E w2" "settled w2 d"
      "w_documents w2 = w_documents w'" "w_now w2 = w_now w'"
    and other: "\<forall>d' \<in> set (tvals (w_documents w')). d' \<noteq> d \<longrightarrow> docVersions w2 d' = docVersions w' d'"
    using activateOne_good[OF good conjunct1[OF I] d] by blast
  have "settled w2 d'" if "d' \<in> set dn" for d'
  proof -
    have "d' \<in> set (tvals (w_documents w'))" "d' \<noteq> d" using that split I \<open>d \<notin> set dn\<close> by auto
    with settled_cong[OF conjunct1[OF I] _ run(4,5)] other that I show ?thesis by simp
  qed
  with run I show "wp (thenM (attemptM (activateOne E d)) (retM ()))
    (\<lambda>_ w'. goodWorld E w' \<and> w_documents w' = w_documents w \<and> w_now w' = w_now w
       \<and> (\<forall>d \<in> set (dn @ [d]). settled w' d)) X w'"
    by (simp add: wp_simps) (simp add: wp_def retM_def)
qed (use gw in simp_all)

lemma activation_loop_settled:
  assumes "goodIds E" "goodWorld E w" "\<forall>d \<in> set ds. settled w d" "set ds \<subseteq> set (tvals (w_documents w))"
  shows "forM ds (\<lambda>d. thenM (attemptM (activateOne E d)) (retM ())) w = (Inr (), w)"
  using assms(3,4)
proof (induction ds)
  case (Cons d ds)
  obtain w2 where "activateOne E d w = (Inr (), w2)" "settled w d \<longrightarrow> w2 = w"
    using activateOne_good[OF assms(1,2), of d] Cons.prems by auto
  with Cons show ?case by (simp add: action_defs)
qed (simp add: retM_def)

text \<open>C16: The activation run never fails, keeps the invariants, and leaves no overtaken version
  behind: run again at the same time, it changes nothing at all.\<close>

theorem activation_run_idempotent:
  assumes "goodIds E" "goodWorld E w"
  shows "case activation_run E w of (r, w') \<Rightarrow>
     r = Inr () \<and> goodWorld E w' \<and> activation_run E w' = (Inr (), w')"
proof (cases "e_sweeperEnabled E")
  case False
  with assms show ?thesis by (simp add: activation_run_def isSweeperEnabled_def action_defs)
next
  case True
  have run: "activation_run E w = forM (tvals (w_documents w)) (\<lambda>d. thenM (attemptM (activateOne E d)) (retM ())) w" for w
    using True by (simp add: activation_run_def isSweeperEnabled_def documents_findAll_def whenM_def bindM_def getsM_def)
  obtain w' where w': "activation_run E w = (Inr (), w')" "goodWorld E w'" "w_documents w' = w_documents w"
      "\<forall>d \<in> set (tvals (w_documents w)). settled w' d"
    using activation_loop[OF assms, of "\<lambda>_ _. False"] that
    by (auto simp: wp_def run split: prod.splits sum.splits)
  have "activation_run E w' = (Inr (), w')"
    unfolding run by (rule activation_loop_settled[OF assms(1) w'(2)]) (use w' in simp_all)
  with w' show ?thesis by simp
qed

lemma activation_run_idempotent_witness:
  "\<exists>w'. activation_run env_ex flip_world_ex = (Inr (), w') \<and> activation_run env_ex w' = (Inr (), w')"
  using activation_run_idempotent[OF goodIds_ex goodWorld_ex] by (auto split: prod.splits)

end
