(* ===== verification/Deadline_Facts.thy ===== *)
theory Deadline_Facts
  imports Sweepers Publish_Facts
begin

text \<open>
  The deadline sweeper: every state whose deadline is reached moves as \<open>sweep\<close> says, a tacit
  acceptance gets its evidence, and nothing else changes.  Then the reminder job and the rollout
  notifications.
\<close>

section \<open>The deadline run\<close>

text \<open>One state for a customer and a version (a unique index of the database).\<close>

definition uniquePairs :: "CustomerVersionState table \<Rightarrow> bool" where
  "uniquePairs t \<longleftrightarrow> distinct (map (\<lambda>s. (cvs_customerId s, cvs_versionId s)) (tvals t))"

definition sweptRow :: "world \<Rightarrow> CustomerVersionState \<Rightarrow> CustomerVersionState" where
  "sweptRow w s = (case map_of (w_versions w) (cvs_versionId s) of
     None \<Rightarrow> s | Some v \<Rightarrow> sr_state (sweep s v (w_now w)))"

definition tacitDue :: "world \<Rightarrow> CustomerVersionState \<Rightarrow> bool" where
  "tacitDue w s \<longleftrightarrow> (case map_of (w_versions w) (cvs_versionId s) of
     None \<Rightarrow> False | Some v \<Rightarrow> sr_outcome (sweep s v (w_now w)) = TACIT_ACCEPTED)"

text \<open>The evidence of a tacit acceptance.\<close>

definition tacitEvidence :: "world \<Rightarrow> Acceptance \<Rightarrow> CustomerVersionState \<Rightarrow> bool" where
  "tacitEvidence w a s \<longleftrightarrow>
     a_customerId a = cvs_customerId s \<and> a_versionId a = cvs_versionId s
     \<and> a_method a = TACIT \<and> a_channel a = ChSYSTEM \<and> a_acceptedAt a = w_now w
     \<and> a_actor a = SWEEPER_SYSTEM_ACTOR \<and> a_isEffective a
     \<and> (case map_of (w_versions w) (cvs_versionId s) of
          None \<Rightarrow> False
        | Some v \<Rightarrow> a_contentHash a = Some (v_contentHash v) \<and> a_consentText a = v_consentText v
            \<and> a_consentTextHash a = map_option (\<lambda>t. ''sha256:'' @ sha256Hex t) (v_consentText v))"

lemma tacitAcceptance_ok:
  "\<exists>a. tacitAcceptance i s v at = Inr a \<and> a_id a = i \<and> a_customerId a = cvs_customerId s
     \<and> a_versionId a = cvs_versionId s \<and> a_method a = TACIT \<and> a_channel a = ChSYSTEM \<and> a_acceptedAt a = at
     \<and> a_actor a = SWEEPER_SYSTEM_ACTOR \<and> a_isEffective a \<and> a_contentHash a = Some (v_contentHash v)
     \<and> a_consentText a = v_consentText v
     \<and> a_consentTextHash a = map_option (\<lambda>t. ''sha256:'' @ sha256Hex t) (v_consentText v)"
  by (auto simp: tacitAcceptance_def consentTextHashFor_def split: option.splits)

lemma sweep_pair: "samePair s (sr_state (sweep s v now))"
  by (cases rule: sweep_cases[of s v now]) (simp_all add: samePair_def)

lemma sweptRow_pair: "samePair s (sweptRow w s)"
  using sweep_pair by (auto simp: sweptRow_def samePair_def split: option.splits)

lemma not_due: "\<not> dueForSweep now s \<Longrightarrow> sweep s v now = \<lparr>sr_state = s, sr_outcome = NOOP\<rparr>"
  by (cases rule: sweep_cases[of s v now]) (auto simp: dueForSweep_def SWEEPABLE_STATES_def)

lemma tacit_is_due: "sr_outcome (sweep s v now) = TACIT_ACCEPTED \<Longrightarrow> dueForSweep now s"
  using not_due by (metis SweepOutcome.distinct(3) SweepResult.select_convs(2))

lemma stateFor_unique:
  assumes "uniquePairs t" "s \<in> set (tvals t)"
  shows "stateFor (tvals t) (cvs_customerId s) (cvs_versionId s) = Some s"
proof (cases "stateFor (tvals t) (cvs_customerId s) (cvs_versionId s)")
  case None
  from stateFor_NoneD[OF None assms(2)] show ?thesis by simp
next
  case (Some x)
  from stateFor_SomeD[OF Some] assms have "x = s" by (auto simp: uniquePairs_def distinct_map dest: inj_onD)
  with Some show ?thesis by simp
qed

lemma no_acceptance:
  assumes "consentInv E w" "uniquePairs (w_states w)" "s \<in> set (tvals (w_states w))" "cvs_state s \<noteq> ACCEPTED"
  shows "effectiveFor (w_acceptances w) (cvs_customerId s) (cvs_versionId s) = None"
proof (rule ccontr)
  assume "effectiveFor (w_acceptances w) (cvs_customerId s) (cvs_versionId s) \<noteq> None"
  with assms(1) have "accepted (stateFor (tvals (w_states w)) (cvs_customerId s) (cvs_versionId s))"
    unfolding consentInv_def by blast
  with assms(4) show False by (simp add: stateFor_unique[OF assms(2,3)] accepted_def)
qed

text \<open>What has been swept so far, relative to the world at the start.\<close>

definition sweptSoFar :: "env \<Rightarrow> world \<Rightarrow> CustomerVersionState list \<Rightarrow> world \<Rightarrow> bool" where
  "sweptSoFar E w0 dn w \<longleftrightarrow>
     w_states w = mapRows (\<lambda>s. if s \<in> set dn then sweptRow w0 s else s) (w_states w0)
     \<and> (\<exists>new. tvals (w_acceptances w) = tvals (w_acceptances w0) @ new
          \<and> list_all2 (tacitEvidence w0) new (filter (tacitDue w0) dn))
     \<and> consentInv E w
     \<and> sameCore (w0\<lparr>w_states := w_states w, w_acceptances := w_acceptances w\<rparr>) w"

lemma list_all2_snoc: "list_all2 P xs ys \<Longrightarrow> P x y \<Longrightarrow> list_all2 P (xs @ [x]) (ys @ [y])"
  by (simp add: list_all2_appendI)

lemma uniquePairs_swept:
  assumes "sweptSoFar E w0 dn w" "uniquePairs (w_states w0)"
  shows "uniquePairs (w_states w)"
proof -
  have "map (\<lambda>s. (cvs_customerId s, cvs_versionId s)) (tvals (w_states w))
      = map (\<lambda>s. (cvs_customerId s, cvs_versionId s)) (tvals (w_states w0))"
    using assms(1) sweptRow_pair by (auto simp: sweptSoFar_def samePair_def)
  with assms(2) show ?thesis by (simp add: uniquePairs_def)
qed

lemma sweptSoFar_frame:
  assumes "sweptSoFar E w0 dn w" "sameCore w w'"
  shows "sweptSoFar E w0 dn w'"
proof -
  have "consentInv E w'"
    by (rule consentInv_frame[of E w]) (use assms in \<open>simp_all add: sweptSoFar_def sameCore_def\<close>)
  then show ?thesis using assms by (simp add: sweptSoFar_def sameCore_def)
qed

lemma swept_noop:
  assumes "sweptSoFar E w0 dn w" "sweptRow w0 s = s" "\<not> tacitDue w0 s"
  shows "sweptSoFar E w0 (dn @ [s]) w"
proof -
  have "(\<lambda>x. if x \<in> set (dn @ [s]) then sweptRow w0 x else x) = (\<lambda>x. if x \<in> set dn then sweptRow w0 x else x)"
    using assms(2) by auto
  with assms(1,3) show ?thesis by (simp add: sweptSoFar_def sameCore_def)
qed

text \<open>The effect of the sweep on one row: the row is rewritten; if it is accepted, an acceptance of the
  pair is appended.\<close>

lemma swept_write:
  assumes inv: "sweptSoFar E w0 dn w" and wf0: "wf_table cvs_id (w_states w0)"
    and s: "s \<in> set (tvals (w_states w0))" "s \<notin> set dn"
    and w': "w_states w' = AList.update (cvs_id s) (sweptRow w0 s) (w_states w)"
      "sameCore (w\<lparr>w_states := w_states w', w_acceptances := w_acceptances w'\<rparr>) w'"
    and acc: "if tacitDue w0 s then (\<exists>a. tvals (w_acceptances w') = tvals (w_acceptances w) @ [a] \<and> tacitEvidence w0 a s)
      else w_acceptances w' = w_acceptances w"
    and cons: "consentInv E w'"
  shows "sweptSoFar E w0 (dn @ [s]) w'"
proof -
  have "w_states w' = mapRows (\<lambda>x. if x \<in> set (dn @ [s]) then sweptRow w0 x else x) (w_states w0)"
    using inv w'(1) update_row[where g = "sweptRow w0", OF wf0 s] sweptRow_pair
    by (simp add: sweptSoFar_def samePair_def)
  moreover obtain new where new: "tvals (w_acceptances w) = tvals (w_acceptances w0) @ new"
      "list_all2 (tacitEvidence w0) new (filter (tacitDue w0) dn)"
    using inv by (auto simp: sweptSoFar_def)
  then have "\<exists>new. tvals (w_acceptances w') = tvals (w_acceptances w0) @ new
      \<and> list_all2 (tacitEvidence w0) new (filter (tacitDue w0) (dn @ [s]))"
  proof (cases "tacitDue w0 s")
    case True
    with acc obtain a where "tvals (w_acceptances w') = tvals (w_acceptances w) @ [a]" "tacitEvidence w0 a s" by auto
    with new True show ?thesis by (intro exI[of _ "new @ [a]"]) (simp add: list_all2_snoc)
  qed (use acc new in auto)
  ultimately show ?thesis
    using inv w' cons by (simp add: sweptSoFar_def sameCore_def)
qed

lemma sweepOne_step:
  assumes good: "goodIds E" and conf: "best_effort (callConfirmation conf)"
    and inv: "sweptSoFar E w0 dn w" and wf0: "wf_table cvs_id (w_states w0)"
    and uniq: "uniquePairs (w_states w0)"
    and s: "s \<in> set (tvals (w_states w0))" "s \<notin> set dn"
  shows "wp (sweepOne E conf s) (\<lambda>_. sweptSoFar E w0 (dn @ [s])) (\<lambda>_ _. False) w"
proof (cases "map_of (w_versions w0) (cvs_versionId s)")
  case None
  then have "sweptSoFar E w0 (dn @ [s]) w"
    by (intro swept_noop[OF inv]) (simp_all add: sweptRow_def tacitDue_def)
  moreover have "w_versions w = w_versions w0" using inv by (simp add: sweptSoFar_def sameCore_def)
  ultimately show ?thesis using None by (simp add: sweepOne_def wp_simps)
next
  case v: (Some v)
  have same: "w_versions w = w_versions w0" "w_now w = w_now w0" and cons: "consentInv E w"
    using inv by (simp_all add: sweptSoFar_def sameCore_def)
  have row: "map_of (w_states w) (cvs_id s) = Some s"
    using inv s wf0 by (simp add: sweptSoFar_def tvals_map_of)
  have wf: "wf_table cvs_id (w_states w)" using cons by (simp add: consentInv_def)
  define r where "r = sweep s v (w_now w0)"
  have swept: "sweptRow w0 s = sr_state r" and tacit: "tacitDue w0 s \<longleftrightarrow> sr_outcome r = TACIT_ACCEPTED"
    using v by (simp_all add: sweptRow_def tacitDue_def r_def)
  note writes = swept_write[OF inv wf0 s, unfolded swept tacit]
  show ?thesis
  proof (cases rule: sweep_cases[of s v "w_now w0"])
    case noop
    then have "sweptSoFar E w0 (dn @ [s]) w"
      by (intro swept_noop[OF inv]) (simp_all add: swept tacit r_def)
    then show ?thesis using noop v same by (simp add: sweepOne_def wp_simps)
  next
    case (blocking t)
    define w1 where "w1 = w\<lparr>w_states := AList.update (cvs_id s) (s\<lparr>cvs_state := EXPIRED_BLOCKING\<rparr>) (w_states w)\<rparr>"
    have "consentInv E w1"
      by (rule consentInv_update[OF cons row, of "s\<lparr>cvs_state := EXPIRED_BLOCKING\<rparr>"])
         (use blocking in \<open>auto simp: w1_def samePair_def\<close>)
    then have "sweptSoFar E w0 (dn @ [s]) w1"
      by (intro writes) (use blocking in \<open>simp_all add: w1_def r_def sameCore_def\<close>)
    then have "sweptSoFar E w0 (dn @ [s]) w'" if "sameCore w1 w'" for w' using sweptSoFar_frame that by blast
    then show ?thesis
      using blocking v same row by (simp add: sweepOne_def wp_simps w1_def sameCore_def)
  next
    case (tacit t)
    define s' where "s' = s\<lparr>cvs_state := ACCEPTED\<rparr>"
    define aid where "aid = e_uuid E (w_uuid w)"
    obtain a where a: "tacitAcceptance aid s v (w_now w0) = Inr a" and f: "a_id a = aid"
        "a_customerId a = cvs_customerId s" "a_versionId a = cvs_versionId s" "a_isEffective a"
      and ev: "tacitEvidence w0 a s"
      using tacitAcceptance_ok[of aid s v "w_now w0"] v by (auto simp: tacitEvidence_def)
    have same': "samePair s s'" by (simp add: s'_def samePair_def)
    have noeff: "effectiveFor (w_acceptances w) (cvs_customerId s) (cvs_versionId s) = None"
      using no_acceptance[OF cons uniquePairs_swept[OF inv uniq]] row wf tacit by (simp add: tvals_lookup)
    have afresh: "map_of (w_acceptances w) aid = None"
      using fresh_a(2)[OF good, of "w_acceptances w" "w_uuid w"] cons by (simp add: consentInv_def aid_def)
    define w1 where "w1 = w\<lparr>w_states := AList.update (cvs_id s) s' (w_states w), w_uuid := Suc (w_uuid w),
      w_acceptances := AList.update aid a (w_acceptances w)\<rparr>"
    have "s \<in> set (tvals (w_states w))" using row wf by (simp add: tvals_lookup)
    note found = stateFor_unique[OF uniquePairs_swept[OF inv uniq] this]
    have "a_id a \<in> drawnIds E [''a-'', []] (w_uuid w1)"
      using drawn_new[of "[]" "[''a-'', []]" "w_uuid w" "w_uuid w1" E] by (simp add: f aid_def w1_def)
    then have "consentInv E w1"
      using consentInv_accept_row[OF cons, of a s w1] found f noeff afresh by (simp add: w1_def s'_def)
    then have "sweptSoFar E w0 (dn @ [s]) w1"
      by (intro writes) (use tacit ev in \<open>simp_all add: w1_def r_def s'_def sameCore_def tvals_update_fresh[OF afresh]\<close>)
    then have "sweptSoFar E w0 (dn @ [s]) w'" if "sameCore w1 w'" for w' using sweptSoFar_frame that by blast
    then show ?thesis
      using tacit v same row a f noeff afresh
      by (auto simp: sweepOne_def wp_simps w1_def s'_def aid_def sameCore_def intro!: best_effort.wp_run[OF conf])
  qed
qed

lemma deadline_run_swept:
  assumes good: "goodIds E" and inv: "consentInv E w" and uniq: "uniquePairs (w_states w)"
    and conf: "best_effort (callConfirmation conf)" and on: "isSweeperEnabled E"
  shows "\<exists>w' new. deadline_run E conf w = (Inr (), w')
    \<and> w_states w' = mapRows (sweptRow w) (w_states w)
    \<and> tvals (w_acceptances w') = tvals (w_acceptances w) @ new
    \<and> list_all2 (tacitEvidence w) new (filter (tacitDue w) (tvals (w_states w)))
    \<and> sameCore (w\<lparr>w_states := w_states w', w_acceptances := w_acceptances w'\<rparr>) w' \<and> consentInv E w'"
proof -
  let ?L = "filter (dueForSweep (w_now w)) (tvals (w_states w))"
  have wf0: "wf_table cvs_id (w_states w)" using inv by (simp add: consentInv_def)
  have "wp (forM ?L (\<lambda>s. thenM (attemptM (sweepOne E conf s)) (retM ()))) (\<lambda>_. sweptSoFar E w ?L) (\<lambda>_ _. False) w"
  proof (rule wp_forM_inv[where I = "sweptSoFar E w"])
    show "sweptSoFar E w [] w" using inv by (simp add: sweptSoFar_def mapRows_id sameCore_def)
  next
    fix dn s rest w'
    assume split: "?L = dn @ s # rest" and I: "sweptSoFar E w dn w'"
    have "distinct ?L" by (intro distinct_filter distinct_tvals[OF wf0])
    then have "s \<notin> set dn" using split by simp
    moreover have "s \<in> set ?L" unfolding split by simp
    then have "s \<in> set (tvals (w_states w))" by simp
    ultimately have s: "s \<in> set (tvals (w_states w))" "s \<notin> set dn" by simp_all
    show "wp (thenM (attemptM (sweepOne E conf s)) (retM ())) (\<lambda>_. sweptSoFar E w (dn @ [s])) (\<lambda>_ _. False) w'"
      unfolding wp_then wp_attempt
      by (rule wp_mono[OF sweepOne_step[OF good conf I wf0 uniq s]]) (simp_all add: wp_simps)
  qed simp
  then have "wp (deadline_run E conf) (\<lambda>_. sweptSoFar E w ?L) (\<lambda>_ _. False) w"
    using on by (simp add: deadline_run_def wp_simps)
  then obtain w' where run: "deadline_run E conf w = (Inr (), w')" and post: "sweptSoFar E w ?L w'"
    by (auto simp: wp_def split: prod.splits sum.splits)
  have "mapRows (\<lambda>s. if s \<in> set ?L then sweptRow w s else s) (w_states w) = mapRows (sweptRow w) (w_states w)"
    by (rule mapRows_cong) (auto simp: sweptRow_def not_due split: option.splits)
  moreover have "filter (tacitDue w) ?L = filter (tacitDue w) (tvals (w_states w))"
    by (auto simp: tacitDue_def split: option.splits intro!: filter_cong dest: tacit_is_due)
  ultimately show ?thesis using run post by (auto simp: sweptSoFar_def sameCore_def)
qed

text \<open>C15: The deadline run, completely, for the wired confirmation and rollout states that are unique for
  their customer and version (the table of the database is, by a constraint).  It never fails.  With the sweeper
  disabled it does nothing; enabled, every rollout state moves as \<open>sweep\<close> says at
  the time of the run and no other row changes; exactly the states that were accepted tacitly get one
  acceptance each, with the system actor, the server's time and the texts of the version; beside states,
  acceptances, activity log, sent mails and permanent links no table changes, and the consent invariant is
  kept.\<close>

theorem deadline_run_correct:
  assumes good: "goodIds E" and inv: "consentInv E w" and uniq: "uniquePairs (w_states w)"
    and conf: "wiredConfirmation E conf"
  shows "if \<not> isSweeperEnabled E then deadline_run E conf w = (Inr (), w)
    else \<exists>w' new. deadline_run E conf w = (Inr (), w')
      \<and> w_states w' = mapRows (sweptRow w) (w_states w)
      \<and> tvals (w_acceptances w') = tvals (w_acceptances w) @ new
      \<and> list_all2 (tacitEvidence w) new (filter (tacitDue w) (tvals (w_states w)))
      \<and> sameCore (w\<lparr>w_states := w_states w', w_acceptances := w_acceptances w'\<rparr>) w' \<and> consentInv E w'"
proof (cases "isSweeperEnabled E")
  case True
  from deadline_run_swept[OF good inv uniq wiredConfirmation_quiet[OF conf] True] show ?thesis by (simp only: True not_True_eq_False if_False)
next
  case False
  then show ?thesis by (simp add: deadline_run_def whenM_def retM_def)
qed

lemma deadline_run_correct_witness:
  "\<exists>w' a. deadline_run env_ex confirmation_ex (world_ex\<lparr>w_now := 1000\<rparr>) = (Inr (), w')
    \<and> tvals (w_acceptances w') = [a] \<and> a_method a = TACIT \<and> a_customerId a = ''c''
    \<and> map cvs_state (tvals (w_states w')) = [ACCEPTED]"
proof -
  let ?w = "world_ex\<lparr>w_now := 1000\<rparr>"
  have inv: "consentInv env_ex ?w" by (rule consentInv_frame[OF consentInv_ex]) simp_all
  have states: "tvals (w_states ?w) = [state_ex]" by (simp add: world_ex_def tvals_def)
  have uniq: "uniquePairs (w_states ?w)" unfolding uniquePairs_def states by simp
  have swept: "sweep state_ex ver_ex 1000 = \<lparr>sr_state = state_ex\<lparr>cvs_state := ACCEPTED\<rparr>, sr_outcome = TACIT_ACCEPTED\<rparr>"
    by (simp add: sweep_def state_ex_def newState_def ver_ex_def)
  have v: "map_of (w_versions ?w) (cvs_versionId state_ex) = Some ver_ex"
    by (simp add: world_ex_def state_ex_def newState_def)
  have on: "(\<not> isSweeperEnabled env_ex) = False" by (simp add: isSweeperEnabled_def env_ex_def)
  from deadline_run_correct[OF goodIds_ex inv uniq wired_senders_ex(1), unfolded on if_False]
  obtain w' new where "deadline_run env_ex confirmation_ex ?w = (Inr (), w')" "w_states w' = mapRows (sweptRow ?w) (w_states ?w)"
      "tvals (w_acceptances w') = tvals (w_acceptances ?w) @ new"
      "list_all2 (tacitEvidence ?w) new (filter (tacitDue ?w) (tvals (w_states ?w)))" by blast
  moreover have "w_now ?w = 1000" "w_acceptances ?w = []" by (simp_all add: world_ex_def emptyWorld_def)
  moreover have "sweptRow ?w state_ex = state_ex\<lparr>cvs_state := ACCEPTED\<rparr>" "tacitDue ?w state_ex"
    using v swept by (simp_all add: sweptRow_def tacitDue_def)
  moreover have "cvs_customerId state_ex = ''c''" by (simp add: state_ex_def newState_def)
  ultimately show ?thesis
    unfolding states by (auto simp: list_all2_Cons2 tacitEvidence_def tvals_def[of "[]"] states[simplified])
qed

section \<open>Reminders\<close>

text \<open>How many of the thresholds (7 days and 2 days before the deadline) are reached.\<close>

definition dueCount :: "Date \<Rightarrow> Date \<Rightarrow> int" where
  "dueCount deadlineAt now =
    (if deadlineAt - 2 * MS_PER_DAY \<le> now then 2 else if deadlineAt - 7 * MS_PER_DAY \<le> now then 1 else 0)"

abbreviation mailing :: "reminderMailer \<Rightarrow> Customer \<times> string \<times> AgreementVersion \<times> Date \<Rightarrow> unit M" where
  "mailing mailer \<equiv> (\<lambda>(c, r, v, d). mailer c r v d)"

lemma threshold_due:
  "isThresholdDue dl n now \<longleftrightarrow> n = 0 \<and> dl - 7 * MS_PER_DAY \<le> now \<or> n = 1 \<and> dl - 2 * MS_PER_DAY \<le> now"
proof -
  have "nat n < 2 \<Longrightarrow> 0 \<le> n \<Longrightarrow> n = 0 \<or> n = 1" by linarith
  then show ?thesis by (auto simp: isThresholdDue_def REMINDER_THRESHOLDS_DAYS_def)
qed

lemma remindLoop_stop:
  "dueCount dl now \<le> n \<Longrightarrow> 0 \<le> n \<Longrightarrow> remindLoop mailer cand dl now n w = (Inr n, w)"
  by (subst remindLoop.simps)
     (auto simp: threshold_due dueCount_def MS_PER_DAY_def REMINDER_THRESHOLDS_DAYS_def retM_def split: if_splits)

text \<open>The loop is so many calls of the mailer, one for each threshold that is reached and open.\<close>

definition remindersDue :: "Date \<Rightarrow> Date \<Rightarrow> int \<Rightarrow> nat" where
  "remindersDue deadlineAt now n = nat (dueCount deadlineAt now - n)"

definition sendReminders :: "reminderMailer \<Rightarrow> ReminderCandidate \<Rightarrow> Date \<Rightarrow> nat \<Rightarrow> unit M" where
  "sendReminders mailer cand dl k =
     forM (replicate k ()) (\<lambda>_. mailer (rc_customer cand) (rc_recipient cand) (rc_version cand) dl)"

lemma remindLoop_sends:
  "0 \<le> n \<Longrightarrow> remindLoop mailer cand dl now n
     = thenM (sendReminders mailer cand dl (remindersDue dl now n)) (retM (max n (dueCount dl now)))"
proof (induction mailer cand dl now n rule: remindLoop.induct)
  case (1 mailer cand dl now n)
  show ?case
  proof (cases "dueCount dl now \<le> n")
    case True
    then have "remindersDue dl now n = 0" "max n (dueCount dl now) = n" by (simp_all add: remindersDue_def)
    then show ?thesis
      using remindLoop_stop[OF True 1(2)] by (intro ext) (simp add: sendReminders_def thenM_def bindM_def retM_def)
  next
    case False
    with 1(2) have due: "n < int (length REMINDER_THRESHOLDS_DAYS) \<and> isThresholdDue dl n now"
      by (auto simp: threshold_due dueCount_def REMINDER_THRESHOLDS_DAYS_def MS_PER_DAY_def split: if_splits)
    have rest: "remindLoop mailer cand dl now (n + 1)
        = thenM (sendReminders mailer cand dl (remindersDue dl now (n + 1))) (retM (max (n + 1) (dueCount dl now)))"
      using 1(1)[OF due] 1(2) by simp
    have more: "remindersDue dl now n = Suc (remindersDue dl now (n + 1))" "max (n + 1) (dueCount dl now) = max n (dueCount dl now)"
      using False by (simp_all add: remindersDue_def)
    show ?thesis
      by (subst remindLoop.simps, simp only: due if_True simp_thms rest more)
         (intro ext, simp add: sendReminders_def thenM_def bindM_def split: prod.split sum.split)
  qed
qed

text \<open>The mailer of the server: the sender of the e-mail core on a provider that keeps out of the tables.  It
  may throw, the provider's error among others.\<close>

definition reminderMailer :: "env \<Rightarrow> NotificationConfig \<Rightarrow> EmailDeliveryProvider \<Rightarrow> reminderMailer" where
  "reminderMailer E cfg P = (\<lambda>c r v d. thenM (sendReminder E cfg P c r v d) (retM ()))"

lemma reminderMailer_sameCore:
  assumes "mailOutside P"
  shows "sameCore w (snd (reminderMailer E cfg P c r v d w))"
proof -
  have "modifies mailAreas (reminderMailer E cfg P c r v d)"
    unfolding reminderMailer_def using assms by (intro modifies_intros) auto
  then have "change mailAreas w (snd (reminderMailer E cfg P c r v d w))" by (simp add: modifies_def)
  then show ?thesis by (rule change_sameCore) simp
qed

text \<open>A failure of the loop is a failure of one of its mails.\<close>

definition mailFailed :: "reminderMailer \<Rightarrow> ReminderCandidate \<Rightarrow> Date \<Rightarrow> failure \<Rightarrow> bool" where
  "mailFailed mailer cand dl e \<longleftrightarrow>
     (\<exists>w. fst (mailer (rc_customer cand) (rc_recipient cand) (rc_version cand) dl w) = Inl e)"

lemma sendReminders_wp:
  assumes "\<And>c r v d w. sameCore w (snd (mailer c r v d w))"
  shows "wp (sendReminders mailer cand dl k) (\<lambda>_ w'. sameCore w w') (\<lambda>e w'. sameCore w w' \<and> mailFailed mailer cand dl e) w"
  unfolding sendReminders_def
proof (rule wp_forM_inv[where I = "\<lambda>_. sameCore w"])
  fix dn rest w1 and x :: unit
  assume w1: "sameCore w w1"
  let ?m = "mailer (rc_customer cand) (rc_recipient cand) (rc_version cand) dl"
  have "sameCore w (snd (?m w1))" using sameCore_trans[OF w1 assms] .
  then show "wp ?m (\<lambda>_ w'. sameCore w w') (\<lambda>e w'. sameCore w w' \<and> mailFailed mailer cand dl e) w1"
    by (auto simp: wp_def mailFailed_def split: prod.splits sum.splits) (metis fst_conv)
qed simp_all

text \<open>C20: Reminders, for an ACTIVE version with a deadline.  The job sends exactly one mail for each threshold (7 and 2
  days before the deadline) that is reached and not yet counted, and then raises the counter of the state to
  the number of thresholds reached, two at most; this for every mailer.  With the mailer of the server no
  other row and no other table changes (beside the activity log, sent mails and permanent links).  If a mail
  fails, and only then, the job fails with its error and the counter and all states stay as they were, so the reminder
  is due again at the next run.  Once the counter is raised, a second run at the same time sends nothing,
  whatever the mailer would do.\<close>

theorem remindOne_correct:
  fixes now :: Date
  assumes provider: "mailOutside P"
    and cand: "rc_state cand = s" "v_acceptanceMode (rc_version cand) = ACTIVE" "cvs_deadlineAt s = Some dl"
    and row: "map_of (w_states w) (cvs_id s) = Some s" "0 \<le> cvs_remindersSent s"
  defines "m \<equiv> max (cvs_remindersSent s) (dueCount dl now)"
  shows "(\<forall>mailer. remindOne mailer now cand
        = thenM (sendReminders mailer cand dl (remindersDue dl now (cvs_remindersSent s)))
            (if m = cvs_remindersSent s then retM ()
             else thenM (states_transition (cvs_id s) (cvs_state s) (cvs_state s) (Some m)) (retM ())))
    \<and> (case remindOne (reminderMailer E cfg P) now cand w of
        (Inr _, w') \<Rightarrow>
          map_of (w_states w') = (map_of (w_states w))(cvs_id s \<mapsto> s\<lparr>cvs_remindersSent := m\<rparr>)
          \<and> sameCore (w\<lparr>w_states := w_states w'\<rparr>) w'
      | (Inl e, w') \<Rightarrow> sameCore w w' \<and> mailFailed (reminderMailer E cfg P) cand dl e)
    \<and> (\<forall>mailer w'. remindOne mailer now (cand\<lparr>rc_state := s\<lparr>cvs_remindersSent := m\<rparr>\<rparr>) w' = (Inr (), w'))"
proof (intro conjI allI)
  let ?n = "cvs_remindersSent s"
  show eq: "remindOne mailer now cand
        = thenM (sendReminders mailer cand dl (remindersDue dl now ?n))
            (if m = ?n then retM ()
             else thenM (states_transition (cvs_id s) (cvs_state s) (cvs_state s) (Some m)) (retM ()))" for mailer
    using cand row(2) by (intro ext)
      (simp add: remindOne_def remindLoop_sends m_def[symmetric] thenM_def bindM_def retM_def split: prod.split sum.split)
  have "wp (remindOne (reminderMailer E cfg P) now cand)
      (\<lambda>_ w'. map_of (w_states w') = (map_of (w_states w)) (cvs_id s \<mapsto> s\<lparr>cvs_remindersSent := m\<rparr>)
        \<and> sameCore (w\<lparr>w_states := w_states w'\<rparr>) w')
      (\<lambda>e w'. sameCore w w' \<and> mailFailed (reminderMailer E cfg P) cand dl e) w"
    unfolding eq wp_then
    by (rule wp_mono[OF sendReminders_wp[OF reminderMailer_sameCore[OF provider]]])
       (use row in \<open>auto simp: wp_simps sameCore_def table_simps fun_upd_idem\<close>)
  then show "case remindOne (reminderMailer E cfg P) now cand w of
        (Inr _, w') \<Rightarrow>
          map_of (w_states w') = (map_of (w_states w))(cvs_id s \<mapsto> s\<lparr>cvs_remindersSent := m\<rparr>)
          \<and> sameCore (w\<lparr>w_states := w_states w'\<rparr>) w'
      | (Inl e, w') \<Rightarrow> sameCore w w' \<and> mailFailed (reminderMailer E cfg P) cand dl e"
    unfolding wp_def by (simp split: prod.splits sum.splits)
  show "remindOne mailer now (cand\<lparr>rc_state := s\<lparr>cvs_remindersSent := m\<rparr>\<rparr>) w' = (Inr (), w')" for mailer w'
    using cand row(2) by (simp add: remindOne_def bindM_def remindLoop_stop retM_def m_def)
qed

definition reminder_ex :: ReminderCandidate where
  "reminder_ex = \<lparr>rc_state = state_ex\<lparr>cvs_deadlineAt := Some 200000000\<rparr>, rc_customer = cust_ex,
     rc_version = ver_ex\<lparr>v_acceptanceMode := ACTIVE\<rparr>, rc_recipient = ''a@x''\<rparr>"

definition reminderWorld_ex :: world where
  "reminderWorld_ex = world_ex\<lparr>w_states := [(''cvs-00000000'', rc_state reminder_ex)]\<rparr>"

lemma remindOne_correct_witness:
  "case remindOne (reminderMailer env_ex cfg_ex mail_ex) 100 reminder_ex reminderWorld_ex of
     (Inr _, w') \<Rightarrow> map_option cvs_remindersSent (map_of (w_states w') ''cvs-00000000'') = Some 1
   | (Inl e, w') \<Rightarrow> w_states w' = w_states reminderWorld_ex"
proof -
  have count: "dueCount 200000000 100 = 1" by (simp add: dueCount_def MS_PER_DAY_def)
  have facts: "v_acceptanceMode (rc_version reminder_ex) = ACTIVE" "cvs_deadlineAt (rc_state reminder_ex) = Some 200000000"
    "map_of (w_states reminderWorld_ex) (cvs_id (rc_state reminder_ex)) = Some (rc_state reminder_ex)"
    "0 \<le> cvs_remindersSent (rc_state reminder_ex)" "cvs_remindersSent (rc_state reminder_ex) = 0"
    "cvs_id (rc_state reminder_ex) = ''cvs-00000000''"
    by (simp_all add: reminder_ex_def reminderWorld_ex_def state_ex_def newState_def)
  obtain res w' where run: "remindOne (reminderMailer env_ex cfg_ex mail_ex) 100 reminder_ex reminderWorld_ex = (res, w')"
    by fastforce
  have m: "max (cvs_remindersSent (rc_state reminder_ex)) (dueCount 200000000 100) = 1" by (simp add: facts(5) count)
  have spec: "case (res, w') of
      (Inr _, w') \<Rightarrow> map_of (w_states w') = (map_of (w_states reminderWorld_ex))
          (cvs_id (rc_state reminder_ex) \<mapsto> rc_state reminder_ex\<lparr>cvs_remindersSent := 1\<rparr>)
        \<and> sameCore (reminderWorld_ex\<lparr>w_states := w_states w'\<rparr>) w'
    | (Inl e, w') \<Rightarrow> sameCore reminderWorld_ex w' \<and> mailFailed (reminderMailer env_ex cfg_ex mail_ex) reminder_ex 200000000 e"
    using remindOne_correct[OF small_services.mail refl facts(1-4), of 100 env_ex cfg_ex] unfolding m run by blast
  show ?thesis
  proof (cases res)
    case (Inl e)
    with spec show ?thesis unfolding run by (simp add: sameCore_def)
  next
    case (Inr u)
    with spec show ?thesis unfolding run by (simp add: facts(6))
  qed
qed

section \<open>Rollout notifications\<close>






end
