(* ===== verification/Reports.thy ===== *)
theory Reports
  imports Admin Complex_Main
begin

text \<open>
  The read side of the administration: the history of a customer (\<open>admin/history.service.ts\<close>), the
  acceptance dashboard (\<open>admin/dashboard.service.ts\<close>), the customers of a version
  (\<open>admin/version-customers.service.ts\<close>) and the preview of a template.  A JavaScript quotient of two
  counts is the rational number.
\<close>

section \<open>HistoryService\<close>

record HistoryAcceptance =
  ha_versionId :: string
  ha_documentType :: "string option"
  ha_versionLabel :: "string option"
  ha_method :: AcceptanceMethod
  ha_channel :: AcceptanceChannel
  ha_acceptedAt :: Date
  ha_actor :: Actor
  ha_isEffective :: bool
  ha_ipAddress :: "string option"
  ha_userAgent :: "string option"
  ha_consentText :: "string option"
  ha_consentTextHash :: "string option"
  ha_contentHash :: "string option"
  ha_evidenceNote :: "string option"

record HistoryNotification =
  hn_versionId :: string
  hn_channel :: NotificationChannel
  hn_deliveredAt :: Date

record HistoryState =
  hs_id :: string
  hs_versionId :: string
  hs_documentType :: "string option"
  hs_versionLabel :: "string option"
  hs_state :: CustomerVersionStateValue
  hs_notifiedAt :: "Date option"
  hs_deadlineAt :: "Date option"
  hs_remindersSent :: int
  hs_carryOverBlocking :: "bool option"

record HistorySignedDocument =
  hsd_id :: string
  hsd_documentTypeKey :: string
  hsd_audience :: "string option"
  hsd_fileName :: string
  hsd_contentHash :: string
  hsd_fileSize :: int
  hsd_signedAt :: Date
  hsd_signerName :: "string option"
  hsd_reference :: "string option"
  hsd_note :: "string option"
  hsd_uploadedBy :: string
  hsd_uploadedAt :: Date

record CustomerHistory =
  ch_acceptances :: "HistoryAcceptance list"
  ch_objections :: "Objection list"
  ch_notifications :: "HistoryNotification list"
  ch_states :: "HistoryState list"
  ch_signedDocuments :: "HistorySignedDocument list"

definition versionAndDocument :: "string \<Rightarrow> (AgreementVersion option \<times> AgreementDocument option) M" where
  "versionAndDocument versionId =
    bindM (versions_findById versionId) (\<lambda>version.
    bindM (case version of None \<Rightarrow> retM None | Some v \<Rightarrow> documents_findById (v_documentId v)) (\<lambda>document.
    retM (version, document)))"

definition historyAcceptance :: "Acceptance \<Rightarrow> HistoryAcceptance M" where
  "historyAcceptance acceptance =
    bindM (versionAndDocument (a_versionId acceptance)) (\<lambda>(version, document).
    retM \<lparr>ha_versionId = a_versionId acceptance, ha_documentType = map_option d_type document,
          ha_versionLabel = map_option v_versionLabel version, ha_method = a_method acceptance,
          ha_channel = a_channel acceptance, ha_acceptedAt = a_acceptedAt acceptance,
          ha_actor = a_actor acceptance, ha_isEffective = a_isEffective acceptance,
          ha_ipAddress = a_ipAddress acceptance, ha_userAgent = a_userAgent acceptance,
          ha_consentText = a_consentText acceptance, ha_consentTextHash = a_consentTextHash acceptance,
          ha_contentHash = a_contentHash acceptance, ha_evidenceNote = a_evidenceNote acceptance\<rparr>)"

definition historyState :: "CustomerVersionState \<Rightarrow> HistoryState M" where
  "historyState state =
    bindM (versionAndDocument (cvs_versionId state)) (\<lambda>(version, document).
    retM \<lparr>hs_id = cvs_id state, hs_versionId = cvs_versionId state,
          hs_documentType = map_option d_type document,
          hs_versionLabel = map_option v_versionLabel version, hs_state = cvs_state state,
          hs_notifiedAt = cvs_notifiedAt state, hs_deadlineAt = cvs_deadlineAt state,
          hs_remindersSent = cvs_remindersSent state,
          hs_carryOverBlocking = cvs_carryOverBlocking state\<rparr>)"

definition historyNotifications :: "CustomerVersionState \<Rightarrow> HistoryNotification list M" where
  "historyNotifications state =
    bindM (notifications_findByState (cvs_id state)) (\<lambda>events.
    retM (map (\<lambda>e. \<lparr>hn_versionId = cvs_versionId state, hn_channel = ne_channel e,
                       hn_deliveredAt = ne_occurredAt e\<rparr>) events))"

definition toHistorySignedDocument :: "SignedDocument \<Rightarrow> HistorySignedDocument" where
  "toHistorySignedDocument document =
    \<lparr>hsd_id = sd_id document, hsd_documentTypeKey = sd_documentTypeKey document,
     hsd_audience = sd_audience document, hsd_fileName = sd_fileName document,
     hsd_contentHash = sd_contentHash document, hsd_fileSize = sd_fileSize document,
     hsd_signedAt = sd_signedAt document, hsd_signerName = sd_signerName document,
     hsd_reference = sd_reference document, hsd_note = sd_note document,
     hsd_uploadedBy = sd_uploadedBy document, hsd_uploadedAt = sd_uploadedAt document\<rparr>"

definition customer_history :: "env \<Rightarrow> string \<Rightarrow> CustomerHistory M" where
  "customer_history E customerId =
    thenM (bindM (customers_findById customerId) (requireD CUSTOMER_NOT_FOUND))
    (bindM (bindM (acceptances_findByCustomer customerId) (mapM historyAcceptance)) (\<lambda>acceptances.
    bindM (objections_findByCustomer customerId) (\<lambda>objections.
    bindM (states_findByCustomer customerId) (\<lambda>customerStates.
    bindM (mapM historyNotifications customerStates) (\<lambda>notifications.
    bindM (mapM historyState customerStates) (\<lambda>historyStates.
    bindM (signed_findByCustomer E customerId) (\<lambda>rawSigned.
    retM \<lparr>ch_acceptances = acceptances, ch_objections = objections,
          ch_notifications = sort_key hn_deliveredAt (concat notifications),
          ch_states = historyStates,
          ch_signedDocuments = map toHistorySignedDocument rawSigned\<rparr>)))))))"

section \<open>DashboardService\<close>

definition CHANNELS :: "AcceptanceChannel list" where
  "CHANNELS = [ChPORTAL, ChLINK, ChADMIN, ChSYSTEM]"

definition METHODS :: "AcceptanceMethod list" where
  "METHODS = [ACTIVE_CONSENT, TACIT, IMPORT]"

record VersionAcceptanceStats =
  st_totalCustomers :: nat
  st_accepted :: nat
  st_acceptedByChannel :: "(AcceptanceChannel \<times> nat) list"
  st_acceptedByMethod :: "(AcceptanceMethod \<times> nat) list"
  st_pending :: nat
  st_blocked :: nat
  st_objected :: nat
  st_acceptanceRate :: rat

record VersionStats =
  vst_versionId :: string
  vst_documentName :: string
  vst_documentType :: string
  vst_audience :: string
  vst_versionLabel :: string
  vst_status :: VersionStatus
  vst_validFrom :: Date
  vst_upcoming :: bool
  vst_stats :: VersionAcceptanceStats

text \<open>\<open>buckets[key]++\<close>.\<close>

definition increment :: "'k \<Rightarrow> ('k \<times> nat) list \<Rightarrow> ('k \<times> nat) list" where
  "increment k buckets = AList.update k (Suc (orElse (map_of buckets k) 0)) buckets"

definition emptyBuckets :: "'k list \<Rightarrow> ('k \<times> nat) list" where
  "emptyBuckets ks = map (\<lambda>k. (k, 0)) ks"

definition relevantStates :: "string list \<Rightarrow> CustomerVersionState list \<Rightarrow> CustomerVersionState list" where
  "relevantStates deletedIds states =
    filter (\<lambda>s. cvs_state s \<noteq> SUPERSEDED \<and> cvs_customerId s \<notin> set deletedIds) states"

definition acceptedCustomerIds :: "CustomerVersionState list \<Rightarrow> string list" where
  "acceptedCustomerIds relevant = remdups (map cvs_customerId (filter (\<lambda>s. cvs_state s = ACCEPTED) relevant))"

text \<open>The rate is the exact quotient; the source divides doubles, so what it answers is the nearest double.\<close>

definition statsOf :: "CustomerVersionState list \<Rightarrow> Acceptance list \<Rightarrow> VersionAcceptanceStats" where
  "statsOf relevant effective =
    (let acceptedIds = acceptedCustomerIds relevant;
         counted = filter (\<lambda>a. a_customerId a \<in> set acceptedIds) effective;
         total = length relevant; acceptedN = length acceptedIds;
         count = (\<lambda>p. length (filter (\<lambda>s. p (cvs_state s)) relevant))
     in \<lparr>st_totalCustomers = total, st_accepted = acceptedN,
         st_acceptedByChannel = fold (\<lambda>a. increment (a_channel a)) counted (emptyBuckets CHANNELS),
         st_acceptedByMethod = fold (\<lambda>a. increment (a_method a)) counted (emptyBuckets METHODS),
         st_pending = count (\<lambda>x. x = PENDING_NOTIFICATION \<or> x = NOTIFIED),
         st_blocked = count (\<lambda>x. x = EXPIRED_BLOCKING),
         st_objected = count (\<lambda>x. x = OBJECTED),
         st_acceptanceRate = (if total = 0 then 0 else of_nat acceptedN / of_nat total)\<rparr>)"

definition computeStats :: "string \<Rightarrow> string list \<Rightarrow> VersionAcceptanceStats M" where
  "computeStats versionId deletedIds =
    bindM (states_findByVersion versionId) (\<lambda>states.
    bindM (acceptances_findEffectiveByVersion versionId) (\<lambda>effective.
    retM (statsOf (relevantStates deletedIds states) effective)))"

definition deletedCustomerIds :: "string list M" where
  "deletedCustomerIds = bindM customers_findAll (\<lambda>all.
    retM (map c_id (filter (\<lambda>c. c_deletedAt c \<noteq> None) all)))"

definition buildStats ::
  "AgreementVersion \<Rightarrow> AgreementDocument \<Rightarrow> Date \<Rightarrow> string list \<Rightarrow> VersionStats M" where
  "buildStats version document now deletedIds =
    bindM (computeStats (v_id version) deletedIds) (\<lambda>stats.
    retM \<lparr>vst_versionId = v_id version, vst_documentName = d_name document,
          vst_documentType = d_type document, vst_audience = d_audience document,
          vst_versionLabel = v_versionLabel version, vst_status = v_status version,
          vst_validFrom = v_validFrom version, vst_upcoming = (v_validFrom version > now),
          vst_stats = stats\<rparr>)"

definition dashboardDocument :: "Date \<Rightarrow> string list \<Rightarrow> AgreementDocument \<Rightarrow> VersionStats list M" where
  "dashboardDocument now deletedIds document =
    bindM (rolloutVersions document now) (\<lambda>relevant.
    mapM (\<lambda>version. buildStats version document now deletedIds) relevant)"

definition dashboard :: "env \<Rightarrow> VersionStats list M" where
  "dashboard E =
    bindM clock_now (\<lambda>now.
    bindM deletedCustomerIds (\<lambda>deletedIds.
    bindM documents_findAll (\<lambda>documents.
    bindM (mapM (dashboardDocument now deletedIds) documents) (\<lambda>items.
    retM (sort_key (\<lambda>i. (e_collate E (vst_documentName i), vst_upcoming i, vst_validFrom i))
      (concat items))))))"

definition versionStats :: "string \<Rightarrow> VersionStats M" where
  "versionStats versionId =
    bindM (bindM (versions_findById versionId) (requireD VERSION_NOT_FOUND)) (\<lambda>version.
    bindM (bindM (documents_findById (v_documentId version)) (requireD INVALID_STATE)) (\<lambda>document.
    bindM clock_now (\<lambda>now.
    bindM deletedCustomerIds (\<lambda>deletedIds.
    buildStats version document now deletedIds))))"

section \<open>VersionCustomersService\<close>

datatype VersionCustomerFilterState = VAccepted | VPending | VBlocked | VObjected

fun FILTER_STATES :: "VersionCustomerFilterState \<Rightarrow> CustomerVersionStateValue list" where
  "FILTER_STATES VAccepted = [ACCEPTED]"
| "FILTER_STATES VPending = [PENDING_NOTIFICATION, NOTIFIED]"
| "FILTER_STATES VBlocked = [EXPIRED_BLOCKING]"
| "FILTER_STATES VObjected = [OBJECTED]"

record VersionCustomerAcceptance =
  vca_acceptedAt :: Date
  vca_method :: AcceptanceMethod
  vca_channel :: AcceptanceChannel
  vca_actorName :: "string option"

record VersionCustomerRow =
  vcr_customerId :: string
  vcr_customerName :: string
  vcr_externalRef :: string
  vcr_state :: CustomerVersionStateValue
  vcr_notifiedAt :: "Date option"
  vcr_deadlineAt :: "Date option"
  vcr_carryOverBlocking :: "bool option"
  vcr_acceptance :: "VersionCustomerAcceptance option"

record VersionCustomersQuery =
  vcq_state :: "VersionCustomerFilterState option"
  vcq_search :: "string option"
  vcq_page :: "int option"

definition versionCustomerRow ::
  "VersionCustomersQuery \<Rightarrow> Acceptance table \<Rightarrow> Customer table \<Rightarrow> CustomerVersionState \<Rightarrow> VersionCustomerRow option" where
  "versionCustomerRow query effectiveByCustomer customersById state =
    (case map_of customersById (cvs_customerId state) of
       None \<Rightarrow> None
     | Some customer \<Rightarrow>
        if c_deletedAt customer \<noteq> None then None
        else if (case vcq_state query of None \<Rightarrow> False | Some f \<Rightarrow> cvs_state state \<notin> set (FILTER_STATES f)) then None
        else if truthy (vcq_search query) \<and> \<not> matchesCustomerSearch customer (orElse (vcq_search query) []) then None
        else Some
          \<lparr>vcr_customerId = c_id customer, vcr_customerName = customerDisplayName customer,
           vcr_externalRef = c_externalRef customer, vcr_state = cvs_state state,
           vcr_notifiedAt = cvs_notifiedAt state, vcr_deadlineAt = cvs_deadlineAt state,
           vcr_carryOverBlocking = cvs_carryOverBlocking state,
           vcr_acceptance = map_option (\<lambda>a.
             \<lparr>vca_acceptedAt = a_acceptedAt a, vca_method = a_method a, vca_channel = a_channel a,
              vca_actorName = act_name (a_actor a)\<rparr>)
             (map_of effectiveByCustomer (cvs_customerId state))\<rparr>)"

text \<open>\<open>new Map(entries)\<close>: a later entry replaces an earlier one under the same key.\<close>

definition mapBy :: "('v \<Rightarrow> string) \<Rightarrow> 'v list \<Rightarrow> 'v table" where
  "mapBy key xs = fold (\<lambda>x. AList.update (key x) x) xs []"

definition versionCustomers_list ::
  "env \<Rightarrow> string \<Rightarrow> VersionCustomersQuery \<Rightarrow> (VersionCustomerRow list \<times> nat \<times> VersionStats) M" where
  "versionCustomers_list E versionId query =
    bindM (versionStats versionId) (\<lambda>stats.
    bindM (states_findByVersion versionId) (\<lambda>states.
    bindM (acceptances_findEffectiveByVersion versionId) (\<lambda>effective.
    bindM customers_findAll (\<lambda>customers.
    (let relevant = filter (\<lambda>s. cvs_state s \<noteq> SUPERSEDED) states;
         rows = sort_key (\<lambda>r. (e_collate E (vcr_customerName r), e_collate E (vcr_customerId r)))
           (List.map_filter (versionCustomerRow query (mapBy a_customerId effective) (mapBy c_id customers)) relevant);
         page = (case vcq_page query of None \<Rightarrow> 1 | Some n \<Rightarrow> if n > 0 then nat n else 1)
     in retM (slicePage page rows, length rows, stats))))))"

section \<open>The preview of a template\<close>

definition sampleVars :: "string \<Rightarrow> TemplateVars" where
  "sampleVars documentTypeName = fold (\<lambda>(k, v). AList.update k v)
    [(''customerName'', ''Acme GmbH''), (''firstName'', ''Jane''), (''lastName'', ''Doe''),
     (''companyName'', ''Acme GmbH''), (''documentName'', documentTypeName @ '' '' @ emDash @ '' Customers''),
     (''documentType'', documentTypeName), (''audience'', ''Customers''),
     (''versionLabel'', ''June 2026 edition''),
     (''changeSummary'', ''Added a new sub-processor for e-mail delivery.''),
     (''validFrom'', ''2026-07-01''), (''deadlineAt'', ''2026-07-21''),
     (''acceptedAt'', ''2026-07-08T14:12:03.000Z''),
     (''acceptanceLink'', ''https://clickwrap.example.org/accept/sample-token''),
     (''documentPdfUrl'', ''https://clickwrap.example.org/documents/dpa/customer/latest.pdf''),
     (''appName'', ''clickwrap-server'')] emptyTemplateVars"

definition template_preview :: "string \<Rightarrow> string option \<Rightarrow> RenderedTemplate M" where
  "template_preview tplId documentTypeKey =
    bindM (template_byIdOrThrow tplId) (\<lambda>template.
    bindM (case documentTypeKey of
        None \<Rightarrow> retM None
      | Some key \<Rightarrow> documentTypes_findByKey key) (\<lambda>documentType.
    retM (renderTemplate template (sampleVars (case documentType of
        None \<Rightarrow> ''Data Processing Agreement'' | Some t \<Rightarrow> dt_name t)))))"

end
