(* ===== verification/Link_Facts.thy ===== *)
theory Link_Facts
  imports Accept_Page Consent_Facts
begin

text \<open>
  The hosted page is safe: the rate limiter is an exact sliding window, a minted link resolves to its
  customer until it expires or is revoked, and an acceptance through a link is recorded for the link's
  customer only, within the link's audience, with the self-declared identity as evidence.
\<close>

section \<open>The sliding window\<close>

text \<open>A sequence of requests for one key at the given times, with the answers.\<close>

primrec requests :: "nat \<Rightarrow> int \<Rightarrow> string \<Rightarrow> Date list \<Rightarrow> world \<Rightarrow> (Date \<times> bool) list \<times> world" where
  "requests limit win key [] w = ([], w)"
| "requests limit win key (t # ts) w =
    (case rateLimiter_allow limit win key (w\<lparr>w_now := t\<rparr>) of (r, w1) \<Rightarrow>
     case requests limit win key ts w1 of (log, w2) \<Rightarrow> ((t, r = Inr True) # log, w2))"

definition allowed :: "(Date \<times> bool) list \<Rightarrow> Date list" where
  "allowed log = map fst (filter snd log)"

abbreviation within :: "int \<Rightarrow> Date \<Rightarrow> Date list \<Rightarrow> Date list" where
  "within win t xs \<equiv> filter (\<lambda>a. a > t - win) xs"

definition hitsOf :: "world \<Rightarrow> string \<Rightarrow> Date list" where
  "hitsOf w key = orElse (map_of (w_hits w) key) []"

lemma requests_append:
  "requests limit win key (ts @ us) w =
     (case requests limit win key ts w of (log, w1) \<Rightarrow>
      case requests limit win key us w1 of (log', w2) \<Rightarrow> (log @ log', w2))"
  by (induction ts arbitrary: w) (simp_all split: prod.splits)

lemma allow_eq:
  "rateLimiter_allow limit win key w =
     (let recent = within win (w_now w) (hitsOf w key); ok = (length recent < limit) in
      (Inr ok, w\<lparr>w_hits := AList.update key (if ok then recent @ [w_now w] else recent) (w_hits w)\<rparr>))"
  by (simp add: rateLimiter_allow_def clock_now_def action_defs Let_def hitsOf_def)

lemma within_within: "t \<le> u \<Longrightarrow> within win u (within win t xs) = within win u xs"
  by (induction xs) auto

definition windowInv :: "int \<Rightarrow> string \<Rightarrow> Date list \<Rightarrow> Date list \<Rightarrow> world \<Rightarrow> bool" where
  "windowInv win key ts as w \<longleftrightarrow>
     (\<forall>u. (\<forall>t \<in> set ts. t \<le> u) \<longrightarrow> within win u (hitsOf w key) = within win u as)"

lemma window_step:
  assumes inv: "windowInv win key ts (allowed log) w" and now: "\<And>s. s \<in> set ts \<Longrightarrow> s \<le> t"
    and step: "requests limit win key [t] w = (log', w')"
  shows "log' = [(t, length (within win t (allowed log)) < limit)]
    \<and> windowInv win key (ts @ [t]) (allowed (log @ log')) w'"
proof -
  from inv now have recent: "within win t (hitsOf w key) = within win t (allowed log)"
    by (simp add: windowInv_def)
  have hits: "hitsOf (w\<lparr>w_now := t\<rparr>) key = hitsOf w key" by (simp add: hitsOf_def)
  let ?ok = "length (within win t (allowed log)) < limit"
  have allow: "rateLimiter_allow limit win key (w\<lparr>w_now := t\<rparr>) = (Inr ?ok, w\<lparr>w_now := t, w_hits :=
      AList.update key (if ?ok then within win t (allowed log) @ [t] else within win t (allowed log)) (w_hits w)\<rparr>)"
    unfolding allow_eq Let_def hits by (simp add: recent)
  from step allow have log': "log' = [(t, ?ok)]"
    and w': "hitsOf w' key = (if ?ok then within win t (allowed log) @ [t] else within win t (allowed log))"
    by (simp_all add: hitsOf_def table_simps split: prod.splits) (auto simp: table_simps)
  have "windowInv win key (ts @ [t]) (allowed (log @ log')) w'"
    unfolding windowInv_def
  proof (intro allI impI)
    fix u assume "\<forall>s \<in> set (ts @ [t]). s \<le> u"
    then have "t \<le> u" by simp
    from within_within[OF this, of win "allowed log"]
    show "within win u (hitsOf w' key) = within win u (allowed (log @ log'))"
      by (simp add: w' log' allowed_def del: filter_filter)
  qed
  with log' show ?thesis by simp
qed

text \<open>C35: The rate limiter is an exact sliding window: over any sequence of requests at non-decreasing
  times, a request is let through exactly when fewer than \<open>limit\<close> earlier ones of the last \<open>win\<close>
  milliseconds were, so that no window of this length ever holds more than \<open>limit\<close> of them.\<close>

theorem rateLimiter_window:
  assumes "sorted ts" "map_of (w_hits w) key = None"
  shows "let log = fst (requests limit win key ts w) in
     map fst log = ts
     \<and> (\<forall>i < length ts. snd (log ! i) \<longleftrightarrow> length (within win (ts ! i) (allowed (take i log))) < limit)
     \<and> (\<forall>u. length (filter (\<lambda>a. u - win < a \<and> a \<le> u) (allowed log)) \<le> limit)"
proof -
  have "windowInv win key ts (allowed (fst (requests limit win key ts w))) (snd (requests limit win key ts w))
     \<and> map fst (fst (requests limit win key ts w)) = ts
     \<and> (\<forall>i < length ts. snd (fst (requests limit win key ts w) ! i) \<longleftrightarrow>
          length (within win (ts ! i) (allowed (take i (fst (requests limit win key ts w))))) < limit)
     \<and> (\<forall>u. length (filter (\<lambda>a. u - win < a \<and> a \<le> u) (allowed (fst (requests limit win key ts w)))) \<le> limit)"
    using assms(1)
  proof (induction ts rule: rev_induct)
    case Nil
    then show ?case using assms(2) by (simp add: windowInv_def hitsOf_def allowed_def)
  next
    case (snoc t ts)
    obtain log w1 where r: "requests limit win key ts w = (log, w1)" by (cases "requests limit win key ts w")
    obtain log' w2 where r': "requests limit win key [t] w1 = (log', w2)" by (cases "requests limit win key [t] w1")
    from snoc r have IH: "windowInv win key ts (allowed log) w1" "map fst log = ts"
      "\<forall>i < length ts. snd (log ! i) \<longleftrightarrow> length (within win (ts ! i) (allowed (take i log))) < limit"
      "\<forall>u. length (filter (\<lambda>a. u - win < a \<and> a \<le> u) (allowed log)) \<le> limit"
      and now: "\<And>s. s \<in> set ts \<Longrightarrow> s \<le> t" by (simp_all add: sorted_append)
    from window_step[OF IH(1) now r'] have log': "log' = [(t, length (within win t (allowed log)) < limit)]"
      and inv: "windowInv win key (ts @ [t]) (allowed (log @ log')) w2" by blast+
    have len: "length log = length ts" using IH(2) by (metis length_map)
    have exact: "snd ((log @ log') ! i) \<longleftrightarrow> length (within win ((ts @ [t]) ! i) (allowed (take i (log @ log')))) < limit"
      if "i < length (ts @ [t])" for i
      using that IH(3) len by (cases "i < length ts") (simp_all add: nth_append log' not_less le_Suc_eq)
    have bound: "length (filter (\<lambda>a. u - win < a \<and> a \<le> u) (allowed (log @ log'))) \<le> limit" for u
    proof (cases "t \<le> u \<and> u - win < t \<and> length (within win t (allowed log)) < limit")
      case False
      then show ?thesis using IH(4) by (auto simp: allowed_def log')
    next
      case True
      have "filter (\<lambda>a. u - win < a \<and> a \<le> u) (within win t (allowed log)) = filter (\<lambda>a. u - win < a \<and> a \<le> u) (allowed log)"
        using True by (auto intro: filter_cong)
      then have "length (filter (\<lambda>a. u - win < a \<and> a \<le> u) (allowed log)) \<le> length (within win t (allowed log))"
        by (metis length_filter_le)
      with True show ?thesis by (simp add: allowed_def log')
    qed
    from inv exact bound IH(2) log' r r' show ?case
      by (simp add: requests_append del: requests.simps)
  qed
  then show ?thesis by (simp add: Let_def)
qed

lemma rateLimiter_window_witness:
  "fst (requests 2 60 ''k'' [0, 10, 59, 60, 100] (emptyWorld 0))
     = [(0, True), (10, True), (59, False), (60, True), (100, True)]
   \<and> length (filter (\<lambda>a. 0 < a \<and> a \<le> 60) (allowed (fst (requests 2 60 ''k'' [0, 10, 59, 60, 100] (emptyWorld 0))))) \<le> 2"
proof
  show "fst (requests 2 60 ''k'' [0, 10, 59, 60, 100] (emptyWorld 0))
     = [(0, True), (10, True), (59, False), (60, True), (100, True)]"
    by (simp add: allow_eq hitsOf_def emptyWorld_def)
  show "length (filter (\<lambda>a. 0 < a \<and> a \<le> 60) (allowed (fst (requests 2 60 ''k'' [0, 10, 59, 60, 100] (emptyWorld 0))))) \<le> 2"
    using rateLimiter_window[of "[0, 10, 59, 60, 100]" "emptyWorld 0" "''k''" 2 60]
    by (simp only: Let_def) (auto simp: emptyWorld_def dest: spec[of _ 60])
qed

section \<open>Minting\<close>

text \<open>When a link may be minted, and the token it gets; the id and the hash of the token are unused,
  which the random bytes make so.\<close>

definition mayMint :: "env \<Rightarrow> world \<Rightarrow> string \<Rightarrow> CreateAcceptanceLinkInput \<Rightarrow> bool" where
  "mayMint E w customerId input \<longleftrightarrow>
     publicBaseUrl E \<noteq> None \<and> map_of (w_customers w) customerId \<noteq> None
     \<and> (case cal_audienceKey input of None \<Rightarrow> True
        | Some k \<Rightarrow> \<exists>a \<in> set (tvals (w_audiences w)). au_key a = k)
     \<and> (case cal_expiresInDays input of None \<Rightarrow> True
        | Some n \<Rightarrow> \<exists>d. n = JsInt d \<and> 1 \<le> d \<and> d \<le> MAX_LINK_EXPIRY_DAYS)"

definition mintedToken :: "env \<Rightarrow> world \<Rightarrow> string" where
  "mintedToken E w = newAcceptanceLinkToken (e_randomBytes E (w_uuid w))"

definition freshLink :: "env \<Rightarrow> world \<Rightarrow> bool" where
  "freshLink E w \<longleftrightarrow>
     map_of (w_links w) (''al-'' @ e_uuid E (Suc (w_uuid w))) = None
     \<and> (\<forall>l \<in> set (tvals (w_links w)). al_tokenHash l \<noteq> acceptanceLinkTokenHash (mintedToken E w))"

lemma wp_randomBytes [wp_simps]:
  "wp (randomBytes E) Q X w = Q (e_randomBytes E (w_uuid w)) (w\<lparr>w_uuid := Suc (w_uuid w)\<rparr>)"
  by (simp add: randomBytes_def wp_def)

lemma expiry_ok:
  "(\<exists>d. resolveExpiryDays n = Inr d) \<longleftrightarrow> (case n of None \<Rightarrow> True
     | Some m \<Rightarrow> \<exists>d. m = JsInt d \<and> 1 \<le> d \<and> d \<le> MAX_LINK_EXPIRY_DAYS)"
  by (auto simp: resolveExpiryDays_def domainError_def split: option.splits JsNumber.splits)

lemma baseUrl_ok: "requirePublicBaseUrl E = (case publicBaseUrl E of None \<Rightarrow> domainError INVALID_STATE | Some u \<Rightarrow> Inr u)"
  by (simp add: requirePublicBaseUrl_def)

definition linkFor :: "string \<Rightarrow> AcceptanceLink table \<Rightarrow> AcceptanceLink option" where
  "linkFor token t = links_findBy (\<lambda>l. al_tokenHash l = acceptanceLinkTokenHash token) t"

lemma find_append: "find p (xs @ ys) = (case find p xs of None \<Rightarrow> find p ys | Some x \<Rightarrow> Some x)"
  by (induction xs) auto

lemma resolve_eq:
  "resolveUsableLink token w =
     (Inr (case linkFor token (w_links w) of None \<Rightarrow> None
        | Some l \<Rightarrow> if isAcceptanceLinkUsable l (w_now w) then Some l else None), w)"
  by (simp add: resolveUsableLink_def links_findByTokenHash_def linkFor_def clock_now_def action_defs
      split: option.splits)

text \<open>The link an input mints.\<close>

definition mintedLink :: "env \<Rightarrow> world \<Rightarrow> string \<Rightarrow> CreateAcceptanceLinkInput \<Rightarrow> string \<Rightarrow> int \<Rightarrow> AcceptanceLink" where
  "mintedLink E w customerId input admin days =
    \<lparr>al_id = ''al-'' @ e_uuid E (Suc (w_uuid w)), al_tokenHash = acceptanceLinkTokenHash (mintedToken E w),
     al_customerId = customerId, al_kind = STANDARD, al_audienceKey = cal_audienceKey input,
     al_createdBy = admin, al_createdAt = w_now w, al_expiresAt = Some (w_now w + days * MS_PER_DAY),
     al_revokedAt = None, al_lastUsedAt = None\<rparr>"

text \<open>Its entry in the audit log.\<close>

definition mintAudit :: "env \<Rightarrow> world \<Rightarrow> string \<Rightarrow> CreateAcceptanceLinkInput \<Rightarrow> string \<Rightarrow> int \<Rightarrow> AdminAuditLog" where
  "mintAudit E w customerId input admin days =
    \<lparr>aud_id = ''audit-'' @ e_uuid E (Suc (Suc (w_uuid w))), aud_action = ACCEPTANCE_LINK_CREATE, aud_actor = admin,
     aud_targetType = ''AcceptanceLink'', aud_targetId = ''al-'' @ e_uuid E (Suc (w_uuid w)), aud_reason = None,
     aud_metadata = Some ((''customerId'', MStr customerId)
       # (case cal_audienceKey input of None \<Rightarrow> [] | Some key \<Rightarrow> [(''audienceKey'', MStr key)])
       @ [(''expiresAt'', MStr (e_toISOString E (w_now w + days * MS_PER_DAY)))]),
     aud_createdAt = w_now w\<rparr>"

lemma link_create_wp:
  assumes fresh: "freshLink E w"
  shows "wp (link_create E customerId input admin)
     (\<lambda>r w'. mayMint E w customerId input \<and> (\<exists>days base. resolveExpiryDays (cal_expiresInDays input) = Inr days
        \<and> publicBaseUrl E = Some base \<and> calr_url r = base @ ''/accept/'' @ mintedToken E w
        \<and> calr_linkId r = ''al-'' @ e_uuid E (Suc (w_uuid w)) \<and> calr_expiresAt r = w_now w + days * MS_PER_DAY
        \<and> w_links w' = AList.update (''al-'' @ e_uuid E (Suc (w_uuid w)))
            (mintedLink E w customerId input admin days) (w_links w)
        \<and> w_audit w' = w_audit w @ [mintAudit E w customerId input admin days]
        \<and> w_outbound w' = w_outbound w \<and> sameCore (w\<lparr>w_audit := w_audit w'\<rparr>) w'))
     (\<lambda>_ w'. \<not> mayMint E w customerId input \<and> w' = w) w"
proof -
  have none: "\<not> list_ex (\<lambda>l. al_tokenHash l = acceptanceLinkTokenHash (mintedToken E w)) (tvals (w_links w))"
    using fresh by (auto simp: freshLink_def list_ex_iff)
  have aud: "find (\<lambda>a. au_key a = k) (tvals (w_audiences w)) = None \<longleftrightarrow> \<not> (\<exists>a \<in> set (tvals (w_audiences w)). au_key a = k)" for k
    by (auto simp: find_None_iff)
  show ?thesis
  proof (cases "publicBaseUrl E")
    case None
    then show ?thesis by (simp add: link_create_def wp_simps baseUrl_ok domainError_def mayMint_def)
  next
    case base: (Some base)
    show ?thesis
    proof (cases "resolveExpiryDays (cal_expiresInDays input)")
      case (Inl e)
      then have "\<not> mayMint E w customerId input"
        using expiry_ok[of "cal_expiresInDays input"] by (simp add: mayMint_def)
      with Inl show ?thesis
        by (simp add: link_create_def wp_simps baseUrl_ok base split: option.splits)
    next
      case (Inr days)
      then have days: "case cal_expiresInDays input of None \<Rightarrow> True
        | Some n \<Rightarrow> \<exists>d. n = JsInt d \<and> 1 \<le> d \<and> d \<le> MAX_LINK_EXPIRY_DAYS"
        using expiry_ok[of "cal_expiresInDays input"] by blast
      show ?thesis
        using fresh none base Inr
        by (auto simp: link_create_def wp_simps baseUrl_ok mayMint_def days aud freshLink_def mintedToken_def
            mintedLink_def mintAudit_def links_put_def sameCore_def Let_def split: option.splits)
    qed
  qed
qed

lemma linkFor_minted:
  assumes "freshLink E w" "al_tokenHash l = acceptanceLinkTokenHash (mintedToken E w)"
    "k = ''al-'' @ e_uuid E (Suc (w_uuid w))"
  shows "linkFor (mintedToken E w) (AList.update k l (w_links w)) = Some l"
    and "linkFor (mintedToken E w) (AList.update k l (AList.update k l' (w_links w))) = Some l"
    and "acceptanceLinkTokenHash token \<noteq> acceptanceLinkTokenHash (mintedToken E w) \<Longrightarrow>
      linkFor token (AList.update k l (w_links w)) = linkFor token (w_links w)"
proof -
  have none: "map_of (w_links w) k = None" using assms by (simp add: freshLink_def)
  have absent: "find (\<lambda>l. al_tokenHash l = acceptanceLinkTokenHash (mintedToken E w)) (tvals (w_links w)) = None"
    using assms(1) by (auto simp: freshLink_def find_None_iff)
  show "linkFor (mintedToken E w) (AList.update k l (w_links w)) = Some l"
    using absent assms(2) by (simp add: linkFor_def links_findBy_def tvals_update_fresh[OF none] find_append)
  then show "linkFor (mintedToken E w) (AList.update k l (AList.update k l' (w_links w))) = Some l"
    by simp
  show "acceptanceLinkTokenHash token \<noteq> acceptanceLinkTokenHash (mintedToken E w) \<Longrightarrow>
      linkFor token (AList.update k l (w_links w)) = linkFor token (w_links w)"
    using assms(2) by (simp add: linkFor_def links_findBy_def tvals_update_fresh[OF none] find_append
        split: option.splits)
qed

text \<open>C34: The life of a link.  It is minted exactly when the server has a public base URL, for a known
  customer, a known audience (if any) and a valid expiry; otherwise nothing is written.  The one row that is
  stored is \<open>mintedLink\<close>: it holds the hash of the token, with customer, audience, creator, time and
  expiry, and not the token, which only the returned URL holds; beside it the table of links is as before, the
  audit log gets its one entry, without the token, and no other table but the activity log changes.  The
  token resolves to the row until the expiry, which lies one to
  \<open>MAX_LINK_EXPIRY_DAYS\<close> days ahead; once revoked it never resolves again; no other token is affected.\<close>

theorem link_lifecycle:
  assumes fresh: "freshLink E w"
  shows "case link_create E customerId input admin w of
     (Inl e, w') \<Rightarrow> \<not> mayMint E w customerId input \<and> w' = w
   | (Inr r, w') \<Rightarrow> mayMint E w customerId input
      \<and> (\<exists>base days. publicBaseUrl E = Some base
          \<and> resolveExpiryDays (cal_expiresInDays input) = Inr days
          \<and> r = \<lparr>calr_linkId = al_id (mintedLink E w customerId input admin days),
                 calr_url = base @ ''/accept/'' @ mintedToken E w, calr_expiresAt = w_now w + days * MS_PER_DAY\<rparr>
          \<and> tvals (w_links w') = tvals (w_links w) @ [mintedLink E w customerId input admin days]
          \<and> w_audit w' = w_audit w @ [mintAudit E w customerId input admin days]
          \<and> w_outbound w' = w_outbound w \<and> sameCore (w\<lparr>w_audit := w_audit w'\<rparr>) w'
          \<and> (\<forall>t. resolveUsableLink (mintedToken E w) (w'\<lparr>w_now := t\<rparr>)
                = (Inr (if t < calr_expiresAt r then Some (mintedLink E w customerId input admin days) else None),
                   w'\<lparr>w_now := t\<rparr>)))
      \<and> w_now w + MS_PER_DAY \<le> calr_expiresAt r
      \<and> calr_expiresAt r \<le> w_now w + MAX_LINK_EXPIRY_DAYS * MS_PER_DAY
      \<and> (\<forall>t u. fst (resolveUsableLink (mintedToken E w)
            ((snd (links_revoke (calr_linkId r) t w'))\<lparr>w_now := u\<rparr>)) = Inr None)
      \<and> (\<forall>token. acceptanceLinkTokenHash token \<noteq> acceptanceLinkTokenHash (mintedToken E w) \<longrightarrow>
            linkFor token (w_links w') = linkFor token (w_links w))"
proof (cases "link_create E customerId input admin w")
  case (Pair res w')
  show ?thesis
  proof (cases res)
    case (Inl e)
    with Pair link_create_wp[OF fresh, of customerId input admin] show ?thesis by (simp add: wp_def)
  next
    case (Inr r)
    let ?k = "''al-'' @ e_uuid E (Suc (w_uuid w))"
    from Pair Inr link_create_wp[OF fresh, of customerId input admin] obtain days base
      where may: "mayMint E w customerId input" and days: "resolveExpiryDays (cal_expiresInDays input) = Inr days"
        and base: "publicBaseUrl E = Some base" "calr_url r = base @ ''/accept/'' @ mintedToken E w"
        and r: "calr_linkId r = ?k" "calr_expiresAt r = w_now w + days * MS_PER_DAY"
        and links: "w_links w' = AList.update ?k (mintedLink E w customerId input admin days) (w_links w)"
        and frame: "w_audit w' = w_audit w @ [mintAudit E w customerId input admin days]"
          "w_outbound w' = w_outbound w" "sameCore (w\<lparr>w_audit := w_audit w'\<rparr>) w'"
      unfolding wp_def by auto
    have row: "tvals (w_links w') = tvals (w_links w) @ [mintedLink E w customerId input admin days]"
      using fresh by (simp add: links freshLink_def tvals_update_fresh)
    let ?l = "mintedLink E w customerId input admin days"
    have l: "al_tokenHash ?l = acceptanceLinkTokenHash (mintedToken E w)" "al_kind ?l = STANDARD"
      "al_revokedAt ?l = None" "al_expiresAt ?l = Some (calr_expiresAt r)" "al_customerId ?l = customerId"
      "al_audienceKey ?l = cal_audienceKey input" by (simp_all add: mintedLink_def r)
    have usable: "isAcceptanceLinkUsable ?l t \<longleftrightarrow> t < calr_expiresAt r" for t
      by (simp add: isAcceptanceLinkUsable_def l)
    have "1 \<le> days" "days \<le> MAX_LINK_EXPIRY_DAYS"
      using days by (auto simp: resolveExpiryDays_def domainError_def DEFAULT_LINK_EXPIRY_DAYS_def
          MAX_LINK_EXPIRY_DAYS_def split: option.splits JsNumber.splits if_splits)
    then have "MS_PER_DAY \<le> days * MS_PER_DAY" "days * MS_PER_DAY \<le> MAX_LINK_EXPIRY_DAYS * MS_PER_DAY"
      by (simp_all add: MS_PER_DAY_def)
    then have bounds: "w_now w + MS_PER_DAY \<le> calr_expiresAt r"
      "calr_expiresAt r \<le> w_now w + MAX_LINK_EXPIRY_DAYS * MS_PER_DAY" by (simp_all add: r)
    have resolve: "resolveUsableLink (mintedToken E w) (w'\<lparr>w_now := t\<rparr>)
        = (Inr (if t < calr_expiresAt r then Some ?l else None), w'\<lparr>w_now := t\<rparr>)" for t
      by (simp add: resolve_eq links linkFor_minted(1)[OF fresh l(1)] usable)
    have revoked: "w_links (snd (links_revoke (calr_linkId r) t w'))
        = AList.update ?k (?l\<lparr>al_revokedAt := Some t\<rparr>) (AList.update ?k ?l (w_links w))" for t
      by (simp add: links_revoke_def action_defs r links table_simps l links_put_def)
    have gone: "fst (resolveUsableLink (mintedToken E w)
        ((snd (links_revoke (calr_linkId r) t w'))\<lparr>w_now := u\<rparr>)) = Inr None" for t u
      using linkFor_minted(2)[OF fresh, of "?l\<lparr>al_revokedAt := Some t\<rparr>" ?k ?l] l(1)
      by (simp add: resolve_eq revoked isAcceptanceLinkUsable_def)
    have others: "acceptanceLinkTokenHash token \<noteq> acceptanceLinkTokenHash (mintedToken E w) \<Longrightarrow>
        linkFor token (w_links w') = linkFor token (w_links w)" for token
      using linkFor_minted(3)[OF fresh l(1)] by (simp add: links)
    have "r = \<lparr>calr_linkId = al_id ?l, calr_url = base @ ''/accept/'' @ mintedToken E w,
        calr_expiresAt = w_now w + days * MS_PER_DAY\<rparr>"
      using r base(2) by (simp add: mintedLink_def)
    with may base(1) days row frame bounds gone others resolve show ?thesis unfolding Pair Inr prod.case sum.case by blast
  qed
qed

definition link_env_ex :: env where
  "link_env_ex = env_ex\<lparr>e_publicBaseUrl := Some ''https://x''\<rparr>"

lemma link_lifecycle_witness:
  "\<exists>r w'. link_create link_env_ex ''c'' \<lparr>cal_audienceKey = None, cal_expiresInDays = Some (JsInt 2)\<rparr> ''admin'' world_ex
      = (Inr r, w') \<and> calr_expiresAt r = 100 + 2 * MS_PER_DAY
     \<and> fst (resolveUsableLink (mintedToken link_env_ex world_ex) (w'\<lparr>w_now := calr_expiresAt r\<rparr>)) = Inr None"
proof -
  let ?in = "\<lparr>cal_audienceKey = None, cal_expiresInDays = Some (JsInt 2)\<rparr>"
  have fresh: "freshLink link_env_ex world_ex" by (simp add: freshLink_def world_ex_def emptyWorld_def tvals_def)
  have may: "mayMint link_env_ex world_ex ''c'' ?in"
    by (simp add: mayMint_def publicBaseUrl_def link_env_ex_def world_ex_def trim_def isSpaceChar_def
        MAX_LINK_EXPIRY_DAYS_def)
  obtain res w' where run: "link_create link_env_ex ''c'' ?in ''admin'' world_ex = (res, w')" by fastforce
  from link_create_wp[OF fresh, of "''c''" ?in "''admin''"] may run obtain r
    where r: "res = Inr r" "calr_expiresAt r = 100 + 2 * MS_PER_DAY"
    by (cases res) (auto simp: wp_def resolveExpiryDays_def world_ex_def emptyWorld_def split: if_splits)
  with link_lifecycle[OF fresh, of "''c''" ?in "''admin''"] run show ?thesis by auto
qed

section \<open>Accepting through a link\<close>

definition pageInput :: "env \<Rightarrow> world \<Rightarrow> AcceptanceLink \<Rightarrow> LinkAcceptanceRequest \<Rightarrow> AcceptanceInput" where
  "pageInput E w link request =
    \<lparr>ai_customerId = al_customerId link, ai_versionId = lar_versionId request,
     ai_displayedConsentText = lar_displayedConsentText request,
     ai_idempotencyKey = orElse (lar_idempotencyKey request) (e_uuid E (w_uuid w)),
     ai_context = \<lparr>ctx_customerId = al_customerId link,
       ctx_actor = linkActor link (Some (trim (lar_signerName request))) (Some (trim (lar_signerEmail request))),
       ctx_ipAddress = lar_ipAddress request, ctx_userAgent = lar_userAgent request\<rparr>,
     ai_channel = Some ChLINK, ai_evidenceNote = Some (acceptanceLinkEvidenceNote (al_id link))\<rparr>"

text \<open>The version belongs to the audience of the link.\<close>

definition inScope :: "world \<Rightarrow> AcceptanceLink \<Rightarrow> string \<Rightarrow> bool" where
  "inScope w link versionId \<longleftrightarrow>
    (case al_audienceKey link of None \<Rightarrow> True | Some audience \<Rightarrow>
    (case map_of (w_versions w) versionId of None \<Rightarrow> True | Some v \<Rightarrow>
    (case map_of (w_documents w) (v_documentId v) of None \<Rightarrow> True | Some d \<Rightarrow> d_audience d = audience)))"

definition mayUseLink :: "env \<Rightarrow> world \<Rightarrow> AcceptanceLink \<Rightarrow> LinkAcceptanceRequest \<Rightarrow> bool" where
  "mayUseLink E w link request \<longleftrightarrow>
     isAcceptanceLinkUsable link (w_now w) \<and> trim (lar_signerName request) \<noteq> []
     \<and> EMAIL_PATTERN (trim (lar_signerEmail request)) \<and> inScope w link (lar_versionId request)
     \<and> mayAccept w (pageInput E w link request)"

lemma wp_links_touch: "(\<And>t. Q () (w\<lparr>w_links := t\<rparr>)) \<Longrightarrow> wp (links_touch i now) Q X w"
proof -
  assume Q: "\<And>t. Q () (w\<lparr>w_links := t\<rparr>)"
  have "w = w\<lparr>w_links := w_links w\<rparr>" by simp
  then have "Q () w" using Q by metis
  with Q show ?thesis by (simp add: links_touch_def links_put_def wp_simps split: option.splits)
qed

lemma wp_touched:
  "(\<And>t. Q r (w\<lparr>w_links := t\<rparr>)) \<Longrightarrow> wp (bindM clock_now (\<lambda>now. thenM (links_touch i now) (retM r))) Q X w"
  unfolding wp_bind wp_clock wp_then wp_ret by (rule wp_links_touch)

lemma wp_inScope:
  "wp (assertVersionInLinkScope link versionId) Q X w =
     (if inScope w link versionId then Q () w else X (DomainError VERSION_NOT_FOUND) w)"
  by (auto simp: assertVersionInLinkScope_def inScope_def wp_simps split: option.splits)

lemma wp_resolve: "wp (resolveUsableLink token) Q X w =
  Q (case linkFor token (w_links w) of None \<Rightarrow> None
     | Some l \<Rightarrow> if isAcceptanceLinkUsable l (w_now w) then Some l else None) w"
  by (simp add: wp_def resolve_eq)

lemma mayAccept_uuid: "mayAccept (w\<lparr>w_uuid := n\<rparr>) input \<longleftrightarrow> mayAccept w input"
  by (simp add: mayAccept_def findCurrentPublished_def cong: option.case_cong)

lemma evidenceOf_uuid: "evidenceOf (w\<lparr>w_uuid := n\<rparr>) input a \<longleftrightarrow> evidenceOf w input a"
  by (simp add: evidenceOf_def)

lemma orRandomKey_wp:
  "(\<And>n. w_uuid w \<le> n \<Longrightarrow> Q (orElse key (e_uuid E (w_uuid w))) (w\<lparr>w_uuid := n\<rparr>)) \<Longrightarrow> wp (orRandomKey E key) Q X w"
proof -
  assume Q: "\<And>n. w_uuid w \<le> n \<Longrightarrow> Q (orElse key (e_uuid E (w_uuid w))) (w\<lparr>w_uuid := n\<rparr>)"
  from Q[of "w_uuid w"] Q[of "Suc (w_uuid w)"] show ?thesis
    by (cases key) (simp_all add: orRandomKey_def wp_simps)
qed

text \<open>What a click leaves: the acceptance as the acceptance service records it, and the time of the use of
  the link.\<close>

definition pageAccepted ::
  "env \<Rightarrow> world \<Rightarrow> AcceptanceLink \<Rightarrow> LinkAcceptanceRequest \<Rightarrow> IdempotencyValue \<Rightarrow> world \<Rightarrow> bool" where
  "pageAccepted E w link request r w' \<longleftrightarrow>
     (\<exists>a. r = AcceptanceResponse (a_id a) \<and> evidenceOf w (pageInput E w link request) a
        \<and> a_channel a = ChLINK
        \<and> a_actor a = linkActor link (Some (trim (lar_signerName request))) (Some (trim (lar_signerEmail request)))
        \<and> map_of (w_idempotency w') = (map_of (w_idempotency w))(acceptanceKey (pageInput E w link request) \<mapsto> r)
        \<and> wroteAcceptance E (pageInput E w link request) w a (w'\<lparr>w_idempotency := w_idempotency w\<rparr>))"

lemma wroteAcceptance_uuid:
  "wroteAcceptance E input (w\<lparr>w_uuid := n\<rparr>) a w' \<Longrightarrow> w_uuid w \<le> n \<Longrightarrow> wroteAcceptance E input w a w'"
  by (auto simp: wroteAcceptance_def sameCore_def otherPairsKept_def)

lemma wroteAcceptance_links: "wroteAcceptance E input w a w' \<Longrightarrow> wroteAcceptance E input w a (w'\<lparr>w_links := t\<rparr>)"
  by (erule recorded_frame) (simp add: sameCore_def)

lemma pageAccepted_uuid:
  assumes "mayAccept (w\<lparr>w_uuid := n\<rparr>) (pageInput E w link request)
      \<and> map_of (w_idempotency w1) = (map_of (w_idempotency (w\<lparr>w_uuid := n\<rparr>)))(acceptanceKey (pageInput E w link request) \<mapsto> r)
      \<and> (\<exists>a. r = AcceptanceResponse (a_id a) \<and> evidenceOf (w\<lparr>w_uuid := n\<rparr>) (pageInput E w link request) a
        \<and> wroteAcceptance E (pageInput E w link request) (w\<lparr>w_uuid := n\<rparr>) a (w1\<lparr>w_idempotency := w_idempotency (w\<lparr>w_uuid := n\<rparr>)\<rparr>))"
    and n: "w_uuid w \<le> n"
  shows "mayAccept w (pageInput E w link request) \<and> pageAccepted E w link request r (w1\<lparr>w_links := t\<rparr>)"
proof -
  let ?in = "pageInput E w link request"
  from assms(1) obtain a where a: "mayAccept w ?in" "r = AcceptanceResponse (a_id a)" "evidenceOf w ?in a"
      "map_of (w_idempotency w1) = (map_of (w_idempotency w))(acceptanceKey ?in \<mapsto> r)"
    and wrote: "wroteAcceptance E ?in (w\<lparr>w_uuid := n\<rparr>) a (w1\<lparr>w_idempotency := w_idempotency w\<rparr>)"
    unfolding mayAccept_uuid evidenceOf_uuid by auto
  have "wroteAcceptance E ?in w a ((w1\<lparr>w_links := t\<rparr>)\<lparr>w_idempotency := w_idempotency w\<rparr>)"
  proof -
    have "(w1\<lparr>w_links := t\<rparr>)\<lparr>w_idempotency := w_idempotency w\<rparr> = (w1\<lparr>w_idempotency := w_idempotency w\<rparr>)\<lparr>w_links := t\<rparr>"
      by simp
    then show ?thesis using wroteAcceptance_links[OF wroteAcceptance_uuid[OF wrote n]] by (simp only:)
  qed
  moreover have "a_channel a = ChLINK"
      "a_actor a = linkActor link (Some (trim (lar_signerName request))) (Some (trim (lar_signerEmail request)))"
    using a(3) by (simp_all add: evidenceOf_def pageInput_def)
  ultimately show ?thesis using a unfolding pageAccepted_def by auto
qed

text \<open>C11: Accepting on the hosted page, without a confirmation or with the one of the e-mail core.  It
  succeeds exactly for a usable link, a signer with a name and
  a valid address, a version within the link's audience and an acceptance that the consent rules allow
  for the link's customer.  It then does what the acceptance service does: the one acceptance it appends is the
  effective one of the link's customer, with the service's evidence, on channel LINK, its actor the link with
  the declared name and address; the state of the pair is ACCEPTED and no other pair's state
  changes.  In every other case nothing is written (a UUID may have been drawn as the key of the request).\<close>

theorem page_accept_correct:
  assumes good: "goodIds E" and inv: "consentInv E w" and conf: "wiredConfirmation E conf"
    and key: "\<And>link. linkFor token (w_links w) = Some link \<Longrightarrow>
      map_of (w_idempotency w) (acceptanceKey (pageInput E w link request)) = None"
  shows "case page_accept E conf token request w of
     (Inr r, w') \<Rightarrow> (\<exists>link. linkFor token (w_links w) = Some link \<and> mayUseLink E w link request
        \<and> pageAccepted E w link request r w')
   | (Inl e, w') \<Rightarrow> \<not> (\<exists>link. linkFor token (w_links w) = Some link \<and> mayUseLink E w link request)
        \<and> (\<exists>n. w' = w\<lparr>w_uuid := n\<rparr>)"
proof -
  let ?Q = "\<lambda>r w'. \<exists>link. linkFor token (w_links w) = Some link \<and> mayUseLink E w link request
        \<and> pageAccepted E w link request r w'"
  let ?X = "\<lambda>e w'. \<not> (\<exists>link. linkFor token (w_links w) = Some link \<and> mayUseLink E w link request)
        \<and> (\<exists>n. w' = w\<lparr>w_uuid := n\<rparr>)"
  have idle: "\<exists>n. w = w\<lparr>w_uuid := n\<rparr>" by (rule exI[of _ "w_uuid w"]) simp
  have "wp (page_accept E conf token request) ?Q ?X w"
  proof (cases "linkFor token (w_links w)")
    case None
    then show ?thesis using idle by (simp add: page_accept_def wp_simps wp_resolve)
  next
    case (Some link)
    show ?thesis
    proof (cases "isAcceptanceLinkUsable link (w_now w) \<and> trim (lar_signerName request) \<noteq> []
        \<and> EMAIL_PATTERN (trim (lar_signerEmail request)) \<and> inScope w link (lar_versionId request)")
      case False
      with Some idle show ?thesis
        by (auto simp: page_accept_def wp_simps wp_resolve wp_inScope mayUseLink_def)
    next
      case ok: True
      let ?in = "pageInput E w link request"
      have core: "wp (acceptance_accept E conf ?in)
          (\<lambda>r. wp (bindM clock_now (\<lambda>now. thenM (links_touch (al_id link) now) (retM r))) ?Q ?X) ?X (w\<lparr>w_uuid := n\<rparr>)"
        if n: "w_uuid w \<le> n" for n
      proof (rule wp_mono[OF acceptance_accept_wp[OF good _ wiredConfirmation_quiet[OF conf]]])
        show "consentInv E (w\<lparr>w_uuid := n\<rparr>)" by (rule consentInv_frame[OF inv]) (use n in simp_all)
        show "map_of (w_idempotency (w\<lparr>w_uuid := n\<rparr>)) (acceptanceKey ?in) = None" using key[OF Some] by simp
      next
        fix r w1
        assume post: "mayAccept (w\<lparr>w_uuid := n\<rparr>) ?in
          \<and> map_of (w_idempotency w1) = (map_of (w_idempotency (w\<lparr>w_uuid := n\<rparr>)))(acceptanceKey ?in \<mapsto> r)
          \<and> (\<exists>a. r = AcceptanceResponse (a_id a) \<and> evidenceOf (w\<lparr>w_uuid := n\<rparr>) ?in a
            \<and> wroteAcceptance E ?in (w\<lparr>w_uuid := n\<rparr>) a (w1\<lparr>w_idempotency := w_idempotency (w\<lparr>w_uuid := n\<rparr>)\<rparr>))"
        show "wp (bindM clock_now (\<lambda>now. thenM (links_touch (al_id link) now) (retM r))) ?Q ?X w1"
          using pageAccepted_uuid[OF post n] ok Some by (intro wp_touched) (auto simp: mayUseLink_def)
      next
        fix e w1
        assume "\<not> mayAccept (w\<lparr>w_uuid := n\<rparr>) ?in \<and> w1 = w\<lparr>w_uuid := n\<rparr>"
        then show "?X e w1" unfolding mayAccept_uuid using Some by (auto simp: mayUseLink_def)
      qed
      have run: "page_accept E conf token request = bindM (bindM (resolveUsableLink token) (requireD LINK_NOT_FOUND)) (\<lambda>l.
          if trim (lar_signerName request) = [] then throwD INVALID_STATE
          else if \<not> EMAIL_PATTERN (trim (lar_signerEmail request)) then throwD INVALID_STATE
          else thenM (assertVersionInLinkScope l (lar_versionId request))
           (bindM (orRandomKey E (lar_idempotencyKey request)) (\<lambda>key.
            bindM (acceptance_accept E conf (pageInput E w l request\<lparr>ai_idempotencyKey := key\<rparr>)) (\<lambda>r.
            bindM clock_now (\<lambda>now. thenM (links_touch (al_id l) now) (retM r))))))"
        by (simp add: page_accept_def pageInput_def Let_def cong: if_cong)
      have "wp (bindM (orRandomKey E (lar_idempotencyKey request)) (\<lambda>key.
            bindM (acceptance_accept E conf (pageInput E w link request\<lparr>ai_idempotencyKey := key\<rparr>)) (\<lambda>r.
            bindM clock_now (\<lambda>now. thenM (links_touch (al_id link) now) (retM r))))) ?Q ?X w"
        unfolding wp_bind[of "orRandomKey E (lar_idempotencyKey request)"]
        by (rule orRandomKey_wp) (use core in \<open>simp add: wp_bind pageInput_def\<close>)
      then show ?thesis
        unfolding run wp_bind[of "bindM (resolveUsableLink token) (requireD LINK_NOT_FOUND)"]
          wp_bind[of "resolveUsableLink token"] wp_resolve wp_require
        using Some ok by (simp add: wp_then wp_inScope)
    qed
  qed
  then show ?thesis by (simp add: wp_def split: prod.splits sum.splits)
qed

definition link_ex :: AcceptanceLink where
  "link_ex = \<lparr>al_id = ''al-1'', al_tokenHash = acceptanceLinkTokenHash ''tok'', al_customerId = ''c'',
     al_kind = STANDARD, al_audienceKey = None, al_createdBy = ''admin'', al_createdAt = 0,
     al_expiresAt = Some 500, al_revokedAt = None, al_lastUsedAt = None\<rparr>"

definition link_world_ex :: world where
  "link_world_ex = world_ex\<lparr>w_links := [(''al-1'', link_ex)]\<rparr>"

definition link_request_ex :: LinkAcceptanceRequest where
  "link_request_ex = \<lparr>lar_versionId = ''v'', lar_displayedConsentText = None, lar_signerName = ''Ann'',
     lar_signerEmail = ''a@b.c'', lar_ipAddress = None, lar_userAgent = None, lar_idempotencyKey = Some ''k''\<rparr>"

lemma link_ex_facts:
  "linkFor ''tok'' (w_links link_world_ex) = Some link_ex"
  "mayUseLink env_ex link_world_ex link_ex link_request_ex" "consentInv env_ex link_world_ex"
proof -
  show "linkFor ''tok'' (w_links link_world_ex) = Some link_ex"
    by (simp add: linkFor_def links_findBy_def link_world_ex_def tvals_def link_ex_def)
  show "consentInv env_ex link_world_ex"
    by (rule consentInv_frame[OF consentInv_ex]) (simp_all add: link_world_ex_def)
  have "mayAccept link_world_ex (pageInput env_ex link_world_ex link_ex link_request_ex)"
    by (simp add: mayAccept_def link_world_ex_def link_ex_def link_request_ex_def pageInput_def world_ex_def
        emptyWorld_def ver_ex_def doc_ex_def cust_ex_def findCurrentPublished_def findByTypeAndAudience_def
        tvals_def stateFor_def state_ex_def newState_def)
  moreover have "EMAIL_PATTERN (trim ''a@b.c'')" by code_simp
  ultimately show "mayUseLink env_ex link_world_ex link_ex link_request_ex"
    by (simp add: mayUseLink_def link_request_ex_def isAcceptanceLinkUsable_def link_ex_def link_world_ex_def
        world_ex_def emptyWorld_def inScope_def trim_def isSpaceChar_def)
qed

lemma page_accept_correct_witness:
  "\<exists>r w' a. page_accept env_ex confirmation_ex ''tok'' link_request_ex link_world_ex = (Inr r, w')
     \<and> tvals (w_acceptances w') = tvals (w_acceptances link_world_ex) @ [a] \<and> a_customerId a = ''c''
     \<and> a_channel a = ChLINK \<and> act_userId (a_actor a) = ''link:al-1''"
proof -
  have key: "linkFor ''tok'' (w_links link_world_ex) = Some link \<Longrightarrow>
      map_of (w_idempotency link_world_ex) (acceptanceKey (pageInput env_ex link_world_ex link link_request_ex)) = None"
    for link by (simp add: link_world_ex_def world_ex_def emptyWorld_def)
  have l: "al_customerId link_ex = ''c''" "al_id link_ex = ''al-1''" by (simp_all add: link_ex_def)
  obtain res w' where run: "page_accept env_ex confirmation_ex ''tok'' link_request_ex link_world_ex = (res, w')" by fastforce
  with page_accept_correct[where token = "''tok''" and request = link_request_ex,
      OF goodIds_ex link_ex_facts(3) wired_senders_ex(1) key] link_ex_facts(1,2)
  obtain r a where "res = Inr r" "tvals (w_acceptances w') = tvals (w_acceptances link_world_ex) @ [a]"
    "a_customerId a = ''c''" "a_channel a = ChLINK" "act_userId (a_actor a) = ''link:al-1''"
    by (cases res) (auto simp: pageAccepted_def evidenceOf_def wroteAcceptance_def pageInput_def linkActor_def
        acceptanceLinkActorUserId_def l)
  with run show ?thesis by blast
qed

end
