(* ===== verification/Text_Facts.thy ===== *)
theory Text_Facts
  imports Customers Email_Template
begin

text \<open>
  The text functions: \<open>EMAIL_PATTERN\<close> accepts exactly the addresses its regular expression describes;
  escaping is a map over the characters, produces no markup and is undone by \<open>decodeEntities\<close>; data
  substituted into an HTML template cannot change its markup.
\<close>

section \<open>Addresses\<close>

abbreviation plain :: "string \<Rightarrow> bool" where
  "plain s \<equiv> s \<noteq> [] \<and> list_all isPlainChar s"

lemma at_not_plain: "\<not> isPlainChar (CHR ''@'')"
  by (simp add: isPlainChar_def)

lemma takeWhile_at: "list_all P u \<Longrightarrow> \<not> P c \<Longrightarrow> takeWhile P (u @ c # xs) = u \<and> dropWhile P (u @ c # xs) = c # xs"
  by (induction u) auto

text \<open>A dot inside: not at the ends.\<close>

lemma inner_dot:
  "list_ex (\<lambda>i. host ! i = d) [1..<length host - 1] \<longleftrightarrow> (\<exists>a b. host = a @ d # b \<and> a \<noteq> [] \<and> b \<noteq> [])"
proof
  assume "list_ex (\<lambda>i. host ! i = d) [1..<length host - 1]"
  then obtain i where i: "1 \<le> i" "i < length host - 1" "host ! i = d" by (auto simp: list_ex_iff)
  then have "host = take i host @ d # drop (Suc i) host"
    by (metis Suc_diff_1 Suc_lessD diff_le_self id_take_nth_drop less_le_trans)
  moreover have "take i host \<noteq> []" "drop (Suc i) host \<noteq> []" using i by auto
  ultimately show "\<exists>a b. host = a @ d # b \<and> a \<noteq> [] \<and> b \<noteq> []" by blast
next
  assume "\<exists>a b. host = a @ d # b \<and> a \<noteq> [] \<and> b \<noteq> []"
  then obtain a b where h: "host = a @ d # b" "a \<noteq> []" "b \<noteq> []" by blast
  have "host ! length a = d" "1 \<le> length a" "length a < length host - 1"
    using h by (auto simp: Suc_le_eq)
  then show "list_ex (\<lambda>i. host ! i = d) [1..<length host - 1]"
    unfolding list_ex_iff by (intro bexI[of _ "length a"]) auto
qed

text \<open>An address is accepted exactly when it has the form \<open>user@host.domain\<close>, three non-empty parts
  without white space and at signs: the scanner of the model is the regular expression of the source.\<close>

theorem EMAIL_PATTERN_correct:
  "EMAIL_PATTERN s \<longleftrightarrow>
     (\<exists>user host domain. s = user @ ''@'' @ host @ ''.'' @ domain \<and> plain user \<and> plain host \<and> plain domain)"
proof
  assume E: "EMAIL_PATTERN s"
  let ?u = "takeWhile isPlainChar s" and ?r = "dropWhile isPlainChar s"
  from E have u: "?u \<noteq> []" and r: "?r \<noteq> []" "hd ?r = CHR ''@''" and all: "list_all isPlainChar (tl ?r)"
    and dot: "list_ex (\<lambda>i. tl ?r ! i = CHR ''.'') [1..<length (tl ?r) - 1]"
    by (simp_all add: EMAIL_PATTERN_def Let_def)
  from dot obtain a b where ab: "tl ?r = a @ CHR ''.'' # b" "a \<noteq> []" "b \<noteq> []"
    unfolding inner_dot by blast
  have "s = ?u @ ?r" by simp
  also have "?r = ''@'' @ a @ ''.'' @ b" using r ab(1) by (cases ?r) auto
  finally have s: "s = ?u @ ''@'' @ a @ ''.'' @ b" .
  have "plain ?u" using u by (auto simp: list_all_iff dest: set_takeWhileD)
  moreover have "plain a" "plain b" using all ab by (auto simp: ab(1))
  ultimately show "\<exists>user host domain. s = user @ ''@'' @ host @ ''.'' @ domain \<and> plain user \<and> plain host \<and> plain domain"
    using s by blast
next
  assume "\<exists>user host domain. s = user @ ''@'' @ host @ ''.'' @ domain \<and> plain user \<and> plain host \<and> plain domain"
  then obtain user host domain where s: "s = user @ CHR ''@'' # (host @ CHR ''.'' # domain)"
    and p: "plain user" "plain host" "plain domain" by auto
  have split: "takeWhile isPlainChar s = user" "dropWhile isPlainChar s = CHR ''@'' # (host @ CHR ''.'' # domain)"
    using takeWhile_at[of isPlainChar user] at_not_plain p(1) unfolding s by blast+
  have "list_ex (\<lambda>i. (host @ CHR ''.'' # domain) ! i = CHR ''.'') [1..<length (host @ CHR ''.'' # domain) - 1]"
    unfolding inner_dot using p by blast
  then show "EMAIL_PATTERN s"
    using p by (simp add: EMAIL_PATTERN_def Let_def split isPlainChar_def isSpaceChar_def)
qed

section \<open>Escaping\<close>

definition escapeChar :: "char \<Rightarrow> string" where
  "escapeChar c =
    (if c = CHR ''&'' then ''&amp;'' else if c = CHR ''<'' then ''&lt;'' else if c = CHR ''>'' then ''&gt;''
     else if c = CHR 0x22 then ''&quot;'' else if c = CHR 0x27 then ''&#39;'' else [c])"

lemma replaceAll_char: "replaceAll [x] y s = concat (map (\<lambda>c. if c = x then y else [c]) s)"
  by (induction s) (simp_all add: replaceAll.simps[of "[x]"])

lemma concat_map_concat: "concat (map f (concat (map g s))) = concat (map (\<lambda>c. concat (map f (g c))) s)"
  by (induction s) simp_all

lemma escapeHtml_eq: "escapeHtml s = concat (map escapeChar s)"
  unfolding escapeHtml_def replaceAll_char concat_map_concat
  by (rule arg_cong[where f = concat], rule map_cong) (simp_all add: escapeChar_def)

definition isMarkup :: "char \<Rightarrow> bool" where
  "isMarkup c \<longleftrightarrow> c \<in> {CHR ''<'', CHR ''>'', CHR 0x22, CHR 0x27}"

lemma escapeHtml_no_markup: "filter isMarkup (escapeHtml s) = []"
  unfolding escapeHtml_eq by (induction s) (auto simp: escapeChar_def isMarkup_def)

text \<open>A token is a plain character or an entity, which begins with an ampersand and ends at the next semicolon.\<close>

definition isEntity :: "string \<Rightarrow> bool" where
  "isEntity t \<longleftrightarrow> (\<exists>b. t = ''&'' @ b @ '';'' \<and> CHR ''&'' \<notin> set b \<and> CHR '';'' \<notin> set b)"

definition isToken :: "string \<Rightarrow> bool" where
  "isToken t \<longleftrightarrow> isEntity t \<or> (\<exists>c. t = [c] \<and> c \<noteq> CHR ''&'')"

lemma isEntityI: "CHR ''&'' \<notin> set b \<Longrightarrow> CHR '';'' \<notin> set b \<Longrightarrow> isEntity (CHR ''&'' # b @ '';'')"
  by (auto simp: isEntity_def)

lemma entities: "isEntity ''&nbsp;''" "isEntity ''&amp;''" "isEntity ''&lt;''" "isEntity ''&gt;''"
  "isEntity ''&quot;''" "isEntity ''&#39;''"
  using isEntityI[of "''nbsp''"] isEntityI[of "''amp''"] isEntityI[of "''lt''"] isEntityI[of "''gt''"]
    isEntityI[of "''quot''"] isEntityI[of "''#39''"] by simp_all

lemma until_first:
  assumes "x \<notin> set d" "x \<notin> set b" "d @ x # r = b @ x # r'"
  shows "d = b"
  using assms by (induction d arbitrary: b) (auto simp: Cons_eq_append_conv split: list.splits)

lemma entity_prefix:
  assumes "isEntity x" "isEntity t" "take (length x) (t @ r) = x"
  shows "t = x"
proof -
  from assms obtain b d where b: "x = CHR ''&'' # b @ [CHR '';'']" "CHR '';'' \<notin> set b"
    and d: "t = CHR ''&'' # d @ [CHR '';'']" "CHR '';'' \<notin> set d" by (auto simp: isEntity_def)
  from assms(3) have "t @ r = x @ drop (length x) (t @ r)" by (metis append_take_drop_id)
  with b d have "d @ CHR '';'' # r = b @ CHR '';'' # drop (length x) (t @ r)" by simp
  from until_first[OF d(2) b(2) this] have "d = b" .
  with b d show ?thesis by simp
qed

lemma replaceAll_other: "isEntity x \<Longrightarrow> c \<noteq> CHR ''&'' \<Longrightarrow> replaceAll x y (c # s) = c # replaceAll x y s"
  by (subst replaceAll.simps) (auto simp: isEntity_def)

lemma replaceAll_others: "isEntity x \<Longrightarrow> CHR ''&'' \<notin> set u \<Longrightarrow> replaceAll x y (u @ s) = u @ replaceAll x y s"
  by (induction u) (auto simp: replaceAll_other)

lemma replaceAll_token:
  assumes "isEntity x" "isToken t"
  shows "replaceAll x y (t @ r) = (if t = x then y else t) @ replaceAll x y r"
proof (cases "isEntity t")
  case False
  with assms show ?thesis by (auto simp: isToken_def replaceAll_other)
next
  case True
  then obtain b where b: "t = CHR ''&'' # (b @ '';'')" "CHR ''&'' \<notin> set b" by (auto simp: isEntity_def)
  have ne: "x \<noteq> []" "t \<noteq> []" using assms(1) True by (auto simp: isEntity_def)
  show ?thesis
  proof (cases "t = x")
    case True
    with ne show ?thesis by (subst replaceAll.simps) simp
  next
    case False
    then have "take (length x) (t @ r) \<noteq> x" using entity_prefix[OF assms(1) \<open>isEntity t\<close>] by blast
    then have "replaceAll x y (t @ r) = CHR ''&'' # replaceAll x y ((b @ '';'') @ r)"
      using ne b(1) by (subst replaceAll.simps) simp
    also have "\<dots> = t @ replaceAll x y r"
      using replaceAll_others[OF assms(1), of "b @ '';''"] b by simp
    finally show ?thesis using False by simp
  qed
qed

lemma replaceAll_tokens:
  assumes "isEntity x" "\<And>c. c \<in> set s \<Longrightarrow> isToken (f c)"
  shows "replaceAll x y (concat (map f s)) = concat (map (\<lambda>c. if f c = x then y else f c) s)"
  using assms(2) by (induction s) (simp_all add: replaceAll_token[OF assms(1)] replaceAll.simps[of x y "[]"])

definition swap :: "string \<Rightarrow> string \<Rightarrow> string \<Rightarrow> string" where
  "swap x y t = (if t = x then y else t)"

lemma isToken_swap: "isToken t \<Longrightarrow> isToken y \<Longrightarrow> isToken (swap x y t)"
  by (simp add: swap_def)

lemma plain_tokens: "isToken '' ''" "isToken ''<''" "isToken ''>''" "isToken [CHR 0x22]" "isToken [CHR 0x27]"
  by (simp_all add: isToken_def)

lemma decode_tokens:
  assumes f: "\<And>c. c \<in> set s \<Longrightarrow> isToken (f c)" "\<And>c. f c \<noteq> ''&amp;''"
  shows "decodeEntities (concat (map f s)) = concat (map (\<lambda>c. swap ''&#39;'' [CHR 0x27]
      (swap ''&quot;'' [CHR 0x22] (swap ''&gt;'' ''>'' (swap ''&lt;'' ''<'' (swap ''&nbsp;'' '' '' (f c)))))) s)"
proof -
  note step = replaceAll_tokens[folded swap_def]
  have amp: "swap ''&amp;'' ''&'' (swap ''&nbsp;'' '' '' (f c)) = swap ''&nbsp;'' '' '' (f c)" for c
    using f(2)[of c] by (simp add: swap_def)
  have t1: "isToken (swap ''&nbsp;'' '' '' (f c))" if "c \<in> set s" for c
    using isToken_swap f(1)[OF that] plain_tokens by blast
  have t2: "isToken (swap ''&lt;'' ''<'' (swap ''&nbsp;'' '' '' (f c)))" if "c \<in> set s" for c
    using isToken_swap t1[OF that] plain_tokens by blast
  have t3: "isToken (swap ''&gt;'' ''>'' (swap ''&lt;'' ''<'' (swap ''&nbsp;'' '' '' (f c))))"
    if "c \<in> set s" for c
    using isToken_swap t2[OF that] plain_tokens by blast
  have t4: "isToken (swap ''&quot;'' [CHR 0x22] (swap ''&gt;'' ''>'' (swap ''&lt;'' ''<''
      (swap ''&nbsp;'' '' '' (f c)))))" if "c \<in> set s" for c
    using isToken_swap t3[OF that] plain_tokens by blast
  have d1: "replaceAll ''&nbsp;'' '' '' (concat (map f s)) = concat (map (\<lambda>c. swap ''&nbsp;'' '' '' (f c)) s)"
    by (rule step[OF entities(1)]) (rule f(1))
  have d2: "replaceAll ''&amp;'' ''&'' (concat (map (\<lambda>c. swap ''&nbsp;'' '' '' (f c)) s))
      = concat (map (\<lambda>c. swap ''&nbsp;'' '' '' (f c)) s)"
    by (subst step[OF entities(2)]) (use t1 amp in simp_all)
  note dl = step[OF entities(3) t1, of s] and dg = step[OF entities(4) t2, of s]
    and dq = step[OF entities(5) t3, of s] and da = step[OF entities(6) t4, of s]
  show ?thesis
    unfolding decodeEntities_def d1 d2 by (simp only: dl dg dq da)
qed

text \<open>Escaping for HTML produces no markup character, and decoding the entities gives the value back
  whenever it holds no ampersand.\<close>

theorem escapeHtml_roundtrip:
  "filter isMarkup (escapeHtml value) = []
   \<and> (CHR ''&'' \<notin> set value \<longrightarrow> decodeEntities (escapeHtml value) = value)"
proof (intro conjI impI escapeHtml_no_markup)
  assume no: "CHR ''&'' \<notin> set value"
  have tok: "isToken (escapeChar c)" if "c \<in> set value" for c
    using that no entities by (auto simp: escapeChar_def isToken_def)
  have "decodeEntities (escapeHtml value) = decodeEntities (concat (map (\<lambda>c. if c = CHR ''&'' then ''x'' else escapeChar c) value))"
    unfolding escapeHtml_eq
    by (rule arg_cong[where f = "\<lambda>t. decodeEntities (concat t)"], rule map_cong) (use no in auto)
  also have "\<dots> = concat (map (\<lambda>c. [c]) value)"
    by (subst decode_tokens, use tok no in \<open>simp add: isToken_def\<close>, simp add: escapeChar_def,
        rule arg_cong[where f = concat], rule map_cong) (use no in \<open>auto simp: escapeChar_def swap_def\<close>)
  finally show "decodeEntities (escapeHtml value) = value" by simp
qed

lemma escapeHtml_roundtrip_witness:
  "decodeEntities (escapeHtml ''a<b'') = ''a<b''"
  using escapeHtml_roundtrip[of "''a<b''"] by simp

text \<open>With an ampersand the round trip fails: the text part of a mail shows another value than its HTML.\<close>

lemma decode_escape_differs: "decodeEntities (escapeHtml ''&lt;'') = ''<''"
  by code_simp

section \<open>Substitution\<close>

text \<open>C38: The markup of a rendered HTML body depends only on the template and on which variables exist:
  values of the variables, such as a customer's name, never add or remove a markup character.\<close>

theorem substitute_markup:
  assumes "dom (map_of vars) = dom (map_of vars')"
  shows "filter isMarkup (substitute vars True s) = filter isMarkup (substitute vars' True s)"
proof (induction s rule: length_induct)
  case (1 s)
  have same: "filter isMarkup (placeholderText vars True n) = filter isMarkup (placeholderText vars' True n)" for n
  proof -
    have "map_of vars n = None \<longleftrightarrow> map_of vars' n = None" using assms by (metis domIff)
    then show ?thesis by (auto simp: placeholderText_def escapeHtml_no_markup split: option.splits)
  qed
  show ?case
  proof (cases s)
    case Nil
    then show ?thesis by (simp add: substitute.simps)
  next
    case (Cons c cs)
    show ?thesis
    proof (cases "placeholderAt s")
      case None
      with 1 Cons show ?thesis by (simp add: substitute.simps[of _ _ "c # cs"])
    next
      case (Some nr)
      obtain n r where nr: "nr = (n, r)" by (cases nr)
      with Some have "length r < length s" by (simp add: placeholderAt_shorter)
      with 1 nr Some Cons same[of n] show ?thesis by (simp add: substitute.simps[of _ _ "c # cs"])
    qed
  qed
qed

lemma substitute_markup_witness:
  "filter isMarkup (substitute [(''n'', ''<b>'')] True ''<p>{{ n }}</p>'')
     = filter isMarkup (substitute [(''n'', [])] True ''<p>{{ n }}</p>'')"
  using substitute_markup[of "[(''n'', ''<b>'')]" "[(''n'', [])]"] by simp

section \<open>The text part is derived in as many steps as there are characters\<close>

lemma length_dropWhile_tl: "s \<noteq> [] \<Longrightarrow> dropWhile P s = t \<Longrightarrow> t \<noteq> [] \<Longrightarrow> length (tl t) < length s"
  using length_dropWhile_le[of P s] by (cases t) auto

lemma untilAnchorEnd_shorter: "untilAnchorEnd s = Some (inner, rest) \<Longrightarrow> length rest \<le> length s"
  by (induction s arbitrary: inner) (fastforce split: if_splits)+

lemma hrefAt_shorter: "hrefAt s = Some (href, inner, rest) \<Longrightarrow> length rest \<le> length s"
proof -
  assume "hrefAt s = Some (href, inner, rest)"
  then obtain q s1 where s1: "drop 5 s = q # s1" and m: "untilAnchorEnd (tl (dropWhile (\<lambda>c. c \<noteq> CHR ''>'')
      (tl (dropWhile (\<lambda>c. \<not> isQuote c) s1)))) = Some (inner, rest)"
    by (auto simp: hrefAt_def Let_def split: if_splits list.splits)
  have "length rest \<le> length (dropWhile (\<lambda>c. c \<noteq> CHR ''>'') (tl (dropWhile (\<lambda>c. \<not> isQuote c) s1)))"
    using untilAnchorEnd_shorter[OF m] by simp
  also have "\<dots> \<le> length (dropWhile (\<lambda>c. \<not> isQuote c) s1)"
    using length_dropWhile_le[of _ "tl (dropWhile (\<lambda>c. \<not> isQuote c) s1)"] by (rule order_trans) simp
  also have "\<dots> \<le> length s1" by (rule length_dropWhile_le)
  also have "\<dots> \<le> length (drop 5 s)" by (simp add: s1)
  finally show ?thesis by simp
qed

lemma lastHref_shorter: "lastHref n s = Some (href, inner, rest) \<Longrightarrow> length rest \<le> length s"
proof (induction n)
  case 0
  then show ?case by (auto dest: hrefAt_shorter)
next
  case (Suc n)
  then show ?case using hrefAt_shorter[of "drop (Suc n) s" href inner rest] by (force split: option.splits)
qed

lemma anchorAt_shorter: "anchorAt s = Some (href, inner, rest) \<Longrightarrow> length rest < length s"
proof -
  assume "anchorAt s = Some (href, inner, rest)"
  then have a: "toLowerCase (take 2 s) = ''<a''" and "lastHref (length (takeWhile (\<lambda>c. c \<noteq> CHR ''>'') (drop 2 s))) (drop 2 s)
      = Some (href, inner, rest)" by (auto simp: anchorAt_def split: if_splits)
  from lastHref_shorter[OF this(2)] have "length rest \<le> length s - 2" by simp
  moreover have "s \<noteq> []" using a by (auto simp: toLowerCase_def)
  ultimately show ?thesis by (cases s) auto
qed

lemma closeTag_shorter: "closeTag s = Some rest \<Longrightarrow> length rest < length s"
  using length_dropWhile_le[of isSpaceChar s] by (auto simp: closeTag_def split: list.splits if_splits)

lemma tagAt_shorter:
  shows "brAt s = Some rest \<Longrightarrow> length rest < length s"
    and "blockEndAt s = Some rest \<Longrightarrow> length rest < length s"
proof -
  have d: "length (dropWhile P (drop n t)) \<le> length t" for P n and t :: string
    using length_dropWhile_le[of P "drop n t"] by simp
  show "length rest < length s" if "brAt s = Some rest"
  proof -
    define s1 s2 where "s1 = dropWhile isSpaceChar (drop 1 s)" and "s2 = dropWhile isSpaceChar (drop 2 s1)"
    with that have "closeTag (if take 1 s2 = ''/'' then drop 1 s2 else s2) = Some rest"
      by (auto simp: brAt_def Let_def split: if_splits)
    from closeTag_shorter[OF this] have "length rest < length s2" by (simp split: if_splits)
    also have "\<dots> \<le> length s1" unfolding s2_def by (rule d)
    also have "\<dots> \<le> length s" unfolding s1_def by (rule d)
    finally show ?thesis .
  qed
  show "length rest < length s" if "blockEndAt s = Some rest"
  proof -
    define s1 P where "s1 = dropWhile isSpaceChar (drop 2 s)" and "P = (\<lambda>c. \<not> isSpaceChar c \<and> c \<noteq> CHR ''>'')"
    with that have "closeTag (dropWhile P s1) = Some rest" by (auto simp: blockEndAt_def Let_def split: if_splits)
    from closeTag_shorter[OF this] have "length rest < length (dropWhile P s1)" .
    also have "\<dots> \<le> length s1" by (rule length_dropWhile_le)
    also have "\<dots> \<le> length s" unfolding s1_def by (rule d)
    finally show ?thesis .
  qed
qed

lemma replaceAnchors_fuel: "length s \<le> n \<Longrightarrow> length s \<le> m \<Longrightarrow> replaceAnchors n s = replaceAnchors m s"
proof (induction n s arbitrary: m rule: replaceAnchors.induct)
  case (1 s)
  then show ?case by (cases m) simp_all
next
  case (2 n)
  then show ?case by (cases m) simp_all
next
  case (3 n c cs)
  from 3(4) obtain k where m: "m = Suc k" "length cs \<le> k" by (cases m) auto
  show ?case
  proof (cases "anchorAt (c # cs)")
    case None
    with 3(1)[of k] 3(3) m show ?thesis by simp
  next
    case (Some a)
    then obtain href inner rest where a: "anchorAt (c # cs) = Some (href, inner, rest)" by (cases a) auto
    from anchorAt_shorter[OF a] have "length rest \<le> n" "length rest \<le> k" using 3(3) m by simp_all
    with 3(2)[OF a refl refl, of k] show ?thesis by (simp add: a m)
  qed
qed

lemma breakTags_fuel:
  assumes shorter: "\<And>t rest. tagAt t = Some rest \<Longrightarrow> length rest < length t"
  shows "length s \<le> n \<Longrightarrow> length s \<le> m \<Longrightarrow> breakTags tagAt n s = breakTags tagAt m s"
proof (induction n arbitrary: s m)
  case 0
  then show ?case by (cases m) simp_all
next
  case (Suc n)
  show ?case
  proof (cases s)
    case Nil
    then show ?thesis by (cases m) simp_all
  next
    case (Cons c cs)
    from Suc.prems(2) Cons obtain k where m: "m = Suc k" "length cs \<le> k" by (cases m) auto
    have "breakTags tagAt n rest = breakTags tagAt k rest" if "tagAt (c # cs) = Some rest" for rest
      using Suc.IH[of rest k] shorter[OF that] Suc.prems(1) m Cons by simp
    with Suc.IH[of cs k] Suc.prems(1) m show ?thesis by (auto simp: Cons split: option.split)
  qed
qed

text \<open>No three line breaks in a row, where \<open>n\<close> precede.\<close>

fun calm :: "nat \<Rightarrow> string \<Rightarrow> bool" where
  "calm n [] = True"
| "calm n (c # cs) = (if c = CHR 0x0A then n < 2 \<and> calm (Suc n) cs else calm 0 cs)"

lemma calm_collapse: "calm n (collapseBreaks n s)"
  by (induction n s rule: collapseBreaks.induct) auto

lemma calm_less: "calm n s \<Longrightarrow> m \<le> n \<Longrightarrow> calm m s"
  by (induction n s arbitrary: m rule: calm.induct) (auto split: if_splits)

lemma calm_append: "calm n (x @ y) \<Longrightarrow> calm n x \<and> calm 0 y"
  by (induction n x rule: calm.induct) (auto split: if_splits intro: calm_less)

lemma calm_trim: "calm 0 s \<Longrightarrow> calm 0 (trim s)"
proof -
  assume s: "calm 0 s"
  obtain a where a: "s = a @ dropWhile isSpaceChar s" by (metis takeWhile_dropWhile_id)
  obtain b where b: "dropWhile isSpaceChar s = trim s @ b"
    using takeWhile_dropWhile_id[of isSpaceChar "rev (dropWhile isSpaceChar s)"]
    by (metis trim_def rev_append rev_rev_ident)
  from s a b show ?thesis by (metis calm_append)
qed

text \<open>C39: The derivation of the text part of a mail ends on every HTML, well-formed or not.  Each rewriting
  consumes at least one character per step, so that as many steps as there are characters are enough and
  more of them change nothing, and the text it ends with never has more than one empty line in a row.\<close>

theorem deriveText_terminates:
  shows "(\<forall>n \<ge> length html. replaceAnchors n html = replaceAnchors (length html) html)
     \<and> (\<forall>tagAt \<in> {brAt, blockEndAt}. \<forall>n \<ge> length html. breakTags tagAt n html = breakTags tagAt (length html) html)
     \<and> calm 0 (deriveTextFromHtml html)"
proof (intro conjI ballI allI impI)
  fix n assume n: "length html \<le> n"
  show "replaceAnchors n html = replaceAnchors (length html) html" by (rule replaceAnchors_fuel[OF n order.refl])
  fix tagAt assume "tagAt \<in> {brAt, blockEndAt}"
  then consider "tagAt = brAt" | "tagAt = blockEndAt" by blast
  then show "breakTags tagAt n html = breakTags tagAt (length html) html"
    by (cases; hypsubst) (rule breakTags_fuel[OF _ n order.refl], erule tagAt_shorter)+
next
  show "calm 0 (deriveTextFromHtml html)"
    by (simp add: deriveTextFromHtml_def Let_def calm_trim calm_collapse)
qed

lemma deriveText_terminates_witness:
  "replaceAnchors 99 ''<a href=x'' = replaceAnchors (length ''<a href=x'') ''<a href=x''"
  by (rule mp[OF spec[OF conjunct1[OF deriveText_terminates]]]) simp

end
