(* ===== verification/Gate_Facts.thy ===== *)
theory Gate_Facts
  imports Compliance Consent_Facts
begin

text \<open>
  The tool gate and the popup, as read services over the world: what they answer, that they write
  nothing, that they agree with each other, and that an acceptance opens the gate.
\<close>

section \<open>The current versions\<close>

abbreviation currentOfDoc :: "world \<Rightarrow> AgreementDocument \<Rightarrow> AgreementVersion option" where
  "currentOfDoc w d \<equiv> findCurrentPublished w (d_type d) (d_audience d) (w_now w)"

definition currentEntries :: "world \<Rightarrow> CurrentVersionEntry list" where
  "currentEntries w = concat (map (\<lambda>d. case currentOfDoc w d of
      None \<Rightarrow> [] | Some v \<Rightarrow> [\<lparr>cve_document = d, cve_version = v\<rparr>]) (tvals (w_documents w)))"

lemma loadCurrentVersions_eq: "loadCurrentVersions w = (Inr (currentEntries w), w)"
proof -
  have "foldM (\<lambda>entries document.
      bindM (versions_findCurrentPublished (d_type document) (d_audience document) (w_now w)) (\<lambda>version.
      case version of None \<Rightarrow> retM entries
      | Some v \<Rightarrow> retM (entries @ [\<lparr>cve_document = document, cve_version = v\<rparr>]))) [] (tvals (w_documents w)) w
    = (Inr ([] @ currentEntries w), w)"
    unfolding currentEntries_def
    by (rule foldM_reads)
       (simp add: bindM_def versions_findCurrentPublished_def getsM_def retM_def split: option.split)
  then show ?thesis
    by (simp add: loadCurrentVersions_def bindM_def clock_now_def getsM_def documents_findAll_def)
qed

lemma latestConsent_eq:
  "latestConsent c vs w = (Inr (case find (\<lambda>v. effectiveFor (w_acceptances w) c (v_id v) \<noteq> None) vs of
      None \<Rightarrow> None | Some v \<Rightarrow> effectiveFor (w_acceptances w) c (v_id v)), w)"
  by (induction vs) (auto simp: action_defs acceptances_findEffective_def split: option.splits)

definition knownAudience :: "world \<Rightarrow> string option \<Rightarrow> bool" where
  "knownAudience w aud \<longleftrightarrow> (case aud of None \<Rightarrow> True | Some k \<Rightarrow> \<exists>a \<in> set (tvals (w_audiences w)). au_key a = k)"

lemma resolveAudienceKey_eq:
  "resolveAudienceKey aud w = (if knownAudience w aud then Inr aud else domainError UNKNOWN_AUDIENCE, w)"
  by (auto simp: resolveAudienceKey_def knownAudience_def action_defs audiences_findByKey_def domainError_def
      find_None_iff dest: find_SomeD split: option.splits)

definition consentOn :: "world \<Rightarrow> string \<Rightarrow> CurrentVersionEntry list \<Rightarrow> string \<Rightarrow> Acceptance option" where
  "consentOn w c entries key =
    (case find (\<lambda>e. detailKey (d_type (cve_document e)) (d_audience (cve_document e)) = key) entries of
       None \<Rightarrow> None
     | Some e \<Rightarrow>
        (case find (\<lambda>v. effectiveFor (w_acceptances w) c (v_id v) \<noteq> None)
            (newestFirst (filter (\<lambda>v. v_documentId v = d_id (cve_document e)) (tvals (w_versions w)))) of
           None \<Rightarrow> None | Some v \<Rightarrow> effectiveFor (w_acceptances w) c (v_id v)))"

definition detailResponse :: "Acceptance option \<Rightarrow> ComplianceDetail \<Rightarrow> ComplianceDetailResponse" where
  "detailResponse a d =
    \<lparr>cdr_requiredVersionId = cd_requiredVersionId d, cdr_requiredVersionLabel = cd_requiredVersionLabel d,
     cdr_acceptedVersionId = map_option a_versionId a, cdr_state = cd_state d, cdr_method = map_option a_method a,
     cdr_deadlineAt = cd_deadlineAt d, cdr_pendingMode = cd_pendingMode d\<rparr>"

lemma enrichDetail_eq:
  "enrichDetail c entries key d w = (Inr (detailResponse (consentOn w c entries key) d), w)"
  by (auto simp: enrichDetail_def consentOn_def detailResponse_def Let_def action_defs latestConsent_eq
      versions_findByDocument_def split: option.splits)

lemma stateFor_filter: "stateFor (filter (\<lambda>s. cvs_customerId s = c) ss) c v = stateFor ss c v"
  by (induction ss) (auto simp: stateFor_def)

text \<open>The gate in terms of the world.\<close>

definition gateOpen :: "world \<Rightarrow> Customer \<Rightarrow> string option \<Rightarrow> bool" where
  "gateOpen w c aud \<longleftrightarrow> c_deletedAt c \<noteq> None \<or>
     (\<forall>d \<in> set (tvals (w_documents w)). d_audience d \<in> set (relevantAudiences c aud) \<longrightarrow>
        (\<forall>v s. currentOfDoc w d = Some v \<longrightarrow> stateFor (tvals (w_states w)) (c_id c) (v_id v) = Some s
           \<longrightarrow> \<not> isBlocking s))"

lemma compliant_blocked:
  "cr_compliant (computeCompliance c entries sts aud) \<longleftrightarrow>
     c_deletedAt c \<noteq> None \<or> (\<forall>e \<in> set entries. d_audience (cve_document e) \<in> set (relevantAudiences c aud) \<longrightarrow> \<not> blockedFor c sts e)"
  using complianceLoop_compliant[of c "relevantAudiences c aud" sts entries "(True, [])"]
  by (simp add: computeCompliance_def split: prod.splits) (metis fst_conv)

lemma blockedFor_iff:
  "blockedFor c sts e \<longleftrightarrow> (\<exists>s. stateFor sts (c_id c) (v_id (cve_version e)) = Some s \<and> isBlocking s)"
  by (simp add: blockedFor_def split: option.split)

lemma currentEntries_iff:
  "e \<in> set (currentEntries w) \<longleftrightarrow> cve_document e \<in> set (tvals (w_documents w)) \<and> currentOfDoc w (cve_document e) = Some (cve_version e)"
  by (cases e) (auto simp: currentEntries_def split: option.splits)

lemma compliant_gate:
  "cr_compliant (computeCompliance c (currentEntries w)
      (filter (\<lambda>s. cvs_customerId s = c_id c) (tvals (w_states w))) aud) \<longleftrightarrow> gateOpen w c aud"
proof -
  let ?ss = "filter (\<lambda>s. cvs_customerId s = c_id c) (tvals (w_states w))"
  have "(\<forall>e \<in> set (currentEntries w). d_audience (cve_document e) \<in> set (relevantAudiences c aud) \<longrightarrow> \<not> blockedFor c ?ss e)
    \<longleftrightarrow> (\<forall>d \<in> set (tvals (w_documents w)). d_audience d \<in> set (relevantAudiences c aud) \<longrightarrow>
        (\<forall>v s. currentOfDoc w d = Some v \<longrightarrow> stateFor (tvals (w_states w)) (c_id c) (v_id v) = Some s
           \<longrightarrow> \<not> isBlocking s))" (is "?all \<longleftrightarrow> ?docs")
  proof
    assume all: ?all
    show ?docs
    proof (intro ballI impI allI)
      fix d v s
      assume "d \<in> set (tvals (w_documents w))" "d_audience d \<in> set (relevantAudiences c aud)"
        "currentOfDoc w d = Some v" "stateFor (tvals (w_states w)) (c_id c) (v_id v) = Some s"
      with bspec[OF all, of "\<lparr>cve_document = d, cve_version = v\<rparr>"] show "\<not> isBlocking s"
        by (simp add: currentEntries_iff blockedFor_iff stateFor_filter)
    qed
  next
    assume ?docs
    then show ?all by (auto simp: currentEntries_iff blockedFor_iff stateFor_filter)
  qed
  then show ?thesis unfolding compliant_blocked gateOpen_def by blast
qed

lemma wp_resolveAudienceKey:
  "wp (resolveAudienceKey aud) Q X w = (if knownAudience w aud then Q aud w else X (DomainError UNKNOWN_AUDIENCE) w)"
  by (simp add: wp_def resolveAudienceKey_eq domainError_def)

lemma wp_loadCurrentVersions: "wp loadCurrentVersions Q X w = Q (currentEntries w) w"
  by (simp add: wp_def loadCurrentVersions_eq)

text \<open>The answer of the service, error cases included.\<close>

lemma getCompliance_eq:
  "getCompliance cid aud w =
     (if \<not> knownAudience w aud then domainError UNKNOWN_AUDIENCE
      else (case map_of (w_customers w) cid of
          None \<Rightarrow> domainError CUSTOMER_NOT_FOUND
        | Some c \<Rightarrow>
            (let entries = currentEntries w;
                 result = computeCompliance c entries (filter (\<lambda>s. cvs_customerId s = cid) (tvals (w_states w))) aud
             in Inr \<lparr>crs_customerId = cr_customerId result, crs_audience = cr_audience result,
                  crs_roles = cr_roles result, crs_compliant = cr_compliant result,
                  crs_details = map (\<lambda>(key, d). (key, detailResponse (consentOn w cid entries key) d)) (cr_details result)\<rparr>)), w)"
proof -
  have wp_details: "wp (mapM (\<lambda>(key, detail). bindM (enrichDetail cid es key detail) (\<lambda>d. retM (key, d))) ds) Q X w
      = Q (map (\<lambda>(key, d). (key, detailResponse (consentOn w cid es key) d)) ds) w" for es ds Q X
    by (rule wp_reads, rule mapM_reads) (auto simp: bindM_def enrichDetail_eq retM_def)
  show ?thesis
    by (intro reads_wp) (auto simp: getCompliance_def wp_simps wp_resolveAudienceKey wp_loadCurrentVersions
        wp_details domainError_def Let_def split: option.splits)
qed

section \<open>The popup\<close>

definition candidates :: "world \<Rightarrow> AgreementDocument \<Rightarrow> (AgreementVersion \<times> bool) list" where
  "candidates w d = (case currentOfDoc w d of None \<Rightarrow> [] | Some v \<Rightarrow> [(v, False)])
     @ map (\<lambda>v. (v, True)) (findUpcomingPublishedList w (d_type d) (d_audience d) (w_now w))"

definition itemFor ::
  "(string \<Rightarrow> string) \<Rightarrow> world \<Rightarrow> string \<Rightarrow> AgreementDocument \<Rightarrow> AgreementVersion \<times> bool \<Rightarrow> PendingAgreementItem list" where
  "itemFor url w cid d entry =
    (case stateFor (tvals (w_states w)) cid (v_id (fst entry)) of
       None \<Rightarrow> []
     | Some s \<Rightarrow> if cvs_state s \<in> set POPUP_OPEN_STATES
         then [pendingItem d (fst entry) (snd entry) s (url (v_storageKey (fst entry)))] else [])"

definition pendingItems ::
  "(string \<Rightarrow> string) \<Rightarrow> world \<Rightarrow> Customer \<Rightarrow> string \<Rightarrow> string option \<Rightarrow> PendingAgreementItem list" where
  "pendingItems url w c cid aud =
    concat (map (\<lambda>d. if d_audience d \<in> set (relevantAudiences c aud)
        then concat (map (itemFor url w cid d) (candidates w d)) else []) (tvals (w_documents w)))"

text \<open>What the code relies on of the provider of presigned URLs: it answers and changes nothing here.\<close>

definition answersUrls :: "pdfUrlProvider \<Rightarrow> (string \<Rightarrow> string) \<Rightarrow> world \<Rightarrow> bool" where
  "answersUrls pdfUrl url w \<longleftrightarrow> (\<forall>k. pdfUrl k w = (Inr (url k), w))"

lemma getPendingAgreements_eq:
  assumes pdf: "answersUrls pdfUrl url w"
  shows "getPendingAgreements pdfUrl cid aud w =
     (if \<not> knownAudience w aud then domainError UNKNOWN_AUDIENCE
      else (case map_of (w_customers w) cid of
          None \<Rightarrow> domainError CUSTOMER_NOT_FOUND
        | Some c \<Rightarrow> Inr (pendingItems url w c cid aud)), w)"
proof -
  have one: "pendingForVersion pdfUrl cid d items entry w = (Inr (items @ itemFor url w cid d entry), w)" for d items entry
    using pdf by (cases entry) (auto simp: pendingForVersion_def itemFor_def answersUrls_def bindM_def
        states_findByCustomerAndVersion_def getsM_def retM_def split: option.splits)
  have doc: "pendingForDocument pdfUrl cid auds (w_now w) items d w =
      (Inr (items @ (if d_audience d \<in> set auds then concat (map (itemFor url w cid d) (candidates w d)) else [])), w)"
    for auds items d
  proof (cases "d_audience d \<in> set auds")
    case True
    have "foldM (pendingForVersion pdfUrl cid d) items (candidates w d) w
        = (Inr (items @ concat (map (itemFor url w cid d) (candidates w d))), w)"
      by (rule foldM_reads) (rule one)
    with True show ?thesis
      by (simp add: pendingForDocument_def bindM_def versions_findCurrentPublished_def getsM_def
          versions_findUpcomingPublishedList_def candidates_def)
  qed (simp add: pendingForDocument_def retM_def)
  have docs: "foldM (pendingForDocument pdfUrl cid (relevantAudiences c aud) (w_now w)) [] (tvals (w_documents w)) w
      = (Inr ([] @ pendingItems url w c cid aud), w)" for c
    unfolding pendingItems_def by (rule foldM_reads) (rule doc)
  have wp_docs: "wp (foldM (pendingForDocument pdfUrl cid (relevantAudiences c aud) (w_now w)) [] (tvals (w_documents w))) Q X w
      = Q (pendingItems url w c cid aud) w" for c Q X by (simp add: wp_def docs)
  show ?thesis
    by (intro reads_wp) (auto simp: getPendingAgreements_def wp_simps wp_resolveAudienceKey wp_docs
        domainError_def split: option.splits)
qed

lemma blocking_is_open: "isBlocking s \<Longrightarrow> cvs_state s \<in> set POPUP_OPEN_STATES"
  by (auto simp: isBlocking_def POPUP_OPEN_STATES_def CARRY_OVER_BLOCKING_STATES_def)

text \<open>A blocking state of a version in force is a blocking item of the popup.\<close>

lemma blocking_item:
  assumes "d \<in> set (tvals (w_documents w))" "d_audience d \<in> set (relevantAudiences c aud)"
    and "currentOfDoc w d = Some v" "stateFor (tvals (w_states w)) cid (v_id v) = Some s" "isBlocking s"
  shows "\<exists>item \<in> set (pendingItems url w c cid aud). pai_blocking item \<and> \<not> pai_upcoming item \<and> pai_versionId item = v_id v"
proof -
  let ?i = "pendingItem d v False s (url (v_storageKey v))"
  have "(v, False) \<in> set (candidates w d)" using assms(3) by (simp add: candidates_def)
  moreover have "?i \<in> set (itemFor url w cid d (v, False))"
    using assms(4,5) blocking_is_open by (simp add: itemFor_def)
  ultimately have "?i \<in> set (pendingItems url w c cid aud)" using assms(1,2) by (force simp: pendingItems_def)
  then show ?thesis using assms(5) by (intro bexI[of _ ?i]) (simp_all add: pendingItem_def)
qed

text \<open>C14: The tool gate and the popup agree.  For a known customer that is not deleted, a known audience and a
  provider of the PDF links that answers, both answer and write nothing, and the customer is refused by the gate exactly when the popup shows a blocking item of a
  version in force: whoever is locked out is shown what to accept, and nobody is told that an agreement
  blocks while the gate is open.\<close>

theorem gate_popup_agree:
  assumes pdf: "answersUrls pdfUrl url w"
    and c: "map_of (w_customers w) (c_id c) = Some c" "c_deletedAt c = None"
    and aud: "knownAudience w audience"
  shows "\<exists>response items. getCompliance (c_id c) audience w = (Inr response, w)
     \<and> getPendingAgreements pdfUrl (c_id c) audience w = (Inr items, w)
     \<and> (crs_compliant response \<longleftrightarrow> \<not> (\<exists>item \<in> set items. pai_blocking item \<and> \<not> pai_upcoming item))"
proof -
  let ?items = "pendingItems url w c (c_id c) audience"
  have "(\<exists>item \<in> set ?items. pai_blocking item \<and> \<not> pai_upcoming item) \<longleftrightarrow>
      (\<exists>d \<in> set (tvals (w_documents w)). d_audience d \<in> set (relevantAudiences c audience)
        \<and> (\<exists>v s. currentOfDoc w d = Some v \<and> stateFor (tvals (w_states w)) (c_id c) (v_id v) = Some s \<and> isBlocking s))"
    (is "?l \<longleftrightarrow> ?r")
  proof
    assume ?l
    then obtain item d e where d: "d \<in> set (tvals (w_documents w))" "d_audience d \<in> set (relevantAudiences c audience)"
      and e: "e \<in> set (candidates w d)" "item \<in> set (itemFor url w (c_id c) d e)"
      and i: "pai_blocking item" "\<not> pai_upcoming item"
      by (auto simp: pendingItems_def split: if_splits)
    from e(2) i obtain s where s: "stateFor (tvals (w_states w)) (c_id c) (v_id (fst e)) = Some s"
      "isBlocking s" "\<not> snd e"
      by (cases "stateFor (tvals (w_states w)) (c_id c) (v_id (fst e))")
         (auto simp: itemFor_def pendingItem_def split: if_splits)
    from e(1) s(3) have "currentOfDoc w d = Some (fst e)" by (auto simp: candidates_def split: option.splits)
    with d s show ?r by blast
  next
    assume ?r
    then obtain d v s where d: "d \<in> set (tvals (w_documents w))" "d_audience d \<in> set (relevantAudiences c audience)"
      and v: "currentOfDoc w d = Some v" "stateFor (tvals (w_states w)) (c_id c) (v_id v) = Some s" "isBlocking s"
      by blast
    from blocking_item[OF d v] show ?l by blast
  qed
  moreover have "gateOpen w c audience \<longleftrightarrow> \<not> (\<exists>d \<in> set (tvals (w_documents w)).
      d_audience d \<in> set (relevantAudiences c audience) \<and> (\<exists>v s. currentOfDoc w d = Some v
        \<and> stateFor (tvals (w_states w)) (c_id c) (v_id v) = Some s \<and> isBlocking s))"
    using c(2) unfolding gateOpen_def by blast
  ultimately have "gateOpen w c audience \<longleftrightarrow> \<not> (\<exists>item \<in> set ?items. pai_blocking item \<and> \<not> pai_upcoming item)" by blast
  then show ?thesis
    using aud c(1) by (simp add: getCompliance_eq getPendingAgreements_eq[OF pdf] Let_def compliant_gate)
qed

definition locked_world_ex :: world where
  "locked_world_ex = world_ex\<lparr>w_states := [(''cvs-00000000'', state_ex\<lparr>cvs_state := EXPIRED_BLOCKING\<rparr>)]\<rparr>"

lemma locked_ex:
  "currentOfDoc locked_world_ex doc_ex = Some ver_ex" "tvals (w_documents locked_world_ex) = [doc_ex]"
  "stateFor (tvals (w_states locked_world_ex)) (c_id cust_ex) (v_id ver_ex) = Some (state_ex\<lparr>cvs_state := EXPIRED_BLOCKING\<rparr>)"
  "map_of (w_customers locked_world_ex) (c_id cust_ex) = Some cust_ex"
  by (simp_all add: locked_world_ex_def world_ex_def emptyWorld_def findCurrentPublished_def
      findByTypeAndAudience_def doc_ex_def ver_ex_def tvals_def stateFor_def state_ex_def newState_def cust_ex_def)

lemma gate_popup_agree_witness:
  "\<exists>response items. getCompliance ''c'' None locked_world_ex = (Inr response, locked_world_ex)
     \<and> getPendingAgreements (\<lambda>k. retM k) ''c'' None locked_world_ex = (Inr items, locked_world_ex)
     \<and> \<not> crs_compliant response \<and> (\<exists>item \<in> set items. pai_blocking item)"
proof -
  have c: "c_id cust_ex = ''c''" "c_deletedAt cust_ex = None" by (simp_all add: cust_ex_def)
  have pdf: "answersUrls (\<lambda>k. retM k) (\<lambda>k. k) locked_world_ex" by (simp add: answersUrls_def retM_def)
  have aud: "knownAudience locked_world_ex None" by (simp add: knownAudience_def)
  have closed: "\<not> gateOpen locked_world_ex cust_ex None"
    using locked_ex c by (simp add: gateOpen_def isBlocking_def relevantAudiences_def cust_ex_def doc_ex_def)
  have "getCompliance ''c'' None locked_world_ex = (Inr response, locked_world_ex) \<Longrightarrow> \<not> crs_compliant response" for response
    using closed locked_ex(4) compliant_gate[of cust_ex locked_world_ex None] aud
    by (auto simp: getCompliance_eq Let_def c)
  with gate_popup_agree[OF pdf locked_ex(4) c(2) aud] show ?thesis unfolding c by blast
qed

section \<open>Accepting opens the gate\<close>

text \<open>The acceptance requests of a customer, one after the other.\<close>

abbreviation pairOf :: "AcceptanceInput \<Rightarrow> string \<times> string" where
  "pairOf input \<equiv> (ai_customerId input, ai_versionId input)"

definition acceptAll :: "env \<Rightarrow> confirmation \<Rightarrow> AcceptanceInput list \<Rightarrow> IdempotencyValue list M" where
  "acceptAll E conf inputs = mapM (acceptance_accept E conf) inputs"

text \<open>What the catalogue says stays as it is.\<close>

definition sameCatalogue :: "world \<Rightarrow> world \<Rightarrow> bool" where
  "sameCatalogue w w' \<longleftrightarrow> w_now w' = w_now w \<and> w_documents w' = w_documents w \<and> w_versions w' = w_versions w
     \<and> w_customers w' = w_customers w \<and> w_audiences w' = w_audiences w"

definition acceptedOnly :: "(string \<times> string) set \<Rightarrow> world \<Rightarrow> world \<Rightarrow> bool" where
  "acceptedOnly ps w w' \<longleftrightarrow> (\<forall>c v. if (c, v) \<in> ps then accepted (stateFor (tvals (w_states w')) c v)
     else stateFor (tvals (w_states w')) c v = stateFor (tvals (w_states w)) c v)"

lemma findCurrentPublished_same: "sameCatalogue w w' \<Longrightarrow> findCurrentPublished w' = findCurrentPublished w"
  by (intro ext) (simp add: findCurrentPublished_def sameCatalogue_def cong: option.case_cong)

lemma mayAccept_other:
  assumes "sameCatalogue w w'" "acceptedOnly ps w w'" "pairOf j \<notin> ps"
  shows "mayAccept w' j = mayAccept w j"
proof -
  have "stateFor (tvals (w_states w')) (ai_customerId j) (ai_versionId j)
      = stateFor (tvals (w_states w)) (ai_customerId j) (ai_versionId j)"
    using assms(2,3) unfolding acceptedOnly_def by metis
  moreover have "w_now w' = w_now w" "w_documents w' = w_documents w" "w_versions w' = w_versions w"
      "w_customers w' = w_customers w" using assms(1) by (simp_all add: sameCatalogue_def)
  ultimately show ?thesis
    unfolding mayAccept_def findCurrentPublished_same[OF assms(1)] by (simp cong: option.case_cong)
qed

lemma accept_one:
  assumes "goodIds E" "consentInv E w" "best_effort (callConfirmation conf)"
    and "map_of (w_idempotency w) (acceptanceKey i) = None" "mayAccept w i"
  shows "\<exists>r w'. acceptance_accept E conf i w = (Inr r, w') \<and> consentInv E w' \<and> sameCatalogue w w'
    \<and> acceptedOnly {pairOf i} w w'
    \<and> map_of (w_idempotency w') = (map_of (w_idempotency w))(acceptanceKey i \<mapsto> r)"
proof -
  obtain res w' where run: "acceptance_accept E conf i w = (res, w')" by fastforce
  with acceptance_accept_wp[OF assms(1-4)] assms(5) obtain r a where
    r: "res = Inr r" "map_of (w_idempotency w') = (map_of (w_idempotency w))(acceptanceKey i \<mapsto> r)"
    and wrote: "wroteAcceptance E i w a (w'\<lparr>w_idempotency := w_idempotency w\<rparr>)"
    by (cases res) (auto simp: wp_def)
  have "consentInv E w'" "sameCatalogue w w'"
    using wrote by (simp_all add: wroteAcceptance_def consentInv_idempotency sameCatalogue_def sameCore_def)
  moreover have "acceptedOnly {pairOf i} w w'"
    using wrote by (auto simp: wroteAcceptance_def acceptedOnly_def otherPairsKept_def)
  ultimately show ?thesis using run r by blast
qed

lemma acceptedOnly_trans:
  assumes "acceptedOnly {p} w w1" "acceptedOnly ps w1 w2" "p \<notin> ps"
  shows "acceptedOnly (insert p ps) w w2"
  unfolding acceptedOnly_def
proof (intro allI)
  fix c v
  show "if (c, v) \<in> insert p ps then accepted (stateFor (tvals (w_states w2)) c v)
      else stateFor (tvals (w_states w2)) c v = stateFor (tvals (w_states w)) c v"
    using assms(1)[unfolded acceptedOnly_def, rule_format, of c v]
      assms(2)[unfolded acceptedOnly_def, rule_format, of c v] assms(3)
    by (cases "(c, v) \<in> ps"; cases "(c, v) = p") auto
qed

lemma accept_all:
  assumes "goodIds E" "best_effort (callConfirmation conf)"
    and "consentInv E w" "\<And>i. i \<in> set inputs \<Longrightarrow> mayAccept w i \<and> map_of (w_idempotency w) (acceptanceKey i) = None"
    and "distinct (map pairOf inputs)" "distinct (map acceptanceKey inputs)"
  shows "\<exists>rs w'. acceptAll E conf inputs w = (Inr rs, w') \<and> consentInv E w' \<and> sameCatalogue w w'
    \<and> acceptedOnly (pairOf ` set inputs) w w'"
  using assms(3-6)
proof (induction inputs arbitrary: w)
  case Nil
  then show ?case by (simp add: acceptAll_def retM_def sameCatalogue_def acceptedOnly_def)
next
  case (Cons i inputs)
  obtain r w1 where one: "acceptance_accept E conf i w = (Inr r, w1)" "consentInv E w1" "sameCatalogue w w1"
      "acceptedOnly {pairOf i} w w1" "map_of (w_idempotency w1) = (map_of (w_idempotency w))(acceptanceKey i \<mapsto> r)"
    using accept_one[OF assms(1) Cons.prems(1) assms(2), of i] Cons.prems(2)[of i] by auto
  have "mayAccept w1 j \<and> map_of (w_idempotency w1) (acceptanceKey j) = None" if j: "j \<in> set inputs" for j
  proof -
    have "pairOf j \<in> set (map pairOf inputs)" "acceptanceKey j \<in> set (map acceptanceKey inputs)" using j by simp_all
    moreover have "pairOf i \<notin> set (map pairOf inputs)" "acceptanceKey i \<notin> set (map acceptanceKey inputs)"
      using Cons.prems(3,4) unfolding list.map distinct.simps by blast+
    ultimately have "pairOf j \<noteq> pairOf i" "acceptanceKey j \<noteq> acceptanceKey i" by metis+
    then show ?thesis
      using Cons.prems(2)[of j] j mayAccept_other[OF one(3,4), of j] by (simp add: one(5))
  qed
  from Cons.IH[OF one(2) this] Cons.prems(3,4) obtain rs w' where
    rest: "acceptAll E conf inputs w1 = (Inr rs, w')" "consentInv E w'" "sameCatalogue w1 w'"
      "acceptedOnly (pairOf ` set inputs) w1 w'" by auto
  have "sameCatalogue w w'" using one(3) rest(3) by (simp add: sameCatalogue_def)
  moreover have "pairOf i \<notin> pairOf ` set inputs" using Cons.prems(3) by simp
  ultimately show ?case
    using one(1) rest acceptedOnly_trans[OF one(4) rest(4)]
    by (simp add: acceptAll_def bindM_def retM_def)
qed

text \<open>C13: Whoever accepts what blocks is let in.  A known customer is shown the popup; requests of the
  customer are handled one after the other, under keys that are new, each for another version and each allowed by the
  consent rules; among them is one for every item of a version in force that the popup shows as blocking.  Then
  every request succeeds, and the tool gate, asked right after the last for the same audience, answers that the
  customer is compliant.  (The mails of the confirmations may fail; the provider of the PDF
  links answers.)\<close>

theorem acceptance_opens_gate:
  assumes good: "goodIds E" and inv: "consentInv E w" and conf: "wiredConfirmation E conf"
    and pdf: "answersUrls pdfUrl url w"
    and c: "map_of (w_customers w) (c_id c) = Some c"
    and popup: "getPendingAgreements pdfUrl (c_id c) audience w = (Inr items, w)"
    and inputs: "\<And>i. i \<in> set inputs \<Longrightarrow> ai_customerId i = c_id c \<and> mayAccept w i
        \<and> map_of (w_idempotency w) (acceptanceKey i) = None"
    and distinct: "distinct (map ai_versionId inputs)" "distinct (map acceptanceKey inputs)"
    and all: "\<And>item. item \<in> set items \<Longrightarrow> pai_blocking item \<Longrightarrow> \<not> pai_upcoming item \<Longrightarrow>
        pai_versionId item \<in> ai_versionId ` set inputs"
  shows "\<exists>rs w' response. acceptAll E conf inputs w = (Inr rs, w') \<and> length rs = length inputs
     \<and> getCompliance (c_id c) audience w' = (Inr response, w') \<and> crs_compliant response"
proof -
  have known: "knownAudience w audience" and items: "items = pendingItems url w c (c_id c) audience"
    using popup c by (auto simp: getPendingAgreements_eq[OF pdf] domainError_def split: if_splits)
  have "distinct (map pairOf inputs)"
    using distinct(1) by (auto simp: distinct_map inj_on_def)
  from accept_all[OF good wiredConfirmation_quiet[OF conf] inv _ this distinct(2)] inputs obtain rs w' where
    run: "acceptAll E conf inputs w = (Inr rs, w')" and same: "sameCatalogue w w'"
    and only: "acceptedOnly (pairOf ` set inputs) w w'" by blast
  have len: "length rs = length inputs"
  proof -
    have "mapM f xs u = (Inr ys, u') \<Longrightarrow> length ys = length xs" for f :: "AcceptanceInput \<Rightarrow> IdempotencyValue M" and xs ys u u'
      by (induction xs arbitrary: ys u) (auto simp: bindM_def retM_def split: prod.splits sum.splits)
    then show ?thesis using run by (simp add: acceptAll_def)
  qed
  note eqs = same[unfolded sameCatalogue_def]
  have "\<not> isBlocking s"
    if d: "d \<in> set (tvals (w_documents w))" "d_audience d \<in> set (relevantAudiences c audience)"
      and v: "currentOfDoc w d = Some v" and s: "stateFor (tvals (w_states w')) (c_id c) (v_id v) = Some s" for d v s
  proof (cases "(c_id c, v_id v) \<in> pairOf ` set inputs")
    case True
    with only s have "cvs_state s = ACCEPTED" unfolding acceptedOnly_def by (metis accepted_def option.inject option.simps(9))
    then show ?thesis by (simp add: isBlocking_def CARRY_OVER_BLOCKING_STATES_def)
  next
    case False
    with only s have before: "stateFor (tvals (w_states w)) (c_id c) (v_id v) = Some s"
      unfolding acceptedOnly_def by metis
    show ?thesis
    proof
      assume "isBlocking s"
      from blocking_item[OF d v before this, of url] all obtain i where "i \<in> set inputs" "ai_versionId i = v_id v"
        unfolding items by (metis imageE)
      with inputs False show False by force
    qed
  qed
  then have "gateOpen w' c audience"
    using eqs unfolding gateOpen_def findCurrentPublished_same[OF same] by simp
  moreover have "knownAudience w' audience"
    using known eqs by (cases audience) (simp_all add: knownAudience_def)
  ultimately have "\<exists>response. getCompliance (c_id c) audience w' = (Inr response, w') \<and> crs_compliant response"
    using c eqs compliant_gate[of c w' audience] by (simp add: getCompliance_eq Let_def)
  with run len show ?thesis by blast
qed

lemma acceptance_opens_gate_witness:
  "\<exists>rs w' response. acceptAll env_ex confirmation_ex [acceptance_input_ex] locked_world_ex = (Inr rs, w')
     \<and> length rs = 1 \<and> getCompliance ''c'' None w' = (Inr response, w') \<and> crs_compliant response"
proof -
  have inv: "consentInv env_ex locked_world_ex"
    using consentInv_ex by (auto simp: consentInv_def locked_world_ex_def world_ex_def emptyWorld_def
        state_ex_def newState_def wf_table_def tvals_def effectiveFor_def)
  have may: "mayAccept locked_world_ex acceptance_input_ex"
    using mayAccept_ex by (simp add: mayAccept_def locked_world_ex_def world_ex_def acceptance_input_ex_def
        emptyWorld_def ver_ex_def doc_ex_def cust_ex_def findCurrentPublished_def findByTypeAndAudience_def
        tvals_def stateFor_def state_ex_def newState_def)
  have new: "map_of (w_idempotency locked_world_ex) (acceptanceKey acceptance_input_ex) = None"
    by (simp add: locked_world_ex_def world_ex_def emptyWorld_def)
  have c: "c_id cust_ex = ''c''" "ai_customerId acceptance_input_ex = c_id cust_ex" "ai_versionId acceptance_input_ex = v_id ver_ex"
    by (simp_all add: acceptance_input_ex_def cust_ex_def ver_ex_def)
  have pdf: "answersUrls (\<lambda>k. retM k) (\<lambda>k. k) locked_world_ex" by (simp add: answersUrls_def retM_def)
  let ?items = "pendingItems (\<lambda>k. k) locked_world_ex cust_ex (c_id cust_ex) None"
  have popup: "getPendingAgreements (\<lambda>k. retM k) (c_id cust_ex) None locked_world_ex = (Inr ?items, locked_world_ex)"
    using locked_ex(4) by (simp add: getPendingAgreements_eq[OF pdf] knownAudience_def)
  have only: "pai_versionId item \<in> ai_versionId ` set [acceptance_input_ex]"
    if "item \<in> set ?items" "\<not> pai_upcoming item" for item
    using that locked_ex(1,2) c(3)
    by (auto simp: pendingItems_def candidates_def itemFor_def pendingItem_def split: if_splits option.splits)
  from acceptance_opens_gate[OF goodIds_ex inv wired_senders_ex(1) pdf locked_ex(4) popup,
      of "[acceptance_input_ex]"] may new c(2) only
  show ?thesis unfolding c(1) by auto
qed

end
