(* ===== verification/Report_Facts.thy ===== *)
theory Report_Facts
  imports Reports Deadline_Facts
begin

text \<open>
  The figures of the dashboard add up, and the customer list of a version shows under each filter as many
  rows as the dashboard counts.
\<close>

section \<open>Buckets\<close>

definition bucketSum :: "('k \<times> nat) list \<Rightarrow> nat" where
  "bucketSum b = sum_list (map snd b)"

lemma increment_keys: "k \<in> fst ` set b \<Longrightarrow> map fst (increment k b) = map fst b"
  by (simp add: increment_def update_keys)

lemma increment_sum: "k \<in> fst ` set b \<Longrightarrow> distinct (map fst b) \<Longrightarrow> bucketSum (increment k b) = Suc (bucketSum b)"
proof (induction b)
  case (Cons kn b)
  obtain k' n where kn: "kn = (k', n)" by (cases kn)
  show ?case
  proof (cases "k' = k")
    case True
    then show ?thesis by (simp add: kn increment_def bucketSum_def)
  next
    case False
    with Cons.prems kn have "k \<in> fst ` set b" "distinct (map fst b)" by auto
    from Cons.IH[OF this] False show ?thesis by (simp add: kn increment_def bucketSum_def)
  qed
qed simp

lemma fold_increment:
  "(\<And>x. x \<in> set xs \<Longrightarrow> f x \<in> fst ` set b) \<Longrightarrow> distinct (map fst b) \<Longrightarrow>
     bucketSum (fold (\<lambda>x. increment (f x)) xs b) = bucketSum b + length xs"
proof (induction xs arbitrary: b)
  case (Cons x xs)
  have keys: "map fst (increment (f x) b) = map fst b" by (rule increment_keys) (use Cons.prems in simp)
  then have "fst ` set (increment (f x) b) = fst ` set b" by (metis list.set_map)
  then show ?case
    using Cons.IH[of "increment (f x) b"] Cons.prems keys increment_sum[of "f x" b] by simp
qed simp

lemma emptyBuckets_simps [simp]: "map fst (emptyBuckets ks) = ks" "bucketSum (emptyBuckets ks) = 0"
  by (induction ks) (simp_all add: emptyBuckets_def bucketSum_def)

lemma emptyBuckets_keys [simp]: "fst ` set (emptyBuckets ks) = set ks"
  by (metis emptyBuckets_simps(1) list.set_map)

section \<open>The figures\<close>

lemma all_channels: "c \<in> set CHANNELS"
  by (cases c) (simp_all add: CHANNELS_def)

lemma all_methods: "m \<in> set METHODS"
  by (cases m) (simp_all add: METHODS_def)

lemma channel_buckets: "bucketSum (fold (\<lambda>a. increment (a_channel a)) as (emptyBuckets CHANNELS)) = length as"
  using fold_increment[of as a_channel "emptyBuckets CHANNELS"] all_channels by (simp add: CHANNELS_def)

lemma method_buckets: "bucketSum (fold (\<lambda>a. increment (a_method a)) as (emptyBuckets METHODS)) = length as"
  using fold_increment[of as a_method "emptyBuckets METHODS"] all_methods by (simp add: METHODS_def)

lemma five_states:
  "(\<And>s. s \<in> set ss \<Longrightarrow> cvs_state s \<noteq> SUPERSEDED) \<Longrightarrow>
   length (filter (\<lambda>s. cvs_state s = ACCEPTED) ss)
   + length (filter (\<lambda>s. cvs_state s = PENDING_NOTIFICATION \<or> cvs_state s = NOTIFIED) ss)
   + length (filter (\<lambda>s. cvs_state s = EXPIRED_BLOCKING) ss)
   + length (filter (\<lambda>s. cvs_state s = OBJECTED) ss) = length ss"
proof (induction ss)
  case (Cons s ss)
  then have "cvs_state s \<noteq> SUPERSEDED" by simp
  with Cons show ?case by (cases "cvs_state s") simp_all
qed simp

definition relevantOf :: "world \<Rightarrow> string \<Rightarrow> string list \<Rightarrow> CustomerVersionState list" where
  "relevantOf w vid deleted = relevantStates deleted (filter (\<lambda>s. cvs_versionId s = vid) (tvals (w_states w)))"

lemma computeStats_eq:
  "computeStats vid deleted w = (Inr (statsOf (relevantOf w vid deleted)
     (filter (\<lambda>a. a_versionId a = vid \<and> a_isEffective a) (tvals (w_acceptances w)))), w)"
  by (simp add: computeStats_def action_defs states_findByVersion_def acceptances_findEffectiveByVersion_def relevantOf_def)

lemma distinct_filter_map: "distinct (map f xs) \<Longrightarrow> distinct (map f (filter P xs))"
  by (induction xs) auto

lemma distinct_relevant:
  assumes "uniquePairs (w_states w)"
  shows "distinct (map cvs_customerId (relevantOf w vid deleted))"
proof -
  let ?ss = "filter (\<lambda>s. cvs_versionId s = vid) (tvals (w_states w))"
  have "distinct (map (\<lambda>s. (cvs_customerId s, cvs_versionId s)) ?ss)"
    using assms by (simp add: uniquePairs_def distinct_filter_map)
  then have "distinct (map cvs_customerId ?ss)"
    by (auto simp: distinct_map inj_on_def)
  then show ?thesis by (simp add: relevantOf_def relevantStates_def distinct_filter_map del: filter_filter)
qed

lemma accepted_count:
  assumes "uniquePairs (w_states w)"
  shows "acceptedCustomerIds (relevantOf w vid deleted)
    = map cvs_customerId (filter (\<lambda>s. cvs_state s = ACCEPTED) (relevantOf w vid deleted))"
  unfolding acceptedCustomerIds_def
  by (rule distinct_remdups_id) (rule distinct_filter_map[OF distinct_relevant[OF assms]])

text \<open>The effective acceptances of the accepted customers are as many as the customers.\<close>

lemma counted_length:
  assumes inv: "consentInv E w" and uniq: "uniquePairs (w_states w)"
  shows "length (filter (\<lambda>a. a_customerId a \<in> set (acceptedCustomerIds (relevantOf w vid deleted)))
      (filter (\<lambda>a. a_versionId a = vid \<and> a_isEffective a) (tvals (w_acceptances w))))
    = length (acceptedCustomerIds (relevantOf w vid deleted))"
proof -
  let ?ids = "acceptedCustomerIds (relevantOf w vid deleted)"
  let ?as = "filter (\<lambda>a. a_customerId a \<in> set ?ids)
      (filter (\<lambda>a. a_versionId a = vid \<and> a_isEffective a) (tvals (w_acceptances w)))"
  have one: "oneEffective (w_acceptances w)" and wf: "wf_table a_id (w_acceptances w)"
    and evidence: "\<forall>s \<in> set (tvals (w_states w)). cvs_state s = ACCEPTED \<longrightarrow>
          effectiveFor (w_acceptances w) (cvs_customerId s) (cvs_versionId s) \<noteq> None"
    using inv by (simp_all add: consentInv_def)
  have "distinct ?as" by (intro distinct_filter distinct_tvals[OF wf])
  moreover have "inj_on a_customerId (set ?as)"
    using one by (auto simp: inj_on_def oneEffective_def)
  ultimately have d: "distinct (map a_customerId ?as)" by (simp add: distinct_map)
  have "set (map a_customerId ?as) = set ?ids"
  proof (intro equalityI subsetI)
    fix c assume c: "c \<in> set ?ids"
    then obtain s where s: "s \<in> set (tvals (w_states w))" "cvs_state s = ACCEPTED" "cvs_customerId s = c" "cvs_versionId s = vid"
      by (auto simp: acceptedCustomerIds_def relevantOf_def relevantStates_def)
    with evidence obtain a where "a \<in> set (tvals (w_acceptances w))" "a_isEffective a" "a_customerId a = c" "a_versionId a = vid"
      unfolding effectiveFor_not_None by blast
    with c show "c \<in> set (map a_customerId ?as)" by force
  qed auto
  moreover have "distinct ?ids" by (simp add: acceptedCustomerIds_def)
  ultimately have "length (map a_customerId ?as) = length ?ids" using d by (metis distinct_card)
  then show ?thesis by simp
qed

text \<open>C36: The figures of a version add up: accepted, pending, blocked and objected customers are all of
  them, the accepted ones are split exactly over the channels and over the methods, and the rate, as an exact
  quotient, is accepted over total, between 0 and 1.  The rollout states are unique for their customer and
  version.  The service writes nothing.\<close>

theorem computeStats_adds_up:
  assumes inv: "consentInv E w" and uniq: "uniquePairs (w_states w)"
  shows "\<exists>st. computeStats vid deleted w = (Inr st, w)
     \<and> st_accepted st + st_pending st + st_blocked st + st_objected st = st_totalCustomers st
     \<and> bucketSum (st_acceptedByChannel st) = st_accepted st
     \<and> bucketSum (st_acceptedByMethod st) = st_accepted st
     \<and> st_acceptanceRate st * of_nat (st_totalCustomers st) = of_nat (st_accepted st)
     \<and> 0 \<le> st_acceptanceRate st \<and> st_acceptanceRate st \<le> 1"
proof -
  let ?rel = "relevantOf w vid deleted"
  let ?eff = "filter (\<lambda>a. a_versionId a = vid \<and> a_isEffective a) (tvals (w_acceptances w))"
  let ?st = "statsOf ?rel ?eff"
  have acc: "st_accepted ?st = length (filter (\<lambda>s. cvs_state s = ACCEPTED) ?rel)"
    by (simp add: statsOf_def Let_def accepted_count[OF uniq])
  have le: "st_accepted ?st \<le> st_totalCustomers ?st"
    unfolding acc by (simp add: statsOf_def Let_def)
  have total: "st_accepted ?st + st_pending ?st + st_blocked ?st + st_objected ?st = st_totalCustomers ?st"
    unfolding acc using five_states[of ?rel]
    by (simp add: statsOf_def Let_def relevantOf_def relevantStates_def)
  have buckets: "bucketSum (st_acceptedByChannel ?st) = st_accepted ?st"
    "bucketSum (st_acceptedByMethod ?st) = st_accepted ?st"
    using counted_length[OF inv uniq, of vid deleted]
    by (simp_all add: statsOf_def Let_def channel_buckets method_buckets del: filter_filter)
  have rate: "st_acceptanceRate ?st = (if st_totalCustomers ?st = 0 then 0
      else of_nat (st_accepted ?st) / of_nat (st_totalCustomers ?st))"
    by (simp add: statsOf_def Let_def)
  have "st_acceptanceRate ?st * of_nat (st_totalCustomers ?st) = of_nat (st_accepted ?st)"
    "0 \<le> st_acceptanceRate ?st" "st_acceptanceRate ?st \<le> 1"
    using le by (simp_all add: rate divide_le_eq)
  with total buckets show ?thesis by (simp add: computeStats_eq)
qed

lemma computeStats_adds_up_witness:
  "\<exists>st. computeStats ''v'' [] world_ex = (Inr st, world_ex)
     \<and> st_accepted st + st_pending st + st_blocked st + st_objected st = st_totalCustomers st
     \<and> st_totalCustomers st = 1"
proof -
  have "uniquePairs (w_states world_ex)"
    by (simp add: uniquePairs_def world_ex_def emptyWorld_def tvals_def)
  from computeStats_adds_up[OF consentInv_ex this, of "''v''" "[]"] show ?thesis
    by (auto simp: computeStats_eq statsOf_def Let_def relevantOf_def relevantStates_def world_ex_def
        emptyWorld_def tvals_def state_ex_def newState_def)
qed

section \<open>The customers of a version\<close>

text \<open>Every state belongs to a stored customer.\<close>

definition customerRefs :: "world \<Rightarrow> bool" where
  "customerRefs w \<longleftrightarrow> (\<forall>s \<in> set (tvals (w_states w)). map_of (w_customers w) (cvs_customerId s) \<noteq> None)"

definition statOf :: "VersionCustomerFilterState \<Rightarrow> VersionAcceptanceStats \<Rightarrow> nat" where
  "statOf f st = (case f of VAccepted \<Rightarrow> st_accepted st | VPending \<Rightarrow> st_pending st
     | VBlocked \<Rightarrow> st_blocked st | VObjected \<Rightarrow> st_objected st)"

lemma map_of_mapBy:
  "distinct (map key xs) \<Longrightarrow> map_of (fold (\<lambda>x. AList.update (key x) x) xs t) k =
     (case find (\<lambda>x. key x = k) xs of Some x \<Rightarrow> Some x | None \<Rightarrow> map_of t k)"
proof (induction xs arbitrary: t)
  case (Cons x xs)
  have "find (\<lambda>y. key y = k) xs = None" if "key x = k"
    using Cons.prems that by (force simp: find_None_iff image_iff)
  with Cons show ?case by (auto simp: table_simps split: option.splits)
qed simp

lemma mapBy_table:
  assumes wf: "wf_table key t"
  shows "map_of (mapBy key (tvals t)) k = map_of t k"
proof -
  have keys: "map key (tvals t) = map fst t" using wf by (auto simp: wf_table_def tvals_def)
  with wf have d: "distinct (map key (tvals t))" by (simp add: wf_table_def)
  have "find (\<lambda>x. key x = k) (tvals t) = map_of t k"
  proof (cases "map_of t k")
    case None
    then have "x \<in> set (tvals t) \<Longrightarrow> key x \<noteq> k" for x using tvals_map_of[OF wf, of x] by auto
    with None show ?thesis by (auto simp: find_None_iff)
  next
    case (Some v)
    then have v: "v \<in> set (tvals t)" "key v = k" using tvals_lookup[OF wf] wf_table_key[OF wf] by auto
    show ?thesis
    proof (cases "find (\<lambda>x. key x = k) (tvals t)")
      case None
      with v show ?thesis by (auto simp: find_None_iff)
    next
      case (Some x)
      from find_SomeD[OF this] tvals_key_inj[OF wf, of x v] v have "x = v" by simp
      with Some \<open>map_of t k = Some v\<close> show ?thesis by simp
    qed
  qed
  then show ?thesis by (simp add: mapBy_def map_of_mapBy[OF d] split: option.split)
qed

lemma length_map_filter: "length (List.map_filter f xs) = length (filter (\<lambda>x. f x \<noteq> None) xs)"
  by (simp add: List.map_filter_def)

lemma deleted_iff:
  assumes wf: "wf_table c_id (w_customers w)" and c: "map_of (w_customers w) k = Some c"
  shows "k \<in> set (map c_id (filter (\<lambda>c. c_deletedAt c \<noteq> None) (tvals (w_customers w)))) \<longleftrightarrow> c_deletedAt c \<noteq> None"
proof -
  have mem: "c \<in> set (tvals (w_customers w))" "c_id c = k"
    using tvals_lookup[OF wf c] wf_table_key[OF wf c] by simp_all
  have only: "x = c" if "x \<in> set (tvals (w_customers w))" "k = c_id x" for x
    using tvals_map_of[OF wf, of x] that c by simp
  show ?thesis
  proof
    assume "k \<in> set (map c_id (filter (\<lambda>c. c_deletedAt c \<noteq> None) (tvals (w_customers w))))"
    then obtain x where x: "x \<in> set (tvals (w_customers w))" "k = c_id x" "c_deletedAt x \<noteq> None"
      unfolding set_map set_filter image_iff by blast
    from only[OF x(1,2)] x(3) show "c_deletedAt c \<noteq> None" by simp
  next
    assume "c_deletedAt c \<noteq> None"
    then show "k \<in> set (map c_id (filter (\<lambda>c. c_deletedAt c \<noteq> None) (tvals (w_customers w))))"
      unfolding set_map set_filter image_iff using mem by blast
  qed
qed

text \<open>C37: For every filter of the customer list of a version, the total of the list is the figure the
  dashboard shows, although the one is computed from the rows and the other from the states.\<close>

theorem versionCustomers_totals:
  assumes cat: "catalogInv w" and refs: "customerRefs w" and uniq: "uniquePairs (w_states w)"
    and run: "versionCustomers_list E vid \<lparr>vcq_state = Some f, vcq_search = None, vcq_page = page\<rparr> w
      = (Inr (rows, n, stats), w')"
  shows "n = statOf f (vst_stats stats) \<and> length rows \<le> PAGE_SIZE \<and> w' = w"
proof -
  have wf: "wf_table c_id (w_customers w)" and wfv: "wf_table v_id (w_versions w)"
    using cat by (simp_all add: catalogInv_def)
  define deleted where "deleted = map c_id (filter (\<lambda>c. c_deletedAt c \<noteq> None) (tvals (w_customers w)))"
  define eff where "eff = filter (\<lambda>a. a_versionId a = vid \<and> a_isEffective a) (tvals (w_acceptances w))"
  let ?ss = "filter (\<lambda>s. cvs_state s \<noteq> SUPERSEDED) (filter (\<lambda>s. cvs_versionId s = vid) (tvals (w_states w)))"
  let ?q = "\<lparr>vcq_state = Some f, vcq_search = None, vcq_page = page\<rparr>"
  let ?row = "versionCustomerRow ?q (mapBy a_customerId eff) (mapBy c_id (tvals (w_customers w)))"
  have row: "?row s \<noteq> None \<longleftrightarrow> cvs_customerId s \<notin> set deleted \<and> cvs_state s \<in> set (FILTER_STATES f)"
    if s: "s \<in> set ?ss" for s
  proof -
    from s refs obtain c where c: "map_of (w_customers w) (cvs_customerId s) = Some c"
      by (auto simp: customerRefs_def)
    show ?thesis
      using deleted_iff[OF wf c] c
      by (simp add: versionCustomerRow_def mapBy_table[OF wf] deleted_def truthy_def)
  qed
  have st: "wp (buildStats v d now del) Q X w = Q \<lparr>vst_versionId = v_id v, vst_documentName = d_name d,
        vst_documentType = d_type d, vst_audience = d_audience d,
        vst_versionLabel = v_versionLabel v, vst_status = v_status v,
        vst_validFrom = v_validFrom v, vst_upcoming = (v_validFrom v > now),
        vst_stats = statsOf (relevantOf w (v_id v) del)
          (filter (\<lambda>a. a_versionId a = v_id v \<and> a_isEffective a) (tvals (w_acceptances w)))\<rparr> w" for v d now del Q X
    by (simp add: buildStats_def wp_bind wp_ret wp_reads[OF computeStats_eq])
  have "wp (versionCustomers_list E vid ?q)
    (\<lambda>(rows, n, stats) w'. n = length (List.map_filter ?row ?ss) \<and> length rows \<le> PAGE_SIZE \<and> w' = w
        \<and> vst_stats stats = statsOf (relevantOf w vid deleted) eff) (\<lambda>_ _. True) w"
  proof (cases "map_of (w_versions w) vid")
    case None
    then show ?thesis by (simp add: versionCustomers_list_def versionStats_def wp_simps)
  next
    case (Some v)
    have "v_id v = vid" by (rule wf_table_key[OF wfv Some])
    with Some show ?thesis
      by (cases "map_of (w_documents w) (v_documentId v)")
         (simp_all add: versionCustomers_list_def versionStats_def deletedCustomerIds_def wp_simps st
           deleted_def eff_def slicePage_def)
  qed
  with run have n: "n = length (List.map_filter ?row ?ss)" "length rows \<le> PAGE_SIZE" "w' = w"
    "vst_stats stats = statsOf (relevantOf w vid deleted) eff" by (simp_all add: wp_def)
  have "filter (\<lambda>s. ?row s \<noteq> None) ?ss
      = filter (\<lambda>s. cvs_customerId s \<notin> set deleted \<and> cvs_state s \<in> set (FILTER_STATES f)) ?ss"
    by (rule filter_cong[OF refl row])
  also have "\<dots> = filter (\<lambda>s. cvs_state s \<in> set (FILTER_STATES f)) (relevantOf w vid deleted)"
    by (auto simp: relevantOf_def relevantStates_def intro: filter_cong)
  finally have "n = length (filter (\<lambda>s. cvs_state s \<in> set (FILTER_STATES f)) (relevantOf w vid deleted))"
    by (simp add: n(1) length_map_filter del: filter_filter)
  then have "n = statOf f (statsOf (relevantOf w vid deleted) eff)"
    using accepted_count[OF uniq, of vid deleted]
    by (cases f) (simp_all add: statOf_def statsOf_def Let_def)
  with n show ?thesis by simp
qed

lemma versionCustomers_totals_witness:
  "\<exists>rows n stats. versionCustomers_list env_ex ''v'' \<lparr>vcq_state = Some VPending, vcq_search = None, vcq_page = None\<rparr> world_ex
      = (Inr (rows, n, stats), world_ex) \<and> n = st_pending (vst_stats stats)"
proof -
  let ?q = "\<lparr>vcq_state = Some VPending, vcq_search = None, vcq_page = None\<rparr>"
  have inv: "catalogInv world_ex" "customerRefs world_ex" "uniquePairs (w_states world_ex)"
    by (simp_all add: catalogInv_def customerRefs_def uniquePairs_def world_ex_def emptyWorld_def tvals_def
        wf_table_def ver_ex_def doc_ex_def cust_ex_def state_ex_def newState_def)
  have "wp (versionCustomers_list env_ex ''v'' ?q) (\<lambda>_ _. True) (\<lambda>_ _. False) world_ex"
    by (simp add: versionCustomers_list_def versionStats_def deletedCustomerIds_def buildStats_def wp_simps
        wp_reads[OF computeStats_eq] Let_def world_ex_def emptyWorld_def ver_ex_def doc_ex_def)
  then obtain rows n stats w' where run: "versionCustomers_list env_ex ''v'' ?q world_ex = (Inr (rows, n, stats), w')"
    by (auto simp: wp_def split: prod.splits sum.splits)
  from versionCustomers_totals[OF inv run] run show ?thesis by (simp add: statOf_def)
qed

end
