(* ===== verification/Customer_Facts.thy ===== *)
theory Customer_Facts
  imports Customers Consent_Facts
begin

text \<open>
  The customer administration: validation only reads; a creation either writes nothing or stores the
  customer with its imported acceptances and puts it under every obligation of its roles; whatever the
  sequence of creations, updates and inbound pushes, no two customers share an external reference within
  a role; and an inbound push repeated unchanged writes nothing.
\<close>

section \<open>Validation only reads\<close>

definition readsOnly :: "'a M \<Rightarrow> bool" where
  "readsOnly m \<longleftrightarrow> (\<forall>w0. keeps (\<lambda>w. w = w0) m)"

lemma readsOnlyI: "(\<And>w0. keeps (\<lambda>w. w = w0) m) \<Longrightarrow> readsOnly m"
  by (simp add: readsOnly_def)

lemma readsOnlyD: "readsOnly m \<Longrightarrow> m w = (r, w') \<Longrightarrow> w' = w"
  unfolding readsOnly_def keeps_def by (metis snd_conv)

lemmas validation_defs =
  clock_now_def audiences_findByKey_def versions_findById_def documents_findById_def
  versions_findByDocument_def documents_findByTypeAndAudience_def customers_findAllByExternalRef_def

lemma customer_validate_reads: "readsOnly (customer_validate input)"
  unfolding customer_validate_def assertRolesKnown_def assertEmailsValid_def
    assertExternalRefUniqueForRoles_def validateImports_def validateImport_def resolveSignedDocuments_def
    resolveSignedType_def resolveForRole_def resolveEffectiveVersionAt_def validation_defs split_def
  by (intro readsOnlyI keeps_intros)

section \<open>One customer for an external reference and a role\<close>

definition sharedRole :: "Customer \<Rightarrow> Customer \<Rightarrow> bool" where
  "sharedRole c c' \<longleftrightarrow> (\<exists>r. r \<in> set (c_roles c) \<and> r \<in> set (c_roles c'))"

lemma sharedRole_sym: "sharedRole x y \<longleftrightarrow> sharedRole y x"
  by (auto simp: sharedRole_def)

definition customersInv :: "env \<Rightarrow> world \<Rightarrow> bool" where
  "customersInv E w \<longleftrightarrow>
     wf_table c_id (w_customers w) \<and> fst ` set (w_customers w) \<subseteq> drawnIds E [''c-''] (w_uuid w)
     \<and> (\<forall>c \<in> set (tvals (w_customers w)). \<forall>c' \<in> set (tvals (w_customers w)).
          c_externalRef c = c_externalRef c' \<and> sharedRole c c' \<longrightarrow> c = c')"

lemma overlaps_iff: "overlaps roles c \<longleftrightarrow> (\<exists>r. r \<in> set roles \<and> r \<in> set (c_roles c))"
  by (auto simp: overlaps_def list_ex_iff)

text \<open>The external reference is free for the roles, the customer with the excluded id apart.\<close>

definition refFree :: "world \<Rightarrow> string \<Rightarrow> string list \<Rightarrow> string option \<Rightarrow> bool" where
  "refFree w ref roles excluded \<longleftrightarrow>
     (\<forall>c \<in> set (tvals (w_customers w)). c_externalRef c = ref \<and> overlaps roles c \<longrightarrow> Some (c_id c) = excluded)"

lemma wp_refFree:
  "wp (assertExternalRefUniqueForRoles ref roles excluded) Q X w =
     (if refFree w ref roles excluded then Q () w else X (DomainError INVALID_STATE) w)"
proof -
  have "find (\<lambda>c. Some (c_id c) \<noteq> excluded \<and> overlaps roles c)
      (filter (\<lambda>c. c_externalRef c = ref) (tvals (w_customers w))) = None \<longleftrightarrow> refFree w ref roles excluded"
    by (auto simp: find_None_iff refFree_def)
  then show ?thesis
    by (cases "refFree w ref roles excluded") (auto simp: assertExternalRefUniqueForRoles_def wp_simps)
qed

lemma customersInv_frame:
  "customersInv E w \<Longrightarrow> w_customers w' = w_customers w \<Longrightarrow> w_uuid w \<le> w_uuid w' \<Longrightarrow> customersInv E w'"
  using drawn_Suc[of "w_customers w" E "[''c-'']" "w_uuid w" "w_uuid w'"] by (simp add: customersInv_def)

lemma customersInv_insert:
  assumes good: "goodIds E" and inv: "customersInv E w"
    and c: "c_id c = ''c-'' @ e_uuid E (w_uuid w)" "refFree w (c_externalRef c) (c_roles c) None"
    and w': "w_customers w' = AList.update (c_id c) c (w_customers w)" "w_uuid w < w_uuid w'"
  shows "customersInv E w'" and "tvals (w_customers w') = tvals (w_customers w) @ [c]"
proof -
  have fresh: "map_of (w_customers w) (c_id c) = None"
    using fresh_prefix[OF good, of "w_customers w" "''c-''" "w_uuid w" "w_uuid w"] inv
    by (simp add: customersInv_def c(1))
  show vals: "tvals (w_customers w') = tvals (w_customers w) @ [c]"
    by (simp add: w' tvals_update_fresh[OF fresh])
  have keys: "fst ` set (w_customers w') \<subseteq> drawnIds E [''c-''] (w_uuid w')"
    using inv w' drawn_Suc[of "w_customers w" E "[''c-'']" "w_uuid w" "w_uuid w'"]
      drawn_new[of "''c-''" "[''c-'']" "w_uuid w" "w_uuid w'" E]
    by (simp add: customersInv_def keys_update c(1))
  have alone: "\<not> (c_externalRef c = c_externalRef x \<and> sharedRole c x)" if "x \<in> set (tvals (w_customers w))" for x
    using c(2) that by (auto simp: refFree_def overlaps_iff sharedRole_def)
  have "x = y" if xy: "x \<in> set (tvals (w_customers w'))" "y \<in> set (tvals (w_customers w'))"
      "c_externalRef x = c_externalRef y" "sharedRole x y" for x y
  proof (cases "x = c \<or> y = c")
    case True
    with xy alone show ?thesis unfolding vals by (auto simp: sharedRole_sym[of _ c])
  next
    case False
    with xy inv show ?thesis unfolding vals customersInv_def by auto
  qed
  with keys inv wf_table_update[of c_id "w_customers w" c "c_id c"] show "customersInv E w'"
    unfolding customersInv_def w'(1)[symmetric] by (simp add: w'(1))
qed

lemma customersInv_update:
  assumes inv: "customersInv E w" and row: "map_of (w_customers w) (c_id c) = Some c0"
    and free: "c_externalRef c = c_externalRef c0"
      "set (c_roles c) \<subseteq> set (c_roles c0) \<or> refFree w (c_externalRef c) (c_roles c) (Some (c_id c))"
    and w': "w_customers w' = AList.update (c_id c) c (w_customers w)" "w_uuid w \<le> w_uuid w'"
  shows "customersInv E w'"
proof -
  have wf: "wf_table c_id (w_customers w)" using inv by (simp add: customersInv_def)
  have c0: "c0 \<in> set (tvals (w_customers w))" "c_id c0 = c_id c"
    using tvals_lookup[OF wf row] wf_table_key[OF wf row] by simp_all
  have vals: "set (tvals (w_customers w')) = insert c {u \<in> set (tvals (w_customers w)). c_id u \<noteq> c_id c}"
    by (simp add: w'(1) tvals_update[OF wf])
  have "c_id c \<in> fst ` set (w_customers w)" using row by (metis domI dom_map_of_conv_image_fst)
  then have keys: "fst ` set (w_customers w') \<subseteq> drawnIds E [''c-''] (w_uuid w')"
    using inv w'(2) drawn_Suc[of "w_customers w" E "[''c-'']" "w_uuid w" "w_uuid w'"]
    by (auto simp: customersInv_def w'(1) keys_update)
  have alone: "\<not> (c_externalRef x = c_externalRef c \<and> sharedRole c x)"
    if x: "x \<in> set (tvals (w_customers w))" "c_id x \<noteq> c_id c" for x
  proof
    assume s: "c_externalRef x = c_externalRef c \<and> sharedRole c x"
    from free(2) show False
    proof
      assume "set (c_roles c) \<subseteq> set (c_roles c0)"
      with s have "sharedRole c0 x" by (auto simp: sharedRole_def)
      with s free(1) c0(1) x inv have "c0 = x" unfolding customersInv_def by metis
      with x(2) c0(2) show False by simp
    next
      assume "refFree w (c_externalRef c) (c_roles c) (Some (c_id c))"
      with s x show False by (auto simp: refFree_def overlaps_iff sharedRole_def)
    qed
  qed
  have "x = y" if xy: "x \<in> set (tvals (w_customers w'))" "y \<in> set (tvals (w_customers w'))"
      "c_externalRef x = c_externalRef y" "sharedRole x y" for x y
  proof (cases "x = c \<or> y = c")
    case True
    with xy alone show ?thesis unfolding vals by (auto simp: sharedRole_sym[of _ c])
  next
    case False
    with xy inv show ?thesis unfolding vals customersInv_def by blast
  qed
  with keys wf_table_update[OF wf, of c "c_id c"] show ?thesis
    unfolding customersInv_def w'(1)[symmetric] by (simp add: w'(1))
qed

section \<open>Which writes leave the customers alone\<close>

definition customersAre :: "Customer table \<times> Audience table \<Rightarrow> nat \<Rightarrow> world \<Rightarrow> bool" where
  "customersAre t n w \<longleftrightarrow> (w_customers w, w_audiences w) = t \<and> n \<le> w_uuid w"

text \<open>What the code relies on of a notifier: it may fail, but it leaves the consent data alone.\<close>

definition quietNotifier :: "rolloutNotifier \<Rightarrow> bool" where
  "quietNotifier notifier \<longleftrightarrow> (\<forall>c v w. sameCore w (snd (notifier c v w)))"

named_theorems frame_intros \<open>actions that leave the customers alone\<close>

lemma frame_writes [frame_intros]:
  "keeps (customersAre t n) (newId E p)" "keeps (customersAre t n) (recordEvent E ev)"
  "keeps (customersAre t n) (states_save s)" "keeps (customersAre t n) (acceptances_append a)"
  "keeps (customersAre t n) (audit_append l)" "keeps (customersAre t n) clock_now"
  by (auto intro!: keepsI simp: customersAre_def wp_simps audit_append_def states_save_def)

lemma frame_notifier: "quietNotifier notifier \<Longrightarrow> keeps (customersAre t n) (notifier c v)"
  by (auto simp: keeps_def quietNotifier_def customersAre_def sameCore_def intro: order_trans)

lemma frame_import [frame_intros]: "keeps (customersAre t n) (importAcceptance E cid item actor)"
  unfolding importAcceptance_def Let_def by (intro keeps_intros frame_intros frame_notifier)

lemma frame_rollout [frame_intros]:
  "quietNotifier notifier \<Longrightarrow> keeps (customersAre t n) (rolloutCurrentVersions E notifier c roles kind label)"
  unfolding rolloutCurrentVersions_def onboardDocument_def rolloutVersions_def onboardVersion_def notifyRolledOut_def
    documents_findAll_def versions_findCurrentPublished_def versions_findUpcomingPublishedList_def
    states_findByCustomerAndVersion_def
  by (intro keeps_intros frame_intros frame_notifier)

text \<open>After the customer is stored, what follows keeps the invariant.\<close>

lemma wp_frame_inv:
  assumes "keeps (customersAre (w_customers w, w_audiences w) (w_uuid w)) m" "customersInv E w"
  shows "wp m (\<lambda>_. customersInv E) (\<lambda>_. customersInv E) w"
  by (rule wp_mono[OF keepsD[OF assms(1)]])
     (use assms(2) customersInv_frame[OF assms(2)] in \<open>simp_all add: customersAre_def\<close>)

lemma wp_readsOnly: "readsOnly m \<Longrightarrow> wp m (\<lambda>_ w'. w' = w) (\<lambda>_ w'. w' = w) w"
  unfolding readsOnly_def by (rule keepsD) simp_all

lemma wp_check: "readsOnly m \<Longrightarrow> wp n Q X w \<Longrightarrow> (\<And>e. X e w) \<Longrightarrow> wp (thenM m n) Q X w"
  unfolding wp_then by (rule wp_mono[OF wp_readsOnly]) auto

lemma checks_read: "readsOnly (assertRolesKnown roles)" "readsOnly (assertEmailsValid emails)"
  unfolding assertRolesKnown_def assertEmailsValid_def validation_defs
  by (intro readsOnlyI keeps_intros)+

lemma validate_refFree:
  assumes "customer_validate input w = (Inr vs, w')"
  shows "w' = w \<and> refFree w (cci_externalRef input) (cci_roles input) None"
proof -
  have "wp (customer_validate input) (\<lambda>_ w'. refFree w (cci_externalRef input) (cci_roles input) None) (\<lambda>_ _. True) w"
  proof (cases "trim (cci_externalRef input) = []")
    case False
    have rest: "wp m (\<lambda>_ _. True) (\<lambda>_ _. True) w" for m :: "'a M"
      by (simp add: wp_snd)
    show ?thesis
      unfolding customer_validate_def if_not_P[OF False]
      by (rule wp_check[OF checks_read(1)], rule wp_check[OF checks_read(2)]) (simp_all add: wp_then wp_refFree rest)
  qed (simp add: customer_validate_def wp_throw)
  with assms readsOnlyD[OF customer_validate_reads assms] show ?thesis by (simp add: wp_def)
qed

lemma create_keeps:
  assumes good: "goodIds E" and quiet: "quietNotifier notifier"
  shows "keeps (customersInv E) (customer_create E notifier input actor source)"
proof (rule keepsI)
  fix w assume inv: "customersInv E w"
  obtain r w1 where v: "customer_validate input w = (r, w1)" by fastforce
  have "w1 = w" by (rule readsOnlyD[OF customer_validate_reads v])
  show "wp (customer_create E notifier input actor source) (\<lambda>_. customersInv E) (\<lambda>_. customersInv E) w"
  proof (cases r)
    case (Inl e)
    with v \<open>w1 = w\<close> inv show ?thesis by (simp add: customer_create_def wp_bind wp_def[of "customer_validate input"])
  next
    case (Inr vs)
    let ?c = "newCustomer (''c-'' @ e_uuid E (w_uuid w)) input"
    define w2 where "w2 = w\<lparr>w_uuid := Suc (w_uuid w), w_customers := AList.update (c_id ?c) ?c (w_customers w)\<rparr>"
    have c: "c_id ?c = ''c-'' @ e_uuid E (w_uuid w)" "refFree w (c_externalRef ?c) (c_roles ?c) None"
      using validate_refFree[OF v[unfolded Inr]] by (simp_all add: newCustomer_def)
    have inv2: "customersInv E w2" by (rule customersInv_insert(1)[OF good inv c]) (simp_all add: w2_def)
    have "wp (customer_onboard E notifier vs actor source ?c) (\<lambda>_. customersInv E) (\<lambda>_. customersInv E) w2"
      unfolding customer_onboard_def by (rule wp_frame_inv[OF _ inv2]) (intro keeps_intros frame_intros frame_notifier quiet)
    then show ?thesis
      unfolding customer_create_def wp_bind[of "customer_validate input"]
      by (simp add: wp_def[of "customer_validate input"] v Inr \<open>w1 = w\<close> wp_bind wp_newId
          customers_save_def wp_then wp_modify wp_ret w2_def newCustomer_def)
  qed
qed

text \<open>A write to one stored customer.\<close>

lemma save_keeps:
  assumes inv: "customersInv E w" and row: "map_of (w_customers w) (c_id c) = Some c0"
    and c: "c_externalRef c = c_externalRef c0"
      "set (c_roles c) \<subseteq> set (c_roles c0) \<or> refFree w (c_externalRef c) (c_roles c) (Some (c_id c))"
    and frame: "\<And>t n. keeps (customersAre t n) (m c)"
  shows "wp (bindM (customers_save c) m) (\<lambda>_. customersInv E) (\<lambda>_. customersInv E) w"
proof -
  define w2 where "w2 = w\<lparr>w_customers := AList.update (c_id c) c (w_customers w)\<rparr>"
  have "customersInv E w2" by (rule customersInv_update[OF inv row c]) (simp_all add: w2_def)
  from wp_frame_inv[OF frame this] show ?thesis
    by (simp add: wp_bind customers_save_def wp_then wp_modify wp_ret w2_def)
qed

lemma checkUpdate_wp:
  "wp (customer_checkUpdate input existing)
     (\<lambda>_ w'. w' = w \<and> (\<forall>roles. uci_roles input = Some roles \<longrightarrow>
        refFree w (c_externalRef existing) roles (Some (c_id existing)))) (\<lambda>_ w'. w' = w) w"
proof -
  have emails: "wp (case uci_contactEmails input of None \<Rightarrow> retM () | Some emails \<Rightarrow> assertEmailsValid emails)
      (\<lambda>_ w'. w' = w) (\<lambda>_ w'. w' = w) w" for w
    by (cases "uci_contactEmails input") (simp_all add: wp_ret wp_readsOnly[OF checks_read(2)])
  show ?thesis
  proof (cases "uci_roles input")
    case None
    with emails[of w] show ?thesis by (simp add: customer_checkUpdate_def wp_then wp_ret)
  next
    case (Some roles)
    then show ?thesis
      by (simp add: customer_checkUpdate_def wp_then, intro wp_mono[OF wp_readsOnly[OF checks_read(1)]])
         (use emails[of w] in \<open>auto simp: wp_refFree elim: wp_mono\<close>)
  qed
qed

lemma update_keeps:
  assumes good: "goodIds E" and quiet: "quietNotifier notifier"
  shows "keeps (customersInv E) (customer_update E notifier cid input actor source)"
proof (rule keepsI)
  fix w assume inv: "customersInv E w"
  let ?P = "\<lambda>_ :: CustomerRow. customersInv E" and ?X = "\<lambda>_ :: failure. customersInv E"
  show "wp (customer_update E notifier cid input actor source) ?P ?X w"
  proof (cases "map_of (w_customers w) cid")
    case None
    with inv show ?thesis by (simp add: customer_update_def wp_simps)
  next
    case (Some c0)
    have id: "c_id c0 = cid" using wf_table_key Some inv by (fastforce simp: customersInv_def)
    have tail: "keeps (customersAre t n) (customer_updated E notifier cid added actor source c)" for t n added c
      unfolding customer_updated_def by (intro keeps_intros frame_intros frame_notifier quiet)
    have "wp (thenM (customer_checkUpdate input c0) (bindM (customers_save (applyChanges input c0))
        (\<lambda>updated. customer_updated E notifier cid (addedRoles input c0) actor source updated))) ?P ?X w"
      unfolding wp_then
    proof (rule wp_mono[OF checkUpdate_wp])
      fix u w' assume u: "w' = w \<and> (\<forall>roles. uci_roles input = Some roles \<longrightarrow>
          refFree w (c_externalRef c0) roles (Some (c_id c0)))"
      let ?c = "applyChanges input c0"
      have "c_id ?c = c_id c0" "c_externalRef ?c = c_externalRef c0" by (simp_all add: applyChanges_def)
      moreover have "set (c_roles ?c) \<subseteq> set (c_roles c0) \<or> refFree w (c_externalRef c0) (c_roles ?c) (Some (c_id c0))"
        using u by (cases "uci_roles input") (simp_all add: applyChanges_def)
      ultimately show "wp (bindM (customers_save ?c)
          (\<lambda>updated. customer_updated E notifier cid (addedRoles input c0) actor source updated)) ?P ?X w'"
        using u Some id by (intro save_keeps[OF _ _ _ _ tail, where ?c0.0 = c0]) (simp_all add: inv)
    qed (use inv in simp)
    with Some inv show ?thesis by (simp add: customer_update_def wp_bind wp_simps(1) wp_require customers_findById_def wp_gets wp_throw)
  qed
qed

lemma reactivate_keeps:
  assumes good: "goodIds E" and inv: "customersInv E w" and row: "map_of (w_customers w) (c_id c0) = Some c0"
  shows "wp (reactivateByExternalRef E c0 input actor) (\<lambda>_. customersInv E) (\<lambda>_. customersInv E) w"
proof (cases "refFree w (c_externalRef c0) (uei_roles input) (Some (c_id c0))")
  case False
  with inv show ?thesis by (simp add: reactivateByExternalRef_def wp_then wp_refFree)
next
  case True
  have frame: "keeps (customersAre t n) (thenM (recordEvent E ev) (retM r))" for t n ev and r :: CustomerRow
    by (intro keeps_intros frame_intros frame_notifier)
  show ?thesis
    unfolding reactivateByExternalRef_def wp_then wp_refFree using True
    by simp (rule save_keeps[OF inv _ _ _ frame, where ?c0.0 = c0], use row True in simp_all)
qed

lemma deactivate_keeps: "keeps (customersInv E) (deactivateByExternalRef E ref aud actor)"
proof (rule keepsI)
  fix w assume inv: "customersInv E w"
  have wf: "wf_table c_id (w_customers w)" using inv by (simp add: customersInv_def)
  show "wp (deactivateByExternalRef E ref aud actor) (\<lambda>_. customersInv E) (\<lambda>_. customersInv E) w"
  proof (cases "find (\<lambda>c. c_deletedAt c = None \<and> aud \<in> set (c_roles c))
      (filter (\<lambda>c. c_externalRef c = ref) (tvals (w_customers w)))")
    case None
    with inv show ?thesis by (simp add: deactivateByExternalRef_def wp_simps)
  next
    case (Some c)
    then have row: "map_of (w_customers w) (c_id c) = Some c"
      using find_SomeD[OF Some] by (simp add: tvals_map_of[OF wf])
    define w2 where "w2 = w\<lparr>w_customers := AList.update (c_id c) (c\<lparr>c_deletedAt := Some (w_now w)\<rparr>) (w_customers w)\<rparr>"
    have "customersInv E w2"
      by (rule customersInv_update[OF inv, of "c\<lparr>c_deletedAt := Some (w_now w)\<rparr>" c]) (use row in \<open>simp_all add: w2_def\<close>)
    then have "customersInv E (afterEvent E ev w2)" for ev by (rule customersInv_frame) simp_all
    with Some row show ?thesis by (simp add: deactivateByExternalRef_def wp_simps w2_def)
  qed
qed

lemma wp_resolveRef:
  "wp (resolveByExternalRefAndRoles ref roles) Q X w =
     Q (find (overlaps roles) (filter (\<lambda>c. c_externalRef c = ref) (tvals (w_customers w)))) w"
  by (simp add: resolveByExternalRefAndRoles_def wp_simps)

lemma upsert_keeps:
  assumes good: "goodIds E" and quiet: "quietNotifier notifier"
  shows "keeps (customersInv E) (upsertByExternalRef E notifier input actor)"
proof (rule keepsI)
  fix w assume inv: "customersInv E w"
  have wf: "wf_table c_id (w_customers w)" using inv by (simp add: customersInv_def)
  let ?P = "\<lambda>_ :: CustomerRow. customersInv E" and ?X = "\<lambda>_ :: failure. customersInv E"
  have create: "keeps (customersInv E) (bindM (customer_create E notifier i actor CsIntegration)
      (\<lambda>created. retM (CustomerRow.truncate created)))" for i
    by (intro keeps_intros create_keeps good quiet)
  have main: "wp (bindM (resolveByExternalRefAndRoles (uei_externalRef input) (uei_roles input)) (\<lambda>found.
     case found of
       None \<Rightarrow>
         bindM (customer_create E notifier
           \<lparr>cci_externalRef = uei_externalRef input, cci_firstName = uei_firstName input,
            cci_lastName = uei_lastName input, cci_companyName = uei_companyName input,
            cci_roles = uei_roles input, cci_contactEmails = uei_contactEmails input,
            cci_acceptedVersions = None, cci_signedDocuments = None,
            cci_source = Some (orElse (nonBlank (uei_source input)) DEFAULT_INBOUND_SOURCE)\<rparr>
           actor CsIntegration) (\<lambda>created.
         retM (CustomerRow.truncate created))
     | Some existing \<Rightarrow>
         if c_deletedAt existing \<noteq> None then reactivateByExternalRef E existing input actor
         else (let changes = diffInbound existing input in
           if changes = noChanges then retM (toRow existing None)
           else customer_update E notifier (c_id existing) changes actor CsIntegration))) ?P ?X w"
  proof (cases "find (overlaps (uei_roles input)) (filter (\<lambda>c. c_externalRef c = uei_externalRef input) (tvals (w_customers w)))")
    case None
    show ?thesis
      unfolding wp_bind[of "resolveByExternalRefAndRoles r s" for r s] wp_resolveRef None
      using keepsD[OF create inv] by simp
  next
    case (Some c)
    then have row: "map_of (w_customers w) (c_id c) = Some c"
      using find_SomeD[OF Some] by (simp add: tvals_map_of[OF wf])
    have "wp (if c_deletedAt c \<noteq> None then reactivateByExternalRef E c input actor
         else (let changes = diffInbound c input in
           if changes = noChanges then retM (toRow c None)
           else customer_update E notifier (c_id c) changes actor CsIntegration)) ?P ?X w"
      using reactivate_keeps[OF good inv row] keepsD[OF update_keeps[OF good quiet] inv] inv
      by (simp add: Let_def wp_ret)
    then show ?thesis
      unfolding wp_bind[of "resolveByExternalRefAndRoles r s" for r s] wp_resolveRef Some by simp
  qed
  show "wp (upsertByExternalRef E notifier input actor) ?P ?X w"
  proof (cases "trim (uei_externalRef input) = []")
    case False
    show ?thesis
      unfolding upsertByExternalRef_def if_not_P[OF False]
      by (rule wp_check[OF checks_read(1)], rule wp_check[OF checks_read(2)], rule main) (simp_all add: inv)
  qed (simp add: upsertByExternalRef_def wp_throw inv)
qed

text \<open>C17: No two customers, deleted ones included, ever share an external reference within a common role:
  the invariant holds initially and every operation of the customer administration, successful or not,
  keeps it, whatever its input and whatever a notifier answers.\<close>

theorem customersInv_kept:
  assumes "goodIds E" "quietNotifier notifier"
  shows "customersInv E (emptyWorld now)
     \<and> keeps (customersInv E) (customer_create E notifier input actor source)
     \<and> keeps (customersInv E) (customer_update E notifier customerId changes actor source)
     \<and> keeps (customersInv E) (upsertByExternalRef E notifier pushed actor)
     \<and> keeps (customersInv E) (deactivateByExternalRef E ref audience actor)"
  using create_keeps[OF assms] update_keeps[OF assms] upsert_keeps[OF assms] deactivate_keeps
  by (simp add: customersInv_def emptyWorld_def tvals_def)

lemma quiet_ex: "quietNotifier (\<lambda>_ _. retM ())"
  by (simp add: quietNotifier_def retM_def)

definition pushed_ex :: UpsertByExternalRefInput where
  "pushed_ex = \<lparr>uei_externalRef = ''crm-1'', uei_firstName = Some ''Ada'', uei_lastName = Some ''L'',
     uei_companyName = None, uei_contactEmails = [''a@x.y''], uei_roles = [''customer''], uei_source = None\<rparr>"

lemma customersInv_kept_witness:
  "customersInv env_ex (snd (upsertByExternalRef env_ex (\<lambda>_ _. retM ()) pushed_ex
     \<lparr>act_userId = ''u'', act_name = None, act_email = None, act_portalRole = None\<rparr> (emptyWorld 0)))"
  using customersInv_kept[OF goodIds_ex quiet_ex] by (blast intro: keeps_snd)

section \<open>The inbound push is idempotent\<close>

lemma wp_frame:
  assumes "\<And>t n. keeps (customersAre t n) m"
  shows "wp m (\<lambda>_ w'. w_customers w' = w_customers w \<and> w_audiences w' = w_audiences w)
    (\<lambda>_ w'. w_customers w' = w_customers w \<and> w_audiences w' = w_audiences w) w"
  by (rule wp_mono[OF keepsD[OF assms[of "(w_customers w, w_audiences w)" "w_uuid w"]]]) (simp_all add: customersAre_def)

lemma truncate_extend: "CustomerRow.truncate (CustomerRow.extend r m) = CustomerRow.truncate r"
  by (cases r) (simp add: CustomerRow.defs)

lemma truncate_toRow: "CustomerRow.truncate (toRow c x) = toRow c x"
  by (simp add: toRow_def CustomerRow.defs)

lemma wp_result_frame:
  assumes "\<And>t n. keeps (customersAre t n) m" "\<And>w. wp m (\<lambda>r _. P r) (\<lambda>_ _. True) w"
  shows "wp m (\<lambda>r w'. P r \<and> w_customers w' = w_customers w \<and> w_audiences w' = w_audiences w) (\<lambda>_ _. True) w"
  using wp_conj[OF assms(2) wp_frame[OF assms(1)]] by (rule wp_mono) auto

lemma wp_any: "(\<And>x w'. wp (f x) Q X w') \<Longrightarrow> (\<And>e w'. X e w') \<Longrightarrow> wp (bindM m f) Q X w"
  by (auto simp: wp_bind wp_def[of m] split: prod.split sum.split)

lemma wp_any_then: "(\<And>w'. wp n Q X w') \<Longrightarrow> (\<And>e w'. X e w') \<Longrightarrow> wp (thenM m n) Q X w"
  unfolding thenM_def by (rule wp_any)

lemma onboard_result:
  assumes quiet: "quietNotifier notifier"
  shows "wp (customer_onboard E notifier vs actor source c)
    (\<lambda>r w'. CustomerRow.truncate r = toRow c None \<and> w_customers w' = w_customers w \<and> w_audiences w' = w_audiences w)
    (\<lambda>_ _. True) w"
proof (rule wp_result_frame)
  show "keeps (customersAre t n) (customer_onboard E notifier vs actor source c)" for t n
    unfolding customer_onboard_def by (intro keeps_intros frame_intros frame_notifier quiet)
  show "wp (customer_onboard E notifier vs actor source c) (\<lambda>r _. CustomerRow.truncate r = toRow c None) (\<lambda>_ _. True) w" for w
    unfolding customer_onboard_def
    by (intro wp_any wp_any_then) (simp_all add: wp_ret truncate_extend truncate_toRow)
qed

lemma updated_result:
  assumes quiet: "quietNotifier notifier"
  shows "wp (customer_updated E notifier cid added actor source c)
    (\<lambda>r w'. r = toRow c None \<and> w_customers w' = w_customers w \<and> w_audiences w' = w_audiences w) (\<lambda>_ _. True) w"
proof (rule wp_result_frame)
  show "keeps (customersAre t n) (customer_updated E notifier cid added actor source c)" for t n
    unfolding customer_updated_def by (intro keeps_intros frame_intros frame_notifier quiet)
  show "wp (customer_updated E notifier cid added actor source c) (\<lambda>r _. r = toRow c None) (\<lambda>_ _. True) w" for w
    unfolding customer_updated_def by (intro wp_any wp_any_then) (simp_all add: wp_ret)
qed

text \<open>A customer that shows all the pushed data.\<close>

definition upToDate :: "UpsertByExternalRefInput \<Rightarrow> Customer \<Rightarrow> bool" where
  "upToDate input c \<longleftrightarrow> c_externalRef c = uei_externalRef input \<and> c_deletedAt c = None
     \<and> diffInbound c input = noChanges"

lemma sameStringSet_refl: "sameStringSet xs xs"
  by (simp add: sameStringSet_def list_all2_refl)

lemma sameStringSet_set: "sameStringSet xs ys \<Longrightarrow> set xs = set ys"
  unfolding sameStringSet_def list_all2_eq[symmetric] by (metis set_sort)

lemma noChanges_iff:
  "diffInbound c input = noChanges \<longleftrightarrow>
     orElse (uei_firstName input) [] = c_firstName c \<and> orElse (uei_lastName input) [] = c_lastName c
     \<and> nonBlank (uei_companyName input) = c_companyName c \<and> sameStringSet (uei_roles input) (c_roles c)
     \<and> sameStringSet (uei_contactEmails input) (c_contactEmails c)"
  by (auto simp: diffInbound_def noChanges_def changed_def Let_def)

lemma nonBlank_twice: "nonBlank (Some (orElse (nonBlank x) [])) = nonBlank x"
proof -
  have "trim [] = []" by (simp add: trim_def)
  then show ?thesis by (cases x) (simp_all add: nonBlank_def)
qed

lemma applied_upToDate:
  assumes "c_externalRef c = uei_externalRef input" "c_deletedAt c = None"
  shows "upToDate input (applyChanges (diffInbound c input) c)"
  unfolding upToDate_def noChanges_iff
  using assms nonBlank_twice[of "uei_companyName input"]
  by (simp add: applyChanges_def diffInbound_def changed_def Let_def sameStringSet_refl)

lemma wp_checked:
  "readsOnly m \<Longrightarrow> (fst (m w) = Inr () \<Longrightarrow> wp n Q X w) \<Longrightarrow> (\<And>e. X e w) \<Longrightarrow> wp (thenM m n) Q X w"
  by (cases "m w") (auto simp: wp_then wp_def[of m] dest: readsOnlyD split: sum.split)

lemma rolesKnown_cong:
  "w_audiences w' = w_audiences w \<Longrightarrow> fst (assertRolesKnown roles w') = fst (assertRolesKnown roles w)"
  unfolding assertRolesKnown_def
  by (induction roles) (simp_all add: action_defs audiences_findByKey_def)

lemma emailsValid_cong: "fst (assertEmailsValid emails w') = fst (assertEmailsValid emails w)"
  unfolding assertEmailsValid_def by (induction emails) (simp_all add: action_defs)

definition checksPass :: "UpsertByExternalRefInput \<Rightarrow> world \<Rightarrow> bool" where
  "checksPass input w \<longleftrightarrow> trim (uei_externalRef input) \<noteq> []
     \<and> fst (assertRolesKnown (uei_roles input) w) = Inr () \<and> fst (assertEmailsValid (uei_contactEmails input) w) = Inr ()"

lemma checksPass_cong: "w_audiences w' = w_audiences w \<Longrightarrow> checksPass input w' \<longleftrightarrow> checksPass input w"
  unfolding checksPass_def using rolesKnown_cong emailsValid_cong by metis

definition settledBy :: "UpsertByExternalRefInput \<Rightarrow> CustomerRow \<Rightarrow> world \<Rightarrow> bool" where
  "settledBy input row w \<longleftrightarrow> checksPass input w
     \<and> (\<exists>c \<in> set (tvals (w_customers w)). upToDate input c \<and> row = toRow c None)"

lemma created_upToDate:
  "upToDate input (newCustomer i \<lparr>cci_externalRef = uei_externalRef input, cci_firstName = uei_firstName input,
     cci_lastName = uei_lastName input, cci_companyName = uei_companyName input,
     cci_roles = uei_roles input, cci_contactEmails = uei_contactEmails input,
     cci_acceptedVersions = None, cci_signedDocuments = None, cci_source = src\<rparr>)"
  by (simp add: upToDate_def noChanges_iff newCustomer_def sameStringSet_refl)

lemma in_update: "x \<in> set (tvals (AList.update k x t))"
  using map_of_SomeD[of "AList.update k x t" k x] by (force simp: tvals_def table_simps)

lemma create_result:
  assumes quiet: "quietNotifier notifier"
  shows "wp (customer_create E notifier input actor source)
    (\<lambda>r w'. \<exists>i. CustomerRow.truncate r = toRow (newCustomer i input) None
       \<and> newCustomer i input \<in> set (tvals (w_customers w')) \<and> w_audiences w' = w_audiences w) (\<lambda>_ _. True) w"
proof -
  obtain res w0 where v: "customer_validate input w = (res, w0)" by fastforce
  then have "w0 = w" by (rule readsOnlyD[OF customer_validate_reads])
  show ?thesis
  proof (cases res)
    case (Inl e)
    with v show ?thesis by (simp add: customer_create_def wp_bind wp_def[of "customer_validate input"])
  next
    case (Inr vs)
    let ?c = "newCustomer (''c-'' @ e_uuid E (w_uuid w)) input"
    let ?w2 = "w\<lparr>w_uuid := Suc (w_uuid w), w_customers := AList.update (c_id ?c) ?c (w_customers w)\<rparr>"
    have "?c \<in> set (tvals (AList.update (c_id ?c) ?c (w_customers w)))"
      by (rule in_update)
    then have "wp (customer_onboard E notifier vs actor source ?c)
      (\<lambda>r w'. \<exists>i. CustomerRow.truncate r = toRow (newCustomer i input) None
         \<and> newCustomer i input \<in> set (tvals (w_customers w')) \<and> w_audiences w' = w_audiences w) (\<lambda>_ _. True) ?w2"
      by (intro wp_mono[OF onboard_result[OF quiet]]) auto
    with v Inr \<open>w0 = w\<close> show ?thesis
      unfolding customer_create_def wp_bind[of "customer_validate input"]
      by (simp add: wp_def[of "customer_validate input"] wp_bind wp_newId
          customers_save_def wp_then wp_modify wp_ret newCustomer_def)
  qed
qed

lemma update_result:
  assumes quiet: "quietNotifier notifier" and row: "map_of (w_customers w) cid = Some c0" "c_deletedAt c0 = None"
  shows "wp (customer_update E notifier cid input actor source)
    (\<lambda>r w'. r = toRow (applyChanges input c0) None
       \<and> applyChanges input c0 \<in> set (tvals (w_customers w')) \<and> w_audiences w' = w_audiences w) (\<lambda>_ _. True) w"
proof -
  have save: "wp (bindM (customers_save c) (\<lambda>u. customer_updated E notifier cid added actor source u))
      (\<lambda>r w'. r = toRow c None \<and> c \<in> set (tvals (w_customers w')) \<and> w_audiences w' = w_audiences w) (\<lambda>_ _. True) w"
    for c added
    unfolding wp_bind customers_save_def wp_then wp_modify wp_ret
    by (intro wp_mono[OF updated_result[OF quiet]]) (auto simp: in_update)
  have "wp (thenM (customer_checkUpdate input c0) (bindM (customers_save (applyChanges input c0))
        (\<lambda>updated. customer_updated E notifier cid (addedRoles input c0) actor source updated)))
    (\<lambda>r w'. r = toRow (applyChanges input c0) None
       \<and> applyChanges input c0 \<in> set (tvals (w_customers w')) \<and> w_audiences w' = w_audiences w) (\<lambda>_ _. True) w"
    unfolding wp_then by (rule wp_mono[OF checkUpdate_wp]) (simp_all add: save)
  with row show ?thesis
    unfolding customer_update_def wp_bind[of "bindM m n" for m n]
    by (simp add: wp_bind[of "getsM g" for g] customers_findById_def wp_gets wp_require)
qed

lemma upsert_settles:
  assumes quiet: "quietNotifier notifier" and inv: "customersInv E w"
  shows "wp (upsertByExternalRef E notifier input actor) (settledBy input) (\<lambda>_ _. True) w"
proof (cases "trim (uei_externalRef input) = []")
  case True
  then show ?thesis by (simp add: upsertByExternalRef_def wp_throw)
next
  case ref: False
  have wf: "wf_table c_id (w_customers w)" using inv by (simp add: customersInv_def)
  let ?found = "find (overlaps (uei_roles input)) (filter (\<lambda>c. c_externalRef c = uei_externalRef input) (tvals (w_customers w)))"
  show ?thesis
    unfolding upsertByExternalRef_def if_not_P[OF ref]
  proof (rule wp_checked[OF checks_read(1)], rule wp_checked[OF checks_read(2)])
    assume ok: "fst (assertRolesKnown (uei_roles input) w) = Inr ()" "fst (assertEmailsValid (uei_contactEmails input) w) = Inr ()"
    then have checks: "w_audiences w' = w_audiences w \<Longrightarrow> checksPass input w'" for w'
      using checksPass_cong[of w' w input] ref by (simp add: checksPass_def)
    show "wp (bindM (resolveByExternalRefAndRoles (uei_externalRef input) (uei_roles input)) (\<lambda>found.
     case found of
       None \<Rightarrow>
         bindM (customer_create E notifier
           \<lparr>cci_externalRef = uei_externalRef input, cci_firstName = uei_firstName input,
            cci_lastName = uei_lastName input, cci_companyName = uei_companyName input,
            cci_roles = uei_roles input, cci_contactEmails = uei_contactEmails input,
            cci_acceptedVersions = None, cci_signedDocuments = None,
            cci_source = Some (orElse (nonBlank (uei_source input)) DEFAULT_INBOUND_SOURCE)\<rparr>
           actor CsIntegration) (\<lambda>created.
         retM (CustomerRow.truncate created))
     | Some existing \<Rightarrow>
         if c_deletedAt existing \<noteq> None then reactivateByExternalRef E existing input actor
         else (let changes = diffInbound existing input in
           if changes = noChanges then retM (toRow existing None)
           else customer_update E notifier (c_id existing) changes actor CsIntegration))) (settledBy input) (\<lambda>_ _. True) w"
    proof (cases ?found)
      case None
      show ?thesis
        unfolding wp_bind wp_resolveRef None option.case wp_ret
        by (rule wp_mono[OF create_result[OF quiet]]) (use checks created_upToDate in \<open>fastforce simp: settledBy_def\<close>, simp)
    next
      case (Some c)
      from find_SomeD[OF Some] have c: "c \<in> set (tvals (w_customers w))" "c_externalRef c = uei_externalRef input"
        and row: "map_of (w_customers w) (c_id c) = Some c" by (simp_all add: tvals_map_of[OF wf])
      have reactivated: "wp (reactivateByExternalRef E c input actor) (settledBy input) (\<lambda>_ _. True) w"
        using checks
        by (auto simp: reactivateByExternalRef_def wp_then wp_refFree wp_bind customers_save_def wp_modify wp_ret
            wp_recordEvent settledBy_def upToDate_def noChanges_iff c sameStringSet_refl intro!: bexI[OF _ in_update])
      have changed: "wp (customer_update E notifier (c_id c) (diffInbound c input) actor CsIntegration) (settledBy input) (\<lambda>_ _. True) w"
        if "c_deletedAt c = None"
        by (rule wp_mono[OF update_result[OF quiet row that]])
           (use checks applied_upToDate[OF c(2) that] in \<open>auto simp: settledBy_def\<close>)
      have same: "settledBy input (toRow c None) w" if "c_deletedAt c = None" "diffInbound c input = noChanges"
        using c that checks[OF refl] by (auto simp: settledBy_def upToDate_def)
      show ?thesis
        unfolding wp_bind wp_resolveRef Some option.case
        using reactivated changed same by (simp add: Let_def wp_ret)
    qed
  qed simp_all
qed

lemma settled_push:
  assumes inv: "customersInv E w" and roles: "uei_roles input \<noteq> []" and settled: "settledBy input row w"
  shows "upsertByExternalRef E notifier input actor w = (Inr row, w)"
proof -
  from settled obtain c where c: "c \<in> set (tvals (w_customers w))" "upToDate input c" "row = toRow c None"
    and checks: "checksPass input w" by (auto simp: settledBy_def)
  let ?p = "\<lambda>c. c_externalRef c = uei_externalRef input"
  have same: "sameStringSet (uei_roles input) (c_roles c)" "c_externalRef c = uei_externalRef input"
    using c(2) by (simp_all add: upToDate_def noChanges_iff)
  from sameStringSet_set[OF same(1)] roles have over: "overlaps (uei_roles input) c"
    by (cases "uei_roles input") (auto simp: overlaps_iff)
  have "find (overlaps (uei_roles input)) (filter ?p (tvals (w_customers w))) = Some c"
  proof (cases "find (overlaps (uei_roles input)) (filter ?p (tvals (w_customers w)))")
    case None
    with over c(1) same(2) show ?thesis by (auto simp: find_None_iff)
  next
    case (Some x)
    from find_SomeD[OF this] have x: "x \<in> set (tvals (w_customers w))" "c_externalRef x = c_externalRef c"
      "overlaps (uei_roles input) x" using same(2) by simp_all
    from x(3) sameStringSet_set[OF same(1)] have "sharedRole x c" by (auto simp: overlaps_iff sharedRole_def)
    with x(1,2) c(1) inv have "x = c" unfolding customersInv_def by blast
    with Some show ?thesis by simp
  qed
  then have found: "wp (resolveByExternalRefAndRoles (uei_externalRef input) (uei_roles input)) Q X w = Q (Some c) w" for Q X
    by (simp add: wp_resolveRef)
  have ref: "trim (uei_externalRef input) \<noteq> []" using checks by (simp add: checksPass_def)
  have pass: "assertRolesKnown (uei_roles input) w = (Inr (), w)" "assertEmailsValid (uei_contactEmails input) w = (Inr (), w)"
    using checks readsOnlyD[OF checks_read(1)] readsOnlyD[OF checks_read(2)] unfolding checksPass_def
    by (metis prod.collapse)+
  have passed: "wp (assertRolesKnown (uei_roles input)) Q X w = Q () w"
    "wp (assertEmailsValid (uei_contactEmails input)) Q X w = Q () w" for Q X
    by (simp_all add: wp_def pass)
  show ?thesis
    by (rule reads_wp)
       (use c ref in \<open>simp add: upsertByExternalRef_def wp_then passed wp_bind found upToDate_def wp_ret\<close>)
qed

text \<open>C18: The inbound push is idempotent: after a successful push with at least one role, the same push,
  by whomever and with whatever notifier, answers the same row and writes nothing at all.\<close>

theorem upsert_idempotent:
  assumes "goodIds E" "quietNotifier notifier" "customersInv E w" "uei_roles input \<noteq> []"
    and "upsertByExternalRef E notifier input actor w = (Inr row, w')"
  shows "upsertByExternalRef E notifier' input actor' w' = (Inr row, w')"
proof -
  have "settledBy input row w'" using upsert_settles[OF assms(2,3), of input actor] assms(5) by (simp add: wp_def)
  moreover have "customersInv E w'"
    using keeps_snd[OF upsert_keeps[OF assms(1,2)] assms(3), of input actor] assms(5) by simp
  ultimately show ?thesis by (intro settled_push assms(4))
qed

definition push_world_ex :: world where
  "push_world_ex = (emptyWorld 0)\<lparr>w_audiences := [(''aud-1'', \<lparr>au_id = ''aud-1'', au_key = ''customer'', au_name = ''C''\<rparr>)]\<rparr>"

definition actor_ex :: Actor where
  "actor_ex = \<lparr>act_userId = ''u'', act_name = None, act_email = None, act_portalRole = None\<rparr>"

lemma push_ex:
  "\<exists>row w'. upsertByExternalRef env_ex (\<lambda>_ _. retM ()) pushed_ex actor_ex push_world_ex = (Inr row, w')
     \<and> length (w_customers w') = 1"
proof -
  have email: "EMAIL_PATTERN ''a@x.y''" by code_simp
  have "wp (upsertByExternalRef env_ex (\<lambda>_ _. retM ()) pushed_ex actor_ex)
      (\<lambda>_ w'. length (w_customers w') = 1) (\<lambda>_ _. False) push_world_ex"
    by (simp add: upsertByExternalRef_def pushed_ex_def push_world_ex_def emptyWorld_def tvals_def wp_simps email
        assertRolesKnown_def assertEmailsValid_def assertExternalRefUniqueForRoles_def resolveByExternalRefAndRoles_def
        customer_create_def customer_validate_def validateImports_def resolveSignedDocuments_def mergeImports_def
        customers_save_def newCustomer_def customer_onboard_def rolloutCurrentVersions_def notifyRolledOut_def
        audit_append_def trim_def isSpaceChar_def Let_def)
  then show ?thesis by (auto simp: wp_def split: prod.splits sum.splits)
qed

lemma upsert_idempotent_witness:
  "\<exists>row w'. upsertByExternalRef env_ex (\<lambda>_ _. retM ()) pushed_ex actor_ex push_world_ex = (Inr row, w')
     \<and> upsertByExternalRef env_ex (\<lambda>_ _. retM ()) pushed_ex actor_ex w' = (Inr row, w')"
proof -
  have inv: "customersInv env_ex push_world_ex" by (simp add: customersInv_def push_world_ex_def emptyWorld_def tvals_def)
  have roles: "uei_roles pushed_ex \<noteq> []" by (simp add: pushed_ex_def)
  from push_ex upsert_idempotent[OF goodIds_ex quiet_ex inv roles] show ?thesis by blast
qed

end
