(* ===== verification/System.thy ===== *)
theory System
  imports Frames Mail_Facts
begin

text \<open>
  The whole server as a transition system.  A request, a webhook, a job run or the start is a
  \<open>command\<close>; \<open>perform\<close> dispatches it to the service that handles it, wired as the modules of
  \<open>src/src\<close> wire them (the rollout notifier, the reminder mailer and the confirmation are the senders
  of the e-mail core, the administrators are notified by e-mail, PDF links come from the file storage).
  A step of the system is a command run to its end, or the passing of time.
\<close>

section \<open>Commands\<close>

record services =
  sv_env :: env
  sv_cfg :: NotificationConfig
  sv_mail :: EmailDeliveryProvider
  sv_files :: FileStorage
  sv_adminMail :: string
  sv_toNumber :: "string \<Rightarrow> int option"
  sv_fromBase64 :: "string \<Rightarrow> string"
  sv_rolloutMailsDisabled :: bool

datatype command =
    DocumentCreate CreateDocumentInput string
  | VersionCreate string CreateVersionBody "PdfUpload option" string
  | VersionPatch string PatchVersionBody "PdfUpload option" string
  | VersionDelete string string
  | VersionPublish string string
  | Accept CustomerSelector IntegrationAcceptanceBody "string option" ServiceRequest
  | Object CustomerSelector ObjectionBody "string option" ServiceRequest
  | Notify CustomerSelector NotificationBody ServiceRequest
  | PageGet string
  | PageAccept string LinkAcceptanceRequest
  | PageObject string LinkObjectionRequest
  | LinkCreate string CreateAcceptanceLinkInput string
  | ManualAccept string ManualAcceptanceInput Actor
  | StatePatch string PatchStateInput string
  | StateRemind string string
  | CustomerCreate CreateCustomerInput Actor CustomerCreateSource
  | CustomerUpdate string UpdateCustomerInput Actor CustomerCreateSource
  | CustomerPush UpsertByExternalRefInput Actor
  | CustomerDeactivate string string Actor
  | SignedUpload string UploadSignedDocumentInput Actor bool
  | AudienceCreate string string string
  | AudienceUpdate string body string
  | AudienceRemove string string
  | TypeCreate string string "bool option" string
  | TypeUpdate string body string
  | TypeRemove string string
  | TemplateCreate CreateEmailTemplateInput string
  | TemplateUpdate string UpdateEmailTemplateInput string
  | TemplateRemove string string
  | Boot meta
  | SweeperJob
  | ReminderJob
  | RolloutMailJob nat
  | DeliveryEvent InboundDeliveryEvent
  | DeliveryPoll Date

definition rolloutMails :: "services \<Rightarrow> rolloutNotifier" where
  "rolloutMails S = notifyVersionPublished (sv_env S) (sv_cfg S) (sv_mail S) (Some (sv_files S))"

definition confirmationMails :: "services \<Rightarrow> confirmation" where
  "confirmationMails S = Some (sendForAcceptance (sv_env S) (sv_cfg S) (sv_mail S) (sv_files S))"

definition remindMails :: "services \<Rightarrow> remindNotifier" where
  "remindMails S = notifier_remind (sv_env S) (sv_cfg S) (sv_mail S) (Some (sv_files S))"

definition reminderMails :: "services \<Rightarrow> reminderMailer" where
  "reminderMails S = (\<lambda>c r v d. thenM (sendReminder (sv_env S) (sv_cfg S) (sv_mail S) c r v d) (retM ()))"

definition adminMails :: "services \<Rightarrow> adminNotifications" where
  "adminMails S = Some (notifyAll [emailAdminNotifier (sv_mail S) (sv_adminMail S)])"

definition pdfUrls :: "services \<Rightarrow> pdfUrlProvider" where
  "pdfUrls S = fs_getPresignedUrl (sv_files S)"

definition ignore :: "'a M \<Rightarrow> unit M" where
  "ignore m = thenM m (retM ())"

primrec perform :: "services \<Rightarrow> command \<Rightarrow> unit M" where
  "perform S (DocumentCreate input admin) = ignore (document_create (sv_env S) input admin)"
| "perform S (VersionCreate k input upload admin) =
     ignore (controller_createVersion (sv_env S) (sv_files S) (sv_toNumber S) (sv_fromBase64 S) k input upload admin)"
| "perform S (VersionPatch k patch upload admin) =
     ignore (controller_patchVersion (sv_env S) (sv_files S) (sv_toNumber S) (sv_fromBase64 S) k patch upload admin)"
| "perform S (VersionDelete k admin) = deleteDraft (sv_env S) k admin"
| "perform S (VersionPublish k admin) = ignore (publish (sv_env S) k admin)"
| "perform S (Accept sel input key req) =
     ignore (controller_accept (sv_env S) (confirmationMails S) sel input key req)"
| "perform S (Object sel input key req) = ignore (controller_object (sv_env S) (adminMails S) sel input key req)"
| "perform S (Notify sel input req) = ignore (controller_notify (sv_env S) sel input req)"
| "perform S (PageGet token) = ignore (page_get (sv_env S) (pdfUrls S) token)"
| "perform S (PageAccept token req) = ignore (page_postAcceptance (sv_env S) (confirmationMails S) token req)"
| "perform S (PageObject token req) = ignore (page_postObjection (sv_env S) (adminMails S) token req)"
| "perform S (LinkCreate k input admin) = ignore (link_create (sv_env S) k input admin)"
| "perform S (ManualAccept k input actor) =
     ignore (manual_record (sv_env S) (sv_files S) (confirmationMails S) k input actor)"
| "perform S (StatePatch k input admin) = ignore (state_patch (sv_env S) k input admin)"
| "perform S (StateRemind k admin) = ignore (state_remind (sv_env S) (remindMails S) k admin)"
| "perform S (CustomerCreate input actor source) =
     ignore (customer_create (sv_env S) (rolloutMails S) input actor source)"
| "perform S (CustomerUpdate k input actor source) =
     ignore (customer_update (sv_env S) (rolloutMails S) k input actor source)"
| "perform S (CustomerPush input actor) = ignore (upsertByExternalRef (sv_env S) (rolloutMails S) input actor)"
| "perform S (CustomerDeactivate ref audience actor) = deactivateByExternalRef (sv_env S) ref audience actor"
| "perform S (SignedUpload k input actor audit) =
     ignore (signed_upload (sv_env S) (sv_files S) k input actor audit)"
| "perform S (AudienceCreate k name admin) = ignore (audience_create (sv_env S) k name admin)"
| "perform S (AudienceUpdate k body admin) = ignore (audience_update (sv_env S) k body admin)"
| "perform S (AudienceRemove k admin) = audience_remove (sv_env S) k admin"
| "perform S (TypeCreate k name external admin) = ignore (documentType_create (sv_env S) k name external admin)"
| "perform S (TypeUpdate k body admin) = ignore (documentType_update (sv_env S) k body admin)"
| "perform S (TypeRemove k admin) = documentType_remove (sv_env S) k admin"
| "perform S (TemplateCreate input admin) = ignore (template_create (sv_env S) input admin)"
| "perform S (TemplateUpdate k input admin) = ignore (template_update (sv_env S) k input admin)"
| "perform S (TemplateRemove k admin) = template_remove (sv_env S) k admin"
| "perform S (Boot raw) = legalEntities_boot (sv_env S) raw"
| "perform S SweeperJob = sweeper_job (sv_env S) (confirmationMails S)"
| "perform S ReminderJob = reminder_run (reminderMails S)"
| "perform S (RolloutMailJob n) = rolloutNotification_run (sv_rolloutMailsDisabled S) (rolloutMails S) n"
| "perform S (DeliveryEvent event) = delivery_handle (sv_env S) event"
| "perform S (DeliveryPoll older) = pollPendingDeliveries (sv_env S) (sv_mail S) older"

section \<open>Steps\<close>

text \<open>The steps with commands that satisfy \<open>C\<close>.\<close>

inductive step :: "services \<Rightarrow> (command \<Rightarrow> bool) \<Rightarrow> world \<Rightarrow> world \<Rightarrow> bool" for S C where
  request: "C c \<Longrightarrow> step S C w (snd (perform S c w))"
| clock: "w_now w \<le> t \<Longrightarrow> step S C w (w\<lparr>w_now := t\<rparr>)"

inductive_cases stepE: "step S C w w'"

inductive reach :: "services \<Rightarrow> (command \<Rightarrow> bool) \<Rightarrow> world \<Rightarrow> bool" for S C where
  start: "reach S C (emptyWorld now)"
| further: "reach S C w \<Longrightarrow> step S C w w' \<Longrightarrow> reach S C w'"

abbreviation anyCommand :: "command \<Rightarrow> bool" where
  "anyCommand \<equiv> (\<lambda>_. True)"

text \<open>What is assumed of the services: the mail provider and the file storage lie outside, UUIDs differ.\<close>

definition wired :: "services \<Rightarrow> bool" where
  "wired S \<longleftrightarrow> mailOutside (sv_mail S) \<and> filesOutside (sv_files S) \<and> goodIds (sv_env S)"

text \<open>An invariant holds in every reachable world when the start has it and every command and the clock
  keep it.\<close>

lemma reach_invariant:
  assumes "reach S C w" "\<And>now. I (emptyWorld now)" "\<And>c. C c \<Longrightarrow> keeps I (perform S c)"
    and "\<And>w t. I w \<Longrightarrow> w_now w \<le> t \<Longrightarrow> I (w\<lparr>w_now := t\<rparr>)"
  shows "I w"
  using assms(1)
proof (induction rule: reach.induct)
  case (further w w')
  from further.hyps(2) show ?case
  proof (rule stepE)
    show "I w'" if "w' = snd (perform S c w)" "C c" for c
      using keeps_snd[OF assms(3)[OF that(2)] further.IH] that(1) by simp
    show "I w'" if "w' = w\<lparr>w_now := t\<rparr>" "w_now w \<le> t" for t
      using assms(4)[OF further.IH that(2)] that(1) by simp
  qed
qed (rule assms(2))

section \<open>What a command may change\<close>

primrec footprint :: "command \<Rightarrow> area set" where
  "footprint (DocumentCreate _ _) = {DocumentArea, EventLog}"
| "footprint (VersionCreate _ _ _ _) = {VersionArea, EventLog}"
| "footprint (VersionPatch _ _ _ _) = {VersionArea, EventLog}"
| "footprint (VersionDelete _ _) = {VersionArea, EventLog}"
| "footprint (VersionPublish _ _) = {VersionArea, StateArea, AuditLog, EventLog}"
| "footprint (Accept _ _ _ _) = mailAreas \<union> {StateArea, AcceptanceLog, IdempotencyArea}"
| "footprint (Object _ _ _ _) = {StateArea, ObjectionLog, IdempotencyArea, EventLog, EscalationLog}"
| "footprint (Notify _ _ _) = {StateArea, NotificationLog, EventLog}"
| "footprint (PageGet _) = {StateArea, NotificationLog, EventLog, LinkArea, HitArea}"
| "footprint (PageAccept _ _) = mailAreas \<union> {StateArea, AcceptanceLog, IdempotencyArea, HitArea}"
| "footprint (PageObject _ _) =
     {StateArea, ObjectionLog, IdempotencyArea, EventLog, EscalationLog, LinkArea, HitArea}"
| "footprint (LinkCreate _ _ _) = {LinkArea, AuditLog, EventLog}"
| "footprint (ManualAccept _ _ _) = mailAreas \<union> {StateArea, AcceptanceLog, AuditLog}"
| "footprint (StatePatch _ _ _) = {StateArea, AuditLog, EventLog}"
| "footprint (StateRemind _ _) = mailAreas \<union> {StateArea, AuditLog}"
| "footprint (CustomerCreate _ _ _) = mailAreas \<union> {CustomerArea, StateArea, AcceptanceLog, AuditLog}"
| "footprint (CustomerUpdate _ _ _ _) = mailAreas \<union> {CustomerArea, StateArea, AcceptanceLog, AuditLog}"
| "footprint (CustomerPush _ _) = mailAreas \<union> {CustomerArea, StateArea, AcceptanceLog, AuditLog}"
| "footprint (CustomerDeactivate _ _ _) = {CustomerArea, EventLog}"
| "footprint (SignedUpload _ _ _ _) = {SignedArea, AuditLog, EventLog}"
| "footprint (AudienceCreate _ _ _) = {AudienceArea, AuditLog, EventLog}"
| "footprint (AudienceUpdate _ _ _) = {AudienceArea, AuditLog, EventLog}"
| "footprint (AudienceRemove _ _) = {AudienceArea, AuditLog, EventLog}"
| "footprint (TypeCreate _ _ _ _) = {TypeArea, AuditLog, EventLog}"
| "footprint (TypeUpdate _ _ _) = {TypeArea, AuditLog, EventLog}"
| "footprint (TypeRemove _ _) = {TypeArea, AuditLog, EventLog}"
| "footprint (TemplateCreate _ _) = {TemplateArea, AuditLog, EventLog}"
| "footprint (TemplateUpdate _ _ _) = {TemplateArea, AuditLog, EventLog}"
| "footprint (TemplateRemove _ _) = {TemplateArea, AuditLog, EventLog}"
| "footprint (Boot _) = {AudienceArea, TypeArea}"
| "footprint SweeperJob = mailAreas \<union> {VersionArea, StateArea, AcceptanceLog}"
| "footprint ReminderJob = insert StateArea mailAreas"
| "footprint (RolloutMailJob _) = insert StateArea mailAreas"
| "footprint (DeliveryEvent _) = {StateArea, NotificationLog, EventLog, OutboundArea, EscalationLog}"
| "footprint (DeliveryPoll _) = {StateArea, NotificationLog, EventLog, OutboundArea}"

lemma modifies_ignore [modifies_intros]: "modifies T m \<Longrightarrow> modifies T (ignore m)"
  unfolding ignore_def by (intro modifies_intros)

lemma modifies_wiring [modifies_intros]:
  assumes "wired S"
  shows "mailAreas \<subseteq> T \<Longrightarrow> modifies T (rolloutMails S c v)"
    and "mailAreas \<subseteq> T \<Longrightarrow> modifies T (callConfirmation (confirmationMails S) x)"
    and "mailAreas \<subseteq> T \<Longrightarrow> modifies T (remindMails S c s v)"
    and "mailAreas \<subseteq> T \<Longrightarrow> modifies T (reminderMails S c r v d)"
    and "modifies T (callNotifier (adminMails S) n)"
    and "modifies T (pdfUrls S k)"
  using assms
  unfolding wired_def rolloutMails_def confirmationMails_def remindMails_def reminderMails_def adminMails_def
    pdfUrls_def callNotifier_def option.case
  by (intro modifies_intros modifies_confirmation modifies_provider; auto)+

lemma perform_modifies:
  assumes "wired S"
  shows "modifies (footprint c) (perform S c)"
proof -
  have out: "mailOutside (sv_mail S)" "filesOutside (sv_files S)" using assms by (simp_all add: wired_def)
  have job: "modifies (footprint SweeperJob) (sweeper_job (sv_env S) (confirmationMails S))"
    unfolding sweeper_job_def by (intro modifies_intros assms) auto
  show ?thesis
    by (cases c; simp only: perform.simps footprint.simps;
        (rule job[unfolded footprint.simps] |
         (intro modifies_intros assms out; auto)))
qed

section \<open>Runs\<close>

abbreviation runs :: "services \<Rightarrow> (command \<Rightarrow> bool) \<Rightarrow> world \<Rightarrow> world \<Rightarrow> bool" where
  "runs S C \<equiv> (step S C)\<^sup>*\<^sup>*"

lemma reach_runs: "reach S C w \<Longrightarrow> runs S C w w' \<Longrightarrow> reach S C w'"
  by (rotate_tac, induction rule: rtranclp_induct) (auto intro: reach.further)

context history begin

lemma along_runs:
  assumes "runs S C w w'" "\<And>c w. C c \<Longrightarrow> R w (snd (perform S c w))"
    and "\<And>w t. w_now w \<le> t \<Longrightarrow> R w (w\<lparr>w_now := t\<rparr>)"
  shows "R w w'"
  using assms(1)
proof (induction rule: rtranclp_induct)
  case (step w1 w2)
  from step.hyps(2) have "R w1 w2"
  proof (rule stepE)
    show "R w1 w2" if "w2 = snd (perform S c w1)" "C c" for c using assms(2)[OF that(2)] that(1) by simp
    show "R w1 w2" if "w2 = w1\<lparr>w_now := t\<rparr>" "w_now w1 \<le> t" for t using assms(3)[OF that(2)] that(1) by simp
  qed
  with step.IH show ?case by (rule trans)
qed (rule refl)

end

section \<open>A small instance\<close>

text \<open>The services of the small instance of \<open>Mail_Facts\<close>.\<close>

definition services_ex :: services where
  "services_ex = \<lparr>sv_env = env_ex, sv_cfg = cfg_ex, sv_mail = mail_ex, sv_files = files_ex,
     sv_adminMail = ''admin@example.org'', sv_toNumber = (\<lambda>_. None), sv_fromBase64 = (\<lambda>s. s),
     sv_rolloutMailsDisabled = False\<rparr>"

lemma wired_ex: "wired services_ex"
  by (simp add: wired_def services_ex_def small_services.mail small_services.files goodIds_ex)

end
