(* ===== verification/History_Facts.thy ===== *)
theory History_Facts
  imports System
begin

text \<open>
  What no run of the server ever does: it never changes or drops an entry of a log, and it never changes
  the text of a published version.  The second holds for requests that do not set the \<open>id\<close> of a draft
  through the generic patch; with such a request it fails, which is shown too.
\<close>

section \<open>The logs\<close>

definition logged :: "world \<Rightarrow> world \<Rightarrow> bool" where
  "logged w w' \<longleftrightarrow> logsGrown w w' \<and> w_now w \<le> w_now w'"

interpretation logs: history logged
  by unfold_locales (auto simp: logged_def intro: logsGrown_trans)

text \<open>C8: Evidence is append-only.  Whatever requests, webhooks and jobs run in whatever order, and
  whatever the mail provider and the file storage answer, the acceptances, the objections, the delivery
  evidence, the activity log, the audit log and the escalations only grow at their end: no entry is ever
  changed, dropped or reordered.  Every single command, successful or not, also leaves alone every table
  outside its footprint.\<close>

theorem evidence_append_only:
  assumes "wired S"
  shows "(runs S anyCommand w w' \<longrightarrow> logsGrown w w' \<and> w_now w \<le> w_now w')
     \<and> (\<forall>c t. t \<notin> footprint c \<longrightarrow> agree t w (snd (perform S c w)))"
proof -
  have one: "change (footprint c) w (snd (perform S c w))" for c w
    using perform_modifies[OF assms] by (simp add: modifies_def)
  have "logged w w'" if "runs S anyCommand w w'"
    using that by (rule logs.along_runs) (use one in \<open>simp_all add: logged_def change_def logsGrown_def\<close>)
  with one show ?thesis by (auto simp: logged_def intro: change_agree)
qed

lemma evidence_append_only_witness:
  "w_audit (snd (perform services_ex (AudienceCreate ''b2b'' ''B2B'' ''admin'') world_ex)) \<noteq> []
   \<and> logsGrown world_ex (snd (perform services_ex (AudienceCreate ''b2b'' ''B2B'' ''admin'') world_ex))
   \<and> agree StateArea world_ex (snd (perform services_ex (AudienceCreate ''b2b'' ''B2B'' ''admin'') world_ex))"
proof (intro conjI)
  let ?c = "AudienceCreate ''b2b'' ''B2B'' ''admin''"
  have "runs services_ex anyCommand world_ex (snd (perform services_ex ?c world_ex))"
    by (rule r_into_rtranclp) (rule step.request, simp)
  then show "logsGrown world_ex (snd (perform services_ex ?c world_ex))"
    using evidence_append_only[OF wired_ex, of world_ex "snd (perform services_ex ?c world_ex)"] by blast
  show "agree StateArea world_ex (snd (perform services_ex ?c world_ex))"
    using evidence_append_only[OF wired_ex, of world_ex] by (metis area.distinct footprint.simps empty_iff insert_iff)
  show "w_audit (snd (perform services_ex ?c world_ex)) \<noteq> []"
  proof -
    have "wp (perform services_ex ?c) (\<lambda>_ w. w_audit w \<noteq> []) (\<lambda>_ w. w_audit w \<noteq> []) world_ex"
      by (simp add: ignore_def audience_create_def appendAudit_def wp_simps services_ex_def world_ex_def
          emptyWorld_def tvals_def assertValidEntityKey_def isValidEntityKey_def isSlugChar_def
          trim_def isSpaceChar_def)
    then show ?thesis by (simp add: wp_snd)
  qed
qed

section \<open>Published versions\<close>

definition versionsInv :: "env \<Rightarrow> world \<Rightarrow> bool" where
  "versionsInv E w \<longleftrightarrow> wf_table v_id (w_versions w) \<and> fst ` set (w_versions w) \<subseteq> drawnIds E [''v-''] (w_uuid w)"

text \<open>A version that is not a draft keeps everything but its status, and its status may only become RETIRED.\<close>

definition sameVersion :: "AgreementVersion \<Rightarrow> AgreementVersion \<Rightarrow> bool" where
  "sameVersion v v' \<longleftrightarrow> v' = v \<or> v' = v\<lparr>v_status := RETIRED\<rparr>"

definition frozen :: "world \<Rightarrow> world \<Rightarrow> bool" where
  "frozen w w' \<longleftrightarrow> (\<forall>k v. map_of (w_versions w) k = Some v \<longrightarrow> v_status v \<noteq> DRAFT \<longrightarrow>
     (\<exists>v'. map_of (w_versions w') k = Some v' \<and> sameVersion v v'))"

lemma sameVersion_trans: "sameVersion v v' \<Longrightarrow> sameVersion v' v'' \<Longrightarrow> sameVersion v v''"
  by (auto simp: sameVersion_def)

lemma sameVersion_published: "sameVersion v v' \<Longrightarrow> v_status v \<noteq> DRAFT \<Longrightarrow> v_status v' \<noteq> DRAFT"
  by (auto simp: sameVersion_def)

lemma frozen_trans:
  assumes "frozen w w'" "frozen w' w''"
  shows "frozen w w''"
  unfolding frozen_def
proof (intro allI impI)
  fix k v assume v: "map_of (w_versions w) k = Some v" "v_status v \<noteq> DRAFT"
  with assms(1) obtain v' where v': "map_of (w_versions w') k = Some v'" "sameVersion v v'"
    unfolding frozen_def by blast
  from sameVersion_published[OF v'(2) v(2)] v'(1) assms(2)
  obtain v'' where "map_of (w_versions w'') k = Some v''" "sameVersion v' v''" unfolding frozen_def by blast
  with v'(2) show "\<exists>v'. map_of (w_versions w'') k = Some v' \<and> sameVersion v v'"
    by (blast intro: sameVersion_trans)
qed

definition versionsKept :: "env \<Rightarrow> world \<Rightarrow> world \<Rightarrow> bool" where
  "versionsKept E w w' \<longleftrightarrow> (versionsInv E w \<longrightarrow> versionsInv E w' \<and> frozen w w')"

lemma frozen_refl: "frozen w w"
  by (auto simp: frozen_def sameVersion_def)

interpretation versions: history "versionsKept E" for E
  by unfold_locales (auto simp: versionsKept_def frozen_refl intro: frozen_trans)

lemma versionsKept_same:
  "w_versions w' = w_versions w \<Longrightarrow> w_uuid w \<le> w_uuid w' \<Longrightarrow> versionsKept E w w'"
  using drawn_Suc[of "w_versions w" E "[''v-'']" "w_uuid w" "w_uuid w'"]
  by (auto simp: versionsKept_def versionsInv_def frozen_def sameVersion_def)

lemma versionsKept_modifies: "modifies T m \<Longrightarrow> VersionArea \<notin> T \<Longrightarrow> keeps (versionsKept E w0) m"
  by (rule versions.keeps_local) (auto simp: wp_snd dest: modifies_area intro!: versionsKept_same)

text \<open>One version is written: a new one, a draft, or one whose text is unchanged.\<close>

lemma versionsKept_write:
  assumes w': "w_versions w' = AList.update (v_id v) v (w_versions w)" "w_uuid w \<le> w_uuid w'"
    and id: "versionsInv E w \<Longrightarrow> v_id v \<in> fst ` set (w_versions w) \<union> drawnIds E [''v-''] (w_uuid w')"
    and old: "\<And>u. versionsInv E w \<Longrightarrow> map_of (w_versions w) (v_id v) = Some u \<Longrightarrow> v_status u \<noteq> DRAFT \<Longrightarrow> sameVersion u v"
  shows "versionsKept E w w'"
proof -
  have "frozen w w'" if "versionsInv E w"
    using old[OF that] by (auto simp: frozen_def map_of_update sameVersion_def w')
  moreover have "versionsInv E w'" if "versionsInv E w"
    using that id w' drawn_Suc[of "w_versions w" E "[''v-'']" "w_uuid w" "w_uuid w'"]
    by (auto simp: versionsInv_def keys_update intro: wf_table_update)
  ultimately show ?thesis by (simp add: versionsKept_def)
qed

lemma versionsKept_event: "versionsKept E w w' \<Longrightarrow> versionsKept E w (afterEvent E ev w')"
  by (rule versions.trans) (auto intro: versionsKept_same)

lemma versionsKept_new:
  assumes good: "goodIds E" and v: "v_id v = k" "k = ''v-'' @ e_uuid E (w_uuid w)"
  shows "versionsKept E w (w\<lparr>w_uuid := Suc (w_uuid w), w_versions := AList.update k v (w_versions w)\<rparr>)"
proof (rule versionsKept_write)
  show "v_id v \<in> fst ` set (w_versions w) \<union> drawnIds E [''v-'']
      (w_uuid (w\<lparr>w_uuid := Suc (w_uuid w), w_versions := AList.update k v (w_versions w)\<rparr>))"
    using drawn_new[of "''v-''" "[''v-'']" "w_uuid w" "Suc (w_uuid w)" E] v by simp
  fix u assume "versionsInv E w" "map_of (w_versions w) (v_id v) = Some u"
  then show "sameVersion u v"
    using fresh_prefix[OF good, of "w_versions w" "''v-''" "w_uuid w" "w_uuid w"] v
    by (simp add: versionsInv_def)
qed (simp_all add: v(1))

subsection \<open>Drafts\<close>

lemma map_of_keys: "map_of t k = Some v \<Longrightarrow> k \<in> fst ` set t"
  by (metis domI dom_map_of_conv_image_fst)

lemma createDraft_kept:
  assumes good: "goodIds E" and out: "filesOutside F"
  shows "keeps (versionsKept E w0) (createDraft E F input admin)"
  unfolding createDraft_def
proof (rule keeps_bind, goal_cases)
  case 1
  show ?case by (rule versionsKept_modifies[of "{}"]) (auto intro!: modifies_intros)
next
  case (2 document)
  show ?case
  proof (rule keeps_bind, goal_cases)
    case 1
    show ?case by (rule versionsKept_modifies[of "{}"]) (auto intro!: modifies_intros out)
  next
    case (2 stored)
    show ?case
    proof (rule versions.keeps_local, goal_cases)
      case (1 w)
      show ?case
        by (simp add: wp_simps versionsKept_same split: option.split)
           (intro impI versionsKept_event versionsKept_new[OF good]; simp)
    qed
  qed
qed

text \<open>The draft under its id is written again or removed.\<close>

lemma versionsKept_draft:
  assumes row: "map_of (w_versions w) k = Some v" "v_status v = DRAFT" and id: "v_id v' = v_id v"
  shows "versionsKept E w (w\<lparr>w_versions := AList.update (v_id v') v' (w_versions w)\<rparr>)"
proof (rule versionsKept_write)
  have key: "v_id v' = k" if "versionsInv E w"
    using wf_table_key[of v_id "w_versions w" k v] that row id by (simp add: versionsInv_def)
  show "v_id v' \<in> fst ` set (w_versions w) \<union> drawnIds E [''v-'']
      (w_uuid (w\<lparr>w_versions := AList.update (v_id v') v' (w_versions w)\<rparr>))" if "versionsInv E w"
    using key[OF that] map_of_keys[OF row(1)] by simp
  show "sameVersion u v'" if "versionsInv E w" "map_of (w_versions w) (v_id v') = Some u" "v_status u \<noteq> DRAFT" for u
    using key[OF that(1)] that row by simp
qed simp_all

lemma versionsKept_delete:
  assumes "map_of (w_versions w) k = Some v" "v_status v = DRAFT"
  shows "versionsKept E w (w\<lparr>w_versions := AList.delete k (w_versions w)\<rparr>)"
proof -
  have "versionsInv E (w\<lparr>w_versions := AList.delete k (w_versions w)\<rparr>)" if "versionsInv E w"
  proof -
    have "fst ` set (AList.delete k (w_versions w)) \<subseteq> fst ` set (w_versions w)" by (auto simp: AList.delete_eq)
    with that show ?thesis by (auto simp: versionsInv_def wf_table_delete)
  qed
  moreover have "frozen w (w\<lparr>w_versions := AList.delete k (w_versions w)\<rparr>)"
    using assms by (auto simp: frozen_def map_of_delete sameVersion_def)
  ultimately show ?thesis by (simp add: versionsKept_def)
qed

lemma wp_outside: "outside m \<Longrightarrow> (\<And>x. Q x w) \<Longrightarrow> (\<And>e. X e w) \<Longrightarrow> wp m Q X w"
  by (cases "m w"; cases "fst (m w)") (auto simp: outside_def wp_def dest: spec[of _ w])

lemma pdf_store_outside: "filesOutside F \<Longrightarrow> outside (pdf_store F u)"
  by (auto simp: outside_def pdf_store_def filesOutside_def action_defs split: prod.splits sum.splits)
     (metis snd_conv)+

lemma wp_pdf_store:
  "filesOutside F \<Longrightarrow> (\<And>x. Q x w) \<Longrightarrow> (\<And>e. X e w) \<Longrightarrow> wp (pdf_store F u) Q X w"
  by (rule wp_outside[OF pdf_store_outside])

text \<open>The patch does not name the id.\<close>

definition setsId :: "VersionField list \<Rightarrow> bool" where
  "setsId patch \<longleftrightarrow> (\<exists>i. FId i \<in> set patch)"

lemma spreadPatch_id: "\<not> setsId patch \<Longrightarrow> v_id (spreadPatch v patch) = v_id v"
proof (induction patch arbitrary: v)
  case (Cons f fs)
  have "v_id (setField f v) = v_id v" using Cons.prems by (cases f) (auto simp: setsId_def)
  moreover have "\<not> setsId fs" using Cons.prems by (auto simp: setsId_def)
  ultimately show ?case using Cons.IH[of "setField f v"] by (simp add: spreadPatch_def)
qed (simp add: spreadPatch_def)

lemma patchDraft_kept:
  assumes out: "filesOutside F" and patch: "\<not> setsId patch"
  shows "keeps (versionsKept E w0) (patchDraft E F k patch upl admin)"
proof (rule versions.keeps_local)
  fix w
  have save: "versionsKept E w (afterEvent E ev (w\<lparr>w_versions := AList.update k' v' (w_versions w)\<rparr>))"
    if "map_of (w_versions w) k = Some v" "v_status v = DRAFT" "v_id v' = v_id v" "k' = v_id v" for v v' k' ev
    using versionsKept_event[OF versionsKept_draft[OF that(1-3)]] that(3,4) by simp
  show "wp (patchDraft E F k patch upl admin) (\<lambda>_. versionsKept E w) (\<lambda>_. versionsKept E w) w"
    by (cases upl)
       (auto simp: patchDraft_def getVersion_def assertDraftMutable_def domainError_def wp_simps spreadPatch_id[OF patch]
         versions.refl split: option.split intro!: wp_pdf_store[OF out] save)
qed

lemma deleteDraft_kept: "keeps (versionsKept E w0) (deleteDraft E k admin)"
  by (rule versions.keeps_local)
     (auto simp: deleteDraft_def getVersion_def assertDraftMutable_def domainError_def wp_simps versions.refl split: option.split
       intro!: versionsKept_event versionsKept_delete)

subsection \<open>Retiring\<close>

text \<open>A predecessor is retired from the row that was read, whatever was written in between.\<close>

lemma retire_save_kept:
  assumes p: "p \<in> set (tvals (w_versions w))" "v_status p = PUBLISHED"
  shows "keeps (versionsKept E w) (versions_save (p\<lparr>v_status := RETIRED\<rparr>))"
proof (rule keepsI)
  fix w' assume kept: "versionsKept E w w'"
  let ?w = "w'\<lparr>w_versions := AList.update (v_id (p\<lparr>v_status := RETIRED\<rparr>)) (p\<lparr>v_status := RETIRED\<rparr>) (w_versions w')\<rparr>"
  have "versionsKept E w ?w"
  proof (cases "versionsInv E w")
    case True
    then have "map_of (w_versions w) (v_id p) = Some p"
      using p(1) tvals_map_of[of v_id "w_versions w" p] by (simp add: versionsInv_def)
    with kept True p(2) obtain r where r: "map_of (w_versions w') (v_id p) = Some r" "sameVersion p r"
      unfolding versionsKept_def frozen_def by force
    have "versionsKept E w' ?w"
      by (rule versionsKept_write[where v = "p\<lparr>v_status := RETIRED\<rparr>"])
         (use r map_of_keys[OF r(1)] in \<open>auto simp: sameVersion_def\<close>)
    with kept show ?thesis by (rule versions.trans)
  qed (simp add: versionsKept_def)
  with kept show "wp (versions_save (p\<lparr>v_status := RETIRED\<rparr>)) (\<lambda>_. versionsKept E w) (\<lambda>_. versionsKept E w) w'"
    by (simp add: wp_simps split: option.split)
qed

lemma publish_retire_kept: "keeps (versionsKept E w0) (publish_retire E admin document version)"
proof (rule versions.keeps_local)
  fix w
  have "keeps (versionsKept E w) (retirePredecessor E admin document blk p)"
    if "p \<in> set (tvals (w_versions w))" "v_status p = PUBLISHED" for blk p
    unfolding retirePredecessor_def
    by (intro keeps_then retire_save_kept that versionsKept_modifies[of "{StateArea, EventLog}"] modifies_intros) auto
  then have "keeps (versionsKept E w) (foldM (retirePredecessor E admin document) []
      (filter (\<lambda>v. v_id v \<noteq> v_id version \<and> v_status v = PUBLISHED)
        (filter (\<lambda>v. v_documentId v = d_id document) (tvals (w_versions w)))))"
    by (intro keeps_foldM) auto
  from keepsD[OF this versions.refl]
  show "wp (publish_retire E admin document version) (\<lambda>_. versionsKept E w) (\<lambda>_. versionsKept E w) w"
    by (simp add: publish_retire_def wp_bind versions_findByDocument_def wp_gets)
qed

definition publish_rollout ::
  "env \<Rightarrow> string \<Rightarrow> AgreementVersion \<Rightarrow> AgreementDocument \<Rightarrow> Date \<Rightarrow> PublishResult M" where
  "publish_rollout E admin version document publishedAt =
    bindM (if v_validFrom version \<le> publishedAt then publish_retire E admin document version else retM [])
      (\<lambda>blockingByCustomer.
    bindM (customers_findByRole (d_audience document)) (\<lambda>targets.
    thenM (forM targets (rolloutOne E admin document version publishedAt blockingByCustomer))
    (bindM (newId E ''audit'') (\<lambda>auditId.
    thenM (audit_append
      \<lparr>aud_id = auditId, aud_action = PUBLISH, aud_actor = admin,
       aud_targetType = ''AgreementVersion'', aud_targetId = v_id version, aud_reason = None,
       aud_metadata = Some (publishMeta document (length targets)), aud_createdAt = publishedAt\<rparr>)
    (thenM (recordEvent E (publishedEvent admin document version (length targets)))
    (retM \<lparr>pr_versionId = v_id version, pr_rolloutCustomers = length targets,
           pr_publishedAt = publishedAt\<rparr>))))))"

lemma publish_split:
  "publish E k admin =
    bindM (bindM (versions_findById k) (requireD VERSION_NOT_FOUND)) (\<lambda>version.
    thenM (liftR (validateForPublish version))
    (bindM (bindM (documents_findById (v_documentId version)) (requireD INVALID_STATE)) (\<lambda>document.
    bindM clock_now (\<lambda>publishedAt.
    thenM (versions_save (version\<lparr>v_status := PUBLISHED, v_publishedAt := Some publishedAt,
                                  v_publishedBy := Some admin\<rparr>))
    (publish_rollout E admin version document publishedAt)))))"
  by (simp add: publish_def publish_rollout_def Let_def)

lemma publish_rollout_kept: "keeps (versionsKept E w0) (publish_rollout E admin version document at)"
  unfolding publish_rollout_def
  by (intro keeps_bind keeps_if publish_retire_kept versionsKept_modifies[of "{StateArea, AuditLog, EventLog}"])
     (auto simp: rolloutOne_def Let_def intro!: modifies_intros)

lemma validate_draft: "validateForPublish v = Inr u \<Longrightarrow> v_status v = DRAFT"
  by (auto simp: validateForPublish_def assertDraftMutable_def bindR_eq_Inr domainError_def split: if_splits)

lemma publish_kept: "keeps (versionsKept E w0) (publish E k admin)"
proof (rule versions.keeps_local)
  fix w
  have "wp (publish_rollout E admin v d at) (\<lambda>_. versionsKept E w) (\<lambda>_. versionsKept E w)
      (w\<lparr>w_versions := AList.update (v_id v) (v\<lparr>v_status := PUBLISHED, v_publishedAt := pa, v_publishedBy := pb\<rparr>)
        (w_versions w)\<rparr>)"
    if "map_of (w_versions w) k = Some v" "validateForPublish v = Inr u" for v d at pa pb u
    using keepsD[OF publish_rollout_kept versionsKept_draft[OF that(1) validate_draft[OF that(2)],
        of "v\<lparr>v_status := PUBLISHED, v_publishedAt := pa, v_publishedBy := pb\<rparr>"]]
    by simp
  then show "wp (publish E k admin) (\<lambda>_. versionsKept E w) (\<lambda>_. versionsKept E w) w"
    by (auto simp: publish_split wp_simps versions.refl split: option.split sum.split)
qed

lemma activateOne_kept: "keeps (versionsKept E w0) (activateOne E document)"
proof (rule versions.keeps_local)
  fix w
  have one: "keeps (versionsKept E w) (activatePredecessor E document current p)"
    if "p \<in> set (tvals (w_versions w))" "v_status p = PUBLISHED" for current p
    unfolding activatePredecessor_def carryBlockOver_def recordBlockCarriedOver_def Let_def
    by (intro keeps_then retire_save_kept that versionsKept_modifies[of "{StateArea, EventLog}"] modifies_intros) auto
  have loop: "wp (forM ps (activatePredecessor E document current)) (\<lambda>_. versionsKept E w) (\<lambda>_. versionsKept E w) w'"
    if "versionsKept E w w'" "\<And>p. p \<in> set ps \<Longrightarrow> p \<in> set (tvals (w_versions w)) \<and> v_status p = PUBLISHED"
    for ps current w'
    using that by (intro keepsD[where I = "versionsKept E w"] keeps_forM one) auto
  show "wp (activateOne E document) (\<lambda>_. versionsKept E w) (\<lambda>_. versionsKept E w) w"
    by (auto simp: activateOne_def wp_simps versions.refl split: option.split intro!: loop versionsKept_event)
qed

subsection \<open>The system\<close>

text \<open>The patch of a draft that names another id.\<close>

fun renames :: "command \<Rightarrow> bool" where
  "renames (VersionPatch k body upload admin) \<longleftrightarrow> setsId (pvb_rest body)"
| "renames _ \<longleftrightarrow> False"

lemma buildPatch_id: "buildPatch toN body = Inr patch \<Longrightarrow> \<not> setsId (pvb_rest body) \<Longrightarrow> \<not> setsId patch"
  by (auto simp: buildPatch_def bindR_eq_Inr setsId_def split: option.splits if_splits)

lemma patchVersion_kept:
  assumes "filesOutside F" "\<not> setsId (pvb_rest body)"
  shows "keeps (versionsKept E w0) (controller_patchVersion E F toN fromB k body upload admin)"
proof (cases "buildPatch toN body")
  case (Inr patch)
  with patchDraft_kept[OF assms(1) buildPatch_id[OF Inr assms(2)]] show ?thesis
    by (simp add: controller_patchVersion_def keeps_def liftR_def bindM_def)
qed (simp add: controller_patchVersion_def keeps_def liftR_def bindM_def)

lemma keeps_ignore [keeps_intros]: "keeps I m \<Longrightarrow> keeps I (ignore m)"
  unfolding ignore_def by (intro keeps_intros)

lemma perform_kept:
  assumes wired: "wired S" and c: "\<not> renames c"
  shows "keeps (versionsKept (sv_env S) w0) (perform S c)"
proof (cases "VersionArea \<in> footprint c")
  case True
  have good: "goodIds (sv_env S)" and out: "filesOutside (sv_files S)" using wired by (simp_all add: wired_def)
  have create: "keeps (versionsKept (sv_env S) w0)
      (controller_createVersion (sv_env S) (sv_files S) toN fromB k body upload admin)" for toN fromB k body upload admin
    unfolding controller_createVersion_def by (intro keeps_intros createDraft_kept good out)
  have jobs: "keeps (versionsKept (sv_env S) w0) (sweeper_job (sv_env S) (confirmationMails S))"
    unfolding sweeper_job_def activation_run_def documents_findAll_def
    by (intro keeps_intros activateOne_kept versionsKept_modifies[of "insert StateArea (insert AcceptanceLog mailAreas)"]
        modifies_intros wired) auto
  show ?thesis
    using True c
    by (cases c) (auto intro!: keeps_ignore create jobs patchVersion_kept out deleteDraft_kept publish_kept)
qed (rule versionsKept_modifies[OF perform_modifies[OF wired]])

text \<open>C9: A published version is immutable.  As long as no request names the id of a version in the generic
  patch of a draft, a version that is not a draft is never deleted and none of its fields ever changes
  (document, texts, file, hash, dates, mode, publisher), except that its status may become RETIRED, and
  stays so: what a customer accepted is what the database will always show.\<close>

theorem published_version_immutable:
  assumes "wired S" and inv: "versionsInv (sv_env S) w" and run: "runs S (\<lambda>c. \<not> renames c) w w'"
    and v: "map_of (w_versions w) k = Some v" "v_status v \<noteq> DRAFT"
  shows "map_of (w_versions w') k = Some v \<or> map_of (w_versions w') k = Some (v\<lparr>v_status := RETIRED\<rparr>)"
proof -
  have "versionsKept (sv_env S) w w'"
    by (rule versions.along_runs[OF run])
       (simp_all add: versions.from_keeps perform_kept[OF assms(1)] versionsKept_same)
  with inv v show ?thesis
    by (auto simp: versionsKept_def frozen_def sameVersion_def dest: spec2[of _ k v])
qed

text \<open>The hypothesis is an invariant of these runs.\<close>

lemma versionsInv_reach:
  assumes "wired S" "reach S (\<lambda>c. \<not> renames c) w"
  shows "versionsInv (sv_env S) w"
proof (rule reach_invariant[OF assms(2)])
  show "keeps (versionsInv (sv_env S)) (perform S c)" if "\<not> renames c" for c
    using versions.from_keeps[OF perform_kept[OF assms(1) that]] by (auto simp: keeps_def versionsKept_def)
  show "versionsInv (sv_env S) (w\<lparr>w_now := t\<rparr>)" if "versionsInv (sv_env S) w" for w t
    using that by (simp add: versionsInv_def)
qed (simp add: versionsInv_def emptyWorld_def)

definition frozen_ver_ex :: AgreementVersion where
  "frozen_ver_ex = ver_ex\<lparr>v_id := ''v-00000000'', v_documentId := ''d'', v_status := PUBLISHED\<rparr>"

definition frozen_world_ex :: world where
  "frozen_world_ex = (emptyWorld 100)\<lparr>w_uuid := 1, w_documents := [(''d'', doc_ex)],
     w_versions := [(''v-00000000'', frozen_ver_ex)]\<rparr>"

lemma published_version_immutable_witness:
  "\<exists>v. map_of (w_versions (snd (perform services_ex (VersionDelete ''v-00000000'' ''admin'') frozen_world_ex)))
     ''v-00000000'' = Some v \<and> v_fileName v = v_fileName frozen_ver_ex"
proof -
  have "runs services_ex (\<lambda>c. \<not> renames c) frozen_world_ex
      (snd (perform services_ex (VersionDelete ''v-00000000'' ''admin'') frozen_world_ex))"
    by (rule r_into_rtranclp) (rule step.request, simp)
  moreover have "versionsInv (sv_env services_ex) frozen_world_ex"
    by (simp add: versionsInv_def frozen_world_ex_def emptyWorld_def wf_table_def frozen_ver_ex_def drawnIds_def
        services_ex_def env_ex_def)
  ultimately have "map_of (w_versions (snd (perform services_ex (VersionDelete ''v-00000000'' ''admin'') frozen_world_ex)))
      ''v-00000000'' \<in> {Some frozen_ver_ex, Some (frozen_ver_ex\<lparr>v_status := RETIRED\<rparr>)}"
    using published_version_immutable[OF wired_ex, of frozen_world_ex _ "''v-00000000''" frozen_ver_ex]
    by (simp add: frozen_world_ex_def emptyWorld_def frozen_ver_ex_def)
  then show ?thesis by auto
qed

text \<open>C10: What goes wrong with the id.  The generic patch of a draft spreads every property of the body,
  the id included, into the version and stores the result under that id: with the id of any other version,
  a published one included, the request succeeds and the other version is overwritten by a draft.\<close>

theorem patch_overwrites_version:
  assumes "map_of (w_versions w) k = Some draft" "v_status draft = DRAFT"
    and "map_of (w_documents w) (v_documentId draft) = Some d"
    and "pvb_rest body = [FId other]" "pvb_validFrom body = None" "pvb_objectionPeriodDays body = NumAbsent"
    and "pvb_gracePeriodDays body = NumAbsent" "pvb_hardDeadlineAt body = None" "pvb_file body = None"
  shows "case controller_patchVersion E F toNumber fromBase64 k body None admin w of
    (r, w') \<Rightarrow> r = Inr (draft\<lparr>v_id := other\<rparr>) \<and> map_of (w_versions w') other = Some (draft\<lparr>v_id := other\<rparr>)"
proof -
  have patch: "buildPatch toNumber body = Inr [FId other]" using assms by (simp add: buildPatch_def)
  have upload: "resolveUpload fromBase64 None (pvb_file body) (pvb_fileName body) = None"
    using assms by (simp add: resolveUpload_def)
  have "wp (controller_patchVersion E F toNumber fromBase64 k body None admin)
      (\<lambda>r w'. r = draft\<lparr>v_id := other\<rparr> \<and> map_of (w_versions w') other = Some (draft\<lparr>v_id := other\<rparr>)) (\<lambda>_ _. False) w"
    using assms(1-3)
    by (simp add: controller_patchVersion_def patch upload patchDraft_def getVersion_def assertDraftMutable_def
        spreadPatch_def wp_simps table_simps)
  then show ?thesis by (auto simp: wp_def split: prod.splits sum.splits)
qed

definition patch_world_ex :: world where
  "patch_world_ex = (emptyWorld 100)\<lparr>w_documents := [(''d'', doc_ex)],
     w_versions := [(''v'', ver_ex), (''v2'', ver_ex\<lparr>v_id := ''v2'', v_status := DRAFT, v_fileName := ''new''\<rparr>)]\<rparr>"

definition patch_body_ex :: PatchVersionBody where
  "patch_body_ex = \<lparr>pvb_rest = [FId ''v''], pvb_validFrom = None, pvb_objectionPeriodDays = NumAbsent,
     pvb_gracePeriodDays = NumAbsent, pvb_hardDeadlineAt = None, pvb_file = None, pvb_fileName = None\<rparr>"

text \<open>The published version \<open>v\<close> is gone, its file is the one of the draft.\<close>

lemma patch_overwrites_version_witness:
  "v_status ver_ex = PUBLISHED \<and> v_fileName ver_ex = ''f''
   \<and> (\<exists>v. map_of (w_versions (snd (controller_patchVersion env_ex (sv_files services_ex) (\<lambda>_. None) (\<lambda>s. s) ''v2''
         patch_body_ex None ''admin'' patch_world_ex))) ''v'' = Some v \<and> v_status v = DRAFT \<and> v_fileName v = ''new'')"
  using patch_overwrites_version[of patch_world_ex "''v2''" "ver_ex\<lparr>v_id := ''v2'', v_status := DRAFT, v_fileName := ''new''\<rparr>"
      doc_ex patch_body_ex "''v''" env_ex "sv_files services_ex" "\<lambda>_. None" "\<lambda>s. s" "''admin''"]
  by (simp add: patch_world_ex_def patch_body_ex_def emptyWorld_def ver_ex_def split: prod.splits)

end
