(* ===== verification/Ledger.thy ===== *)
theory Ledger
  imports History_Facts Activation_Facts
begin

text \<open>
  The ledger of the rollout states: what every operation keeps of the table of the states, of the
  acceptances and of the rows they point to.  A relation \<open>kept A\<close> between the worlds before and after an
  action says that the invariant is kept, that no row of a state, no customer and no published version
  disappears and, unless \<open>A\<close>, that no state becomes ACCEPTED.  It composes (it is a \<open>history\<close>), so a
  service has it when each of its writes has it.
\<close>

section \<open>The invariant\<close>

abbreviation found :: "world \<Rightarrow> string \<Rightarrow> string \<Rightarrow> CustomerVersionState option" where
  "found w c v \<equiv> stateFor (tvals (w_states w)) c v"

definition outOfDraft :: "world \<Rightarrow> string \<Rightarrow> bool" where
  "outOfDraft w k \<longleftrightarrow> (\<exists>v. map_of (w_versions w) k = Some v \<and> v_status v \<noteq> DRAFT)"

text \<open>
  A row is the one the services find for its pair of customer and version, or that one is ACCEPTED: a
  manual acceptance of a draft stands before the row of the later rollout.  Its version has left the
  draft, the same exception apart.  Its customer exists.
\<close>

definition rowOk :: "world \<Rightarrow> CustomerVersionState \<Rightarrow> bool" where
  "rowOk w s \<longleftrightarrow> (let f = found w (cvs_customerId s) (cvs_versionId s) in
     (f = Some s \<or> accepted f) \<and> (outOfDraft w (cvs_versionId s) \<or> accepted f)
     \<and> cvs_customerId s \<in> fst ` set (w_customers w))"

definition ledgerInv :: "env \<Rightarrow> world \<Rightarrow> bool" where
  "ledgerInv E w \<longleftrightarrow> consentInv E w \<and> versionsInv E w
     \<and> wf_table c_id (w_customers w) \<and> fst ` set (w_customers w) \<subseteq> drawnIds E [''c-''] (w_uuid w)
     \<and> (\<forall>s \<in> set (tvals (w_states w)). rowOk w s)"

lemma ledgerInvD:
  assumes "ledgerInv E w"
  shows "consentInv E w" "versionsInv E w" "wf_table cvs_id (w_states w)" "wf_table c_id (w_customers w)"
    "fst ` set (w_customers w) \<subseteq> drawnIds E [''c-''] (w_uuid w)"
    "s \<in> set (tvals (w_states w)) \<Longrightarrow> rowOk w s"
    "map_of (w_states w) k = Some s \<Longrightarrow> s \<in> set (tvals (w_states w)) \<and> cvs_id s = k"
  using assms tvals_lookup[of cvs_id "w_states w" k s] wf_table_key[of cvs_id "w_states w" k s]
  by (simp_all add: ledgerInv_def consentInv_def)

lemma effective_accepted:
  assumes "consentInv E w"
  shows "effectiveFor (w_acceptances w) c v \<noteq> None \<longleftrightarrow> accepted (found w c v)"
proof
  assume "accepted (found w c v)"
  then obtain s where s: "found w c v = Some s" "cvs_state s = ACCEPTED" by (auto simp: accepted_def)
  from stateFor_SomeD[OF s(1)] s(2) assms show "effectiveFor (w_acceptances w) c v \<noteq> None"
    unfolding consentInv_def by blast
qed (use assms in \<open>unfold consentInv_def, blast\<close>)

section \<open>The relation\<close>

definition rowsKept :: "bool \<Rightarrow> world \<Rightarrow> world \<Rightarrow> bool" where
  "rowsKept A w w' \<longleftrightarrow> (\<forall>k s. map_of (w_states w) k = Some s \<longrightarrow>
     (\<exists>s'. map_of (w_states w') k = Some s' \<and> samePair s s'
        \<and> (cvs_state s = ACCEPTED \<longrightarrow> cvs_state s' = ACCEPTED)
        \<and> (\<not> A \<longrightarrow> cvs_state s' = ACCEPTED \<longrightarrow> cvs_state s = ACCEPTED)))"

definition kept :: "bool \<Rightarrow> env \<Rightarrow> world \<Rightarrow> world \<Rightarrow> bool" where
  "kept A E w w' \<longleftrightarrow> (ledgerInv E w \<longrightarrow> ledgerInv E w' \<and> frozen w w'
     \<and> fst ` set (w_customers w) \<subseteq> fst ` set (w_customers w') \<and> rowsKept A w w')"

lemma samePair_trans: "samePair s s' \<Longrightarrow> samePair s' s'' \<Longrightarrow> samePair s s''"
  by (simp add: samePair_def)

lemma rowsKept_refl: "rowsKept A w w"
  by (auto simp: rowsKept_def samePair_def)

lemma rowsKept_trans:
  assumes "rowsKept A w w'" "rowsKept A w' w''"
  shows "rowsKept A w w''"
  unfolding rowsKept_def
proof (intro allI impI)
  fix k s assume "map_of (w_states w) k = Some s"
  with assms(1) obtain s' where s': "map_of (w_states w') k = Some s'" "samePair s s'"
      "cvs_state s = ACCEPTED \<longrightarrow> cvs_state s' = ACCEPTED" "\<not> A \<longrightarrow> cvs_state s' = ACCEPTED \<longrightarrow> cvs_state s = ACCEPTED"
    unfolding rowsKept_def by blast
  from assms(2) s'(1) obtain s'' where "map_of (w_states w'') k = Some s''" "samePair s' s''"
      "cvs_state s' = ACCEPTED \<longrightarrow> cvs_state s'' = ACCEPTED" "\<not> A \<longrightarrow> cvs_state s'' = ACCEPTED \<longrightarrow> cvs_state s' = ACCEPTED"
    unfolding rowsKept_def by blast
  with s' samePair_trans show "\<exists>s'. map_of (w_states w'') k = Some s' \<and> samePair s s'
        \<and> (cvs_state s = ACCEPTED \<longrightarrow> cvs_state s' = ACCEPTED)
        \<and> (\<not> A \<longrightarrow> cvs_state s' = ACCEPTED \<longrightarrow> cvs_state s = ACCEPTED)" by blast
qed

interpretation ledger: history "kept A E" for A E
proof unfold_locales
  show "kept A E w w" for w by (simp add: kept_def frozen_refl rowsKept_refl)
  show "kept A E w w'' " if "kept A E w w'" "kept A E w' w''" for w w' w''
    using that by (auto simp: kept_def intro: frozen_trans rowsKept_trans)
qed

lemma kept_weaken: "kept False E w w' \<Longrightarrow> kept A E w w'"
  unfolding kept_def rowsKept_def by blast

lemma keeps_weaken: "(\<And>w0. keeps (kept False E w0) m) \<Longrightarrow> keeps (kept A E w0) m"
  by (rule ledger.keeps_local) (blast intro: wp_mono[OF ledger.wp_from] kept_weaken)

section \<open>The writes\<close>

lemma outOfDraft_kept: "frozen w w' \<Longrightarrow> outOfDraft w k \<Longrightarrow> outOfDraft w' k"
  unfolding outOfDraft_def frozen_def by (blast dest: sameVersion_published)

text \<open>The states and the acceptances are as before.\<close>

lemma kept_outer:
  assumes same: "w_states w' = w_states w" "w_acceptances w' = w_acceptances w" "w_uuid w \<le> w_uuid w'"
    and vs: "versionsKept E w w'"
    and cs: "ledgerInv E w \<Longrightarrow> wf_table c_id (w_customers w')
       \<and> fst ` set (w_customers w') \<subseteq> drawnIds E [''c-''] (w_uuid w')
       \<and> fst ` set (w_customers w) \<subseteq> fst ` set (w_customers w')"
  shows "kept A E w w'"
  unfolding kept_def
proof
  assume inv: "ledgerInv E w"
  have "consentInv E w'" by (rule consentInv_frame[OF ledgerInvD(1)[OF inv] same])
  moreover have fr: "versionsInv E w'" "frozen w w'"
    using vs ledgerInvD(2)[OF inv] by (simp_all add: versionsKept_def)
  moreover have "rowOk w' s" if "s \<in> set (tvals (w_states w'))" for s
    using ledgerInvD(6)[OF inv, of s] that cs[OF inv] outOfDraft_kept[OF fr(2)]
    by (auto simp: rowOk_def same Let_def)
  moreover have "rowsKept A w w'" by (simp add: rowsKept_def same samePair_def)
  ultimately show "ledgerInv E w' \<and> frozen w w' \<and> fst ` set (w_customers w) \<subseteq> fst ` set (w_customers w')
      \<and> rowsKept A w w'"
    using cs[OF inv] by (simp add: ledgerInv_def)
qed

lemma kept_versions:
  assumes "w_states w' = w_states w" "w_acceptances w' = w_acceptances w" "w_customers w' = w_customers w"
    and "w_uuid w \<le> w_uuid w'" "versionsKept E w w'"
  shows "kept A E w w'"
  by (rule kept_outer)
     (use assms in \<open>auto simp: ledgerInv_def intro: drawn_Suc[THEN subsetD]\<close>)

lemma kept_frame:
  assumes "w_states w' = w_states w" "w_acceptances w' = w_acceptances w" "w_customers w' = w_customers w"
    and "w_uuid w \<le> w_uuid w'" "w_versions w' = w_versions w"
  shows "kept A E w w'"
  by (rule kept_versions) (use assms in \<open>simp_all add: versionsKept_same\<close>)

definition ledgerAreas :: "area set" where
  "ledgerAreas = {StateArea, AcceptanceLog, VersionArea, CustomerArea}"

lemma kept_modifies: "modifies T m \<Longrightarrow> T \<inter> ledgerAreas = {} \<Longrightarrow> keeps (kept A E w0) m"
proof (rule ledger.keeps_local)
  fix w assume m: "modifies T m" "T \<inter> ledgerAreas = {}"
  have "agree t w (snd (m w))" if "t \<in> ledgerAreas" for t
    using modifies_area[OF m(1), of t w] m(2) that by blast
  from this[of StateArea] this[of AcceptanceLog] this[of VersionArea] this[of CustomerArea]
    modifies_area[OF m(1), of StateArea w] m(2)
  have "kept A E w (snd (m w))" by (intro kept_frame) (auto simp: ledgerAreas_def)
  then show "wp m (\<lambda>_. kept A E w) (\<lambda>_. kept A E w) w" by (simp add: wp_snd)
qed

text \<open>Replacing a row, and adding one: what is found for a pair.\<close>

lemma rowOk_mono:
  assumes ok: "rowOk w s" and pair: "samePair s s'"
    and "outOfDraft w (cvs_versionId s) \<Longrightarrow> outOfDraft w' (cvs_versionId s)"
    and sub: "fst ` set (w_customers w) \<subseteq> fst ` set (w_customers w')"
    and "found w (cvs_customerId s) (cvs_versionId s) = Some s \<Longrightarrow>
      found w' (cvs_customerId s) (cvs_versionId s) = Some s'"
    and "accepted (found w (cvs_customerId s) (cvs_versionId s)) \<Longrightarrow>
      accepted (found w' (cvs_customerId s) (cvs_versionId s))"
  shows "rowOk w' s'"
proof -
  have "cvs_customerId s \<in> fst ` set (w_customers w')" using ok sub unfolding rowOk_def Let_def by blast
  with assms show ?thesis by (simp add: rowOk_def Let_def samePair_def) blast
qed

lemma kept_update:
  assumes row: "map_of (w_states w) (cvs_id s) = Some s" "samePair s s'"
    and acc: "cvs_state s = ACCEPTED \<Longrightarrow> cvs_state s' = ACCEPTED"
      "\<not> A \<Longrightarrow> cvs_state s' = ACCEPTED \<Longrightarrow> cvs_state s = ACCEPTED"
    and cons: "ledgerInv E w \<Longrightarrow> consentInv E w'"
    and w': "w_states w' = AList.update (cvs_id s) s' (w_states w)"
      "w_customers w' = w_customers w" "w_versions w' = w_versions w" "w_uuid w \<le> w_uuid w'"
  shows "kept A E w w'"
  unfolding kept_def
proof
  assume inv: "ledgerInv E w"
  note D = ledgerInvD[OF inv]
  have look: "found w' c v = (case found w c v of None \<Rightarrow> None
      | Some x \<Rightarrow> if cvs_id x = cvs_id s then Some s' else Some x)" for c v
    using stateFor_update_wf[OF D(3) row] by (simp add: w')
  have still: "accepted (found w' c v)" if "accepted (found w c v)" for c v
  proof -
    from that obtain x where x: "found w c v = Some x" "cvs_state x = ACCEPTED" by (auto simp: accepted_def)
    show ?thesis
    proof (cases "cvs_id x = cvs_id s")
      case True
      have "map_of (w_states w) (cvs_id x) = Some x" by (rule stateFor_stored[OF D(3) x(1)])
      then have "Some x = Some s" unfolding True row(1) by (rule sym)
      then have "cvs_state s' = ACCEPTED" using x(2) acc(1) by blast
      with True x(1) show ?thesis by (simp add: look accepted_def)
    qed (use x in \<open>simp add: look accepted_def\<close>)
  qed
  have vs: "versionsInv E w'" "frozen w w'"
    using versionsKept_same[OF w'(3,4)] D(2) by (simp_all add: versionsKept_def)
  moreover have "rowOk w' u'" if u': "u' \<in> set (tvals (w_states w'))" for u'
  proof -
    have "u' = s' \<or> u' \<in> set (tvals (w_states w)) \<and> cvs_id u' \<noteq> cvs_id s"
      using u' row(2) tvals_update[OF D(3), of s' "cvs_id s"] by (auto simp: w' samePair_def)
    then obtain u where u: "u \<in> set (tvals (w_states w))" "samePair u u'"
        "u' = (if cvs_id u = cvs_id s then s' else u)"
      using row D(7)[OF row(1)] by (auto simp: samePair_def)
    show ?thesis
      by (rule rowOk_mono[OF D(6)[OF u(1)] u(2)])
         (use still u(3) outOfDraft_kept[OF vs(2)] in \<open>auto simp: look w'(2)\<close>)
  qed
  moreover have "rowsKept A w w'"
    unfolding rowsKept_def
  proof (intro allI impI)
    fix k x assume x: "map_of (w_states w) k = Some x"
    then have "k = cvs_id s \<Longrightarrow> x = s" using row(1) by simp
    with x acc row(2) show "\<exists>x'. map_of (w_states w') k = Some x' \<and> samePair x x'
        \<and> (cvs_state x = ACCEPTED \<longrightarrow> cvs_state x' = ACCEPTED)
        \<and> (\<not> A \<longrightarrow> cvs_state x' = ACCEPTED \<longrightarrow> cvs_state x = ACCEPTED)"
      by (cases "k = cvs_id s") (auto simp: w' map_of_update samePair_def)
  qed
  ultimately show "ledgerInv E w' \<and> frozen w w' \<and> fst ` set (w_customers w) \<subseteq> fst ` set (w_customers w')
      \<and> rowsKept A w w'"
    using D(4,5) drawn_Suc[OF D(5) w'(4)] cons[OF inv] by (simp add: ledgerInv_def w'(2))
qed

text \<open>A row that does not become ACCEPTED, unless its pair is.\<close>

lemma kept_row:
  assumes row: "map_of (w_states w) (cvs_id s) = Some s" "samePair s s'"
    and acc: "cvs_state s = ACCEPTED \<Longrightarrow> cvs_state s' = ACCEPTED"
      "cvs_state s' = ACCEPTED \<Longrightarrow> cvs_state s = ACCEPTED \<or> A \<and> accepted (found w (cvs_customerId s) (cvs_versionId s))"
    and w': "w_states w' = AList.update (cvs_id s) s' (w_states w)" "w_acceptances w' = w_acceptances w"
      "w_customers w' = w_customers w" "w_versions w' = w_versions w" "w_uuid w \<le> w_uuid w'"
  shows "kept A E w w'"
proof (rule kept_update[OF row acc(1)])
  show "consentInv E w'" if "ledgerInv E w"
    by (rule consentInv_update[OF ledgerInvD(1)[OF that] row acc(1) _ w'(1,2,5)])
       (use acc(2) effective_accepted[OF ledgerInvD(1)[OF that]] in blast)+
qed (use acc w' in auto)

text \<open>The row that is found for the pair is accepted, with its evidence.\<close>

lemma kept_accept_row:
  assumes s: "ledgerInv E w \<Longrightarrow> found w (a_customerId a) (a_versionId a) = Some s \<and> cvs_state s \<noteq> ACCEPTED"
    and row: "map_of (w_states w) (cvs_id s) = Some s"
    and a: "a_isEffective a" "ledgerInv E w \<Longrightarrow> map_of (w_acceptances w) (a_id a) = None"
      "a_id a \<in> drawnIds E [''a-'', []] (w_uuid w')"
    and w': "w_states w' = AList.update (cvs_id s) (s\<lparr>cvs_state := ACCEPTED\<rparr>) (w_states w)"
      "w_acceptances w' = AList.update (a_id a) a (w_acceptances w)"
      "w_customers w' = w_customers w" "w_versions w' = w_versions w" "w_uuid w \<le> w_uuid w'"
  shows "kept True E w w'"
proof (rule kept_update[OF row, where s' = "s\<lparr>cvs_state := ACCEPTED\<rparr>"])
  show "consentInv E w'" if inv: "ledgerInv E w"
  proof -
    have "effectiveFor (w_acceptances w) (a_customerId a) (a_versionId a) = None"
      using effective_accepted[OF ledgerInvD(1)[OF inv], of "a_customerId a" "a_versionId a"] s[OF inv]
      by (simp add: accepted_def)
    with consentInv_accept_row[OF ledgerInvD(1)[OF inv], of a s w'] s[OF inv] a(1,3) a(2)[OF inv] w'
    show ?thesis by blast
  qed
qed (use w' in \<open>simp_all add: samePair_def\<close>)

text \<open>A new row.\<close>

lemma kept_append:
  assumes good: "goodIds E"
    and s: "cvs_id s = ''cvs-'' @ e_uuid E (w_uuid w)" "cvs_customerId s \<in> fst ` set (w_customers w)"
    and free: "ledgerInv E w \<Longrightarrow> accepted (found w (cvs_customerId s) (cvs_versionId s))
       \<or> found w (cvs_customerId s) (cvs_versionId s) = None \<and> (outOfDraft w (cvs_versionId s) \<or> cvs_state s = ACCEPTED)"
    and cons: "ledgerInv E w \<Longrightarrow> map_of (w_states w) (cvs_id s) = None \<Longrightarrow> consentInv E w'"
    and w': "w_states w' = AList.update (cvs_id s) s (w_states w)"
      "w_customers w' = w_customers w" "w_versions w' = w_versions w" "w_uuid w < w_uuid w'"
  shows "kept A E w w'"
  unfolding kept_def
proof
  assume inv: "ledgerInv E w"
  note D = ledgerInvD[OF inv] and free = free[OF inv]
  have le: "w_uuid w \<le> w_uuid w'" using w'(4) by simp
  have fresh: "map_of (w_states w) (cvs_id s) = None"
    using fresh_cvs[OF good, of "w_states w" "w_uuid w"] D(1) s by (simp add: consentInv_def)
  have look: "found w' c v = (case found w c v of Some x \<Rightarrow> Some x
      | None \<Rightarrow> if cvs_customerId s = c \<and> cvs_versionId s = v then Some s else None)" for c v
    by (simp add: w' tvals_update_fresh[OF fresh] stateFor_append)
  have still: "accepted (found w' c v)" if "accepted (found w c v)" for c v
    using that by (auto simp: accepted_def look)
  have vs: "versionsInv E w'" "frozen w w'"
    using versionsKept_same[OF w'(3) le] D(2) by (simp_all add: versionsKept_def)
  moreover have "rowOk w' u" if u: "u \<in> set (tvals (w_states w'))" for u
  proof (cases "u = s")
    case True
    from free have "found w' (cvs_customerId s) (cvs_versionId s) = Some s
          \<and> (outOfDraft w' (cvs_versionId s) \<or> cvs_state s = ACCEPTED)
        \<or> accepted (found w' (cvs_customerId s) (cvs_versionId s))"
    proof
      assume "found w (cvs_customerId s) (cvs_versionId s) = None
        \<and> (outOfDraft w (cvs_versionId s) \<or> cvs_state s = ACCEPTED)"
      with outOfDraft_kept[OF vs(2), of "cvs_versionId s"] look[of "cvs_customerId s" "cvs_versionId s"]
      show ?thesis by auto
    qed (use still in blast)
    then show ?thesis using s(2) True by (auto simp: rowOk_def Let_def w'(2) accepted_def)
  next
    case False
    with u have "u \<in> set (tvals (w_states w))" by (simp add: w' tvals_update_fresh[OF fresh])
    from D(6)[OF this] show ?thesis
      by (rule rowOk_mono) (use still outOfDraft_kept[OF vs(2)] in \<open>auto simp: look w'(2) samePair_def\<close>)
  qed
  moreover have "rowsKept A w w'"
    using fresh by (auto simp: rowsKept_def w'(1) map_of_update samePair_def)
  ultimately show "ledgerInv E w' \<and> frozen w w' \<and> fst ` set (w_customers w) \<subseteq> fst ` set (w_customers w')
      \<and> rowsKept A w w'"
    using D(4,5) drawn_Suc[OF D(5) le] cons[OF inv fresh] by (simp add: ledgerInv_def w'(2))
qed

lemma kept_insert:
  assumes good: "goodIds E"
    and s: "cvs_id s = ''cvs-'' @ e_uuid E (w_uuid w)" "cvs_customerId s \<in> fst ` set (w_customers w)"
    and free: "ledgerInv E w \<Longrightarrow> accepted (found w (cvs_customerId s) (cvs_versionId s))
       \<or> found w (cvs_customerId s) (cvs_versionId s) = None \<and> outOfDraft w (cvs_versionId s) \<and> cvs_state s \<noteq> ACCEPTED"
    and w': "w_states w' = AList.update (cvs_id s) s (w_states w)" "w_acceptances w' = w_acceptances w"
      "w_customers w' = w_customers w" "w_versions w' = w_versions w" "w_uuid w < w_uuid w'"
  shows "kept A E w w'"
proof (rule kept_append[OF good s])
  show "consentInv E w'" if "ledgerInv E w"
    by (rule consentInv_insert[OF good ledgerInvD(1)[OF that] s(1) _ w'(1,2,5)])
       (use free[OF that] effective_accepted[OF ledgerInvD(1)[OF that]] in blast)
qed (use free w' in blast)+

text \<open>A new row that is accepted with its evidence.\<close>

lemma kept_accept_new:
  assumes good: "goodIds E"
    and s: "cvs_id s = ''cvs-'' @ e_uuid E (w_uuid w)" "cvs_customerId s \<in> fst ` set (w_customers w)"
      "cvs_state s = ACCEPTED"
    and none: "ledgerInv E w \<Longrightarrow> found w (cvs_customerId s) (cvs_versionId s) = None"
    and a: "a_isEffective a" "ledgerInv E w \<Longrightarrow> map_of (w_acceptances w) (a_id a) = None"
      "a_id a \<in> drawnIds E [''a-'', []] (w_uuid w')"
      "a_customerId a = cvs_customerId s" "a_versionId a = cvs_versionId s"
    and w': "w_states w' = AList.update (cvs_id s) s (w_states w)"
      "w_acceptances w' = AList.update (a_id a) a (w_acceptances w)"
      "w_customers w' = w_customers w" "w_versions w' = w_versions w" "w_uuid w < w_uuid w'"
  shows "kept A E w w'"
proof (rule kept_append[OF good s(1,2)])
  assume inv: "ledgerInv E w" and fresh: "map_of (w_states w) (cvs_id s) = None"
  note D = ledgerInvD[OF inv]
  have sv: "tvals (w_states w') = tvals (w_states w) @ [s]" by (simp add: w'(1) tvals_update_fresh[OF fresh])
  have "consentInv E w' \<and> effectiveFor (w_acceptances w') (a_customerId a) (a_versionId a) = Some a"
  proof (rule consentInv_accept[OF D(1)])
    show "wf_table cvs_id (w_states w')" using D(3) by (simp add: w'(1) wf_table_update)
    show "fst ` set (w_states w') \<subseteq> drawnIds E [''cvs-''] (w_uuid w')"
      using D(1) w'(5) drawn_Suc[of "w_states w" E "[''cvs-'']" "w_uuid w" "w_uuid w'"]
        drawn_new[of "''cvs-''" "[''cvs-'']" "w_uuid w" "w_uuid w'" E]
      by (simp add: consentInv_def keys_update w'(1) s(1))
    show "accepted (stateFor (tvals (w_states w')) (a_customerId a) (a_versionId a))"
      using none[OF inv] by (simp add: sv stateFor_append a accepted_def s(3))
    show "\<And>c v. accepted (found w c v) \<Longrightarrow> accepted (found w' c v)"
      by (auto simp: sv stateFor_append accepted_def)
    show "effectiveFor (w_acceptances w) (a_customerId a) (a_versionId a) = None"
      using effective_accepted[OF D(1), of "cvs_customerId s" "cvs_versionId s"] none[OF inv]
      by (simp add: a accepted_def)
  qed (use a a(2)[OF inv] w' sv in auto)
  then show "consentInv E w'" by simp
qed (use none s w' in auto)

end
