(* ===== verification/Ledger_Ops.thy ===== *)
theory Ledger_Ops
  imports Ledger Customer_Facts
begin

text \<open>
  The consent services, the deliveries, the administration of the states and the deadline sweep keep the
  ledger.  An operation is taken apart by the rules of
  \<open>keeps_intros\<close>; where it writes a row it read before, the base of the relation is moved to the world of
  the reading (\<open>kept_readAt\<close>), and the row is still there at the write.
\<close>

section \<open>Reading and quiet actions\<close>

named_theorems kept_intros \<open>rules that an action keeps the ledger\<close>

abbreviation quietly :: "'a M \<Rightarrow> bool" where
  "quietly m \<equiv> modifies (- ledgerAreas) m"

lemma kept_quietly: "quietly m \<Longrightarrow> keeps (kept A E w0) m"
  by (rule kept_modifies) auto

lemma kept_readRequired:
  assumes "\<And>w x. g w = Some x \<Longrightarrow> keeps (kept A E w) (f x)"
  shows "keeps (kept A E w0) (bindM (bindM (getsM g) (requireM e)) f)"
proof (rule ledger.keeps_local)
  show "wp (bindM (bindM (getsM g) (requireM e)) f) (\<lambda>_. kept A E w) (\<lambda>_. kept A E w) w" for w
    using ledger.wp_from[OF assms[of w]] ledger.refl
    by (cases "g w") (simp_all add: wp_bind wp_gets wp_require)
qed

text \<open>An action from a world that the relation reaches, with the invariant there.\<close>

lemma kept_from:
  assumes "\<And>w. ledgerInv E w0 \<Longrightarrow> kept A E w0 w \<Longrightarrow> ledgerInv E w \<Longrightarrow>
    wp m (\<lambda>_. kept A E w) (\<lambda>_. kept A E w) w"
  shows "keeps (kept A E w0) m"
proof (rule keepsI)
  fix w assume k: "kept A E w0 w"
  show "wp m (\<lambda>_. kept A E w0) (\<lambda>_. kept A E w0) w"
  proof (cases "ledgerInv E w0")
    case True
    moreover from k True have "ledgerInv E w" by (simp add: kept_def)
    ultimately show ?thesis
      by (intro wp_mono[OF assms[OF True k]]) (auto intro: ledger.trans[OF k])
  qed (simp add: wp_snd kept_def)
qed

lemma kept_readAt:
  assumes "\<And>w. ledgerInv E w0 \<Longrightarrow> kept A E w0 w \<Longrightarrow> ledgerInv E w \<Longrightarrow> keeps (kept A E w) (f (g w))"
  shows "keeps (kept A E w0) (bindM (getsM g) f)"
proof (rule kept_from)
  fix w assume "ledgerInv E w0" "kept A E w0 w" "ledgerInv E w"
  from ledger.wp_from[OF assms[OF this]]
  show "wp (bindM (getsM g) f) (\<lambda>_. kept A E w) (\<lambda>_. kept A E w) w" by (simp add: wp_bind wp_gets)
qed

lemma quiet_areas [simp]:
  "t \<notin> ledgerAreas \<longleftrightarrow> t \<noteq> StateArea \<and> t \<noteq> AcceptanceLog \<and> t \<noteq> VersionArea \<and> t \<noteq> CustomerArea"
  by (auto simp: ledgerAreas_def)

lemma kept_logs [kept_intros]:
  "keeps (kept A E w0) clock_now" "keeps (kept A E w0) (randomUUID E')" "keeps (kept A E w0) (newId E' p)"
  "keeps (kept A E w0) (ids_next E' p)" "keeps (kept A E w0) (recordEvent E' ev)"
  "keeps (kept A E w0) (audit_append l)" "keeps (kept A E w0) (appendAudit E' action actor ty k reason m)"
  "keeps (kept A E w0) (notifications_append ne)" "keeps (kept A E w0) (objections_append ob)"
  "keeps (kept A E w0) (escalations_record en)" "keeps (kept A E w0) (idempotency_put k v)"
  "keeps (kept A E w0) (idempotency_reserve k)" "keeps (kept A E w0) (idempotency_release k)"
  "keeps (kept A E w0) (outbound_markDelivered k t)" "keeps (kept A E w0) (links_touch k t)"
  "keeps (kept A E w0) (throwStaleStateError k)" "keeps (kept A E w0) (awaitReplay k)"
  "keeps (kept A E w0) (assertWithinRateLimit token)"
  by (rule kept_quietly, intro modifies_intros, simp?; fail)+

lemma kept_finds [kept_intros]:
  "keeps (kept A E w0) (documents_findById k)" "keeps (kept A E w0) documents_findAll"
  "keeps (kept A E w0) (versions_findById k)" "keeps (kept A E w0) (versions_findByDocument k)"
  "keeps (kept A E w0) (versions_findCurrentPublished k k' t)"
  "keeps (kept A E w0) (versions_findUpcomingPublishedList k k' t)"
  "keeps (kept A E w0) (customers_findById k)" "keeps (kept A E w0) (customers_findByRole k)"
  "keeps (kept A E w0) (states_findById k)" "keeps (kept A E w0) (states_findByCustomerAndVersion k k')"
  "keeps (kept A E w0) (states_findByCustomer k)" "keeps (kept A E w0) (idempotency_get k)"
  "keeps (kept A E w0) (notifications_findByProviderRef k)" "keeps (kept A E w0) (notifications_findByState k)"
  "keeps (kept A E w0) (outbound_findByProviderRef k)" "keeps (kept A E w0) (outbound_findPendingOlderThan t)"
  "keeps (kept A E w0) customers_findAll"
  unfolding store_defs by (rule keeps_gets)+

section \<open>Writes to a row\<close>

lemma row_still:
  assumes "kept A E w0 w" "ledgerInv E w0" "map_of (w_states w0) k = Some s"
  obtains s' where "map_of (w_states w) k = Some s'" "samePair s s'"
    "cvs_state s = ACCEPTED \<Longrightarrow> cvs_state s' = ACCEPTED"
    "\<not> A \<Longrightarrow> cvs_state s' = ACCEPTED \<Longrightarrow> cvs_state s = ACCEPTED"
  using assms unfolding kept_def rowsKept_def by blast

lemma samePair_sym: "samePair s s' \<longleftrightarrow> samePair s' s"
  by (auto simp: samePair_def)

text \<open>A copy read at \<open>w0\<close> is written back with changes.\<close>

lemma kept_save:
  assumes row: "map_of (w_states w0) k = Some s" and same: "samePair s s'"
    and acc: "cvs_state s' = ACCEPTED \<longleftrightarrow> cvs_state s = ACCEPTED"
  shows "keeps (kept False E w0) (states_save s')"
proof (rule kept_from)
  fix w assume inv: "ledgerInv E w0" "ledgerInv E w" and k: "kept False E w0 w"
  obtain t where t: "map_of (w_states w) k = Some t" "samePair s t" "cvs_state t = ACCEPTED \<longleftrightarrow> cvs_state s = ACCEPTED"
    using row_still[OF k inv(1) row] by metis
  have id: "cvs_id t = k" "cvs_id s' = k" using ledgerInvD(7)[OF inv(2) t(1)] t(2) same by (simp_all add: samePair_def)
  have "kept False E w (w\<lparr>w_states := AList.update (cvs_id t) s' (w_states w)\<rparr>)"
    by (rule kept_row[where s = t and s' = s'])
       (use t same acc id in \<open>auto simp: samePair_def\<close>)
  then show "wp (states_save s') (\<lambda>_. kept False E w) (\<lambda>_. kept False E w) w"
    by (simp add: states_save_def states_put_def wp_then wp_modify wp_ret id)
qed

text \<open>The stored row is changed.\<close>

lemma kept_put:
  assumes inv: "ledgerInv E w" and row: "map_of (w_states w) k = Some s" and same: "samePair s s'"
    and acc: "cvs_state s' = ACCEPTED \<longleftrightarrow> cvs_state s = ACCEPTED"
  shows "kept A E w (w\<lparr>w_states := AList.update k s' (w_states w)\<rparr>)"
  using ledgerInvD(7)[OF inv row] row same acc
  by (intro kept_row[where s = s and s' = s']) auto

lemma kept_transition [kept_intros]:
  "(e' = ACCEPTED \<longleftrightarrow> e = ACCEPTED) \<Longrightarrow> keeps (kept A E w0) (states_transition k e e' r)"
  by (rule kept_from)
     (auto simp: states_transition_def states_findById_def states_put_def wp_bind wp_gets wp_then wp_modify wp_ret
       Let_def ledger.refl samePair_def split: option.split intro!: kept_put)

lemma kept_clearDue [kept_intros]: "keeps (kept A E w0) (states_clearNotificationDue k)"
  by (rule kept_from)
     (auto simp: states_clearNotificationDue_def states_findById_def states_put_def wp_bind wp_gets wp_modify wp_ret
       ledger.refl samePair_def split: option.split intro!: kept_put)

text \<open>The first access, computed from the row as it was read.\<close>

lemma kept_setNotified:
  assumes row: "map_of (w_states w0) k = Some s" and rec: "recordAccess s now v b = Inr u"
  shows "keeps (kept False E w0) (states_setNotifiedAtomically k (cvs_state u) n d)"
proof (rule kept_from)
  fix w assume inv: "ledgerInv E w0" "ledgerInv E w" and k: "kept False E w0 w"
  obtain t where t: "map_of (w_states w) k = Some t" "cvs_state t = ACCEPTED \<longleftrightarrow> cvs_state s = ACCEPTED"
    using row_still[OF k inv(1) row] by metis
  have "cvs_state u = ACCEPTED \<Longrightarrow> cvs_state s = ACCEPTED" using recordAccess_state[OF rec] by auto
  with t have "kept False E w (w\<lparr>w_states := AList.update k (t\<lparr>cvs_state := cvs_state u, cvs_notifiedAt := n,
      cvs_deadlineAt := d\<rparr>) (w_states w)\<rparr>)" if "cvs_state t = PENDING_NOTIFICATION"
    using that by (intro kept_put[OF inv(2) t(1)]) (auto simp: samePair_def)
  with t(1) show "wp (states_setNotifiedAtomically k (cvs_state u) n d) (\<lambda>_. kept False E w) (\<lambda>_. kept False E w) w"
    by (simp add: states_setNotifiedAtomically_def states_findById_def states_put_def wp_bind wp_gets wp_then wp_modify
        wp_ret ledger.refl Let_def)
qed

lemma found_stored:
  "ledgerInv E w \<Longrightarrow> found w c v = Some s \<Longrightarrow> map_of (w_states w) (cvs_id s) = Some s"
  by (rule stateFor_stored[OF ledgerInvD(3)])

text \<open>The base may be taken to have the invariant.\<close>

lemma kept_base: "(ledgerInv E w0 \<Longrightarrow> keeps (kept A E w0) m) \<Longrightarrow> keeps (kept A E w0) m"
  by (cases "ledgerInv E w0") (simp_all add: keeps_def kept_def)

lemma keeps_lift: "(\<And>x. r = Inr x \<Longrightarrow> keeps I (f x)) \<Longrightarrow> keeps I (bindM (liftR r) f)"
  by (cases r) (auto simp: keeps_def bindM_def liftR_def)

text \<open>The state of a pair is read: the row is in the table.\<close>

lemma kept_requireState:
  assumes "\<And>w s. ledgerInv E w \<Longrightarrow> map_of (w_states w) (cvs_id s) = Some s \<Longrightarrow> found w c v = Some s \<Longrightarrow>
    keeps (kept A E w) (f s)"
  shows "keeps (kept A E w0) (bindM (bindM (states_findByCustomerAndVersion c v) (requireM e)) f)"
  unfolding states_findByCustomerAndVersion_def
  by (rule kept_readRequired, rule kept_base) (blast intro: assms found_stored)

lemma kept_findState:
  assumes "\<And>w s. ledgerInv E w \<Longrightarrow> map_of (w_states w) (cvs_id s) = Some s \<Longrightarrow> found w c v = Some s \<Longrightarrow>
      keeps (kept A E w) (f (Some s))"
    and "\<And>w. ledgerInv E w \<Longrightarrow> found w c v = None \<Longrightarrow> keeps (kept A E w) (f None)"
  shows "keeps (kept A E w0) (bindM (states_findByCustomerAndVersion c v) f)"
  unfolding states_findByCustomerAndVersion_def
proof (rule kept_readAt)
  show "keeps (kept A E w) (f (found w c v))" if "ledgerInv E w" for w
    using assms(1)[OF that found_stored[OF that]] assms(2)[OF that] by (cases "found w c v") simp_all
qed

lemma keeps_lift_rethrow:
  "(\<And>x. r = Inr x \<Longrightarrow> keeps I (f x)) \<Longrightarrow> (\<And>e. keeps I (g e)) \<Longrightarrow>
    keeps I (bindM (catchM (liftR r) (\<lambda>e. thenM (g e) (throwM e))) f)"
  by (cases r) (auto simp: keeps_def bindM_def liftR_def catchM_def thenM_def throwM_def split: prod.split sum.split,
      (metis snd_conv)+)

lemma keeps_known:
  "keeps I (f x) \<Longrightarrow> keeps I (case Some x of None \<Rightarrow> m | Some y \<Rightarrow> f y)"
  "keeps I m \<Longrightarrow> keeps I (case None of None \<Rightarrow> m | Some y \<Rightarrow> f y)"
  by simp_all

lemmas kept_first = keeps_lift keeps_lift_rethrow keeps_known kept_requireState kept_findState kept_setNotified

section \<open>Displays, objections, deliveries\<close>

lemma kept_notify [kept_intros]: "keeps (kept False E w0) (notification_notify E' input)"
  unfolding notification_notify_def Let_def assessPlausibility_def
  by (rule kept_first kept_intros keeps_intros | assumption)+

lemma kept_object [kept_intros]:
  assumes "\<And>n w0. keeps (kept False E w0) (callNotifier notify n)"
  shows "keeps (kept False E w0) (objection_object E' notify input)"
  unfolding objection_object_def Let_def recordLateObjection_def
  by (rule kept_first assms kept_intros keeps_intros | assumption | (simp add: objectState_Inr; fail))+

lemma kept_recordDelivery [kept_intros]: "keeps (kept False E w0) (recordDelivery E' ref)"
  unfolding recordDelivery_def Let_def
  by (rule kept_first kept_intros keeps_intros | assumption)+

lemma kept_delivery [kept_intros]: "keeps (kept False E w0) (delivery_handle E' event)"
  unfolding delivery_handle_def recordBounce_def Let_def
  by (rule kept_first kept_intros keeps_intros | assumption)+

lemma kept_poll [kept_intros]:
  assumes "mailOutside P"
  shows "keeps (kept False E w0) (pollPendingDeliveries E' P older)"
  unfolding pollPendingDeliveries_def
  by (rule kept_first kept_intros keeps_intros | (rule kept_quietly modifies_provider assms, assumption?))+

section \<open>Administration of the states, reminders, rollout mails\<close>

lemma patched_row:
  "patchedState input s = Inr u \<Longrightarrow> samePair s u \<and> (cvs_state u = ACCEPTED \<longleftrightarrow> cvs_state s = ACCEPTED)"
  by (auto simp: patchedState_def samePair_def domainError_def split: if_splits option.splits)

lemma kept_patch [kept_intros]: "keeps (kept False E w0) (state_patch E' k input admin)"
  unfolding state_patch_def requireState_def states_findById_def
  by (rule kept_readRequired kept_first kept_save kept_intros keeps_intros | assumption
      | (frule patched_row, simp; fail))+

lemma kept_remind [kept_intros]:
  assumes "\<And>c s v. quietly (remind c s v)"
  shows "keeps (kept False E w0) (state_remind E' remind k admin)"
proof -
  have row: "samePair s (s\<lparr>cvs_remindersSent := n\<rparr>)" for s n by (simp add: samePair_def)
  show ?thesis
    unfolding state_remind_def requireState_def states_findById_def
    by (rule keeps_if, intro keeps_intros |
        rule kept_readRequired[where g = "\<lambda>w. map_of (w_states w) k"] kept_first kept_save row kept_quietly[OF assms]
          kept_intros keeps_intros | assumption | (simp; fail))+
qed

lemma kept_reminders [kept_intros]:
  assumes "\<And>c r v d. quietly (mailer c r v d)"
  shows "keeps (kept False E w0) (reminder_run mailer)"
proof -
  have "quietly (reminders_findDue t)" for t
    unfolding reminders_findDue_def candidateOf_def resolveRecipient_def by (intro modifies_intros)
  then show ?thesis
    unfolding reminder_run_def remindOne_def Let_def
    by (intro keeps_intros kept_intros kept_quietly modifies_remindLoop assms) simp_all
qed

lemma kept_rolloutMails [kept_intros]:
  assumes "\<And>c v. quietly (notifier c v)"
  shows "keeps (kept False E w0) (rolloutNotification_run disabled notifier n)"
proof -
  have one: "keeps (kept False E w0) (rolloutNotifyOne notifier cache s)" for cache s
    unfolding rolloutNotifyOne_def
    by (intro keeps_intros kept_intros kept_quietly[OF assms])
       (auto split: option.split intro!: keeps_intros kept_quietly[OF assms])
  show ?thesis
    unfolding rolloutNotification_run_def
    by (rule keeps_intros one kept_quietly[OF modifies_reads(18)])+
qed

section \<open>Acceptances\<close>

lemma wp_kept_then:
  "kept A E w w' \<Longrightarrow> (\<And>w0. keeps (kept A E w0) m) \<Longrightarrow> wp m (\<lambda>_. kept A E w) (\<lambda>_. kept A E w) w'"
  by (rule keepsD)

lemma wp_kept_bind:
  "wp m (\<lambda>_. I) (\<lambda>_. I) w \<Longrightarrow> (\<And>x. keeps I (k x)) \<Longrightarrow> wp (bindM m k) (\<lambda>_. I) (\<lambda>_. I) w"
  unfolding wp_bind by (erule wp_mono) (auto dest: keepsD)

definition hasCustomer :: "world \<Rightarrow> string \<Rightarrow> bool" where
  "hasCustomer w c \<longleftrightarrow> c \<in> fst ` set (w_customers w)"

lemma hasCustomer_kept: "kept A E w0 w \<Longrightarrow> ledgerInv E w0 \<Longrightarrow> hasCustomer w0 c \<Longrightarrow> hasCustomer w c"
  by (auto simp: kept_def hasCustomer_def)

lemma published_kept: "kept A E w0 w \<Longrightarrow> ledgerInv E w0 \<Longrightarrow> outOfDraft w0 k \<Longrightarrow> outOfDraft w k"
  by (auto simp: kept_def intro: outOfDraft_kept)

lemma fresh_acceptance:
  assumes "goodIds E" "ledgerInv E w" "w_uuid w \<le> n"
  shows "map_of (w_acceptances w) (''a-'' @ e_uuid E n) = None" "map_of (w_acceptances w) (e_uuid E n) = None"
  using fresh_a[OF assms(1), of "w_acceptances w" n] ledgerInvD(1)[OF assms(2)] assms(3)
    drawn_Suc[of "w_acceptances w" E "[''a-'', []]" "w_uuid w" n]
  by (simp_all add: consentInv_def)

lemma drawn_acceptance [simp]:
  "n < m \<Longrightarrow> CHR ''a'' # CHR ''-'' # e_uuid E n \<in> drawnIds E [''a-'', []] m"
  "n < m \<Longrightarrow> e_uuid E n \<in> drawnIds E [''a-'', []] m"
  using drawn_new[of "''a-''" "[''a-'', []]" n m E] drawn_new[of "[]" "[''a-'', []]" n m E] by simp_all

text \<open>\<open>AcceptanceService\<close>: the state is read, written, and the acceptance appended.\<close>

lemma kept_acceptance_write:
  assumes good: "goodIds E" and inv: "ledgerInv E w" and c: "hasCustomer w (ai_customerId input)"
    and chk: "checkConsentText version shown = Inr ()"
  shows "wp (acceptance_write E input version (found w (ai_customerId input) (ai_versionId input)) channel)
    (\<lambda>_. kept True E w) (\<lambda>_. kept True E w) w"
proof (cases "found w (ai_customerId input) (ai_versionId input)")
  case None
  let ?s = "newState (''cvs-'' @ e_uuid E (w_uuid w)) (ai_customerId input) (ai_versionId input)\<lparr>cvs_state := ACCEPTED\<rparr>"
  let ?aid = "''a-'' @ e_uuid E (Suc (w_uuid w))"
  obtain a where a: "buildAcceptance input version channel ?aid (w_now w) = Inr a"
    using buildAcceptance_ok[OF chk] by blast
  note f = buildAcceptance_fields[OF a]
  have none: "effectiveFor (w_acceptances w) (ai_customerId input) (ai_versionId input) = None"
    using effective_accepted[OF ledgerInvD(1)[OF inv], of "ai_customerId input" "ai_versionId input"] None
    by (simp add: accepted_def)
  have "kept True E w (w\<lparr>w_states := AList.update (cvs_id ?s) ?s (w_states w), w_uuid := Suc (Suc (w_uuid w)),
      w_acceptances := AList.update (a_id a) a (w_acceptances w)\<rparr>)"
    by (rule kept_accept_new[OF good, where s = ?s and a = a])
       (use None c f fresh_acceptance(1)[OF good inv, of "Suc (w_uuid w)"] in
         \<open>simp_all add: newState_def hasCustomer_def\<close>)
  then show ?thesis
    using a f none None fresh_acceptance(1)[OF good inv, of "Suc (w_uuid w)"]
    by (simp add: acceptance_write_def wp_simps accept_def ACCEPTABLE_FROM_def newState_def)
next
  case (Some s)
  show ?thesis
  proof (cases "cvs_state s \<in> {ACCEPTED, SUPERSEDED}")
    case True
    then show ?thesis
      using Some by (auto simp: acceptance_write_closed wp_def domainError_def ledger.refl)
  next
    case False
    let ?aid = "''a-'' @ e_uuid E (w_uuid w)"
    obtain a where a: "buildAcceptance input version channel ?aid (w_now w) = Inr a"
      using buildAcceptance_ok[OF chk] by blast
    note f = buildAcceptance_fields[OF a] and row = found_stored[OF inv Some]
    have none: "effectiveFor (w_acceptances w) (ai_customerId input) (ai_versionId input) = None"
      using effective_accepted[OF ledgerInvD(1)[OF inv], of "ai_customerId input" "ai_versionId input"] Some False
      by (simp add: accepted_def)
    have "kept True E w (w\<lparr>w_states := AList.update (cvs_id s) (s\<lparr>cvs_state := ACCEPTED\<rparr>) (w_states w),
        w_uuid := Suc (w_uuid w), w_acceptances := AList.update (a_id a) a (w_acceptances w)\<rparr>)"
      by (rule kept_accept_row[where s = s and a = a])
         (use Some False row f fresh_acceptance(1)[OF good inv, of "w_uuid w"] in \<open>simp_all\<close>)
    moreover have "accept s ACTIVE_CONSENT = Inr (s\<lparr>cvs_state := ACCEPTED\<rparr>)"
      using False by (simp add: accept_Inr)
    ultimately show ?thesis
      using a f none Some False row fresh_acceptance(1)[OF good inv, of "w_uuid w"]
      by (simp add: acceptance_write_def wp_simps)
  qed
qed

lemma kept_accepting:
  assumes good: "goodIds E" and c: "hasCustomer w0 (ai_customerId input)"
    and chk: "checkConsentText version shown = Inr ()" and k: "\<And>a w0. keeps (kept True E w0) (k a)"
  shows "keeps (kept True E w0) (bindM (states_findByCustomerAndVersion (ai_customerId input) (ai_versionId input))
    (\<lambda>existing. bindM (acceptance_write E input version existing channel) k))"
proof (rule kept_from)
  fix w assume inv: "ledgerInv E w0" "ledgerInv E w" and kw: "kept True E w0 w"
  show "wp (bindM (states_findByCustomerAndVersion (ai_customerId input) (ai_versionId input))
    (\<lambda>existing. bindM (acceptance_write E input version existing channel) k)) (\<lambda>_. kept True E w) (\<lambda>_. kept True E w) w"
    unfolding states_findByCustomerAndVersion_def wp_bind[of "getsM g" for g] wp_gets
    by (rule wp_kept_bind[OF kept_acceptance_write[OF good inv(2) hasCustomer_kept[OF kw inv(1) c] chk] k])
qed

lemma kept_requireCustomer:
  assumes "\<And>w x. hasCustomer w c \<Longrightarrow> c_id x = c \<Longrightarrow> keeps (kept A E w) (f x)"
  shows "keeps (kept A E w0) (bindM (bindM (customers_findById c) (requireM e)) f)"
  unfolding customers_findById_def
proof (rule kept_readRequired, rule kept_base)
  show "keeps (kept A E w) (f x)" if "map_of (w_customers w) c = Some x" "ledgerInv E w" for w x
    using assms[of w x] that(1) wf_table_key[OF ledgerInvD(4)[OF that(2)] that(1)]
    by (simp add: hasCustomer_def map_of_keys)
qed

lemma keeps_liftThen: "(r = Inr () \<Longrightarrow> keeps I f) \<Longrightarrow> keeps I (thenM (liftR (r :: unit result)) f)"
  unfolding thenM_def by (rule keeps_lift) simp

lemma kept_process [kept_intros]:
  assumes good: "goodIds E" and conf: "\<And>x. quietly (callConfirmation conf x)"
  shows "keeps (kept True E w0) (acceptance_process E conf input)"
  unfolding acceptance_process_def Let_def
  by (rule kept_requireCustomer keeps_liftThen kept_accepting[OF good] kept_quietly[OF conf] kept_intros keeps_intros
      | assumption)+

lemma kept_accept [kept_intros]:
  assumes "goodIds E" "\<And>x. quietly (callConfirmation conf x)"
  shows "keeps (kept True E w0) (acceptance_accept E conf input)"
  unfolding acceptance_accept_def Let_def
  by (rule kept_intros assms keeps_intros)+

text \<open>The manual acceptance.\<close>

lemma manualAcceptance_ok:
  obtains a where "manualAcceptance aid c version m actor at = Inr a" "a_id a = aid" "a_customerId a = c"
    "a_versionId a = v_id version" "a_isEffective a"
proof -
  have "\<exists>a. manualAcceptance aid c version m actor at = Inr a"
    by (cases "v_consentText version") (simp_all add: manualAcceptance_def consentTextHashFor_def bindR_def)
  then obtain a where a: "manualAcceptance aid c version m actor at = Inr a" ..
  then have "a_id a = aid \<and> a_customerId a = c \<and> a_versionId a = v_id version \<and> a_isEffective a"
    by (auto simp: manualAcceptance_def bindR_eq_Inr)
  with a that show thesis by blast
qed

lemma update_twice: "AList.update k v' (AList.update k v t) = AList.update k v' t"
  by (induction t) auto

lemma kept_manual:
  assumes good: "goodIds E" and c: "hasCustomer w0 c" and m: "m \<noteq> TACIT"
    and k: "\<And>acc a x w0. keeps (kept True E w0) (k acc a x)"
  shows "keeps (kept True E w0)
    (bindM (stateForManual E c (v_id version)) (\<lambda>state.
     bindM (liftR (accept state m)) (\<lambda>accepted.
     bindM (states_transition (cvs_id state) (cvs_state state) (cvs_state accepted) None) (\<lambda>transitioned.
     thenM (if transitioned = None then throwStaleStateError (cvs_id state) else retM ())
     (bindM (newId E ''a'') (\<lambda>acceptanceId.
     bindM clock_now (\<lambda>at.
     bindM (liftR (manualAcceptance acceptanceId c version m actor at)) (\<lambda>acceptance.
     bindM (acceptances_append acceptance) (k accepted acceptance)))))))))"
  (is "keeps _ ?m")
proof (rule kept_from)
  fix w assume inv0: "ledgerInv E w0" and inv: "ledgerInv E w" and kw: "kept True E w0 w"
  have cw: "hasCustomer w c" by (rule hasCustomer_kept[OF kw inv0 c])
  show "wp ?m (\<lambda>_. kept True E w) (\<lambda>_. kept True E w) w"
  proof (cases "found w c (v_id version)")
    case None
    let ?s = "newState (''cvs-'' @ e_uuid E (w_uuid w)) c (v_id version)\<lparr>cvs_state := ACCEPTED\<rparr>"
    obtain a where a: "manualAcceptance (''a-'' @ e_uuid E (Suc (w_uuid w))) c version m actor (w_now w) = Inr a"
        "a_id a = ''a-'' @ e_uuid E (Suc (w_uuid w))" "a_customerId a = c" "a_versionId a = v_id version" "a_isEffective a"
      by (rule manualAcceptance_ok)
    have none: "effectiveFor (w_acceptances w) c (v_id version) = None"
      using effective_accepted[OF ledgerInvD(1)[OF inv], of c "v_id version"] None by (simp add: accepted_def)
    have "kept True E w (w\<lparr>w_states := AList.update (cvs_id ?s) ?s (w_states w), w_uuid := Suc (Suc (w_uuid w)),
        w_acceptances := AList.update (a_id a) a (w_acceptances w)\<rparr>)"
      by (rule kept_accept_new[OF good, where s = ?s and a = a])
         (use None cw a fresh_acceptance(1)[OF good inv, of "Suc (w_uuid w)"] in
           \<open>simp_all add: newState_def hasCustomer_def\<close>)
    from wp_kept_then[OF this k] show ?thesis
      using a none None m fresh_acceptance(1)[OF good inv, of "Suc (w_uuid w)"]
      by (simp add: stateForManual_def wp_simps accept_def ACCEPTABLE_FROM_def newState_def
          map_of_update update_twice)
  next
    case (Some s)
    show ?thesis
    proof (cases "accept s m")
      case (Inl e)
      with Some show ?thesis by (simp add: stateForManual_def wp_simps ledger.refl)
    next
      case (Inr s')
      then have s': "s' = s\<lparr>cvs_state := ACCEPTED\<rparr>" "cvs_state s \<noteq> ACCEPTED" by (simp_all add: accept_Inr)
      obtain a where a: "manualAcceptance (''a-'' @ e_uuid E (w_uuid w)) c version m actor (w_now w) = Inr a"
          "a_id a = ''a-'' @ e_uuid E (w_uuid w)" "a_customerId a = c" "a_versionId a = v_id version" "a_isEffective a"
        by (rule manualAcceptance_ok)
      note row = found_stored[OF inv Some]
      have none: "effectiveFor (w_acceptances w) c (v_id version) = None"
        using effective_accepted[OF ledgerInvD(1)[OF inv], of c "v_id version"] Some s' by (simp add: accepted_def)
      have "kept True E w (w\<lparr>w_states := AList.update (cvs_id s) s' (w_states w),
          w_uuid := Suc (w_uuid w), w_acceptances := AList.update (a_id a) a (w_acceptances w)\<rparr>)"
        by (rule kept_accept_row[where s = s and a = a])
           (use Some s' row a fresh_acceptance(1)[OF good inv, of "w_uuid w"] in simp_all)
      from wp_kept_then[OF this k] show ?thesis
        using a none Some Inr s' row fresh_acceptance(1)[OF good inv, of "w_uuid w"]
        by (simp add: stateForManual_def wp_simps)
    qed
  qed
qed

lemma admin_not_tacit: "assertMethodChannelAllowed m ChADMIN = Inr () \<Longrightarrow> m \<noteq> TACIT"
  by (cases m) (auto simp: assertMethodChannelAllowed_def domainError_def)

lemma kept_manual_record [kept_intros]:
  assumes good: "goodIds E" and out: "filesOutside F" and conf: "\<And>x. quietly (callConfirmation conf x)"
  shows "keeps (kept True E w0) (manual_record E F conf k input actor)"
proof (cases "mai_evidenceDocument input")
  case None
  show ?thesis unfolding manual_record_def None option.case by (rule keeps_intros)+
next
  case (Some evidence)
  have pdf: "keeps (kept True E w0) (pdf_store F evidence)" for w0
    by (rule kept_quietly, rule modifies_pdf_store[OF out])
  show ?thesis
    unfolding manual_record_def Some option.case
    by (rule kept_requireCustomer keeps_liftThen kept_manual[OF good] pdf kept_quietly[OF conf] kept_intros keeps_intros | assumption | (erule admin_not_tacit))+
qed

section \<open>The deadline sweep\<close>

lemma tacitAcceptance_effective:
  obtains a where "tacitAcceptance aid s version at = Inr a" "a_id a = aid" "a_customerId a = cvs_customerId s"
    "a_versionId a = cvs_versionId s" "a_isEffective a"
proof -
  have "\<exists>a. tacitAcceptance aid s version at = Inr a"
    by (cases "v_consentText version") (simp_all add: tacitAcceptance_def consentTextHashFor_def bindR_def)
  then obtain a where a: "tacitAcceptance aid s version at = Inr a" ..
  then have "a_id a = aid \<and> a_customerId a = cvs_customerId s \<and> a_versionId a = cvs_versionId s \<and> a_isEffective a"
    by (auto simp: tacitAcceptance_def bindR_eq_Inr)
  with a that show thesis by blast
qed

text \<open>The tacit acceptance of a stored row: the row found for its pair is accepted with its evidence; behind
  an accepted one the acceptance is refused as a second one.\<close>

lemma kept_tacit:
  assumes good: "goodIds E" and inv: "ledgerInv E w"
    and t: "map_of (w_states w) (cvs_id s) = Some t" "samePair s t" "cvs_state t \<noteq> ACCEPTED" "cvs_state t = e"
    and k: "\<And>a w0. keeps (kept True E w0) (k a)"
  shows "wp (bindM (states_transition (cvs_id s) e ACCEPTED None) (\<lambda>transitioned.
      if transitioned = None then retM () else
      bindM (randomUUID E) (\<lambda>acceptanceId. bindM clock_now (\<lambda>at.
      bindM (liftR (tacitAcceptance acceptanceId s version at)) (\<lambda>acceptance.
      thenM (acceptances_append acceptance) (k acceptance))))))
    (\<lambda>_. kept True E w) (\<lambda>_. kept True E w) w"
proof -
  let ?w' = "w\<lparr>w_states := AList.update (cvs_id t) (t\<lparr>cvs_state := ACCEPTED\<rparr>) (w_states w), w_uuid := Suc (w_uuid w)\<rparr>"
  obtain a where a: "tacitAcceptance (e_uuid E (w_uuid w)) s version (w_now w) = Inr a" "a_id a = e_uuid E (w_uuid w)"
      "a_customerId a = cvs_customerId s" "a_versionId a = cvs_versionId s" "a_isEffective a"
    by (rule tacitAcceptance_effective)
  note D = ledgerInvD[OF inv] and fresh = fresh_acceptance(2)[OF good inv order.refl]
  have id: "cvs_id t = cvs_id s" using D(7)[OF t(1)] by simp
  have pair: "cvs_customerId t = cvs_customerId s" "cvs_versionId t = cvs_versionId s"
    using t(2) by (simp_all add: samePair_def)
  have eff: "effectiveFor (w_acceptances w) (cvs_customerId s) (cvs_versionId s) \<noteq> None \<longleftrightarrow>
      accepted (found w (cvs_customerId s) (cvs_versionId s))" by (rule effective_accepted[OF D(1)])
  show ?thesis
  proof (cases "accepted (found w (cvs_customerId s) (cvs_versionId s))")
    case True
    have "kept True E w ?w'"
      by (rule kept_row[where s = t and s' = "t\<lparr>cvs_state := ACCEPTED\<rparr>"])
         (use t id True pair in \<open>simp_all add: samePair_def\<close>)
    with True eff a t id fresh show ?thesis by (simp add: wp_simps)
  next
    case False
    with D(6)[of t] D(7)[OF t(1)] pair have f: "found w (cvs_customerId s) (cvs_versionId s) = Some t"
      by (simp add: rowOk_def Let_def)
    have "kept True E w (?w'\<lparr>w_acceptances := AList.update (a_id a) a (w_acceptances w)\<rparr>)"
      by (rule kept_accept_row[where s = t and a = a]) (use f t id a fresh in simp_all)
    from wp_kept_then[OF this k] show ?thesis using False eff a t id fresh by (simp add: wp_simps)
  qed
qed

lemma kept_sweepOne:
  assumes good: "goodIds E" and conf: "\<And>x. quietly (callConfirmation conf x)"
    and row: "map_of (w_states w0) (cvs_id s) = Some s"
  shows "keeps (kept True E w0) (sweepOne E conf s)"
proof (rule kept_from)
  fix w assume inv: "ledgerInv E w0" "ledgerInv E w" and kw: "kept True E w0 w"
  obtain t where t: "map_of (w_states w) (cvs_id s) = Some t" "samePair s t"
    using row_still[OF kw inv(1) row] by metis
  have event: "keeps (kept True E w0) (thenM (recordEvent E ev) (callConfirmation conf x))" for w0 ev x
    by (intro keeps_intros kept_intros kept_quietly conf)
  show "wp (sweepOne E conf s) (\<lambda>_. kept True E w) (\<lambda>_. kept True E w) w"
  proof (cases "map_of (w_versions w) (cvs_versionId s)")
    case None
    then show ?thesis by (simp add: sweepOne_def versions_findById_def wp_bind wp_gets wp_ret ledger.refl)
  next
    case (Some version)
    show ?thesis
    proof (cases rule: sweep_cases[of s version "w_now w"])
      case noop
      with Some show ?thesis
        by (simp add: sweepOne_def versions_findById_def wp_bind wp_gets wp_ret wp_clock ledger.refl Let_def)
    next
      case (blocking at)
      have "keeps (kept True E w) (bindM (states_transition (cvs_id s) (cvs_state s) EXPIRED_BLOCKING None)
          (\<lambda>transitioned. if transitioned = None then retM () else recordEvent E
            (sweptEvent DEADLINE_EXPIRED (''Deadline expired '' @ emDash @ '' became blocking'') s version)))"
        using blocking by (intro keeps_intros kept_intros) auto
      from keepsD[OF this ledger.refl] Some blocking show ?thesis
        by (simp add: sweepOne_def versions_findById_def wp_bind wp_gets wp_clock Let_def)
    next
      case (tacit at)
      show ?thesis
      proof (cases "cvs_state t = NOTIFIED")
        case True
        from kept_tacit[OF good inv(2) t _ True event] True Some tacit show ?thesis
          by (simp add: sweepOne_def versions_findById_def wp_bind[of "getsM g" for g] wp_gets wp_clock
              wp_bind[of clock_now] Let_def)
      next
        case False
        with Some tacit t show ?thesis
          by (simp add: sweepOne_def wp_simps ledger.refl Let_def)
      qed
    qed
  qed
qed

lemma kept_deadline [kept_intros]:
  assumes good: "goodIds E" and conf: "\<And>x. quietly (callConfirmation conf x)"
  shows "keeps (kept True E w0) (deadline_run E conf)"
proof -
  have one: "keeps (kept True E w0) (bindM (states_findDueForSweep now) (\<lambda>dueStates.
      forM dueStates (\<lambda>s. thenM (attemptM (sweepOne E conf s)) (retM ()))))" for now
    unfolding states_findDueForSweep_def
  proof (rule kept_readAt)
    fix w assume "ledgerInv E w"
    from ledgerInvD(3)[OF this]
    show "keeps (kept True E w) (forM (filter (dueForSweep now) (tvals (w_states w)))
        (\<lambda>s. thenM (attemptM (sweepOne E conf s)) (retM ())))"
      by (intro keeps_intros kept_sweepOne[OF good conf]) (simp add: tvals_map_of)
  qed
  show ?thesis unfolding deadline_run_def by (rule one keeps_intros kept_intros)+
qed

end
