(* ===== verification/Ledger_Rollout.thy ===== *)
theory Ledger_Rollout
  imports Ledger_Ops
begin

text \<open>
  The operations that create rollout states keep the ledger: the onboarding of customers with their
  imported acceptances, the activation of scheduled versions, and the publish.
\<close>

section \<open>Customers\<close>

lemma kept_customerRow:
  assumes c: "hasCustomer w (c_id c) \<or> c_id c \<in> drawnIds E [''c-''] (w_uuid w')"
    and w': "w_customers w' = AList.update (c_id c) c (w_customers w)" "w_states w' = w_states w"
      "w_acceptances w' = w_acceptances w" "w_versions w' = w_versions w" "w_uuid w \<le> w_uuid w'"
  shows "kept A E w w'"
proof (rule kept_outer)
  assume inv: "ledgerInv E w"
  note D = ledgerInvD[OF inv]
  have sub: "fst ` set (w_customers w) \<subseteq> drawnIds E [''c-''] (w_uuid w')" by (rule drawn_Suc[OF D(5) w'(5)])
  show "wf_table c_id (w_customers w') \<and> fst ` set (w_customers w') \<subseteq> drawnIds E [''c-''] (w_uuid w')
      \<and> fst ` set (w_customers w) \<subseteq> fst ` set (w_customers w')"
    using D(4) sub c by (auto simp: w'(1) wf_table_update keys_update hasCustomer_def)
qed (use w' in \<open>simp_all add: versionsKept_same\<close>)

text \<open>Every state of the customer is accepted: a new customer, while the imports are recorded.\<close>

definition importable :: "world \<Rightarrow> string \<Rightarrow> bool" where
  "importable w c \<longleftrightarrow> hasCustomer w c \<and> (\<forall>v. found w c v = None \<or> accepted (found w c v))"

lemma kept_import:
  assumes good: "goodIds E"
  shows "keeps (\<lambda>w. kept True E w0 w \<and> (ledgerInv E w0 \<longrightarrow> importable w c)) (importAcceptance E c item actor)"
proof (rule keepsI)
  fix w assume I: "kept True E w0 w \<and> (ledgerInv E w0 \<longrightarrow> importable w c)"
  let ?I = "\<lambda>w. kept True E w0 w \<and> (ledgerInv E w0 \<longrightarrow> importable w c)"
  show "wp (importAcceptance E c item actor) (\<lambda>_. ?I) (\<lambda>_. ?I) w"
  proof (cases "ledgerInv E w0")
    case True
    with I have kw: "kept True E w0 w" and inv: "ledgerInv E w" and imp: "importable w c" by (auto simp: kept_def)
    let ?v = "v_id (vi_version item)"
    let ?s = "importState (''cvs-'' @ e_uuid E (w_uuid w)) c (vi_version item)"
    let ?a = "importedEvidence (''a-'' @ e_uuid E (Suc (w_uuid w))) c item actor"
    let ?w1 = "w\<lparr>w_states := AList.update (cvs_id ?s) ?s (w_states w), w_uuid := Suc (Suc (w_uuid w))\<rparr>"
    let ?w2 = "?w1\<lparr>w_acceptances := AList.update (a_id ?a) ?a (w_acceptances w)\<rparr>"
    note fresh = fresh_acceptance(1)[OF good inv, of "Suc (w_uuid w)"]
    have s: "cvs_id ?s = ''cvs-'' @ e_uuid E (w_uuid w)" "cvs_customerId ?s = c" "cvs_versionId ?s = ?v" "cvs_state ?s = ACCEPTED"
      by (simp_all add: importState_def newState_def)
    have a: "a_id ?a = ''a-'' @ e_uuid E (Suc (w_uuid w))" "a_customerId ?a = c" "a_versionId ?a = ?v" "a_isEffective ?a"
      by (simp_all add: importedEvidence_def)
    have sfresh: "map_of (w_states w) (cvs_id ?s) = None"
      using fresh_cvs[OF good, of "w_states w" "w_uuid w"] ledgerInvD(1)[OF inv] s(1) by (simp add: consentInv_def)
    have look: "found w' c v = (case found w c v of Some x \<Rightarrow> Some x | None \<Rightarrow> if ?v = v then Some ?s else None)"
      if "w_states w' = w_states ?w1" for w' v
      using stateFor_append[of "tvals (w_states w)" ?s c v] tvals_update_fresh[OF sfresh, of ?s] s(2,3)
      by (simp only: that world.simps) simp
    have still: "importable w' c" if same: "w_states w' = w_states ?w1" "w_customers w' = w_customers w" for w'
    proof -
      have old: "found w c v = None \<or> accepted (found w c v)" for v using imp by (simp add: importable_def)
      have "found w' c v = None \<or> accepted (found w' c v)" for v
        using old[of v] s(4) by (cases "found w c v") (auto simp: look[OF same(1)] accepted_def)
      with imp same(2) show ?thesis by (simp add: importable_def hasCustomer_def)
    qed
    have eff: "effectiveFor (w_acceptances w) c ?v \<noteq> None \<longleftrightarrow> accepted (found w c ?v)"
      by (rule effective_accepted[OF ledgerInvD(1)[OF inv]])
    show ?thesis
    proof (cases "accepted (found w c ?v)")
      case dup: True
      have "kept True E w ?w1"
        by (rule kept_insert[OF good, where s = ?s]) (use s dup imp in \<open>simp_all add: importable_def hasCustomer_def\<close>)
      with ledger.trans[OF kw] still have "?I ?w1" by simp
      with dup eff s a fresh show ?thesis by (simp add: importAcceptance_def wp_simps Let_def)
    next
      case False
      with imp have none: "found w c ?v = None" by (auto simp: importable_def)
      have "kept True E w ?w2"
        by (rule kept_accept_new[OF good, where s = ?s and a = ?a])
           (use s a none imp fresh in \<open>simp_all add: importable_def hasCustomer_def\<close>)
      then have "kept True E w (afterEvent E ev ?w2)" for ev
        by (rule ledger.trans) (rule kept_frame, simp_all)
      with ledger.trans[OF kw] still have "?I (afterEvent E ev ?w2)" for ev by simp
      with False eff s a fresh show ?thesis by (simp add: importAcceptance_def wp_simps Let_def)
    qed
  qed (simp add: wp_snd kept_def)
qed

lemma current_out: "findCurrentPublished w ty aud now = Some v \<Longrightarrow> v \<in> set (tvals (w_versions w)) \<and> v_status v = PUBLISHED"
  unfolding findCurrentPublished_def
  by (cases "findByTypeAndAudience (w_documents w) ty aud") (auto dest!: sort_key_head)

lemma upcoming_out:
  "v \<in> set (findUpcomingPublishedList w ty aud now) \<Longrightarrow> v \<in> set (tvals (w_versions w)) \<and> v_status v = PUBLISHED"
  by (auto simp: findUpcomingPublishedList_def split: option.splits)

lemma published_out:
  assumes "ledgerInv E w" "v \<in> set (tvals (w_versions w))" "v_status v = PUBLISHED"
  shows "outOfDraft w (v_id v)"
  using assms ledgerInvD(2)[OF assms(1)] tvals_map_of[of v_id "w_versions w" v]
  by (auto simp: outOfDraft_def versionsInv_def)

lemma kept_onboardVersion:
  assumes good: "goodIds E" and c: "hasCustomer w0 (c_id customer)" and v: "outOfDraft w0 (v_id version)"
  shows "keeps (kept A E w0) (onboardVersion E customer kind label document sofar version)"
proof (rule kept_from)
  fix w assume inv: "ledgerInv E w0" "ledgerInv E w" and kw: "kept A E w0 w"
  let ?s = "onboardingState (''cvs-'' @ e_uuid E (w_uuid w)) customer version"
  have s: "cvs_id ?s = ''cvs-'' @ e_uuid E (w_uuid w)" "cvs_customerId ?s = c_id customer"
      "cvs_versionId ?s = v_id version" "cvs_state ?s = PENDING_NOTIFICATION"
    by (simp_all add: onboardingState_def newState_def)
  show "wp (onboardVersion E customer kind label document sofar version) (\<lambda>_. kept A E w) (\<lambda>_. kept A E w) w"
  proof (cases "found w (c_id customer) (v_id version)")
    case None
    let ?w1 = "w\<lparr>w_uuid := Suc (w_uuid w), w_states := AList.update (cvs_id ?s) ?s (w_states w)\<rparr>"
    have "kept A E w ?w1"
      by (rule kept_insert[OF good, where s = ?s])
         (use s None hasCustomer_kept[OF kw inv(1) c] published_kept[OF kw inv(1) v] in \<open>simp_all add: hasCustomer_def\<close>)
    then have "kept A E w (afterEvent E ev ?w1)" for ev by (rule ledger.trans) (rule kept_frame, simp_all)
    with None s show ?thesis by (simp add: onboardVersion_def wp_simps)
  qed (simp add: onboardVersion_def wp_simps ledger.refl)
qed

lemma kept_onboardDocument:
  assumes good: "goodIds E" and c: "hasCustomer w0 (c_id customer)"
  shows "keeps (kept A E w0) (onboardDocument E customer roles kind label now sofar document)"
proof -
  have versions: "keeps (kept A E w0) (bindM (rolloutVersions document now) (\<lambda>versions.
      foldM (onboardVersion E customer kind label document) sofar versions))"
  proof (rule kept_from)
    fix w assume inv: "ledgerInv E w0" "ledgerInv E w" and kw: "kept A E w0 w"
    let ?vs = "(case findCurrentPublished w (d_type document) (d_audience document) now of None \<Rightarrow> [] | Some v \<Rightarrow> [v])
      @ findUpcomingPublishedList w (d_type document) (d_audience document) now"
    have "keeps (kept A E w) (foldM (onboardVersion E customer kind label document) sofar ?vs)"
    proof (intro keeps_intros kept_onboardVersion good hasCustomer_kept[OF kw inv(1) c])
      fix v assume "v \<in> set ?vs"
      then have "v \<in> set (tvals (w_versions w)) \<and> v_status v = PUBLISHED"
        using current_out upcoming_out by (fastforce split: option.splits)
      then show "outOfDraft w (v_id v)" using published_out[OF inv(2)] by blast
    qed
    from keepsD[OF this ledger.refl]
    show "wp (bindM (rolloutVersions document now) (\<lambda>versions.
        foldM (onboardVersion E customer kind label document) sofar versions)) (\<lambda>_. kept A E w) (\<lambda>_. kept A E w) w"
      by (simp add: rolloutVersions_def versions_findCurrentPublished_def versions_findUpcomingPublishedList_def
          wp_bind wp_gets wp_ret)
  qed
  show ?thesis unfolding onboardDocument_def by (rule versions keeps_intros)+
qed

lemma kept_rolloutCurrent:
  assumes "goodIds E" "hasCustomer w0 (c_id customer)" "\<And>c v. quietly (notifier c v)"
  shows "keeps (kept A E w0) (rolloutCurrentVersions E notifier customer roles kind label)"
  unfolding rolloutCurrentVersions_def notifyRolledOut_def
  by (rule kept_onboardDocument[OF assms(1,2)] kept_quietly[OF assms(3)] kept_intros keeps_intros)+

lemma kept_onboard:
  assumes good: "goodIds E" and imp: "importable w (c_id c)" and quiet: "\<And>c v. quietly (notifier c v)"
  shows "wp (customer_onboard E notifier validated actor source c) (\<lambda>_. kept True E w) (\<lambda>_. kept True E w) w"
proof -
  have c: "hasCustomer w (c_id c)" using imp by (simp add: importable_def)
  have "keeps (\<lambda>w'. kept True E w w' \<and> (ledgerInv E w \<longrightarrow> importable w' (c_id c)))
      (mapM (\<lambda>item. importAcceptance E (c_id c) item actor) validated)"
    by (intro keeps_intros kept_import good)
  from keepsD[OF this, of w] imp
  have "wp (mapM (\<lambda>item. importAcceptance E (c_id c) item actor) validated) (\<lambda>_. kept True E w) (\<lambda>_. kept True E w) w"
    by (auto simp: ledger.refl elim: wp_mono)
  then show ?thesis
    unfolding customer_onboard_def
    by (rule wp_kept_bind) (rule kept_rolloutCurrent[OF good c quiet] kept_intros keeps_intros)+
qed

lemma kept_create:
  assumes good: "goodIds E" and quiet: "\<And>c v. quietly (notifier c v)"
  shows "keeps (kept True E w0) (customer_create E notifier input actor source)"
proof -
  have one: "keeps (kept True E w0) (bindM (newId E ''c'') (\<lambda>customerId.
      bindM (customers_save (newCustomer customerId input)) (customer_onboard E notifier validated actor source)))"
    for validated
  proof (rule kept_from)
    fix w assume inv: "ledgerInv E w"
    let ?c = "newCustomer (''c-'' @ e_uuid E (w_uuid w)) input"
    let ?w2 = "w\<lparr>w_uuid := Suc (w_uuid w), w_customers := AList.update (c_id ?c) ?c (w_customers w)\<rparr>"
    have id: "c_id ?c = ''c-'' @ e_uuid E (w_uuid w)" by (simp add: newCustomer_def)
    have fresh: "map_of (w_customers w) (c_id ?c) = None"
      using fresh_prefix[OF good ledgerInvD(5)[OF inv] order.refl] id by simp
    have kw: "kept True E w ?w2"
      by (rule kept_customerRow[where c = ?c]) (use id drawn_new[of "''c-''" "[''c-'']" "w_uuid w" "Suc (w_uuid w)" E] in simp_all)
    have none: "found w (c_id ?c) v = None" for v
    proof (rule ccontr)
      assume "found w (c_id ?c) v \<noteq> None"
      then obtain s where "s \<in> set (tvals (w_states w))" "cvs_customerId s = c_id ?c"
        using stateFor_SomeD by blast
      with ledgerInvD(6)[OF inv] have "c_id ?c \<in> fst ` set (w_customers w)" by (fastforce simp: rowOk_def Let_def)
      with fresh show False by (metis map_of_eq_None_iff)
    qed
    then have "importable ?w2 (c_id ?c)"
      by (simp add: importable_def hasCustomer_def keys_update)
    then have "wp (customer_onboard E notifier validated actor source ?c) (\<lambda>_. kept True E w) (\<lambda>_. kept True E w) ?w2"
      by (intro wp_mono[OF kept_onboard[OF good _ quiet]]) (auto intro: ledger.trans[OF kw])
    then show "wp (bindM (newId E ''c'') (\<lambda>customerId. bindM (customers_save (newCustomer customerId input))
        (customer_onboard E notifier validated actor source))) (\<lambda>_. kept True E w) (\<lambda>_. kept True E w) w"
      by (simp add: wp_bind wp_newId customers_save_def wp_then wp_modify wp_ret)
  qed
  show ?thesis
    unfolding customer_create_def by (rule one kept_quietly[OF modifies_checks(4)] keeps_bind)+
qed

text \<open>A stored customer is written again.\<close>

lemma kept_saveCustomer:
  assumes "hasCustomer w0 (c_id c)" "keeps (kept A E w0) (f c)"
  shows "keeps (kept A E w0) (bindM (customers_save c) f)"
proof (rule keepsI)
  fix w assume k: "kept A E w0 w"
  have "kept A E w0 (w\<lparr>w_customers := AList.update (c_id c) c (w_customers w)\<rparr>)"
  proof (cases "ledgerInv E w0")
    case True
    have "kept A E w (w\<lparr>w_customers := AList.update (c_id c) c (w_customers w)\<rparr>)"
      by (rule kept_customerRow[where c = c]) (use hasCustomer_kept[OF k True assms(1)] in simp_all)
    with k show ?thesis by (rule ledger.trans)
  qed (simp add: kept_def)
  from keepsD[OF assms(2) this]
  show "wp (bindM (customers_save c) f) (\<lambda>_. kept A E w0) (\<lambda>_. kept A E w0) w"
    by (simp add: customers_save_def wp_bind wp_then wp_modify wp_ret)
qed

lemma kept_update_customer:
  assumes good: "goodIds E" and quiet: "\<And>c v. quietly (notifier c v)"
  shows "keeps (kept True E w0) (customer_update E notifier k input actor source)"
proof -
  have check: "keeps (kept True E w0) (customer_checkUpdate input existing)" for w0 existing
    unfolding customer_checkUpdate_def
    by (intro keeps_intros kept_quietly modifies_checks)
  have id: "c_id (applyChanges input c) = c_id c" for c by (simp add: applyChanges_def)
  show ?thesis
    unfolding customer_update_def customer_updated_def
    by (rule kept_requireCustomer kept_saveCustomer check kept_rolloutCurrent[OF good _ quiet] kept_intros keeps_intros
        | (simp only: id; fail) | (simp add: id; fail))+
qed

lemma kept_byReference:
  assumes "\<And>w c. hasCustomer w (c_id c) \<Longrightarrow> keeps (kept A E w) (g c)" "\<And>w. keeps (kept A E w) m"
  shows "keeps (kept A E w0) (bindM (customers_findAllByExternalRef ref) (\<lambda>found.
      case find P found of None \<Rightarrow> m | Some c \<Rightarrow> g c))"
    "keeps (kept A E w0) (bindM (bindM (customers_findAllByExternalRef ref) (\<lambda>found. retM (find P found)))
      (\<lambda>found. case found of None \<Rightarrow> m | Some c \<Rightarrow> g c))"
proof -
  have some: "keeps (kept A E w) (case find P (filter (\<lambda>c. c_externalRef c = ref) (tvals (w_customers w))) of
      None \<Rightarrow> m | Some c \<Rightarrow> g c)" if "ledgerInv E w" for w
  proof (cases "find P (filter (\<lambda>c. c_externalRef c = ref) (tvals (w_customers w)))")
    case (Some c)
    then have "c \<in> set (tvals (w_customers w))" by (auto dest: find_SomeD)
    then have "map_of (w_customers w) (c_id c) = Some c" by (simp add: tvals_map_of[OF ledgerInvD(4)[OF that]])
    then have "hasCustomer w (c_id c)" unfolding hasCustomer_def by (rule map_of_keys)
    with Some assms(1) show ?thesis by simp
  qed (simp add: assms(2))
  show read: "keeps (kept A E w0) (bindM (customers_findAllByExternalRef ref) (\<lambda>found.
      case find P found of None \<Rightarrow> m | Some c \<Rightarrow> g c))"
    unfolding customers_findAllByExternalRef_def by (rule kept_readAt) (rule some)
  then show "keeps (kept A E w0) (bindM (bindM (customers_findAllByExternalRef ref) (\<lambda>found. retM (find P found)))
      (\<lambda>found. case found of None \<Rightarrow> m | Some c \<Rightarrow> g c))"
    by (simp add: keeps_def bindM_def retM_def customers_findAllByExternalRef_def getsM_def)
qed

lemma kept_push:
  assumes good: "goodIds E" and quiet: "\<And>c v. quietly (notifier c v)"
  shows "keeps (kept True E w0) (upsertByExternalRef E notifier input actor)"
  unfolding upsertByExternalRef_def resolveByExternalRefAndRoles_def reactivateByExternalRef_def Let_def
  by (rule kept_byReference(2) kept_saveCustomer kept_create[OF good quiet] kept_update_customer[OF good quiet]
      kept_quietly[OF modifies_checks(1)] kept_quietly[OF modifies_checks(2)] kept_quietly[OF modifies_checks(3)]
      keeps_known kept_intros keeps_intros | (simp; fail))+

lemma kept_softDelete:
  assumes "hasCustomer w0 k"
  shows "keeps (kept A E w0) (customers_softDelete k at)"
proof (rule kept_from)
  fix w assume inv: "ledgerInv E w0" "ledgerInv E w" and kw: "kept A E w0 w"
  show "wp (customers_softDelete k at) (\<lambda>_. kept A E w) (\<lambda>_. kept A E w) w"
  proof (cases "map_of (w_customers w) k")
    case (Some c)
    then have "c_id c = k" by (rule wf_table_key[OF ledgerInvD(4)[OF inv(2)]])
    then have "kept A E w (w\<lparr>w_customers := AList.update k (c\<lparr>c_deletedAt := Some at\<rparr>) (w_customers w)\<rparr>)"
      by (intro kept_customerRow[where c = "c\<lparr>c_deletedAt := Some at\<rparr>"])
         (use hasCustomer_kept[OF kw inv(1) assms] in simp_all)
    with Some show ?thesis by (simp add: customers_softDelete_def customers_findById_def wp_bind wp_gets wp_modify)
  qed (simp add: customers_softDelete_def customers_findById_def wp_bind wp_gets wp_ret ledger.refl)
qed

lemma kept_deactivate: "keeps (kept A E w0) (deactivateByExternalRef E' ref aud actor)"
  unfolding deactivateByExternalRef_def
  by (rule kept_byReference(1) kept_softDelete keeps_known kept_intros keeps_intros | assumption)+

section \<open>Activation\<close>

lemma kept_supersede:
  assumes "map_of (w_states w0) k = Some s"
  shows "keeps (kept False E w0) (supersedeOpen s)"
  unfolding supersedeOpen_def
  by (rule keeps_lift keeps_intros kept_save[OF assms] | (simp add: supersede_Inr samePair_def; fail))+

lemma kept_carryOver:
  assumes good: "goodIds E" and c: "hasCustomer w0 c" and v: "outOfDraft w0 (v_id current)"
  shows "keeps (kept False E w0) (carryBlockOver E c current)"
proof (rule kept_from)
  fix w assume inv: "ledgerInv E w0" "ledgerInv E w" and kw: "kept False E w0 w"
  show "wp (carryBlockOver E c current) (\<lambda>_. kept False E w) (\<lambda>_. kept False E w) w"
  proof (cases "found w c (v_id current)")
    case None
    let ?s = "(newState (''cvs-'' @ e_uuid E (w_uuid w)) c (v_id current))
      \<lparr>cvs_deadlineAt := rolloutDeadlineFor current, cvs_carryOverBlocking := Some True\<rparr>"
    let ?w1 = "w\<lparr>w_uuid := Suc (w_uuid w), w_states := AList.update (cvs_id ?s) ?s (w_states w)\<rparr>"
    have "kept False E w ?w1"
      by (rule kept_insert[OF good, where s = ?s])
         (use None hasCustomer_kept[OF kw inv(1) c] published_kept[OF kw inv(1) v] in
           \<open>simp_all add: newState_def hasCustomer_def\<close>)
    then have "kept False E w (afterEvent E ev (afterEvent E ev' ?w1))" for ev ev'
      by (rule ledger.trans) (rule kept_frame, simp_all)
    with None show ?thesis
      by (simp add: carryBlockOver_def recordBlockCarriedOver_def wp_simps newState_def)
  next
    case (Some s)
    have "keeps (kept False E w) (whenM b (thenM (states_save (s\<lparr>cvs_carryOverBlocking := Some True\<rparr>))
        (recordBlockCarriedOver E c current)))" for b
      unfolding recordBlockCarriedOver_def
      by (rule keeps_intros kept_save[OF found_stored[OF inv(2) Some]] kept_intros | (simp add: samePair_def; fail))+
    from keepsD[OF this ledger.refl] Some show ?thesis
      by (simp add: carryBlockOver_def states_findByCustomerAndVersion_def wp_bind[of "getsM g" for g] wp_gets Let_def)
  qed
qed

lemma kept_retireVersion:
  assumes p: "map_of (w_versions w0) (v_id p) = Some p" "v_status p = PUBLISHED"
  shows "keeps (kept A E w0) (versions_save (p\<lparr>v_status := RETIRED\<rparr>))"
proof (rule kept_from)
  fix w assume inv: "ledgerInv E w0" "ledgerInv E w" and kw: "kept A E w0 w"
  let ?w = "w\<lparr>w_versions := AList.update (v_id (p\<lparr>v_status := RETIRED\<rparr>)) (p\<lparr>v_status := RETIRED\<rparr>) (w_versions w)\<rparr>"
  from kw inv(1) p obtain r where r: "map_of (w_versions w) (v_id p) = Some r" "sameVersion p r"
    unfolding kept_def frozen_def by force
  have "versionsKept E w ?w"
    by (rule versionsKept_write[where v = "p\<lparr>v_status := RETIRED\<rparr>"])
       (use r map_of_keys[OF r(1)] in \<open>auto simp: sameVersion_def\<close>)
  then have "kept A E w ?w" by (intro kept_versions) simp_all
  then show "wp (versions_save (p\<lparr>v_status := RETIRED\<rparr>)) (\<lambda>_. kept A E w) (\<lambda>_. kept A E w) w"
    by (auto simp: wp_simps ledger.refl split: option.split)
qed

lemma stored_version:
  "ledgerInv E w \<Longrightarrow> v \<in> set (tvals (w_versions w)) \<Longrightarrow> map_of (w_versions w) (v_id v) = Some v"
  using tvals_map_of[of v_id "w_versions w" v] ledgerInvD(2)[of E w] by (simp add: versionsInv_def)

lemma stored_open:
  assumes "ledgerInv E w" "s \<in> set (filter P (tvals (w_states w)))"
  shows "map_of (w_states w) (cvs_id s) = Some s" "hasCustomer w (cvs_customerId s)"
  using assms(2) tvals_map_of[OF ledgerInvD(3)[OF assms(1)], of s] ledgerInvD(6)[OF assms(1), of s]
  by (auto simp: rowOk_def Let_def hasCustomer_def)

lemma kept_activatePredecessor:
  assumes good: "goodIds E" and p: "map_of (w_versions w0) (v_id p) = Some p" "v_status p = PUBLISHED"
    and v: "outOfDraft w0 (v_id current)"
  shows "keeps (kept False E w0) (activatePredecessor E document current p)"
proof -
  have close: "keeps (kept False E w0) (bindM (states_findOpenByVersion (v_id p)) (\<lambda>openStates.
      forM openStates (\<lambda>s. bindM (supersedeOpen s) (\<lambda>wasBlocking.
        whenM wasBlocking (carryBlockOver E (cvs_customerId s) current)))))"
    unfolding states_findOpenByVersion_def
  proof (rule kept_readAt)
    fix w assume w: "ledgerInv E w0" "kept False E w0 w" "ledgerInv E w"
    show "keeps (kept False E w) (forM (filter (\<lambda>s. cvs_versionId s = v_id p \<and> cvs_state s \<in> set REPO_OPEN_STATES)
        (tvals (w_states w))) (\<lambda>s. bindM (supersedeOpen s) (\<lambda>wasBlocking.
        whenM wasBlocking (carryBlockOver E (cvs_customerId s) current))))"
    proof (rule keeps_forM)
      fix s assume "s \<in> set (filter (\<lambda>s. cvs_versionId s = v_id p \<and> cvs_state s \<in> set REPO_OPEN_STATES) (tvals (w_states w)))"
      note s = stored_open[OF w(3) this]
      show "keeps (kept False E w) (bindM (supersedeOpen s) (\<lambda>wasBlocking.
          whenM wasBlocking (carryBlockOver E (cvs_customerId s) current)))"
        by (intro keeps_bind keeps_when kept_supersede[OF s(1)] kept_carryOver good s(2) published_kept[OF w(2,1) v])
    qed
  qed
  show ?thesis
    unfolding activatePredecessor_def
    by (rule close kept_retireVersion[OF p] kept_intros keeps_intros)+
qed

lemma kept_activateOne:
  assumes good: "goodIds E"
  shows "keeps (kept False E w0) (activateOne E document)"
proof -
  have siblings: "keeps (kept False E w0) (bindM (versions_findByDocument (d_id document)) (\<lambda>siblings.
      (let predecessors = filter (\<lambda>v. v_id v \<noteq> v_id current \<and> v_status v = PUBLISHED \<and> v_validFrom v \<le> now) siblings in
       if predecessors = [] then retM ()
       else thenM (recordEvent E ev) (forM predecessors (activatePredecessor E document current)))))"
    if v: "outOfDraft w0 (v_id current)" for w0 current ev and now :: Date
    unfolding versions_findByDocument_def
  proof (rule kept_readAt)
    fix w assume w: "ledgerInv E w0" "kept False E w0 w" "ledgerInv E w"
    show "keeps (kept False E w) (let predecessors = filter (\<lambda>v. v_id v \<noteq> v_id current \<and> v_status v = PUBLISHED
          \<and> v_validFrom v \<le> now) (filter (\<lambda>v. v_documentId v = d_id document) (tvals (w_versions w))) in
       if predecessors = [] then retM ()
       else thenM (recordEvent E ev) (forM predecessors (activatePredecessor E document current)))"
      unfolding Let_def
      by (intro keeps_if keeps_ret keeps_then keeps_forM kept_intros kept_activatePredecessor good
          published_kept[OF w(2,1) v] stored_version[OF w(3)]) auto
  qed
  have current: "keeps (kept False E w0) (bindM (versions_findCurrentPublished ty aud now) (\<lambda>found.
      case found of None \<Rightarrow> retM () | Some current \<Rightarrow> g current))"
    if "\<And>w current. outOfDraft w (v_id current) \<Longrightarrow> keeps (kept False E w) (g current)" for ty aud now g
    unfolding versions_findCurrentPublished_def
  proof (rule kept_readAt)
    fix w assume w: "ledgerInv E w"
    show "keeps (kept False E w) (case findCurrentPublished w ty aud now of None \<Rightarrow> retM () | Some current \<Rightarrow> g current)"
      using that published_out[OF w] current_out by (auto intro!: keeps_intros)
  qed
  show ?thesis
    unfolding activateOne_def
    by (rule current siblings kept_logs(1) keeps_bind | assumption)+
qed

lemma kept_activation:
  assumes good: "goodIds E"
  shows "keeps (kept False E w0) (activation_run E)"
  unfolding activation_run_def by (rule kept_activateOne[OF good] kept_intros keeps_intros)+

section \<open>Publish\<close>

lemma list_all2_partner: "list_all2 P xs ys \<Longrightarrow> x \<in> set xs \<Longrightarrow> \<exists>y \<in> set ys. P x y"
  by (induction rule: list_all2_induct) auto

text \<open>The rows of a rollout: one for each customer.\<close>

lemma stateFor_rollout:
  assumes "list_all2 (\<lambda>s c. cvs_customerId s = c_id c \<and> cvs_versionId s = k) ss cs" "distinct (map c_id cs)" "s \<in> set ss"
  shows "stateFor ss (cvs_customerId s) (cvs_versionId s) = Some s"
  using assms
proof (induction ss cs rule: list_all2_induct)
  case (Cons x ss y cs)
  have "cvs_customerId s \<in> c_id ` set cs" if "s \<in> set ss" for s
    using list_all2_partner[OF Cons.hyps(2) that] by auto
  then show ?case using Cons by (cases "s = x") (auto simp: stateFor_def)
qed simp

lemma publish_ledger:
  assumes good: "goodIds E" and inv: "ledgerInv E w" and docs: "wf_table d_id (w_documents w)"
  shows "ledgerInv E (snd (publish E k admin w))"
proof (cases "mayPublish w k")
  case False
  with publish_error[OF False, of E admin] inv show ?thesis by auto
next
  case True
  note D = ledgerInvD[OF inv]
  have cat: "catalogInv w" using D(2,4) docs by (simp add: catalogInv_def versionsInv_def)
  from True obtain v d where v: "map_of (w_versions w) k = Some v" "validateForPublish v = Inr ()"
      and d: "map_of (w_documents w) (v_documentId v) = Some d"
    by (auto simp: mayPublish_def split: option.splits)
  obtain r w' where run: "publish E k admin w = (Inr r, w')" and pub: "published E v d admin w r w'"
    using publish_ok[OF good D(1) cat v d, of admin] by (auto simp: wp_def split: prod.splits sum.splits)
  let ?ids = "retiredBy w v"
  obtain new where rows: "tvals (w_states w') = map (closeRow ?ids) (tvals (w_states w)) @ new"
      and new: "list_all2 (\<lambda>s c. s = rolloutState (cvs_id s) v (w_now w) (wasBlocked w ?ids (c_id c)) c) new (targetsOf w d)"
    using pub unfolding published_def by blast
  have same: "w_customers w' = w_customers w" and cons: "consentInv E w'"
    using pub by (simp_all add: published_def)
  have vid: "v_id v = k" using wf_table_key[of v_id "w_versions w" k v] v(1) cat by (simp add: catalogInv_def)
  have kept: "versionsInv E w'" "frozen w w'"
    using versions.from_keeps[OF publish_kept, of E w k admin] run D(2) by (simp_all add: versionsKept_def)
  have le: "w_uuid w \<le> w_uuid w'"
    using modifies_area[OF modifies_publish[OF order.refl], of DocumentArea w E k admin] run by simp
  have look: "found w' c u = (case found w c u of Some s \<Rightarrow> Some (closeRow ?ids s) | None \<Rightarrow> stateFor new c u)" for c u
    by (simp add: rows stateFor_append_list stateFor_map closeRow_samePair split: option.split)
  have still: "accepted (found w' c u)" if "accepted (found w c u)" for c u
    using that by (auto simp: look accepted_def closeRow_def isOpen_iff)
  have "rowOk w' s'" if "s' \<in> set (tvals (w_states w'))" for s'
  proof -
    from that consider s where "s \<in> set (tvals (w_states w))" "s' = closeRow ?ids s" | "s' \<in> set new"
      unfolding rows by auto
    then show ?thesis
    proof cases
      case 1
      from D(6)[OF 1(1)] show ?thesis
        by (rule rowOk_mono)
           (use still outOfDraft_kept[OF kept(2)] closeRow_samePair 1(2) same in \<open>auto simp: look\<close>)
    next
      case 2
      then obtain c where c: "c \<in> set (targetsOf w d)"
          and s': "s' = rolloutState (cvs_id s') v (w_now w) (wasBlocked w ?ids (c_id c)) c"
        using list_all2_partner[OF new] by blast
      have pair: "cvs_customerId s' = c_id c" "cvs_versionId s' = v_id v"
        by (subst s', simp)+
      have "map_of (w_customers w) (c_id c) = Some c"
        using c tvals_map_of[OF D(4)] by (simp add: targetsOf_def)
      then have "cvs_customerId s' \<in> fst ` set (w_customers w')" unfolding pair same by (rule map_of_keys)
      moreover have "found w' (c_id c) (v_id v) = Some s' \<or> accepted (found w' (c_id c) (v_id v))"
      proof (cases "found w (c_id c) (v_id v)")
        case None
        have "list_all2 (\<lambda>s c. cvs_customerId s = c_id c \<and> cvs_versionId s = v_id v) new (targetsOf w d)"
          using new by (rule list_all2_mono) (metis rolloutState_simps(3,4))
        moreover have "distinct (map c_id (targetsOf w d))"
          using distinct_tvals[OF D(4)] tvals_key_inj[OF D(4)]
          by (auto simp: targetsOf_def distinct_map inj_on_def)
        ultimately have "stateFor new (c_id c) (v_id v) = Some s'"
          unfolding pair[symmetric] using 2 by (intro stateFor_rollout[where k = "cvs_versionId s'"])
        then show ?thesis using None by (simp add: look)
      next
        case (Some x)
        note x = stateFor_SomeD[OF Some]
        have "\<not> outOfDraft w (v_id v)" using v validate_draft[OF v(2)] vid by (simp add: outOfDraft_def)
        with D(6)[of x] x have "accepted (found w (c_id c) (v_id v))" by (simp add: rowOk_def Let_def)
        then show ?thesis using still by blast
      qed
      moreover have "outOfDraft w' (v_id v)"
        using pub v(1) vid by (simp add: published_def outOfDraft_def map_of_update publishedVersion_def retireRow_def)
      ultimately show ?thesis by (simp add: rowOk_def Let_def pair)
    qed
  qed
  then have "ledgerInv E w'"
    using cons kept(1) D(4) drawn_Suc[OF D(5) le] by (simp add: ledgerInv_def same)
  with run show ?thesis by simp
qed

end
