(* ===== verification/Reach_Inv.thy ===== *)
theory Reach_Inv
  imports Ledger_Rollout
begin

text \<open>
  The invariant of every world that the running server can reach: what the theorems about the services
  assume of the tables holds after any sequence of requests, webhooks, jobs and passing time that starts
  with empty tables, as long as no patch of a draft names another id.
\<close>

section \<open>The ledger\<close>

lemma wired_quiet:
  assumes "wired S"
  shows "quietly (rolloutMails S c v)" "quietly (callConfirmation (confirmationMails S) x)"
    "quietly (remindMails S c s v)" "quietly (reminderMails S c r v d)" "quietly (callNotifier (adminMails S) n)"
    "quietly (pdfUrls S k)"
  by (rule modifies_wiring[OF assms]; simp add: ledgerAreas_def)+

lemma kept_page:
  assumes good: "goodIds E"
  shows "(\<And>k. quietly (pdfUrl k)) \<Longrightarrow> keeps (kept False E w0) (page_get E pdfUrl token)"
    and "(\<And>x. quietly (callConfirmation conf x)) \<Longrightarrow> keeps (kept True E w0) (page_postAcceptance E conf token acc)"
    and "(\<And>n w0. keeps (kept False E w0) (callNotifier notify n)) \<Longrightarrow>
      keeps (kept False E w0) (page_postObjection E notify token obj)"
  unfolding page_get_def loadPage_def pageItem_def page_postAcceptance_def page_accept_def page_postObjection_def
    page_object_def Let_def
  by (rule kept_intros good keeps_intros | assumption
      | (rule kept_quietly, (rule modifies_resolveLink | rule modifies_pending); assumption?))+

lemma kept_controllers:
  assumes good: "goodIds E"
  shows "(\<And>x. quietly (callConfirmation conf x)) \<Longrightarrow> keeps (kept True E w0) (controller_accept E conf sel iab key req)"
    and "(\<And>n w0. keeps (kept False E w0) (callNotifier notify n)) \<Longrightarrow>
      keeps (kept False E w0) (controller_object E notify sel ob key req)"
    and "keeps (kept False E w0) (controller_notify E sel nb req)"
proof -
  have sel: "keeps (kept A E w0) (resolveIntegrationCustomer sel)" for A w0
    unfolding resolveIntegrationCustomer_def resolveAudienceKey_def
    by (rule kept_quietly, intro modifies_intros)
  show "(\<And>x. quietly (callConfirmation conf x)) \<Longrightarrow> keeps (kept True E w0) (controller_accept E conf sel iab key req)"
    and "(\<And>n w0. keeps (kept False E w0) (callNotifier notify n)) \<Longrightarrow>
      keeps (kept False E w0) (controller_object E notify sel ob key req)"
    and "keeps (kept False E w0) (controller_notify E sel nb req)"
    unfolding controller_accept_def controller_object_def controller_notify_def
    by (rule sel kept_intros good keeps_intros | assumption)+
qed

text \<open>A command that leaves the states, the acceptances and the customers alone.\<close>

lemma kept_other:
  assumes wired: "wired S" and c: "\<not> renames c" "footprint c \<inter> {StateArea, AcceptanceLog, CustomerArea} = {}"
  shows "keeps (kept A (sv_env S) w0) (perform S c)"
proof (rule ledger.keeps_local)
  fix w
  let ?w' = "snd (perform S c w)"
  have "agree t w ?w' \<and> w_uuid w \<le> w_uuid ?w'" if "t \<in> {StateArea, AcceptanceLog, CustomerArea}" for t
    using modifies_area[OF perform_modifies[OF wired], of t c w] c(2) that by blast
  from this[of StateArea] this[of AcceptanceLog] this[of CustomerArea]
  have "kept A (sv_env S) w ?w'"
    by (intro kept_versions versions.from_keeps perform_kept[OF wired c(1)]) simp_all
  then show "wp (perform S c) (\<lambda>_. kept A (sv_env S) w) (\<lambda>_. kept A (sv_env S) w) w" by (simp add: wp_snd)
qed

lemma perform_ledger:
  assumes wired: "wired S" and c: "\<not> renames c" "\<not> (\<exists>k admin. c = VersionPublish k admin)"
  shows "keeps (kept True (sv_env S) w0) (perform S c)"
proof (cases "footprint c \<inter> {StateArea, AcceptanceLog, CustomerArea} = {}")
  case False
  have good: "goodIds (sv_env S)" and out: "filesOutside (sv_files S)" "mailOutside (sv_mail S)"
    using wired by (simp_all add: wired_def)
  note quiet = wired_quiet[OF wired]
  have notify: "keeps (kept False (sv_env S) w0) (callNotifier (adminMails S) n)" for n w0
    by (rule kept_quietly[OF quiet(5)])
  have sweeps: "keeps (kept True (sv_env S) w0) (sweeper_job (sv_env S) (confirmationMails S))"
    unfolding sweeper_job_def
    by (rule keeps_then, rule keeps_weaken, rule kept_activation[OF good], rule kept_deadline[OF good quiet(2)])
  note accepting = kept_controllers(1)[OF good quiet(2)] kept_page(2)[OF good quiet(2)]
    kept_manual_record[OF good out(1) quiet(2)] kept_create[OF good quiet(1)] kept_update_customer[OF good quiet(1)]
    kept_push[OF good quiet(1)] kept_deactivate
  note other = kept_controllers(2)[OF good notify] kept_controllers(3)[OF good] kept_page(1)[OF good quiet(6)]
    kept_page(3)[OF good notify] kept_patch kept_remind[OF quiet(3)] kept_reminders[OF quiet(4)]
    kept_rolloutMails[OF quiet(1)] kept_delivery kept_poll[OF out(2)]
  show ?thesis
    by (insert False c, cases c; simp only: perform.simps; ((rule keeps_ignore)?, (rule sweeps accepting | rule keeps_weaken, rule other))?)
       simp_all
qed (rule kept_other[OF wired c(1)])

section \<open>Documents, customers, logs\<close>

definition docsInv :: "world \<Rightarrow> bool" where
  "docsInv w \<longleftrightarrow> wf_table d_id (w_documents w) \<and> uniqueDocuments w"

lemma docsInv_save:
  assumes inv: "docsInv w"
    and free: "\<not> list_ex (\<lambda>x. d_id x \<noteq> d_id d \<and> d_type x = d_type d \<and> d_audience x = d_audience d) (tvals (w_documents w))"
    and w': "w_documents w' = AList.update (d_id d) d (w_documents w)"
  shows "docsInv w'"
proof -
  have wf: "wf_table d_id (w_documents w)" and uniq: "uniqueDocuments w" using inv by (simp_all add: docsInv_def)
  have vals: "set (tvals (w_documents w')) = insert d {u \<in> set (tvals (w_documents w)). d_id u \<noteq> d_id d}"
    by (simp add: w' tvals_update[OF wf])
  have other: "\<not> (d_type x = d_type d \<and> d_audience x = d_audience d)"
    if "x \<in> set (tvals (w_documents w))" "d_id x \<noteq> d_id d" for x
    using free that by (auto simp: list_ex_iff)
  have "uniqueDocuments w'"
    unfolding uniqueDocuments_def vals
  proof (intro ballI impI)
    fix x y assume x: "x \<in> insert d {u \<in> set (tvals (w_documents w)). d_id u \<noteq> d_id d}"
      and y: "y \<in> insert d {u \<in> set (tvals (w_documents w)). d_id u \<noteq> d_id d}"
      and xy: "d_type x = d_type y \<and> d_audience x = d_audience y"
    show "x = y"
    proof (cases "x = d \<or> y = d")
      case True
      with x y xy other[of x] other[of y] show ?thesis by auto
    next
      case False
      with x y xy uniq show ?thesis unfolding uniqueDocuments_def by blast
    qed
  qed
  with wf show ?thesis by (simp add: docsInv_def w' wf_table_update)
qed

lemma docsInv_frame: "docsInv w \<Longrightarrow> w_documents w' = w_documents w \<Longrightarrow> docsInv w'"
  by (simp add: docsInv_def uniqueDocuments_def)

lemma document_create_keeps: "keeps docsInv (document_create E input admin)"
proof -
  have save: "keeps docsInv (documents_save d)" for d
    by (rule keepsI) (auto simp: documents_save_def wp_bind wp_gets wp_throw wp_then wp_modify wp_ret intro: docsInv_save)
  have quiet: "keeps docsInv m" if "modifies {EventLog} m" for m :: "'a M"
    by (rule modifies_inv[OF that], erule docsInv_frame) (auto dest: change_agree[where t = DocumentArea])
  show ?thesis
    unfolding document_create_def
    by (rule keeps_if keeps_ret keeps_throw save keeps_bind keeps_then keeps_require | (rule quiet, intro modifies_intros, simp?; fail))+
qed

lemma perform_docs:
  assumes "wired S"
  shows "keeps docsInv (perform S c)"
proof (cases "DocumentArea \<in> footprint c")
  case True
  then show ?thesis by (cases c) (auto intro: keeps_ignore document_create_keeps)
next
  case False
  show ?thesis
    by (rule modifies_inv[OF perform_modifies[OF assms]], erule docsInv_frame)
       (use False in \<open>auto dest: change_agree[where t = DocumentArea]\<close>)
qed

lemma quiet_wired:
  assumes "wired S"
  shows "quietNotifier (rolloutMails S)"
proof -
  have "sameCore w (snd (rolloutMails S c v w))" for c v w
  proof -
    let ?w' = "snd (rolloutMails S c v w)"
    have c: "change mailAreas w ?w'" using modifies_wiring(1)[OF assms order.refl] by (simp add: modifies_def)
    then have "agree t w ?w'" if "t \<notin> mailAreas" for t using that by (rule change_agree)
    from this[of DocumentArea] this[of VersionArea] this[of CustomerArea] this[of StateArea] this[of AcceptanceLog]
      this[of ObjectionLog] this[of NotificationLog] this[of IdempotencyArea] this[of AuditLog] this[of EscalationLog]
      this[of AudienceArea] this[of TypeArea] this[of TemplateArea] this[of SignedArea] this[of HitArea]
    show ?thesis using c by (simp add: sameCore_def change_def)
  qed
  then show ?thesis by (simp add: quietNotifier_def)
qed

lemma perform_customers:
  assumes wired: "wired S"
  shows "keeps (customersInv (sv_env S)) (perform S c)"
proof (cases "CustomerArea \<in> footprint c")
  case True
  have "goodIds (sv_env S)" using wired by (simp add: wired_def)
  note writes = create_keeps[OF this quiet_wired[OF wired]] update_keeps[OF this quiet_wired[OF wired]]
    upsert_keeps[OF this quiet_wired[OF wired]] deactivate_keeps
  from True show ?thesis by (cases c) (auto intro: keeps_ignore writes)
next
  case False
  show ?thesis
  proof (rule modifies_inv[OF perform_modifies[OF wired]])
    fix w w' assume w: "change (footprint c) w w'" "customersInv (sv_env S) w"
    from change_agree[OF w(1) False] w show "customersInv (sv_env S) w'"
      by (auto simp: change_def intro: customersInv_frame)
  qed
qed

text \<open>An entry of a log gets an id that was drawn just before.\<close>

definition logsAfter :: "env \<Rightarrow> nat \<Rightarrow> world \<Rightarrow> bool" where
  "logsAfter E n w \<longleftrightarrow> logsInv E w \<and> n < w_uuid w"

lemma logsInv_frame:
  "logsInv E w \<Longrightarrow> w_notifications w' = w_notifications w \<Longrightarrow> w_objections w' = w_objections w \<Longrightarrow>
    w_uuid w \<le> w_uuid w' \<Longrightarrow> logsInv E w'"
  using drawn_Suc[of "w_notifications w" E "[''n-'', []]" "w_uuid w" "w_uuid w'"]
    drawn_Suc[of "w_objections w" E "[''o-'']" "w_uuid w" "w_uuid w'"]
  by (simp add: logsInv_def)

lemma logs_modifies:
  assumes "modifies T m" "NotificationLog \<notin> T" "ObjectionLog \<notin> T"
  shows "keeps (logsInv E) m" "keeps (logsAfter E n) m"
proof -
  have step: "logsInv E w' \<and> w_uuid w \<le> w_uuid w'" if "change T w w'" "logsInv E w" for w w'
    using logsInv_frame[OF that(2), of w'] change_agree[OF that(1) assms(2)] change_agree[OF that(1) assms(3)] that(1)
    by (simp add: change_def)
  then show "keeps (logsInv E) m" by (intro modifies_inv[OF assms(1)]) blast
  show "keeps (logsAfter E n) m"
    by (rule modifies_inv[OF assms(1)]) (use step in \<open>fastforce simp: logsAfter_def\<close>)
qed

lemma logs_draw:
  assumes "\<And>n. keeps (logsAfter E n) (f (p @ ''-'' @ e_uuid E n))"
  shows "keeps (logsInv E) (bindM (ids_next E p) f)"
proof (rule keepsI)
  fix w assume inv: "logsInv E w"
  have "logsAfter E (w_uuid w) (w\<lparr>w_uuid := Suc (w_uuid w)\<rparr>)"
    using logsInv_frame[OF inv, of "w\<lparr>w_uuid := Suc (w_uuid w)\<rparr>"] by (simp add: logsAfter_def)
  from keepsD[OF assms this] show "wp (bindM (ids_next E p) f) (\<lambda>_. logsInv E) (\<lambda>_. logsInv E) w"
    by (auto simp: wp_simps logsAfter_def elim: wp_mono)
qed

lemma logs_drawUUID:
  assumes "\<And>n. keeps (logsAfter E n) (f (e_uuid E n))"
  shows "keeps (logsInv E) (bindM (randomUUID E) f)"
proof (rule keepsI)
  fix w assume inv: "logsInv E w"
  have "logsAfter E (w_uuid w) (w\<lparr>w_uuid := Suc (w_uuid w)\<rparr>)"
    using logsInv_frame[OF inv, of "w\<lparr>w_uuid := Suc (w_uuid w)\<rparr>"] by (simp add: logsAfter_def)
  from keepsD[OF assms this] show "wp (bindM (randomUUID E) f) (\<lambda>_. logsInv E) (\<lambda>_. logsInv E) w"
    by (auto simp: wp_simps logsAfter_def elim: wp_mono)
qed

lemma logs_append:
  "ne_id ne \<in> {''n'' @ ''-'' @ e_uuid E n, e_uuid E n} \<Longrightarrow> keeps (logsAfter E n) (notifications_append ne)"
  "o_id ob = ''o'' @ ''-'' @ e_uuid E n \<Longrightarrow> keeps (logsAfter E n) (objections_append ob)"
proof -
  have new: "n < m \<Longrightarrow> ''n-'' @ e_uuid E n \<in> drawnIds E [''n-'', []] m" "n < m \<Longrightarrow> e_uuid E n \<in> drawnIds E [''n-'', []] m"
    "n < m \<Longrightarrow> ''o-'' @ e_uuid E n \<in> drawnIds E [''o-''] m" for m
    using drawn_new[of "''n-''" "[''n-'', []]" n m E] drawn_new[of "[]" "[''n-'', []]" n m E]
      drawn_new[of "''o-''" "[''o-'']" n m E] by simp_all
  show "ne_id ne \<in> {''n'' @ ''-'' @ e_uuid E n, e_uuid E n} \<Longrightarrow> keeps (logsAfter E n) (notifications_append ne)"
    "o_id ob = ''o'' @ ''-'' @ e_uuid E n \<Longrightarrow> keeps (logsAfter E n) (objections_append ob)"
    using new by (auto intro!: keepsI simp: notifications_append_def objections_append_def wp_simps logsAfter_def logsInv_def
        keys_update)
qed

abbreviation offLogs :: "'a M \<Rightarrow> bool" where
  "offLogs m \<equiv> modifies (- {NotificationLog, ObjectionLog}) m"

lemma logs_off: "offLogs m \<Longrightarrow> keeps (logsInv E) m" "offLogs m \<Longrightarrow> keeps (logsAfter E n) m"
  using logs_modifies[of "- {NotificationLog, ObjectionLog}" m] by simp_all

lemma logs_notify: "keeps (logsInv E) (notification_notify E input)"
  unfolding notification_notify_def Let_def assessPlausibility_def
  by (rule logs_draw logs_append keeps_if keeps_when keeps_then keeps_bind
      | (rule logs_off, intro modifies_intros, simp?; fail) | (simp; fail))+

lemma logs_object:
  assumes "\<And>n. offLogs (callNotifier notify n)"
  shows "keeps (logsInv E) (objection_object E notify input)"
  unfolding objection_object_def Let_def recordLateObjection_def
  by (rule keeps_lift_rethrow keeps_option logs_append | (rule logs_off, intro modifies_intros assms, simp?; fail)
      | rule logs_draw keeps_if keeps_when keeps_then keeps_bind keeps_ret | (simp; fail))+

lemma logs_recordDelivery: "keeps (logsInv E) (recordDelivery E ref)"
  unfolding recordDelivery_def Let_def
  by (rule keeps_option keeps_if keeps_when logs_append | (rule logs_off, intro modifies_intros, simp?; fail)
      | rule logs_drawUUID keeps_then keeps_bind keeps_ret | (simp; fail))+

lemma logs_page:
  shows "(\<And>k. offLogs (pdfUrl k)) \<Longrightarrow> keeps (logsInv E) (page_get E pdfUrl token)"
    and "(\<And>n. offLogs (callNotifier notify n)) \<Longrightarrow> keeps (logsInv E) (page_postObjection E notify token obj)"
  unfolding page_get_def loadPage_def pageItem_def page_postObjection_def page_object_def Let_def
  by (rule logs_notify logs_object keeps_option keeps_if keeps_mapM | assumption
      | (rule logs_off, (intro modifies_intros | rule modifies_pending); simp?; fail)
      | rule keeps_then keeps_bind keeps_ret)+

lemma logs_controllers:
  shows "(\<And>n. offLogs (callNotifier notify n)) \<Longrightarrow> keeps (logsInv E) (controller_object E notify sel ob key req)"
    and "keeps (logsInv E) (controller_notify E sel nb req)"
proof -
  have sel: "keeps (logsInv E) (resolveIntegrationCustomer sel)"
    unfolding resolveIntegrationCustomer_def resolveAudienceKey_def by (rule logs_off, intro modifies_intros)
  show "(\<And>n. offLogs (callNotifier notify n)) \<Longrightarrow> keeps (logsInv E) (controller_object E notify sel ob key req)"
    and "keeps (logsInv E) (controller_notify E sel nb req)"
    unfolding controller_object_def controller_notify_def
    by (rule sel logs_notify logs_object keeps_if keeps_require | assumption
        | (rule logs_off, intro modifies_intros, simp?; fail) | rule keeps_then keeps_bind keeps_ret)+
qed

lemma logs_delivery:
  shows "keeps (logsInv E) (delivery_handle E event)"
    and "mailOutside P \<Longrightarrow> keeps (logsInv E) (pollPendingDeliveries E P older)"
proof -
  show "keeps (logsInv E) (delivery_handle E event)"
    unfolding delivery_handle_def recordBounce_def Let_def
    by (rule logs_recordDelivery keeps_if | (rule logs_off, intro modifies_intros; simp))+
  show "mailOutside P \<Longrightarrow> keeps (logsInv E) (pollPendingDeliveries E P older)"
    unfolding pollPendingDeliveries_def Let_def
    by (rule logs_recordDelivery keeps_option keeps_when keeps_forM
        | (rule logs_off, (intro modifies_intros | rule modifies_provider); auto?; fail)
        | rule keeps_then keeps_bind keeps_ret)+
qed

lemma perform_logs:
  assumes wired: "wired S"
  shows "keeps (logsInv (sv_env S)) (perform S c)"
proof (cases "NotificationLog \<in> footprint c \<or> ObjectionLog \<in> footprint c")
  case True
  have admin: "offLogs (callNotifier (adminMails S) n)" and pdf: "offLogs (pdfUrls S k)" for n k
    by (rule modifies_wiring[OF wired])+
  have mail: "mailOutside (sv_mail S)" using wired by (simp add: wired_def)
  note writes = logs_controllers(1)[OF admin] logs_controllers(2) logs_page(1)[OF pdf] logs_page(2)[OF admin]
    logs_delivery(1) logs_delivery(2)[OF mail]
  from True show ?thesis by (cases c) (auto intro: keeps_ignore writes)
next
  case False
  then show ?thesis by (intro logs_modifies[OF perform_modifies[OF wired]]) simp_all
qed

section \<open>Every reachable world\<close>

definition soundWorld :: "env \<Rightarrow> world \<Rightarrow> bool" where
  "soundWorld E w \<longleftrightarrow> ledgerInv E w \<and> docsInv w \<and> customersInv E w \<and> logsInv E w"

lemma snd_ignore: "snd (ignore m w) = snd (m w)"
  by (simp add: ignore_def thenM_def bindM_def retM_def split: prod.splits sum.splits)

lemma sound_start: "soundWorld E (emptyWorld now)"
  by (simp add: soundWorld_def ledgerInv_def consentInv_def versionsInv_def docsInv_def customersInv_def logsInv_def
      uniqueDocuments_def oneEffective_def emptyWorld_def tvals_def effectiveFor_def)

lemma sound_clock: "soundWorld E w \<Longrightarrow> soundWorld E (w\<lparr>w_now := t\<rparr>)"
  by (simp add: soundWorld_def ledgerInv_def consentInv_def versionsInv_def docsInv_def customersInv_def logsInv_def
      uniqueDocuments_def rowOk_def outOfDraft_def Let_def)

lemma sound_perform:
  assumes wired: "wired S" and c: "\<not> renames c"
  shows "keeps (soundWorld (sv_env S)) (perform S c)"
proof (rule keepsI)
  fix w assume w: "soundWorld (sv_env S) w"
  let ?w' = "snd (perform S c w)"
  have rest: "docsInv ?w'" "customersInv (sv_env S) ?w'" "logsInv (sv_env S) ?w'"
    using keeps_snd[OF perform_docs[OF wired]] keeps_snd[OF perform_customers[OF wired]]
      keeps_snd[OF perform_logs[OF wired]] w by (simp_all add: soundWorld_def)
  have "ledgerInv (sv_env S) ?w'"
  proof (cases "\<exists>k admin. c = VersionPublish k admin")
    case True
    then obtain k admin where c: "c = VersionPublish k admin" by blast
    have "ledgerInv (sv_env S) (snd (publish (sv_env S) k admin w))"
      using publish_ledger wired w by (simp add: wired_def soundWorld_def docsInv_def)
    then show ?thesis by (simp add: c snd_ignore)
  next
    case False
    from ledger.from_keeps[OF perform_ledger[OF wired c False]] w
    show ?thesis by (simp add: kept_def soundWorld_def)
  qed
  with rest show "wp (perform S c) (\<lambda>_. soundWorld (sv_env S)) (\<lambda>_. soundWorld (sv_env S)) w"
    by (simp add: wp_snd soundWorld_def)
qed

text \<open>C4: The tables are consistent in every world the server reaches.  From empty tables, after any
  sequence of requests, integration calls, webhooks, jobs and passing time, whatever the mail provider and
  the file storage answer: ids are unique in every table and were all drawn before; there is at most one effective
  acceptance per customer and version, and one exists exactly when the state of the pair is ACCEPTED;
  every state belongs to an existing customer and is the one the services find for its pair, or that
  one is ACCEPTED; its version has left the draft unless the pair is ACCEPTED (an acceptance recorded by hand may be of a
  draft); at most one document has a
  given type and audience; no two customers share an external reference in one audience.  Only a
  patch of a draft that names another id is excluded.\<close>

theorem reachable_consistent:
  assumes "wired S" "reach S (\<lambda>c. \<not> renames c) w"
  shows "goodWorld (sv_env S) w \<and> customersInv (sv_env S) w \<and> logsInv (sv_env S) w
     \<and> (\<forall>s \<in> set (tvals (w_states w)). rowOk w s)"
proof -
  have "soundWorld (sv_env S) w"
    using assms(2) sound_start sound_perform[OF assms(1)] sound_clock by (rule reach_invariant)
  then show ?thesis
    by (simp add: soundWorld_def goodWorld_def ledgerInv_def catalogInv_def docsInv_def versionsInv_def)
qed

text \<open>An audience, a document type and a document are created.\<close>

definition reached_ex :: world where
  "reached_ex = snd (perform services_ex (DocumentCreate \<lparr>cdi_type = ''agb'', cdi_audience = ''b2b'', cdi_name = ''AGB''\<rparr> ''a'')
     (snd (perform services_ex (TypeCreate ''agb'' ''AGB'' None ''a'')
       (snd (perform services_ex (AudienceCreate ''b2b'' ''B2B'' ''a'') (emptyWorld 100))))))"

lemma reached_ex: "reach services_ex (\<lambda>c. \<not> renames c) reached_ex" "w_documents reached_ex \<noteq> []"
proof -
  show "reach services_ex (\<lambda>c. \<not> renames c) reached_ex"
    unfolding reached_ex_def by (rule reach.further[rotated], rule step.request, simp)+ (rule reach.start)
  have "wp (thenM (perform services_ex (AudienceCreate ''b2b'' ''B2B'' ''a''))
       (thenM (perform services_ex (TypeCreate ''agb'' ''AGB'' None ''a''))
        (perform services_ex (DocumentCreate \<lparr>cdi_type = ''agb'', cdi_audience = ''b2b'', cdi_name = ''AGB''\<rparr> ''a''))))
      (\<lambda>_ w. w_documents w \<noteq> []) (\<lambda>_ _. False) (emptyWorld 100)"
    by (simp add: ignore_def audience_create_def documentType_create_def document_create_def findByTypeAndAudience_def appendAudit_def wp_simps services_ex_def
          emptyWorld_def tvals_def assertValidEntityKey_def isValidEntityKey_def isSlugChar_def
          trim_def isSpaceChar_def)
  then show "w_documents reached_ex \<noteq> []"
    by (auto simp: reached_ex_def wp_def thenM_def bindM_def split: prod.splits sum.splits)
qed

lemma reachable_consistent_witness:
  "w_documents reached_ex \<noteq> [] \<and> goodWorld (sv_env services_ex) reached_ex"
  using reachable_consistent[OF wired_ex reached_ex(1)] reached_ex(2) by simp

end
