(* ===== verification/Plugins.thy ===== *)
theory Plugins
  imports Email_Core
begin

text \<open>
  The plugin registry (\<open>src/src/plugins/registry\<close>, \<open>src/src/plugin-sdk/plugin.ts\<close>): the manifest and the
  shape of a plugin, the discovery over installed packages and scanned directories, the selection of the
  active plugins from the environment, and the context a plugin is created with.

  The file system, \<open>require\<close> and the environment are the record \<open>host\<close>: \<open>None\<close> is a call that throws.
  A value that comes from outside is a \<open>jsValue\<close>; the functions in it are of a type of their own.
\<close>

section \<open>Values from outside\<close>

datatype 'f jsValue =
    JsUndefined | JsNull | JsBool bool | JsNum int | JsString string | JsFunction 'f
  | JsArray "'f jsValue list" | JsObject "(string \<times> 'f jsValue) list"

text \<open>\<open>v.name\<close> on a value that is neither \<open>null\<close> nor \<open>undefined\<close>; only objects have the fields read here.\<close>

fun jsField :: "string \<Rightarrow> 'f jsValue \<Rightarrow> 'f jsValue" where
  "jsField name (JsObject fs) = orElse (map_of fs name) JsUndefined"
| "jsField name _ = JsUndefined"

text \<open>\<open>typeof v === 'object' && v !== null\<close>.\<close>

fun isObject :: "'f jsValue \<Rightarrow> bool" where
  "isObject (JsObject _) = True"
| "isObject (JsArray _) = True"
| "isObject _ = False"

text \<open>\<open>!v\<close>.\<close>

fun isFalsy :: "'f jsValue \<Rightarrow> bool" where
  "isFalsy JsUndefined = True"
| "isFalsy JsNull = True"
| "isFalsy (JsBool b) = (\<not> b)"
| "isFalsy (JsNum n) = (n = 0)"
| "isFalsy (JsString s) = (s = [])"
| "isFalsy _ = False"

text \<open>The own keys a spread \<open>{ ...v }\<close> copies.\<close>

fun spreadKeys :: "'f jsValue \<Rightarrow> string list" where
  "spreadKeys (JsObject fs) = map fst fs"
| "spreadKeys (JsArray xs) = map decimalNat [0..<length xs]"
| "spreadKeys (JsString s) = map decimalNat [0..<length s]"
| "spreadKeys _ = []"

text \<open>The order of \<open>Object.keys\<close>: the array indices in ascending order, then the rest as inserted.\<close>

definition isArrayIndex :: "string \<Rightarrow> bool" where
  "isArrayIndex s \<longleftrightarrow> s \<noteq> [] \<and> list_all isJsonDigit s \<and> (s = ''0'' \<or> hd s \<noteq> CHR ''0'')
     \<and> decimalValue s < 4294967295"

definition objectKeys :: "string list \<Rightarrow> string list" where
  "objectKeys ks = sort_key decimalValue (filter isArrayIndex ks) @ filter (Not \<circ> isArrayIndex) ks"

definition mergedKeys :: "string list \<Rightarrow> string list \<Rightarrow> string list" where
  "mergedKeys ks ls = ks @ filter (\<lambda>l. l \<notin> set ks) ls"

section \<open>Paths\<close>

text \<open>\<open>String.prototype.split\<close> with a separator of one character.\<close>

fun splitOn :: "char \<Rightarrow> string \<Rightarrow> string list" where
  "splitOn c [] = [[]]"
| "splitOn c (x # xs) =
    (if x = c then [] # splitOn c xs
     else case splitOn c xs of [] \<Rightarrow> [[x]] | p # ps \<Rightarrow> (x # p) # ps)"

text \<open>The segments of a POSIX path without \<open>.\<close> and with \<open>..\<close> resolved; the second argument holds the
  segments so far, the last one first.\<close>

fun normalSegments :: "bool \<Rightarrow> string list \<Rightarrow> string list \<Rightarrow> string list" where
  "normalSegments absolute acc [] = rev acc"
| "normalSegments absolute acc (s # ss) =
    (if s = [] \<or> s = ''.'' then normalSegments absolute acc ss
     else if s = ''..'' then
       (case acc of
          [] \<Rightarrow> normalSegments absolute (if absolute then [] else [s]) ss
        | p # ps \<Rightarrow> normalSegments absolute (if p = ''..'' then s # acc else ps) ss)
     else normalSegments absolute (s # acc) ss)"

definition isAbsolute :: "string \<Rightarrow> bool" where
  "isAbsolute p \<longleftrightarrow> (case p of [] \<Rightarrow> False | c # _ \<Rightarrow> c = CHR ''/'')"

definition normalizePath :: "string \<Rightarrow> string" where
  "normalizePath p =
    (if p = [] then ''.''
     else let body = joinWith ''/'' (normalSegments (isAbsolute p) [] (splitOn (CHR ''/'') p));
              trailing = (if last p = CHR ''/'' then ''/'' else [])
          in if isAbsolute p then (if body = [] then ''/'' else ''/'' @ body @ trailing)
             else (if body = [] then ''.'' @ trailing else body @ trailing))"

definition joinPath :: "string list \<Rightarrow> string" where
  "joinPath ps = normalizePath (joinWith ''/'' (filter (\<lambda>p. p \<noteq> []) ps))"

text \<open>\<open>resolve(a, b)\<close> in the working directory.\<close>

definition resolvePath :: "string \<Rightarrow> string \<Rightarrow> string \<Rightarrow> string" where
  "resolvePath cwd a b =
    (let p = (if isAbsolute b then b else if isAbsolute a then a @ ''/'' @ b else cwd @ ''/'' @ a @ ''/'' @ b)
     in ''/'' @ joinWith ''/'' (normalSegments True [] (splitOn (CHR ''/'') p)))"

section \<open>The plugin contract\<close>

datatype PluginKind =
  EmailProvider | FileStorageKind | AdminAuth | AcceptancePageKind | AdminNotificationKind

fun kindName :: "PluginKind \<Rightarrow> string" where
  "kindName EmailProvider = ''email-provider''"
| "kindName FileStorageKind = ''file-storage''"
| "kindName AdminAuth = ''admin-auth''"
| "kindName AcceptancePageKind = ''acceptance-page''"
| "kindName AdminNotificationKind = ''admin-notification''"

definition CLICKWRAP_PLUGIN_KINDS :: "PluginKind list" where
  "CLICKWRAP_PLUGIN_KINDS =
    [EmailProvider, FileStorageKind, AdminAuth, AcceptancePageKind, AdminNotificationKind]"

record PluginManifest =
  mf_kind :: PluginKind
  mf_key :: string

record 'f plugin =
  pl_kind :: PluginKind
  pl_key :: string
  pl_create :: 'f
  pl_module :: "'f option"

datatype bootError =
    HostError
  | InvalidManifest string
  | NotAPlugin string
  | ContradictsManifest string
  | DuplicatePlugin PluginKind string string
  | NoManifest string
  | UnknownPlugin string string PluginKind "string list"
  | MissingEnv string PluginKind string
  | BadDefinition string

text \<open>\<open>/^[a-z0-9][a-z0-9-]*$/\<close>.\<close>

definition isKeyStart :: "char \<Rightarrow> bool" where
  "isKeyStart c \<longleftrightarrow> isJsonDigit c \<or> (let n = of_char c :: nat in 97 \<le> n \<and> n \<le> 122)"

definition KEY_PATTERN :: "string \<Rightarrow> bool" where
  "KEY_PATTERN s \<longleftrightarrow>
    (case s of [] \<Rightarrow> False | c # cs \<Rightarrow> isKeyStart c \<and> list_all (\<lambda>d. isKeyStart d \<or> d = CHR ''-'') cs)"

text \<open>\<open>isPluginKind\<close>: the kind a value names.\<close>

definition isPluginKind :: "'f jsValue \<Rightarrow> PluginKind option" where
  "isPluginKind v =
    (case v of JsString s \<Rightarrow> find (\<lambda>k. kindName k = s) CLICKWRAP_PLUGIN_KINDS | _ \<Rightarrow> None)"

text \<open>\<open>isClickwrapPlugin\<close>: the plugin a value is, if it has the shape of one.\<close>

definition isClickwrapPlugin :: "'f jsValue \<Rightarrow> 'f plugin option" where
  "isClickwrapPlugin v =
    (if \<not> isObject v then None
     else case (isPluginKind (jsField ''kind'' v), jsField ''key'' v, jsField ''create'' v, jsField ''module'' v) of
       (Some kind, JsString key, JsFunction create, JsUndefined) \<Rightarrow>
         if KEY_PATTERN key then Some \<lparr>pl_kind = kind, pl_key = key, pl_create = create, pl_module = None\<rparr> else None
     | (Some kind, JsString key, JsFunction create, JsFunction m) \<Rightarrow>
         if KEY_PATTERN key then Some \<lparr>pl_kind = kind, pl_key = key, pl_create = create, pl_module = Some m\<rparr> else None
     | _ \<Rightarrow> None)"

text \<open>\<open>definePlugin\<close> of an object; the copy it freezes is the plugin.\<close>

definition definePlugin :: "'f jsValue \<Rightarrow> bootError + 'f plugin" where
  "definePlugin v =
    (case isPluginKind (jsField ''kind'' v) of
       None \<Rightarrow> Inl (BadDefinition ''kind'')
     | Some kind \<Rightarrow>
       (case jsField ''key'' v of
          JsString key \<Rightarrow>
            if \<not> KEY_PATTERN key then Inl (BadDefinition ''key'')
            else (case jsField ''create'' v of
                JsFunction create \<Rightarrow>
                  Inr \<lparr>pl_kind = kind, pl_key = key, pl_create = create,
                       pl_module = (case jsField ''module'' v of JsFunction m \<Rightarrow> Some m | _ \<Rightarrow> None)\<rparr>
              | _ \<Rightarrow> Inl (BadDefinition ''create''))
        | _ \<Rightarrow> Inl (BadDefinition ''key'')))"

section \<open>The registry\<close>

text \<open>\<open>Map<kind, Map<key, plugin>>\<close>.\<close>

type_synonym 'f registry = "(PluginKind \<times> 'f plugin table) list"

definition pluginsOf :: "'f registry \<Rightarrow> PluginKind \<Rightarrow> 'f plugin table" where
  "pluginsOf reg kind = orElse (map_of reg kind) []"

definition register :: "'f plugin \<Rightarrow> string \<Rightarrow> 'f registry \<Rightarrow> bootError + 'f registry" where
  "register p source reg =
    (let byKey = pluginsOf reg (pl_kind p)
     in if map_of byKey (pl_key p) \<noteq> None then Inl (DuplicatePlugin (pl_kind p) (pl_key p) source)
        else Inr (AList.update (pl_kind p) (AList.update (pl_key p) p byKey) reg))"

definition registry_keys :: "'f registry \<Rightarrow> PluginKind \<Rightarrow> string list" where
  "registry_keys reg kind = sort (map fst (pluginsOf reg kind))"

definition registry_select :: "'f registry \<Rightarrow> PluginKind \<Rightarrow> string \<Rightarrow> string \<Rightarrow> bootError + 'f plugin" where
  "registry_select reg kind key envVar =
    (case map_of (pluginsOf reg kind) key of
       None \<Rightarrow> Inl (UnknownPlugin envVar key kind (registry_keys reg kind))
     | Some p \<Rightarrow> Inr p)"

section \<open>Discovery\<close>

record 'f host =
  h_env :: "string \<Rightarrow> string option"
  h_cwd :: string
  h_exists :: "string \<Rightarrow> bool"
  h_readJson :: "string \<Rightarrow> 'f jsValue option"
  h_isDirectory :: "string \<Rightarrow> bool option"
  h_readdir :: "string \<Rightarrow> string list option"
  h_require :: "string \<Rightarrow> 'f jsValue option"

definition tryHost :: "'a option \<Rightarrow> bootError + 'a" where
  "tryHost x = (case x of None \<Rightarrow> Inl HostError | Some y \<Rightarrow> Inr y)"

text \<open>The \<open>for ... of\<close> loops of the discovery: the first error ends the boot.\<close>

fun foldR :: "('a \<Rightarrow> 's \<Rightarrow> 'e + 's) \<Rightarrow> 'a list \<Rightarrow> 's \<Rightarrow> 'e + 's" where
  "foldR f [] s = Inr s"
| "foldR f (x # xs) s = bindR (f x s) (foldR f xs)"

definition readPackageJson :: "'f host \<Rightarrow> string \<Rightarrow> bootError + 'f jsValue" where
  "readPackageJson H dir =
    (let path = joinPath [dir, ''package.json'']
     in if \<not> h_exists H path then Inr JsUndefined else tryHost (h_readJson H path))"

definition parseManifest :: "'f jsValue \<Rightarrow> string \<Rightarrow> bootError + PluginManifest" where
  "parseManifest raw origin =
    (if \<not> isObject raw then Inl (InvalidManifest origin)
     else case (isPluginKind (jsField ''kind'' raw), jsField ''key'' raw) of
       (Some kind, JsString key) \<Rightarrow> Inr \<lparr>mf_kind = kind, mf_key = key\<rparr>
     | _ \<Rightarrow> Inl (InvalidManifest origin))"

text \<open>\<open>'default' in mod ? mod.default : mod\<close>.\<close>

definition defaultExport :: "'f jsValue \<Rightarrow> 'f jsValue" where
  "defaultExport m =
    (case m of JsObject fs \<Rightarrow> (case map_of fs ''default'' of None \<Rightarrow> m | Some v \<Rightarrow> v) | _ \<Rightarrow> m)"

definition loadPluginFromDir :: "'f host \<Rightarrow> string \<Rightarrow> PluginManifest \<Rightarrow> bootError + 'f plugin" where
  "loadPluginFromDir H dir manifest =
    bindR (tryHost (h_require H dir)) (\<lambda>m.
    case isClickwrapPlugin (defaultExport m) of
      None \<Rightarrow> Inl (NotAPlugin dir)
    | Some p \<Rightarrow>
        if pl_kind p \<noteq> mf_kind manifest \<or> pl_key p \<noteq> mf_key manifest then Inl (ContradictsManifest dir)
        else Inr p)"

text \<open>\<open>!pkg || pkg.clickwrap === undefined\<close>.\<close>

definition lacksManifest :: "'f jsValue \<Rightarrow> bool" where
  "lacksManifest pkg \<longleftrightarrow> isFalsy pkg \<or> jsField ''clickwrap'' pkg = JsUndefined"

definition loadDependency :: "'f host \<Rightarrow> string \<Rightarrow> string \<Rightarrow> 'f registry \<Rightarrow> bootError + 'f registry" where
  "loadDependency H appRoot name reg =
    (let dir = joinPath [appRoot, ''node_modules'', name] in
     bindR (readPackageJson H dir) (\<lambda>pkg.
     if lacksManifest pkg then Inr reg
     else bindR (parseManifest (jsField ''clickwrap'' pkg) (''package '' @ name)) (\<lambda>manifest.
          bindR (loadPluginFromDir H dir manifest) (\<lambda>p. register p (''package '' @ name) reg))))"

definition discoverDependencies :: "'f host \<Rightarrow> string \<Rightarrow> 'f registry \<Rightarrow> bootError + 'f registry" where
  "discoverDependencies H appRoot reg =
    bindR (readPackageJson H appRoot) (\<lambda>pkg.
    if isFalsy pkg then Inr reg
    else foldR (loadDependency H appRoot)
      (objectKeys (mergedKeys (spreadKeys (jsField ''dependencies'' pkg))
                     (spreadKeys (jsField ''devDependencies'' pkg)))) reg)"

definition loadPath :: "'f host \<Rightarrow> string \<Rightarrow> 'f registry \<Rightarrow> bootError + 'f registry" where
  "loadPath H dir reg =
    bindR (readPackageJson H dir) (\<lambda>pkg.
    if lacksManifest pkg then Inl (NoManifest dir)
    else bindR (parseManifest (jsField ''clickwrap'' pkg) dir) (\<lambda>manifest.
         bindR (loadPluginFromDir H dir manifest) (\<lambda>p. register p (''path '' @ dir) reg)))"

definition loadIfPlugin :: "'f host \<Rightarrow> string \<Rightarrow> 'f registry \<Rightarrow> bootError + 'f registry" where
  "loadIfPlugin H dir reg =
    bindR (readPackageJson H dir) (\<lambda>pkg. if lacksManifest pkg then Inr reg else loadPath H dir reg)"

definition loadInstalled :: "'f host \<Rightarrow> string \<Rightarrow> string \<Rightarrow> 'f registry \<Rightarrow> bootError + 'f registry" where
  "loadInstalled H nodeModules name reg =
    (if take 1 name = ''.'' then Inr reg
     else let entry = joinPath [nodeModules, name] in
       if take 1 name = ''@'' then
         bindR (tryHost (h_isDirectory H entry)) (\<lambda>isDir.
         if isDir then
           bindR (tryHost (h_readdir H entry))
             (\<lambda>names. foldR (\<lambda>scoped. loadIfPlugin H (joinPath [entry, scoped])) names reg)
         else loadIfPlugin H entry reg)
       else loadIfPlugin H entry reg)"

definition presentDirectory :: "'f host \<Rightarrow> string \<Rightarrow> bootError + bool" where
  "presentDirectory H dir = (if \<not> h_exists H dir then Inr False else tryHost (h_isDirectory H dir))"

definition scanDir :: "'f host \<Rightarrow> string \<Rightarrow> 'f registry \<Rightarrow> bootError + 'f registry" where
  "scanDir H dir reg =
    bindR (presentDirectory H dir) (\<lambda>present.
    if \<not> present then Inr reg
    else bindR (tryHost (h_readdir H dir)) (\<lambda>names.
      bindR (foldR (\<lambda>name. loadIfPlugin H (joinPath [dir, name])) names reg) (\<lambda>reg.
      (let nodeModules = joinPath [dir, ''node_modules''] in
       bindR (presentDirectory H nodeModules) (\<lambda>installed.
       if \<not> installed then Inr reg
       else bindR (tryHost (h_readdir H nodeModules)) (\<lambda>names. foldR (loadInstalled H nodeModules) names reg))))))"

text \<open>\<open>(value ?? '').split(',').map(trim).filter(nonEmpty)\<close>.\<close>

definition splitEnvList :: "string option \<Rightarrow> string list" where
  "splitEnvList value = filter (\<lambda>e. e \<noteq> []) (map trim (splitOn (CHR '','') (orElse value [])))"

record 'f registryOptions =
  ro_appRoot :: "string option"
  ro_builtins :: "'f plugin list option"
  ro_pluginPaths :: "string list option"
  ro_pluginDirs :: "string list option"

definition registry_bootstrap ::
  "'f host \<Rightarrow> 'f plugin list \<Rightarrow> 'f registryOptions \<Rightarrow> bootError + 'f registry" where
  "registry_bootstrap H builtinPlugins options =
    (let appRoot = orElse (ro_appRoot options) (h_cwd H) in
     bindR (foldR (\<lambda>p. register p ''builtin'') (orElse (ro_builtins options) builtinPlugins) []) (\<lambda>reg.
     bindR (discoverDependencies H appRoot reg) (\<lambda>reg.
     bindR (foldR (\<lambda>path. loadPath H (resolvePath (h_cwd H) appRoot path))
       (orElse (ro_pluginPaths options) (splitEnvList (h_env H ''CLICKWRAP_PLUGIN_PATHS''))) reg) (\<lambda>reg.
     foldR (\<lambda>dir. scanDir H (resolvePath (h_cwd H) appRoot dir))
       (orElse (ro_pluginDirs options) (splitEnvList (h_env H ''CLICKWRAP_PLUGIN_DIR''))) reg))))"

section \<open>Selection and context\<close>

definition selectedKey :: "(string \<Rightarrow> string option) \<Rightarrow> string \<Rightarrow> string \<Rightarrow> string" where
  "selectedKey processEnv name dflt = toLowerCase (trim (orElse (processEnv name) dflt))"

definition selectedKeys :: "(string \<Rightarrow> string option) \<Rightarrow> string \<Rightarrow> string \<Rightarrow> string list" where
  "selectedKeys processEnv name dflt =
    filter (\<lambda>k. k \<noteq> [])
      (map (\<lambda>k. toLowerCase (trim k)) (splitOn (CHR '','') (orElse (processEnv name) dflt)))"

definition selectedEmailProviderKey :: "(string \<Rightarrow> string option) \<Rightarrow> string" where
  "selectedEmailProviderKey processEnv = selectedKey processEnv ''EMAIL_PROVIDER'' ''noop''"

definition selectedFileStorageKey :: "(string \<Rightarrow> string option) \<Rightarrow> string" where
  "selectedFileStorageKey processEnv = selectedKey processEnv ''FILE_STORAGE'' ''memory''"

definition selectedAcceptancePageKey :: "(string \<Rightarrow> string option) \<Rightarrow> string" where
  "selectedAcceptancePageKey processEnv = selectedKey processEnv ''ACCEPTANCE_PAGE'' ''default''"

definition selectedAdminAuthKeys :: "(string \<Rightarrow> string option) \<Rightarrow> string list" where
  "selectedAdminAuthKeys processEnv = selectedKeys processEnv ''ADMIN_AUTH'' ''google-sso,static-token''"

definition selectedAdminNotificationKeys :: "(string \<Rightarrow> string option) \<Rightarrow> string list" where
  "selectedAdminNotificationKeys processEnv = selectedKeys processEnv ''ADMIN_NOTIFICATIONS'' ''email''"

text \<open>The context of a plugin: an empty variable counts as unset.\<close>

definition readEnv :: "(string \<Rightarrow> string option) \<Rightarrow> string \<Rightarrow> string option" where
  "readEnv processEnv name = (case processEnv name of None \<Rightarrow> None | Some v \<Rightarrow> if v = [] then None else Some v)"

definition ctx_env :: "(string \<Rightarrow> string option) \<Rightarrow> string \<Rightarrow> string option \<Rightarrow> string option" where
  "ctx_env processEnv name dflt = (case readEnv processEnv name of None \<Rightarrow> dflt | Some v \<Rightarrow> Some v)"

definition ctx_requireEnv ::
  "(string \<Rightarrow> string option) \<Rightarrow> PluginKind \<Rightarrow> string \<Rightarrow> string \<Rightarrow> bootError + string" where
  "ctx_requireEnv processEnv kind key name =
    (case readEnv processEnv name of None \<Rightarrow> Inl (MissingEnv name kind key) | Some v \<Rightarrow> Inr v)"

end
