(* ===== verification/Plugin_Facts.thy ===== *)
theory Plugin_Facts
  imports Plugins
begin

text \<open>
  What the registry promises.  It refines a finite map from pairs of kind and key to plugins, to which
  \<open>register\<close> adds and which nothing shrinks; a boot that succeeds holds the built-ins as they are, every
  declared package, and nothing else.
\<close>

section \<open>The registry as a finite map\<close>

definition registered :: "'f registry \<Rightarrow> PluginKind \<times> string \<rightharpoonup> 'f plugin" where
  "registered reg = (\<lambda>(kind, key). map_of (pluginsOf reg kind) key)"

lemma registered_Nil [simp]: "registered [] = Map.empty"
  by (auto simp: registered_def pluginsOf_def)

lemma registry_select_registered:
  "registry_select reg kind key v = Inr p \<longleftrightarrow> registered reg (kind, key) = Some p"
  by (simp add: registry_select_def registered_def split: option.splits)

text \<open>C28: the registry refines a finite map from kind and key to plugin: \<open>register\<close> is the insertion of a
  new pair and refuses, changing nothing, exactly the pairs that are present; \<open>select\<close> is the lookup and
  \<open>keys\<close> lists the keys of a kind.\<close>

theorem register_refines:
  "(if registered reg (pl_kind p, pl_key p) \<noteq> None
    then register p source reg = Inl (DuplicatePlugin (pl_kind p) (pl_key p) source)
    else \<exists>reg'. register p source reg = Inr reg'
      \<and> registered reg' = (registered reg)((pl_kind p, pl_key p) \<mapsto> p))
   \<and> (\<forall>kind key v q. registry_select reg kind key v = Inr q \<longleftrightarrow> registered reg (kind, key) = Some q)
   \<and> (\<forall>kind. set (registry_keys reg kind) = {key. registered reg (kind, key) \<noteq> None}
        \<and> sorted (registry_keys reg kind))"
proof (intro conjI allI)
  show "if registered reg (pl_kind p, pl_key p) \<noteq> None
    then register p source reg = Inl (DuplicatePlugin (pl_kind p) (pl_key p) source)
    else \<exists>reg'. register p source reg = Inr reg'
      \<and> registered reg' = (registered reg)((pl_kind p, pl_key p) \<mapsto> p)"
    by (auto simp: register_def registered_def Let_def pluginsOf_def map_of_update fun_eq_iff)
  show "registry_select reg kind key v = Inr q \<longleftrightarrow> registered reg (kind, key) = Some q" for kind key v q
    by (rule registry_select_registered)
  show "set (registry_keys reg kind) = {key. registered reg (kind, key) \<noteq> None}" for kind
    by (auto simp: registry_keys_def registered_def map_of_eq_None_iff)
  show "sorted (registry_keys reg kind)" for kind
    by (simp add: registry_keys_def)
qed

section \<open>What discovery adds\<close>

lemma register_Inr:
  "register p source reg = Inr reg' \<longleftrightarrow>
     registered reg (pl_kind p, pl_key p) = None
     \<and> reg' = AList.update (pl_kind p) (AList.update (pl_key p) p (pluginsOf reg (pl_kind p))) reg"
  by (auto simp: register_def registered_def Let_def)

lemma registered_register:
  "register p source reg = Inr reg' \<Longrightarrow> registered reg' = (registered reg)((pl_kind p, pl_key p) \<mapsto> p)"
  by (auto simp: register_Inr registered_def pluginsOf_def map_of_update fun_eq_iff)

text \<open>The directory \<open>dir\<close> holds the plugin \<open>p\<close>: it declares a manifest, and its main entry exports a
  plugin of this kind and key.\<close>

definition packageAt :: "'f host \<Rightarrow> string \<Rightarrow> 'f plugin \<Rightarrow> bool" where
  "packageAt H dir p \<longleftrightarrow>
    (\<exists>pkg origin m. readPackageJson H dir = Inr pkg \<and> \<not> lacksManifest pkg
       \<and> parseManifest (jsField ''clickwrap'' pkg) origin = Inr \<lparr>mf_kind = pl_kind p, mf_key = pl_key p\<rparr>
       \<and> h_require H dir = Some m \<and> isClickwrapPlugin (defaultExport m) = Some p)"

definition discovered :: "'f host \<Rightarrow> 'f registry \<Rightarrow> 'f registry \<Rightarrow> bool" where
  "discovered H reg reg' \<longleftrightarrow>
    registered reg \<subseteq>\<^sub>m registered reg'
    \<and> (\<forall>kind key p. registered reg' (kind, key) = Some p \<longrightarrow>
         registered reg (kind, key) = Some p
         \<or> kind = pl_kind p \<and> key = pl_key p \<and> (\<exists>dir. packageAt H dir p))"

lemma discovered_refl: "discovered H reg reg"
  by (simp add: discovered_def)

lemma discovered_trans: "discovered H reg reg' \<Longrightarrow> discovered H reg' reg'' \<Longrightarrow> discovered H reg reg''"
  unfolding discovered_def by (blast intro: map_le_trans)

lemma tryHost_Inr: "tryHost x = Inr y \<longleftrightarrow> x = Some y"
  by (simp add: tryHost_def split: option.splits)

lemma loadPluginFromDir_Inr:
  "loadPluginFromDir H dir manifest = Inr p \<Longrightarrow>
     \<exists>m. h_require H dir = Some m \<and> isClickwrapPlugin (defaultExport m) = Some p
       \<and> manifest = \<lparr>mf_kind = pl_kind p, mf_key = pl_key p\<rparr>"
  by (auto simp: loadPluginFromDir_def bindR_eq_Inr tryHost_Inr split: option.splits if_splits)

text \<open>The plugin of a directory is in the registry.\<close>

definition selectable :: "'f host \<Rightarrow> string \<Rightarrow> 'f registry \<Rightarrow> bool" where
  "selectable H dir reg \<longleftrightarrow> (\<exists>p. packageAt H dir p \<and> registered reg (pl_kind p, pl_key p) = Some p)"

lemma discovered_registered: "discovered H reg reg' \<Longrightarrow> registered reg k = Some p \<Longrightarrow> registered reg' k = Some p"
  unfolding discovered_def map_le_def by (metis domI)

lemma selectable_mono: "selectable H dir reg \<Longrightarrow> discovered H reg reg' \<Longrightarrow> selectable H dir reg'"
  unfolding selectable_def by (blast intro: discovered_registered)

text \<open>The common end of \<open>loadDependency\<close> and \<open>loadPath\<close>.\<close>

lemma load_registers:
  assumes "bindR (parseManifest (jsField ''clickwrap'' pkg) origin)
      (\<lambda>manifest. bindR (loadPluginFromDir H dir manifest) (\<lambda>p. register p source reg)) = Inr reg'"
    and "readPackageJson H dir = Inr pkg" "\<not> lacksManifest pkg"
  shows "discovered H reg reg' \<and> selectable H dir reg'"
proof -
  from assms(1) obtain manifest p where
    steps: "parseManifest (jsField ''clickwrap'' pkg) origin = Inr manifest"
      "loadPluginFromDir H dir manifest = Inr p" "register p source reg = Inr reg'"
    by (auto simp: bindR_eq_Inr)
  have at: "packageAt H dir p"
    using loadPluginFromDir_Inr[OF steps(2)] steps(1) assms(2,3) unfolding packageAt_def by blast
  have new: "registered reg' = (registered reg)((pl_kind p, pl_key p) \<mapsto> p)"
    and free: "registered reg (pl_kind p, pl_key p) = None"
    using registered_register[OF steps(3)] steps(3) by (simp_all add: register_Inr)
  have "registered reg \<subseteq>\<^sub>m registered reg'"
    unfolding new using free by (auto simp: map_le_def)
  with at new show ?thesis unfolding discovered_def selectable_def by auto
qed

text \<open>Declared packages are loaded, the others are passed over.\<close>

definition loaded :: "'f host \<Rightarrow> string \<Rightarrow> 'f registry \<Rightarrow> bool" where
  "loaded H dir reg \<longleftrightarrow>
    (\<exists>pkg. readPackageJson H dir = Inr pkg \<and> lacksManifest pkg) \<or> selectable H dir reg"

lemma loaded_mono: "loaded H dir reg \<Longrightarrow> discovered H reg reg' \<Longrightarrow> loaded H dir reg'"
  unfolding loaded_def by (blast intro: selectable_mono)

lemma loadDependency_spec:
  "loadDependency H root name reg = Inr reg' \<Longrightarrow>
     discovered H reg reg' \<and> loaded H (joinPath [root, ''node_modules'', name]) reg'"
  unfolding loadDependency_def Let_def bindR_eq_Inr loaded_def
  by (auto simp del: bindR_simps dest: load_registers intro: discovered_refl split: if_splits)

lemma loadPath_spec:
  "loadPath H dir reg = Inr reg' \<Longrightarrow> discovered H reg reg' \<and> selectable H dir reg'"
  unfolding loadPath_def bindR_eq_Inr
  by (auto simp del: bindR_simps dest: load_registers split: if_splits)

lemma loadIfPlugin_spec:
  "loadIfPlugin H dir reg = Inr reg' \<Longrightarrow> discovered H reg reg' \<and> loaded H dir reg'"
  unfolding loadIfPlugin_def bindR_eq_Inr loaded_def
  by (auto dest: loadPath_spec intro: discovered_refl split: if_splits)

lemma foldR_spec:
  assumes "\<And>x s s'. x \<in> set xs \<Longrightarrow> f x s = Inr s' \<Longrightarrow> discovered H s s' \<and> P x s'"
    and "\<And>x s s'. P x s \<Longrightarrow> discovered H s s' \<Longrightarrow> P x s'"
    and "foldR f xs s = Inr s'"
  shows "discovered H s s' \<and> (\<forall>x \<in> set xs. P x s')"
  using assms(1,3)
proof (induction xs arbitrary: s)
  case (Cons x xs)
  from Cons.prems(2) obtain s1 where s1: "f x s = Inr s1" "foldR f xs s1 = Inr s'"
    by (auto simp: bindR_eq_Inr)
  have one: "discovered H s s1 \<and> P x s1" by (rule Cons.prems(1)[OF _ s1(1)]) simp
  have rest: "discovered H s1 s' \<and> (\<forall>x \<in> set xs. P x s')"
  proof (rule Cons.IH[OF _ s1(2)])
    show "discovered H s s' \<and> P y s'" if "y \<in> set xs" "f y s = Inr s'" for y s s'
      by (rule Cons.prems(1)[OF _ that(2)]) (use that(1) in simp)
  qed
  from one rest show ?case using discovered_trans assms(2) by auto
qed (simp add: discovered_refl)

lemma foldR_discovers:
  assumes "\<And>x s s'. f x s = Inr s' \<Longrightarrow> discovered H s s'" "foldR f xs s = Inr s'"
  shows "discovered H s s'"
proof -
  have "discovered H s s' \<and> (\<forall>x \<in> set xs. True)"
    by (rule foldR_spec[OF _ _ assms(2)]) (use assms(1) in simp_all)
  then show ?thesis by simp
qed

lemma loadInstalled_spec: "loadInstalled H nm name reg = Inr reg' \<Longrightarrow> discovered H reg reg'"
  unfolding loadInstalled_def Let_def
  by (auto simp: bindR_eq_Inr discovered_refl dest: loadIfPlugin_spec elim!: foldR_discovers[rotated]
      split: if_splits)

text \<open>The drop-in directories of a scanned directory.\<close>

definition scanned :: "'f host \<Rightarrow> string \<Rightarrow> 'f registry \<Rightarrow> bool" where
  "scanned H dir reg \<longleftrightarrow>
    presentDirectory H dir = Inr False
    \<or> (\<exists>names. h_readdir H dir = Some names \<and> (\<forall>name \<in> set names. loaded H (joinPath [dir, name]) reg))"

lemma scanned_mono: "scanned H dir reg \<Longrightarrow> discovered H reg reg' \<Longrightarrow> scanned H dir reg'"
  unfolding scanned_def by (blast intro: loaded_mono)

lemma scanDir_spec:
  assumes "scanDir H dir reg = Inr reg'"
  shows "discovered H reg reg' \<and> scanned H dir reg'"
proof (cases "presentDirectory H dir = Inr False")
  case True
  with assms show ?thesis by (simp add: scanDir_def scanned_def discovered_refl)
next
  case False
  let ?nm = "joinPath [dir, ''node_modules'']"
  from assms obtain present where "presentDirectory H dir = Inr present"
    and "(if \<not> present then Inr reg else bindR (tryHost (h_readdir H dir)) (\<lambda>names.
      bindR (foldR (\<lambda>name. loadIfPlugin H (joinPath [dir, name])) names reg) (\<lambda>reg.
      bindR (presentDirectory H ?nm) (\<lambda>installed. if \<not> installed then Inr reg
       else bindR (tryHost (h_readdir H ?nm)) (\<lambda>names. foldR (loadInstalled H ?nm) names reg))))) = Inr reg'"
    unfolding scanDir_def Let_def bindR_eq_Inr by blast
  with False have "bindR (tryHost (h_readdir H dir)) (\<lambda>names.
      bindR (foldR (\<lambda>name. loadIfPlugin H (joinPath [dir, name])) names reg) (\<lambda>reg.
      bindR (presentDirectory H ?nm) (\<lambda>installed. if \<not> installed then Inr reg
       else bindR (tryHost (h_readdir H ?nm)) (\<lambda>names. foldR (loadInstalled H ?nm) names reg)))) = Inr reg'"
    by (cases present) simp_all
  then obtain names reg1 installed where
    names: "h_readdir H dir = Some names"
    and first: "foldR (\<lambda>name. loadIfPlugin H (joinPath [dir, name])) names reg = Inr reg1"
    and second: "(if \<not> installed then Inr reg1
       else bindR (tryHost (h_readdir H ?nm)) (\<lambda>names. foldR (loadInstalled H ?nm) names reg1)) = Inr reg'"
    unfolding bindR_eq_Inr tryHost_Inr by blast
  have one: "discovered H reg reg1 \<and> (\<forall>name \<in> set names. loaded H (joinPath [dir, name]) reg1)"
    by (rule foldR_spec[OF _ _ first]) (auto dest: loadIfPlugin_spec intro: loaded_mono)
  have two: "discovered H reg1 reg'"
  proof (cases installed)
    case True
    with second obtain ns where "foldR (loadInstalled H ?nm) ns reg1 = Inr reg'" by (auto simp: bindR_eq_Inr)
    then show ?thesis by (rule foldR_discovers[rotated]) (rule loadInstalled_spec)
  qed (use second in \<open>simp add: discovered_refl\<close>)
  show ?thesis
    using one two names unfolding scanned_def by (blast intro: discovered_trans loaded_mono)
qed

section \<open>The boot\<close>

lemma foldR_register:
  assumes "foldR (\<lambda>p. register p source) ps reg = Inr reg'"
  shows "registered reg \<subseteq>\<^sub>m registered reg' \<and> (\<forall>p \<in> set ps. registered reg' (pl_kind p, pl_key p) = Some p)
    \<and> (\<forall>k p. registered reg' k = Some p \<longrightarrow> registered reg k = Some p \<or> p \<in> set ps \<and> k = (pl_kind p, pl_key p))"
  using assms
proof (induction ps arbitrary: reg)
  case (Cons p ps)
  then obtain reg1 where r: "register p source reg = Inr reg1" and rest: "foldR (\<lambda>p. register p source) ps reg1 = Inr reg'"
    by (auto simp: bindR_eq_Inr)
  have new: "registered reg1 = (registered reg)((pl_kind p, pl_key p) \<mapsto> p)"
    and free: "registered reg (pl_kind p, pl_key p) = None"
    using registered_register[OF r] r by (simp_all add: register_Inr)
  note IH = Cons.IH[OF rest]
  have le: "registered reg \<subseteq>\<^sub>m registered reg1" unfolding new using free by (auto simp: map_le_def)
  have "registered reg' (pl_kind p, pl_key p) = Some p"
    using IH new by (auto simp: map_le_def dom_def split: if_splits)
  moreover have "registered reg k = Some q \<or> q \<in> set (p # ps) \<and> k = (pl_kind q, pl_key q)"
    if "registered reg' k = Some q" for k q
  proof -
    from IH that have "registered reg1 k = Some q \<or> q \<in> set ps \<and> k = (pl_kind q, pl_key q)" by blast
    then show ?thesis unfolding new by (cases "k = (pl_kind p, pl_key p)") auto
  qed
  ultimately show ?case using IH le map_le_trans[OF le] by simp
qed simp

text \<open>C27: a boot that succeeds selects every built-in as it is, so no package replaces one; whatever else
  it can select is the validated export of a package directory that declares this kind and key; and every
  listed plugin path, every dependency with a manifest and every drop-in directory with one is selectable.\<close>

theorem bootstrap_correct:
  assumes boot: "registry_bootstrap H B opts = Inr reg"
    and root: "root = orElse (ro_appRoot opts) (h_cwd H)"
  shows "(\<forall>p \<in> set (orElse (ro_builtins opts) B). \<forall>v. registry_select reg (pl_kind p) (pl_key p) v = Inr p)
    \<and> (\<forall>kind key v p. registry_select reg kind key v = Inr p \<longrightarrow> pl_kind p = kind \<and> pl_key p = key
         \<and> (p \<in> set (orElse (ro_builtins opts) B) \<or> (\<exists>dir. packageAt H dir p)))
    \<and> (\<forall>path \<in> set (orElse (ro_pluginPaths opts) (splitEnvList (h_env H ''CLICKWRAP_PLUGIN_PATHS''))).
         \<exists>p. packageAt H (resolvePath (h_cwd H) root path) p
           \<and> (\<forall>v. registry_select reg (pl_kind p) (pl_key p) v = Inr p))
    \<and> (\<forall>pkg name. readPackageJson H root = Inr pkg \<and> \<not> isFalsy pkg
         \<and> name \<in> set (spreadKeys (jsField ''dependencies'' pkg)) \<union> set (spreadKeys (jsField ''devDependencies'' pkg))
         \<longrightarrow> loaded H (joinPath [root, ''node_modules'', name]) reg)
    \<and> (\<forall>dir \<in> set (orElse (ro_pluginDirs opts) (splitEnvList (h_env H ''CLICKWRAP_PLUGIN_DIR''))).
         scanned H (resolvePath (h_cwd H) root dir) reg)"
proof -
  from boot[unfolded registry_bootstrap_def Let_def, folded root] obtain reg1 reg2 reg3 where
    s1: "foldR (\<lambda>p. register p ''builtin'') (orElse (ro_builtins opts) B) [] = Inr reg1"
    and s2: "discoverDependencies H root reg1 = Inr reg2"
    and s3: "foldR (\<lambda>path. loadPath H (resolvePath (h_cwd H) root path))
       (orElse (ro_pluginPaths opts) (splitEnvList (h_env H ''CLICKWRAP_PLUGIN_PATHS''))) reg2 = Inr reg3"
    and s4: "foldR (\<lambda>dir. scanDir H (resolvePath (h_cwd H) root dir))
       (orElse (ro_pluginDirs opts) (splitEnvList (h_env H ''CLICKWRAP_PLUGIN_DIR''))) reg3 = Inr reg"
    unfolding bindR_eq_Inr by blast
  note b = foldR_register[OF s1]
  have deps: "\<exists>pkg. readPackageJson H root = Inr pkg \<and> discovered H reg1 reg2 \<and> (\<not> isFalsy pkg \<longrightarrow>
      (\<forall>name \<in> set (spreadKeys (jsField ''dependencies'' pkg)) \<union> set (spreadKeys (jsField ''devDependencies'' pkg)).
         loaded H (joinPath [root, ''node_modules'', name]) reg2))"
  proof -
    from s2 obtain pkg where pkg: "readPackageJson H root = Inr pkg"
      and run: "(if isFalsy pkg then Inr reg1 else foldR (loadDependency H root)
        (objectKeys (mergedKeys (spreadKeys (jsField ''dependencies'' pkg))
           (spreadKeys (jsField ''devDependencies'' pkg)))) reg1) = Inr reg2"
      by (auto simp: discoverDependencies_def bindR_eq_Inr)
    show ?thesis
    proof (cases "isFalsy pkg")
      case False
      with run have "foldR (loadDependency H root)
        (objectKeys (mergedKeys (spreadKeys (jsField ''dependencies'' pkg))
           (spreadKeys (jsField ''devDependencies'' pkg)))) reg1 = Inr reg2" by simp
      from foldR_spec[OF _ _ this, of H "\<lambda>name. loaded H (joinPath [root, ''node_modules'', name])"]
      have "discovered H reg1 reg2 \<and> (\<forall>name \<in> set (objectKeys (mergedKeys (spreadKeys (jsField ''dependencies'' pkg))
           (spreadKeys (jsField ''devDependencies'' pkg)))). loaded H (joinPath [root, ''node_modules'', name]) reg2)"
        using loadDependency_spec loaded_mono by blast
      with pkg show ?thesis by (auto simp: objectKeys_def mergedKeys_def)
    qed (use pkg run in \<open>simp add: discovered_refl\<close>)
  qed
  have paths: "discovered H reg2 reg3 \<and> (\<forall>path \<in> set (orElse (ro_pluginPaths opts)
      (splitEnvList (h_env H ''CLICKWRAP_PLUGIN_PATHS''))). selectable H (resolvePath (h_cwd H) root path) reg3)"
    by (rule foldR_spec[OF _ _ s3]) (use loadPath_spec selectable_mono in blast)+
  have dirs: "discovered H reg3 reg \<and> (\<forall>dir \<in> set (orElse (ro_pluginDirs opts)
      (splitEnvList (h_env H ''CLICKWRAP_PLUGIN_DIR''))). scanned H (resolvePath (h_cwd H) root dir) reg)"
    by (rule foldR_spec[OF _ _ s4]) (use scanDir_spec scanned_mono in blast)+
  have d: "discovered H reg1 reg" "discovered H reg2 reg" "discovered H reg3 reg"
    using deps paths dirs by (blast intro: discovered_trans)+
  show ?thesis
    unfolding registry_select_registered
  proof (intro conjI)
    show "\<forall>p \<in> set (orElse (ro_builtins opts) B). \<forall>v. registered reg (pl_kind p, pl_key p) = Some p"
      using b discovered_registered[OF d(1)] by auto
    show "\<forall>kind key v p. registered reg (kind, key) = Some p \<longrightarrow> pl_kind p = kind \<and> pl_key p = key
         \<and> (p \<in> set (orElse (ro_builtins opts) B) \<or> (\<exists>dir. packageAt H dir p))"
    proof (intro allI impI)
      fix kind key v p
      assume "registered reg (kind, key) = Some p"
      with d(1) have "registered reg1 (kind, key) = Some p
          \<or> kind = pl_kind p \<and> key = pl_key p \<and> (\<exists>dir. packageAt H dir p)"
        unfolding discovered_def by blast
      with b show "pl_kind p = kind \<and> pl_key p = key
         \<and> (p \<in> set (orElse (ro_builtins opts) B) \<or> (\<exists>dir. packageAt H dir p))"
        by fastforce
    qed
    show "\<forall>path \<in> set (orElse (ro_pluginPaths opts) (splitEnvList (h_env H ''CLICKWRAP_PLUGIN_PATHS''))).
         \<exists>p. packageAt H (resolvePath (h_cwd H) root path) p
           \<and> (\<forall>v. registered reg (pl_kind p, pl_key p) = Some p)"
      using paths discovered_registered[OF d(3)] unfolding selectable_def by blast
    show "\<forall>pkg name. readPackageJson H root = Inr pkg \<and> \<not> isFalsy pkg
         \<and> name \<in> set (spreadKeys (jsField ''dependencies'' pkg)) \<union> set (spreadKeys (jsField ''devDependencies'' pkg))
         \<longrightarrow> loaded H (joinPath [root, ''node_modules'', name]) reg"
      using deps loaded_mono[OF _ d(2)] by (metis sum.inject(2))
  qed (use dirs in blast)
qed

text \<open>An application with one built-in and one local plugin directory.\<close>

definition noop_ex :: "nat plugin" where
  "noop_ex = \<lparr>pl_kind = EmailProvider, pl_key = ''noop'', pl_create = 0, pl_module = None\<rparr>"

definition host_ex :: "nat host" where
  "host_ex = \<lparr>h_env = (\<lambda>name. if name = ''CLICKWRAP_PLUGIN_PATHS'' then Some ''ext, '' else None), h_cwd = ''/app'',
     h_exists = (\<lambda>p. p = ''/app/ext/package.json''),
     h_readJson = (\<lambda>p. Some (JsObject [(''clickwrap'',
        JsObject [(''kind'', JsString ''email-provider''), (''key'', JsString ''acme'')])])),
     h_isDirectory = (\<lambda>_. None), h_readdir = (\<lambda>_. None),
     h_require = (\<lambda>_. Some (JsObject [(''default'', JsObject [(''kind'', JsString ''email-provider''),
        (''key'', JsString ''acme''), (''create'', JsFunction 1)])]))\<rparr>"

definition options_ex :: "nat registryOptions" where
  "options_ex = \<lparr>ro_appRoot = None, ro_builtins = None, ro_pluginPaths = None, ro_pluginDirs = None\<rparr>"

definition acme_ex :: "nat plugin" where
  "acme_ex = \<lparr>pl_kind = EmailProvider, pl_key = ''acme'', pl_create = 1, pl_module = None\<rparr>"

lemma boot_ex:
  "registry_bootstrap host_ex [noop_ex] options_ex
     = Inr [(EmailProvider, [(''noop'', noop_ex), (''acme'', acme_ex)])]"
  by code_simp

theorem bootstrap_correct_witness:
  "registry_bootstrap host_ex [noop_ex] options_ex
     = Inr [(EmailProvider, [(''noop'', noop_ex), (''acme'', acme_ex)])]
   \<and> registry_select [(EmailProvider, [(''noop'', noop_ex), (''acme'', acme_ex)])] EmailProvider ''noop'' ''EMAIL_PROVIDER''
     = Inr noop_ex
   \<and> (\<exists>p. packageAt host_ex (resolvePath ''/app'' ''/app'' ''ext'') p \<and> registry_select
       [(EmailProvider, [(''noop'', noop_ex), (''acme'', acme_ex)])] (pl_kind p) (pl_key p) ''EMAIL_PROVIDER'' = Inr p)"
proof -
  have paths: "splitEnvList (h_env host_ex ''CLICKWRAP_PLUGIN_PATHS'') = [''ext'']" by code_simp
  note spec = bootstrap_correct[OF boot_ex refl]
  have "registry_select [(EmailProvider, [(''noop'', noop_ex), (''acme'', acme_ex)])] (pl_kind noop_ex)
      (pl_key noop_ex) ''EMAIL_PROVIDER'' = Inr noop_ex"
    using spec by (simp add: options_ex_def)
  moreover have "\<exists>p. packageAt host_ex (resolvePath (h_cwd host_ex) (h_cwd host_ex) ''ext'') p
      \<and> (\<forall>v. registry_select [(EmailProvider, [(''noop'', noop_ex), (''acme'', acme_ex)])] (pl_kind p) (pl_key p) v = Inr p)"
    using spec paths by (simp add: options_ex_def)
  ultimately show ?thesis using boot_ex by (auto simp: noop_ex_def host_ex_def)
qed

end
