(* ===== verification/Authentication.thy ===== *)
theory Authentication
  imports Plugins
begin

text \<open>
  Authentication (\<open>src/src/common/auth\<close>): the guards of the integration routes, which take the customer
  and the actor from the headers of the calling service, and the guard of the administration, an ordered
  chain of strategies.  The verification of an ID token (\<open>google-auth-library\<close>) and of a session token
  (\<open>jose\<close>) are arguments; \<open>None\<close> is a call that throws.  A string is the list of the bytes of its UTF-8
  form, so \<open>Buffer.from\<close> is the identity.
\<close>

section \<open>Requests\<close>

datatype headerValue = OneHeader string | ManyHeaders "string list"

record httpRequest =
  hr_headers :: "string \<Rightarrow> headerValue option"
  hr_ip :: "string option"

text \<open>\<open>String(h ?? '')\<close>; an array prints its elements with commas.\<close>

fun headerText :: "headerValue \<Rightarrow> string" where
  "headerText (OneHeader s) = s"
| "headerText (ManyHeaders ss) = joinWith '','' ss"

definition headerOr :: "httpRequest \<Rightarrow> string \<Rightarrow> string \<Rightarrow> string" where
  "headerOr req name dflt = (case hr_headers req name of None \<Rightarrow> dflt | Some h \<Rightarrow> headerText h)"

text \<open>\<open>h ? String(h) : undefined\<close>.\<close>

definition headerIfTruthy :: "httpRequest \<Rightarrow> string \<Rightarrow> string option" where
  "headerIfTruthy req name =
    (case hr_headers req name of None \<Rightarrow> None | Some (OneHeader []) \<Rightarrow> None | Some h \<Rightarrow> Some (headerText h))"

definition safeEqual :: "string \<Rightarrow> string \<Rightarrow> bool" where
  "safeEqual a b \<longleftrightarrow> length a = length b \<and> list_all2 (=) a b"

text \<open>A rejected request: 401 with a message or without.\<close>

datatype guardError = Unauthorized "string option"

section \<open>The integration routes\<close>

definition envOrEmpty :: "(string \<Rightarrow> string option) \<Rightarrow> string \<Rightarrow> string" where
  "envOrEmpty processEnv name = orElse (processEnv name) []"

definition serviceTokenOk :: "(string \<Rightarrow> string option) \<Rightarrow> httpRequest \<Rightarrow> bool" where
  "serviceTokenOk processEnv req =
    (let expected = envOrEmpty processEnv ''SERVICE_API_TOKEN''
     in expected \<noteq> [] \<and> safeEqual (headerOr req ''x-service-token'' []) expected)"

definition serviceGuard :: "(string \<Rightarrow> string option) \<Rightarrow> httpRequest \<Rightarrow> guardError + CustomerContext" where
  "serviceGuard processEnv req =
    (if \<not> serviceTokenOk processEnv req then Inl (Unauthorized None)
     else let customerId = headerOr req ''x-customer-id'' [] in
       if customerId = [] then Inl (Unauthorized (Some ''missing customer context''))
       else Inr \<lparr>ctx_customerId = customerId,
         ctx_actor = \<lparr>act_userId = headerOr req ''x-actor-user-id'' [],
           act_name = headerIfTruthy req ''x-actor-name'', act_email = headerIfTruthy req ''x-actor-email'',
           act_portalRole = headerIfTruthy req ''x-actor-role''\<rparr>,
         ctx_ipAddress = hr_ip req,
         ctx_userAgent = map_option headerText (hr_headers req ''user-agent'')\<rparr>)"

definition serviceTokenGuard :: "(string \<Rightarrow> string option) \<Rightarrow> httpRequest \<Rightarrow> guardError + Actor" where
  "serviceTokenGuard processEnv req =
    (if \<not> serviceTokenOk processEnv req then Inl (Unauthorized None)
     else Inr \<lparr>act_userId = orElse (headerIfTruthy req ''x-actor-user-id'') ''service'',
       act_name = headerIfTruthy req ''x-actor-name'', act_email = headerIfTruthy req ''x-actor-email'',
       act_portalRole = headerIfTruthy req ''x-actor-role''\<rparr>)"

section \<open>Strategies of the administration\<close>

record AdminIdentity =
  ai_userId :: string
  ai_name :: "string option"

text \<open>What \<open>authenticate\<close> does: an identity, \<open>null\<close>, an \<open>AdminAuthError\<close>, or another exception.\<close>

datatype authOutcome = Identity AdminIdentity | NotMine | AdminAuthError string | BrokenStrategy

datatype LoginMethodDescriptor =
    GoogleLogin string string string
  | TokenLogin string string
  | OidcRedirect string string string

record AdminAuthStrategy =
  as_authenticate :: "httpRequest \<Rightarrow> authOutcome"
  as_describe :: "LoginMethodDescriptor option"

text \<open>\<open>/^Bearer\s+(.+)$/i\<close> on the trimmed header: after the white space there is something, on one line.\<close>

definition isLineEnd :: "char \<Rightarrow> bool" where
  "isLineEnd c \<longleftrightarrow> c = CHR 0x0A \<or> c = CHR 0x0D"

definition matchBearer :: "string \<Rightarrow> string option" where
  "matchBearer s =
    (let rest = drop 6 s; credential = dropWhile isSpaceChar rest
     in if toLowerCase (take 6 s) = ''bearer'' \<and> rest \<noteq> [] \<and> isSpaceChar (hd rest) \<and> credential \<noteq> []
           \<and> \<not> list_ex isLineEnd credential
        then Some credential else None)"

definition extractBearer :: "httpRequest \<Rightarrow> string option" where
  "extractBearer req =
    (case hr_headers req ''authorization'' of
       Some (OneHeader header) \<Rightarrow> map_option trim (matchBearer (trim header))
     | _ \<Rightarrow> None)"

subsection \<open>Static token\<close>

definition staticToken_authenticate :: "(string \<Rightarrow> string option) \<Rightarrow> httpRequest \<Rightarrow> authOutcome" where
  "staticToken_authenticate processEnv req =
    (let expected = envOrEmpty processEnv ''ADMIN_API_TOKEN''; token = headerOr req ''x-admin-token'' [] in
     if expected = [] \<or> token = [] \<or> \<not> safeEqual token expected then NotMine
     else Identity \<lparr>ai_userId = headerOr req ''x-admin-user'' ''admin'', ai_name = None\<rparr>)"

definition staticToken_describe :: "(string \<Rightarrow> string option) \<Rightarrow> LoginMethodDescriptor option" where
  "staticToken_describe processEnv =
    (if envOrEmpty processEnv ''ADMIN_API_TOKEN'' = [] then None
     else Some (TokenLogin ''static-token'' ''Admin API token''))"

subsection \<open>Google sign-in\<close>

record GoogleIdTokenClaims =
  gc_email :: string
  gc_emailVerified :: bool
  gc_name :: "string option"
  gc_hd :: "string option"

text \<open>The payload of a ticket of the library: the fields the program reads.\<close>

record TokenPayload =
  tp_email :: "string option"
  tp_email_verified :: "bool option"
  tp_name :: "string option"
  tp_hd :: "string option"

text \<open>\<open>verifyIdToken\<close> takes the audience and the token; the payload of its ticket may be missing.\<close>

type_synonym verifyIdToken = "string \<Rightarrow> string \<Rightarrow> TokenPayload option option"

definition googleVerify :: "verifyIdToken \<Rightarrow> string \<Rightarrow> string \<Rightarrow> GoogleIdTokenClaims option" where
  "googleVerify verifyIdToken clientId idToken =
    (case verifyIdToken clientId idToken of
       Some (Some payload) \<Rightarrow>
         (case tp_email payload of
            None \<Rightarrow> None
          | Some email \<Rightarrow>
              if email = [] then None
              else Some \<lparr>gc_email = email, gc_emailVerified = (tp_email_verified payload = Some True),
                gc_name = tp_name payload, gc_hd = tp_hd payload\<rparr>)
     | _ \<Rightarrow> None)"

definition endsWith :: "string \<Rightarrow> string \<Rightarrow> bool" where
  "endsWith s suffix \<longleftrightarrow> length suffix \<le> length s \<and> drop (length s - length suffix) s = suffix"

definition adminAllowlist :: "(string \<Rightarrow> string option) \<Rightarrow> string list" where
  "adminAllowlist processEnv =
    filter (\<lambda>e. e \<noteq> [])
      (map (\<lambda>e. toLowerCase (trim e)) (splitOn (CHR '','') (envOrEmpty processEnv ''ADMIN_ALLOWED_EMAILS'')))"

definition adminDomain :: "(string \<Rightarrow> string option) \<Rightarrow> string" where
  "adminDomain processEnv = toLowerCase (trim (envOrEmpty processEnv ''ADMIN_ALLOWED_DOMAIN''))"

definition googlePolicy :: "(string \<Rightarrow> string option) \<Rightarrow> GoogleIdTokenClaims \<Rightarrow> authOutcome" where
  "googlePolicy processEnv claims =
    (if \<not> gc_emailVerified claims then AdminAuthError ''E-mail address is not verified''
     else let email = toLowerCase (trim (gc_email claims)); domain = adminDomain processEnv in
       if domain = [] then AdminAuthError (''Admin domain restriction is not configured (ADMIN_ALLOWED_DOMAIN missing) ''
             @ longDash @ '' Google sign-in is disabled'')
       else if \<not> endsWith email (''@'' @ domain) then AdminAuthError ''E-mail domain is not allowed''
       else let allowlist = adminAllowlist processEnv in
         if allowlist \<noteq> [] \<and> email \<notin> set allowlist
         then AdminAuthError ''E-mail address is not on the allowlist''
         else Identity \<lparr>ai_userId = email, ai_name = gc_name claims\<rparr>)"

definition googleSso_authenticate ::
  "(string \<Rightarrow> string option) \<Rightarrow> verifyIdToken \<Rightarrow> httpRequest \<Rightarrow> authOutcome" where
  "googleSso_authenticate processEnv verifyIdToken req =
    (case extractBearer req of
       None \<Rightarrow> NotMine
     | Some idToken \<Rightarrow>
         let clientId = envOrEmpty processEnv ''GOOGLE_CLIENT_ID'' in
         if clientId = [] then NotMine
         else (case googleVerify verifyIdToken clientId idToken of
             None \<Rightarrow> NotMine
           | Some claims \<Rightarrow> googlePolicy processEnv claims))"

definition googleSso_describe :: "(string \<Rightarrow> string option) \<Rightarrow> LoginMethodDescriptor option" where
  "googleSso_describe processEnv =
    (let clientId = envOrEmpty processEnv ''GOOGLE_CLIENT_ID'' in
     if clientId = [] then None else Some (GoogleLogin ''google-sso'' ''Sign in with Google'' clientId))"

subsection \<open>Session tokens\<close>

text \<open>\<open>jwtVerify\<close> takes the token and the issuer that is required, and gives the payload.\<close>

type_synonym jwtVerify = "string \<Rightarrow> string option \<Rightarrow> unit jsValue option"

definition rolesOf :: "unit jsValue \<Rightarrow> string list" where
  "rolesOf payload =
    (let claim = jsField ''st-role'' payload in
     if \<not> isObject claim then []
     else case jsField ''v'' claim of
         JsArray values \<Rightarrow> List.map_filter (\<lambda>r. case r of JsString s \<Rightarrow> Some s | _ \<Rightarrow> None) values
       | _ \<Rightarrow> [])"

definition nonEmptyEnv :: "(string \<Rightarrow> string option) \<Rightarrow> string \<Rightarrow> string option" where
  "nonEmptyEnv processEnv name =
    (let v = trim (envOrEmpty processEnv name) in if v = [] then None else Some v)"

definition supertokens_authenticate ::
  "(string \<Rightarrow> string option) \<Rightarrow> jwtVerify \<Rightarrow> httpRequest \<Rightarrow> authOutcome" where
  "supertokens_authenticate processEnv jwtVerify req =
    (case extractBearer req of
       None \<Rightarrow> NotMine
     | Some accessToken \<Rightarrow>
       (case jwtVerify accessToken (nonEmptyEnv processEnv ''SUPERTOKENS_ISSUER'') of
          None \<Rightarrow> NotMine
        | Some payload \<Rightarrow>
          if orElse (nonEmptyEnv processEnv ''ADMIN_SUPERTOKENS_ROLE'') ''admin'' \<notin> set (rolesOf payload) then NotMine
          else (case jsField ''sub'' payload of
              JsString sub \<Rightarrow>
                if sub = [] then NotMine
                else Identity \<lparr>ai_userId = sub,
                  ai_name = (case jsField ''email'' payload of JsString email \<Rightarrow> Some email | _ \<Rightarrow> None)\<rparr>
            | _ \<Rightarrow> NotMine)))"

definition supertokens_describe :: "(string \<Rightarrow> string option) \<Rightarrow> LoginMethodDescriptor option" where
  "supertokens_describe processEnv =
    (case nonEmptyEnv processEnv ''SUPERTOKENS_LOGIN_URL'' of
       None \<Rightarrow> None
     | Some url \<Rightarrow> Some (OidcRedirect ''supertokens'' ''SuperTokens'' url))"

text \<open>The three strategies as objects.  The constructor of the last one refuses a missing key source.\<close>

definition staticTokenStrategy :: "(string \<Rightarrow> string option) \<Rightarrow> AdminAuthStrategy" where
  "staticTokenStrategy processEnv =
    \<lparr>as_authenticate = staticToken_authenticate processEnv, as_describe = staticToken_describe processEnv\<rparr>"

definition googleSsoStrategy :: "(string \<Rightarrow> string option) \<Rightarrow> verifyIdToken \<Rightarrow> AdminAuthStrategy" where
  "googleSsoStrategy processEnv verifyIdToken =
    \<lparr>as_authenticate = googleSso_authenticate processEnv verifyIdToken, as_describe = googleSso_describe processEnv\<rparr>"

definition supertokensStrategy ::
  "(string \<Rightarrow> string option) \<Rightarrow> (string \<Rightarrow> jwtVerify) \<Rightarrow> string option \<Rightarrow> bootError + AdminAuthStrategy" where
  "supertokensStrategy processEnv jwtVerify jwksUrl =
    (case jwksUrl of
       None \<Rightarrow> Inl HostError
     | Some url \<Rightarrow>
        if url = [] then Inl HostError
        else Inr \<lparr>as_authenticate = supertokens_authenticate processEnv (jwtVerify url),
                  as_describe = supertokens_describe processEnv\<rparr>)"

section \<open>The guard of the administration\<close>

fun adminGuard :: "AdminAuthStrategy list \<Rightarrow> httpRequest \<Rightarrow> guardError + AdminIdentity" where
  "adminGuard [] req = Inl (Unauthorized None)"
| "adminGuard (s # ss) req =
    (case as_authenticate s req of
       Identity i \<Rightarrow> Inr i
     | NotMine \<Rightarrow> adminGuard ss req
     | AdminAuthError message \<Rightarrow> Inl (Unauthorized (Some message))
     | BrokenStrategy \<Rightarrow> Inl (Unauthorized None))"

definition authMethods :: "AdminAuthStrategy list \<Rightarrow> LoginMethodDescriptor list" where
  "authMethods strategies = List.map_filter as_describe strategies"

text \<open>\<open>xs.map(f)\<close> where \<open>f\<close> may throw.\<close>

fun mapR :: "('a \<Rightarrow> 'e + 'b) \<Rightarrow> 'a list \<Rightarrow> 'e + 'b list" where
  "mapR f [] = Inr []"
| "mapR f (x # xs) = bindR (f x) (\<lambda>y. bindR (mapR f xs) (\<lambda>ys. Inr (y # ys)))"

text \<open>The active chain; \<open>create\<close> is what the \<open>create\<close> function of a plugin gives in its context.\<close>

definition createSelectedAdminAuthStrategies ::
  "(string \<Rightarrow> string option) \<Rightarrow> 'f registry \<Rightarrow> ('f plugin \<Rightarrow> bootError + AdminAuthStrategy)
    \<Rightarrow> bootError + AdminAuthStrategy list" where
  "createSelectedAdminAuthStrategies processEnv reg create =
    mapR (\<lambda>key. bindR (registry_select reg AdminAuth key ''ADMIN_AUTH'') create) (selectedAdminAuthKeys processEnv)"

end
