(* ===== verification/Auth_Facts.thy ===== *)
theory Auth_Facts
  imports Authentication
begin

text \<open>
  Who gets in.  The chain of strategies takes the first that claims the request; each built-in strategy
  grants exactly what its configuration says, and nothing when it is not configured.
\<close>

lemma safeEqual_eq [simp]: "safeEqual a b \<longleftrightarrow> a = b"
  by (auto simp: safeEqual_def list.rel_eq)

lemma endsWith_iff: "endsWith s suffix \<longleftrightarrow> (\<exists>p. s = p @ suffix)"
proof
  assume "endsWith s suffix"
  then have "s = take (length s - length suffix) s @ suffix"
    by (metis append_take_drop_id endsWith_def)
  then show "\<exists>p. s = p @ suffix" ..
qed (auto simp: endsWith_def)

section \<open>The integration routes\<close>

text \<open>An integration request gets through exactly when a service token is configured and the request
  carries it, and, for the customer routes, names a customer; the customer and the actor the services
  see are those of the headers, whatever the body says.\<close>

theorem serviceGuards_correct:
  "(serviceGuard env req = Inr ctx \<longleftrightarrow>
      (\<exists>token. env ''SERVICE_API_TOKEN'' = Some token \<and> token \<noteq> [] \<and> headerOr req ''x-service-token'' [] = token)
      \<and> headerOr req ''x-customer-id'' [] \<noteq> []
      \<and> ctx = \<lparr>ctx_customerId = headerOr req ''x-customer-id'' [],
          ctx_actor = \<lparr>act_userId = headerOr req ''x-actor-user-id'' [],
            act_name = headerIfTruthy req ''x-actor-name'', act_email = headerIfTruthy req ''x-actor-email'',
            act_portalRole = headerIfTruthy req ''x-actor-role''\<rparr>,
          ctx_ipAddress = hr_ip req, ctx_userAgent = map_option headerText (hr_headers req ''user-agent'')\<rparr>)
   \<and> (serviceTokenGuard env req = Inr actor \<longleftrightarrow>
      (\<exists>token. env ''SERVICE_API_TOKEN'' = Some token \<and> token \<noteq> [] \<and> headerOr req ''x-service-token'' [] = token)
      \<and> actor = \<lparr>act_userId = orElse (headerIfTruthy req ''x-actor-user-id'') ''service'',
          act_name = headerIfTruthy req ''x-actor-name'', act_email = headerIfTruthy req ''x-actor-email'',
          act_portalRole = headerIfTruthy req ''x-actor-role''\<rparr>)"
proof -
  have ok: "serviceTokenOk env req \<longleftrightarrow>
      (\<exists>token. env ''SERVICE_API_TOKEN'' = Some token \<and> token \<noteq> [] \<and> headerOr req ''x-service-token'' [] = token)"
    by (cases "env ''SERVICE_API_TOKEN''") (auto simp: serviceTokenOk_def Let_def envOrEmpty_def)
  show ?thesis unfolding serviceGuard_def serviceTokenGuard_def Let_def ok by auto
qed

section \<open>The chain of strategies\<close>

lemma adminGuard_Inr:
  "adminGuard ss req = Inr i \<longleftrightarrow>
     (\<exists>before s after. ss = before @ s # after \<and> (\<forall>t \<in> set before. as_authenticate t req = NotMine)
        \<and> as_authenticate s req = Identity i)"
proof (induction ss)
  case (Cons s ss)
  have "(\<exists>before t after. s # ss = before @ t # after \<and> (\<forall>u \<in> set before. as_authenticate u req = NotMine)
        \<and> as_authenticate t req = Identity i) \<longleftrightarrow>
      as_authenticate s req = Identity i
      \<or> as_authenticate s req = NotMine \<and> (\<exists>before t after. ss = before @ t # after
          \<and> (\<forall>u \<in> set before. as_authenticate u req = NotMine) \<and> as_authenticate t req = Identity i)"
    (is "?L \<longleftrightarrow> ?R")
  proof
    assume ?L
    then obtain before t after where sp: "s # ss = before @ t # after"
      "\<forall>u \<in> set before. as_authenticate u req = NotMine" "as_authenticate t req = Identity i" by blast
    show ?R using sp by (cases before) auto
  next
    assume ?R
    then show ?L
    proof
      assume "as_authenticate s req = Identity i"
      then have "s # ss = [] @ s # ss \<and> (\<forall>u \<in> set []. as_authenticate u req = NotMine)
          \<and> as_authenticate s req = Identity i" by simp
      then show ?L by blast
    next
      assume r: "as_authenticate s req = NotMine \<and> (\<exists>before t after. ss = before @ t # after
          \<and> (\<forall>u \<in> set before. as_authenticate u req = NotMine) \<and> as_authenticate t req = Identity i)"
      then obtain before t after where "ss = before @ t # after"
        "\<forall>u \<in> set before. as_authenticate u req = NotMine" "as_authenticate t req = Identity i" by blast
      with r have "s # ss = (s # before) @ t # after \<and> (\<forall>u \<in> set (s # before). as_authenticate u req = NotMine)
          \<and> as_authenticate t req = Identity i" by simp
      then show ?L by blast
    qed
  qed
  with Cons.IH show ?case by (simp split: authOutcome.splits)
qed simp

section \<open>What the built-in strategies grant\<close>

text \<open>Possession of the configured token.\<close>

definition tokenGrant :: "(string \<Rightarrow> string option) \<Rightarrow> httpRequest \<Rightarrow> AdminIdentity \<Rightarrow> bool" where
  "tokenGrant env req i \<longleftrightarrow>
    (\<exists>token. env ''ADMIN_API_TOKEN'' = Some token \<and> token \<noteq> [] \<and> headerOr req ''x-admin-token'' [] = token)
    \<and> i = \<lparr>ai_userId = headerOr req ''x-admin-user'' ''admin'', ai_name = None\<rparr>"

text \<open>A Google account whose verified address is of the configured domain, and listed if there is a list.\<close>

definition googleGrant :: "(string \<Rightarrow> string option) \<Rightarrow> verifyIdToken \<Rightarrow> httpRequest \<Rightarrow> AdminIdentity \<Rightarrow> bool" where
  "googleGrant env verify req i \<longleftrightarrow>
    (\<exists>token clientId payload email user. extractBearer req = Some token
       \<and> env ''GOOGLE_CLIENT_ID'' = Some clientId \<and> clientId \<noteq> []
       \<and> verify clientId token = Some (Some payload) \<and> tp_email payload = Some email \<and> email \<noteq> []
       \<and> tp_email_verified payload = Some True \<and> adminDomain env \<noteq> []
       \<and> toLowerCase (trim email) = user @ ''@'' @ adminDomain env
       \<and> (adminAllowlist env = [] \<or> toLowerCase (trim email) \<in> set (adminAllowlist env))
       \<and> i = \<lparr>ai_userId = toLowerCase (trim email), ai_name = tp_name payload\<rparr>)"

text \<open>A session whose token verifies, for the configured issuer if there is one, with the required role.\<close>

definition sessionGrant :: "(string \<Rightarrow> string option) \<Rightarrow> jwtVerify \<Rightarrow> httpRequest \<Rightarrow> AdminIdentity \<Rightarrow> bool" where
  "sessionGrant env jwtVerify req i \<longleftrightarrow>
    (\<exists>token payload sub. extractBearer req = Some token
       \<and> jwtVerify token (nonEmptyEnv env ''SUPERTOKENS_ISSUER'') = Some payload
       \<and> orElse (nonEmptyEnv env ''ADMIN_SUPERTOKENS_ROLE'') ''admin'' \<in> set (rolesOf payload)
       \<and> jsField ''sub'' payload = JsString sub \<and> sub \<noteq> [] \<and> ai_userId i = sub
       \<and> ai_name i = (case jsField ''email'' payload of JsString email \<Rightarrow> Some email | _ \<Rightarrow> None))"

lemma staticToken_grants: "staticToken_authenticate env req = Identity i \<longleftrightarrow> tokenGrant env req i"
  by (cases "env ''ADMIN_API_TOKEN''")
     (auto simp: staticToken_authenticate_def tokenGrant_def Let_def envOrEmpty_def)

lemma googlePolicy_grants:
  "googlePolicy env claims = Identity i \<longleftrightarrow>
     gc_emailVerified claims \<and> adminDomain env \<noteq> []
     \<and> (\<exists>user. toLowerCase (trim (gc_email claims)) = user @ ''@'' @ adminDomain env)
     \<and> (adminAllowlist env = [] \<or> toLowerCase (trim (gc_email claims)) \<in> set (adminAllowlist env))
     \<and> i = \<lparr>ai_userId = toLowerCase (trim (gc_email claims)), ai_name = gc_name claims\<rparr>"
  unfolding googlePolicy_def Let_def endsWith_iff by auto

lemma googleVerify_Some:
  "googleVerify verify clientId token = Some claims \<longleftrightarrow>
     (\<exists>payload email. verify clientId token = Some (Some payload) \<and> tp_email payload = Some email \<and> email \<noteq> []
        \<and> claims = \<lparr>gc_email = email, gc_emailVerified = (tp_email_verified payload = Some True),
             gc_name = tp_name payload, gc_hd = tp_hd payload\<rparr>)"
  by (auto simp: googleVerify_def split: option.splits)

lemma googleSso_grants: "googleSso_authenticate env verify req = Identity i \<longleftrightarrow> googleGrant env verify req i"
proof (cases "extractBearer req")
  case (Some token)
  show ?thesis
  proof (cases "env ''GOOGLE_CLIENT_ID''")
    case c: (Some clientId)
    show ?thesis
    proof (cases "googleVerify verify clientId token")
      case None
      then show ?thesis using Some c
        by (auto simp: googleSso_authenticate_def googleGrant_def Let_def envOrEmpty_def googleVerify_def)
    next
      case v: (Some claims)
      then obtain payload email where p: "verify clientId token = Some (Some payload)"
        "tp_email payload = Some email" "email \<noteq> []"
        "claims = \<lparr>gc_email = email, gc_emailVerified = (tp_email_verified payload = Some True),
             gc_name = tp_name payload, gc_hd = tp_hd payload\<rparr>"
        unfolding googleVerify_Some by blast
      have "googleSso_authenticate env verify req = Identity i \<longleftrightarrow>
          clientId \<noteq> [] \<and> googlePolicy env claims = Identity i"
        using Some c v by (simp add: googleSso_authenticate_def Let_def envOrEmpty_def)
      then show ?thesis
        unfolding googlePolicy_grants googleGrant_def using Some c p by auto
    qed
  qed (auto simp: googleSso_authenticate_def googleGrant_def Let_def envOrEmpty_def split: option.splits)
qed (auto simp: googleSso_authenticate_def googleGrant_def)

lemma supertokens_grants: "supertokens_authenticate env verify req = Identity i \<longleftrightarrow> sessionGrant env verify req i"
  unfolding supertokens_authenticate_def sessionGrant_def
  by (cases i) (auto split: option.splits jsValue.splits)

text \<open>C24: with any ordered choice of the built-in strategies, an admitted administrator has the configured
  token, a Google account of the configured domain, or a session with the required role; conversely such
  a request is admitted unless an earlier strategy claims or rejects it; and when neither a token nor a
  domain is configured and no session verifies, nobody is admitted.\<close>

theorem admin_access:
  assumes "session = \<lparr>as_authenticate = supertokens_authenticate env jwt, as_describe = supertokens_describe env\<rparr>"
    and "set chain \<subseteq> {staticTokenStrategy env, googleSsoStrategy env verify, session}"
  shows "(\<forall>i. adminGuard chain req = Inr i \<longrightarrow>
            tokenGrant env req i \<or> googleGrant env verify req i \<or> sessionGrant env jwt req i)
    \<and> (\<forall>before s after i. chain = before @ s # after
         \<and> (\<forall>t \<in> set before. as_authenticate t req = NotMine)
         \<and> (s = staticTokenStrategy env \<and> tokenGrant env req i
            \<or> s = googleSsoStrategy env verify \<and> googleGrant env verify req i
            \<or> s = session \<and> sessionGrant env jwt req i) \<longrightarrow> adminGuard chain req = Inr i)
    \<and> (envOrEmpty env ''ADMIN_API_TOKEN'' = [] \<and> adminDomain env = []
         \<and> (\<forall>token issuer. jwt token issuer = None) \<longrightarrow> (\<exists>m. adminGuard chain req = Inl (Unauthorized m)))"
proof -
  have grants: "as_authenticate (staticTokenStrategy env) req = Identity i \<longleftrightarrow> tokenGrant env req i"
    "as_authenticate (googleSsoStrategy env verify) req = Identity i \<longleftrightarrow> googleGrant env verify req i"
    "as_authenticate session req = Identity i \<longleftrightarrow> sessionGrant env jwt req i" for i
    by (simp_all add: staticTokenStrategy_def googleSsoStrategy_def assms(1) staticToken_grants googleSso_grants
        supertokens_grants)
  have sound: "tokenGrant env req i \<or> googleGrant env verify req i \<or> sessionGrant env jwt req i"
    if admitted: "adminGuard chain req = Inr i" for i
  proof -
    from admitted obtain s where "s \<in> set chain" "as_authenticate s req = Identity i"
      unfolding adminGuard_Inr by (metis in_set_conv_decomp)
    with assms(2) grants show ?thesis by blast
  qed
  have closed: "\<exists>m. adminGuard chain req = Inl (Unauthorized m)"
    if "envOrEmpty env ''ADMIN_API_TOKEN'' = []" "adminDomain env = []" "\<forall>token issuer. jwt token issuer = None"
  proof (cases "adminGuard chain req")
    case (Inl e)
    then show ?thesis by (cases e) simp
  next
    case (Inr i)
    with sound[OF Inr] that have False
      by (auto simp: tokenGrant_def googleGrant_def sessionGrant_def envOrEmpty_def)
    then show ?thesis ..
  qed
  show ?thesis using sound grants closed unfolding adminGuard_Inr by blast
qed

text \<open>A deployment with a token and no Google client.\<close>

definition adminEnv_ex :: "string \<Rightarrow> string option" where
  "adminEnv_ex name = (if name = ''ADMIN_API_TOKEN'' then Some ''secret'' else None)"

definition adminRequest_ex :: httpRequest where
  "adminRequest_ex = \<lparr>hr_headers = (\<lambda>name. if name = ''x-admin-token'' then Some (OneHeader ''secret'')
     else if name = ''authorization'' then Some (OneHeader ''Bearer abc'') else None), hr_ip = None\<rparr>"

theorem admin_access_witness:
  "extractBearer adminRequest_ex = Some ''abc''
   \<and> adminGuard [googleSsoStrategy adminEnv_ex (\<lambda>_ _. None), staticTokenStrategy adminEnv_ex] adminRequest_ex
     = Inr \<lparr>ai_userId = ''admin'', ai_name = None\<rparr>"
proof -
  let ?google = "googleSsoStrategy adminEnv_ex (\<lambda>_ _. None)"
  have chain: "set [?google, staticTokenStrategy adminEnv_ex] \<subseteq>
      {staticTokenStrategy adminEnv_ex, googleSsoStrategy adminEnv_ex (\<lambda>_ _. None),
       \<lparr>as_authenticate = supertokens_authenticate adminEnv_ex (\<lambda>_ _. None),
        as_describe = supertokens_describe adminEnv_ex\<rparr>}" by auto
  have "as_authenticate ?google adminRequest_ex = NotMine"
    by (simp add: googleSsoStrategy_def googleSso_authenticate_def Let_def envOrEmpty_def adminEnv_ex_def
        split: option.splits)
  moreover have "tokenGrant adminEnv_ex adminRequest_ex \<lparr>ai_userId = ''admin'', ai_name = None\<rparr>"
    by (simp add: tokenGrant_def adminEnv_ex_def adminRequest_ex_def headerOr_def)
  ultimately have "[?google, staticTokenStrategy adminEnv_ex] = [?google] @ staticTokenStrategy adminEnv_ex # []
      \<and> (\<forall>t \<in> set [?google]. as_authenticate t adminRequest_ex = NotMine)
      \<and> tokenGrant adminEnv_ex adminRequest_ex \<lparr>ai_userId = ''admin'', ai_name = None\<rparr>" by simp
  then have "adminGuard [?google, staticTokenStrategy adminEnv_ex] adminRequest_ex
      = Inr \<lparr>ai_userId = ''admin'', ai_name = None\<rparr>"
    using admin_access[OF refl chain, of adminRequest_ex] by blast
  moreover have "extractBearer adminRequest_ex = Some ''abc''" by code_simp
  ultimately show ?thesis by blast
qed

end
