(* ===== verification/Json_Facts.thy ===== *)
theory Json_Facts
  imports Json
begin

text \<open>
  What is printed is read back.  The interface of a printer is the locale \<open>json_printer\<close>: its escapes are
  undone by the reader; the round trip is proved once inside and holds for \<open>JSON.stringify\<close> and for the
  printer of the embedded block of the acceptance page.
\<close>

section \<open>Numbers\<close>

lemma of_char_digit [simp]: "n < 10 \<Longrightarrow> (of_char (char_of (48 + n :: nat)) :: nat) = 48 + n"
  by simp

lemma isJsonDigit_digit: "n < 10 \<Longrightarrow> isJsonDigit (char_of (48 + n :: nat))"
  unfolding isJsonDigit_def Let_def by (simp add: of_char_digit del: of_char_of)

lemma digitValue_digit: "n < 10 \<Longrightarrow> digitValue (char_of (48 + n :: nat)) = n"
  unfolding digitValue_def by simp

lemma decimalNat_digits: "list_all isJsonDigit (decimalNat n)"
  by (induction n rule: decimalNat.induct)
     (subst decimalNat.simps, auto simp: isJsonDigit_digit)

lemma decimalNat_nonempty: "decimalNat n \<noteq> []"
  by (subst decimalNat.simps) simp

lemma decimalValue_decimalNat: "decimalValue (decimalNat n) = n"
proof (induction n rule: decimalNat.induct)
  case (1 n)
  show ?case
  proof (cases "n < 10")
    case True
    then show ?thesis by (subst decimalNat.simps) (simp add: decimalValue_def digitValue_digit)
  next
    case False
    then have "decimalValue (decimalNat n) = 10 * decimalValue (decimalNat (n div 10)) + n mod 10"
      by (subst decimalNat.simps) (simp add: decimalValue_def digitValue_digit)
    with 1 False show ?thesis by simp
  qed
qed

lemma decimalNat_leading: "length (decimalNat n) > 1 \<Longrightarrow> hd (decimalNat n) \<noteq> CHR ''0''"
proof (induction n rule: decimalNat.induct)
  case (1 n)
  from 1(2) have n: "\<not> n < 10" by (subst (asm) decimalNat.simps) (auto split: if_splits)
  have hd: "hd (decimalNat n) = hd (decimalNat (n div 10))"
    using n by (subst decimalNat.simps) (simp add: decimalNat_nonempty)
  show ?case
  proof (cases "n div 10 < 10")
    case True
    then have "decimalNat (n div 10) = [char_of (48 + n div 10)]" by (subst decimalNat.simps) simp
    moreover have "char_of (48 + n div 10) \<noteq> CHR ''0''"
    proof
      assume "char_of (48 + n div 10) = CHR ''0''"
      then have "digitValue (char_of (48 + n div 10)) = digitValue (CHR ''0'')" by simp
      with True n show False by (simp add: digitValue_digit) (simp add: digitValue_def)
    qed
    ultimately show ?thesis using hd by simp
  next
    case False
    then have "length (decimalNat (n div 10)) > 1"
      by (subst decimalNat.simps) (simp add: decimalNat_nonempty)
    with 1(1)[OF n] hd show ?thesis by simp
  qed
qed

text \<open>What may follow a value.\<close>

definition endsValue :: "string \<Rightarrow> bool" where
  "endsValue r \<longleftrightarrow> (case r of [] \<Rightarrow> True | c # _ \<Rightarrow> c \<in> set '',]}'')"

lemma endsValue_Cons [simp]: "endsValue (c # r) \<longleftrightarrow> c = CHR '','' \<or> c = CHR '']'' \<or> c = CHR ''}''"
  by (auto simp: endsValue_def)

lemma endsValue_Nil [simp]: "endsValue []"
  by (simp add: endsValue_def)

lemma digits_prefix:
  assumes "list_all isJsonDigit ds" "endsValue r"
  shows "takeWhile isJsonDigit (ds @ r) = ds" "dropWhile isJsonDigit (ds @ r) = r"
proof -
  have "r = [] \<or> \<not> isJsonDigit (hd r)"
    using assms(2) by (cases r) (auto simp: isJsonDigit_def)
  then have "takeWhile isJsonDigit r = []" "dropWhile isJsonDigit r = r" by (cases r; simp)+
  moreover have "\<forall>x \<in> set ds. isJsonDigit x" using assms(1) by (simp add: list_all_iff)
  ultimately show "takeWhile isJsonDigit (ds @ r) = ds" "dropWhile isJsonDigit (ds @ r) = r"
    by (simp_all add: takeWhile_append2 dropWhile_append2)
qed

lemma decimalNat_hd: "isJsonDigit (hd (decimalNat n))"
  using decimalNat_digits[of n] decimalNat_nonempty[of n] by (cases "decimalNat n") auto

lemma readNumber_decimal: "endsValue r \<Longrightarrow> readNumber (decimal i @ r) = Some (MInt i, r)"
proof -
  assume r: "endsValue r"
  have frac: "readFraction r = Some ([], r)" "readExponent r = Some ([], r)"
    using r by (cases r; auto simp: readFraction_def readExponent_def)+
  have lead: "\<not> (hd (decimalNat n) = CHR ''0'' \<and> length (decimalNat n) > 1)" for n
    using decimalNat_leading by blast
  have number: "takeWhile isJsonDigit (decimalNat n @ r) = decimalNat n \<and> dropWhile isJsonDigit (decimalNat n @ r) = r
      \<and> decimalNat n \<noteq> [] \<and> decimalValue (decimalNat n) = n" for n
    using digits_prefix[OF decimalNat_digits r] by (simp add: decimalNat_nonempty decimalValue_decimalNat)
  show ?thesis
  proof (cases "i < 0")
    case True
    then have "readNumber (decimal i @ r) = readNumber (CHR ''-'' # decimalNat (nat (- i)) @ r)"
      by (simp add: decimal_def)
    also have "\<dots> = Some (MInt i, r)"
      using True number[of "nat (- i)"] lead[of "nat (- i)"] frac unfolding readNumber_def Let_def by auto
    finally show ?thesis .
  next
    case False
    have "take 1 (decimalNat (nat i) @ r) \<noteq> ''-''"
      using decimalNat_hd[of "nat i"] decimalNat_nonempty[of "nat i"]
      by (cases "decimalNat (nat i)") (auto simp: isJsonDigit_def)
    with False number[of "nat i"] lead[of "nat i"] frac show ?thesis
      unfolding readNumber_def Let_def decimal_def by auto
  qed
qed

section \<open>The round trip\<close>

fun jsonOk :: "meta \<Rightarrow> bool" where
  "jsonOk (MReal _) = False"
| "jsonOk (MList xs) = list_all jsonOk xs"
| "jsonOk (MObj ps) = (distinct (map fst ps) \<and> list_all (\<lambda>(k, v). jsonOk v) ps)"
| "jsonOk _ = True"

fun jsonFuel :: "meta \<Rightarrow> nat" where
  "jsonFuel (MList xs) = Suc (length xs + sum_list (map jsonFuel xs))"
| "jsonFuel (MObj ps) = Suc (length ps + sum_list (map (\<lambda>(k, v). jsonFuel v) ps))"
| "jsonFuel _ = 1"

lemma objectOf_distinct: "distinct (map fst ps) \<Longrightarrow> objectOf ps = ps"
proof (induction ps rule: rev_induct)
  case (snoc p ps)
  have fresh: "k \<notin> fst ` set qs \<Longrightarrow> AList.update k v qs = qs @ [(k, v)]" for k v and qs :: "(string \<times> meta) list"
    by (induction qs) auto
  from snoc show ?case by (cases p) (simp add: objectOf_def fresh)
qed (simp add: objectOf_def)

lemma length_joinWith: "length (joinWith sep xs) = sum_list (map length xs) + (length xs - 1) * length sep"
  by (induction sep xs rule: joinWith.induct) auto

locale json_printer =
  fixes esc :: "char \<Rightarrow> string"
  assumes reads: "readChars (esc c @ s) = map_option (apfst (Cons c)) (readChars s)"

context json_printer begin

lemma readChars_escaped: "readChars (concat (map esc s) @ CHR 0x22 # r) = Some (s, r)"
  by (induction s) (simp_all add: reads)

lemma quoted_append: "quoted esc s @ r = CHR 0x22 # concat (map esc s) @ CHR 0x22 # r"
  by (simp add: quoted_def)

lemma print_first:
  assumes "jsonOk v"
  shows "skipSpace (printJson esc v @ r) = printJson esc v @ r"
    and "take 1 (printJson esc v @ r) \<noteq> '']''"
proof -
  have "\<exists>c cs. printJson esc v = c # cs \<and> \<not> isJsonSpace c \<and> c \<noteq> CHR '']''"
  proof (cases v)
    case (MInt i)
    show ?thesis
    proof (cases "decimalNat (nat i)")
      case (Cons c cs)
      with decimalNat_hd[of "nat i"] MInt show ?thesis
        by (auto simp: decimal_def isJsonSpace_def isJsonDigit_def)
    qed (simp add: decimalNat_nonempty)
  qed (use assms in \<open>auto simp: quoted_def isJsonSpace_def\<close>)
  then show "skipSpace (printJson esc v @ r) = printJson esc v @ r"
    and "take 1 (printJson esc v @ r) \<noteq> '']''" by auto
qed

lemma fuel_length: "jsonOk v \<Longrightarrow> jsonFuel v \<le> length (printJson esc v)"
proof (induction v)
  case (MInt i)
  then show ?case using decimalNat_nonempty by (simp add: decimal_def Suc_le_eq)
next
  case (MList xs)
  have "sum_list (map jsonFuel xs) \<le> sum_list (map length (map (printJson esc) xs))"
    using MList by (simp add: sum_list_mono list_all_iff)
  then show ?case by (cases xs) (simp_all add: length_joinWith)
next
  case (MObj ps)
  have "sum_list (map (\<lambda>(k, v). jsonFuel v) ps) + length ps
      \<le> sum_list (map length (map (\<lambda>(k, v). quoted esc k @ '':'' @ printJson esc v) ps))"
    using MObj
  proof (induction ps)
    case (Cons p ps)
    then show ?case by (cases p) (fastforce simp: quoted_def snds.simps)
  qed simp
  then show ?case by (cases ps) (simp_all add: length_joinWith)
qed (simp_all add: quoted_def)

lemma take_other: "c \<noteq> d \<Longrightarrow> take (Suc n) (c # cs) \<noteq> d # ds"
  by simp

lemma read_print:
  "jsonOk v \<Longrightarrow> jsonFuel v \<le> n \<Longrightarrow> endsValue r \<Longrightarrow> readValue n (printJson esc v @ r) = Some (v, r)"
proof (induction v arbitrary: n r)
  case (MStr s)
  then show ?case by (cases n) (simp_all add: quoted_append isJsonSpace_def readChars_escaped)
next
  case (MInt i)
  then obtain m where n: "n = Suc m" by (cases n) auto
  obtain c cs where c: "decimal i @ r = c # cs" "c = CHR ''-'' \<or> isJsonDigit c"
  proof (cases "i < 0")
    case False
    with that decimalNat_hd[of "nat i"] decimalNat_nonempty[of "nat i"] show thesis
      by (cases "decimalNat (nat i)") (auto simp: decimal_def)
  qed (use that in \<open>auto simp: decimal_def\<close>)
  have "skipSpace (decimal i @ r) = decimal i @ r"
    using print_first(1)[of "MInt i" r] by simp
  moreover have "readValue n (decimal i @ r) = readNumber (decimal i @ r)"
  proof -
    have "c \<noteq> CHR 0x22" "c \<noteq> CHR ''[''" "c \<noteq> CHR ''{''" "c \<noteq> CHR ''t''" "c \<noteq> CHR ''f''" "c \<noteq> CHR ''n''"
      using c(2) by (auto simp: isJsonDigit_def)
    then show ?thesis unfolding n readValue.simps calculation by (simp add: c(1))
  qed
  ultimately show ?case using readNumber_decimal MInt(3) by simp
next
  case (MBool b)
  then show ?case by (cases n) (auto simp: isJsonSpace_def)
next
  case MNull
  then show ?case by (cases n) (auto simp: isJsonSpace_def)
next
  case (MList xs)
  have items: "readItems m (joinWith '','' (map (printJson esc) ys) @ CHR '']'' # r) = Some (ys, r)"
    if "set ys \<subseteq> set xs" "ys \<noteq> []" "length ys + sum_list (map jsonFuel ys) \<le> m" for ys m
    using that
  proof (induction ys arbitrary: m)
    case (Cons y ys)
    then obtain k where m: "m = Suc k" by (cases m) auto
    have y: "jsonOk y" "y \<in> set xs" using Cons.prems MList.prems(1) by (auto simp: list_all_iff)
    have one: "endsValue t \<Longrightarrow> readValue k (printJson esc y @ t) = Some (y, t)" for t
      using MList.IH[OF y(2,1)] Cons.prems m by simp
    show ?case
    proof (cases ys)
      case Nil
      then show ?thesis using one by (simp add: m isJsonSpace_def)
    next
      case (Cons z zs)
      have "readItems k (joinWith '','' (map (printJson esc) ys) @ CHR '']'' # r) = Some (ys, r)"
        by (rule Cons.IH) (use Cons.prems m Cons in auto)
      then show ?thesis using one Cons by (simp add: m isJsonSpace_def)
    qed
  qed simp
  from MList.prems obtain m where n: "n = Suc m" by (cases n) auto
  show ?case
  proof (cases xs)
    case Nil
    then show ?thesis by (simp add: n isJsonSpace_def)
  next
    case (Cons y ys)
    have "jsonOk y" using MList.prems(1) Cons by simp
    from print_first[OF this] have "take 1 (skipSpace (joinWith '','' (map (printJson esc) xs) @ CHR '']'' # r)) \<noteq> '']''"
      unfolding Cons by (cases ys) simp_all
    with items[of xs m] MList.prems Cons show ?thesis by (simp add: n isJsonSpace_def)
  qed
next
  case (MObj ps)
  let ?member = "\<lambda>(k, v). quoted esc k @ '':'' @ printJson esc v"
  have members: "readMembers m (joinWith '','' (map ?member qs) @ CHR ''}'' # r) = Some (qs, r)"
    if "set qs \<subseteq> set ps" "qs \<noteq> []" "length qs + sum_list (map (\<lambda>(k, v). jsonFuel v) qs) \<le> m" for qs m
    using that
  proof (induction qs arbitrary: m)
    case (Cons q qs)
    obtain k v where q: "q = (k, v)" by (cases q)
    from Cons.prems obtain l where m: "m = Suc l" by (cases m) auto
    have v: "jsonOk v" using Cons.prems MObj.prems(1) q by (auto simp: list_all_iff)
    have one: "endsValue t \<Longrightarrow> readValue l (printJson esc v @ t) = Some (v, t)" for t
      using MObj.IH[of "(k, v)" v] v Cons.prems m q by (auto simp: snds.simps)
    show ?case
    proof (cases qs)
      case Nil
      then show ?thesis using one by (simp add: m q quoted_append isJsonSpace_def readChars_escaped)
    next
      case (Cons z zs)
      have "readMembers l (joinWith '','' (map ?member qs) @ CHR ''}'' # r) = Some (qs, r)"
        by (rule Cons.IH) (use Cons.prems m Cons q in auto)
      then show ?thesis using one Cons by (simp add: m q quoted_append isJsonSpace_def readChars_escaped)
    qed
  qed simp
  from MObj.prems obtain m where n: "n = Suc m" by (cases n) auto
  show ?case
  proof (cases ps)
    case Nil
    then show ?thesis by (simp add: n isJsonSpace_def)
  next
    case (Cons q qs)
    have "take 1 (skipSpace (joinWith '','' (map ?member ps) @ CHR ''}'' # r)) \<noteq> ''}''"
      unfolding Cons by (cases qs; cases q) (simp_all add: quoted_def isJsonSpace_def)
    with members[of ps m] MObj.prems Cons show ?thesis
      by (simp add: n isJsonSpace_def objectOf_distinct)
  qed
qed simp

lemma parse_print: "jsonOk v \<Longrightarrow> parseJson (printJson esc v) = Some v"
  using read_print[of v "2 * length (printJson esc v) + 2" "[]"] fuel_length[of v]
  by (simp add: parseJson_def)

end

section \<open>The two printers\<close>

lemma hexValue_lowerHex: "n < 16 \<Longrightarrow> hexValue (lowerHex n) = Some n"
proof -
  have "list_all (\<lambda>n. hexValue (lowerHex n) = Some n) [0..<16]" by code_simp
  then show "n < 16 \<Longrightarrow> hexValue (lowerHex n) = Some n" by (simp add: list_all_iff)
qed

lemma unicodeEscape_control:
  "n < 32 \<Longrightarrow> unicodeEscape (CHR ''0'' # CHR ''0'' # lowerHex (n div 16) # lowerHex (n mod 16) # s)
     = Some ([char_of n], s)"
proof -
  assume n: "n < 32"
  then have "n div 16 < 16" "n mod 16 < 16" by auto
  moreover have "hexValue (CHR ''0'') = Some 0" by code_simp
  ultimately show ?thesis
    using n by (simp add: unicodeEscape_def hexValue_lowerHex utf8_def)
qed

lemma readChars_jsonEscape: "readChars (jsonEscape c @ s) = map_option (apfst (Cons c)) (readChars s)"
proof (cases "(of_char c :: nat) < 32")
  case True
  let ?n = "of_char c :: nat"
  have u: "unicodeEscape (CHR ''0'' # CHR ''0'' # lowerHex (?n div 16) # lowerHex (?n mod 16) # s) = Some ([c], s)"
    using unicodeEscape_control[OF True] by simp
  show ?thesis
    using u True by (auto simp: jsonEscape_def Let_def simpleEscape_def apfst_def map_prod_def
        intro!: arg_cong2[where f = map_option])
next
  case False
  then show ?thesis by (auto simp: jsonEscape_def Let_def simpleEscape_def)
qed

interpretation stringify: json_printer jsonEscape
  by unfold_locales (rule readChars_jsonEscape)

lemma readChars_scriptEscape: "readChars (scriptEscape c @ s) = map_option (apfst (Cons c)) (readChars s)"
proof (cases "c = CHR ''<''")
  case True
  have char_lt: "char_of (60 :: nat) = CHR ''<''" by code_simp
  have "hex4 (CHR ''0'' # CHR ''0'' # CHR ''3'' # CHR ''c'' # s) = Some (60, s)"
    by (simp add: hexValue_def)
  then have "unicodeEscape (CHR ''0'' # CHR ''0'' # CHR ''3'' # CHR ''c'' # s) = Some (''<'', s)"
    using char_lt by (simp add: unicodeEscape_def utf8_def del: hex4.simps)
  with True show ?thesis by (simp add: scriptEscape_def apfst_def map_prod_def)
qed (simp add: scriptEscape_def readChars_jsonEscape)

interpretation script: json_printer scriptEscape
  by unfold_locales (rule readChars_scriptEscape)

text \<open>\<open>JSON.parse\<close> gives back every value that \<open>JSON.stringify\<close> printed, whatever characters its strings
  hold, for objects with distinct keys and whole numbers; with every \<open><\<close> escaped as well.\<close>

lemma json_roundtrip:
  assumes "jsonOk v"
  shows "parseJson (jsonText v) = Some v" and "parseJson (printJson scriptEscape v) = Some v"
  unfolding jsonText_def using stringify.parse_print[OF assms] script.parse_print[OF assms] by simp_all

end
