(* ===== verification/File_Storages.thy ===== *)
theory File_Storages
  imports Plugins Json_Facts Accept_Page
begin

text \<open>
  The file storages of \<open>src/src/plugins/file-storage\<close>: files on the disk of the server with signed links
  and their download controller, files in memory, and S3.  Each has a state of its own, apart from the
  world of the services, which reach it through the operations of \<open>FileStorage\<close>.
\<close>

section \<open>The local disk\<close>

text \<open>The files by path, the random UUIDs drawn so far, and the wall clock in milliseconds.\<close>

record localDisk =
  ld_files :: "string table"
  ld_drawn :: nat
  ld_now :: int

text \<open>What the host gives: random UUIDs, and the text of whole numbers beyond \<open>2 ^ 53\<close>.  A number of JavaScript
  is a double: up to there every whole number is one and prints its digits, beyond it
  the text is that of the nearest double, from 22 digits on with an exponent.\<close>

record localHost =
  lh_uuid :: "nat \<Rightarrow> string"
  lh_bigNumber :: "int \<Rightarrow> string"

record LocalFileStorageOptions =
  lo_dir :: string
  lo_secret :: string
  lo_baseUrl :: "string option"

type_synonym 'a disk = "(localDisk, failure, 'a) act"

definition isHexChar :: "char \<Rightarrow> bool" where
  "isHexChar c \<longleftrightarrow> isJsonDigit c \<or> (let n = of_char c :: nat in 97 \<le> n \<and> n \<le> 102)"

text \<open>\<open>/^[0-9a-f]{8}-[0-9a-f]{4}-[0-9a-f]{4}-[0-9a-f]{4}-[0-9a-f]{12}\.pdf$/\<close>\<close>

definition uuidPattern :: "(char \<Rightarrow> bool) list" where
  "uuidPattern =
    (let hex = (\<lambda>n. replicate n isHexChar); dash = [\<lambda>c. c = CHR ''-'']
     in hex 8 @ dash @ hex 4 @ dash @ hex 4 @ dash @ hex 4 @ dash @ hex 12)"

definition LOCAL_STORAGE_KEY_PATTERN :: "string \<Rightarrow> bool" where
  "LOCAL_STORAGE_KEY_PATTERN s \<longleftrightarrow> list_all2 (\<lambda>p c. p c) (uuidPattern @ map (=) ''.pdf'') s"

definition TTL_SECONDS :: int where
  "TTL_SECONDS = 900"

text \<open>\<open>(options.baseUrl ?? '').replace(/\/+$/, '')\<close>\<close>

definition local_baseUrl :: "LocalFileStorageOptions \<Rightarrow> string" where
  "local_baseUrl opts = rev (dropWhile (\<lambda>c. c = CHR ''/'') (rev (orElse (lo_baseUrl opts) [])))"

definition numberText :: "localHost \<Rightarrow> int \<Rightarrow> string" where
  "numberText H n = (if \<bar>n\<bar> \<le> 2 ^ 53 then decimal n else lh_bigNumber H n)"

definition local_sign :: "localHost \<Rightarrow> LocalFileStorageOptions \<Rightarrow> string \<Rightarrow> int \<Rightarrow> string" where
  "local_sign H opts storageKey expires =
    toHex (hmacSha256 (toBytes (lo_secret opts)) (toBytes (storageKey @ '':'' @ numberText H expires)))"

definition drawUuid :: "localHost \<Rightarrow> string disk" where
  "drawUuid H = (\<lambda>d. (Inr (lh_uuid H (ld_drawn d)), d\<lparr>ld_drawn := Suc (ld_drawn d)\<rparr>))"

definition writeFile :: "string \<Rightarrow> string \<Rightarrow> unit disk" where
  "writeFile path content = modifyM (\<lambda>d. d\<lparr>ld_files := AList.update path content (ld_files d)\<rparr>)"

definition existsFile :: "string \<Rightarrow> bool disk" where
  "existsFile path = getsM (\<lambda>d. map_of (ld_files d) path \<noteq> None)"

definition readFile :: "string \<Rightarrow> string disk" where
  "readFile path = bindM (getsM (\<lambda>d. map_of (ld_files d) path)) (requireM OtherError)"

definition local_store ::
  "localHost \<Rightarrow> LocalFileStorageOptions \<Rightarrow> string \<Rightarrow> string \<Rightarrow> string disk" where
  "local_store H opts buffer fileName =
    bindM (bindM (drawUuid H) (\<lambda>u. retM (u @ ''.pdf''))) (\<lambda>storageKey.
    thenM (writeFile (joinPath [lo_dir opts, storageKey]) buffer)
    (thenM (writeFile (joinPath [lo_dir opts, storageKey @ ''.meta.json''])
       (jsonText (MObj [(''fileName'', MStr fileName)])))
    (retM storageKey)))"

definition local_getPresignedUrl ::
  "localHost \<Rightarrow> LocalFileStorageOptions \<Rightarrow> string \<Rightarrow> string disk" where
  "local_getPresignedUrl H opts storageKey =
    bindM (existsFile (joinPath [lo_dir opts, storageKey])) (\<lambda>present.
    if \<not> LOCAL_STORAGE_KEY_PATTERN storageKey \<or> \<not> present then throwM (DomainError VERSION_NOT_FOUND)
    else bindM (getsM ld_now) (\<lambda>now.
      (let expires = now div 1000 + TTL_SECONDS in
       retM (local_baseUrl opts @ ''/files/'' @ encodeURIComponent storageKey
         @ ''?expires='' @ numberText H expires @ ''&sig='' @ local_sign H opts storageKey expires))))"

definition verifyPresignedRequest ::
  "localHost \<Rightarrow> LocalFileStorageOptions \<Rightarrow> int \<Rightarrow> string \<Rightarrow> JsNumber \<Rightarrow> string \<Rightarrow> bool" where
  "verifyPresignedRequest H opts now storageKey expires sig =
    (if \<not> LOCAL_STORAGE_KEY_PATTERN storageKey then False
     else case expires of
         JsFraction \<Rightarrow> False
       | JsInt n \<Rightarrow>
          if n * 1000 < now then False
          else let provided = toBytes sig; expected = toBytes (local_sign H opts storageKey n)
               in length provided = length expected \<and> provided = expected)"

definition local_retrieve :: "LocalFileStorageOptions \<Rightarrow> string \<Rightarrow> string disk" where
  "local_retrieve opts storageKey =
    bindM (existsFile (joinPath [lo_dir opts, storageKey])) (\<lambda>present.
    if \<not> LOCAL_STORAGE_KEY_PATTERN storageKey \<or> \<not> present then throwM (DomainError VERSION_NOT_FOUND)
    else readFile (joinPath [lo_dir opts, storageKey]))"

text \<open>The display name in the sidecar file, when it is there, is JSON, and is a text that is not empty.\<close>

definition sidecarName :: "string \<Rightarrow> string option" where
  "sidecarName content =
    (case parseJson content of
       Some (MObj fs) \<Rightarrow>
         (case map_of fs ''fileName'' of Some (MStr s) \<Rightarrow> if s = [] then None else Some s | _ \<Rightarrow> None)
     | _ \<Rightarrow> None)"

definition local_open :: "LocalFileStorageOptions \<Rightarrow> string \<Rightarrow> (string \<times> string) option disk" where
  "local_open opts storageKey =
    (if \<not> LOCAL_STORAGE_KEY_PATTERN storageKey then retM None
     else let path = joinPath [lo_dir opts, storageKey] in
       bindM (getsM (\<lambda>d. map_of (ld_files d) path)) (\<lambda>file.
       case file of
         None \<Rightarrow> retM None
       | Some content \<Rightarrow>
           bindM (attemptM (readFile (path @ ''.meta.json''))) (\<lambda>sidecar.
           retM (Some (content, orElse (Option.bind sidecar sidecarName) storageKey)))))"

subsection \<open>The download controller\<close>

text \<open>\<open>replace(/["\\]/g, '_').replace(/[^\x20-\x7e]/g, '_')\<close>: one underscore for each UTF-16 code unit, so
  one for a character of two or three bytes and two for one of four.\<close>

definition sanitizeByte :: "char \<Rightarrow> string" where
  "sanitizeByte c =
    (let n = of_char c :: nat in
     if c = CHR 0x22 \<or> c = CHR 0x5C then ''_''
     else if 32 \<le> n \<and> n \<le> 126 then [c]
     else if 128 \<le> n \<and> n < 192 then []
     else if n \<ge> 240 then ''__'' else ''_'')"

definition sanitizeFileName :: "string \<Rightarrow> string" where
  "sanitizeFileName s = concat (map sanitizeByte s)"

datatype fileRefusal = ForbiddenFile | MissingFile | BrokenFile failure

record fileResponse =
  fr_contentType :: string
  fr_disposition :: string
  fr_body :: string

text \<open>\<open>Number(expires)\<close> of a query parameter that may be missing; what is not a whole number, \<open>NaN\<close>
  included, is \<open>JsFraction\<close>.\<close>

definition serveFile ::
  "localHost \<Rightarrow> LocalFileStorageOptions \<Rightarrow> (string option \<Rightarrow> JsNumber) \<Rightarrow> string \<Rightarrow> string option \<Rightarrow> string option
    \<Rightarrow> localDisk \<Rightarrow> fileRefusal + fileResponse" where
  "serveFile H opts toNumber storageKey expires sig d =
    (if \<not> verifyPresignedRequest H opts (ld_now d) storageKey (toNumber expires) (orElse sig [])
     then Inl ForbiddenFile
     else case fst (local_open opts storageKey d) of
         Inl e \<Rightarrow> Inl (BrokenFile e)
       | Inr None \<Rightarrow> Inl MissingFile
       | Inr (Some (content, fileName)) \<Rightarrow>
           Inr \<lparr>fr_contentType = ''application/pdf'',
                fr_disposition = ''inline; filename='' @ [CHR 0x22] @ sanitizeFileName fileName @ [CHR 0x22],
                fr_body = content\<rparr>)"

section \<open>Memory\<close>

record memoryStorage =
  ms_blobs :: "string table"
  ms_drawn :: nat

definition memory_store ::
  "(nat \<Rightarrow> string) \<Rightarrow> string \<Rightarrow> string \<Rightarrow> (memoryStorage, failure, string) act" where
  "memory_store uuid buffer fileName = (\<lambda>m.
    (let storageKey = ''s3://clickwrap-documents/'' @ uuid (ms_drawn m) @ ''/'' @ fileName
     in (Inr storageKey, m\<lparr>ms_drawn := Suc (ms_drawn m),
                           ms_blobs := AList.update storageKey buffer (ms_blobs m)\<rparr>)))"

definition memory_getPresignedUrl :: "string \<Rightarrow> (memoryStorage, failure, string) act" where
  "memory_getPresignedUrl storageKey =
    bindM (getsM (\<lambda>m. map_of (ms_blobs m) storageKey)) (\<lambda>blob.
    if blob = None then throwM (DomainError VERSION_NOT_FOUND)
    else retM (''https://presigned.local/'' @ encodeURIComponent storageKey @ ''?expires=900''))"

definition memory_retrieve :: "string \<Rightarrow> (memoryStorage, failure, string) act" where
  "memory_retrieve storageKey =
    bindM (getsM (\<lambda>m. map_of (ms_blobs m) storageKey)) (requireM (DomainError VERSION_NOT_FOUND))"

section \<open>S3\<close>

record S3FileStorageOptions =
  so_bucket :: string
  so_region :: string
  so_endpoint :: "string option"
  so_accessKeyId :: "string option"
  so_secretAccessKey :: "string option"
  so_keyPrefix :: "string option"
  so_forcePathStyle :: "bool option"

text \<open>The configuration of the client, and the storage the constructor makes.\<close>

record S3ClientConfig =
  sc_region :: string
  sc_forcePathStyle :: bool
  sc_endpoint :: "string option"
  sc_credentials :: "(string \<times> string) option"

record S3FileStorage =
  s3_client :: S3ClientConfig
  s3_bucket :: string
  s3_keyPrefix :: string

definition stripOuterSlashes :: "string \<Rightarrow> string" where
  "stripOuterSlashes s =
    (let slash = (\<lambda>c. c = CHR ''/'') in rev (dropWhile slash (rev (dropWhile slash s))))"

definition newS3FileStorage :: "S3FileStorageOptions \<Rightarrow> S3FileStorage" where
  "newS3FileStorage options =
    \<lparr>s3_client = \<lparr>sc_region = so_region options,
       sc_forcePathStyle = orElse (so_forcePathStyle options) (so_endpoint options \<noteq> None),
       sc_endpoint = so_endpoint options,
       sc_credentials = (case (so_accessKeyId options, so_secretAccessKey options) of
          (Some k, Some s) \<Rightarrow> Some (k, s) | _ \<Rightarrow> None)\<rparr>,
     s3_bucket = so_bucket options,
     s3_keyPrefix = stripOuterSlashes (orElse (so_keyPrefix options) [])\<rparr>"

text \<open>The service: each command on bucket and key answers or fails with an error of the SDK.\<close>

record s3Error =
  se_name :: "string option"
  se_httpStatusCode :: "int option"

record s3Service =
  sv_put :: "string \<Rightarrow> string \<Rightarrow> string \<Rightarrow> s3Error option"
  sv_head :: "string \<Rightarrow> string \<Rightarrow> s3Error option"
  sv_get :: "string \<Rightarrow> string \<Rightarrow> s3Error + string option"
  sv_signedUrl :: "string \<Rightarrow> string \<Rightarrow> int \<Rightarrow> string"

definition isNotFound :: "s3Error \<Rightarrow> bool" where
  "isNotFound e \<longleftrightarrow> se_name e = Some ''NoSuchKey'' \<or> se_name e = Some ''NotFound''
     \<or> se_httpStatusCode e = Some 404"

definition s3_failure :: "s3Error \<Rightarrow> failure" where
  "s3_failure e = (if isNotFound e then DomainError VERSION_NOT_FOUND else OtherError)"

definition s3_store :: "S3FileStorage \<Rightarrow> s3Service \<Rightarrow> string \<Rightarrow> string \<Rightarrow> failure + string" where
  "s3_store S V uuid buffer =
    (let storageKey = (if s3_keyPrefix S \<noteq> [] then s3_keyPrefix S @ ''/'' @ uuid else uuid)
     in case sv_put V (s3_bucket S) storageKey buffer of None \<Rightarrow> Inr storageKey | Some _ \<Rightarrow> Inl OtherError)"

definition s3_getPresignedUrl :: "S3FileStorage \<Rightarrow> s3Service \<Rightarrow> string \<Rightarrow> failure + string" where
  "s3_getPresignedUrl S V storageKey =
    (case sv_head V (s3_bucket S) storageKey of
       Some e \<Rightarrow> Inl (s3_failure e)
     | None \<Rightarrow> Inr (sv_signedUrl V (s3_bucket S) storageKey TTL_SECONDS))"

definition s3_retrieve :: "S3FileStorage \<Rightarrow> s3Service \<Rightarrow> string \<Rightarrow> failure + string" where
  "s3_retrieve S V storageKey =
    (case sv_get V (s3_bucket S) storageKey of
       Inl e \<Rightarrow> Inl (s3_failure e)
     | Inr None \<Rightarrow> Inl (DomainError VERSION_NOT_FOUND)
     | Inr (Some body) \<Rightarrow> Inr body)"

end
