(* ===== verification/File_Facts.thy ===== *)
theory File_Facts
  imports File_Storages
begin

text \<open>
  The signed links of the local storage: what was stored comes back through its link until the link
  expires, and the download controller serves nothing but generated files of the directory.
\<close>

section \<open>Keys and paths\<close>

lemma list_all2_preds: "list_all2 (\<lambda>p c. p c) ps s \<Longrightarrow> \<forall>p \<in> set ps. \<forall>c. p c \<longrightarrow> Q c \<Longrightarrow> \<forall>c \<in> set s. Q c"
  by (induction ps s rule: list_all2_induct) auto

definition isKeyChar :: "char \<Rightarrow> bool" where
  "isKeyChar c \<longleftrightarrow> isHexChar c \<or> c \<in> set ''-.pdf''"

lemma key_chars:
  assumes "LOCAL_STORAGE_KEY_PATTERN key"
  shows "\<forall>c \<in> set key. isKeyChar c"
proof (rule list_all2_preds)
  show "list_all2 (\<lambda>p c. p c) (uuidPattern @ map (=) ''.pdf'') key"
    using assms by (simp add: LOCAL_STORAGE_KEY_PATTERN_def)
  show "\<forall>p \<in> set (uuidPattern @ map (=) ''.pdf''). \<forall>c. p c \<longrightarrow> isKeyChar c"
    by (auto simp: uuidPattern_def Let_def isKeyChar_def)
qed

lemma key_length: "LOCAL_STORAGE_KEY_PATTERN key \<Longrightarrow> length key = 40"
  unfolding LOCAL_STORAGE_KEY_PATTERN_def uuidPattern_def Let_def by (auto dest: list_all2_lengthD)

lemma hexChar_cases: "isHexChar c \<Longrightarrow> c \<in> set ''0123456789abcdef''"
proof -
  assume "isHexChar c"
  then have "(of_char c :: nat) \<in> set (map of_char ''0123456789abcdef'')"
    by (simp add: isHexChar_def isJsonDigit_def Let_def) presburger
  then show "c \<in> set ''0123456789abcdef''" by (auto simp del: list.map list.set simp: set_map)
qed

lemma keyChar_unreserved: "isKeyChar c \<Longrightarrow> isUnreserved c \<and> c \<noteq> CHR ''/''"
proof -
  assume "isKeyChar c"
  then have "c \<in> set (''0123456789abcdef'' @ ''-.pdf'')"
    using hexChar_cases[of c] by (simp only: isKeyChar_def set_append) blast
  moreover have "list_all (\<lambda>c. isUnreserved c \<and> c \<noteq> CHR ''/'') (''0123456789abcdef'' @ ''-.pdf'')"
    by code_simp
  ultimately show "isUnreserved c \<and> c \<noteq> CHR ''/''" unfolding list_all_iff by blast
qed

lemma encode_key: "\<forall>c \<in> set key. isUnreserved c \<Longrightarrow> encodeURIComponent key = key"
  by (induction key) (simp_all add: encodeURIComponent_def)

lemma splitOn_none: "c \<notin> set s \<Longrightarrow> splitOn c s = [s]"
  by (induction s) auto

lemma splitOn_append: "splitOn c (a @ c # b) = splitOn c a @ splitOn c b"
proof (induction a)
  case (Cons x a)
  have "splitOn c a \<noteq> []" by (cases a) (auto split: list.splits)
  with Cons show ?case by (auto split: list.splits)
qed simp

definition plainName :: "string \<Rightarrow> bool" where
  "plainName s \<longleftrightarrow> s \<noteq> [] \<and> s \<noteq> ''.'' \<and> s \<noteq> ''..'' \<and> CHR ''/'' \<notin> set s"

lemma normalSegments_snoc:
  "plainName s \<Longrightarrow> normalSegments absolute acc (ss @ [s]) = normalSegments absolute acc ss @ [s]"
  by (induction absolute acc ss rule: normalSegments.induct) (auto simp: plainName_def split: list.splits)

lemma joinWith_snoc: "joinWith sep (xs @ [x]) = (if xs = [] then x else joinWith sep xs @ sep @ x)"
  by (induction sep xs rule: joinWith.induct) auto

text \<open>The directory part of the path of a plain name.\<close>

definition directoryOf :: "string \<Rightarrow> string" where
  "directoryOf dir =
    (if dir = [] then []
     else let ss = normalSegments (isAbsolute dir) [] (splitOn (CHR ''/'') dir)
       in (if isAbsolute dir then ''/'' else []) @ (if ss = [] then [] else joinWith ''/'' ss @ ''/''))"

lemma joinPath_plain:
  assumes "plainName s"
  shows "joinPath [dir, s] = directoryOf dir @ s"
proof -
  have s: "s \<noteq> []" "CHR ''/'' \<notin> set s" "\<not> isAbsolute s"
    using assms by (auto simp: plainName_def isAbsolute_def split: list.splits)
  have l: "last s \<noteq> CHR ''/''" using s last_in_set[of s] by metis
  show ?thesis
  proof (cases "dir = []")
    case True
    have "normalSegments False [] [s] = [s]"
      using normalSegments_snoc[OF assms, of False "[]" "[]"] by simp
    with True s l show ?thesis
      by (simp add: joinPath_def normalizePath_def splitOn_none directoryOf_def)
  next
    case False
    have "isAbsolute (dir @ CHR ''/'' # s) = isAbsolute dir"
      using False by (cases dir) (simp_all add: isAbsolute_def)
    with False s l normalSegments_snoc[OF assms] show ?thesis
      by (simp add: joinPath_def normalizePath_def splitOn_append splitOn_none directoryOf_def Let_def joinWith_snoc)
  qed
qed

lemma key_plain: "LOCAL_STORAGE_KEY_PATTERN key \<Longrightarrow> plainName key"
  using key_length[of key] key_chars[of key] keyChar_unreserved by (fastforce simp: plainName_def)

lemma sidecar_plain: "LOCAL_STORAGE_KEY_PATTERN key \<Longrightarrow> plainName (key @ ''.meta.json'')"
  using key_length[of key] key_chars[of key] keyChar_unreserved by (fastforce simp: plainName_def)

lemma toBytes_inject: "toBytes a = toBytes b \<longleftrightarrow> a = b"
proof -
  have "inj (of_char :: char \<Rightarrow> byte)"
  proof (rule injI)
    fix c d :: char
    assume "(of_char c :: byte) = of_char d"
    then have "unat (of_char c :: byte) = unat (of_char d :: byte)" by simp
    moreover have "unat (of_char c :: byte) = of_char c" for c :: char
    proof -
      have "unat (of_nat (of_char c :: nat) :: byte) = of_char c" by (simp add: unat_of_nat)
      then show ?thesis by (simp only: of_nat_of_char)
    qed
    ultimately show "c = d" by (metis char_eqI)
  qed
  then show ?thesis by (simp add: toBytes_def inj_map_eq_map)
qed

lemma verify_iff:
  "verifyPresignedRequest H opts now key expires sig \<longleftrightarrow>
     LOCAL_STORAGE_KEY_PATTERN key \<and> (\<exists>n. expires = JsInt n \<and> now \<le> n * 1000 \<and> sig = local_sign H opts key n)"
  by (auto simp: verifyPresignedRequest_def toBytes_inject Let_def split: JsNumber.splits)

section \<open>What the controller serves\<close>

definition printableUnquoted :: "char \<Rightarrow> bool" where
  "printableUnquoted c \<longleftrightarrow> (let n = of_char c :: nat in 32 \<le> n \<and> n \<le> 126) \<and> c \<noteq> CHR 0x22 \<and> c \<noteq> CHR 0x5C"

lemma sanitize_printable: "list_all printableUnquoted (sanitizeFileName s)"
proof (induction s)
  case (Cons c s)
  have "list_all printableUnquoted (sanitizeByte c)"
    by (auto simp: sanitizeByte_def printableUnquoted_def Let_def)
  with Cons show ?case by (simp add: sanitizeFileName_def)
qed (simp add: sanitizeFileName_def)

lemma readFile_run: "readFile path d = (case map_of (ld_files d) path of None \<Rightarrow> Inl OtherError | Some c \<Rightarrow> Inr c, d)"
  by (simp add: readFile_def bindM_def getsM_def requireM_def retM_def throwM_def split: option.splits)

lemma local_open_run:
  "local_open opts key d =
    (Inr (if LOCAL_STORAGE_KEY_PATTERN key
       then map_option (\<lambda>content. (content, orElse (Option.bind
              (map_of (ld_files d) (directoryOf (lo_dir opts) @ key @ ''.meta.json'')) sidecarName) key))
          (map_of (ld_files d) (directoryOf (lo_dir opts) @ key))
       else None), d)"
proof (cases "LOCAL_STORAGE_KEY_PATTERN key")
  case True
  then show ?thesis
    by (simp add: local_open_def bindM_def getsM_def retM_def attemptM_def readFile_run joinPath_plain[OF key_plain]
        Let_def split: option.splits)
qed (simp add: local_open_def retM_def)

lemma local_store_run:
  "key = lh_uuid H (ld_drawn d) @ ''.pdf'' \<Longrightarrow>
    local_store H opts buffer fileName d = (Inr key, d\<lparr>ld_drawn := Suc (ld_drawn d), ld_files :=
      AList.update (joinPath [lo_dir opts, key @ ''.meta.json'']) (jsonText (MObj [(''fileName'', MStr fileName)]))
        (AList.update (joinPath [lo_dir opts, key]) buffer (ld_files d))\<rparr>)"
  by (simp add: local_store_def bindM_def drawUuid_def retM_def thenM_def writeFile_def modifyM_def)

lemma serveFile_run:
  "serveFile H opts toNumber key expires sig d =
    (if \<not> verifyPresignedRequest H opts (ld_now d) key (toNumber expires) (orElse sig []) then Inl ForbiddenFile
     else case map_of (ld_files d) (directoryOf (lo_dir opts) @ key) of
         None \<Rightarrow> Inl MissingFile
       | Some content \<Rightarrow>
          Inr \<lparr>fr_contentType = ''application/pdf'',
               fr_disposition = ''inline; filename='' @ [CHR 0x22] @ sanitizeFileName (orElse (Option.bind
                  (map_of (ld_files d) (directoryOf (lo_dir opts) @ key @ ''.meta.json'')) sidecarName) key) @ [CHR 0x22],
               fr_body = content\<rparr>)"
  by (auto simp: serveFile_def local_open_run verify_iff split: option.splits)

text \<open>C25: whatever is requested, the download controller answers only a request that carries the signature
  of its key and of an expiry that has not passed; the key has the form of a generated one, so the file
  lies directly in the configured directory, and the header it sends is printable, with no quote inside
  the name.\<close>

theorem serveFile_safe:
  assumes "serveFile H opts toNumber key expires sig d = Inr r"
  shows "LOCAL_STORAGE_KEY_PATTERN key \<and> CHR ''/'' \<notin> set key \<and> length key = 40
    \<and> (\<exists>n. toNumber expires = JsInt n \<and> ld_now d \<le> n * 1000 \<and> orElse sig [] = local_sign H opts key n)
    \<and> joinPath [lo_dir opts, key] = directoryOf (lo_dir opts) @ key
    \<and> map_of (ld_files d) (directoryOf (lo_dir opts) @ key) = Some (fr_body r)
    \<and> (\<exists>name. fr_disposition r = ''inline; filename='' @ [CHR 0x22] @ name @ [CHR 0x22] \<and> list_all printableUnquoted name)"
proof -
  from assms have v: "verifyPresignedRequest H opts (ld_now d) key (toNumber expires) (orElse sig [])"
    and c: "map_of (ld_files d) (directoryOf (lo_dir opts) @ key) = Some (fr_body r)"
    and h: "\<exists>name. fr_disposition r = ''inline; filename='' @ [CHR 0x22] @ sanitizeFileName name @ [CHR 0x22]"
    by (auto simp: serveFile_run split: if_splits option.splits)
  from v obtain n where p: "LOCAL_STORAGE_KEY_PATTERN key" and n: "toNumber expires = JsInt n" "ld_now d \<le> n * 1000"
    and s: "orElse sig [] = local_sign H opts key n"
    unfolding verify_iff by blast
  have "CHR ''/'' \<notin> set key" using key_plain[OF p] by (simp add: plainName_def)
  then show ?thesis
    using p n s c h key_length[OF p] joinPath_plain[OF key_plain[OF p]] sanitize_printable by blast
qed

text \<open>C26: a stored file comes back: \<open>retrieve\<close> gives its bytes, and its presigned link is served, under the
  name it was stored with, at every moment until it expires, 15 minutes later, and refused from then on.
  The clock is any time a \<open>Date\<close> can hold, and \<open>Number\<close> reads the digits of a whole number that a double
  holds exactly, up to \<open>2 ^ 53\<close>.\<close>

theorem local_roundtrip:
  assumes uuid: "\<And>n. LOCAL_STORAGE_KEY_PATTERN (lh_uuid H n @ ''.pdf'')"
    and number: "\<And>n. 0 \<le> n \<Longrightarrow> n \<le> 2 ^ 53 \<Longrightarrow> toNumber (Some (decimal n)) = JsInt n"
    and clock: "0 \<le> ld_now d" "ld_now d \<le> 8640000000000000"
    and stored: "local_store H opts buffer fileName d = (Inr key, d1)"
    and expires: "expires = ld_now d div 1000 + 900"
  shows "local_retrieve opts key d1 = (Inr buffer, d1)
    \<and> local_getPresignedUrl H opts key d1 = (Inr (local_baseUrl opts @ ''/files/'' @ key @ ''?expires='' @ decimal expires
        @ ''&sig='' @ local_sign H opts key expires), d1)
    \<and> ld_now d + 899000 < expires * 1000 \<and> expires * 1000 \<le> ld_now d + 900000
    \<and> (\<forall>later. (\<forall>path. map_of (ld_files d1) path \<noteq> None \<longrightarrow> map_of (ld_files later) path = map_of (ld_files d1) path) \<longrightarrow>
         serveFile H opts toNumber key (Some (decimal expires)) (Some (local_sign H opts key expires)) later
           = (if ld_now later \<le> expires * 1000
              then Inr \<lparr>fr_contentType = ''application/pdf'',
                fr_disposition = ''inline; filename='' @ [CHR 0x22]
                  @ sanitizeFileName (if fileName = [] then key else fileName) @ [CHR 0x22],
                fr_body = buffer\<rparr>
              else Inl ForbiddenFile))"
proof -
  let ?dir = "directoryOf (lo_dir opts)"
  have key: "key = lh_uuid H (ld_drawn d) @ ''.pdf''"
    using stored local_store_run[OF refl] by simp
  have p: "LOCAL_STORAGE_KEY_PATTERN key" unfolding key by (rule uuid)
  have d1: "ld_files d1 = AList.update (?dir @ key @ ''.meta.json'') (jsonText (MObj [(''fileName'', MStr fileName)]))
      (AList.update (?dir @ key) buffer (ld_files d))" "ld_now d1 = ld_now d"
    using stored unfolding local_store_run[OF key] joinPath_plain[OF key_plain[OF p]] joinPath_plain[OF sidecar_plain[OF p]]
    by auto
  have files: "map_of (ld_files d1) (?dir @ key) = Some buffer"
    "map_of (ld_files d1) (?dir @ key @ ''.meta.json'') = Some (jsonText (MObj [(''fileName'', MStr fileName)]))"
    by (simp_all add: d1 map_of_update)
  have "parseJson (jsonText (MObj [(''fileName'', MStr fileName)])) = Some (MObj [(''fileName'', MStr fileName)])"
    by (rule json_roundtrip) simp
  then have name: "sidecarName (jsonText (MObj [(''fileName'', MStr fileName)])) = (if fileName = [] then None else Some fileName)"
    by (simp add: sidecarName_def)
  have small: "0 \<le> expires" "expires \<le> 2 ^ 53" using clock unfolding expires by simp_all
  have unreserved: "encodeURIComponent key = key"
  proof (rule encode_key)
    show "\<forall>c \<in> set key. isUnreserved c"
    proof
      fix c assume "c \<in> set key"
      then show "isUnreserved c" using key_chars[OF p] keyChar_unreserved[of c] by simp
    qed
  qed
  have "local_retrieve opts key d1 = (Inr buffer, d1)"
    using p files(1) by (simp add: local_retrieve_def bindM_def existsFile_def getsM_def readFile_run
        joinPath_plain[OF key_plain])
  moreover have "local_getPresignedUrl H opts key d1 = (Inr (local_baseUrl opts @ ''/files/'' @ key @ ''?expires=''
      @ decimal expires @ ''&sig='' @ local_sign H opts key expires), d1)"
    using p files(1) small unreserved by (simp add: local_getPresignedUrl_def bindM_def existsFile_def getsM_def retM_def
        joinPath_plain[OF key_plain] d1(2) TTL_SECONDS_def Let_def expires[symmetric] numberText_def)
  moreover have "ld_now d + 899000 < expires * 1000 \<and> expires * 1000 \<le> ld_now d + 900000"
    unfolding expires by presburger
  moreover have "serveFile H opts toNumber key (Some (decimal expires)) (Some (local_sign H opts key expires)) later
      = (if ld_now later \<le> expires * 1000
         then Inr \<lparr>fr_contentType = ''application/pdf'',
           fr_disposition = ''inline; filename='' @ [CHR 0x22]
             @ sanitizeFileName (if fileName = [] then key else fileName) @ [CHR 0x22], fr_body = buffer\<rparr>
         else Inl ForbiddenFile)"
    if "\<forall>path. map_of (ld_files d1) path \<noteq> None \<longrightarrow> map_of (ld_files later) path = map_of (ld_files d1) path" for later
  proof -
    have "map_of (ld_files later) (?dir @ key) = Some buffer"
      "map_of (ld_files later) (?dir @ key @ ''.meta.json'') = Some (jsonText (MObj [(''fileName'', MStr fileName)]))"
      using that files by simp_all
    then show ?thesis using p number[OF small] name by (auto simp: serveFile_run verify_iff)
  qed
  ultimately show ?thesis by blast
qed

section \<open>A concrete storage\<close>

definition uuid_ex :: string where
  "uuid_ex = ''0123abcd-0000-4000-8000-0123456789ab''"

definition localHost_ex :: localHost where
  "localHost_ex = \<lparr>lh_uuid = (\<lambda>_. uuid_ex), lh_bigNumber = (\<lambda>_. [])\<rparr>"

definition localOptions_ex :: LocalFileStorageOptions where
  "localOptions_ex = \<lparr>lo_dir = ''/data/files/'', lo_secret = ''secret'', lo_baseUrl = Some ''https://host.example/''\<rparr>"

definition disk_ex :: localDisk where
  "disk_ex = \<lparr>ld_files = [], ld_drawn = 0, ld_now = 1700000000000\<rparr>"

definition toNumber_ex :: "string option \<Rightarrow> JsNumber" where
  "toNumber_ex s =
    (case Option.bind s readNumber of Some (MInt n, []) \<Rightarrow> JsInt n | _ \<Rightarrow> JsFraction)"

lemma toNumber_ex_decimal: "toNumber_ex (Some (decimal n)) = JsInt n"
  using readNumber_decimal[of "[]" n] by (simp add: toNumber_ex_def)

lemma key_ex: "LOCAL_STORAGE_KEY_PATTERN (uuid_ex @ ''.pdf'')"
  by code_simp

theorem serveFile_safe_witness:
  "\<exists>r. serveFile localHost_ex localOptions_ex toNumber_ex (uuid_ex @ ''.pdf'') (Some (decimal 1700000900))
      (Some (local_sign localHost_ex localOptions_ex (uuid_ex @ ''.pdf'') 1700000900))
      (disk_ex\<lparr>ld_files := [(''/data/files/'' @ uuid_ex @ ''.pdf'', ''%PDF'')]\<rparr>) = Inr r
    \<and> fr_body r = ''%PDF'' \<and> length (uuid_ex @ ''.pdf'') = 40"
proof -
  let ?d = "disk_ex\<lparr>ld_files := [(''/data/files/'' @ uuid_ex @ ''.pdf'', ''%PDF'')]\<rparr>"
  have dir: "directoryOf (lo_dir localOptions_ex) = ''/data/files/''" by code_simp
  have "\<exists>r. serveFile localHost_ex localOptions_ex toNumber_ex (uuid_ex @ ''.pdf'') (Some (decimal 1700000900))
      (Some (local_sign localHost_ex localOptions_ex (uuid_ex @ ''.pdf'') 1700000900)) ?d = Inr r"
    unfolding serveFile_run verify_iff toNumber_ex_decimal dir using key_ex by (simp add: disk_ex_def)
  then obtain r where r: "serveFile localHost_ex localOptions_ex toNumber_ex (uuid_ex @ ''.pdf'') (Some (decimal 1700000900))
      (Some (local_sign localHost_ex localOptions_ex (uuid_ex @ ''.pdf'') 1700000900)) ?d = Inr r" ..
  from serveFile_safe[OF r] have "map_of (ld_files ?d) (''/data/files/'' @ uuid_ex @ ''.pdf'') = Some (fr_body r)"
    and "length (uuid_ex @ ''.pdf'') = 40" unfolding dir by blast+
  with r show ?thesis by auto
qed

theorem local_roundtrip_witness:
  "\<exists>d1. local_store localHost_ex localOptions_ex ''%PDF'' ''terms.pdf'' disk_ex = (Inr (uuid_ex @ ''.pdf''), d1)
    \<and> local_retrieve localOptions_ex (uuid_ex @ ''.pdf'') d1 = (Inr ''%PDF'', d1)
    \<and> serveFile localHost_ex localOptions_ex toNumber_ex (uuid_ex @ ''.pdf'') (Some (decimal 1700000900))
        (Some (local_sign localHost_ex localOptions_ex (uuid_ex @ ''.pdf'') 1700000900)) d1
      = Inr \<lparr>fr_contentType = ''application/pdf'',
          fr_disposition = ''inline; filename='' @ [CHR 0x22] @ sanitizeFileName ''terms.pdf'' @ [CHR 0x22],
          fr_body = ''%PDF''\<rparr>"
proof -
  have uuid: "LOCAL_STORAGE_KEY_PATTERN (lh_uuid localHost_ex n @ ''.pdf'')" for n
    using key_ex by (simp add: localHost_ex_def)
  obtain d1 where d1: "local_store localHost_ex localOptions_ex ''%PDF'' ''terms.pdf'' disk_ex
      = (Inr (uuid_ex @ ''.pdf''), d1)" and now: "ld_now d1 = 1700000000000"
    using local_store_run[of "uuid_ex @ ''.pdf''" localHost_ex disk_ex] by (simp add: localHost_ex_def disk_ex_def)
  have e: "(1700000900 :: int) = ld_now disk_ex div 1000 + 900" by (simp add: disk_ex_def)
  have clock: "0 \<le> ld_now disk_ex" "ld_now disk_ex \<le> 8640000000000000" by (simp_all add: disk_ex_def)
  note spec = local_roundtrip[of localHost_ex toNumber_ex disk_ex, OF uuid toNumber_ex_decimal clock d1 e]
  have "local_retrieve localOptions_ex (uuid_ex @ ''.pdf'') d1 = (Inr ''%PDF'', d1)" using spec by blast
  moreover have "serveFile localHost_ex localOptions_ex toNumber_ex (uuid_ex @ ''.pdf'') (Some (decimal 1700000900))
        (Some (local_sign localHost_ex localOptions_ex (uuid_ex @ ''.pdf'') 1700000900)) d1
      = Inr \<lparr>fr_contentType = ''application/pdf'',
          fr_disposition = ''inline; filename='' @ [CHR 0x22] @ sanitizeFileName ''terms.pdf'' @ [CHR 0x22],
          fr_body = ''%PDF''\<rparr>"
    using spec now by simp
  ultimately show ?thesis using d1 by blast
qed

end
