(* ===== verification/Email_Providers.thy ===== *)
theory Email_Providers
  imports Authentication Accept_Page
begin

text \<open>
  The e-mail providers and the transports of the administrator notifications
  (\<open>src/src/plugins/email/noop\<close>, \<open>smtp\<close>, \<open>postmark\<close>, \<open>src/src/plugins/notifications\<close>): thin clients of
  services outside, which are arguments, the webhook of Postmark with its guard, and the fallback poll.
\<close>

section \<open>Providers\<close>

text \<open>The default provider sends nothing.\<close>

definition noopProvider :: "env \<Rightarrow> EmailDeliveryProvider" where
  "noopProvider E =
    \<lparr>ep_send = (\<lambda>mail. bindM (randomUUID E) (\<lambda>u. retM (''noop-'' @ u))), ep_fetchDeliveryStatus = None\<rparr>"

record SmtpConfig =
  smtp_host :: string
  smtp_port :: JsNumber
  smtp_secure :: bool
  smtp_user :: "string option"
  smtp_pass :: "string option"
  smtp_from :: string

text \<open>The transport (\<open>nodemailer\<close>) takes the configuration and the mail; it succeeds or throws.\<close>

definition smtpProvider :: "env \<Rightarrow> (SmtpConfig \<Rightarrow> OutboundMail \<Rightarrow> bool) \<Rightarrow> SmtpConfig \<Rightarrow> EmailDeliveryProvider" where
  "smtpProvider E transport config =
    \<lparr>ep_send = (\<lambda>mail. bindM (randomUUID E) (\<lambda>u.
       if transport config mail then retM (''smtp-'' @ u) else throwM OtherError)),
     ep_fetchDeliveryStatus = None\<rparr>"

text \<open>The client of Postmark: a message sent gives its id; the details of a message are its events, with
  their types.\<close>

record PostmarkClient =
  pm_sendEmail :: "string \<Rightarrow> OutboundMail \<Rightarrow> string option"
  pm_messageEvents :: "string \<Rightarrow> string list option"

definition postmarkProvider :: "env \<Rightarrow> (string \<Rightarrow> PostmarkClient) \<Rightarrow> string \<Rightarrow> string \<Rightarrow> EmailDeliveryProvider" where
  "postmarkProvider E newClient apiToken sender =
    (let client = (if apiToken \<noteq> [] then Some (newClient apiToken) else None) in
     \<lparr>ep_send = (\<lambda>mail.
        case client of
          None \<Rightarrow> bindM (randomUUID E) (\<lambda>u. retM (''postmark-noop-'' @ u))
        | Some c \<Rightarrow>
          (case pm_sendEmail c sender mail of None \<Rightarrow> throwM OtherError | Some messageId \<Rightarrow> retM messageId)),
      ep_fetchDeliveryStatus = Some (\<lambda>providerRef.
        case client of
          None \<Rightarrow> retM StPending
        | Some c \<Rightarrow>
          (case pm_messageEvents c providerRef of
             None \<Rightarrow> throwM OtherError
           | Some types \<Rightarrow> retM (if list_ex (\<lambda>t. t = ''Delivered'') types then StDelivered else StPending)))\<rparr>)"

section \<open>The webhook\<close>

record PostmarkWebhookPayload =
  pw_RecordType :: string
  pw_MessageID :: "string option"
  pw_Recipient :: "string option"
  pw_Email :: "string option"
  pw_Inactive :: "bool option"

definition toInboundEvent :: "PostmarkWebhookPayload \<Rightarrow> InboundDeliveryEvent option" where
  "toInboundEvent payload =
    (if pw_RecordType payload = ''Delivery'' then
       (case pw_MessageID payload of
          None \<Rightarrow> None
        | Some messageId \<Rightarrow>
           if messageId = [] then None
           else Some \<lparr>ide_providerRef = messageId, ide_recipient = orElse (pw_Recipient payload) [],
                      ide_kind = DELIVERED, ide_inactivatedRecipient = None\<rparr>)
     else if pw_RecordType payload = ''Bounce'' then
       Some \<lparr>ide_providerRef = orElse (pw_MessageID payload) [],
             ide_recipient = (case pw_Email payload of
                Some email \<Rightarrow> email | None \<Rightarrow> orElse (pw_Recipient payload) []),
             ide_kind = BOUNCED,
             ide_inactivatedRecipient = Some (pw_Inactive payload = Some True)\<rparr>
     else None)"

definition postmarkGuard :: "(string \<Rightarrow> string option) \<Rightarrow> httpRequest \<Rightarrow> bool" where
  "postmarkGuard processEnv req =
    (let provided = headerOr req ''token'' []; expected = envOrEmpty processEnv ''POSTMARK_WEBHOOK_TOKEN''
     in expected \<noteq> [] \<and> length provided = length expected \<and> provided = expected)"

text \<open>\<open>POST /webhooks/postmark\<close>: \<open>False\<close> is the 403 of the guard.\<close>

definition webhook_handle ::
  "env \<Rightarrow> (string \<Rightarrow> string option) \<Rightarrow> httpRequest \<Rightarrow> PostmarkWebhookPayload \<Rightarrow> bool M" where
  "webhook_handle E processEnv req payload =
    (if \<not> postmarkGuard processEnv req then retM False
     else thenM (case toInboundEvent payload of None \<Rightarrow> retM () | Some event \<Rightarrow> delivery_handle E event)
       (retM True))"

section \<open>The fallback poll\<close>

definition FALLBACK_STALE_AFTER_MINUTES :: int where
  "FALLBACK_STALE_AFTER_MINUTES = 10"

definition fallbackPolling_run :: "env \<Rightarrow> EmailDeliveryProvider \<Rightarrow> unit M" where
  "fallbackPolling_run E P =
    bindM clock_now (\<lambda>now. pollPendingDeliveries E P (now - FALLBACK_STALE_AFTER_MINUTES * 60000))"

section \<open>Configuration\<close>

definition notificationConfig :: "(string \<Rightarrow> string option) \<Rightarrow> NotificationConfig" where
  "notificationConfig processEnv =
    \<lparr>cfg_appName = orElse (nonEmptyEnv processEnv ''APP_NAME'') ''clickwrap-server'',
     cfg_publicBaseUrl = trim (envOrEmpty processEnv ''PUBLIC_BASE_URL''),
     cfg_acceptanceLinkSecret =
       orElse (nonEmptyEnv processEnv ''ACCEPTANCE_LINK_SECRET'') ''dev-insecure-acceptance-link-secret''\<rparr>"

definition emailProvider :: "(string \<Rightarrow> string option) \<Rightarrow> 'f registry \<Rightarrow> bootError + string" where
  "emailProvider processEnv reg =
    (let key = selectedEmailProviderKey processEnv in
     bindR (registry_select reg EmailProvider key ''EMAIL_PROVIDER'') (\<lambda>_. Inr key))"

section \<open>Administrator notifications\<close>

text \<open>The request a transport makes, and what it logs: \<open>fetch\<close> gives the status of the response or throws.
  The text of the exception is left out.\<close>

record fetchRequest =
  fq_url :: string
  fq_headers :: "(string \<times> string) list"
  fq_body :: string

type_synonym fetch = "fetchRequest \<Rightarrow> nat option"

definition fetchWarning :: "string \<Rightarrow> string \<Rightarrow> nat option \<Rightarrow> string option" where
  "fetchWarning failed error response =
    (case response of
       None \<Rightarrow> Some error
     | Some status \<Rightarrow> if 200 \<le> status \<and> status < 300 then None else Some (failed @ '': HTTP '' @ decimalNat status))"

definition slackRequest :: "string \<Rightarrow> AdminNotification \<Rightarrow> fetchRequest" where
  "slackRequest webhookUrl n =
    \<lparr>fq_url = webhookUrl, fq_headers = [(''content-type'', ''application/json'')],
     fq_body = jsonText (MObj [(''text'', MStr (''*'' @ an_title n @ ''*'' @ [CHR 0x0A] @ an_body n))])\<rparr>"

definition slack_notify :: "fetch \<Rightarrow> string \<Rightarrow> AdminNotification \<Rightarrow> (string option) M" where
  "slack_notify fetch webhookUrl n =
    retM (fetchWarning ''slack admin-notification failed'' ''slack admin-notification error''
      (fetch (slackRequest webhookUrl n)))"

record HubSpotConfig =
  hs_accessToken :: string
  hs_pipeline :: string
  hs_stage :: string
  hs_baseUrl :: "string option"

definition hubspotRequest :: "HubSpotConfig \<Rightarrow> AdminNotification \<Rightarrow> fetchRequest" where
  "hubspotRequest cfg n =
    \<lparr>fq_url = orElse (hs_baseUrl cfg) ''https://api.hubapi.com'' @ ''/crm/v3/objects/tickets'',
     fq_headers = [(''authorization'', ''Bearer '' @ hs_accessToken cfg), (''content-type'', ''application/json'')],
     fq_body = jsonText (MObj [(''properties'', MObj
       [(''subject'', MStr (an_title n)), (''content'', MStr (an_body n)),
        (''hs_pipeline'', MStr (hs_pipeline cfg)), (''hs_pipeline_stage'', MStr (hs_stage cfg))])])\<rparr>"

definition hubspot_notify :: "fetch \<Rightarrow> HubSpotConfig \<Rightarrow> AdminNotification \<Rightarrow> (string option) M" where
  "hubspot_notify fetch cfg n =
    retM (fetchWarning ''hubspot admin-notification ticket failed'' ''hubspot admin-notification error''
      (fetch (hubspotRequest cfg n)))"

text \<open>The active notifiers: \<open>email\<close> is made by the host, and left out without a recipient.\<close>

definition createSelectedAdminNotifiers ::
  "(string \<Rightarrow> string option) \<Rightarrow> 'f registry \<Rightarrow> ('f plugin \<Rightarrow> bootError + (AdminNotification \<Rightarrow> unit M))
    \<Rightarrow> EmailDeliveryProvider \<Rightarrow> bootError + (AdminNotification \<Rightarrow> unit M) list" where
  "createSelectedAdminNotifiers processEnv reg create P =
    bindR (mapR (\<lambda>key.
      if key = ''email'' then
        (case nonEmptyEnv processEnv ''ADMIN_NOTIFICATION_EMAIL'' of
           None \<Rightarrow> Inr []
         | Some recipient \<Rightarrow> Inr [emailAdminNotifier P recipient])
      else bindR (registry_select reg AdminNotificationKind key ''ADMIN_NOTIFICATIONS'')
        (\<lambda>p. bindR (create p) (\<lambda>n. Inr [n])))
      (selectedAdminNotificationKeys processEnv)) (\<lambda>ns. Inr (concat ns))"

end
