(* ===== verification/Builtins.thy ===== *)
theory Builtins
  imports Email_Providers File_Storages
begin

text \<open>
  The plugins that come with the server (\<open>src/src/plugins/builtins\<close>): their kinds, keys and \<open>create\<close>
  functions, which read the environment through the context of a plugin.  What \<open>create\<close> makes is an
  \<open>implementation\<close>: the class and the arguments of its constructor.
\<close>

datatype implementation =
    NoopEmailImpl
  | PostmarkEmailImpl string string
  | SmtpEmailImpl SmtpConfig
  | InMemoryStorageImpl
  | LocalStorageImpl LocalFileStorageOptions
  | S3StorageImpl S3FileStorage
  | GoogleSsoImpl
  | StaticTokenImpl
  | SupertokensImpl string
  | DefaultPageImpl
  | SlackImpl string
  | HubSpotImpl HubSpotConfig

text \<open>A function of a plugin object: \<open>create\<close>, or \<open>module\<close> with the controllers and providers it mounts.\<close>

datatype pluginFunction =
    CreateFunction "(string \<Rightarrow> string option) \<Rightarrow> bootError + implementation"
  | ModuleFunction "string list" "string list"

definition builtin ::
  "PluginKind \<Rightarrow> string \<Rightarrow> ((string \<Rightarrow> string option) \<Rightarrow> bootError + implementation)
    \<Rightarrow> (string list \<times> string list) option \<Rightarrow> pluginFunction plugin" where
  "builtin kind key create mounts =
    \<lparr>pl_kind = kind, pl_key = key, pl_create = CreateFunction create,
     pl_module = map_option (\<lambda>(controllers, providers). ModuleFunction controllers providers) mounts\<rparr>"

definition noopEmailPlugin :: "pluginFunction plugin" where
  "noopEmailPlugin = builtin EmailProvider ''noop'' (\<lambda>_. Inr NoopEmailImpl) None"

definition postmarkEmailPlugin :: "pluginFunction plugin" where
  "postmarkEmailPlugin = builtin EmailProvider ''postmark''
    (\<lambda>env. bindR (ctx_requireEnv env EmailProvider ''postmark'' ''EMAIL_FROM'') (\<lambda>sender.
       Inr (PostmarkEmailImpl (orElse (ctx_env env ''POSTMARK_API_TOKEN'' (Some [])) []) sender)))
    (Some ([''PostmarkWebhookController''], [''FallbackPollingJob'']))"

text \<open>\<open>Number(ctx.env('SMTP_PORT') ?? 587)\<close>.\<close>

definition smtpEmailPlugin :: "(string \<Rightarrow> JsNumber) \<Rightarrow> pluginFunction plugin" where
  "smtpEmailPlugin toNumber = builtin EmailProvider ''smtp''
    (\<lambda>env. bindR (ctx_requireEnv env EmailProvider ''smtp'' ''EMAIL_FROM'') (\<lambda>sender.
       Inr (SmtpEmailImpl
         \<lparr>smtp_host = orElse (ctx_env env ''SMTP_HOST'' (Some ''localhost'')) [],
          smtp_port = (case ctx_env env ''SMTP_PORT'' None of None \<Rightarrow> JsInt 587 | Some p \<Rightarrow> toNumber p),
          smtp_secure = (ctx_env env ''SMTP_SECURE'' None = Some ''true''),
          smtp_user = ctx_env env ''SMTP_USER'' None, smtp_pass = ctx_env env ''SMTP_PASS'' None,
          smtp_from = sender\<rparr>)))
    None"

definition memoryFileStoragePlugin :: "pluginFunction plugin" where
  "memoryFileStoragePlugin = builtin FileStorageKind ''memory'' (\<lambda>_. Inr InMemoryStorageImpl) None"

definition localFileStoragePlugin :: "pluginFunction plugin" where
  "localFileStoragePlugin = builtin FileStorageKind ''local''
    (\<lambda>env. bindR (ctx_requireEnv env FileStorageKind ''local'' ''FILE_STORAGE_LOCAL_SECRET'') (\<lambda>secret.
       Inr (LocalStorageImpl
         \<lparr>lo_dir = orElse (ctx_env env ''FILE_STORAGE_LOCAL_DIR'' None) ''./data/files'',
          lo_secret = secret, lo_baseUrl = ctx_env env ''PUBLIC_BASE_URL'' None\<rparr>)))
    (Some ([''LocalFilesController''], [''LocalFileStorage'']))"

definition s3FileStoragePlugin :: "pluginFunction plugin" where
  "s3FileStoragePlugin = builtin FileStorageKind ''s3''
    (\<lambda>env. bindR (ctx_requireEnv env FileStorageKind ''s3'' ''FILE_STORAGE_S3_BUCKET'') (\<lambda>bucket.
       bindR (ctx_requireEnv env FileStorageKind ''s3'' ''FILE_STORAGE_S3_REGION'') (\<lambda>region.
       Inr (S3StorageImpl (newS3FileStorage
         \<lparr>so_bucket = bucket, so_region = region,
          so_endpoint = ctx_env env ''FILE_STORAGE_S3_ENDPOINT'' None,
          so_accessKeyId = ctx_env env ''FILE_STORAGE_S3_ACCESS_KEY_ID'' None,
          so_secretAccessKey = ctx_env env ''FILE_STORAGE_S3_SECRET_ACCESS_KEY'' None,
          so_keyPrefix = ctx_env env ''FILE_STORAGE_S3_KEY_PREFIX'' None,
          so_forcePathStyle = map_option (\<lambda>raw. toLowerCase raw = ''true'')
            (ctx_env env ''FILE_STORAGE_S3_FORCE_PATH_STYLE'' None)\<rparr>)))))
    None"

definition googleSsoAdminAuthPlugin :: "pluginFunction plugin" where
  "googleSsoAdminAuthPlugin = builtin AdminAuth ''google-sso'' (\<lambda>_. Inr GoogleSsoImpl) None"

definition staticTokenAdminAuthPlugin :: "pluginFunction plugin" where
  "staticTokenAdminAuthPlugin = builtin AdminAuth ''static-token'' (\<lambda>_. Inr StaticTokenImpl) None"

definition supertokensAdminAuthPlugin :: "pluginFunction plugin" where
  "supertokensAdminAuthPlugin = builtin AdminAuth ''supertokens''
    (\<lambda>env. bindR (ctx_requireEnv env AdminAuth ''supertokens'' ''SUPERTOKENS_JWKS_URL'')
       (\<lambda>url. Inr (SupertokensImpl url))) None"

definition defaultAcceptancePagePlugin :: "pluginFunction plugin" where
  "defaultAcceptancePagePlugin = builtin AcceptancePageKind ''default'' (\<lambda>_. Inr DefaultPageImpl) None"

definition slackAdminNotificationPlugin :: "pluginFunction plugin" where
  "slackAdminNotificationPlugin = builtin AdminNotificationKind ''slack''
    (\<lambda>env. bindR (ctx_requireEnv env AdminNotificationKind ''slack'' ''SLACK_WEBHOOK_URL'')
       (\<lambda>url. Inr (SlackImpl url))) None"

definition hubspotAdminNotificationPlugin :: "pluginFunction plugin" where
  "hubspotAdminNotificationPlugin = builtin AdminNotificationKind ''hubspot''
    (\<lambda>env. bindR (ctx_requireEnv env AdminNotificationKind ''hubspot'' ''HUBSPOT_ACCESS_TOKEN'') (\<lambda>token.
       bindR (ctx_requireEnv env AdminNotificationKind ''hubspot'' ''HUBSPOT_TICKET_PIPELINE'') (\<lambda>pipeline.
       bindR (ctx_requireEnv env AdminNotificationKind ''hubspot'' ''HUBSPOT_TICKET_STAGE'') (\<lambda>stage.
       Inr (HubSpotImpl \<lparr>hs_accessToken = token, hs_pipeline = pipeline, hs_stage = stage,
              hs_baseUrl = ctx_env env ''HUBSPOT_BASE_URL'' None\<rparr>))))) None"

definition builtinPlugins :: "(string \<Rightarrow> JsNumber) \<Rightarrow> pluginFunction plugin list" where
  "builtinPlugins toNumber =
    [noopEmailPlugin, postmarkEmailPlugin, smtpEmailPlugin toNumber, memoryFileStoragePlugin,
     localFileStoragePlugin, s3FileStoragePlugin, googleSsoAdminAuthPlugin, staticTokenAdminAuthPlugin,
     supertokensAdminAuthPlugin, defaultAcceptancePagePlugin, slackAdminNotificationPlugin,
     hubspotAdminNotificationPlugin]"

definition createPlugin ::
  "(string \<Rightarrow> string option) \<Rightarrow> pluginFunction plugin \<Rightarrow> bootError + implementation" where
  "createPlugin processEnv p =
    (case pl_create p of CreateFunction f \<Rightarrow> f processEnv | ModuleFunction _ _ \<Rightarrow> Inl HostError)"

text \<open>The active e-mail provider and file storage of \<open>EmailModule\<close> and \<open>FileStorageModule\<close>, and what
  their plugins mount.\<close>

definition activePlugin ::
  "(string \<Rightarrow> string option) \<Rightarrow> pluginFunction registry \<Rightarrow> PluginKind \<Rightarrow> string \<Rightarrow> string
    \<Rightarrow> bootError + (implementation \<times> string list \<times> string list)" where
  "activePlugin processEnv reg kind key envVar =
    bindR (registry_select reg kind key envVar) (\<lambda>p.
    bindR (createPlugin processEnv p) (\<lambda>impl.
    Inr (impl, case pl_module p of
       Some (ModuleFunction controllers providers) \<Rightarrow> (controllers, providers) | _ \<Rightarrow> ([], []))))"

definition emailModule ::
  "(string \<Rightarrow> string option) \<Rightarrow> pluginFunction registry \<Rightarrow> bootError + (implementation \<times> string list \<times> string list)" where
  "emailModule processEnv reg =
    activePlugin processEnv reg EmailProvider (selectedEmailProviderKey processEnv) ''EMAIL_PROVIDER''"

definition fileStorageModule ::
  "(string \<Rightarrow> string option) \<Rightarrow> pluginFunction registry \<Rightarrow> bootError + (implementation \<times> string list \<times> string list)" where
  "fileStorageModule processEnv reg =
    activePlugin processEnv reg FileStorageKind (selectedFileStorageKey processEnv) ''FILE_STORAGE''"

end
