(* ===== verification/Provider_Facts.thy ===== *)
theory Provider_Facts
  imports Email_Providers Frames Consent_Facts
begin

text \<open>
  Delivery events: the webhook of Postmark, redelivery, and the built-in providers as providers that do
  not reach into the tables.
\<close>

lemma providers_outside:
  "mailOutside (noopProvider E)" "mailOutside (smtpProvider E transport cfg)"
  "mailOutside (postmarkProvider E newClient token sender)"
proof -
  have [simp]: "drawsOnly (bindM (randomUUID E) (\<lambda>u. retM (f u)))" for f :: "string \<Rightarrow> string"
    by (auto simp: drawsOnly_def bindM_def randomUUID_def retM_def intro!: exI[of _ 1])
  have [simp]: "drawsOnly (retM x)" "drawsOnly (throwM e)" for x e
    by (simp_all add: outside_draws outside_def retM_def throwM_def)
  have [simp]: "drawsOnly (bindM (randomUUID E) (\<lambda>u. if b then retM (f u) else throwM e))" for b f e
    by (auto simp: drawsOnly_def bindM_def randomUUID_def retM_def throwM_def intro!: exI[of _ 1])
  show "mailOutside (noopProvider E)" "mailOutside (smtpProvider E transport cfg)"
    "mailOutside (postmarkProvider E newClient token sender)"
    by (auto simp: mailOutside_def noopProvider_def smtpProvider_def postmarkProvider_def Let_def
        split: option.splits)
qed

text \<open>So the senders of the e-mail core run on each of them without failing a request.\<close>

interpretation noop_services: mail_services "noopProvider E" files_ex for E
  by unfold_locales (simp_all add: providers_outside small_services.files)

interpretation smtp_services: mail_services "smtpProvider E transport cfg" files_ex for E transport cfg
  by unfold_locales (simp_all add: providers_outside small_services.files)

interpretation postmark_services: mail_services "postmarkProvider E newClient token sender" files_ex
  for E newClient token sender
  by unfold_locales (simp_all add: providers_outside small_services.files)

section \<open>What a delivery leaves\<close>

text \<open>The access of the rollout state at its delivery, if any: it fails only for an undetermined period,
  whatever the time.\<close>

definition deliveryDone :: "world \<Rightarrow> string \<Rightarrow> bool" where
  "deliveryDone w ref \<longleftrightarrow>
    (case map_of (w_outbound w) ref of
       None \<Rightarrow> True
     | Some oe \<Rightarrow> oe_deliveredAt oe \<noteq> None \<and>
        (case stateFor (tvals (w_states w)) (oe_customerId oe) (oe_versionId oe) of
           None \<Rightarrow> True
         | Some s \<Rightarrow> cvs_state s = SUPERSEDED
            \<or> find (\<lambda>e. ne_providerRef e = Some ref) (tvals (w_notifications w)) \<noteq> None
              \<and> (case map_of (w_versions w) (oe_versionId oe) of
                   None \<Rightarrow> True
                 | Some v \<Rightarrow> \<not> (cvs_state s = PENDING_NOTIFICATION \<and> cvs_notifiedAt s = None)
                     \<or> (\<forall>now. \<exists>e. recordAccess s now v (cvs_carryOverBlocking s = Some True) = Inl e))))"

lemma recordAccess_fails: "recordAccess s now v b = Inl e \<Longrightarrow> recordAccess s later v b = Inl e"
  by (auto simp: recordAccess_def bindR_eq_Inl split: if_splits)

lemma delivery_again:
  assumes "deliveryDone w ref" "wf_table cvs_id (w_states w)"
  shows "snd (recordDelivery E ref w) = w"
proof -
  have "wp (recordDelivery E ref) (\<lambda>_ w'. w' = w) (\<lambda>_ w'. w' = w) w"
  proof (cases "map_of (w_outbound w) ref")
    case None
    then show ?thesis by (simp add: recordDelivery_def wp_simps)
  next
    case oe: (Some oe)
    show ?thesis
    proof (cases "stateFor (tvals (w_states w)) (oe_customerId oe) (oe_versionId oe)")
      case None
      with oe assms(1) show ?thesis by (auto simp: recordDelivery_def wp_simps deliveryDone_def)
    next
      case s: (Some s)
      note row = stateFor_stored[OF assms(2) s]
      show ?thesis
      proof (cases "cvs_state s = SUPERSEDED")
        case True
        with oe s assms(1) show ?thesis by (auto simp: recordDelivery_def wp_simps deliveryDone_def)
      next
        case False
        with oe s assms(1) obtain e t where "oe_deliveredAt oe = Some t"
          "find (\<lambda>e. ne_providerRef e = Some ref) (tvals (w_notifications w)) = Some e"
          by (auto simp: deliveryDone_def)
        note seen = this oe s False
        show ?thesis
        proof (cases "map_of (w_versions w) (oe_versionId oe)")
          case None
          with seen show ?thesis by (auto simp: recordDelivery_def wp_simps)
        next
          case v: (Some v)
          show ?thesis
          proof (cases "cvs_state s = PENDING_NOTIFICATION \<and> cvs_notifiedAt s = None")
            case True
            with v seen assms(1) obtain e where "recordAccess s (w_now w) v (cvs_carryOverBlocking s = Some True) = Inl e"
              by (auto simp: deliveryDone_def)
            with v seen show ?thesis by (auto simp: recordDelivery_def wp_simps)
          next
            case False
            then have "recordAccess s (w_now w) v (cvs_carryOverBlocking s = Some True) = Inr s"
              by (auto simp: recordAccess_def)
            with v seen row show ?thesis by (simp add: recordDelivery_def wp_simps) (metis False)
          qed
        qed
      qed
    qed
  qed
  then show ?thesis by (simp add: wp_snd)
qed

section \<open>The first delivery\<close>

text \<open>The mail and the rollout state a delivery is about: none for an unknown message, a customer without a
  state for the version, or a superseded state.\<close>

definition deliveryOf :: "world \<Rightarrow> string \<Rightarrow> (OutboundEmail \<times> CustomerVersionState) option" where
  "deliveryOf w ref =
    (case map_of (w_outbound w) ref of
       None \<Rightarrow> None
     | Some oe \<Rightarrow>
        (case stateFor (tvals (w_states w)) (oe_customerId oe) (oe_versionId oe) of
           None \<Rightarrow> None
         | Some s \<Rightarrow> if cvs_state s = SUPERSEDED then None else Some (oe, s)))"

text \<open>The mail log afterwards: the first delivery dates the mail.\<close>

definition outboundAfter :: "world \<Rightarrow> string \<Rightarrow> (string \<times> OutboundEmail) list" where
  "outboundAfter w ref =
    (case map_of (w_outbound w) ref of
       None \<Rightarrow> w_outbound w
     | Some oe \<Rightarrow>
        if oe_deliveredAt oe = None then AList.update ref (oe\<lparr>oe_deliveredAt := Some (w_now w)\<rparr>) (w_outbound w)
        else w_outbound w)"

text \<open>The evidence a delivery adds: one row, with the next UUID and the server's time, unless the message
  has one already.\<close>

definition evidenceAdded :: "env \<Rightarrow> world \<Rightarrow> string \<Rightarrow> NotificationEvent list" where
  "evidenceAdded E w ref =
    (case deliveryOf w ref of
       None \<Rightarrow> []
     | Some (oe, s) \<Rightarrow>
        if find (\<lambda>e. ne_providerRef e = Some ref) (tvals (w_notifications w)) \<noteq> None then []
        else [\<lparr>ne_id = e_uuid E (w_uuid w), ne_customerVersionStateId = cvs_id s, ne_channel = NEMAIL,
               ne_recipient = oe_recipient oe, ne_occurredAt = w_now w, ne_providerRef = Some ref\<rparr>])"

text \<open>The rollout states afterwards: a state that waits for its notification becomes what \<open>recordAccess\<close>
  makes of it at the server's time, and nothing else changes.  The access fails for an undetermined period
  only.\<close>

definition statesAfter :: "world \<Rightarrow> string \<Rightarrow> (string \<times> CustomerVersionState) list" where
  "statesAfter w ref =
    (case deliveryOf w ref of
       None \<Rightarrow> w_states w
     | Some (oe, s) \<Rightarrow>
        (case map_of (w_versions w) (oe_versionId oe) of
           None \<Rightarrow> w_states w
         | Some v \<Rightarrow>
            if cvs_state s = PENDING_NOTIFICATION \<and> cvs_notifiedAt s = None
            then (case recordAccess s (w_now w) v (cvs_carryOverBlocking s = Some True) of
                    Inl _ \<Rightarrow> w_states w
                  | Inr s' \<Rightarrow> AList.update (cvs_id s) s' (w_states w))
            else w_states w))"

definition deliveryEffect :: "env \<Rightarrow> string \<Rightarrow> world \<Rightarrow> world \<Rightarrow> bool" where
  "deliveryEffect E ref w w' \<longleftrightarrow> w_outbound w' = outboundAfter w ref \<and> w_states w' = statesAfter w ref
     \<and> tvals (w_notifications w') = tvals (w_notifications w) @ evidenceAdded E w ref"

lemma find_snoc: "find p (xs @ [x]) = (case find p xs of None \<Rightarrow> if p x then Some x else None | Some y \<Rightarrow> Some y)"
  by (induction xs) auto

lemma wp_recordDelivery:
  assumes "goodIds E" "consentInv E w" "logsInv E w"
  shows "wp (recordDelivery E ref) (\<lambda>_ w'. deliveryDone w' ref \<and> deliveryEffect E ref w w')
    (\<lambda>_ w'. deliveryDone w' ref \<and> deliveryEffect E ref w w') w"
proof (cases "map_of (w_outbound w) ref")
  case None
  then show ?thesis
    by (simp add: recordDelivery_def wp_simps deliveryDone_def deliveryEffect_def deliveryOf_def statesAfter_def
        outboundAfter_def evidenceAdded_def)
next
  case oe: (Some oe)
  have wf: "wf_table cvs_id (w_states w)" using assms(2) by (simp add: consentInv_def)
  note fresh = logsInv_fresh(2)[OF assms(1,3) le_refl]
  note effect = deliveryEffect_def outboundAfter_def evidenceAdded_def statesAfter_def
  show ?thesis
  proof (cases "stateFor (tvals (w_states w)) (oe_customerId oe) (oe_versionId oe)")
    case None
    with oe have "deliveryOf w ref = None" by (simp add: deliveryOf_def)
    with None oe show ?thesis
      by (auto simp: recordDelivery_def wp_simps deliveryDone_def effect table_simps)
  next
    case s: (Some s)
    note row = stateFor_stored[OF wf s]
    show ?thesis
    proof (cases "cvs_state s = SUPERSEDED")
      case True
      with oe s have "deliveryOf w ref = None" by (simp add: deliveryOf_def)
      with True oe s show ?thesis
        by (auto simp: recordDelivery_def wp_simps deliveryDone_def effect table_simps)
    next
      case False
      with oe s have "deliveryOf w ref = Some (oe, s)" by (simp add: deliveryOf_def)
      note known = this oe s False row fresh
      note delivery_simps = recordDelivery_def wp_simps deliveryDone_def effect table_simps tvals_update_fresh find_snoc
      show ?thesis
      proof (cases "map_of (w_versions w) (oe_versionId oe)")
        case None
        with known show ?thesis
          by (cases "find (\<lambda>e. ne_providerRef e = Some ref) (tvals (w_notifications w))") (auto simp: delivery_simps)
      next
        case v: (Some v)
        show ?thesis
        proof (cases "recordAccess s (w_now w) v (cvs_carryOverBlocking s = Some True)")
          case (Inl e)
          with recordAccess_fails[OF Inl] known v show ?thesis
            by (cases "find (\<lambda>e. ne_providerRef e = Some ref) (tvals (w_notifications w))")
               (auto simp: delivery_simps)
        next
          case (Inr s')
          show ?thesis
          proof (cases "cvs_state s = PENDING_NOTIFICATION \<and> cvs_notifiedAt s = None")
            case False
            with recordAccess_later[OF Inr] have "s' = s" by simp
            with False Inr known v show ?thesis
              by (cases "find (\<lambda>e. ne_providerRef e = Some ref) (tvals (w_notifications w))")
                 (auto simp: delivery_simps)
          next
            case True
            note first = recordAccess_first[OF Inr True[THEN conjunct1] True[THEN conjunct2]]
            have rebuild: "s\<lparr>cvs_state := NOTIFIED, cvs_notifiedAt := Some (w_now w),
                cvs_deadlineAt := cvs_deadlineAt s'\<rparr> = s'"
              using recordAccess_rebuild[OF Inr] first by simp
            have same: "samePair s s'" using recordAccess_frame[OF Inr] by (simp add: samePair_def)
            have found: "stateFor (tvals (AList.update (cvs_id s) s' (w_states w))) (oe_customerId oe) (oe_versionId oe) = Some s'"
              using stateFor_update_wf[OF wf row same] s by simp
            show ?thesis
              using True known v Inr first rebuild found
              by (cases "find (\<lambda>e. ne_providerRef e = Some ref) (tvals (w_notifications w))")
                 (auto simp: delivery_simps)
          qed
        qed
      qed
    qed
  qed
qed

lemma deliveryDone_clock: "deliveryDone (w\<lparr>w_now := t\<rparr>) ref = deliveryDone w ref"
  by (auto simp: deliveryDone_def split: option.splits)

lemma deliveryEffect_wf:
  "wf_table cvs_id (w_states w) \<Longrightarrow> deliveryEffect E ref w w' \<Longrightarrow> wf_table cvs_id (w_states w')"
  by (auto simp: deliveryEffect_def statesAfter_def recordAccess_frame intro!: wf_table_update
      split: option.splits sum.splits)

text \<open>C23: the webhook answers 403 and writes nothing without the configured token; a record of another type
  or without a message id is acknowledged and writes nothing.  A delivery has exactly this effect: the mail
  is marked delivered, if it was not; one row of evidence is added with the recipient of the mail and the
  server's time, unless the message has one or there is no live rollout state to add it for; and a state
  that waits for its notification moves as \<open>recordAccess\<close> says at the server's time, which starts its
  deadline.  Beside these and the activity log no table changes.  Delivered again, at any later time, it writes
  nothing at all.\<close>

theorem webhook_delivery:
  assumes "goodIds E" "consentInv E w" "logsInv E w"
    and event: "toInboundEvent payload = Some ev" "ide_kind ev = DELIVERED"
    and open_door: "postmarkGuard env req"
    and run: "w' = snd (webhook_handle E env req payload w)"
  shows "w_outbound w' = outboundAfter w (ide_providerRef ev)
    \<and> w_states w' = statesAfter w (ide_providerRef ev)
    \<and> tvals (w_notifications w') = tvals (w_notifications w) @ evidenceAdded E w (ide_providerRef ev)
    \<and> change {StateArea, NotificationLog, EventLog, OutboundArea} w w'
    \<and> snd (webhook_handle E env req payload (w'\<lparr>w_now := t\<rparr>)) = w'\<lparr>w_now := t\<rparr>
    \<and> (\<forall>req' payload'. \<not> postmarkGuard env req' \<longrightarrow> webhook_handle E env req' payload' w = (Inr False, w))
    \<and> (\<forall>payload'. toInboundEvent payload' = None \<longrightarrow> webhook_handle E env req payload' w = (Inr True, w))"
proof -
  have handle: "snd (webhook_handle E env req payload w1) = snd (recordDelivery E (ide_providerRef ev) w1)" for w1
    using event open_door
    by (simp add: webhook_handle_def delivery_handle_def thenM_def bindM_def retM_def split: prod.splits sum.splits)
  have w': "deliveryDone w' (ide_providerRef ev)" "deliveryEffect E (ide_providerRef ev) w w'"
    using wp_recordDelivery[OF assms(1-3), of "ide_providerRef ev"] unfolding run handle wp_snd by simp_all
  have frame: "change {StateArea, NotificationLog, EventLog, OutboundArea} w w'"
    using modifies_delivery(1)[OF order_refl, of E "ide_providerRef ev"] unfolding run handle modifies_def by blast
  have "wf_table cvs_id (w_states (w'\<lparr>w_now := t\<rparr>))"
    using deliveryEffect_wf[OF _ w'(2)] assms(2) by (simp add: consentInv_def)
  with delivery_again[of "w'\<lparr>w_now := t\<rparr>"] w'(1)
  have again: "snd (recordDelivery E (ide_providerRef ev) (w'\<lparr>w_now := t\<rparr>)) = w'\<lparr>w_now := t\<rparr>"
    by (simp add: deliveryDone_clock)
  show ?thesis
    using w'(2) frame again open_door unfolding deliveryEffect_def
    by (simp add: handle) (simp add: webhook_handle_def thenM_def bindM_def retM_def)
qed

text \<open>A mail to the customer of the small world, whose state waits for its notification.\<close>

definition pending_ex :: CustomerVersionState where
  "pending_ex = newState ''cvs-00000000'' ''c'' ''v''"

definition mailed_ex :: world where
  "mailed_ex = world_ex\<lparr>w_states := [(''cvs-00000000'', pending_ex)],
     w_outbound := [(''m-1'', \<lparr>oe_providerRef = ''m-1'', oe_customerId = ''c'', oe_versionId = ''v'',
        oe_recipient = ''a@b.c'', oe_sentAt = 50, oe_deliveredAt = None\<rparr>)]\<rparr>"

definition payload_ex :: PostmarkWebhookPayload where
  "payload_ex = \<lparr>pw_RecordType = ''Delivery'', pw_MessageID = Some ''m-1'', pw_Recipient = Some ''a@b.c'',
     pw_Email = None, pw_Inactive = None\<rparr>"

definition tokenRequest_ex :: httpRequest where
  "tokenRequest_ex = \<lparr>hr_headers = (\<lambda>name. if name = ''token'' then Some (OneHeader ''t'') else None), hr_ip = None\<rparr>"

definition tokenEnv_ex :: "string \<Rightarrow> string option" where
  "tokenEnv_ex = (\<lambda>name. if name = ''POSTMARK_WEBHOOK_TOKEN'' then Some ''t'' else None)"

lemma consentInv_mailed: "consentInv env_ex mailed_ex"
  by (auto simp: consentInv_def mailed_ex_def world_ex_def emptyWorld_def pending_ex_def newState_def wf_table_def
      drawnIds_def env_ex_def oneEffective_def tvals_def effectiveFor_def)

lemma logsInv_mailed: "logsInv env_ex mailed_ex"
  by (simp add: logsInv_def mailed_ex_def world_ex_def emptyWorld_def)

theorem webhook_delivery_witness:
  "(let w' = snd (webhook_handle env_ex tokenEnv_ex tokenRequest_ex payload_ex mailed_ex) in
     map cvs_state (tvals (w_states w')) = [NOTIFIED] \<and> map cvs_notifiedAt (tvals (w_states w')) = [Some 100]
     \<and> length (w_notifications w') = 1
     \<and> snd (webhook_handle env_ex tokenEnv_ex tokenRequest_ex payload_ex (w'\<lparr>w_now := 5000\<rparr>)) = w'\<lparr>w_now := 5000\<rparr>)"
proof -
  have ev: "toInboundEvent payload_ex = Some \<lparr>ide_providerRef = ''m-1'', ide_recipient = ''a@b.c'',
      ide_kind = DELIVERED, ide_inactivatedRecipient = None\<rparr>"
    by (simp add: toInboundEvent_def payload_ex_def)
  have guard: "postmarkGuard tokenEnv_ex tokenRequest_ex"
    by (simp add: postmarkGuard_def tokenEnv_ex_def tokenRequest_ex_def headerOr_def envOrEmpty_def)
  let ?w = "snd (webhook_handle env_ex tokenEnv_ex tokenRequest_ex payload_ex mailed_ex)"
  have "map cvs_state (tvals (w_states ?w)) = [NOTIFIED]" "map cvs_notifiedAt (tvals (w_states ?w)) = [Some 100]"
    "length (w_notifications ?w) = 1"
    by code_simp+
  then show ?thesis
    using webhook_delivery[OF goodIds_ex consentInv_mailed logsInv_mailed ev _ guard refl, of 5000]
    by (simp add: Let_def)
qed

end
