(* ===== verification/Page_View.thy ===== *)
theory Page_View
  imports Page_Text Accept_Page Plugins Email_Template
begin

text \<open>
  The hosted acceptance page as the browser gets it (\<open>accept/accept-page.view.ts\<close>, \<open>accept/i18n.ts\<close>): the choice
  of the language, the HTML with its embedded JSON, and what the script of the page does on a click and
  with the answer of the server.  A definition that prints takes \<open>Date.toISOString\<close> as an argument.
\<close>

section \<open>Language\<close>

datatype AcceptPageLang = EN | DE

fun ACCEPT_PAGE_STRINGS :: "AcceptPageLang \<Rightarrow> AcceptPageStrings" where
  "ACCEPT_PAGE_STRINGS EN = strings_en"
| "ACCEPT_PAGE_STRINGS DE = strings_de"

definition tagLang :: "string \<Rightarrow> AcceptPageLang option" where
  "tagLang tag =
    (if tag = ''de'' \<or> take 3 tag = ''de-'' then Some DE
     else if tag = ''en'' \<or> take 3 tag = ''en-'' then Some EN else None)"

definition resolveAcceptPageLang :: "string option \<Rightarrow> string option \<Rightarrow> AcceptPageLang" where
  "resolveAcceptPageLang queryLang acceptLanguageHeader =
    (let query = map_option (\<lambda>q. toLowerCase (trim q)) queryLang in
     if query = Some ''de'' then DE else if query = Some ''en'' then EN
     else case List.map_filter (\<lambda>part. tagLang (toLowerCase (trim (hd (splitOn (CHR '';'') part)))))
                 (splitOn (CHR '','') (orElse acceptLanguageHeader [])) of
         [] \<Rightarrow> EN
       | lang # _ \<Rightarrow> lang)"

section \<open>Text\<close>

definition pageEscape :: "string \<Rightarrow> string" where
  "pageEscape value =
    replaceAll [CHR 0x27] ''&#39;''
      (replaceAll [CHR 0x22] ''&quot;''
        (replaceAll ''>'' ''&gt;''
          (replaceAll ''<'' ''&lt;''
            (replaceAll ''&'' ''&amp;'' value))))"

text \<open>\<open>s.replace(pattern, replacement)\<close> with a string as pattern: the first occurrence, and the patterns
  \<open>$$\<close>, \<open>$&\<close>, \<open>$`\<close> and \<open>$'\<close> of the replacement expanded.\<close>

fun expandDollar :: "string \<Rightarrow> string \<Rightarrow> string \<Rightarrow> string \<Rightarrow> string" where
  "expandDollar matched before after (c # d # cs) =
    (if c \<noteq> CHR ''$'' then c # expandDollar matched before after (d # cs)
     else if d = CHR ''$'' then CHR ''$'' # expandDollar matched before after cs
     else if d = CHR ''&'' then matched @ expandDollar matched before after cs
     else if d = CHR 0x60 then before @ expandDollar matched before after cs
     else if d = CHR 0x27 then after @ expandDollar matched before after cs
     else c # expandDollar matched before after (d # cs))"
| "expandDollar matched before after cs = cs"

fun replaceFrom :: "string \<Rightarrow> string \<Rightarrow> string \<Rightarrow> string \<Rightarrow> string" where
  "replaceFrom pattern replacement before s =
    (if take (length pattern) s = pattern
     then before @ expandDollar pattern before (drop (length pattern) s) replacement @ drop (length pattern) s
     else case s of [] \<Rightarrow> before | c # cs \<Rightarrow> replaceFrom pattern replacement (before @ [c]) cs)"

definition replaceFirst :: "string \<Rightarrow> string \<Rightarrow> string \<Rightarrow> string" where
  "replaceFirst pattern replacement s = replaceFrom pattern replacement [] s"

definition formatDate :: "(Date \<Rightarrow> string) \<Rightarrow> Date \<Rightarrow> AcceptPageLang \<Rightarrow> string" where
  "formatDate toISOString date lang =
    (let toIso = take 10 (toISOString date); parts = splitOn (CHR ''-'') toIso;
         part = (\<lambda>i. if i < length parts then parts ! i else ''undefined'') in
     if lang = DE then part 2 @ ''.'' @ part 1 @ ''.'' @ part 0 else toIso)"

section \<open>One item\<close>

definition isActiveItem :: "AcceptancePageItem \<Rightarrow> bool" where
  "isActiveItem item \<longleftrightarrow> api_mode item = ACTIVE \<and> api_consentText item \<noteq> None"

definition messageEl :: string where
  \<open>messageEl = ''<p class="msg-error" data-message hidden></p>''\<close>

definition deadlineText :: "(Date \<Rightarrow> string) \<Rightarrow> AcceptPageStrings \<Rightarrow> AcceptPageLang \<Rightarrow> AcceptancePageItem \<Rightarrow> string" where
  \<open>deadlineText toIso s lang item =
    (case api_deadlineAt item of
       None \<Rightarrow> []
     | Some d \<Rightarrow> '' '' @ middleDot @ '' '' @ pageEscape (aps_deadline s) @ '': '' @ formatDate toIso d lang)\<close>

definition upcomingBlock :: "(Date \<Rightarrow> string) \<Rightarrow> AcceptPageStrings \<Rightarrow> AcceptPageLang \<Rightarrow> AcceptancePageItem \<Rightarrow> string" where
  \<open>upcomingBlock toIso s lang item =
    (if api_upcoming item
     then ''<div class="info">'' @ pageEscape (replaceFirst ''{date}'' (formatDate toIso (api_validFrom item) lang) (aps_upcomingValidFrom s)) @ ''</div>''
     else [])\<close>

definition blockingBlock :: "AcceptPageStrings \<Rightarrow> AcceptancePageItem \<Rightarrow> string" where
  \<open>blockingBlock s item =
    (if api_blocking item then ''<div class="warning">'' @ pageEscape (aps_blockingWarning s) @ ''</div>'' else [])\<close>

definition actionBlock :: "AcceptPageStrings \<Rightarrow> AcceptancePageItem \<Rightarrow> string" where
  \<open>actionBlock s item =
    (if isActiveItem item then ''<div class="consent">
        <input type="checkbox" id="consent-'' @ pageEscape (api_versionId item) @ ''" data-consent-checkbox>
        <label for="consent-'' @ pageEscape (api_versionId item) @ ''">'' @ pageEscape (orElse (api_consentText item) []) @ ''</label>
      </div>
      <button type="button" data-accept-button>'' @ pageEscape (aps_acceptButton s) @ ''</button>
      '' @ messageEl
     else if api_mode item = PASSIVE then ''<div class="info">'' @ pageEscape (aps_passiveInfo s) @ ''</div>
      <button type="button" data-accept-button>'' @ pageEscape (aps_passiveAcceptButton s) @ ''</button>
      '' @ messageEl
     else ''<div class="info">'' @ pageEscape (aps_passiveInfo s) @ ''</div>'')\<close>

definition consequenceBlock :: "AcceptPageStrings \<Rightarrow> AcceptancePageItem \<Rightarrow> string" where
  \<open>consequenceBlock s item =
    (let consequence = orElse (api_objectionConsequence item) [] in
     if consequence \<noteq> []
     then ''<div class="info"><strong>'' @ pageEscape (aps_objectionConsequenceLabel s) @ '':</strong> '' @ pageEscape consequence @ ''</div>''
     else [])\<close>

definition objectionBlock :: "AcceptPageStrings \<Rightarrow> AcceptancePageItem \<Rightarrow> string" where
  \<open>objectionBlock s item =
    (if api_canObject item then ''<div class="objection" data-objection-card data-version-id="'' @ pageEscape (api_versionId item) @ ''">
      '' @ consequenceBlock s item @ ''
      <label for="objection-reason-'' @ pageEscape (api_versionId item) @ ''">'' @ pageEscape (aps_objectionReasonLabel s) @ ''</label>
      <textarea id="objection-reason-'' @ pageEscape (api_versionId item) @ ''" data-objection-reason rows="2" placeholder="'' @ pageEscape (aps_objectionReasonPlaceholder s) @ ''"></textarea>
      <button type="button" class="secondary" data-object-button>'' @ pageEscape (aps_objectButton s) @ ''</button>
      <p class="msg-error" data-objection-message hidden></p>
    </div>'' else [])\<close>

definition renderItem ::
  "(Date \<Rightarrow> string) \<Rightarrow> AcceptPageStrings \<Rightarrow> AcceptPageLang \<Rightarrow> AcceptancePageItem \<Rightarrow> string" where
  \<open>renderItem toIso s lang item = ''<section class="card" data-accept-card data-version-id="'' @ pageEscape (api_versionId item) @ ''">
    <h2>'' @ pageEscape (api_documentName item) @ ''</h2>
    <p class="meta">'' @ pageEscape (aps_versionLabel s) @ '': '' @ pageEscape (api_versionLabel item) @ deadlineText toIso s lang item @ ''</p>
    '' @ upcomingBlock toIso s lang item @ ''
    '' @ blockingBlock s item @ ''
    <p><strong>'' @ pageEscape (aps_changeSummary s) @ '':</strong> '' @ pageEscape (api_changeSummary item) @ ''</p>
    <a class="pdf" href="'' @ pageEscape (api_pdfUrl item) @ ''" target="_blank" rel="noopener">'' @ pageEscape (aps_openPdf s) @ ''</a>
    '' @ actionBlock s item @ ''
    '' @ objectionBlock s item @ ''
  </section>''\<close>

section \<open>The page\<close>

definition htmlShell :: "AcceptPageLang \<Rightarrow> string \<Rightarrow> string \<Rightarrow> string" where
  \<open>htmlShell lang title body = ''<!doctype html>
<html lang="'' @ aps_htmlLang (ACCEPT_PAGE_STRINGS lang) @ ''">
<head>
<meta charset="utf-8">
<meta name="viewport" content="width=device-width, initial-scale=1">
<meta name="robots" content="noindex, nofollow">
<title>'' @ pageEscape title @ ''</title>
<style>'' @ STYLES @ ''</style>
</head>
<body>
<main>
'' @ body @ ''
</main>
</body>
</html>
''\<close>

definition companyContext :: "AcceptPageStrings \<Rightarrow> AcceptancePageView \<Rightarrow> string" where
  \<open>companyContext s view =
    (if trim (apv_companyName view) \<noteq> []
     then ''<p class="muted">'' @ pageEscape (replaceFirst ''{company}'' (apv_companyName view) (aps_companyContext s)) @ ''</p>''
     else [])\<close>

definition hasAcceptableItems :: "AcceptancePageView \<Rightarrow> bool" where
  "hasAcceptableItems view \<longleftrightarrow> list_ex (\<lambda>item. isActiveItem item \<or> api_mode item = PASSIVE) (apv_items view)"

definition signerBlock :: "AcceptPageStrings \<Rightarrow> AcceptancePageView \<Rightarrow> string" where
  \<open>signerBlock s view =
    (if hasAcceptableItems view then ''<section class="card">
        '' @ companyContext s view @ ''
        <label class="field"><span>'' @ pageEscape (aps_signerName s) @ ''</span>
          <input type="text" id="signer-name" autocomplete="name" value="'' @ pageEscape (trim (apv_firstName view @ '' '' @ apv_lastName view)) @ ''" required></label>
        <label class="field"><span>'' @ pageEscape (aps_signerEmail s) @ ''</span>
          <input type="email" id="signer-email" autocomplete="email" value="'' @ pageEscape (apv_suggestedEmail view) @ ''" required></label>
        <p class="muted">'' @ pageEscape (aps_identityNote s) @ ''</p>
      </section>'' else [])\<close>

text \<open>The texts by version: a later item of the same version overwrites, and an assignment to
  \<open>__proto__\<close> adds no property.\<close>

definition consentTexts :: "AcceptancePageItem list \<Rightarrow> string table" where
  "consentTexts items = fold (\<lambda>item texts.
     case api_consentText item of
       None \<Rightarrow> texts
     | Some text \<Rightarrow> if api_versionId item = ''__proto__'' then texts
                    else AList.update (api_versionId item) text texts) items []"

text \<open>\<open>JSON.stringify\<close> lists the properties of an object in the order of \<open>Object.keys\<close>.\<close>

definition consentTextsObject :: "string table \<Rightarrow> meta" where
  "consentTextsObject texts = MObj (map (\<lambda>k. (k, MStr (orElse (map_of texts k) []))) (objectKeys (map fst texts)))"

definition stringsObject :: "AcceptPageStrings \<Rightarrow> meta" where
  "stringsObject s = MObj
    [(''acceptedBadge'', MStr (aps_acceptedBadge s)), (''errorMissingSigner'', MStr (aps_errorMissingSigner s)),
     (''errorInvalidEmail'', MStr (aps_errorInvalidEmail s)),
     (''errorConsentRequired'', MStr (aps_errorConsentRequired s)),
     (''errorAlreadyAccepted'', MStr (aps_errorAlreadyAccepted s)),
     (''errorVersionNotCurrent'', MStr (aps_errorVersionNotCurrent s)),
     (''errorRateLimited'', MStr (aps_errorRateLimited s)), (''errorGeneric'', MStr (aps_errorGeneric s)),
     (''objectedBadge'', MStr (aps_objectedBadge s)),
     (''errorObjectionReasonRequired'', MStr (aps_errorObjectionReasonRequired s))]"

definition pageData :: "AcceptPageStrings \<Rightarrow> AcceptancePageView \<Rightarrow> meta" where
  "pageData s view =
    MObj [(''consentTexts'', consentTextsObject (consentTexts (apv_items view))), (''strings'', stringsObject s)]"

definition toJsonScript :: "meta \<Rightarrow> string" where
  "toJsonScript payload = printJson scriptEscape payload"

text \<open>The body of a page that lists items, around the text of the embedded JSON.\<close>

definition pageBody :: "(Date \<Rightarrow> string) \<Rightarrow> AcceptancePageView \<Rightarrow> AcceptPageLang \<Rightarrow> string \<Rightarrow> string" where
  \<open>pageBody toIso view lang dataText = (let s = ACCEPT_PAGE_STRINGS lang in
    ''<h1>'' @ pageEscape (aps_heading s) @ ''</h1>
<p class="muted">'' @ pageEscape (replaceFirst ''{customerName}'' (apv_customerName view) (aps_intro s)) @ ''</p>
'' @ signerBlock s view @ ''
'' @ joinWith [CHR 0x0A] (map (renderItem toIso s lang) (apv_items view)) @ ''
<script type="application/json" id="accept-page-data">'' @ dataText @ ''</script>
<script>'' @ PAGE_SCRIPT @ ''</script>'')\<close>

definition renderAcceptPage :: "(Date \<Rightarrow> string) \<Rightarrow> AcceptancePageView \<Rightarrow> AcceptPageLang \<Rightarrow> string" where
  \<open>renderAcceptPage toIso view lang = (let s = ACCEPT_PAGE_STRINGS lang in
    if apv_items view = []
    then htmlShell lang (aps_pageTitle s)
      (''<div class="card center"><h1>'' @ pageEscape (aps_allDoneTitle s) @ ''</h1><p class="muted">'' @ pageEscape (aps_allDoneBody s) @ ''</p></div>'')
    else htmlShell lang (aps_pageTitle s) (pageBody toIso view lang (toJsonScript (pageData s view))))\<close>

definition renderLinkNotFoundPage :: "AcceptPageLang \<Rightarrow> string" where
  \<open>renderLinkNotFoundPage lang = (let s = ACCEPT_PAGE_STRINGS lang in
    htmlShell lang (aps_notFoundTitle s)
      (''<div class="card center"><h1>'' @ pageEscape (aps_notFoundTitle s) @ ''</h1><p class="muted">'' @ pageEscape (aps_notFoundBody s) @ ''</p></div>''))\<close>

text \<open>The renderer kind, and \<open>GET /accept/:token\<close> with it: the status and the HTML.\<close>

record AcceptancePageRenderer =
  apr_renderAcceptPage :: "AcceptancePageView \<Rightarrow> AcceptPageLang \<Rightarrow> string"
  apr_renderNotFoundPage :: "AcceptPageLang \<Rightarrow> string"

definition defaultRenderer :: "(Date \<Rightarrow> string) \<Rightarrow> AcceptancePageRenderer" where
  "defaultRenderer toIso =
    \<lparr>apr_renderAcceptPage = renderAcceptPage toIso, apr_renderNotFoundPage = renderLinkNotFoundPage\<rparr>"

definition page_respond ::
  "env \<Rightarrow> AcceptancePageRenderer \<Rightarrow> pdfUrlProvider \<Rightarrow> string \<Rightarrow> string option \<Rightarrow> string option \<Rightarrow> (nat \<times> string) M" where
  "page_respond E renderer pdfUrl token lang acceptLanguage =
    thenM (assertWithinRateLimit token)
    (let pageLang = resolveAcceptPageLang lang acceptLanguage in
     bindM (loadPage E pdfUrl token) (\<lambda>found.
     case found of
       None \<Rightarrow> retM (404, apr_renderNotFoundPage renderer pageLang)
     | Some view \<Rightarrow> retM (200, apr_renderAcceptPage renderer view pageLang)))"

section \<open>The script of the page\<close>

text \<open>What the script reads from the embedded JSON; own properties only.\<close>

definition objectField :: "string \<Rightarrow> meta \<Rightarrow> meta option" where
  "objectField name v = (case v of MObj fs \<Rightarrow> map_of fs name | _ \<Rightarrow> None)"

definition textField :: "string \<Rightarrow> meta \<Rightarrow> string option" where
  "textField name v = (case objectField name v of Some (MStr s) \<Rightarrow> Some s | _ \<Rightarrow> None)"

definition pageString :: "meta \<Rightarrow> string \<Rightarrow> string" where
  "pageString pdata name = orElse (Option.bind (objectField ''strings'' pdata) (textField name)) []"

definition pageConsentText :: "meta \<Rightarrow> string \<Rightarrow> string option" where
  "pageConsentText pdata versionId = Option.bind (objectField ''consentTexts'' pdata) (textField versionId)"

text \<open>A click shows a message or posts a body, with a key of its own, to a path below the page.\<close>

datatype clickResult = ShowError string | Post string string meta

definition optionalText :: "string \<Rightarrow> string option \<Rightarrow> (string \<times> meta) list" where
  "optionalText name x = (case x of None \<Rightarrow> [] | Some s \<Rightarrow> [(name, MStr s)])"

definition acceptClick ::
  "meta \<Rightarrow> string \<Rightarrow> bool option \<Rightarrow> string \<Rightarrow> string \<Rightarrow> string \<Rightarrow> clickResult" where
  "acceptClick pdata versionId checkbox nameValue emailValue idempotencyKey =
    (let signerName = trim nameValue; signerEmail = trim emailValue in
     if signerName = [] \<or> signerEmail = [] then ShowError (pageString pdata ''errorMissingSigner'')
     else if \<not> EMAIL_PATTERN signerEmail then ShowError (pageString pdata ''errorInvalidEmail'')
     else if checkbox = Some False then ShowError (pageString pdata ''errorConsentRequired'')
     else Post ''/acceptances'' idempotencyKey (MObj
       ([(''versionId'', MStr versionId)] @ optionalText ''displayedConsentText'' (pageConsentText pdata versionId)
        @ [(''signerName'', MStr signerName), (''signerEmail'', MStr signerEmail)])))"

definition nonEmptyText :: "string \<Rightarrow> string option" where
  "nonEmptyText s = (if s = [] then None else Some s)"

definition objectClick ::
  "meta \<Rightarrow> string \<Rightarrow> string \<Rightarrow> string \<Rightarrow> string \<Rightarrow> string \<Rightarrow> clickResult" where
  "objectClick pdata versionId reasonValue nameValue emailValue idempotencyKey =
    (let reason = trim reasonValue; signerName = trim nameValue; signerEmail = trim emailValue in
     if reason = [] then ShowError (pageString pdata ''errorObjectionReasonRequired'')
     else if signerEmail \<noteq> [] \<and> \<not> EMAIL_PATTERN signerEmail then ShowError (pageString pdata ''errorInvalidEmail'')
     else Post ''/objections'' idempotencyKey (MObj
       ([(''versionId'', MStr versionId), (''reason'', MStr reason)]
        @ optionalText ''signerName'' (nonEmptyText signerName)
        @ optionalText ''signerEmail'' (nonEmptyText signerEmail))))"

text \<open>The answer of the server: \<open>None\<close> is a failed request; a code is the one of an error body, if any.  The
  card is closed with a badge, or its button works again under a message.\<close>

datatype serverAnswer = AnswerOk | AnswerError "string option"

datatype cardState = CardDone string | CardMessage string

definition acceptOutcome :: "meta \<Rightarrow> serverAnswer option \<Rightarrow> cardState" where
  "acceptOutcome pdata answer =
    (case answer of
       None \<Rightarrow> CardMessage (pageString pdata ''errorGeneric'')
     | Some AnswerOk \<Rightarrow> CardDone (pageString pdata ''acceptedBadge'')
     | Some (AnswerError code) \<Rightarrow>
        if code = Some ''ALREADY_ACCEPTED'' then CardDone (pageString pdata ''errorAlreadyAccepted'')
        else if code = Some ''VERSION_NOT_CURRENT'' then CardMessage (pageString pdata ''errorVersionNotCurrent'')
        else if code = Some ''RATE_LIMITED'' then CardMessage (pageString pdata ''errorRateLimited'')
        else CardMessage (pageString pdata ''errorGeneric''))"

definition objectOutcome :: "meta \<Rightarrow> serverAnswer option \<Rightarrow> cardState" where
  "objectOutcome pdata answer =
    (case answer of
       None \<Rightarrow> CardMessage (pageString pdata ''errorGeneric'')
     | Some AnswerOk \<Rightarrow> CardDone (pageString pdata ''objectedBadge'')
     | Some (AnswerError code) \<Rightarrow>
        if code = Some ''RATE_LIMITED'' then CardMessage (pageString pdata ''errorRateLimited'')
        else CardMessage (pageString pdata ''errorGeneric''))"

section \<open>The bodies the server accepts\<close>

text \<open>\<open>linkAcceptanceBodySchema\<close> and \<open>linkObjectionBodySchema\<close> of \<open>accept/dto.ts\<close>, with the mapping of the
  controller; a violation, which answers 400, is \<open>None\<close>.\<close>

definition strictFields :: "string list \<Rightarrow> meta \<Rightarrow> (string \<times> meta) list option" where
  "strictFields known raw =
    (case raw of MObj ps \<Rightarrow> if list_all (\<lambda>(k, _). k \<in> set known) ps then Some ps else None | _ \<Rightarrow> None)"

definition requiredString :: "(string \<Rightarrow> string) \<Rightarrow> (string \<Rightarrow> bool) \<Rightarrow> (string \<times> meta) list \<Rightarrow> string \<Rightarrow> string option" where
  "requiredString prepare ok ps name =
    (case map_of ps name of Some (MStr s) \<Rightarrow> if ok (prepare s) then Some (prepare s) else None | _ \<Rightarrow> None)"

definition optionalString :: "(string \<Rightarrow> string) \<Rightarrow> (string \<Rightarrow> bool) \<Rightarrow> (string \<times> meta) list \<Rightarrow> string \<Rightarrow> string option option" where
  "optionalString prepare ok ps name =
    (case map_of ps name of None \<Rightarrow> Some None | Some _ \<Rightarrow> map_option Some (requiredString prepare ok ps name))"

definition linkAcceptanceBody ::
  "meta \<Rightarrow> string option \<Rightarrow> string option \<Rightarrow> string option \<Rightarrow> LinkAcceptanceRequest option" where
  "linkAcceptanceBody raw ip userAgent idempotencyKey =
    Option.bind (strictFields [''versionId'', ''displayedConsentText'', ''signerName'', ''signerEmail''] raw) (\<lambda>ps.
    Option.bind (requiredString id (\<lambda>s. s \<noteq> []) ps ''versionId'') (\<lambda>versionId.
    Option.bind (optionalString id (\<lambda>_. True) ps ''displayedConsentText'') (\<lambda>displayed.
    Option.bind (requiredString trim (\<lambda>s. s \<noteq> []) ps ''signerName'') (\<lambda>signerName.
    Option.bind (requiredString trim EMAIL_PATTERN ps ''signerEmail'') (\<lambda>signerEmail.
    Some \<lparr>lar_versionId = versionId, lar_displayedConsentText = displayed, lar_signerName = signerName,
          lar_signerEmail = signerEmail, lar_ipAddress = ip, lar_userAgent = userAgent,
          lar_idempotencyKey = idempotencyKey\<rparr>)))))"

definition linkObjectionBody :: "meta \<Rightarrow> string option \<Rightarrow> string option \<Rightarrow> LinkObjectionRequest option" where
  "linkObjectionBody raw ip userAgent =
    Option.bind (strictFields [''versionId'', ''reason'', ''signerName'', ''signerEmail''] raw) (\<lambda>ps.
    Option.bind (requiredString id (\<lambda>s. s \<noteq> []) ps ''versionId'') (\<lambda>versionId.
    Option.bind (requiredString trim (\<lambda>s. s \<noteq> []) ps ''reason'') (\<lambda>reason.
    Option.bind (optionalString trim (\<lambda>_. True) ps ''signerName'') (\<lambda>signerName.
    Option.bind (optionalString trim EMAIL_PATTERN ps ''signerEmail'') (\<lambda>signerEmail.
    Some \<lparr>lor_versionId = versionId, lor_reason = reason, lor_signerName = signerName,
          lor_signerEmail = signerEmail, lor_ipAddress = ip, lor_userAgent = userAgent,
          lor_idempotencyKey = None\<rparr>)))))"

end
