(* ===== verification/Page_Facts.thy ===== *)
theory Page_Facts
  imports Page_View Json_Facts Text_Facts
begin

text \<open>
  The page as HTML: no value adds markup, the embedded JSON stays inside its element and is read back with
  the exact consent texts.
\<close>

section \<open>Markup\<close>

lemma pageEscape_eq: "pageEscape = escapeHtml"
  by (rule ext) (simp add: pageEscape_def escapeHtml_def)

text \<open>The markup of a text, as a constant that is not computed.\<close>

definition markup :: "string \<Rightarrow> string" where
  "markup s = filter isMarkup s"

lemma markup_append: "markup (s @ t) = markup s @ markup t"
  by (simp add: markup_def)

lemma markup_escape: "markup (pageEscape s) = []"
  by (simp add: markup_def pageEscape_eq escapeHtml_no_markup)

lemma markup_empty: "markup s = [] \<longleftrightarrow> (\<forall>c \<in> set s. \<not> isMarkup c)"
  by (auto simp: markup_def filter_empty_conv)

lemma splitOn_subset: "p \<in> set (splitOn c s) \<Longrightarrow> set p \<subseteq> set s"
proof (induction c s arbitrary: p rule: splitOn.induct)
  case (2 c x xs)
  show ?case
  proof (cases "splitOn c xs")
    case Nil
    with 2 show ?thesis by (auto split: if_splits)
  next
    case (Cons q qs)
    show ?thesis
    proof (cases "x = c")
      case True
      with 2 Cons show ?thesis by auto
    next
      case False
      with 2(2) Cons have "set q \<subseteq> set xs" "\<And>p. p \<in> set qs \<Longrightarrow> set p \<subseteq> set xs" by auto
      with 2(3) Cons False show ?thesis by auto
    qed
  qed
qed simp

lemma formatDate_plain:
  assumes "markup (toISOString d) = []"
  shows "markup (formatDate toISOString d lang) = []"
proof -
  let ?iso = "take 10 (toISOString d)"
  have iso: "markup ?iso = []" using assms by (auto simp: markup_empty dest: in_set_takeD)
  have part: "markup (if i < length (splitOn (CHR ''-'') ?iso) then splitOn (CHR ''-'') ?iso ! i else ''undefined'') = []" for i
  proof (cases "i < length (splitOn (CHR ''-'') ?iso)")
    case True
    then have "set (splitOn (CHR ''-'') ?iso ! i) \<subseteq> set ?iso" using splitOn_subset nth_mem by blast
    with True iso show ?thesis by (auto simp: markup_empty)
  qed (simp add: markup_def isMarkup_def)
  have dot: "markup ''.'' = []" by (simp add: markup_def isMarkup_def)
  show ?thesis
    by (simp only: formatDate_def Let_def if_distrib[of markup] markup_append part[unfolded if_distrib[of markup]]
        dot iso append_Nil if_cancel)
qed

text \<open>What of an item and of a view decides the structure of the page: which parts are there.\<close>

definition itemShape :: "AcceptancePageItem \<Rightarrow> bool list \<times> AcceptanceMode" where
  "itemShape item =
    ([isActiveItem item, api_deadlineAt item \<noteq> None, api_upcoming item, api_blocking item, api_canObject item,
      orElse (api_objectionConsequence item) [] \<noteq> []], api_mode item)"

definition viewShape :: "AcceptancePageView \<Rightarrow> (bool list \<times> AcceptanceMode) list \<times> bool" where
  "viewShape view = (map itemShape (apv_items view), trim (apv_companyName view) \<noteq> [])"

lemmas markup_simps = markup_append markup_escape if_distrib[of markup]

lemma renderItem_markup:
  assumes iso: "\<And>d. markup (toISOString d) = []" and "itemShape item = itemShape item'"
  shows "markup (renderItem toISOString s lang item) = markup (renderItem toISOString s lang item')"
proof -
  have shape: "isActiveItem item = isActiveItem item'" "api_deadlineAt item = None \<longleftrightarrow> api_deadlineAt item' = None"
    "api_upcoming item = api_upcoming item'" "api_blocking item = api_blocking item'"
    "api_canObject item = api_canObject item'" "api_mode item = api_mode item'"
    "orElse (api_objectionConsequence item) [] = [] \<longleftrightarrow> orElse (api_objectionConsequence item') [] = []"
    using assms(2) by (auto simp add: itemShape_def)
  have "markup (deadlineText toISOString s lang item) = markup (deadlineText toISOString s lang item')"
  proof (cases "api_deadlineAt item")
    case None
    with shape(2) have "api_deadlineAt item' = None" by simp
    with None show ?thesis by (simp add: deadlineText_def)
  next
    case (Some d)
    with shape(2) obtain d' where "api_deadlineAt item' = Some d'" by auto
    with Some show ?thesis
      by (simp only: deadlineText_def option.case markup_simps formatDate_plain[where toISOString = toISOString, OF iso])
  qed
  moreover have "markup (upcomingBlock toISOString s lang item) = markup (upcomingBlock toISOString s lang item')"
    by (simp only: upcomingBlock_def shape markup_simps)
  moreover have "markup (blockingBlock s item) = markup (blockingBlock s item')"
    by (simp only: blockingBlock_def shape)
  moreover have "markup (actionBlock s item) = markup (actionBlock s item')"
    by (simp only: actionBlock_def shape markup_simps)
  moreover have "markup (consequenceBlock s item) = markup (consequenceBlock s item')"
    by (simp only: consequenceBlock_def Let_def shape markup_simps)
  ultimately show ?thesis
    by (simp only: renderItem_def objectionBlock_def shape markup_simps)
qed

lemma markup_join:
  "map markup xs = map markup ys \<Longrightarrow> markup (joinWith sep xs) = markup (joinWith sep ys)"
proof (induction sep xs arbitrary: ys rule: joinWith.induct)
  case (1 sep)
  then show ?case by simp
next
  case (2 sep x)
  then show ?case by auto
next
  case (3 sep x x' xs)
  then obtain y y' zs where "ys = y # y' # zs" "markup x = markup y"
    "map markup (x' # xs) = map markup (y' # zs)" by (auto simp: Cons_eq_map_conv)
  with 3(1)[of "y' # zs"] show ?case by (simp add: markup_append)
qed

lemma map_eq_via: "map f xs = map f ys \<Longrightarrow> (\<And>x y. f x = f y \<Longrightarrow> g x = g y) \<Longrightarrow> map g xs = map g ys"
proof (induction xs arbitrary: ys)
  case (Cons x xs)
  from Cons.prems(1) obtain y zs where ys: "ys = y # zs" "f x = f y" "map f xs = map f zs" by (cases ys) auto
  show ?case unfolding ys(1) using Cons.prems(2)[OF ys(2)] Cons.IH[OF ys(3) Cons.prems(2)] by simp
qed simp

lemma hasAcceptable_shape:
  "map itemShape xs = map itemShape ys \<Longrightarrow>
    list_ex (\<lambda>item. isActiveItem item \<or> api_mode item = PASSIVE) xs
    = list_ex (\<lambda>item. isActiveItem item \<or> api_mode item = PASSIVE) ys"
proof (induction xs arbitrary: ys)
  case (Cons x xs)
  then obtain y zs where ys: "ys = y # zs" "itemShape x = itemShape y" "map itemShape xs = map itemShape zs"
    by (auto simp: Cons_eq_map_conv)
  with Cons.IH[OF ys(3)] show ?case by (simp add: itemShape_def)
qed simp

lemma pageBody_markup:
  assumes iso: "\<And>d. markup (toISOString d) = []" and shape: "viewShape view = viewShape view'"
  shows "markup (pageBody toISOString view lang text) = markup (pageBody toISOString view' lang text)"
proof -
  have items: "map itemShape (apv_items view) = map itemShape (apv_items view')"
    and company: "trim (apv_companyName view) = [] \<longleftrightarrow> trim (apv_companyName view') = []"
    using shape by (simp_all add: viewShape_def)
  have "markup (companyContext s view) = markup (companyContext s view')" for s
    by (simp only: companyContext_def company markup_simps)
  then have signer: "markup (signerBlock s view) = markup (signerBlock s view')" for s
    using hasAcceptable_shape[OF items] by (simp only: signerBlock_def hasAcceptableItems_def markup_simps)
  have "map (\<lambda>item. markup (renderItem toISOString s lang item)) (apv_items view)
      = map (\<lambda>item. markup (renderItem toISOString s lang item)) (apv_items view')" for s
    by (rule map_eq_via[OF items]) (rule renderItem_markup[OF iso])
  then have "markup (joinWith sep (map (renderItem toISOString s lang) (apv_items view)))
      = markup (joinWith sep (map (renderItem toISOString s lang) (apv_items view')))" for s sep
    by (intro markup_join) (simp add: comp_def)
  with signer show ?thesis by (simp only: pageBody_def Let_def markup_simps)
qed

section \<open>The embedded JSON\<close>

lemma decimalNat_no_lt: "CHR ''<'' \<notin> set (decimalNat n)"
proof
  assume "CHR ''<'' \<in> set (decimalNat n)"
  then have "isJsonDigit (CHR ''<'')" using decimalNat_digits by (auto simp: list_all_iff)
  then show False by (simp add: isJsonDigit_def)
qed

lemma scriptEscape_no_lt: "CHR ''<'' \<notin> set (scriptEscape c)"
proof -
  have "list_all (\<lambda>c. c \<noteq> CHR ''<'') ''0123456789abcdef''" by simp
  then have hex: "lowerHex n \<noteq> CHR ''<''" if "n < 16" for n
    using that unfolding list_all_length lowerHex_def by simp
  have "of_char c < (32 :: nat) \<Longrightarrow> lowerHex (of_char c div 16) \<noteq> CHR ''<'' \<and> lowerHex (of_char c mod 16) \<noteq> CHR ''<''"
    by (intro conjI hex) simp_all
  then show ?thesis by (auto simp: scriptEscape_def jsonEscape_def Let_def)
qed

lemma printJson_no_lt: "jsonOk v \<Longrightarrow> CHR ''<'' \<notin> set (printJson scriptEscape v)"
proof (induction v)
  case (MList xs)
  have "CHR ''<'' \<notin> set (joinWith '','' (map (printJson scriptEscape) xs))"
    using MList by (induction xs rule: induct_list012) (auto simp: list_all_iff)
  then show ?case by simp
next
  case (MObj ps)
  let ?m = "\<lambda>(k, v). quoted scriptEscape k @ '':'' @ printJson scriptEscape v"
  have q: "CHR ''<'' \<notin> set (quoted scriptEscape k)" for k using scriptEscape_no_lt by (auto simp: quoted_def)
  have "CHR ''<'' \<notin> set (?m p)" if "p \<in> set ps" for p
    using MObj that q by (cases p) (force simp: list_all_iff)
  then have "CHR ''<'' \<notin> set (joinWith '','' (map ?m ps))"
    by (induction ps rule: induct_list012) auto
  then show ?case by simp
qed (auto simp: quoted_def scriptEscape_no_lt decimal_def decimalNat_no_lt)

section \<open>The consent texts\<close>

lemma objectKeys_perm: "set (objectKeys ks) = set ks" "distinct ks \<Longrightarrow> distinct (objectKeys ks)"
  by (auto simp: objectKeys_def)

definition addConsentText :: "AcceptancePageItem \<Rightarrow> string table \<Rightarrow> string table" where
  "addConsentText item texts =
    (case api_consentText item of
       None \<Rightarrow> texts
     | Some text \<Rightarrow> if api_versionId item = ''__proto__'' then texts
                    else AList.update (api_versionId item) text texts)"

lemma consentTexts_fold: "consentTexts items = fold addConsentText items []"
  by (simp add: consentTexts_def addConsentText_def[abs_def])

lemma consentTexts_distinct: "distinct (map fst (consentTexts items))"
proof -
  have "distinct (map fst texts) \<Longrightarrow> distinct (map fst (fold addConsentText items texts))" for texts
    by (induction items arbitrary: texts) (auto simp: addConsentText_def distinct_update split: option.splits)
  then show ?thesis by (simp add: consentTexts_fold)
qed

text \<open>Items of the same version carry the same text.\<close>

definition sameTexts :: "AcceptancePageItem list \<Rightarrow> bool" where
  "sameTexts items \<longleftrightarrow> (\<forall>i \<in> set items. \<forall>j \<in> set items.
     api_versionId i = api_versionId j \<longrightarrow> api_consentText i = api_consentText j)"

lemma consentTexts_of:
  assumes "sameTexts items" "item \<in> set items" "api_versionId item \<noteq> ''__proto__''"
  shows "map_of (consentTexts items) (api_versionId item) = api_consentText item"
proof -
  let ?k = "api_versionId item"
  have "map_of (fold addConsentText xs texts) ?k =
      (if \<exists>x \<in> set xs. api_versionId x = ?k then api_consentText item else map_of texts ?k)"
    if "set xs \<subseteq> set items" "map_of texts ?k \<in> {None, api_consentText item}" for xs texts
    using that
  proof (induction xs arbitrary: texts)
    case (Cons x xs)
    have x: "api_consentText x = api_consentText item" if "api_versionId x = ?k"
    proof -
      have "x \<in> set items" using Cons.prems(1) by simp
      with assms(1,2) that show ?thesis unfolding sameTexts_def by blast
    qed
    have other: "map_of (addConsentText x texts) ?k = map_of texts ?k" if "api_versionId x \<noteq> ?k"
      using that by (simp add: addConsentText_def map_of_update split: option.splits)
    have same: "map_of (addConsentText x texts) ?k = api_consentText item" if "api_versionId x = ?k"
      using that x[OF that] assms(3) Cons.prems(2)
      by (cases "api_consentText item") (simp_all add: addConsentText_def map_of_update)
    have sub: "set xs \<subseteq> set items" using Cons.prems(1) by simp
    show ?case
    proof (cases "api_versionId x = ?k")
      case True
      with same Cons.IH[OF sub, of "addConsentText x texts"] show ?thesis by simp
    next
      case False
      with other Cons.prems(2) Cons.IH[OF sub, of "addConsentText x texts"] show ?thesis by simp
    qed
  qed simp
  from this[of items "[]"] assms(2) show ?thesis by (auto simp: consentTexts_fold)
qed

lemma pageData_ok: "jsonOk (pageData s view)"
proof -
  have "distinct (map fst (map (\<lambda>k. (k, MStr (orElse (map_of texts k) []))) (objectKeys (map fst texts))))"
    if "distinct (map fst texts)" for texts :: "string table"
    using objectKeys_perm(2)[OF that] by (simp add: comp_def)
  from this[OF consentTexts_distinct] show ?thesis
    by (simp add: pageData_def consentTextsObject_def stringsObject_def list_all_iff)
qed

lemma pageConsentText_eq: "pageConsentText (pageData s view) k = map_of (consentTexts (apv_items view)) k"
proof -
  let ?t = "consentTexts (apv_items view)"
  have "map_of (map (\<lambda>k. (k, MStr (orElse (map_of ?t k) []))) ks) k
      = (if k \<in> set ks then Some (MStr (orElse (map_of ?t k) [])) else None)" for ks
    by (induction ks) auto
  moreover have "k \<in> set (map fst ?t) \<longleftrightarrow> map_of ?t k \<noteq> None" by (metis list.set_map map_of_eq_None_iff)
  ultimately show ?thesis
    by (auto simp: pageConsentText_def objectField_def textField_def pageData_def consentTextsObject_def
        objectKeys_perm(1) orElse_def split: option.splits)
qed

text \<open>C12: Nothing a customer or an author of a document typed changes the structure of the page.  Pages with the
  same parts have the same markup characters outside the embedded JSON, which has no \<open><\<close>; so the whole
  pages have the same tags, and no value opens or closes an element, an attribute or the script.\<close>

theorem page_markup:
  assumes iso: "\<And>d. filter isMarkup (toISOString d) = []" and shape: "viewShape view = viewShape view'"
  shows "filter isMarkup (pageBody toISOString view lang text) = filter isMarkup (pageBody toISOString view' lang text)
    \<and> CHR ''<'' \<notin> set (toJsonScript (pageData (ACCEPT_PAGE_STRINGS lang) view))
    \<and> filter (\<lambda>c. c = CHR ''<'') (renderAcceptPage toISOString view lang)
        = filter (\<lambda>c. c = CHR ''<'') (renderAcceptPage toISOString view' lang)"
proof -
  note body = pageBody_markup[of toISOString view view' lang, unfolded markup_def, OF iso shape]
  let ?lt = "filter (\<lambda>c. c = CHR ''<'')"
  have lt: "?lt s = ?lt (filter isMarkup s)" for s
    by (simp add: isMarkup_def) (metis (lifting) filter_cong)
  have free: "CHR ''<'' \<notin> set (toJsonScript (pageData s v))" for s v
    unfolding toJsonScript_def by (rule printJson_no_lt) (rule pageData_ok)
  then have none: "?lt (toJsonScript (pageData s v)) = []" for s v by (auto simp: filter_empty_conv)
  have data: "?lt (pageBody toISOString v lang (toJsonScript (pageData s v))) = ?lt (pageBody toISOString v lang [])" for v s
    by (simp only: pageBody_def Let_def filter_append none append_Nil filter.simps(1))
  have "apv_items view = [] \<longleftrightarrow> apv_items view' = []"
    using shape by (auto simp: viewShape_def)
  moreover have "?lt (pageBody toISOString view lang []) = ?lt (pageBody toISOString view' lang [])"
    using lt body by metis
  ultimately have "?lt (renderAcceptPage toISOString view lang) = ?lt (renderAcceptPage toISOString view' lang)"
    by (simp only: renderAcceptPage_def Let_def htmlShell_def filter_append data if_distrib[of "?lt"])
  with body free show ?thesis by blast
qed

text \<open>A page for one passive document, with the name of the customer left open.\<close>

definition item_ex :: AcceptancePageItem where
  "item_ex = \<lparr>api_versionId = ''v'', api_documentName = ''DPA'', api_documentType = ''dpa'', api_audience = ''customer'',
     api_versionLabel = ''1'', api_changeSummary = [], api_pdfUrl = ''url'', api_mode = PASSIVE, api_consentText = None,
     api_deadlineAt = Some 0, api_blocking = False, api_upcoming = False, api_validFrom = 0, api_canObject = True,
     api_objectionConsequence = None\<rparr>"

definition view_ex :: "string \<Rightarrow> AcceptancePageView" where
  "view_ex name = \<lparr>apv_linkId = ''al'', apv_customerName = name, apv_firstName = name, apv_lastName = name,
     apv_companyName = [], apv_suggestedEmail = name, apv_items = [item_ex]\<rparr>"

lemma page_markup_witness:
  "filter (\<lambda>c. c = CHR ''<'') (renderAcceptPage (\<lambda>_. ''2026-01-01T00'') (view_ex ''</script>'') EN)
     = filter (\<lambda>c. c = CHR ''<'') (renderAcceptPage (\<lambda>_. ''2026-01-01T00'') (view_ex ''Ann'') EN)"
proof -
  have "viewShape (view_ex ''</script>'') = viewShape (view_ex ''Ann'')" by (simp add: viewShape_def view_ex_def)
  moreover have "filter isMarkup ''2026-01-01T00'' = []" by (simp add: isMarkup_def)
  ultimately show ?thesis
    using page_markup[of "\<lambda>_. ''2026-01-01T00''" "view_ex ''</script>''" "view_ex ''Ann''" EN] by blast
qed

end
