(* ===== verification/Db_Client.thy ===== *)
theory Db_Client
  imports Stores
begin

text \<open>
  The database as the repositories of \<open>src/src/persistence/prisma\<close> see it.  The generated Prisma client is
  not part of the program: for each table it is a record of operations (\<open>delegate\<close>), an argument of the
  repositories.  What is relied on is \<open>serves\<close>, its documented behaviour over the rows of the table and the
  constraints that \<open>src/prisma/schema.prisma\<close> and \<open>partial-indexes.sql\<close> declare.  A row is given without
  the columns that the database fills in (\<open>createdAt\<close>, \<open>updatedAt\<close>), as a function of their time.  The last
  section is a delegate on a table in memory, which shows that \<open>serves\<close> can hold.
\<close>

section \<open>Errors\<close>

text \<open>What an operation of the client throws: a \<open>PrismaClientKnownRequestError\<close> with its code and \<open>meta\<close>,
  or what the repositories throw themselves.\<close>

datatype dbFail = PrismaError string "meta option" | Thrown failure

type_synonym ('s, 'a) db = "('s, dbFail, 'a) act"

definition isUniqueConstraintError :: "dbFail \<Rightarrow> bool" where
  "isUniqueConstraintError err = (case err of PrismaError code _ \<Rightarrow> code = ''P2002'' | Thrown _ \<Rightarrow> False)"

definition isRecordNotFoundError :: "dbFail \<Rightarrow> bool" where
  "isRecordNotFoundError err = (case err of PrismaError code _ \<Rightarrow> code = ''P2025'' | Thrown _ \<Rightarrow> False)"

definition isForeignKeyConstraintError :: "dbFail \<Rightarrow> bool" where
  "isForeignKeyConstraintError err = (case err of PrismaError code _ \<Rightarrow> code = ''P2003'' | Thrown _ \<Rightarrow> False)"

text \<open>\<open>value.replace(/^"(.*)"$/, '$1')\<close>; the dot matches no line terminator.\<close>

definition stripQuotes :: "string \<Rightarrow> string" where
  "stripQuotes value =
    (if length value \<ge> 2 \<and> hd value = CHR 0x22 \<and> last value = CHR 0x22
        \<and> CHR 0x0A \<notin> set value \<and> CHR 0x0D \<notin> set value
     then butlast (tl value) else value)"

text \<open>A property of a value, \<open>undefined\<close> when it is no object or has no such property.\<close>

definition propOf :: "string \<Rightarrow> meta option \<Rightarrow> meta option" where
  "propOf name v = (case v of Some (MObj ps) \<Rightarrow> map_of ps name | _ \<Rightarrow> None)"

definition pushTargets :: "meta option \<Rightarrow> string list" where
  "pushTargets v = (case v of
      Some (MList vs) \<Rightarrow> concat (map (\<lambda>x. case x of MStr s \<Rightarrow> [stripQuotes s] | _ \<Rightarrow> []) vs)
    | Some (MStr s) \<Rightarrow> [stripQuotes s]
    | _ \<Rightarrow> [])"

text \<open>\<open>message.match(/constraint "([^"]+)"/)\<close>: the first match.\<close>

fun constraintIn :: "string \<Rightarrow> string option" where
  "constraintIn [] = None"
| "constraintIn (c # cs) =
    (let name = takeWhile (\<lambda>x. x \<noteq> CHR 0x22) (drop 12 (c # cs)) in
     if take 12 (c # cs) = ''constraint '' @ [CHR 0x22] \<and> name \<noteq> [] \<and> drop (12 + length name) (c # cs) \<noteq> []
     then Some name else constraintIn cs)"

definition holdsFields :: "meta option \<Rightarrow> bool" where
  "holdsFields v = (case v of Some (MObj _) \<Rightarrow> True | Some (MList _) \<Rightarrow> True | _ \<Rightarrow> False)"

definition uniqueConstraintTargets :: "meta option \<Rightarrow> string list" where
  "uniqueConstraintTargets m =
    (let cause = propOf ''cause'' (propOf ''driverAdapterError'' m);
         constr = propOf ''constraint'' cause in
     pushTargets (propOf ''target'' m) @ pushTargets (propOf ''constraint'' m)
     @ (if \<not> holdsFields cause then []
        else (if holdsFields constr then pushTargets (propOf ''fields'' constr) @ pushTargets (propOf ''index'' constr)
              else pushTargets constr)
          @ (case propOf ''originalMessage'' cause of
               Some (MStr message) \<Rightarrow> (case constraintIn message of None \<Rightarrow> [] | Some name \<Rightarrow> [name])
             | _ \<Rightarrow> [])))"

section \<open>The client of a table\<close>

text \<open>A \<open>where\<close> is a predicate on rows, an \<open>orderBy\<close> the relation of what may stand before what, \<open>data\<close> a
  row or a change of one.\<close>

record ('s, 'r) delegate =
  dg_findUnique :: "('r \<Rightarrow> bool) \<Rightarrow> ('s, 'r option) db"
  dg_findMany :: "('r \<Rightarrow> bool) \<Rightarrow> ('r \<Rightarrow> 'r \<Rightarrow> bool) \<Rightarrow> ('s, 'r list) db"
  dg_count :: "('r \<Rightarrow> bool) \<Rightarrow> ('s, nat) db"
  dg_create :: "(Date \<Rightarrow> 'r) \<Rightarrow> ('s, 'r) db"
  dg_upsert :: "string \<Rightarrow> (Date \<Rightarrow> 'r) \<Rightarrow> (Date \<Rightarrow> 'r \<Rightarrow> 'r) \<Rightarrow> ('s, 'r) db"
  dg_update :: "string \<Rightarrow> (Date \<Rightarrow> 'r \<Rightarrow> 'r) \<Rightarrow> ('s, 'r) db"
  dg_updateMany :: "('r \<Rightarrow> bool) \<Rightarrow> (Date \<Rightarrow> 'r \<Rightarrow> 'r) \<Rightarrow> ('s, nat) db"
  dg_delete :: "('r \<Rightarrow> bool) \<Rightarrow> ('s, 'r) db"
  dg_deleteMany :: "('r \<Rightarrow> bool) \<Rightarrow> ('s, nat) db"

abbreviation unordered :: "'r \<Rightarrow> 'r \<Rightarrow> bool" where
  "unordered \<equiv> (\<lambda>_ _. True)"

definition ascBy :: "('r \<Rightarrow> int) \<Rightarrow> 'r \<Rightarrow> 'r \<Rightarrow> bool" where
  "ascBy f = (\<lambda>x y. f x \<le> f y)"

section \<open>What is relied on\<close>

text \<open>A unique constraint: its columns, its name in the database, and the values it compares, if the row
  takes part (\<open>NULL\<close> and rows outside a partial index do not).\<close>

record 'r uniqueness =
  uq_fields :: "string list"
  uq_name :: string
  uq_value :: "'r \<Rightarrow> string list option"

text \<open>A table: its rows by primary key, its constraints, and whether the foreign keys of a row, and those that
  point to it, allow to write and to delete it.\<close>

record ('s, 'r) schema =
  sc_rows :: "'s \<Rightarrow> string \<Rightarrow> 'r option"
  sc_key :: "'r \<Rightarrow> string"
  sc_unique :: "'r uniqueness list"
  sc_refs :: "'s \<Rightarrow> 'r \<Rightarrow> bool"
  sc_used :: "'s \<Rightarrow> 'r \<Rightarrow> bool"

definition matching :: "('s, 'r) schema \<Rightarrow> 's \<Rightarrow> ('r \<Rightarrow> bool) \<Rightarrow> 'r set" where
  "matching T s P = {r. sc_rows T s (sc_key T r) = Some r \<and> P r}"

text \<open>The constraints that a row violates, the row under its own key apart.\<close>

definition violated :: "('s, 'r) schema \<Rightarrow> 's \<Rightarrow> string option \<Rightarrow> 'r \<Rightarrow> 'r uniqueness set" where
  "violated T s own r = {u \<in> set (sc_unique T). uq_value u r \<noteq> None
     \<and> (\<exists>k x. sc_rows T s k = Some x \<and> own \<noteq> Some k \<and> uq_value u x = uq_value u r)}"

text \<open>The error names the constraint by its columns or by its name, in whatever shape of \<open>meta\<close>.\<close>

definition reports :: "'r uniqueness \<Rightarrow> meta option \<Rightarrow> bool" where
  "reports u m \<longleftrightarrow> set (uniqueConstraintTargets m) \<subseteq> insert (uq_name u) (set (uq_fields u))
     \<and> (set (uq_fields u) \<subseteq> set (uniqueConstraintTargets m) \<or> uq_name u \<in> set (uniqueConstraintTargets m))"

definition written :: "('s, 'r) schema \<Rightarrow> 's \<Rightarrow> string option \<Rightarrow> 'r \<Rightarrow> (dbFail + 'r) \<times> 's \<Rightarrow> bool" where
  "written T s own r out = (case out of
      (Inr x, s') \<Rightarrow> x = r \<and> violated T s own r = {} \<and> sc_refs T s r
        \<and> sc_rows T s' = (sc_rows T s)(sc_key T r \<mapsto> r)
    | (Inl e, s') \<Rightarrow> sc_rows T s' = sc_rows T s
        \<and> ((\<exists>m u. e = PrismaError ''P2002'' m \<and> u \<in> violated T s own r \<and> reports u m)
           \<or> (\<exists>m. e = PrismaError ''P2003'' m) \<and> \<not> sc_refs T s r))"

definition notFound :: "('s, 'r) schema \<Rightarrow> 's \<Rightarrow> (dbFail + 'r) \<times> 's \<Rightarrow> bool" where
  "notFound T s out \<longleftrightarrow> (\<exists>m s'. out = (Inl (PrismaError ''P2025'' m), s') \<and> sc_rows T s' = sc_rows T s)"

definition orderOk :: "('r \<Rightarrow> 'r \<Rightarrow> bool) \<Rightarrow> bool" where
  "orderOk le \<longleftrightarrow> (\<forall>x y. le x y \<or> le y x) \<and> (\<forall>x y z. le x y \<longrightarrow> le y z \<longrightarrow> le x z)"

text \<open>A change that touches no column of a constraint.\<close>

definition plainChange :: "('s, 'r) schema \<Rightarrow> (Date \<Rightarrow> 'r \<Rightarrow> 'r) \<Rightarrow> bool" where
  "plainChange T f \<longleftrightarrow> (\<forall>at r. sc_key T (f at r) = sc_key T r \<and> (\<forall>u \<in> set (sc_unique T). uq_value u (f at r) = uq_value u r))"

definition keyed :: "('s, 'r) schema \<Rightarrow> bool" where
  "keyed T \<longleftrightarrow> (\<forall>s. finite (dom (sc_rows T s)) \<and> (\<forall>k r. sc_rows T s k = Some r \<longrightarrow> sc_key T r = k))"

definition servesUnique :: "('s, 'r) schema \<Rightarrow> ('s, 'r) delegate \<Rightarrow> bool" where
  "servesUnique T D \<longleftrightarrow> (\<forall>P s. \<exists>x. dg_findUnique D P s = (Inr x, s)
          \<and> (case x of None \<Rightarrow> matching T s P = {} | Some r \<Rightarrow> r \<in> matching T s P))"

definition servesMany :: "('s, 'r) schema \<Rightarrow> ('s, 'r) delegate \<Rightarrow> bool" where
  "servesMany T D \<longleftrightarrow> (\<forall>P le s. orderOk le \<longrightarrow> (\<exists>rs. dg_findMany D P le s = (Inr rs, s)
          \<and> distinct rs \<and> set rs = matching T s P \<and> sorted_wrt le rs))"

definition servesCount :: "('s, 'r) schema \<Rightarrow> ('s, 'r) delegate \<Rightarrow> bool" where
  "servesCount T D \<longleftrightarrow> (\<forall>P s. dg_count D P s = (Inr (card (matching T s P)), s))"

definition servesCreate :: "('s, 'r) schema \<Rightarrow> ('s, 'r) delegate \<Rightarrow> bool" where
  "servesCreate T D \<longleftrightarrow> (\<forall>data s. (\<forall>at at'. sc_key T (data at) = sc_key T (data at')) \<longrightarrow>
          (\<exists>at. written T s None (data at) (dg_create D data s)))"

definition servesUpsert :: "('s, 'r) schema \<Rightarrow> ('s, 'r) delegate \<Rightarrow> bool" where
  "servesUpsert T D \<longleftrightarrow> (\<forall>k data f s. (\<forall>at. sc_key T (data at) = k) \<longrightarrow> (\<forall>at r. sc_key T (f at r) = sc_key T r) \<longrightarrow>
          (\<exists>at. case sc_rows T s k of
             None \<Rightarrow> written T s None (data at) (dg_upsert D k data f s)
           | Some r \<Rightarrow> written T s (Some k) (f at r) (dg_upsert D k data f s)))"

definition servesUpdate :: "('s, 'r) schema \<Rightarrow> ('s, 'r) delegate \<Rightarrow> bool" where
  "servesUpdate T D \<longleftrightarrow> (\<forall>k f s. (\<forall>at r. sc_key T (f at r) = sc_key T r) \<longrightarrow>
          (\<exists>at. case sc_rows T s k of
             None \<Rightarrow> notFound T s (dg_update D k f s)
           | Some r \<Rightarrow> written T s (Some k) (f at r) (dg_update D k f s)))"

definition servesUpdateMany :: "('s, 'r) schema \<Rightarrow> ('s, 'r) delegate \<Rightarrow> bool" where
  "servesUpdateMany T D \<longleftrightarrow> (\<forall>P f s. plainChange T f \<longrightarrow>
          (\<exists>at s'. dg_updateMany D P f s = (Inr (card (matching T s P)), s')
             \<and> sc_rows T s' = (\<lambda>k. map_option (\<lambda>r. if P r then f at r else r) (sc_rows T s k))))"

definition servesDelete :: "('s, 'r) schema \<Rightarrow> ('s, 'r) delegate \<Rightarrow> bool" where
  "servesDelete T D \<longleftrightarrow> (\<forall>P s. case dg_delete D P s of
          (Inr r, s') \<Rightarrow> r \<in> matching T s P \<and> \<not> sc_used T s r \<and> sc_rows T s' = (sc_rows T s)(sc_key T r := None)
        | (Inl e, s') \<Rightarrow> sc_rows T s' = sc_rows T s
            \<and> ((\<exists>m. e = PrismaError ''P2025'' m) \<and> matching T s P = {}
               \<or> (\<exists>m. e = PrismaError ''P2003'' m) \<and> (\<exists>r \<in> matching T s P. sc_used T s r)))"

definition servesDeleteMany :: "('s, 'r) schema \<Rightarrow> ('s, 'r) delegate \<Rightarrow> bool" where
  "servesDeleteMany T D \<longleftrightarrow> (\<forall>P s. (\<forall>r \<in> matching T s P. \<not> sc_used T s r) \<longrightarrow>
          (\<exists>s'. dg_deleteMany D P s = (Inr (card (matching T s P)), s')
             \<and> sc_rows T s' = (\<lambda>k. case sc_rows T s k of None \<Rightarrow> None | Some r \<Rightarrow> if P r then None else Some r)))"

definition serves :: "('s, 'r) schema \<Rightarrow> ('s, 'r) delegate \<Rightarrow> bool" where
  "serves T D \<longleftrightarrow> keyed T \<and> servesUnique T D \<and> servesMany T D \<and> servesCount T D
     \<and> servesCreate T D \<and> servesUpsert T D \<and> servesUpdate T D
     \<and> servesUpdateMany T D \<and> servesDelete T D \<and> servesDeleteMany T D"

lemmas serves_defs = serves_def keyed_def servesUnique_def servesMany_def servesCount_def servesCreate_def servesUpsert_def servesUpdate_def servesUpdateMany_def servesDelete_def servesDeleteMany_def

section \<open>A delegate in memory\<close>

text \<open>The rows in a list, the first of each key being the one that counts; the database's clock stands at 0.\<close>

definition firstOf :: "('r \<Rightarrow> string) \<Rightarrow> 'r list \<Rightarrow> string \<Rightarrow> 'r option" where
  "firstOf key t k = find (\<lambda>r. key r = k) t"

definition live :: "('r \<Rightarrow> string) \<Rightarrow> 'r list \<Rightarrow> 'r list" where
  "live key t = filter (\<lambda>r. firstOf key t (key r) = Some r) (remdups t)"

definition listSchema :: "('r \<Rightarrow> string) \<Rightarrow> 'r uniqueness list \<Rightarrow> ('r list, 'r) schema" where
  "listSchema key uniques = \<lparr>sc_rows = firstOf key, sc_key = key, sc_unique = uniques,
     sc_refs = (\<lambda>_ _. True), sc_used = (\<lambda>_ _. False)\<rparr>"

fun insertBy :: "('r \<Rightarrow> 'r \<Rightarrow> bool) \<Rightarrow> 'r \<Rightarrow> 'r list \<Rightarrow> 'r list" where
  "insertBy le x [] = [x]"
| "insertBy le x (y # ys) = (if le x y then x # y # ys else y # insertBy le x ys)"

definition broken :: "('r \<Rightarrow> string) \<Rightarrow> 'r uniqueness list \<Rightarrow> 'r list \<Rightarrow> string option \<Rightarrow> 'r \<Rightarrow> 'r uniqueness option" where
  "broken key uniques t own r = find (\<lambda>u. uq_value u r \<noteq> None
     \<and> list_ex (\<lambda>x. own \<noteq> Some (key x) \<and> uq_value u x = uq_value u r) (live key t)) uniques"

definition listWrite :: "('r \<Rightarrow> string) \<Rightarrow> 'r uniqueness list \<Rightarrow> string option \<Rightarrow> 'r \<Rightarrow> ('r list, 'r) db" where
  "listWrite key uniques own r = (\<lambda>t. case broken key uniques t own r of
      Some u \<Rightarrow> (Inl (PrismaError ''P2002'' (Some (MObj [(''target'', MStr (uq_name u))]))), t)
    | None \<Rightarrow> (Inr r, r # t))"

definition listDelegate :: "('r \<Rightarrow> string) \<Rightarrow> 'r uniqueness list \<Rightarrow> ('r list, 'r) delegate" where
  "listDelegate key uniques = \<lparr>
     dg_findUnique = (\<lambda>P t. (Inr (find P (live key t)), t)),
     dg_findMany = (\<lambda>P le t. (Inr (foldr (insertBy le) (filter P (live key t)) []), t)),
     dg_count = (\<lambda>P t. (Inr (length (filter P (live key t))), t)),
     dg_create = (\<lambda>data. listWrite key uniques None (data 0)),
     dg_upsert = (\<lambda>k data f t. case firstOf key t k of
         None \<Rightarrow> listWrite key uniques None (data 0) t
       | Some r \<Rightarrow> listWrite key uniques (Some k) (f 0 r) t),
     dg_update = (\<lambda>k f t. case firstOf key t k of
         None \<Rightarrow> (Inl (PrismaError ''P2025'' None), t)
       | Some r \<Rightarrow> listWrite key uniques (Some k) (f 0 r) t),
     dg_updateMany = (\<lambda>P f t. (Inr (length (filter P (live key t))),
         map (\<lambda>r. if P r then f 0 r else r) (live key t))),
     dg_delete = (\<lambda>P t. case find P (live key t) of
         None \<Rightarrow> (Inl (PrismaError ''P2025'' None), t)
       | Some r \<Rightarrow> (Inr r, filter (\<lambda>x. key x \<noteq> key r) t)),
     dg_deleteMany = (\<lambda>P t. (Inr (length (filter P (live key t))), filter (\<lambda>r. \<not> P r) (live key t)))\<rparr>"

text \<open>Names without quotes are reported as they are.\<close>

definition plainNames :: "'r uniqueness list \<Rightarrow> bool" where
  "plainNames uniques \<longleftrightarrow> (\<forall>u \<in> set uniques. stripQuotes (uq_name u) = uq_name u)"

lemma firstOf_key: "firstOf key t k = Some r \<Longrightarrow> key r = k \<and> r \<in> set t"
  by (auto simp: firstOf_def find_Some_iff)

lemma live_set: "r \<in> set (live key t) \<longleftrightarrow> firstOf key t (key r) = Some r"
  by (auto simp: live_def dest: firstOf_key)

lemma live_distinct: "distinct (live key t)" "distinct (map key (live key t))"
proof -
  show d: "distinct (live key t)" by (simp add: live_def)
  have "inj_on key (set (live key t))" by (rule inj_onI) (metis live_set option.inject)
  with d show "distinct (map key (live key t))" by (simp add: distinct_map)
qed

lemma firstOf_unique: "distinct (map key t) \<Longrightarrow> firstOf key t k = Some r \<longleftrightarrow> r \<in> set t \<and> key r = k"
  unfolding firstOf_def by (induction t) auto

lemma firstOf_live: "firstOf key (live key t) k = firstOf key t k"
proof (cases "firstOf key t k")
  case (Some r)
  with firstOf_key[OF Some] show ?thesis
    by (simp add: firstOf_unique[OF live_distinct(2)] live_set)
next
  case None
  then have "firstOf key (live key t) k \<noteq> Some r" for r
    by (auto simp: firstOf_unique[OF live_distinct(2)] live_set)
  with None show ?thesis by (cases "firstOf key (live key t) k") auto
qed

lemma matching_list: "matching (listSchema key uniques) t P = {r \<in> set (live key t). P r}"
  by (auto simp: matching_def listSchema_def live_set)

lemma card_matching: "card (matching (listSchema key uniques) t P) = length (filter P (live key t))"
proof -
  have "card (set (filter P (live key t))) = length (filter P (live key t))"
    by (rule distinct_card) (simp add: live_distinct)
  then show ?thesis by (simp add: matching_list)
qed

lemma insertBy_set [simp]: "set (insertBy le x ys) = insert x (set ys)"
  by (induction ys) auto

lemma insertBy_distinct: "x \<notin> set ys \<Longrightarrow> distinct ys \<Longrightarrow> distinct (insertBy le x ys)"
  by (induction ys) auto

lemma insertBy_sorted: "orderOk le \<Longrightarrow> sorted_wrt le ys \<Longrightarrow> sorted_wrt le (insertBy le x ys)"
  by (induction ys) (auto simp: orderOk_def)

lemma foldr_insertBy:
  assumes "orderOk le" "distinct xs"
  shows "set (foldr (insertBy le) xs []) = set xs \<and> distinct (foldr (insertBy le) xs []) \<and> sorted_wrt le (foldr (insertBy le) xs [])"
  using assms(2) by (induction xs) (auto simp: insertBy_distinct insertBy_sorted[OF assms(1)])

lemma listWrite_written:
  assumes "plainNames uniques"
  shows "written (listSchema key uniques) t own r (listWrite key uniques own r t)"
proof -
  have viol: "violated (listSchema key uniques) t own r = {u \<in> set uniques. uq_value u r \<noteq> None
      \<and> list_ex (\<lambda>x. own \<noteq> Some (key x) \<and> uq_value u x = uq_value u r) (live key t)}"
  proof -
    have "(\<exists>k x. firstOf key t k = Some x \<and> own \<noteq> Some k \<and> v x = v r)
        \<longleftrightarrow> (\<exists>x. firstOf key t (key x) = Some x \<and> own \<noteq> Some (key x) \<and> v x = v r)" for v :: "'a \<Rightarrow> string list option"
      using firstOf_key by metis
    then show ?thesis by (simp add: violated_def listSchema_def list_ex_iff live_set Bex_def)
  qed
  show ?thesis
  proof (cases "broken key uniques t own r")
    case None
    then have "violated (listSchema key uniques) t own r = {}"
      unfolding viol broken_def find_None_iff by blast
    moreover have "firstOf key (r # t) = (firstOf key t)(key r \<mapsto> r)" by (auto simp: firstOf_def)
    ultimately show ?thesis using None by (simp add: listWrite_def written_def) (simp add: listSchema_def)
  next
    case (Some u)
    then have "u \<in> violated (listSchema key uniques) t own r" "u \<in> set uniques"
      unfolding viol broken_def by (auto simp: find_Some_iff)
    moreover have "reports u (Some (MObj [(''target'', MStr (uq_name u))]))"
      using assms \<open>u \<in> set uniques\<close>
      by (simp add: reports_def uniqueConstraintTargets_def propOf_def pushTargets_def holdsFields_def plainNames_def)
    ultimately show ?thesis using Some by (auto simp: listWrite_def written_def)
  qed
qed

lemma serves_list:
  assumes names: "plainNames uniques"
  shows "serves (listSchema key uniques) (listDelegate key uniques)"
proof -
  let ?T = "listSchema key uniques" and ?D = "listDelegate key uniques"
  have rows: "sc_rows ?T = firstOf key" "sc_key ?T = key" "sc_used ?T = (\<lambda>_ _. False)" by (simp_all add: listSchema_def)
  have finite: "finite (dom (firstOf key s))" for s
    by (rule finite_subset[of _ "key ` set s"]) (auto dest: firstOf_key)
  have unique: "case find P (live key s) of None \<Rightarrow> matching ?T s P = {} | Some r \<Rightarrow> r \<in> matching ?T s P" for P s
    by (auto simp: matching_list find_None_iff find_Some_iff split: option.split)
  have many: "firstOf key (map (\<lambda>r. if P r then f (0::Date) r else r) (live key s))
      = (\<lambda>k. map_option (\<lambda>r. if P r then f 0 r else r) (firstOf key s k))" if "plainChange ?T f" for P f s
  proof
    fix k
    have key: "key (f 0 r) = key r" for r using that by (simp add: plainChange_def rows)
    have "find (\<lambda>r. key r = k) (map (\<lambda>r. if P r then f 0 r else r) xs)
        = map_option (\<lambda>r. if P r then f 0 r else r) (find (\<lambda>r. key r = k) xs)" for xs
      by (induction xs) (simp_all add: key)
    then show "firstOf key (map (\<lambda>r. if P r then f 0 r else r) (live key s)) k
        = map_option (\<lambda>r. if P r then f 0 r else r) (firstOf key s k)"
      using firstOf_live[of key s k] by (simp add: firstOf_def)
  qed
  have gone: "firstOf key (filter (\<lambda>r. \<not> P r) (live key s))
      = (\<lambda>k. case firstOf key s k of None \<Rightarrow> None | Some r \<Rightarrow> if P r then None else Some r)" for P s
  proof
    fix k
    have d: "distinct (map key (filter (\<lambda>r. \<not> P r) (live key s)))"
      using live_distinct(2)[of key s] by (simp add: distinct_map_filter)
    have some: "firstOf key (filter (\<lambda>r. \<not> P r) (live key s)) k = Some r \<longleftrightarrow> firstOf key s k = Some r \<and> \<not> P r" for r
      unfolding firstOf_unique[OF d] by (auto simp: live_set dest: firstOf_key)
    show "firstOf key (filter (\<lambda>r. \<not> P r) (live key s)) k
        = (case firstOf key s k of None \<Rightarrow> None | Some r \<Rightarrow> if P r then None else Some r)"
    proof (cases "firstOf key (filter (\<lambda>r. \<not> P r) (live key s)) k")
      case (Some r)
      with some[of r] show ?thesis by simp
    next
      case None
      with some show ?thesis by (cases "firstOf key s k") auto
    qed
  qed
  have without: "firstOf key (filter (\<lambda>x. key x \<noteq> k) s) = (firstOf key s)(k := None)" for k s
    by (rule ext) (induction s; auto simp: firstOf_def)
  note key = firstOf_key[of key]
  show ?thesis
    unfolding serves_defs
  proof (intro conjI allI impI)
    show "finite (dom (sc_rows ?T s))" for s by (simp add: rows finite)
    show "sc_key ?T r = k" if "sc_rows ?T s k = Some r" for s k r using key[where t = s and k = k and r = r] that by (simp add: rows)
    show "\<exists>x. dg_findUnique ?D P s = (Inr x, s) \<and> (case x of None \<Rightarrow> matching ?T s P = {} | Some r \<Rightarrow> r \<in> matching ?T s P)" for P s
      using unique by (simp add: listDelegate_def)
    show "\<exists>rs. dg_findMany ?D P le s = (Inr rs, s) \<and> distinct rs \<and> set rs = matching ?T s P \<and> sorted_wrt le rs"
      if "orderOk le" for P le s
      using foldr_insertBy[OF that, of "filter P (live key s)"] live_distinct(1)[of key s]
      by (simp add: listDelegate_def matching_list)
    show "dg_count ?D P s = (Inr (card (matching ?T s P)), s)" for P s
      by (simp add: listDelegate_def card_matching)
    show "\<exists>at. written ?T s None (data at) (dg_create ?D data s)" for data s
      by (rule exI[of _ 0]) (simp add: listDelegate_def listWrite_written[OF names])
    show "\<exists>at. case sc_rows ?T s k of
             None \<Rightarrow> written ?T s None (data at) (dg_upsert ?D k data f s)
           | Some r \<Rightarrow> written ?T s (Some k) (f at r) (dg_upsert ?D k data f s)" for k data f s
      by (rule exI[of _ 0]) (simp add: listDelegate_def rows listWrite_written[OF names] split: option.split)
    show "\<exists>at. case sc_rows ?T s k of
             None \<Rightarrow> notFound ?T s (dg_update ?D k f s)
           | Some r \<Rightarrow> written ?T s (Some k) (f at r) (dg_update ?D k f s)" for k f s
      by (rule exI[of _ 0]) (simp add: listDelegate_def rows notFound_def listWrite_written[OF names] split: option.split)
    show "\<exists>at s'. dg_updateMany ?D P f s = (Inr (card (matching ?T s P)), s')
         \<and> sc_rows ?T s' = (\<lambda>k. map_option (\<lambda>r. if P r then f at r else r) (sc_rows ?T s k))" if "plainChange ?T f" for P f s
    proof (intro exI conjI)
      show "dg_updateMany ?D P f s = (Inr (card (matching ?T s P)), map (\<lambda>r. if P r then f 0 r else r) (live key s))"
        by (simp add: listDelegate_def card_matching)
      show "sc_rows ?T (map (\<lambda>r. if P r then f 0 r else r) (live key s))
          = (\<lambda>k. map_option (\<lambda>r. if P r then f 0 r else r) (sc_rows ?T s k))"
        unfolding rows by (rule many[OF that])
    qed
    show "case dg_delete ?D P s of
          (Inr r, s') \<Rightarrow> r \<in> matching ?T s P \<and> \<not> sc_used ?T s r \<and> sc_rows ?T s' = (sc_rows ?T s)(sc_key ?T r := None)
        | (Inl e, s') \<Rightarrow> sc_rows ?T s' = sc_rows ?T s
            \<and> ((\<exists>m. e = PrismaError ''P2025'' m) \<and> matching ?T s P = {}
               \<or> (\<exists>m. e = PrismaError ''P2003'' m) \<and> (\<exists>r \<in> matching ?T s P. sc_used ?T s r))" for P s
      using unique[where P = P and s = s] by (cases "find P (live key s)") (simp_all add: listDelegate_def rows without)
    show "\<exists>s'. dg_deleteMany ?D P s = (Inr (card (matching ?T s P)), s')
         \<and> sc_rows ?T s' = (\<lambda>k. case sc_rows ?T s k of None \<Rightarrow> None | Some r \<Rightarrow> if P r then None else Some r)" for P s
    proof (intro exI conjI)
      show "dg_deleteMany ?D P s = (Inr (card (matching ?T s P)), filter (\<lambda>r. \<not> P r) (live key s))"
        by (simp add: listDelegate_def card_matching)
      show "sc_rows ?T (filter (\<lambda>r. \<not> P r) (live key s))
          = (\<lambda>k. case sc_rows ?T s k of None \<Rightarrow> None | Some r \<Rightarrow> if P r then None else Some r)"
        unfolding rows by (rule gone)
    qed
  qed
qed

end
