(* ===== verification/Db_Repos.thy ===== *)
theory Db_Repos
  imports Db_Client
begin

text \<open>
  The repositories of \<open>src/src/persistence/prisma\<close> over the client of each table, with their mappers
  (\<open>src/src/persistence/prisma/mappers\<close>).  \<open>null\<close> and \<open>undefined\<close> are both \<open>None\<close>.  A table whose columns are the
  fields of the domain type, the columns of the database apart, has that type as its rows.
\<close>

section \<open>Mappers\<close>

definition nullToUndefined :: "'a option \<Rightarrow> 'a option" where
  "nullToUndefined value = value"

record ActorColumns =
  ac_actorUserId :: string
  ac_actorName :: "string option"
  ac_actorEmail :: "string option"
  ac_actorPortalRole :: "string option"

definition embedActor :: "Actor \<Rightarrow> ActorColumns" where
  "embedActor actor = \<lparr>ac_actorUserId = act_userId actor, ac_actorName = act_name actor,
     ac_actorEmail = act_email actor, ac_actorPortalRole = act_portalRole actor\<rparr>"

definition extractActor :: "ActorColumns \<Rightarrow> Actor" where
  "extractActor columns = \<lparr>act_userId = ac_actorUserId columns, act_name = nullToUndefined (ac_actorName columns),
     act_email = nullToUndefined (ac_actorEmail columns),
     act_portalRole = nullToUndefined (ac_actorPortalRole columns)\<rparr>"

text \<open>\<open>try\<close> around one operation: an error of the given kind becomes the \<open>DomainError\<close>.\<close>

abbreviation throwDb :: "DomainErrorCode \<Rightarrow> ('s, 'a) db" where
  "throwDb c \<equiv> throwM (Thrown (DomainError c))"

definition translating :: "(dbFail \<Rightarrow> bool) \<Rightarrow> DomainErrorCode \<Rightarrow> ('s, 'a) db \<Rightarrow> ('s, 'a) db" where
  "translating is c m = catchM m (\<lambda>err. if is err then throwDb c else throwM err)"

definition liftDb :: "'a result \<Rightarrow> ('s, 'a) db" where
  "liftDb r = (case r of Inl e \<Rightarrow> throwM (Thrown e) | Inr x \<Rightarrow> retM x)"

definition findFirst :: "('s, 'r) delegate \<Rightarrow> ('r \<Rightarrow> bool) \<Rightarrow> ('r \<Rightarrow> 'r \<Rightarrow> bool) \<Rightarrow> ('s, 'r option) db" where
  "findFirst D P le = bindM (dg_findMany D P le) (\<lambda>rows. retM (case rows of [] \<Rightarrow> None | r # _ \<Rightarrow> Some r))"

section \<open>Rollout states\<close>

record StateRow =
  sr_id :: string
  sr_customerId :: string
  sr_versionId :: string
  sr_value :: CustomerVersionStateValue
  sr_notifiedAt :: "Date option"
  sr_deadlineAt :: "Date option"
  sr_remindersSent :: int
  sr_lastReminderAt :: "Date option"
  sr_carryOverBlocking :: bool
  sr_notificationDueAt :: "Date option"

definition state_toDomain :: "StateRow \<Rightarrow> CustomerVersionState" where
  "state_toDomain row = \<lparr>cvs_id = sr_id row, cvs_customerId = sr_customerId row, cvs_versionId = sr_versionId row,
     cvs_state = sr_value row, cvs_notifiedAt = nullToUndefined (sr_notifiedAt row),
     cvs_deadlineAt = nullToUndefined (sr_deadlineAt row), cvs_remindersSent = sr_remindersSent row,
     cvs_carryOverBlocking = Some (sr_carryOverBlocking row),
     cvs_notificationDueAt = nullToUndefined (sr_notificationDueAt row)\<rparr>"

definition state_upsertData :: "CustomerVersionState \<Rightarrow> StateRow \<Rightarrow> StateRow" where
  "state_upsertData s row = row\<lparr>sr_customerId := cvs_customerId s, sr_versionId := cvs_versionId s,
     sr_value := cvs_state s, sr_notifiedAt := cvs_notifiedAt s, sr_deadlineAt := cvs_deadlineAt s,
     sr_remindersSent := cvs_remindersSent s,
     sr_carryOverBlocking := orElse (cvs_carryOverBlocking s) False,
     sr_notificationDueAt := cvs_notificationDueAt s\<rparr>"

text \<open>A row with the defaults of the schema.\<close>

definition stateDefaults :: "string \<Rightarrow> StateRow" where
  "stateDefaults k = \<lparr>sr_id = k, sr_customerId = [], sr_versionId = [], sr_value = PENDING_NOTIFICATION,
     sr_notifiedAt = None, sr_deadlineAt = None, sr_remindersSent = 0, sr_lastReminderAt = None,
     sr_carryOverBlocking = False, sr_notificationDueAt = None\<rparr>"

definition DB_OPEN_STATES :: "CustomerVersionStateValue list" where
  "DB_OPEN_STATES = [PENDING_NOTIFICATION, NOTIFIED, OBJECTED, EXPIRED_BLOCKING]"

type_synonym 's stateTable = "('s, StateRow) delegate"

definition db_states_save :: "'s stateTable \<Rightarrow> CustomerVersionState \<Rightarrow> ('s, CustomerVersionState) db" where
  "db_states_save D s =
    bindM (dg_upsert D (cvs_id s) (\<lambda>_. state_upsertData s (stateDefaults (cvs_id s))) (\<lambda>_. state_upsertData s))
      (\<lambda>row. retM (state_toDomain row))"

definition db_states_findById :: "'s stateTable \<Rightarrow> string \<Rightarrow> ('s, CustomerVersionState option) db" where
  "db_states_findById D k =
    bindM (dg_findUnique D (\<lambda>r. sr_id r = k)) (\<lambda>row. retM (map_option state_toDomain row))"

definition db_states_findByCustomerAndVersion ::
  "'s stateTable \<Rightarrow> string \<Rightarrow> string \<Rightarrow> ('s, CustomerVersionState option) db" where
  "db_states_findByCustomerAndVersion D customerId versionId =
    bindM (dg_findUnique D (\<lambda>r. sr_customerId r = customerId \<and> sr_versionId r = versionId))
      (\<lambda>row. retM (map_option state_toDomain row))"

definition db_states_findByCustomer :: "'s stateTable \<Rightarrow> string \<Rightarrow> ('s, CustomerVersionState list) db" where
  "db_states_findByCustomer D customerId =
    bindM (dg_findMany D (\<lambda>r. sr_customerId r = customerId) unordered) (\<lambda>rows. retM (map state_toDomain rows))"

definition db_states_findOpenByVersion :: "'s stateTable \<Rightarrow> string \<Rightarrow> ('s, CustomerVersionState list) db" where
  "db_states_findOpenByVersion D versionId =
    bindM (dg_findMany D (\<lambda>r. sr_versionId r = versionId \<and> sr_value r \<in> set DB_OPEN_STATES) unordered)
      (\<lambda>rows. retM (map state_toDomain rows))"

definition db_states_findByVersion :: "'s stateTable \<Rightarrow> string \<Rightarrow> ('s, CustomerVersionState list) db" where
  "db_states_findByVersion D versionId =
    bindM (dg_findMany D (\<lambda>r. sr_versionId r = versionId) unordered) (\<lambda>rows. retM (map state_toDomain rows))"

definition db_states_findDueForSweep :: "'s stateTable \<Rightarrow> Date \<Rightarrow> ('s, CustomerVersionState list) db" where
  "db_states_findDueForSweep D now =
    bindM (dg_findMany D (\<lambda>r. sr_value r \<in> {PENDING_NOTIFICATION, NOTIFIED}
        \<and> (case sr_deadlineAt r of None \<Rightarrow> False | Some t \<Rightarrow> t \<le> now)) unordered)
      (\<lambda>rows. retM (map state_toDomain rows))"

text \<open>\<open>orderBy\<close> and \<open>take\<close>: the first rows in the order; ascending order puts \<open>NULL\<close> last.\<close>

definition nullsLast :: "('r \<Rightarrow> Date option) \<Rightarrow> 'r \<Rightarrow> 'r \<Rightarrow> bool" where
  "nullsLast f = (\<lambda>x y. case (f x, f y) of (_, None) \<Rightarrow> True | (None, Some _) \<Rightarrow> False | (Some a, Some b) \<Rightarrow> a \<le> b)"

definition db_states_findDueForNotification :: "'s stateTable \<Rightarrow> nat \<Rightarrow> ('s, CustomerVersionState list) db" where
  "db_states_findDueForNotification D limit =
    bindM (dg_findMany D (\<lambda>r. sr_value r = PENDING_NOTIFICATION \<and> sr_notificationDueAt r \<noteq> None)
        (nullsLast sr_notificationDueAt))
      (\<lambda>rows. retM (map state_toDomain (take limit rows)))"

definition db_states_clearNotificationDue :: "'s stateTable \<Rightarrow> string \<Rightarrow> ('s, unit) db" where
  "db_states_clearNotificationDue D k =
    bindM (dg_updateMany D (\<lambda>r. sr_id r = k) (\<lambda>_ r. r\<lparr>sr_notificationDueAt := None\<rparr>)) (\<lambda>_. retM ())"

definition db_states_setNotifiedAtomically ::
  "'s stateTable \<Rightarrow> string \<Rightarrow> CustomerVersionStateValue \<Rightarrow> Date option \<Rightarrow> Date option \<Rightarrow>
   ('s, CustomerVersionState) db" where
  "db_states_setNotifiedAtomically D k newValue notifiedAt deadlineAt =
    bindM (dg_updateMany D (\<lambda>r. sr_id r = k \<and> sr_notifiedAt r = None \<and> sr_value r = PENDING_NOTIFICATION)
      (\<lambda>_ r. r\<lparr>sr_value := newValue, sr_notifiedAt := notifiedAt, sr_deadlineAt := deadlineAt\<rparr>)) (\<lambda>_.
    bindM (dg_findUnique D (\<lambda>r. sr_id r = k)) (\<lambda>stored.
    case stored of None \<Rightarrow> throwDb INVALID_STATE | Some row \<Rightarrow> retM (state_toDomain row)))"

definition db_states_transition ::
  "'s stateTable \<Rightarrow> string \<Rightarrow> CustomerVersionStateValue \<Rightarrow> CustomerVersionStateValue \<Rightarrow> int option \<Rightarrow>
   ('s, CustomerVersionState option) db" where
  "db_states_transition D k expectedState newValue remindersSent =
    bindM (dg_updateMany D (\<lambda>r. sr_id r = k \<and> sr_value r = expectedState)
      (\<lambda>_ r. r\<lparr>sr_value := newValue, sr_remindersSent := orElse remindersSent (sr_remindersSent r)\<rparr>)) (\<lambda>count.
    if count = 0 then retM None
    else bindM (dg_findUnique D (\<lambda>r. sr_id r = k)) (\<lambda>stored. retM (map_option state_toDomain stored)))"

section \<open>Acceptances\<close>

record AcceptanceRow =
  ar_id :: string
  ar_customerId :: string
  ar_versionId :: string
  ar_method :: AcceptanceMethod
  ar_channel :: AcceptanceChannel
  ar_acceptedAt :: Date
  ar_actor :: ActorColumns
  ar_isEffective :: bool
  ar_supersededByAcceptanceId :: "string option"
  ar_consentText :: "string option"
  ar_consentTextHash :: "string option"
  ar_contentHash :: string
  ar_ipAddress :: "string option"
  ar_userAgent :: "string option"
  ar_evidenceNote :: "string option"

definition acceptance_toDomain :: "AcceptanceRow \<Rightarrow> Acceptance" where
  "acceptance_toDomain row = \<lparr>a_id = ar_id row, a_customerId = ar_customerId row, a_versionId = ar_versionId row,
     a_method = ar_method row, a_channel = ar_channel row, a_acceptedAt = ar_acceptedAt row,
     a_actor = extractActor (ar_actor row), a_isEffective = ar_isEffective row,
     a_supersededByAcceptanceId = nullToUndefined (ar_supersededByAcceptanceId row),
     a_consentText = nullToUndefined (ar_consentText row),
     a_consentTextHash = nullToUndefined (ar_consentTextHash row), a_contentHash = Some (ar_contentHash row),
     a_ipAddress = nullToUndefined (ar_ipAddress row), a_userAgent = nullToUndefined (ar_userAgent row),
     a_evidenceNote = nullToUndefined (ar_evidenceNote row)\<rparr>"

definition acceptance_createData :: "Acceptance \<Rightarrow> AcceptanceRow" where
  "acceptance_createData a = \<lparr>ar_id = a_id a, ar_customerId = a_customerId a, ar_versionId = a_versionId a,
     ar_method = a_method a, ar_channel = a_channel a, ar_acceptedAt = a_acceptedAt a,
     ar_actor = embedActor (a_actor a), ar_isEffective = a_isEffective a,
     ar_supersededByAcceptanceId = a_supersededByAcceptanceId a, ar_consentText = a_consentText a,
     ar_consentTextHash = a_consentTextHash a, ar_contentHash = orElse (a_contentHash a) [],
     ar_ipAddress = a_ipAddress a, ar_userAgent = a_userAgent a, ar_evidenceNote = a_evidenceNote a\<rparr>"

definition PARTIAL_EFFECTIVE_INDEX_NAME :: string where
  "PARTIAL_EFFECTIVE_INDEX_NAME = ''Acceptance_customerId_versionId_effective_key''"

definition includesText :: "string \<Rightarrow> string \<Rightarrow> bool" where
  "includesText part s \<longleftrightarrow> (\<exists>i \<in> set [0..<Suc (length s)]. take (length part) (drop i s) = part)"

type_synonym 's acceptanceTable = "('s, AcceptanceRow) delegate"

definition appendError :: "dbFail \<Rightarrow> dbFail" where
  "appendError err = (case err of
      PrismaError code m \<Rightarrow>
        if code = ''P2002'' then
          (let targets = uniqueConstraintTargets m in
           if (''customerId'' \<in> set targets \<and> ''versionId'' \<in> set targets)
              \<or> PARTIAL_EFFECTIVE_INDEX_NAME \<in> set targets
              \<or> list_ex (\<lambda>t. includesText ''effective'' (toLowerCase t)) targets
           then Thrown (DomainError ALREADY_ACCEPTED)
           else if ''id'' \<in> set targets \<or> ''Acceptance_pkey'' \<in> set targets
           then Thrown (DomainError INVALID_STATE)
           else err)
        else err
    | _ \<Rightarrow> err)"

definition db_acceptances_append :: "'s acceptanceTable \<Rightarrow> Acceptance \<Rightarrow> ('s, Acceptance) db" where
  "db_acceptances_append D acceptance =
    catchM (bindM (dg_create D (\<lambda>_. acceptance_createData acceptance)) (\<lambda>row. retM (acceptance_toDomain row)))
      (\<lambda>err. throwM (appendError err))"

definition db_acceptances_supersede :: "'s acceptanceTable \<Rightarrow> string \<Rightarrow> string \<Rightarrow> ('s, Acceptance) db" where
  "db_acceptances_supersede D acceptanceId byAcceptanceId =
    translating isRecordNotFoundError INVALID_STATE
      (bindM (dg_update D acceptanceId
          (\<lambda>_ r. r\<lparr>ar_isEffective := False, ar_supersededByAcceptanceId := Some byAcceptanceId\<rparr>))
        (\<lambda>row. retM (acceptance_toDomain row)))"

definition db_acceptances_findById :: "'s acceptanceTable \<Rightarrow> string \<Rightarrow> ('s, Acceptance option) db" where
  "db_acceptances_findById D k =
    bindM (dg_findUnique D (\<lambda>r. ar_id r = k)) (\<lambda>row. retM (map_option acceptance_toDomain row))"

definition db_acceptances_findEffective :: "'s acceptanceTable \<Rightarrow> string \<Rightarrow> string \<Rightarrow> ('s, Acceptance option) db" where
  "db_acceptances_findEffective D customerId versionId =
    bindM (findFirst D (\<lambda>r. ar_customerId r = customerId \<and> ar_versionId r = versionId \<and> ar_isEffective r) unordered)
      (\<lambda>row. retM (map_option acceptance_toDomain row))"

definition db_acceptances_findEffectiveByVersion :: "'s acceptanceTable \<Rightarrow> string \<Rightarrow> ('s, Acceptance list) db" where
  "db_acceptances_findEffectiveByVersion D versionId =
    bindM (dg_findMany D (\<lambda>r. ar_versionId r = versionId \<and> ar_isEffective r) unordered)
      (\<lambda>rows. retM (map acceptance_toDomain rows))"

definition db_acceptances_findByCustomer :: "'s acceptanceTable \<Rightarrow> string \<Rightarrow> ('s, Acceptance list) db" where
  "db_acceptances_findByCustomer D customerId =
    bindM (dg_findMany D (\<lambda>r. ar_customerId r = customerId) (ascBy ar_acceptedAt))
      (\<lambda>rows. retM (map acceptance_toDomain rows))"

definition db_acceptances_findAll :: "'s acceptanceTable \<Rightarrow> ('s, Acceptance list) db" where
  "db_acceptances_findAll D =
    bindM (dg_findMany D (\<lambda>_. True) (ascBy ar_acceptedAt)) (\<lambda>rows. retM (map acceptance_toDomain rows))"

section \<open>Objections\<close>

record ObjectionRow =
  or_id :: string
  or_customerId :: string
  or_versionId :: string
  or_objectedAt :: Date
  or_actor :: ActorColumns
  or_reason :: "string option"
  or_channel :: AcceptanceChannel
  or_resolution :: "ObjectionResolution option"
  or_resolvedBy :: "string option"
  or_resolvedAt :: "Date option"
  or_createdAt :: Date

definition objection_toDomain :: "ObjectionRow \<Rightarrow> Objection" where
  "objection_toDomain row = \<lparr>o_id = or_id row, o_customerId = or_customerId row, o_versionId = or_versionId row,
     o_objectedAt = or_objectedAt row, o_actor = extractActor (or_actor row),
     o_reason = nullToUndefined (or_reason row), o_channel = or_channel row,
     o_resolution = nullToUndefined (or_resolution row), o_resolvedBy = nullToUndefined (or_resolvedBy row),
     o_resolvedAt = nullToUndefined (or_resolvedAt row)\<rparr>"

definition objection_createData :: "Objection \<Rightarrow> Date \<Rightarrow> ObjectionRow" where
  "objection_createData x createdAt = \<lparr>or_id = o_id x, or_customerId = o_customerId x, or_versionId = o_versionId x,
     or_objectedAt = o_objectedAt x, or_actor = embedActor (o_actor x), or_reason = o_reason x,
     or_channel = o_channel x, or_resolution = o_resolution x, or_resolvedBy = o_resolvedBy x,
     or_resolvedAt = o_resolvedAt x, or_createdAt = createdAt\<rparr>"

type_synonym 's objectionTable = "('s, ObjectionRow) delegate"

definition db_objections_append :: "'s objectionTable \<Rightarrow> Objection \<Rightarrow> ('s, Objection) db" where
  "db_objections_append D objection =
    translating isUniqueConstraintError INVALID_STATE
      (bindM (dg_create D (objection_createData objection)) (\<lambda>row. retM (objection_toDomain row)))"

definition db_objections_findById :: "'s objectionTable \<Rightarrow> string \<Rightarrow> ('s, Objection option) db" where
  "db_objections_findById D k =
    bindM (dg_findUnique D (\<lambda>r. or_id r = k)) (\<lambda>row. retM (map_option objection_toDomain row))"

definition db_objections_findByCustomerAndVersion ::
  "'s objectionTable \<Rightarrow> string \<Rightarrow> string \<Rightarrow> ('s, Objection list) db" where
  "db_objections_findByCustomerAndVersion D customerId versionId =
    bindM (dg_findMany D (\<lambda>r. or_customerId r = customerId \<and> or_versionId r = versionId) (ascBy or_createdAt))
      (\<lambda>rows. retM (map objection_toDomain rows))"

definition db_objections_findByCustomer :: "'s objectionTable \<Rightarrow> string \<Rightarrow> ('s, Objection list) db" where
  "db_objections_findByCustomer D customerId =
    bindM (dg_findMany D (\<lambda>r. or_customerId r = customerId) (ascBy or_createdAt))
      (\<lambda>rows. retM (map objection_toDomain rows))"

definition db_objections_findAll :: "'s objectionTable \<Rightarrow> ('s, Objection list) db" where
  "db_objections_findAll D =
    bindM (dg_findMany D (\<lambda>_. True) (ascBy or_createdAt)) (\<lambda>rows. retM (map objection_toDomain rows))"

definition db_objections_resolve ::
  "'s objectionTable \<Rightarrow> string \<Rightarrow> ObjectionResolution \<Rightarrow> string \<Rightarrow> Date \<Rightarrow> ('s, Objection) db" where
  "db_objections_resolve D k resolution resolvedBy resolvedAt =
    translating isRecordNotFoundError INVALID_STATE
      (bindM (dg_update D k (\<lambda>_ r. r\<lparr>or_resolution := Some resolution, or_resolvedBy := Some resolvedBy,
                                  or_resolvedAt := Some resolvedAt\<rparr>))
        (\<lambda>row. retM (objection_toDomain row)))"

section \<open>Idempotency records\<close>

record IdempotencyRow =
  ir_key :: string
  ir_value :: meta

definition PENDING_MARKER :: meta where
  "PENDING_MARKER = MObj [(''__idempotencyPending'', MBool True)]"

definition isPendingMarker :: "meta \<Rightarrow> bool" where
  "isPendingMarker value \<longleftrightarrow> propOf ''__idempotencyPending'' (Some value) = Some (MBool True)"

type_synonym 's idempotencyTable = "('s, IdempotencyRow) delegate"

definition db_idempotency_get :: "'s idempotencyTable \<Rightarrow> string \<Rightarrow> ('s, meta option) db" where
  "db_idempotency_get D k =
    bindM (dg_findUnique D (\<lambda>r. ir_key r = k)) (\<lambda>row. retM (case row of
        None \<Rightarrow> None
      | Some r \<Rightarrow> if isPendingMarker (ir_value r) then None else Some (ir_value r)))"

definition db_idempotency_put :: "'s idempotencyTable \<Rightarrow> string \<Rightarrow> meta \<Rightarrow> ('s, unit) db" where
  "db_idempotency_put D k value =
    bindM (dg_upsert D k (\<lambda>_. \<lparr>ir_key = k, ir_value = value\<rparr>) (\<lambda>_ r. r\<lparr>ir_value := value\<rparr>)) (\<lambda>_. retM ())"

definition db_idempotency_reserve :: "'s idempotencyTable \<Rightarrow> string \<Rightarrow> ('s, bool) db" where
  "db_idempotency_reserve D k =
    catchM (bindM (dg_create D (\<lambda>_. \<lparr>ir_key = k, ir_value = PENDING_MARKER\<rparr>)) (\<lambda>_. retM True))
      (\<lambda>err. if isUniqueConstraintError err then retM False else throwM err)"

definition db_idempotency_release :: "'s idempotencyTable \<Rightarrow> string \<Rightarrow> ('s, unit) db" where
  "db_idempotency_release D k =
    bindM (dg_deleteMany D (\<lambda>r. ir_key r = k \<and> ir_value r = PENDING_MARKER)) (\<lambda>_. retM ())"

end
