(* ===== verification/Db_Catalog.thy ===== *)
theory Db_Catalog
  imports Db_Repos
begin

text \<open>
  The other repositories of \<open>src/src/persistence/prisma\<close>: the catalogue, the customers, the links, the logs,
  the mails and the signed documents.
\<close>

section \<open>Documents\<close>

definition document_toDomain :: "AgreementDocument \<Rightarrow> AgreementDocument" where
  "document_toDomain row = \<lparr>d_id = d_id row, d_type = d_type row, d_audience = d_audience row, d_name = d_name row\<rparr>"

definition document_upsertData :: "AgreementDocument \<Rightarrow> AgreementDocument \<Rightarrow> AgreementDocument" where
  "document_upsertData d row = row\<lparr>d_type := d_type d, d_audience := d_audience d, d_name := d_name d\<rparr>"

type_synonym 's documentTable = "('s, AgreementDocument) delegate"

definition db_documents_save :: "'s documentTable \<Rightarrow> AgreementDocument \<Rightarrow> ('s, AgreementDocument) db" where
  "db_documents_save D d =
    translating isUniqueConstraintError INVALID_STATE
      (bindM (dg_upsert D (d_id d)
          (\<lambda>_. document_upsertData d \<lparr>d_id = d_id d, d_type = [], d_audience = [], d_name = []\<rparr>)
          (\<lambda>_. document_upsertData d))
        (\<lambda>row. retM (document_toDomain row)))"

definition db_documents_findById :: "'s documentTable \<Rightarrow> string \<Rightarrow> ('s, AgreementDocument option) db" where
  "db_documents_findById D k =
    bindM (dg_findUnique D (\<lambda>r. d_id r = k)) (\<lambda>row. retM (map_option document_toDomain row))"

definition db_documents_findByTypeAndAudience ::
  "'s documentTable \<Rightarrow> string \<Rightarrow> string \<Rightarrow> ('s, AgreementDocument option) db" where
  "db_documents_findByTypeAndAudience D typeKey audienceKey =
    bindM (dg_findUnique D (\<lambda>r. d_type r = typeKey \<and> d_audience r = audienceKey))
      (\<lambda>row. retM (map_option document_toDomain row))"

definition db_documents_findAll :: "'s documentTable \<Rightarrow> ('s, AgreementDocument list) db" where
  "db_documents_findAll D =
    bindM (dg_findMany D (\<lambda>_. True) unordered) (\<lambda>rows. retM (map document_toDomain rows))"

section \<open>Versions\<close>

definition version_toDomain :: "AgreementVersion \<Rightarrow> AgreementVersion" where
  "version_toDomain row = \<lparr>v_id = v_id row, v_documentId = v_documentId row, v_versionLabel = v_versionLabel row,
     v_status = v_status row, v_acceptanceMode = v_acceptanceMode row,
     v_objectionPeriodDays = nullToUndefined (v_objectionPeriodDays row),
     v_objectionConsequence = nullToUndefined (v_objectionConsequence row),
     v_gracePeriodDays = nullToUndefined (v_gracePeriodDays row),
     v_hardDeadlineAt = nullToUndefined (v_hardDeadlineAt row), v_changeSummary = v_changeSummary row,
     v_consentText = nullToUndefined (v_consentText row), v_storageKey = v_storageKey row,
     v_fileName = v_fileName row, v_contentHash = v_contentHash row, v_fileSize = v_fileSize row,
     v_validFrom = v_validFrom row, v_publishedAt = nullToUndefined (v_publishedAt row),
     v_publishedBy = nullToUndefined (v_publishedBy row)\<rparr>"

definition version_upsertData :: "AgreementVersion \<Rightarrow> AgreementVersion" where
  "version_upsertData v = \<lparr>v_id = v_id v, v_documentId = v_documentId v, v_versionLabel = v_versionLabel v,
     v_status = v_status v, v_acceptanceMode = v_acceptanceMode v, v_objectionPeriodDays = v_objectionPeriodDays v,
     v_objectionConsequence = v_objectionConsequence v, v_gracePeriodDays = v_gracePeriodDays v,
     v_hardDeadlineAt = v_hardDeadlineAt v, v_changeSummary = v_changeSummary v, v_consentText = v_consentText v,
     v_storageKey = v_storageKey v, v_fileName = v_fileName v, v_contentHash = v_contentHash v,
     v_fileSize = v_fileSize v, v_validFrom = v_validFrom v, v_publishedAt = v_publishedAt v,
     v_publishedBy = v_publishedBy v\<rparr>"

type_synonym 's versionTable = "('s, AgreementVersion) delegate"

definition db_versions_save :: "'s versionTable \<Rightarrow> AgreementVersion \<Rightarrow> ('s, AgreementVersion) db" where
  "db_versions_save D v =
    translating isForeignKeyConstraintError INVALID_STATE
      (bindM (dg_upsert D (v_id v) (\<lambda>_. version_upsertData v) (\<lambda>_ _. version_upsertData v))
        (\<lambda>row. retM (version_toDomain row)))"

definition db_versions_findById :: "'s versionTable \<Rightarrow> string \<Rightarrow> ('s, AgreementVersion option) db" where
  "db_versions_findById D k =
    bindM (dg_findUnique D (\<lambda>r. v_id r = k)) (\<lambda>row. retM (map_option version_toDomain row))"

definition db_versions_findByDocument :: "'s versionTable \<Rightarrow> string \<Rightarrow> ('s, AgreementVersion list) db" where
  "db_versions_findByDocument D documentId =
    bindM (dg_findMany D (\<lambda>r. v_documentId r = documentId) unordered) (\<lambda>rows. retM (map version_toDomain rows))"

text \<open>\<open>publishedAt: \{ sort: 'desc', nulls: 'last' \}\<close> after \<open>validFrom\<close> in either direction.\<close>

definition newerFirst :: "Date option \<Rightarrow> Date option \<Rightarrow> bool" where
  "newerFirst x y = (case (x, y) of (_, None) \<Rightarrow> True | (None, Some _) \<Rightarrow> False | (Some a, Some b) \<Rightarrow> a \<ge> b)"

definition currentFirst :: "AgreementVersion \<Rightarrow> AgreementVersion \<Rightarrow> bool" where
  "currentFirst x y \<longleftrightarrow> v_validFrom x > v_validFrom y
     \<or> v_validFrom x = v_validFrom y \<and> newerFirst (v_publishedAt x) (v_publishedAt y)"

definition upcomingFirst :: "AgreementVersion \<Rightarrow> AgreementVersion \<Rightarrow> bool" where
  "upcomingFirst x y \<longleftrightarrow> v_validFrom x < v_validFrom y
     \<or> v_validFrom x = v_validFrom y \<and> newerFirst (v_publishedAt x) (v_publishedAt y)"

definition db_versions_findCurrentPublished ::
  "'s documentTable \<Rightarrow> 's versionTable \<Rightarrow> string \<Rightarrow> string \<Rightarrow> Date \<Rightarrow> ('s, AgreementVersion option) db" where
  "db_versions_findCurrentPublished Docs D typeKey audienceKey now =
    bindM (dg_findUnique Docs (\<lambda>r. d_type r = typeKey \<and> d_audience r = audienceKey)) (\<lambda>document.
    case document of
      None \<Rightarrow> retM None
    | Some d \<Rightarrow>
        bindM (findFirst D (\<lambda>r. v_documentId r = d_id d \<and> v_status r = PUBLISHED \<and> v_validFrom r \<le> now) currentFirst)
          (\<lambda>row. retM (map_option version_toDomain row)))"

definition db_versions_findUpcomingPublishedList ::
  "'s documentTable \<Rightarrow> 's versionTable \<Rightarrow> string \<Rightarrow> string \<Rightarrow> Date \<Rightarrow> ('s, AgreementVersion list) db" where
  "db_versions_findUpcomingPublishedList Docs D typeKey audienceKey now =
    bindM (dg_findUnique Docs (\<lambda>r. d_type r = typeKey \<and> d_audience r = audienceKey)) (\<lambda>document.
    case document of
      None \<Rightarrow> retM []
    | Some d \<Rightarrow>
        bindM (dg_findMany D (\<lambda>r. v_documentId r = d_id d \<and> v_status r = PUBLISHED \<and> v_validFrom r > now) upcomingFirst)
          (\<lambda>rows. retM (map version_toDomain rows)))"

definition db_versions_delete :: "'s versionTable \<Rightarrow> string \<Rightarrow> ('s, unit) db" where
  "db_versions_delete D k =
    bindM (dg_findUnique D (\<lambda>r. v_id r = k)) (\<lambda>version.
    case version of
      None \<Rightarrow> throwDb VERSION_NOT_FOUND
    | Some v \<Rightarrow>
        if v_status v \<noteq> DRAFT then throwDb VERSION_IMMUTABLE
        else bindM (dg_delete D (\<lambda>r. v_id r = k)) (\<lambda>_. retM ()))"

section \<open>Customers\<close>

definition customer_toDomain :: "Customer \<Rightarrow> Customer" where
  "customer_toDomain row = \<lparr>c_id = c_id row, c_externalRef = c_externalRef row, c_firstName = c_firstName row,
     c_lastName = c_lastName row, c_companyName = nullToUndefined (c_companyName row), c_roles = c_roles row,
     c_contactEmails = c_contactEmails row, c_source = nullToUndefined (c_source row),
     c_deletedAt = nullToUndefined (c_deletedAt row)\<rparr>"

definition customer_upsertData :: "Customer \<Rightarrow> Customer \<Rightarrow> Customer" where
  "customer_upsertData c row = row\<lparr>c_externalRef := c_externalRef c, c_firstName := c_firstName c,
     c_lastName := c_lastName c, c_companyName := c_companyName c, c_roles := c_roles c,
     c_contactEmails := c_contactEmails c, c_source := c_source c, c_deletedAt := c_deletedAt c\<rparr>"

definition customerDefaults :: "string \<Rightarrow> Customer" where
  "customerDefaults k = \<lparr>c_id = k, c_externalRef = [], c_firstName = [], c_lastName = [], c_companyName = None,
     c_roles = [], c_contactEmails = [], c_source = None, c_deletedAt = None\<rparr>"

type_synonym 's customerTable = "('s, Customer) delegate"

definition db_customers_save :: "'s customerTable \<Rightarrow> Customer \<Rightarrow> ('s, Customer) db" where
  "db_customers_save D c =
    bindM (dg_upsert D (c_id c) (\<lambda>_. customer_upsertData c (customerDefaults (c_id c))) (\<lambda>_. customer_upsertData c))
      (\<lambda>row. retM (customer_toDomain row))"

definition db_customers_findById :: "'s customerTable \<Rightarrow> string \<Rightarrow> ('s, Customer option) db" where
  "db_customers_findById D k =
    bindM (dg_findUnique D (\<lambda>r. c_id r = k)) (\<lambda>row. retM (map_option customer_toDomain row))"

definition db_customers_findAllByExternalRef :: "'s customerTable \<Rightarrow> string \<Rightarrow> ('s, Customer list) db" where
  "db_customers_findAllByExternalRef D externalRef =
    bindM (dg_findMany D (\<lambda>r. c_externalRef r = externalRef) unordered) (\<lambda>rows. retM (map customer_toDomain rows))"

definition db_customers_findByRole :: "'s customerTable \<Rightarrow> string \<Rightarrow> ('s, Customer list) db" where
  "db_customers_findByRole D audienceKey =
    bindM (dg_findMany D (\<lambda>r. audienceKey \<in> set (c_roles r)) unordered) (\<lambda>rows. retM (map customer_toDomain rows))"

definition db_customers_findAll :: "'s customerTable \<Rightarrow> ('s, Customer list) db" where
  "db_customers_findAll D =
    bindM (dg_findMany D (\<lambda>_. True) unordered) (\<lambda>rows. retM (map customer_toDomain rows))"

definition db_customers_softDelete :: "'s customerTable \<Rightarrow> string \<Rightarrow> Date \<Rightarrow> ('s, unit) db" where
  "db_customers_softDelete D k at =
    bindM (dg_updateMany D (\<lambda>r. c_id r = k) (\<lambda>_ r. r\<lparr>c_deletedAt := Some at\<rparr>)) (\<lambda>_. retM ())"

section \<open>Acceptance links\<close>

definition link_toDomain :: "AcceptanceLink \<Rightarrow> AcceptanceLink" where
  "link_toDomain row = \<lparr>al_id = al_id row, al_tokenHash = al_tokenHash row, al_customerId = al_customerId row,
     al_kind = al_kind row, al_audienceKey = nullToUndefined (al_audienceKey row), al_createdBy = al_createdBy row,
     al_createdAt = al_createdAt row, al_expiresAt = nullToUndefined (al_expiresAt row),
     al_revokedAt = nullToUndefined (al_revokedAt row), al_lastUsedAt = nullToUndefined (al_lastUsedAt row)\<rparr>"

definition link_createData :: "AcceptanceLink \<Rightarrow> AcceptanceLink" where
  "link_createData l = \<lparr>al_id = al_id l, al_tokenHash = al_tokenHash l, al_customerId = al_customerId l,
     al_kind = al_kind l, al_audienceKey = al_audienceKey l, al_createdBy = al_createdBy l,
     al_createdAt = al_createdAt l, al_expiresAt = al_expiresAt l, al_revokedAt = al_revokedAt l,
     al_lastUsedAt = al_lastUsedAt l\<rparr>"

type_synonym 's linkTable = "('s, AcceptanceLink) delegate"

definition db_links_create :: "'s linkTable \<Rightarrow> AcceptanceLink \<Rightarrow> ('s, AcceptanceLink) db" where
  "db_links_create D link =
    translating isUniqueConstraintError INVALID_STATE
      (bindM (dg_create D (\<lambda>_. link_createData link)) (\<lambda>row. retM (link_toDomain row)))"

definition db_links_findByTokenHash :: "'s linkTable \<Rightarrow> string \<Rightarrow> ('s, AcceptanceLink option) db" where
  "db_links_findByTokenHash D tokenHash =
    bindM (dg_findUnique D (\<lambda>r. al_tokenHash r = tokenHash)) (\<lambda>row. retM (map_option link_toDomain row))"

definition db_links_touch :: "'s linkTable \<Rightarrow> string \<Rightarrow> Date \<Rightarrow> ('s, unit) db" where
  "db_links_touch D k lastUsedAt =
    bindM (dg_updateMany D (\<lambda>r. al_id r = k) (\<lambda>_ r. r\<lparr>al_lastUsedAt := Some lastUsedAt\<rparr>)) (\<lambda>_. retM ())"

definition db_links_revoke :: "'s linkTable \<Rightarrow> string \<Rightarrow> Date \<Rightarrow> ('s, AcceptanceLink option) db" where
  "db_links_revoke D k revokedAt =
    bindM (dg_updateMany D (\<lambda>r. al_id r = k \<and> al_revokedAt r = None) (\<lambda>_ r. r\<lparr>al_revokedAt := Some revokedAt\<rparr>)) (\<lambda>_.
    bindM (dg_findUnique D (\<lambda>r. al_id r = k)) (\<lambda>row. retM (map_option link_toDomain row)))"

definition db_links_listByCustomer :: "'s linkTable \<Rightarrow> string \<Rightarrow> ('s, AcceptanceLink list) db" where
  "db_links_listByCustomer D customerId =
    bindM (dg_findMany D (\<lambda>r. al_customerId r = customerId) (ascBy al_createdAt)) (\<lambda>rows. retM (map link_toDomain rows))"

end
