(* ===== verification/Db_Logs.thy ===== *)
theory Db_Logs
  imports Db_Catalog
begin

text \<open>
  The rest of the repositories of \<open>src/src/persistence/prisma\<close>: audiences, document types and templates,
  whose deletion asks other tables whether they are in use, and the logs.
\<close>

section \<open>Audiences\<close>

definition audience_toDomain :: "Audience \<Rightarrow> Audience" where
  "audience_toDomain row = \<lparr>au_id = au_id row, au_key = au_key row, au_name = au_name row\<rparr>"

definition audience_upsertData :: "Audience \<Rightarrow> Audience \<Rightarrow> Audience" where
  "audience_upsertData a row = row\<lparr>au_key := au_key a, au_name := au_name a\<rparr>"

type_synonym 's audienceTable = "('s, Audience) delegate"

definition db_audiences_save :: "'s audienceTable \<Rightarrow> Audience \<Rightarrow> ('s, Audience) db" where
  "db_audiences_save D a =
    thenM (liftDb (assertValidEntityKey (au_key a)))
    (translating isUniqueConstraintError INVALID_STATE
      (bindM (dg_upsert D (au_id a) (\<lambda>_. audience_upsertData a \<lparr>au_id = au_id a, au_key = [], au_name = []\<rparr>)
          (\<lambda>_. audience_upsertData a))
        (\<lambda>row. retM (audience_toDomain row))))"

definition db_audiences_findByKey :: "'s audienceTable \<Rightarrow> string \<Rightarrow> ('s, Audience option) db" where
  "db_audiences_findByKey D key =
    bindM (dg_findUnique D (\<lambda>r. au_key r = key)) (\<lambda>row. retM (map_option audience_toDomain row))"

definition db_audiences_findAll :: "'s audienceTable \<Rightarrow> ('s, Audience list) db" where
  "db_audiences_findAll D =
    bindM (dg_findMany D (\<lambda>_. True) unordered) (\<lambda>rows. retM (map audience_toDomain rows))"

definition db_audiences_deleteIfUnused ::
  "'s audienceTable \<Rightarrow> 's documentTable \<Rightarrow> 's customerTable \<Rightarrow> string \<Rightarrow> ('s, bool) db" where
  "db_audiences_deleteIfUnused D Docs Customers key =
    bindM (dg_findUnique D (\<lambda>r. au_key r = key)) (\<lambda>existing.
    case existing of
      None \<Rightarrow> retM False
    | Some _ \<Rightarrow>
        bindM (dg_count Docs (\<lambda>r. d_audience r = key)) (\<lambda>referencingDocuments.
        if referencingDocuments > 0 then retM False
        else bindM (dg_count Customers (\<lambda>r. key \<in> set (c_roles r))) (\<lambda>referencingCustomers.
        if referencingCustomers > 0 then retM False
        else bindM (dg_delete D (\<lambda>r. au_key r = key)) (\<lambda>_. retM True))))"

section \<open>Document types\<close>

record TypeRow =
  tr_id :: string
  tr_key :: string
  tr_name :: string
  tr_external :: bool
  tr_notificationTemplateId :: "string option"
  tr_reminderTemplateId :: "string option"
  tr_acceptanceConfirmationTemplateId :: "string option"

definition type_toDomain :: "TypeRow \<Rightarrow> DocumentTypeDef" where
  "type_toDomain row = \<lparr>dt_id = tr_id row, dt_key = tr_key row, dt_name = tr_name row,
     dt_notificationTemplateId = nullToUndefined (tr_notificationTemplateId row),
     dt_reminderTemplateId = nullToUndefined (tr_reminderTemplateId row),
     dt_acceptanceConfirmationTemplateId = nullToUndefined (tr_acceptanceConfirmationTemplateId row),
     dt_external = Some (tr_external row)\<rparr>"

definition type_upsertData :: "DocumentTypeDef \<Rightarrow> TypeRow \<Rightarrow> TypeRow" where
  "type_upsertData t row = row\<lparr>tr_key := dt_key t, tr_name := dt_name t,
     tr_external := orElse (dt_external t) False, tr_notificationTemplateId := dt_notificationTemplateId t,
     tr_reminderTemplateId := dt_reminderTemplateId t,
     tr_acceptanceConfirmationTemplateId := dt_acceptanceConfirmationTemplateId t\<rparr>"

definition typeDefaults :: "string \<Rightarrow> TypeRow" where
  "typeDefaults k = \<lparr>tr_id = k, tr_key = [], tr_name = [], tr_external = False, tr_notificationTemplateId = None,
     tr_reminderTemplateId = None, tr_acceptanceConfirmationTemplateId = None\<rparr>"

type_synonym 's typeTable = "('s, TypeRow) delegate"

definition db_documentTypes_save :: "'s typeTable \<Rightarrow> DocumentTypeDef \<Rightarrow> ('s, DocumentTypeDef) db" where
  "db_documentTypes_save D t =
    thenM (liftDb (assertValidEntityKey (dt_key t)))
    (translating isUniqueConstraintError INVALID_STATE
      (bindM (dg_upsert D (dt_id t) (\<lambda>_. type_upsertData t (typeDefaults (dt_id t))) (\<lambda>_. type_upsertData t))
        (\<lambda>row. retM (type_toDomain row))))"

definition db_documentTypes_findByKey :: "'s typeTable \<Rightarrow> string \<Rightarrow> ('s, DocumentTypeDef option) db" where
  "db_documentTypes_findByKey D key =
    bindM (dg_findUnique D (\<lambda>r. tr_key r = key)) (\<lambda>row. retM (map_option type_toDomain row))"

definition db_documentTypes_findAll :: "'s typeTable \<Rightarrow> ('s, DocumentTypeDef list) db" where
  "db_documentTypes_findAll D =
    bindM (dg_findMany D (\<lambda>_. True) unordered) (\<lambda>rows. retM (map type_toDomain rows))"

definition db_documentTypes_deleteIfUnused :: "'s typeTable \<Rightarrow> 's documentTable \<Rightarrow> string \<Rightarrow> ('s, bool) db" where
  "db_documentTypes_deleteIfUnused D Docs key =
    bindM (dg_findUnique D (\<lambda>r. tr_key r = key)) (\<lambda>existing.
    case existing of
      None \<Rightarrow> retM False
    | Some _ \<Rightarrow>
        bindM (dg_count Docs (\<lambda>r. d_type r = key)) (\<lambda>referencingDocuments.
        if referencingDocuments > 0 then retM False
        else bindM (dg_delete D (\<lambda>r. tr_key r = key)) (\<lambda>_. retM True)))"

section \<open>E-mail templates\<close>

definition template_toDomain :: "EmailTemplate \<Rightarrow> EmailTemplate" where
  "template_toDomain row = \<lparr>et_id = et_id row, et_name = et_name row, et_kind = et_kind row,
     et_subject = et_subject row, et_design = et_design row, et_html = et_html row,
     et_createdAt = et_createdAt row, et_updatedAt = et_updatedAt row\<rparr>"

text \<open>The database sets \<open>createdAt\<close> at the insert and \<open>updatedAt\<close> at every write.\<close>

definition template_upsertData :: "EmailTemplate \<Rightarrow> Date \<Rightarrow> EmailTemplate \<Rightarrow> EmailTemplate" where
  "template_upsertData t now row = row\<lparr>et_name := et_name t, et_kind := et_kind t, et_subject := et_subject t,
     et_design := et_design t, et_html := et_html t, et_updatedAt := now\<rparr>"

definition templateDefaults :: "string \<Rightarrow> Date \<Rightarrow> EmailTemplate" where
  "templateDefaults k now = \<lparr>et_id = k, et_name = [], et_kind = VERSION_NOTIFICATION, et_subject = [],
     et_design = [], et_html = [], et_createdAt = now, et_updatedAt = now\<rparr>"

type_synonym 's templateTable = "('s, EmailTemplate) delegate"

definition db_templates_save :: "'s templateTable \<Rightarrow> EmailTemplate \<Rightarrow> ('s, EmailTemplate) db" where
  "db_templates_save D t =
    bindM (dg_upsert D (et_id t) (\<lambda>now. template_upsertData t now (templateDefaults (et_id t) now)) (template_upsertData t))
      (\<lambda>row. retM (template_toDomain row))"

definition db_templates_findById :: "'s templateTable \<Rightarrow> string \<Rightarrow> ('s, EmailTemplate option) db" where
  "db_templates_findById D k =
    bindM (dg_findUnique D (\<lambda>r. et_id r = k)) (\<lambda>row. retM (map_option template_toDomain row))"

definition db_templates_findAll :: "'s templateTable \<Rightarrow> ('s, EmailTemplate list) db" where
  "db_templates_findAll D =
    bindM (dg_findMany D (\<lambda>_. True) unordered) (\<lambda>rows. retM (map template_toDomain rows))"

definition db_templates_deleteIfUnused :: "'s templateTable \<Rightarrow> 's typeTable \<Rightarrow> string \<Rightarrow> ('s, bool) db" where
  "db_templates_deleteIfUnused D Types k =
    bindM (dg_findUnique D (\<lambda>r. et_id r = k)) (\<lambda>existing.
    case existing of
      None \<Rightarrow> retM False
    | Some _ \<Rightarrow>
        bindM (dg_count Types (\<lambda>r. tr_notificationTemplateId r = Some k \<or> tr_reminderTemplateId r = Some k))
          (\<lambda>assigned.
        if assigned > 0 then retM False
        else bindM (dg_delete D (\<lambda>r. et_id r = k)) (\<lambda>_. retM True)))"

section \<open>Delivery evidence\<close>

record NotificationRow =
  nr_id :: string
  nr_customerVersionStateId :: string
  nr_channel :: NotificationChannel
  nr_recipient :: string
  nr_occurredAt :: Date
  nr_providerRef :: "string option"
  nr_createdAt :: Date

definition notification_toDomain :: "NotificationRow \<Rightarrow> NotificationEvent" where
  "notification_toDomain row = \<lparr>ne_id = nr_id row, ne_customerVersionStateId = nr_customerVersionStateId row,
     ne_channel = nr_channel row, ne_recipient = nr_recipient row, ne_occurredAt = nr_occurredAt row,
     ne_providerRef = nullToUndefined (nr_providerRef row)\<rparr>"

definition notification_createData :: "NotificationEvent \<Rightarrow> Date \<Rightarrow> NotificationRow" where
  "notification_createData e createdAt = \<lparr>nr_id = ne_id e, nr_customerVersionStateId = ne_customerVersionStateId e,
     nr_channel = ne_channel e, nr_recipient = ne_recipient e, nr_occurredAt = ne_occurredAt e,
     nr_providerRef = ne_providerRef e, nr_createdAt = createdAt\<rparr>"

type_synonym 's notificationTable = "('s, NotificationRow) delegate"

definition db_notifications_append :: "'s notificationTable \<Rightarrow> NotificationEvent \<Rightarrow> ('s, NotificationEvent) db" where
  "db_notifications_append D e =
    translating isUniqueConstraintError INVALID_STATE
      (bindM (dg_create D (notification_createData e)) (\<lambda>row. retM (notification_toDomain row)))"

definition db_notifications_findByState :: "'s notificationTable \<Rightarrow> string \<Rightarrow> ('s, NotificationEvent list) db" where
  "db_notifications_findByState D stateId =
    bindM (dg_findMany D (\<lambda>r. nr_customerVersionStateId r = stateId) (ascBy nr_createdAt))
      (\<lambda>rows. retM (map notification_toDomain rows))"

definition db_notifications_findByProviderRef :: "'s notificationTable \<Rightarrow> string \<Rightarrow> ('s, NotificationEvent option) db" where
  "db_notifications_findByProviderRef D ref =
    bindM (findFirst D (\<lambda>r. nr_providerRef r = Some ref) unordered)
      (\<lambda>row. retM (map_option notification_toDomain row))"

definition db_notifications_findAll :: "'s notificationTable \<Rightarrow> ('s, NotificationEvent list) db" where
  "db_notifications_findAll D =
    bindM (dg_findMany D (\<lambda>_. True) (ascBy nr_createdAt)) (\<lambda>rows. retM (map notification_toDomain rows))"

section \<open>Signed documents\<close>

definition signed_toDomain :: "SignedDocument \<Rightarrow> SignedDocument" where
  "signed_toDomain row = \<lparr>sd_id = sd_id row, sd_customerId = sd_customerId row,
     sd_documentTypeKey = sd_documentTypeKey row, sd_audience = nullToUndefined (sd_audience row),
     sd_fileName = sd_fileName row, sd_storageKey = sd_storageKey row, sd_contentHash = sd_contentHash row,
     sd_fileSize = sd_fileSize row, sd_signedAt = sd_signedAt row, sd_signerName = nullToUndefined (sd_signerName row),
     sd_reference = nullToUndefined (sd_reference row), sd_note = nullToUndefined (sd_note row),
     sd_uploadedBy = sd_uploadedBy row, sd_uploadedAt = sd_uploadedAt row\<rparr>"

definition signed_createData :: "SignedDocument \<Rightarrow> SignedDocument" where
  "signed_createData d = \<lparr>sd_id = sd_id d, sd_customerId = sd_customerId d,
     sd_documentTypeKey = sd_documentTypeKey d, sd_audience = sd_audience d,
     sd_fileName = sd_fileName d, sd_storageKey = sd_storageKey d, sd_contentHash = sd_contentHash d,
     sd_fileSize = sd_fileSize d, sd_signedAt = sd_signedAt d, sd_signerName = sd_signerName d,
     sd_reference = sd_reference d, sd_note = sd_note d,
     sd_uploadedBy = sd_uploadedBy d, sd_uploadedAt = sd_uploadedAt d\<rparr>"

type_synonym 's signedTable = "('s, SignedDocument) delegate"

definition db_signed_append :: "'s signedTable \<Rightarrow> SignedDocument \<Rightarrow> ('s, SignedDocument) db" where
  "db_signed_append D d = bindM (dg_create D (\<lambda>_. signed_createData d)) (\<lambda>row. retM (signed_toDomain row))"

definition db_signed_findById :: "'s signedTable \<Rightarrow> string \<Rightarrow> ('s, SignedDocument option) db" where
  "db_signed_findById D k =
    bindM (dg_findUnique D (\<lambda>r. sd_id r = k)) (\<lambda>row. retM (map_option signed_toDomain row))"

text \<open>Texts are ordered by the collation of the database, a key function.\<close>

definition db_signed_findByCustomer ::
  "(string \<Rightarrow> int) \<Rightarrow> 's signedTable \<Rightarrow> string \<Rightarrow> ('s, SignedDocument list) db" where
  "db_signed_findByCustomer collation D customerId =
    bindM (dg_findMany D (\<lambda>r. sd_customerId r = customerId)
        (\<lambda>x y. sd_uploadedAt x > sd_uploadedAt y
           \<or> sd_uploadedAt x = sd_uploadedAt y \<and> collation (sd_id x) \<ge> collation (sd_id y)))
      (\<lambda>rows. retM (map signed_toDomain rows))"

section \<open>The activity log\<close>

definition event_toDomain :: "DomainEvent \<Rightarrow> DomainEvent" where
  "event_toDomain row = row\<lparr>ev_customerId := nullToUndefined (ev_customerId row),
     ev_customerName := nullToUndefined (ev_customerName row), ev_versionId := nullToUndefined (ev_versionId row),
     ev_documentType := nullToUndefined (ev_documentType row), ev_audience := nullToUndefined (ev_audience row),
     ev_versionLabel := nullToUndefined (ev_versionLabel row), ev_channel := nullToUndefined (ev_channel row),
     ev_recipient := nullToUndefined (ev_recipient row), ev_metadata := nullToUndefined (ev_metadata row)\<rparr>"

text \<open>\<open>metadata\<close> absent is \<open>Prisma.JsonNull\<close>, which is read as \<open>null\<close>.\<close>

definition event_createData :: "DomainEvent \<Rightarrow> DomainEvent" where
  "event_createData e = \<lparr>ev_id = ev_id e, ev_type = ev_type e, ev_category = ev_category e, ev_occurredAt = ev_occurredAt e
    , ev_actorKind = ev_actorKind e, ev_actorLabel = ev_actorLabel e, ev_customerId = ev_customerId e, ev_customerName = ev_customerName e
    , ev_versionId = ev_versionId e, ev_documentType = ev_documentType e, ev_audience = ev_audience e, ev_versionLabel = ev_versionLabel e
    , ev_channel = ev_channel e, ev_recipient = ev_recipient e, ev_summary = ev_summary e, ev_metadata = ev_metadata e\<rparr>"

type_synonym 's eventTable = "('s, DomainEvent) delegate"

definition db_events_append :: "'s eventTable \<Rightarrow> DomainEvent \<Rightarrow> ('s, DomainEvent) db" where
  "db_events_append D e =
    translating isUniqueConstraintError INVALID_STATE
      (bindM (dg_create D (\<lambda>_. event_createData e)) (\<lambda>row. retM (event_toDomain row)))"

definition toWhere :: "EventQueryFilters \<Rightarrow> DomainEvent \<Rightarrow> bool" where
  "toWhere filters row \<longleftrightarrow>
     (q_customerId filters \<noteq> None \<longrightarrow> ev_customerId row = q_customerId filters)
     \<and> (q_category filters \<noteq> None \<longrightarrow> Some (ev_category row) = q_category filters)
     \<and> (q_documentType filters \<noteq> None \<longrightarrow> ev_documentType row = q_documentType filters)
     \<and> (q_versionId filters \<noteq> None \<longrightarrow> ev_versionId row = q_versionId filters)
     \<and> (case q_from filters of None \<Rightarrow> True | Some t \<Rightarrow> ev_occurredAt row \<ge> t)
     \<and> (case q_to filters of None \<Rightarrow> True | Some t \<Rightarrow> ev_occurredAt row \<le> t)"

text \<open>\<open>skip\<close> and \<open>take\<close>: a part of the ordered rows.\<close>

definition db_events_query ::
  "(string \<Rightarrow> int) \<Rightarrow> 's eventTable \<Rightarrow> EventQueryFilters \<Rightarrow> int option \<Rightarrow> ('s, DomainEvent list \<times> nat) db" where
  "db_events_query collation D filters page =
    (let p = (case page of None \<Rightarrow> 1 | Some n \<Rightarrow> if n > 0 then n else 1) in
     bindM (dg_findMany D (toWhere filters)
        (\<lambda>x y. ev_occurredAt x > ev_occurredAt y
           \<or> ev_occurredAt x = ev_occurredAt y \<and> collation (ev_id x) \<le> collation (ev_id y))) (\<lambda>rows.
     bindM (dg_count D (toWhere filters)) (\<lambda>total.
     retM (map event_toDomain (take (nat EVENTS_PAGE_SIZE) (drop (nat ((p - 1) * EVENTS_PAGE_SIZE)) rows)), total))))"

section \<open>The audit log and the escalations\<close>

definition audit_toDomain :: "AdminAuditLog \<Rightarrow> AdminAuditLog" where
  "audit_toDomain row = \<lparr>aud_id = aud_id row, aud_action = aud_action row, aud_actor = aud_actor row,
     aud_targetType = aud_targetType row, aud_targetId = aud_targetId row,
     aud_reason = nullToUndefined (aud_reason row), aud_metadata = nullToUndefined (aud_metadata row),
     aud_createdAt = aud_createdAt row\<rparr>"

definition audit_createData :: "AdminAuditLog \<Rightarrow> AdminAuditLog" where
  "audit_createData l = \<lparr>aud_id = aud_id l, aud_action = aud_action l, aud_actor = aud_actor l,
     aud_targetType = aud_targetType l, aud_targetId = aud_targetId l,
     aud_reason = aud_reason l, aud_metadata = aud_metadata l, aud_createdAt = aud_createdAt l\<rparr>"

type_synonym 's auditTable = "('s, AdminAuditLog) delegate"

definition db_audit_append :: "'s auditTable \<Rightarrow> AdminAuditLog \<Rightarrow> ('s, AdminAuditLog) db" where
  "db_audit_append D l =
    translating isUniqueConstraintError INVALID_STATE
      (bindM (dg_create D (\<lambda>_. audit_createData l)) (\<lambda>row. retM (audit_toDomain row)))"

definition db_audit_findAll :: "'s auditTable \<Rightarrow> ('s, AdminAuditLog list) db" where
  "db_audit_findAll D =
    bindM (dg_findMany D (\<lambda>_. True) (ascBy aud_createdAt)) (\<lambda>rows. retM (map audit_toDomain rows))"

definition db_audit_findByTarget :: "'s auditTable \<Rightarrow> string \<Rightarrow> string \<Rightarrow> ('s, AdminAuditLog list) db" where
  "db_audit_findByTarget D targetType targetId =
    bindM (dg_findMany D (\<lambda>r. aud_targetType r = targetType \<and> aud_targetId r = targetId) (ascBy aud_createdAt))
      (\<lambda>rows. retM (map audit_toDomain rows))"

record EscalationRow =
  er_id :: string
  er_kind :: EscalationKind
  er_customerId :: "string option"
  er_versionId :: "string option"
  er_occurredAt :: Date
  er_actorUserId :: "string option"
  er_actorName :: "string option"
  er_actorEmail :: "string option"
  er_actorPortalRole :: "string option"
  er_reason :: "string option"
  er_note :: "string option"
  er_recipient :: "string option"
  er_inactivatedEmail :: "bool option"
  er_createdAt :: Date

definition escalation_toDomain :: "EscalationRow \<Rightarrow> EscalationEntry" where
  "escalation_toDomain row = \<lparr>esc_id = er_id row, esc_kind = er_kind row,
     esc_customerId = nullToUndefined (er_customerId row), esc_versionId = nullToUndefined (er_versionId row),
     esc_occurredAt = er_occurredAt row,
     esc_actor = (case er_actorUserId row of
         None \<Rightarrow> None
       | Some userId \<Rightarrow> Some (extractActor \<lparr>ac_actorUserId = userId, ac_actorName = er_actorName row,
           ac_actorEmail = er_actorEmail row, ac_actorPortalRole = er_actorPortalRole row\<rparr>)),
     esc_reason = nullToUndefined (er_reason row), esc_note = nullToUndefined (er_note row),
     esc_recipient = nullToUndefined (er_recipient row),
     esc_inactivatedEmail = nullToUndefined (er_inactivatedEmail row)\<rparr>"

definition escalation_createData :: "EscalationEntry \<Rightarrow> Date \<Rightarrow> EscalationRow" where
  "escalation_createData e createdAt = \<lparr>er_id = esc_id e, er_kind = esc_kind e, er_customerId = esc_customerId e,
     er_versionId = esc_versionId e, er_occurredAt = esc_occurredAt e,
     er_actorUserId = map_option act_userId (esc_actor e),
     er_actorName = Option.bind (esc_actor e) act_name, er_actorEmail = Option.bind (esc_actor e) act_email,
     er_actorPortalRole = Option.bind (esc_actor e) act_portalRole, er_reason = esc_reason e, er_note = esc_note e,
     er_recipient = esc_recipient e, er_inactivatedEmail = esc_inactivatedEmail e, er_createdAt = createdAt\<rparr>"

type_synonym 's escalationTable = "('s, EscalationRow) delegate"

definition db_escalations_record :: "'s escalationTable \<Rightarrow> EscalationEntry \<Rightarrow> ('s, EscalationEntry) db" where
  "db_escalations_record D e =
    translating isUniqueConstraintError INVALID_STATE
      (bindM (dg_create D (escalation_createData e)) (\<lambda>row. retM (escalation_toDomain row)))"

definition db_escalations_findByCustomer :: "'s escalationTable \<Rightarrow> string \<Rightarrow> ('s, EscalationEntry list) db" where
  "db_escalations_findByCustomer D customerId =
    bindM (dg_findMany D (\<lambda>r. er_customerId r = Some customerId) (ascBy er_createdAt))
      (\<lambda>rows. retM (map escalation_toDomain rows))"

definition db_escalations_findAll :: "'s escalationTable \<Rightarrow> ('s, EscalationEntry list) db" where
  "db_escalations_findAll D =
    bindM (dg_findMany D (\<lambda>_. True) (ascBy er_createdAt)) (\<lambda>rows. retM (map escalation_toDomain rows))"

section \<open>Outbound e-mails\<close>

record OutboundRow =
  obr_messageId :: string
  obr_customerId :: string
  obr_versionId :: string
  obr_recipient :: string
  obr_sentAt :: Date
  obr_deliveredAt :: "Date option"

definition outbound_toDomain :: "OutboundRow \<Rightarrow> OutboundEmail" where
  "outbound_toDomain row = \<lparr>oe_providerRef = obr_messageId row, oe_customerId = obr_customerId row,
     oe_versionId = obr_versionId row, oe_recipient = obr_recipient row, oe_sentAt = obr_sentAt row,
     oe_deliveredAt = nullToUndefined (obr_deliveredAt row)\<rparr>"

definition outbound_upsertData :: "OutboundEmail \<Rightarrow> OutboundRow \<Rightarrow> OutboundRow" where
  "outbound_upsertData e row = row\<lparr>obr_customerId := oe_customerId e, obr_versionId := oe_versionId e,
     obr_recipient := oe_recipient e, obr_sentAt := oe_sentAt e, obr_deliveredAt := oe_deliveredAt e\<rparr>"

definition outboundDefaults :: "string \<Rightarrow> OutboundRow" where
  "outboundDefaults k = \<lparr>obr_messageId = k, obr_customerId = [], obr_versionId = [], obr_recipient = [],
     obr_sentAt = 0, obr_deliveredAt = None\<rparr>"

type_synonym 's outboundTable = "('s, OutboundRow) delegate"

definition db_outbound_save :: "'s outboundTable \<Rightarrow> OutboundEmail \<Rightarrow> ('s, OutboundEmail) db" where
  "db_outbound_save D e =
    bindM (dg_upsert D (oe_providerRef e) (\<lambda>_. outbound_upsertData e (outboundDefaults (oe_providerRef e)))
        (\<lambda>_. outbound_upsertData e))
      (\<lambda>row. retM (outbound_toDomain row))"

definition db_outbound_findByProviderRef :: "'s outboundTable \<Rightarrow> string \<Rightarrow> ('s, OutboundEmail option) db" where
  "db_outbound_findByProviderRef D ref =
    bindM (dg_findUnique D (\<lambda>r. obr_messageId r = ref)) (\<lambda>row. retM (map_option outbound_toDomain row))"

definition db_outbound_markDelivered :: "'s outboundTable \<Rightarrow> string \<Rightarrow> Date \<Rightarrow> ('s, OutboundEmail option) db" where
  "db_outbound_markDelivered D ref deliveredAt =
    thenM (dg_updateMany D (\<lambda>r. obr_messageId r = ref \<and> obr_deliveredAt r = None)
        (\<lambda>_ r. r\<lparr>obr_deliveredAt := Some deliveredAt\<rparr>))
      (db_outbound_findByProviderRef D ref)"

definition db_outbound_findPendingOlderThan :: "'s outboundTable \<Rightarrow> Date \<Rightarrow> ('s, OutboundEmail list) db" where
  "db_outbound_findPendingOlderThan D olderThan =
    bindM (dg_findMany D (\<lambda>r. obr_deliveredAt r = None \<and> obr_sentAt r < olderThan) (ascBy obr_sentAt))
      (\<lambda>rows. retM (map outbound_toDomain rows))"

end
