(* ===== verification/Db_Facts.thy ===== *)
theory Db_Facts
  imports Db_Logs Consent_Inv
begin

text \<open>
  The repositories on the database do what the repositories in memory do.  \<open>simulates\<close> is the contract: on
  related states the outcomes are related, an error of the one is the error of the other, and the states are related
  again.  What the database asks for in addition is written as the relation before.
\<close>

section \<open>Simulation\<close>

definition sameOutcome :: "('a \<Rightarrow> 'b \<Rightarrow> bool) \<Rightarrow> failure + 'a \<Rightarrow> dbFail + 'b \<Rightarrow> bool" where
  "sameOutcome Q x y = (case (x, y) of
      (Inr a, Inr b) \<Rightarrow> Q a b
    | (Inl e, Inl e') \<Rightarrow> e' = Thrown e
    | _ \<Rightarrow> False)"

definition simulates ::
  "('w \<Rightarrow> 's \<Rightarrow> bool) \<Rightarrow> ('w \<Rightarrow> 's \<Rightarrow> bool) \<Rightarrow> ('a \<Rightarrow> 'b \<Rightarrow> bool) \<Rightarrow> ('s, 'b) db \<Rightarrow> ('w, failure, 'a) act \<Rightarrow> bool" where
  "simulates R R' Q d m \<longleftrightarrow> (\<forall>w s. R w s \<longrightarrow>
     sameOutcome Q (fst (m w)) (fst (d s)) \<and> R' (snd (m w)) (snd (d s)))"

text \<open>The rows of a table are the values of a repository in memory, as a round trip through a row leaves them.\<close>

definition mirrors :: "('r \<Rightarrow> 'd) \<Rightarrow> ('d \<Rightarrow> 'd) \<Rightarrow> ('s, 'r) schema \<Rightarrow> 'd table \<Rightarrow> 's \<Rightarrow> bool" where
  "mirrors toDomain norm T t s \<longleftrightarrow> (\<forall>k. map_option toDomain (sc_rows T s k) = map_option norm (map_of t k))"

lemma mirrors_None: "mirrors toD norm T t s \<Longrightarrow> sc_rows T s k = None \<longleftrightarrow> map_of t k = None"
  by (metis mirrors_def option.map_disc_iff)

lemma mirrors_Some:
  assumes "mirrors toD norm T t s"
  shows "map_of t k = Some x \<Longrightarrow> \<exists>r. sc_rows T s k = Some r \<and> toD r = norm x"
    and "sc_rows T s k = Some r \<Longrightarrow> \<exists>x. map_of t k = Some x \<and> toD r = norm x"
  using assms unfolding mirrors_def by (metis option.map(2) option.map_disc_iff not_Some_eq option.inject)+

lemma mirrors_update:
  assumes "mirrors toD norm T t s" "sc_rows T s' = (sc_rows T s)(k \<mapsto> r)" "toD r = norm x"
  shows "mirrors toD norm T (AList.update k x t) s'"
  using assms by (simp add: mirrors_def map_of_update)

lemma mirrors_rows: "mirrors toD norm T t s \<Longrightarrow> sc_rows T s' = sc_rows T s \<Longrightarrow> mirrors toD norm T t s'"
  by (simp add: mirrors_def)

section \<open>What the client does\<close>

lemma serves_keys: "serves T D \<Longrightarrow> sc_rows T s k = Some r \<Longrightarrow> sc_key T r = k"
  unfolding serves_def keyed_def by blast

lemma serves_finite: "serves T D \<Longrightarrow> finite (dom (sc_rows T s))"
  unfolding serves_def keyed_def by blast

lemma serves_unique: "serves T D \<Longrightarrow> \<exists>x. dg_findUnique D P s = (Inr x, s)
          \<and> (case x of None \<Rightarrow> matching T s P = {} | Some r \<Rightarrow> r \<in> matching T s P)"
  unfolding serves_def servesUnique_def by blast

lemma serves_many: "serves T D \<Longrightarrow> orderOk le \<Longrightarrow> \<exists>rs. dg_findMany D P le s = (Inr rs, s)
          \<and> distinct rs \<and> set rs = matching T s P \<and> sorted_wrt le rs"
  unfolding serves_def servesMany_def by blast

lemma serves_count: "serves T D \<Longrightarrow> dg_count D P s = (Inr (card (matching T s P)), s)"
  unfolding serves_def servesCount_def by blast

lemma serves_create: "serves T D \<Longrightarrow> (\<And>at at'. sc_key T (data at) = sc_key T (data at')) \<Longrightarrow>
          \<exists>at. written T s None (data at) (dg_create D data s)"
  unfolding serves_def servesCreate_def by blast

lemma serves_upsert: "serves T D \<Longrightarrow> (\<And>at. sc_key T (data at) = k) \<Longrightarrow> (\<And>at r. sc_key T (f at r) = sc_key T r) \<Longrightarrow>
          \<exists>at. case sc_rows T s k of
             None \<Rightarrow> written T s None (data at) (dg_upsert D k data f s)
           | Some r \<Rightarrow> written T s (Some k) (f at r) (dg_upsert D k data f s)"
  unfolding serves_def servesUpsert_def by blast

lemma serves_update: "serves T D \<Longrightarrow> (\<And>at r. sc_key T (f at r) = sc_key T r) \<Longrightarrow>
          \<exists>at. case sc_rows T s k of
             None \<Rightarrow> notFound T s (dg_update D k f s)
           | Some r \<Rightarrow> written T s (Some k) (f at r) (dg_update D k f s)"
  unfolding serves_def servesUpdate_def by blast

lemma serves_updateMany: "serves T D \<Longrightarrow> plainChange T f \<Longrightarrow>
          \<exists>at s'. dg_updateMany D P f s = (Inr (card (matching T s P)), s')
             \<and> sc_rows T s' = (\<lambda>k. map_option (\<lambda>r. if P r then f at r else r) (sc_rows T s k))"
  unfolding serves_def servesUpdateMany_def by blast

lemma serves_delete: "serves T D \<Longrightarrow> case dg_delete D P s of
          (Inr r, s') \<Rightarrow> r \<in> matching T s P \<and> \<not> sc_used T s r \<and> sc_rows T s' = (sc_rows T s)(sc_key T r := None)
        | (Inl e, s') \<Rightarrow> sc_rows T s' = sc_rows T s
            \<and> ((\<exists>m. e = PrismaError ''P2025'' m) \<and> matching T s P = {}
               \<or> (\<exists>m. e = PrismaError ''P2003'' m) \<and> (\<exists>r \<in> matching T s P. sc_used T s r))"
proof -
  assume "serves T D"
  then have "servesDelete T D" by (simp add: serves_def)
  from this[unfolded servesDelete_def, THEN spec[of _ P], THEN spec[of _ s]] show ?thesis .
qed

lemma serves_deleteMany: "serves T D \<Longrightarrow> (\<And>r. r \<in> matching T s P \<Longrightarrow> \<not> sc_used T s r) \<Longrightarrow>
          \<exists>s'. dg_deleteMany D P s = (Inr (card (matching T s P)), s')
             \<and> sc_rows T s' = (\<lambda>k. case sc_rows T s k of None \<Rightarrow> None | Some r \<Rightarrow> if P r then None else Some r)"
  unfolding serves_def servesDeleteMany_def by blast

text \<open>A query for the primary key.\<close>

lemma matching_key:
  assumes "serves T D" "\<And>r. P r \<Longrightarrow> sc_key T r = k"
  shows "matching T s P = (case sc_rows T s k of None \<Rightarrow> {} | Some r \<Rightarrow> if P r then {r} else {})"
  using assms(2) serves_keys[OF assms(1), of s k] by (auto simp: matching_def split: option.splits)

lemma findUnique_key:
  assumes "serves T D" "\<And>r. P r \<longleftrightarrow> sc_key T r = k"
  shows "dg_findUnique D P s = (Inr (sc_rows T s k), s)"
proof -
  from serves_unique[OF assms(1), of P s] obtain x where x: "dg_findUnique D P s = (Inr x, s)"
    "case x of None \<Rightarrow> matching T s P = {} | Some r \<Rightarrow> r \<in> matching T s P" by blast
  have "matching T s P = (case sc_rows T s k of None \<Rightarrow> {} | Some r \<Rightarrow> {r})"
  proof -
    have "matching T s P = (case sc_rows T s k of None \<Rightarrow> {} | Some r \<Rightarrow> if P r then {r} else {})"
      by (rule matching_key[OF assms(1)]) (simp add: assms(2))
    then show ?thesis using serves_keys[OF assms(1), of s k] assms(2) by (simp split: option.split)
  qed
  with x(2) have "x = sc_rows T s k" by (auto split: option.splits)
  with x(1) show ?thesis by simp
qed

text \<open>A conditional update of the row under a key.\<close>

lemma updateMany_key:
  assumes "serves T D" "\<And>r. P r \<longleftrightarrow> sc_key T r = k \<and> C r" "plainChange T f"
  shows "\<exists>at s'. dg_updateMany D P f s = (Inr (case sc_rows T s k of None \<Rightarrow> 0 | Some r \<Rightarrow> if C r then 1 else 0), s')
     \<and> sc_rows T s' = (case sc_rows T s k of
         None \<Rightarrow> sc_rows T s | Some r \<Rightarrow> if C r then (sc_rows T s)(k \<mapsto> f at r) else sc_rows T s)"
proof -
  from serves_updateMany[OF assms(1,3), of P s] obtain at s' where u:
      "dg_updateMany D P f s = (Inr (card (matching T s P)), s')"
      "sc_rows T s' = (\<lambda>k. map_option (\<lambda>r. if P r then f at r else r) (sc_rows T s k))" by blast
  have m: "matching T s P = (case sc_rows T s k of None \<Rightarrow> {} | Some r \<Rightarrow> if P r then {r} else {})"
    by (rule matching_key[OF assms(1)]) (simp add: assms(2))
  have key: "sc_key T r = k'" if "sc_rows T s k' = Some r" for k' r by (rule serves_keys[OF assms(1) that])
  have "sc_rows T s' = (case sc_rows T s k of
         None \<Rightarrow> sc_rows T s | Some r \<Rightarrow> if C r then (sc_rows T s)(k \<mapsto> f at r) else sc_rows T s)"
  proof
    fix j show "sc_rows T s' j = (case sc_rows T s k of
         None \<Rightarrow> sc_rows T s | Some r \<Rightarrow> if C r then (sc_rows T s)(k \<mapsto> f at r) else sc_rows T s) j"
      unfolding u(2) using key[of k] key[of j] assms(2) by (cases "sc_rows T s j") (auto split: option.split)
  qed
  moreover have "card (matching T s P) = (case sc_rows T s k of None \<Rightarrow> 0 | Some r \<Rightarrow> if C r then 1 else 0)"
    unfolding m using key[of k] assms(2) by (auto split: option.split)
  ultimately show ?thesis using u(1) by auto
qed

lemma written_free:
  assumes "written T s own r (out, s')" "violated T s own r = {}" "sc_refs T s r"
  shows "out = Inr r \<and> sc_rows T s' = (sc_rows T s)(sc_key T r \<mapsto> r)"
  using assms by (cases out) (auto simp: written_def)

lemma simulatesI:
  assumes "\<And>w s x w' y s'. R w s \<Longrightarrow> m w = (x, w') \<Longrightarrow> d s = (y, s') \<Longrightarrow> sameOutcome Q x y \<and> R' w' s'"
  shows "simulates R R' Q d m"
  using assms unfolding simulates_def by (metis prod.collapse)

section \<open>Rollout states\<close>

definition stateUnique :: "StateRow uniqueness list" where
  "stateUnique =
     [\<lparr>uq_fields = [''id''], uq_name = ''CustomerVersionState_pkey'', uq_value = (\<lambda>r. Some [sr_id r])\<rparr>,
      \<lparr>uq_fields = [''customerId'', ''versionId''], uq_name = ''CustomerVersionState_customerId_versionId_key'',
       uq_value = (\<lambda>r. Some [sr_customerId r, sr_versionId r])\<rparr>]"

text \<open>\<open>carryOverBlocking\<close> has a default in the database.\<close>

definition stateNorm :: "CustomerVersionState \<Rightarrow> CustomerVersionState" where
  "stateNorm s = s\<lparr>cvs_carryOverBlocking := Some (orElse (cvs_carryOverBlocking s) False)\<rparr>"

definition servesStates :: "('s, StateRow) schema \<Rightarrow> ('s, StateRow) delegate \<Rightarrow> bool" where
  "servesStates T D \<longleftrightarrow> serves T D \<and> sc_key T = sr_id \<and> sc_unique T = stateUnique"

definition statesMirror :: "('s, StateRow) schema \<Rightarrow> world \<Rightarrow> 's \<Rightarrow> bool" where
  "statesMirror T w s \<longleftrightarrow> wf_table cvs_id (w_states w) \<and> mirrors state_toDomain stateNorm T (w_states w) s"

text \<open>No other row has the pair of customer and version, and the foreign keys hold.\<close>

definition pairFree :: "('s, StateRow) schema \<Rightarrow> CustomerVersionState \<Rightarrow> world \<Rightarrow> 's \<Rightarrow> bool" where
  "pairFree T x w s \<longleftrightarrow> (\<forall>y \<in> set (tvals (w_states w)). cvs_customerId y = cvs_customerId x
       \<and> cvs_versionId y = cvs_versionId x \<longrightarrow> cvs_id y = cvs_id x)
     \<and> (\<forall>r. sr_customerId r = cvs_customerId x \<and> sr_versionId r = cvs_versionId x \<longrightarrow> sc_refs T s r)"

lemma state_roundtrip:
  "state_toDomain (state_upsertData x row) = stateNorm (x\<lparr>cvs_id := sr_id row\<rparr>)"
  "sr_id (state_upsertData x row) = sr_id row" "sr_customerId (state_upsertData x row) = cvs_customerId x"
  "sr_versionId (state_upsertData x row) = cvs_versionId x"
  by (simp_all add: state_toDomain_def state_upsertData_def stateNorm_def nullToUndefined_def)

lemma state_fields:
  assumes "state_toDomain r = stateNorm y"
  shows "sr_id r = cvs_id y" "sr_customerId r = cvs_customerId y" "sr_versionId r = cvs_versionId y"
    "sr_value r = cvs_state y" "sr_notifiedAt r = cvs_notifiedAt y" "sr_deadlineAt r = cvs_deadlineAt y"
    "sr_notificationDueAt r = cvs_notificationDueAt y" "sr_remindersSent r = cvs_remindersSent y"
  using assms by (cases y, simp add: state_toDomain_def stateNorm_def nullToUndefined_def)+

lemma states_rows:
  assumes "servesStates T D" "statesMirror T w s"
  shows "sc_rows T s k = Some r \<Longrightarrow> \<exists>y. map_of (w_states w) k = Some y \<and> state_toDomain r = stateNorm y \<and> sr_id r = k \<and> cvs_id y = k"
    and "map_of (w_states w) k = Some y \<Longrightarrow> \<exists>r. sc_rows T s k = Some r \<and> state_toDomain r = stateNorm y \<and> sr_id r = k \<and> cvs_id y = k"
    and "sc_rows T s k = None \<longleftrightarrow> map_of (w_states w) k = None"
proof -
  have m: "mirrors state_toDomain stateNorm T (w_states w) s" and wf: "wf_table cvs_id (w_states w)"
    using assms(2) by (simp_all add: statesMirror_def)
  show "\<exists>y. map_of (w_states w) k = Some y \<and> state_toDomain r = stateNorm y \<and> sr_id r = k \<and> cvs_id y = k"
    if "sc_rows T s k = Some r"
    using mirrors_Some(2)[OF m that] wf_table_key[OF wf, of k] state_fields(1)[of r] by force
  show "\<exists>r. sc_rows T s k = Some r \<and> state_toDomain r = stateNorm y \<and> sr_id r = k \<and> cvs_id y = k"
    if "map_of (w_states w) k = Some y"
    using mirrors_Some(1)[OF m that] wf_table_key[OF wf that] state_fields(1)[of _ y] by force
  show "sc_rows T s k = None \<longleftrightarrow> map_of (w_states w) k = None" by (rule mirrors_None[OF m])
qed

text \<open>A row is written under its id: the repository in memory has it too.\<close>

lemma statesMirror_put:
  assumes "statesMirror T w s" "sc_rows T s' = (sc_rows T s)(k \<mapsto> r)" "state_toDomain r = stateNorm x" "cvs_id x = k"
  shows "statesMirror T (w\<lparr>w_states := AList.update k x (w_states w)\<rparr>) s'"
  using assms mirrors_update[where toD = state_toDomain and norm = stateNorm, OF _ assms(2) assms(3)]
  by (auto simp: statesMirror_def wf_table_update)

lemma states_violated:
  assumes "servesStates T D" "statesMirror T w s" "sr_id r = cvs_id x"
    "sr_customerId r = cvs_customerId x" "sr_versionId r = cvs_versionId x"
    "own = (if map_of (w_states w) (cvs_id x) = None then None else Some (cvs_id x))"
  shows "violated T s own r \<noteq> {} \<longleftrightarrow> (\<exists>y \<in> set (tvals (w_states w)).
     cvs_customerId y = cvs_customerId x \<and> cvs_versionId y = cvs_versionId x \<and> cvs_id y \<noteq> cvs_id x)"
proof -
  have T: "sc_unique T = stateUnique" and wf: "wf_table cvs_id (w_states w)"
    using assms(1,2) by (simp_all add: servesStates_def statesMirror_def)
  note rows = states_rows[OF assms(1,2)]
  have pk: "\<not> (sc_rows T s k = Some z \<and> own \<noteq> Some k \<and> sr_id z = sr_id r)" for k z
    using rows(1)[of k z] assms(3,6) by auto
  have pair: "(\<exists>k z. sc_rows T s k = Some z \<and> own \<noteq> Some k \<and> sr_customerId z = sr_customerId r \<and> sr_versionId z = sr_versionId r)
      \<longleftrightarrow> (\<exists>y \<in> set (tvals (w_states w)).
     cvs_customerId y = cvs_customerId x \<and> cvs_versionId y = cvs_versionId x \<and> cvs_id y \<noteq> cvs_id x)" (is "?L \<longleftrightarrow> ?R")
  proof
    assume ?L
    then obtain k z where z: "sc_rows T s k = Some z" "own \<noteq> Some k" "sr_customerId z = sr_customerId r"
      "sr_versionId z = sr_versionId r" by blast
    from rows(1)[OF z(1)] obtain y where y: "map_of (w_states w) k = Some y" "state_toDomain z = stateNorm y" "cvs_id y = k"
      by blast
    have "k \<noteq> cvs_id x" using y(1) z(2) assms(6) by auto
    with y z(3,4) state_fields(2,3)[OF y(2)] assms(4,5) tvals_lookup[OF wf y(1)] show ?R by auto
  next
    assume ?R
    then obtain y where y: "y \<in> set (tvals (w_states w))" "cvs_customerId y = cvs_customerId x"
      "cvs_versionId y = cvs_versionId x" "cvs_id y \<noteq> cvs_id x" by blast
    from y(1) have "map_of (w_states w) (cvs_id y) = Some y" by (simp add: tvals_map_of[OF wf])
    from rows(2)[OF this] obtain z where z: "sc_rows T s (cvs_id y) = Some z" "state_toDomain z = stateNorm y" by blast
    from z state_fields(2,3)[OF z(2)] y assms(4,5,6) show ?L by (intro exI[of _ "cvs_id y"] exI[of _ z]) auto
  qed
  have "violated T s own r \<noteq> {} \<longleftrightarrow> (\<exists>u \<in> set stateUnique. uq_value u r \<noteq> None
       \<and> (\<exists>k z. sc_rows T s k = Some z \<and> own \<noteq> Some k \<and> uq_value u z = uq_value u r))"
    unfolding violated_def T by blast
  also have "\<dots> \<longleftrightarrow> (\<exists>k z. sc_rows T s k = Some z \<and> own \<noteq> Some k \<and> sr_customerId z = sr_customerId r \<and> sr_versionId z = sr_versionId r)"
    unfolding stateUnique_def using pk by (simp add: ex_disj_distrib) blast
  finally show ?thesis unfolding pair .
qed

lemma states_written:
  assumes "servesStates T D" "statesMirror T w s"
  obtains r own where "written T s own r (dg_upsert D (cvs_id x) (\<lambda>_. state_upsertData x (stateDefaults (cvs_id x))) (\<lambda>_. state_upsertData x) s)"
    "own = (if map_of (w_states w) (cvs_id x) = None then None else Some (cvs_id x))"
    "state_toDomain r = stateNorm x" "sr_id r = cvs_id x" "sr_customerId r = cvs_customerId x" "sr_versionId r = cvs_versionId x"
proof -
  have S: "serves T D" and T: "sc_key T = sr_id" using assms(1) by (simp_all add: servesStates_def)
  have d: "sc_key T (state_upsertData x (stateDefaults (cvs_id x))) = cvs_id x"
    by (simp add: T state_roundtrip stateDefaults_def)
  have f: "sc_key T (state_upsertData x r) = sc_key T r" for r by (simp add: T state_roundtrip)
  from serves_upsert[OF S, of "\<lambda>_. state_upsertData x (stateDefaults (cvs_id x))" "cvs_id x" "\<lambda>_. state_upsertData x" s, OF d f]
  have out: "case sc_rows T s (cvs_id x) of
      None \<Rightarrow> written T s None (state_upsertData x (stateDefaults (cvs_id x))) (dg_upsert D (cvs_id x) (\<lambda>_. state_upsertData x (stateDefaults (cvs_id x))) (\<lambda>_. state_upsertData x) s)
    | Some r \<Rightarrow> written T s (Some (cvs_id x)) (state_upsertData x r) (dg_upsert D (cvs_id x) (\<lambda>_. state_upsertData x (stateDefaults (cvs_id x))) (\<lambda>_. state_upsertData x) s)"
    by blast
  show ?thesis
  proof (cases "sc_rows T s (cvs_id x)")
    case None
    with out show ?thesis using states_rows(3)[OF assms, of "cvs_id x"]
      by (intro that[OF _ refl, of "state_upsertData x (stateDefaults (cvs_id x))"]) (simp_all add: state_roundtrip stateDefaults_def)
  next
    case (Some r)
    from states_rows(1)[OF assms Some] obtain y where "sr_id r = cvs_id x" "map_of (w_states w) (cvs_id x) = Some y" by auto
    with out Some show ?thesis
      by (intro that[OF _ refl, of "state_upsertData x r"]) (simp_all add: state_roundtrip)
  qed
qed

text \<open>The save, when the pair is free, and when another row has it.\<close>

lemma db_states_save_free:
  assumes T: "servesStates T D"
  shows "simulates (\<lambda>w s. statesMirror T w s \<and> pairFree T x w s) (statesMirror T) (\<lambda>a b. b = stateNorm a)
    (db_states_save D x) (states_save x)"
proof (rule simulatesI)
  fix w s a w' b s'
  assume R: "statesMirror T w s \<and> pairFree T x w s" and m: "states_save x w = (a, w')" and d: "db_states_save D x s = (b, s')"
  obtain r own where w: "written T s own r (dg_upsert D (cvs_id x) (\<lambda>_. state_upsertData x (stateDefaults (cvs_id x))) (\<lambda>_. state_upsertData x) s)"
    "own = (if map_of (w_states w) (cvs_id x) = None then None else Some (cvs_id x))"
    "state_toDomain r = stateNorm x" "sr_id r = cvs_id x" "sr_customerId r = cvs_customerId x" "sr_versionId r = cvs_versionId x"
    using states_written[OF T, of w s x] R by blast
  have "violated T s own r = {}"
    using states_violated[OF T conjunct1[OF R] w(4,5,6,2)] R unfolding pairFree_def by blast
  moreover have "sc_refs T s r" using R w(5,6) by (simp add: pairFree_def)
  moreover obtain out s1 where u: "dg_upsert D (cvs_id x) (\<lambda>_. state_upsertData x (stateDefaults (cvs_id x))) (\<lambda>_. state_upsertData x) s = (out, s1)"
    by (cases "dg_upsert D (cvs_id x) (\<lambda>_. state_upsertData x (stateDefaults (cvs_id x))) (\<lambda>_. state_upsertData x) s") auto
  ultimately have "out = Inr r" "sc_rows T s1 = (sc_rows T s)(sc_key T r \<mapsto> r)"
    using written_free[OF w(1)[unfolded u]] by auto
  moreover have "sc_key T r = cvs_id x" using T w(4) by (simp add: servesStates_def)
  ultimately have "b = Inr (stateNorm x)" "sc_rows T s' = (sc_rows T s)(cvs_id x \<mapsto> r)"
    using d u w(3) by (auto simp: db_states_save_def bindM_def retM_def)
  moreover have "a = Inr x" "w' = w\<lparr>w_states := AList.update (cvs_id x) x (w_states w)\<rparr>"
    using m by (auto simp: states_save_def states_put_def action_defs)
  ultimately show "sameOutcome (\<lambda>a b. b = stateNorm a) a b \<and> statesMirror T w' s'"
    using statesMirror_put[OF conjunct1[OF R] _ w(3) refl] by (simp add: sameOutcome_def)
qed

lemma db_states_save_taken:
  assumes T: "servesStates T D" and R: "statesMirror T w s"
    and y: "y \<in> set (tvals (w_states w))" "cvs_customerId y = cvs_customerId x" "cvs_versionId y = cvs_versionId x" "cvs_id y \<noteq> cvs_id x"
  shows "\<exists>m c s'. db_states_save D x s = (Inl (PrismaError c m), s') \<and> c \<in> {''P2002'', ''P2003''} \<and> statesMirror T w s'"
proof -
  obtain r own where w: "written T s own r (dg_upsert D (cvs_id x) (\<lambda>_. state_upsertData x (stateDefaults (cvs_id x))) (\<lambda>_. state_upsertData x) s)"
    "own = (if map_of (w_states w) (cvs_id x) = None then None else Some (cvs_id x))"
    "state_toDomain r = stateNorm x" "sr_id r = cvs_id x" "sr_customerId r = cvs_customerId x" "sr_versionId r = cvs_versionId x"
    using states_written[OF T R, of x] by blast
  have v: "violated T s own r \<noteq> {}" using states_violated[OF T R w(4,5,6,2)] y by blast
  obtain out s1 where u: "dg_upsert D (cvs_id x) (\<lambda>_. state_upsertData x (stateDefaults (cvs_id x))) (\<lambda>_. state_upsertData x) s = (out, s1)"
    by (cases "dg_upsert D (cvs_id x) (\<lambda>_. state_upsertData x (stateDefaults (cvs_id x))) (\<lambda>_. state_upsertData x) s") auto
  from w(1)[unfolded u] v obtain e where e: "out = Inl e" "sc_rows T s1 = sc_rows T s"
    "(\<exists>m. e = PrismaError ''P2002'' m) \<or> (\<exists>m. e = PrismaError ''P2003'' m)"
    by (cases out) (auto simp: written_def)
  from e(2) R have "statesMirror T w s1" by (simp add: statesMirror_def mirrors_def)
  with e u show ?thesis by (auto simp: db_states_save_def bindM_def)
qed

text \<open>The conditional updates.\<close>

lemma states_updateMany:
  assumes T: "servesStates T D" and R: "statesMirror T w s"
    and P: "\<And>r. P r \<longleftrightarrow> sr_id r = k \<and> C r"
    and f: "\<And>r. sr_id (f r) = sr_id r \<and> sr_customerId (f r) = sr_customerId r \<and> sr_versionId (f r) = sr_versionId r"
    and g: "\<And>r y. state_toDomain r = stateNorm y \<Longrightarrow> C r = C' y \<and> state_toDomain (f r) = stateNorm (g y) \<and> cvs_id (g y) = cvs_id y"
  shows "\<exists>s'. dg_updateMany D P (\<lambda>_. f) s = (Inr (case map_of (w_states w) k of None \<Rightarrow> 0 | Some y \<Rightarrow> if C' y then 1 else 0), s')
    \<and> statesMirror T (case map_of (w_states w) k of None \<Rightarrow> w
        | Some y \<Rightarrow> if C' y then w\<lparr>w_states := AList.update k (g y) (w_states w)\<rparr> else w) s'"
proof -
  have S: "serves T D" and key: "sc_key T = sr_id" and uq: "sc_unique T = stateUnique"
    using T by (simp_all add: servesStates_def)
  have plain: "plainChange T (\<lambda>_. f)" using f by (simp add: plainChange_def key uq stateUnique_def)
  from updateMany_key[OF S _ plain, of P k C s] P key obtain s' where u:
     "dg_updateMany D P (\<lambda>_. f) s = (Inr (case sc_rows T s k of None \<Rightarrow> 0 | Some r \<Rightarrow> if C r then 1 else 0), s')"
     "sc_rows T s' = (case sc_rows T s k of
         None \<Rightarrow> sc_rows T s | Some r \<Rightarrow> if C r then (sc_rows T s)(k \<mapsto> f r) else sc_rows T s)" by auto
  show ?thesis
  proof (cases "map_of (w_states w) k")
    case None
    with states_rows(3)[OF T R, of k] u R show ?thesis by (auto simp: statesMirror_def mirrors_def)
  next
    case (Some y)
    from states_rows(2)[OF T R Some] obtain r where r: "sc_rows T s k = Some r" "state_toDomain r = stateNorm y" "cvs_id y = k"
      by blast
    note gr = g[OF r(2)]
    show ?thesis
    proof (cases "C' y")
      case True
      with u r gr have "sc_rows T s' = (sc_rows T s)(k \<mapsto> f r)" by simp
      from statesMirror_put[OF R this, of "g y"] gr r(3) True u(1) r(1) Some show ?thesis by simp
    next
      case False
      with u r gr have "sc_rows T s' = sc_rows T s" by simp
      with False u(1) r gr R Some show ?thesis by (simp add: statesMirror_def mirrors_def)
    qed
  qed
qed

lemma states_findRow:
  assumes T: "servesStates T D" and R: "statesMirror T w s"
  shows "\<exists>row. dg_findUnique D (\<lambda>r. sr_id r = k) s = (Inr row, s)
    \<and> map_option state_toDomain row = map_option stateNorm (map_of (w_states w) k)"
  using findUnique_key[of T D "\<lambda>r. sr_id r = k" k s] T R by (simp add: servesStates_def statesMirror_def mirrors_def)

lemma db_states_transition_simulates:
  assumes T: "servesStates T D"
  shows "simulates (statesMirror T) (statesMirror T) (\<lambda>a b. b = map_option stateNorm a)
    (db_states_transition D k expectedState newValue rem) (states_transition k expectedState newValue rem)"
proof (rule simulatesI)
  fix w s a w' b s'
  assume R: "statesMirror T w s" and m: "states_transition k expectedState newValue rem w = (a, w')"
    and d: "db_states_transition D k expectedState newValue rem s = (b, s')"
  define g where "g = (\<lambda>y :: CustomerVersionState. y\<lparr>cvs_state := newValue, cvs_remindersSent := orElse rem (cvs_remindersSent y)\<rparr>)"
  have "\<exists>s1. dg_updateMany D (\<lambda>r. sr_id r = k \<and> sr_value r = expectedState)
      (\<lambda>_ r. r\<lparr>sr_value := newValue, sr_remindersSent := orElse rem (sr_remindersSent r)\<rparr>) s
      = (Inr (case map_of (w_states w) k of None \<Rightarrow> 0 | Some y \<Rightarrow> if cvs_state y = expectedState then 1 else 0), s1)
    \<and> statesMirror T (case map_of (w_states w) k of None \<Rightarrow> w
        | Some y \<Rightarrow> if cvs_state y = expectedState then w\<lparr>w_states := AList.update k (g y) (w_states w)\<rparr> else w) s1"
  proof (rule states_updateMany[OF T R])
    fix r y assume r: "state_toDomain r = stateNorm y"
    show "(sr_value r = expectedState) = (cvs_state y = expectedState)
      \<and> state_toDomain (r\<lparr>sr_value := newValue, sr_remindersSent := orElse rem (sr_remindersSent r)\<rparr>) = stateNorm (g y)
      \<and> cvs_id (g y) = cvs_id y"
      using r state_fields[OF r] by (cases y) (simp add: g_def state_toDomain_def stateNorm_def nullToUndefined_def)
  qed simp_all
  then obtain s1 where u: "dg_updateMany D (\<lambda>r. sr_id r = k \<and> sr_value r = expectedState)
      (\<lambda>_ r. r\<lparr>sr_value := newValue, sr_remindersSent := orElse rem (sr_remindersSent r)\<rparr>) s
      = (Inr (case map_of (w_states w) k of None \<Rightarrow> 0 | Some y \<Rightarrow> if cvs_state y = expectedState then 1 else 0), s1)"
    "statesMirror T (case map_of (w_states w) k of None \<Rightarrow> w
        | Some y \<Rightarrow> if cvs_state y = expectedState then w\<lparr>w_states := AList.update k (g y) (w_states w)\<rparr> else w) s1" by blast
  have mem: "w' = (case map_of (w_states w) k of None \<Rightarrow> w
        | Some y \<Rightarrow> if cvs_state y = expectedState then w\<lparr>w_states := AList.update k (g y) (w_states w)\<rparr> else w)"
    "a = Inr (case map_of (w_states w) k of None \<Rightarrow> None | Some y \<Rightarrow> if cvs_state y = expectedState then Some (g y) else None)"
    using m by (auto simp: states_transition_def states_findById_def states_put_def action_defs g_def Let_def split: option.splits if_splits)
  obtain row where row: "dg_findUnique D (\<lambda>r. sr_id r = k) s1 = (Inr row, s1)"
    "map_option state_toDomain row = map_option stateNorm (map_of (w_states w') k)"
    using states_findRow[OF T u(2)] mem(1) by blast
  show "sameOutcome (\<lambda>a b. b = map_option stateNorm a) a b \<and> statesMirror T w' s'"
  proof (cases "\<exists>y. map_of (w_states w) k = Some y \<and> cvs_state y = expectedState")
    case True
    with d u row mem show ?thesis
      by (auto simp: db_states_transition_def bindM_def retM_def sameOutcome_def map_of_update)
  next
    case False
    with d u mem have "b = Inr None" "s' = s1" "a = Inr None" "w' = w"
      by (auto simp: db_states_transition_def bindM_def retM_def split: option.splits)
    with u(2) mem(1) show ?thesis by (simp add: sameOutcome_def)
  qed
qed

lemma db_states_setNotified_simulates:
  assumes T: "servesStates T D"
  shows "simulates (statesMirror T) (statesMirror T) (\<lambda>a b. b = stateNorm a)
    (db_states_setNotifiedAtomically D k newValue n dl) (states_setNotifiedAtomically k newValue n dl)"
proof (rule simulatesI)
  fix w s a w' b s'
  assume R: "statesMirror T w s" and m: "states_setNotifiedAtomically k newValue n dl w = (a, w')"
    and d: "db_states_setNotifiedAtomically D k newValue n dl s = (b, s')"
  define g where "g = (\<lambda>y :: CustomerVersionState. y\<lparr>cvs_state := newValue, cvs_notifiedAt := n, cvs_deadlineAt := dl\<rparr>)"
  define C where "C = (\<lambda>y :: CustomerVersionState. cvs_notifiedAt y = None \<and> cvs_state y = PENDING_NOTIFICATION)"
  have "\<exists>s1. dg_updateMany D (\<lambda>r. sr_id r = k \<and> sr_notifiedAt r = None \<and> sr_value r = PENDING_NOTIFICATION)
      (\<lambda>_ r. r\<lparr>sr_value := newValue, sr_notifiedAt := n, sr_deadlineAt := dl\<rparr>) s
      = (Inr (case map_of (w_states w) k of None \<Rightarrow> 0 | Some y \<Rightarrow> if C y then 1 else 0), s1)
    \<and> statesMirror T (case map_of (w_states w) k of None \<Rightarrow> w
        | Some y \<Rightarrow> if C y then w\<lparr>w_states := AList.update k (g y) (w_states w)\<rparr> else w) s1"
  proof (rule states_updateMany[OF T R])
    fix r y assume r: "state_toDomain r = stateNorm y"
    show "(sr_notifiedAt r = None \<and> sr_value r = PENDING_NOTIFICATION) = C y
      \<and> state_toDomain (r\<lparr>sr_value := newValue, sr_notifiedAt := n, sr_deadlineAt := dl\<rparr>) = stateNorm (g y)
      \<and> cvs_id (g y) = cvs_id y"
      using r state_fields[OF r] by (cases y) (simp add: g_def C_def state_toDomain_def stateNorm_def nullToUndefined_def)
  qed simp_all
  then obtain c s1 where u: "dg_updateMany D (\<lambda>r. sr_id r = k \<and> sr_notifiedAt r = None \<and> sr_value r = PENDING_NOTIFICATION)
      (\<lambda>_ r. r\<lparr>sr_value := newValue, sr_notifiedAt := n, sr_deadlineAt := dl\<rparr>) s = (Inr c, s1)"
    "statesMirror T (case map_of (w_states w) k of None \<Rightarrow> w
        | Some y \<Rightarrow> if C y then w\<lparr>w_states := AList.update k (g y) (w_states w)\<rparr> else w) s1" by blast
  have mem: "w' = (case map_of (w_states w) k of None \<Rightarrow> w
        | Some y \<Rightarrow> if C y then w\<lparr>w_states := AList.update k (g y) (w_states w)\<rparr> else w)"
    "a = (case map_of (w_states w') k of None \<Rightarrow> Inl (DomainError INVALID_STATE) | Some y \<Rightarrow> Inr y)"
    using m by (auto simp: states_setNotifiedAtomically_def states_findById_def states_put_def action_defs g_def C_def Let_def
        map_of_update split: option.splits if_splits)
  obtain row where row: "dg_findUnique D (\<lambda>r. sr_id r = k) s1 = (Inr row, s1)"
    "map_option state_toDomain row = map_option stateNorm (map_of (w_states w') k)"
    using states_findRow[OF T u(2)] mem(1) by blast
  have "b = (case row of None \<Rightarrow> Inl (Thrown (DomainError INVALID_STATE)) | Some r \<Rightarrow> Inr (state_toDomain r))" "s' = s1"
    using d u(1) row(1) by (auto simp: db_states_setNotifiedAtomically_def bindM_def retM_def throwM_def split: option.splits)
  with row(2) mem(2) u(2)[folded mem(1)] show "sameOutcome (\<lambda>a b. b = stateNorm a) a b \<and> statesMirror T w' s'"
    by (cases row; cases "map_of (w_states w') k") (simp_all add: sameOutcome_def)
qed

lemma db_states_clear_simulates:
  assumes T: "servesStates T D"
  shows "simulates (statesMirror T) (statesMirror T) (=) (db_states_clearNotificationDue D k) (states_clearNotificationDue k)"
proof (rule simulatesI)
  fix w s a w' b s'
  assume R: "statesMirror T w s" and m: "states_clearNotificationDue k w = (a, w')"
    and d: "db_states_clearNotificationDue D k s = (b, s')"
  have "\<exists>s1. dg_updateMany D (\<lambda>r. sr_id r = k) (\<lambda>_ r. r\<lparr>sr_notificationDueAt := None\<rparr>) s
      = (Inr (case map_of (w_states w) k of None \<Rightarrow> 0 | Some y \<Rightarrow> if True then 1 else 0), s1)
    \<and> statesMirror T (case map_of (w_states w) k of None \<Rightarrow> w
        | Some y \<Rightarrow> if True then w\<lparr>w_states := AList.update k (y\<lparr>cvs_notificationDueAt := None\<rparr>) (w_states w)\<rparr> else w) s1"
  proof (rule states_updateMany[OF T R])
    fix r y assume r: "state_toDomain r = stateNorm y"
    show "True = True \<and> state_toDomain (r\<lparr>sr_notificationDueAt := None\<rparr>) = stateNorm (y\<lparr>cvs_notificationDueAt := None\<rparr>)
      \<and> cvs_id (y\<lparr>cvs_notificationDueAt := None\<rparr>) = cvs_id y"
      using r state_fields[OF r] by (cases y) (simp add: state_toDomain_def stateNorm_def nullToUndefined_def)
  qed simp_all
  with m d show "sameOutcome (=) a b \<and> statesMirror T w' s'"
    by (auto simp: db_states_clearNotificationDue_def states_clearNotificationDue_def states_findById_def states_put_def
        action_defs sameOutcome_def split: option.splits)
qed

section \<open>Queries\<close>

lemma mirror_many:
  assumes S: "serves T D" and wf: "wf_table key t" and m: "mirrors toD norm T t s" and le: "orderOk le"
    and P: "\<And>k r y. sc_rows T s k = Some r \<Longrightarrow> map_of t k = Some y \<Longrightarrow> toD r = norm y \<Longrightarrow> P r \<longleftrightarrow> P' y"
  shows "\<exists>rs. dg_findMany D P le s = (Inr rs, s) \<and> sorted_wrt le rs
    \<and> mset (map toD rs) = mset (map norm (filter P' (tvals t)))"
proof -
  from serves_many[OF S le, of P s] obtain rs where rs: "dg_findMany D P le s = (Inr rs, s)" "distinct rs"
    "set rs = matching T s P" "sorted_wrt le rs" by blast
  let ?A = "matching T s P" and ?B = "{y \<in> set (tvals t). P' y}"
  define f where "f = (\<lambda>r. case map_of t (sc_key T r) of Some y \<Rightarrow> y | None \<Rightarrow> undefined)"
  have f: "map_of t (sc_key T r) = Some (f r) \<and> toD r = norm (f r)" if "r \<in> ?A" for r
    using mirrors_Some(2)[OF m, of "sc_key T r" r] that by (auto simp: matching_def f_def)
  have key: "key (f r) = sc_key T r" if "r \<in> ?A" for r using f[OF that] wf_table_key[OF wf] by blast
  have inj: "inj_on f ?A"
  proof (rule inj_onI)
    fix r r' assume r: "r \<in> ?A" "r' \<in> ?A" "f r = f r'"
    with key have "sc_key T r = sc_key T r'" by metis
    with r(1,2) show "r = r'" by (simp add: matching_def)
  qed
  have "f ` ?A = ?B"
  proof (intro set_eqI iffI)
    fix y assume "y \<in> f ` ?A"
    then obtain r where r: "r \<in> ?A" "y = f r" by blast
    have "P' y" using P[of "sc_key T r" r "f r"] f[OF r(1)] r by (simp add: matching_def)
    moreover have "y \<in> set (tvals t)" using tvals_lookup[OF wf] f[OF r(1)] r(2) by blast
    ultimately show "y \<in> ?B" by simp
  next
    fix y assume y: "y \<in> ?B"
    then have l: "map_of t (key y) = Some y" by (simp add: tvals_map_of[OF wf])
    from mirrors_Some(1)[OF m this] obtain r where r: "sc_rows T s (key y) = Some r" "toD r = norm y" by blast
    have "sc_key T r = key y" by (rule serves_keys[OF S r(1)])
    with r l P[OF r(1) l r(2)] y have "r \<in> ?A" "f r = y" by (simp_all add: matching_def f_def)
    then show "y \<in> f ` ?A" by blast
  qed
  moreover have "distinct (filter P' (tvals t))"
    by (simp add: distinct_tvals[OF wf])
  then have "mset (filter P' (tvals t)) = mset_set ?B" by (metis mset_set_set set_filter)
  ultimately have "mset (map norm (filter P' (tvals t))) = image_mset norm (image_mset f (mset_set ?A))"
    using image_mset_mset_set[OF inj] by simp
  also have "\<dots> = image_mset toD (mset_set ?A)" unfolding image_mset.compositionality
    by (rule image_mset_cong) (use f in \<open>auto simp: rs(3)[symmetric]\<close>)
  also have "\<dots> = mset (map toD rs)" using rs(2,3) by (metis mset_map mset_set_set)
  finally show ?thesis using rs(1,4) by auto
qed

lemma unordered_ok: "orderOk unordered"
  by (simp add: orderOk_def)

lemma states_many:
  assumes T: "servesStates T D" and P: "\<And>r y. state_toDomain r = stateNorm y \<Longrightarrow> P r \<longleftrightarrow> P' y"
    and d: "\<And>s. d s = bindM (dg_findMany D P unordered) (\<lambda>rows. retM (map state_toDomain rows)) s"
    and m: "\<And>w. m w = (Inr (filter P' (tvals (w_states w))), w)"
  shows "simulates (statesMirror T) (statesMirror T) (\<lambda>a b. mset b = mset (map stateNorm a)) d m"
proof (rule simulatesI)
  fix w s a w' b s'
  assume R: "statesMirror T w s" and mw: "m w = (a, w')" and ds: "d s = (b, s')"
  have "\<exists>rs. dg_findMany D P unordered s = (Inr rs, s) \<and> sorted_wrt unordered rs
    \<and> mset (map state_toDomain rs) = mset (map stateNorm (filter P' (tvals (w_states w))))"
    by (rule mirror_many[of T D cvs_id]) (use T R P unordered_ok in \<open>auto simp: servesStates_def statesMirror_def\<close>)
  with mw ds R show "sameOutcome (\<lambda>a b. mset b = mset (map stateNorm a)) a b \<and> statesMirror T w' s'"
    by (auto simp: d m bindM_def retM_def sameOutcome_def)
qed

section \<open>Acceptances\<close>

definition acceptanceUnique :: "AcceptanceRow uniqueness list" where
  "acceptanceUnique =
     [\<lparr>uq_fields = [''id''], uq_name = ''Acceptance_pkey'', uq_value = (\<lambda>r. Some [ar_id r])\<rparr>,
      \<lparr>uq_fields = [''customerId'', ''versionId''], uq_name = PARTIAL_EFFECTIVE_INDEX_NAME,
       uq_value = (\<lambda>r. if ar_isEffective r then Some [ar_customerId r, ar_versionId r] else None)\<rparr>,
      \<lparr>uq_fields = [''supersededByAcceptanceId''], uq_name = ''Acceptance_supersededByAcceptanceId_key'',
       uq_value = (\<lambda>r. map_option (\<lambda>x. [x]) (ar_supersededByAcceptanceId r))\<rparr>]"

definition acceptanceNorm :: "Acceptance \<Rightarrow> Acceptance" where
  "acceptanceNorm a = a\<lparr>a_contentHash := Some (orElse (a_contentHash a) [])\<rparr>"

definition servesAcceptances :: "('s, AcceptanceRow) schema \<Rightarrow> ('s, AcceptanceRow) delegate \<Rightarrow> bool" where
  "servesAcceptances T D \<longleftrightarrow> serves T D \<and> sc_key T = ar_id \<and> sc_unique T = acceptanceUnique"

definition acceptancesMirror :: "('s, AcceptanceRow) schema \<Rightarrow> world \<Rightarrow> 's \<Rightarrow> bool" where
  "acceptancesMirror T w s \<longleftrightarrow> wf_table a_id (w_acceptances w)
     \<and> mirrors acceptance_toDomain acceptanceNorm T (w_acceptances w) s"

lemma acceptance_roundtrip: "acceptance_toDomain (acceptance_createData a) = acceptanceNorm a"
  by (cases a) (simp add: acceptance_toDomain_def acceptance_createData_def acceptanceNorm_def nullToUndefined_def
      extractActor_def embedActor_def)

lemma acceptance_fields:
  assumes "acceptance_toDomain r = acceptanceNorm y"
  shows "ar_id r = a_id y" "ar_customerId r = a_customerId y" "ar_versionId r = a_versionId y"
    "ar_isEffective r = a_isEffective y" "ar_supersededByAcceptanceId r = a_supersededByAcceptanceId y"
  using assms by (cases y, simp add: acceptance_toDomain_def acceptanceNorm_def nullToUndefined_def)+

text \<open>Which error an append gives for which constraint, however the engine reports it.\<close>

lemma appendError_pair:
  assumes "reports u m" "uq_fields u = [''customerId'', ''versionId'']" "uq_name u = PARTIAL_EFFECTIVE_INDEX_NAME"
  shows "appendError (PrismaError ''P2002'' m) = Thrown (DomainError ALREADY_ACCEPTED)"
  using assms by (auto simp: reports_def appendError_def Let_def)

lemma appendError_id:
  assumes "reports u m" "uq_fields u = [''id'']" "uq_name u = ''Acceptance_pkey''"
  shows "appendError (PrismaError ''P2002'' m) = Thrown (DomainError INVALID_STATE)"
proof -
  let ?ts = "uniqueConstraintTargets m"
  have sub: "set ?ts \<subseteq> {''id'', ''Acceptance_pkey''}" and one: "''id'' \<in> set ?ts \<or> ''Acceptance_pkey'' \<in> set ?ts"
    using assms by (auto simp: reports_def)
  have plain: "\<not> includesText ''effective'' (toLowerCase ''id'')" "\<not> includesText ''effective'' (toLowerCase ''Acceptance_pkey'')"
    by code_simp+
  have "\<not> list_ex (\<lambda>t. includesText ''effective'' (toLowerCase t)) ?ts"
    using sub plain by (auto simp: list_ex_iff)
  moreover have "''customerId'' \<notin> set ?ts" "PARTIAL_EFFECTIVE_INDEX_NAME \<notin> set ?ts"
    using sub by (auto simp: PARTIAL_EFFECTIVE_INDEX_NAME_def)
  ultimately show ?thesis using one by (simp add: appendError_def Let_def)
qed

lemma acceptances_rows:
  assumes "servesAcceptances T D" "acceptancesMirror T w s"
  shows "sc_rows T s k = Some r \<Longrightarrow> \<exists>y. map_of (w_acceptances w) k = Some y \<and> acceptance_toDomain r = acceptanceNorm y \<and> ar_id r = k \<and> a_id y = k"
    and "map_of (w_acceptances w) k = Some y \<Longrightarrow> \<exists>r. sc_rows T s k = Some r \<and> acceptance_toDomain r = acceptanceNorm y \<and> ar_id r = k \<and> a_id y = k"
    and "sc_rows T s k = None \<longleftrightarrow> map_of (w_acceptances w) k = None"
proof -
  have m: "mirrors acceptance_toDomain acceptanceNorm T (w_acceptances w) s" and wf: "wf_table a_id (w_acceptances w)"
    using assms(2) by (simp_all add: acceptancesMirror_def)
  show "\<exists>y. map_of (w_acceptances w) k = Some y \<and> acceptance_toDomain r = acceptanceNorm y \<and> ar_id r = k \<and> a_id y = k"
    if "sc_rows T s k = Some r"
    using mirrors_Some(2)[OF m that] wf_table_key[OF wf, of k] acceptance_fields(1)[of r] by force
  show "\<exists>r. sc_rows T s k = Some r \<and> acceptance_toDomain r = acceptanceNorm y \<and> ar_id r = k \<and> a_id y = k"
    if "map_of (w_acceptances w) k = Some y"
    using mirrors_Some(1)[OF m that] wf_table_key[OF wf that] acceptance_fields(1)[of _ y] by force
  show "sc_rows T s k = None \<longleftrightarrow> map_of (w_acceptances w) k = None" by (rule mirrors_None[OF m])
qed

text \<open>The two checks of the append in memory are the two constraints of the table.\<close>

lemma acceptances_violated:
  assumes T: "servesAcceptances T D" and R: "acceptancesMirror T w s" and a: "a_supersededByAcceptanceId a = None"
  shows "violated T s None (acceptance_createData a) =
     (if map_of (w_acceptances w) (a_id a) \<noteq> None then {acceptanceUnique ! 0} else {})
     \<union> (if a_isEffective a \<and> effectiveFor (w_acceptances w) (a_customerId a) (a_versionId a) \<noteq> None
        then {acceptanceUnique ! 1} else {})"
proof -
  note rows = acceptances_rows[OF T R]
  have wf: "wf_table a_id (w_acceptances w)" using R by (simp add: acceptancesMirror_def)
  let ?r = "acceptance_createData a"
  have r: "ar_id ?r = a_id a" "ar_customerId ?r = a_customerId a" "ar_versionId ?r = a_versionId a"
    "ar_isEffective ?r = a_isEffective a" "ar_supersededByAcceptanceId ?r = None"
    by (simp_all add: acceptance_createData_def a)
  have id: "(\<exists>k z. sc_rows T s k = Some z \<and> ar_id z = a_id a) \<longleftrightarrow> map_of (w_acceptances w) (a_id a) \<noteq> None"
    using rows by (metis not_None_eq)
  have pair: "(\<exists>k z. sc_rows T s k = Some z \<and> ar_isEffective z \<and> ar_customerId z = a_customerId a \<and> ar_versionId z = a_versionId a)
     \<longleftrightarrow> effectiveFor (w_acceptances w) (a_customerId a) (a_versionId a) \<noteq> None" (is "?L \<longleftrightarrow> ?E \<noteq> None")
  proof
    assume ?L
    then obtain k z where z: "sc_rows T s k = Some z" "ar_isEffective z" "ar_customerId z = a_customerId a"
      "ar_versionId z = a_versionId a" by blast
    from rows(1)[OF z(1)] obtain y where y: "map_of (w_acceptances w) k = Some y" "acceptance_toDomain z = acceptanceNorm y" by blast
    from tvals_lookup[OF wf y(1)] acceptance_fields[OF y(2)] z show "?E \<noteq> None"
      by (auto simp: effectiveFor_def find_None_iff)
  next
    assume "?E \<noteq> None"
    then obtain y where y: "y \<in> set (tvals (w_acceptances w))" "a_customerId y = a_customerId a" "a_versionId y = a_versionId a"
      "a_isEffective y" unfolding effectiveFor_def find_None_iff by blast
    from y(1) have "map_of (w_acceptances w) (a_id y) = Some y" by (simp add: tvals_map_of[OF wf])
    from rows(2)[OF this] obtain z where z: "sc_rows T s (a_id y) = Some z" "acceptance_toDomain z = acceptanceNorm y" by blast
    from z acceptance_fields[OF z(2)] y show ?L by auto
  qed
  have "violated T s None ?r = {u \<in> set acceptanceUnique. uq_value u ?r \<noteq> None
       \<and> (\<exists>k z. sc_rows T s k = Some z \<and> uq_value u z = uq_value u ?r)}"
    using T by (simp add: violated_def servesAcceptances_def)
  also have "\<dots> = {u. u = acceptanceUnique ! 0 \<and> (\<exists>k z. sc_rows T s k = Some z \<and> ar_id z = a_id a)}
     \<union> {u. u = acceptanceUnique ! 1 \<and> a_isEffective a
          \<and> (\<exists>k z. sc_rows T s k = Some z \<and> ar_isEffective z \<and> ar_customerId z = a_customerId a \<and> ar_versionId z = a_versionId a)}"
  proof -
    have all: "set acceptanceUnique = {acceptanceUnique ! 0, acceptanceUnique ! 1, acceptanceUnique ! 2}"
      by (simp add: acceptanceUnique_def)
    have "uq_value (acceptanceUnique ! 0) ?r \<noteq> None"
      "uq_value (acceptanceUnique ! 0) z = uq_value (acceptanceUnique ! 0) ?r \<longleftrightarrow> ar_id z = a_id a"
      "uq_value (acceptanceUnique ! 1) ?r \<noteq> None \<longleftrightarrow> a_isEffective a"
      "a_isEffective a \<Longrightarrow> uq_value (acceptanceUnique ! 1) z = uq_value (acceptanceUnique ! 1) ?r
        \<longleftrightarrow> ar_isEffective z \<and> ar_customerId z = a_customerId a \<and> ar_versionId z = a_versionId a"
      "uq_value (acceptanceUnique ! 2) ?r = None" for z
      using r by (simp_all add: acceptanceUnique_def)
    then show ?thesis unfolding all by blast
  qed
  finally show ?thesis unfolding id pair by auto
qed

text \<open>The foreign keys of the new acceptance hold, nothing supersedes it yet, and its id is new or no other
  acceptance is effective for the pair.\<close>

definition appendable :: "('s, AcceptanceRow) schema \<Rightarrow> Acceptance \<Rightarrow> world \<Rightarrow> 's \<Rightarrow> bool" where
  "appendable T a w s \<longleftrightarrow> sc_refs T s (acceptance_createData a) \<and> a_supersededByAcceptanceId a = None
     \<and> (map_of (w_acceptances w) (a_id a) = None
        \<or> \<not> (a_isEffective a \<and> effectiveFor (w_acceptances w) (a_customerId a) (a_versionId a) \<noteq> None))"

lemma db_acceptances_append_simulates:
  assumes T: "servesAcceptances T D"
  shows "simulates (\<lambda>w s. acceptancesMirror T w s \<and> appendable T a w s) (acceptancesMirror T)
    (\<lambda>x y. y = acceptanceNorm x) (db_acceptances_append D a) (acceptances_append a)"
proof (rule simulatesI)
  fix w s x w' y s'
  assume R: "acceptancesMirror T w s \<and> appendable T a w s" and m: "acceptances_append a w = (x, w')"
    and d: "db_acceptances_append D a s = (y, s')"
  have S: "serves T D" and key: "sc_key T = ar_id" using T by (simp_all add: servesAcceptances_def)
  let ?r = "acceptance_createData a" and ?t = "w_acceptances w"
  let ?E = "a_isEffective a \<and> effectiveFor ?t (a_customerId a) (a_versionId a) \<noteq> None"
  have ap: "sc_refs T s ?r" "a_supersededByAcceptanceId a = None" "map_of ?t (a_id a) = None \<or> \<not> ?E"
    and mir: "acceptancesMirror T w s" using R by (simp_all add: appendable_def)
  note viol = acceptances_violated[OF T mir ap(2)]
  obtain out s1 where c: "dg_create D (\<lambda>_. ?r) s = (out, s1)" by (cases "dg_create D (\<lambda>_. ?r) s") auto
  from serves_create[OF S, of "\<lambda>_. ?r" s, OF refl] c have wr: "written T s None ?r (out, s1)" by simp
  consider (ok) "map_of ?t (a_id a) = None" "\<not> ?E" | (id) "map_of ?t (a_id a) \<noteq> None" "\<not> ?E"
    | (pair) "map_of ?t (a_id a) = None" ?E using ap(3) by argo
  then show "sameOutcome (\<lambda>x y. y = acceptanceNorm x) x y \<and> acceptancesMirror T w' s'"
  proof cases
    case ok
    then have "violated T s None ?r = {}" unfolding viol by simp
    from written_free[OF wr this ap(1)] have o: "out = Inr ?r" "sc_rows T s1 = (sc_rows T s)(a_id a \<mapsto> ?r)"
      by (simp_all add: key acceptance_createData_def)
    have "x = Inr a" "w' = w\<lparr>w_acceptances := AList.update (a_id a) a ?t\<rparr>"
      using m ok by (auto simp: acceptances_append_def action_defs)
    moreover have "y = Inr (acceptanceNorm a)" "s' = s1"
      using d c o(1) by (auto simp: db_acceptances_append_def catchM_def bindM_def retM_def acceptance_roundtrip)
    ultimately show ?thesis
      using mir mirrors_update[of acceptance_toDomain acceptanceNorm T ?t s s1 "a_id a" ?r a] o(2)
      by (simp add: sameOutcome_def acceptancesMirror_def wf_table_update acceptance_roundtrip)
  next
    case id
    then have v: "violated T s None ?r = {acceptanceUnique ! 0}" unfolding viol by auto
    with wr ap(1) obtain mt where o: "out = Inl (PrismaError ''P2002'' mt)" "reports (acceptanceUnique ! 0) mt"
      "sc_rows T s1 = sc_rows T s" by (cases out) (auto simp: written_def)
    from appendError_id[OF o(2)] have "y = Inl (Thrown (DomainError INVALID_STATE))" "s' = s1"
      using d c o(1) by (auto simp: db_acceptances_append_def catchM_def bindM_def throwM_def acceptanceUnique_def)
    moreover have "x = Inl (DomainError INVALID_STATE)" "w' = w"
      using m id by (auto simp: acceptances_append_def action_defs)
    ultimately show ?thesis using mir o(3) by (simp add: sameOutcome_def acceptancesMirror_def mirrors_def)
  next
    case pair
    then have v: "violated T s None ?r = {acceptanceUnique ! 1}" unfolding viol by auto
    with wr ap(1) obtain mt where o: "out = Inl (PrismaError ''P2002'' mt)" "reports (acceptanceUnique ! 1) mt"
      "sc_rows T s1 = sc_rows T s" by (cases out) (auto simp: written_def)
    from appendError_pair[OF o(2)] have "y = Inl (Thrown (DomainError ALREADY_ACCEPTED))" "s' = s1"
      using d c o(1) by (auto simp: db_acceptances_append_def catchM_def bindM_def throwM_def acceptanceUnique_def)
    moreover have "x = Inl (DomainError ALREADY_ACCEPTED)" "w' = w"
      using m pair by (auto simp: acceptances_append_def action_defs)
    ultimately show ?thesis using mir o(3) by (simp add: sameOutcome_def acceptancesMirror_def mirrors_def)
  qed
qed

text \<open>The correction: some row of the id, by which nothing else is superseded.\<close>

definition supersedable :: "('s, AcceptanceRow) schema \<Rightarrow> string \<Rightarrow> string \<Rightarrow> world \<Rightarrow> 's \<Rightarrow> bool" where
  "supersedable T k by w s \<longleftrightarrow> (\<forall>x \<in> set (tvals (w_acceptances w)). a_supersededByAcceptanceId x = Some by \<longrightarrow> a_id x = k)
     \<and> (\<forall>r. sc_rows T s k = Some r \<longrightarrow> sc_refs T s (r\<lparr>ar_isEffective := False, ar_supersededByAcceptanceId := Some by\<rparr>))"

lemma db_acceptances_supersede_simulates:
  assumes T: "servesAcceptances T D"
  shows "simulates (\<lambda>w s. acceptancesMirror T w s \<and> supersedable T k by w s) (acceptancesMirror T)
    (\<lambda>x y. y = acceptanceNorm x) (db_acceptances_supersede D k by) (acceptances_supersede k by)"
proof (rule simulatesI)
  fix w s x w' y s'
  assume R: "acceptancesMirror T w s \<and> supersedable T k by w s" and m: "acceptances_supersede k by w = (x, w')"
    and d: "db_acceptances_supersede D k by s = (y, s')"
  have S: "serves T D" and key: "sc_key T = ar_id" and uq: "sc_unique T = acceptanceUnique"
    using T by (simp_all add: servesAcceptances_def)
  have mir: "acceptancesMirror T w s" and wf: "wf_table a_id (w_acceptances w)" using R by (simp_all add: acceptancesMirror_def)
  note rows = acceptances_rows[OF T mir]
  define f where "f = (\<lambda>r :: AcceptanceRow. r\<lparr>ar_isEffective := False, ar_supersededByAcceptanceId := Some by\<rparr>)"
  obtain out s1 where c: "dg_update D k (\<lambda>_. f) s = (out, s1)" by (cases "dg_update D k (\<lambda>_. f) s") auto
  have "sc_key T (f r) = sc_key T r" for r by (simp add: key f_def)
  from serves_update[where f = "\<lambda>_. f" and k = k and s = s, OF S this] c have u: "case sc_rows T s k of
      None \<Rightarrow> notFound T s (out, s1) | Some r \<Rightarrow> written T s (Some k) (f r) (out, s1)" by (simp split: option.splits)
  have d': "y = (case out of Inl e \<Rightarrow> Inl (if isRecordNotFoundError e then Thrown (DomainError INVALID_STATE) else e)
      | Inr r \<Rightarrow> Inr (acceptance_toDomain r))" "s' = s1"
    using d c by (auto simp: db_acceptances_supersede_def translating_def f_def catchM_def bindM_def retM_def throwM_def
        split: sum.splits if_splits)
  show "sameOutcome (\<lambda>x y. y = acceptanceNorm x) x y \<and> acceptancesMirror T w' s'"
  proof (cases "map_of (w_acceptances w) k")
    case None
    with rows(3)[of k] u obtain mt where "out = Inl (PrismaError ''P2025'' mt)" "sc_rows T s1 = sc_rows T s"
      by (auto simp: notFound_def)
    with d' None m mir show ?thesis
      by (auto simp: acceptances_supersede_def action_defs sameOutcome_def isRecordNotFoundError_def acceptancesMirror_def mirrors_def)
  next
    case (Some z)
    from rows(2)[OF Some] obtain r where r: "sc_rows T s k = Some r" "acceptance_toDomain r = acceptanceNorm z" "ar_id r = k" "a_id z = k"
      by blast
    have other: "ar_id q \<noteq> k \<and> ar_supersededByAcceptanceId q \<noteq> Some by" if q: "sc_rows T s j = Some q" "j \<noteq> k" for j q
    proof -
      from rows(1)[OF q(1)] obtain v where v: "map_of (w_acceptances w) j = Some v" "acceptance_toDomain q = acceptanceNorm v"
        "ar_id q = j" "a_id v = j" by blast
      from tvals_lookup[OF wf v(1)] R q(2) v(3,4) acceptance_fields(5)[OF v(2)] show ?thesis by (auto simp: supersedable_def)
    qed
    have "violated T s (Some k) (f r) = {}"
      unfolding violated_def uq acceptanceUnique_def using r(3) by (auto simp: f_def dest: other)
    moreover have "sc_refs T s (f r)" using R r(1) by (simp add: supersedable_def f_def)
    moreover have "written T s (Some k) (f r) (out, s1)" using u r(1) by simp
    ultimately have o: "out = Inr (f r)" "sc_rows T s1 = (sc_rows T s)(k \<mapsto> f r)"
      using written_free[of T s "Some k" "f r" out s1] r(3) by (auto simp: key f_def)
    let ?z = "z\<lparr>a_isEffective := False, a_supersededByAcceptanceId := Some by\<rparr>"
    have fz: "acceptance_toDomain (f r) = acceptanceNorm ?z"
      using r(2) by (cases z) (simp add: f_def acceptance_toDomain_def acceptanceNorm_def nullToUndefined_def)
    have "x = Inr ?z" "w' = w\<lparr>w_acceptances := AList.update k ?z (w_acceptances w)\<rparr>"
      using m Some by (auto simp: acceptances_supersede_def action_defs Let_def)
    with d' o fz mir r(4) show ?thesis
      using mirrors_update[of acceptance_toDomain acceptanceNorm T "w_acceptances w" s s1 k "f r" ?z]
      by (simp add: sameOutcome_def acceptancesMirror_def wf_table_update)
  qed
qed

section \<open>The idempotency store\<close>

text \<open>The stored responses as JSON.\<close>

fun responseJson :: "IdempotencyValue \<Rightarrow> meta" where
  "responseJson IDEMPOTENCY_PENDING = PENDING_MARKER"
| "responseJson (AcceptanceResponse acceptanceId) =
    MObj [(''acceptanceId'', MStr acceptanceId), (''state'', MStr ''ACCEPTED'')]"
| "responseJson (ObjectionResponse objectionId) =
    MObj [(''objectionId'', MStr objectionId), (''state'', MStr ''OBJECTED'')]"

definition idempotencyUnique :: "IdempotencyRow uniqueness list" where
  "idempotencyUnique =
     [\<lparr>uq_fields = [''key''], uq_name = ''IdempotencyRecord_pkey'', uq_value = (\<lambda>r. Some [ir_key r])\<rparr>]"

definition servesIdempotency :: "('s, IdempotencyRow) schema \<Rightarrow> ('s, IdempotencyRow) delegate \<Rightarrow> bool" where
  "servesIdempotency T D \<longleftrightarrow> serves T D \<and> sc_key T = ir_key \<and> sc_unique T = idempotencyUnique
     \<and> (\<forall>s r. sc_refs T s r \<and> \<not> sc_used T s r)"

definition idempotencyMirror :: "('s, IdempotencyRow) schema \<Rightarrow> world \<Rightarrow> 's \<Rightarrow> bool" where
  "idempotencyMirror T w s \<longleftrightarrow> (\<forall>k. map_option ir_value (sc_rows T s k) = map_option responseJson (map_of (w_idempotency w) k))"

lemma pending_json: "isPendingMarker (responseJson v) \<longleftrightarrow> v = IDEMPOTENCY_PENDING"
  "responseJson v = PENDING_MARKER \<longleftrightarrow> v = IDEMPOTENCY_PENDING"
  by (cases v; simp add: isPendingMarker_def propOf_def PENDING_MARKER_def)+

lemma idempotency_violated:
  assumes "servesIdempotency T D"
  shows "violated T s None r = (if sc_rows T s (ir_key r) = None then {} else set idempotencyUnique)"
    and "violated T s (Some (ir_key r)) r = {}"
proof -
  have S: "serves T D" and key: "sc_key T = ir_key" and uq: "sc_unique T = idempotencyUnique"
    using assms by (simp_all add: servesIdempotency_def)
  have k: "sc_rows T s j = Some x \<Longrightarrow> ir_key x = j" for j x using serves_keys[OF S, of s j x] by (simp add: key)
  define u where "u = (\<lparr>uq_fields = [''key''], uq_name = ''IdempotencyRecord_pkey'', uq_value = (\<lambda>r. Some [ir_key r])\<rparr> :: IdempotencyRow uniqueness)"
  have set: "set idempotencyUnique = {u}" and val: "uq_value u x = Some [ir_key x]" for x
    by (simp_all add: idempotencyUnique_def u_def)
  from k have "(\<exists>j x. sc_rows T s j = Some x \<and> ir_key x = ir_key r) \<longleftrightarrow> sc_rows T s (ir_key r) \<noteq> None"
    by (metis not_None_eq)
  then have one: "(\<exists>j x. sc_rows T s j = Some x \<and> uq_value u x = uq_value u r) \<longleftrightarrow> sc_rows T s (ir_key r) \<noteq> None"
    by (simp add: val)
  have "violated T s None r = (if \<exists>j x. sc_rows T s j = Some x \<and> uq_value u x = uq_value u r then {u} else {})"
  proof -
    have "violated T s None r = {v \<in> {u}. uq_value v r \<noteq> None \<and> (\<exists>j x. sc_rows T s j = Some x \<and> uq_value v x = uq_value v r)}"
      by (simp add: violated_def uq set)
    moreover have "uq_value u r \<noteq> None" by (simp add: val)
    ultimately show ?thesis by auto
  qed
  then show "violated T s None r = (if sc_rows T s (ir_key r) = None then {} else set idempotencyUnique)"
    unfolding one set by simp
  show "violated T s (Some (ir_key r)) r = {}"
    using k by (auto simp: violated_def uq idempotencyUnique_def)
qed

lemma idempotency_get_simulates:
  assumes T: "servesIdempotency T D"
  shows "simulates (idempotencyMirror T) (idempotencyMirror T) (\<lambda>x y. y = map_option responseJson x)
    (db_idempotency_get D k) (idempotency_get k)"
proof (rule simulatesI)
  fix w s x w' y s'
  assume R: "idempotencyMirror T w s" and m: "idempotency_get k w = (x, w')" and d: "db_idempotency_get D k s = (y, s')"
  have "dg_findUnique D (\<lambda>r. ir_key r = k) s = (Inr (sc_rows T s k), s)"
    by (rule findUnique_key) (use T in \<open>auto simp: servesIdempotency_def\<close>)
  moreover have "map_option ir_value (sc_rows T s k) = map_option responseJson (map_of (w_idempotency w) k)"
    using R by (simp add: idempotencyMirror_def)
  ultimately show "sameOutcome (\<lambda>x y. y = map_option responseJson x) x y \<and> idempotencyMirror T w' s'"
  proof (cases "map_of (w_idempotency w) k")
    case None
    with R m d \<open>dg_findUnique D (\<lambda>r. ir_key r = k) s = (Inr (sc_rows T s k), s)\<close>
      \<open>map_option ir_value (sc_rows T s k) = map_option responseJson (map_of (w_idempotency w) k)\<close>
    show ?thesis by (auto simp: idempotency_get_def db_idempotency_get_def bindM_def retM_def getsM_def sameOutcome_def)
  next
    case (Some v)
    with \<open>map_option ir_value (sc_rows T s k) = map_option responseJson (map_of (w_idempotency w) k)\<close>
    obtain r where r: "sc_rows T s k = Some r" "ir_value r = responseJson v" by auto
    have "db_idempotency_get D k s = (Inr (if v = IDEMPOTENCY_PENDING then None else Some (responseJson v)), s)"
      unfolding db_idempotency_get_def bindM_def retM_def
        \<open>dg_findUnique D (\<lambda>r. ir_key r = k) s = (Inr (sc_rows T s k), s)\<close>
      by (simp add: r pending_json(1))
    with d have "y = Inr (if v = IDEMPOTENCY_PENDING then None else Some (responseJson v))" "s' = s" by auto
    moreover have "x = Inr (if v = IDEMPOTENCY_PENDING then None else Some v)" "w' = w"
      using m Some by (cases v; simp add: idempotency_get_def getsM_def)+
    ultimately show ?thesis using R by (simp add: sameOutcome_def)
  qed
qed

lemma idempotency_put_simulates:
  assumes T: "servesIdempotency T D"
  shows "simulates (idempotencyMirror T) (idempotencyMirror T) (=)
    (db_idempotency_put D k (responseJson v)) (idempotency_put k v)"
proof (rule simulatesI)
  fix w s x w' y s'
  assume R: "idempotencyMirror T w s" and m: "idempotency_put k v w = (x, w')"
    and d: "db_idempotency_put D k (responseJson v) s = (y, s')"
  have S: "serves T D" and key: "sc_key T = ir_key" and refs: "sc_refs T s r" for s r
    using T by (simp_all add: servesIdempotency_def)
  let ?r = "\<lparr>ir_key = k, ir_value = responseJson v\<rparr>" and ?f = "\<lambda>r. r\<lparr>ir_value := responseJson v\<rparr> :: IdempotencyRow"
  obtain out s1 where c: "dg_upsert D k (\<lambda>_. ?r) (\<lambda>_. ?f) s = (out, s1)" by (cases "dg_upsert D k (\<lambda>_. ?r) (\<lambda>_. ?f) s") auto
  have "case sc_rows T s k of None \<Rightarrow> written T s None ?r (out, s1) | Some r \<Rightarrow> written T s (Some k) (?f r) (out, s1)"
    using serves_upsert[where data = "\<lambda>_. ?r" and f = "\<lambda>_. ?f" and k = k and s = s, OF S] c
    by (simp add: key split: option.splits)
  then have "\<exists>r. out = Inr r \<and> ir_value r = responseJson v \<and> sc_rows T s1 = (sc_rows T s)(k \<mapsto> r)"
  proof (cases "sc_rows T s k")
    case None
    then show ?thesis
      using written_free[of T s None ?r out s1] idempotency_violated(1)[OF T, of s ?r]
        \<open>case sc_rows T s k of None \<Rightarrow> written T s None ?r (out, s1) | Some r \<Rightarrow> written T s (Some k) (?f r) (out, s1)\<close>
      by (simp add: refs key)
  next
    case (Some r)
    have "ir_key r = k" using serves_keys[OF S Some] by (simp add: key)
    then show ?thesis
      using written_free[of T s "Some k" "?f r" out s1] idempotency_violated(2)[OF T, of s "?f r"] Some
        \<open>case sc_rows T s k of None \<Rightarrow> written T s None ?r (out, s1) | Some r \<Rightarrow> written T s (Some k) (?f r) (out, s1)\<close>
      by (simp add: refs key)
  qed
  with m d c R show "sameOutcome (=) x y \<and> idempotencyMirror T w' s'"
    by (auto simp: idempotency_put_def db_idempotency_put_def bindM_def retM_def modifyM_def sameOutcome_def
        idempotencyMirror_def map_of_update)
qed

lemma idempotency_reserve_simulates:
  assumes T: "servesIdempotency T D"
  shows "simulates (idempotencyMirror T) (idempotencyMirror T) (=) (db_idempotency_reserve D k) (idempotency_reserve k)"
proof (rule simulatesI)
  fix w s x w' y s'
  assume R: "idempotencyMirror T w s" and m: "idempotency_reserve k w = (x, w')" and d: "db_idempotency_reserve D k s = (y, s')"
  have S: "serves T D" and key: "sc_key T = ir_key" and refs: "sc_refs T s r" for s r
    using T by (simp_all add: servesIdempotency_def)
  let ?r = "\<lparr>ir_key = k, ir_value = PENDING_MARKER\<rparr>"
  obtain out s1 where c: "dg_create D (\<lambda>_. ?r) s = (out, s1)" by (cases "dg_create D (\<lambda>_. ?r) s") auto
  from serves_create[OF S, of "\<lambda>_. ?r" s, OF refl] c have wr: "written T s None ?r (out, s1)" by simp
  have same: "sc_rows T s k = None \<longleftrightarrow> map_of (w_idempotency w) k = None"
    using R unfolding idempotencyMirror_def by (metis option.map_disc_iff)
  show "sameOutcome (=) x y \<and> idempotencyMirror T w' s'"
  proof (cases "sc_rows T s k")
    case None
    with idempotency_violated(1)[OF T, of s ?r] written_free[OF wr _ refs]
    have "out = Inr ?r" "sc_rows T s1 = (sc_rows T s)(k \<mapsto> ?r)" by (simp_all add: key)
    with None same m d c R show ?thesis
      by (auto simp: idempotency_reserve_def idempotency_put_def db_idempotency_reserve_def action_defs sameOutcome_def
          idempotencyMirror_def map_of_update)
  next
    case (Some r)
    with wr idempotency_violated(1)[OF T, of s ?r] refs obtain mt where "out = Inl (PrismaError ''P2002'' mt)" "sc_rows T s1 = sc_rows T s"
      by (cases out) (auto simp: written_def idempotencyUnique_def)
    with Some same m d c R show ?thesis
      by (auto simp: idempotency_reserve_def db_idempotency_reserve_def action_defs sameOutcome_def isUniqueConstraintError_def
          idempotencyMirror_def)
  qed
qed

lemma idempotency_release_simulates:
  assumes T: "servesIdempotency T D"
  shows "simulates (idempotencyMirror T) (idempotencyMirror T) (=) (db_idempotency_release D k) (idempotency_release k)"
proof (rule simulatesI)
  fix w s x w' y s'
  assume R: "idempotencyMirror T w s" and m: "idempotency_release k w = (x, w')" and d: "db_idempotency_release D k s = (y, s')"
  have S: "serves T D" and key: "sc_key T = ir_key" and used: "\<not> sc_used T s r" for s r
    using T by (simp_all add: servesIdempotency_def)
  let ?P = "\<lambda>r. ir_key r = k \<and> ir_value r = PENDING_MARKER"
  from serves_deleteMany[OF S, of s ?P, OF used] obtain s1 where u: "dg_deleteMany D ?P s = (Inr (card (matching T s ?P)), s1)"
    "sc_rows T s1 = (\<lambda>k. case sc_rows T s k of None \<Rightarrow> None | Some r \<Rightarrow> if ?P r then None else Some r)" by blast
  have rel: "map_option ir_value (sc_rows T s j) = map_option responseJson (map_of (w_idempotency w) j)" for j
    using R by (simp add: idempotencyMirror_def)
  have kk: "sc_rows T s j = Some r \<Longrightarrow> ir_key r = j" for j r using serves_keys[OF S, of s j r] by (simp add: key)
  have w': "x = Inr ()" "map_of (w_idempotency w') = (if map_of (w_idempotency w) k = Some IDEMPOTENCY_PENDING
      then (map_of (w_idempotency w))(k := None) else map_of (w_idempotency w))"
    using m by (auto simp: idempotency_release_def action_defs map_of_delete split: if_splits)
  have "map_option ir_value (sc_rows T s1 j) = map_option responseJson (map_of (w_idempotency w') j)" for j
  proof (cases "sc_rows T s j")
    case None
    with rel[of j] have "map_of (w_idempotency w) j = None" by simp
    with None show ?thesis by (simp add: u(2) w'(2))
  next
    case (Some r)
    with rel[of j] obtain v where v: "map_of (w_idempotency w) j = Some v" "ir_value r = responseJson v"
      by (cases "map_of (w_idempotency w) j") auto
    have "?P r \<longleftrightarrow> j = k \<and> v = IDEMPOTENCY_PENDING" using kk[OF Some] v(2) pending_json(2)[of v] by auto
    with Some v show ?thesis by (auto simp: u(2) w'(2))
  qed
  with u(1) d w'(1) show "sameOutcome (=) x y \<and> idempotencyMirror T w' s'"
    by (auto simp: db_idempotency_release_def bindM_def retM_def sameOutcome_def idempotencyMirror_def)
qed

end
