(* ===== verification/Db_Refine.thy ===== *)
theory Db_Refine
  imports Db_Facts
begin

text \<open>
  What the database adds up to: with \<open>REPOSITORY_DRIVER=prisma\<close> the stores of the rollout states, of the
  acceptances and of the idempotency records do what the ones in memory do, except where the database
  enforces a constraint that memory does not have.
\<close>

section \<open>Rollout states\<close>

text \<open>C21: The repository of rollout states on the database refines the one in memory.  For every client that
  serves the table as documented: a save of a row whose pair of customer and version is free, the
  conditional transition (which only happens from the expected state, and whose absence is the answer
  null), the recording of the first access (which only the first one makes, and which fails on an unknown
  id with INVALID_STATE) and the clearing of the notification mark give the result of the repository in memory and
  leave the same states; the sweep and the open states of a version are found as the same rows, in some
  order.  Only the flag carryOverBlocking, when absent, comes back as false.\<close>

theorem prisma_states_refine:
  assumes "servesStates T D"
  shows "simulates (\<lambda>w s. statesMirror T w s \<and> pairFree T x w s) (statesMirror T) (\<lambda>a b. b = stateNorm a)
      (db_states_save D x) (states_save x)
    \<and> simulates (statesMirror T) (statesMirror T) (\<lambda>a b. b = map_option stateNorm a)
      (db_states_transition D k expectedState newValue rem) (states_transition k expectedState newValue rem)
    \<and> simulates (statesMirror T) (statesMirror T) (\<lambda>a b. b = stateNorm a)
      (db_states_setNotifiedAtomically D k newValue notifiedAt deadlineAt)
      (states_setNotifiedAtomically k newValue notifiedAt deadlineAt)
    \<and> simulates (statesMirror T) (statesMirror T) (=) (db_states_clearNotificationDue D k) (states_clearNotificationDue k)
    \<and> simulates (statesMirror T) (statesMirror T) (\<lambda>a b. mset b = mset (map stateNorm a))
      (db_states_findDueForSweep D now) (states_findDueForSweep now)
    \<and> simulates (statesMirror T) (statesMirror T) (\<lambda>a b. mset b = mset (map stateNorm a))
      (db_states_findOpenByVersion D k) (states_findOpenByVersion k)"
proof (intro conjI)
  show "simulates (statesMirror T) (statesMirror T) (\<lambda>a b. mset b = mset (map stateNorm a))
      (db_states_findDueForSweep D now) (states_findDueForSweep now)"
  proof (rule states_many[OF assms])
    show "(sr_value r \<in> {PENDING_NOTIFICATION, NOTIFIED} \<and> (case sr_deadlineAt r of None \<Rightarrow> False | Some t \<Rightarrow> t \<le> now))
        = dueForSweep now y" if "state_toDomain r = stateNorm y" for r y
      using state_fields[OF that] by (simp add: dueForSweep_def SWEEPABLE_STATES_def)
  qed (simp_all add: db_states_findDueForSweep_def states_findDueForSweep_def getsM_def)
  show "simulates (statesMirror T) (statesMirror T) (\<lambda>a b. mset b = mset (map stateNorm a))
      (db_states_findOpenByVersion D k) (states_findOpenByVersion k)"
  proof (rule states_many[OF assms])
    show "(sr_versionId r = k \<and> sr_value r \<in> set DB_OPEN_STATES) = (cvs_versionId y = k \<and> cvs_state y \<in> set REPO_OPEN_STATES)"
      if "state_toDomain r = stateNorm y" for r y
      using state_fields[OF that] by (simp add: DB_OPEN_STATES_def REPO_OPEN_STATES_def)
  qed (simp_all add: db_states_findOpenByVersion_def states_findOpenByVersion_def getsM_def)
qed (rule db_states_save_free db_states_transition_simulates db_states_setNotified_simulates db_states_clear_simulates, rule assms)+

text \<open>A table with one row, whose client is the list of its rows.\<close>

abbreviation stateSchema_ex :: "(StateRow list, StateRow) schema" where
  "stateSchema_ex \<equiv> listSchema sr_id stateUnique"

abbreviation stateClient_ex :: "(StateRow list, StateRow) delegate" where
  "stateClient_ex \<equiv> listDelegate sr_id stateUnique"

definition stateRow_ex :: StateRow where
  "stateRow_ex = (stateDefaults ''cvs-1'')\<lparr>sr_customerId := ''c'', sr_versionId := ''v''\<rparr>"

definition stateWorld_ex :: world where
  "stateWorld_ex = (emptyWorld 0)\<lparr>w_states := [(''cvs-1'', newState ''cvs-1'' ''c'' ''v'')]\<rparr>"

lemma servesStates_ex: "servesStates stateSchema_ex stateClient_ex"
proof -
  have "plainNames stateUnique" by (simp add: plainNames_def stateUnique_def stripQuotes_def)
  then show ?thesis unfolding servesStates_def by (simp add: serves_list) (simp add: listSchema_def)
qed

lemma statesMirror_ex: "statesMirror stateSchema_ex stateWorld_ex [stateRow_ex]"
  by (simp add: statesMirror_def mirrors_def listSchema_def firstOf_def stateWorld_ex_def emptyWorld_def wf_table_def
      newState_def stateRow_ex_def stateDefaults_def state_toDomain_def stateNorm_def nullToUndefined_def orElse_def)

lemma prisma_states_refine_witness:
  "sameOutcome (\<lambda>a b. b = map_option stateNorm a)
     (fst (states_transition ''cvs-1'' PENDING_NOTIFICATION ACCEPTED None stateWorld_ex))
     (fst (db_states_transition stateClient_ex ''cvs-1'' PENDING_NOTIFICATION ACCEPTED None [stateRow_ex]))
   \<and> map cvs_state (tvals (w_states (snd (states_transition ''cvs-1'' PENDING_NOTIFICATION ACCEPTED None stateWorld_ex)))) = [ACCEPTED]"
proof (rule conjI)
  show "sameOutcome (\<lambda>a b. b = map_option stateNorm a)
     (fst (states_transition ''cvs-1'' PENDING_NOTIFICATION ACCEPTED None stateWorld_ex))
     (fst (db_states_transition stateClient_ex ''cvs-1'' PENDING_NOTIFICATION ACCEPTED None [stateRow_ex]))"
    using prisma_states_refine[OF servesStates_ex, where k = "''cvs-1''" and expectedState = PENDING_NOTIFICATION
      and newValue = ACCEPTED and rem = None] statesMirror_ex unfolding simulates_def by blast
  show "map cvs_state (tvals (w_states (snd (states_transition ''cvs-1'' PENDING_NOTIFICATION ACCEPTED None stateWorld_ex)))) = [ACCEPTED]"
    by (simp add: states_transition_def states_findById_def states_put_def action_defs stateWorld_ex_def emptyWorld_def
        newState_def tvals_def Let_def)
qed

text \<open>C40: The database rejects a second rollout state for the same customer and version.  Where memory saves a new row
  beside the old one, the save on the database fails with the error of the client, which the
  repository passes on, and no row changes: a version that is published after a manual acceptance of its
  draft cannot be rolled out to that customer.\<close>

theorem prisma_second_state_rejected:
  assumes "servesStates T D" "statesMirror T w s" "y \<in> set (tvals (w_states w))"
    and "cvs_customerId y = cvs_customerId x" "cvs_versionId y = cvs_versionId x" "map_of (w_states w) (cvs_id x) = None"
  shows "(\<exists>c m s'. db_states_save D x s = (Inl (PrismaError c m), s') \<and> c \<in> {''P2002'', ''P2003''} \<and> statesMirror T w s')
    \<and> tvals (w_states (snd (states_save x w))) = tvals (w_states w) @ [x]"
proof (rule conjI)
  have "cvs_id y \<noteq> cvs_id x"
    using assms(2,3,6) by (auto simp: statesMirror_def tvals_map_of)
  from db_states_save_taken[OF assms(1-5) this]
  show "\<exists>c m s'. db_states_save D x s = (Inl (PrismaError c m), s') \<and> c \<in> {''P2002'', ''P2003''} \<and> statesMirror T w s'" by blast
  show "tvals (w_states (snd (states_save x w))) = tvals (w_states w) @ [x]"
    using assms(6) by (simp add: states_save_def states_put_def action_defs tvals_update_fresh)
qed

lemma prisma_second_state_rejected_witness:
  "\<exists>c m s'. db_states_save stateClient_ex (newState ''cvs-2'' ''c'' ''v'') [stateRow_ex] = (Inl (PrismaError c m), s')"
proof -
  let ?y = "newState ''cvs-1'' ''c'' ''v''" and ?x = "newState ''cvs-2'' ''c'' ''v''"
  have "?y \<in> set (tvals (w_states stateWorld_ex))" by (simp add: stateWorld_ex_def tvals_def)
  moreover have "cvs_customerId ?y = cvs_customerId ?x" "cvs_versionId ?y = cvs_versionId ?x"
    "map_of (w_states stateWorld_ex) (cvs_id ?x) = None" by (simp_all add: newState_def stateWorld_ex_def)
  ultimately show ?thesis using prisma_second_state_rejected[OF servesStates_ex statesMirror_ex] by blast
qed

section \<open>Evidence and idempotency\<close>

text \<open>C22: The evidence stores on the database refine those in memory.  An acceptance is appended, or
  refused with INVALID_STATE when its id exists and with ALREADY_ACCEPTED when another acceptance of the
  pair is effective, exactly as in memory, although here it is the constraints of the table that decide, in
  whatever shape the engine reports them; the correction of an acceptance does the same.  Of the requests with one
  idempotency key exactly one gets the reservation, a reservation is not an answer, only an open reservation is
  released, and a stored response is the one that a replay gets, as in memory.\<close>

theorem prisma_evidence_refine:
  assumes "servesAcceptances T D" "servesIdempotency TI DI"
  shows "simulates (\<lambda>w s. acceptancesMirror T w s \<and> appendable T a w s) (acceptancesMirror T) (\<lambda>x y. y = acceptanceNorm x)
      (db_acceptances_append D a) (acceptances_append a)
    \<and> simulates (\<lambda>w s. acceptancesMirror T w s \<and> supersedable T k by w s) (acceptancesMirror T) (\<lambda>x y. y = acceptanceNorm x)
      (db_acceptances_supersede D k by) (acceptances_supersede k by)
    \<and> simulates (idempotencyMirror TI) (idempotencyMirror TI) (\<lambda>x y. y = map_option responseJson x)
      (db_idempotency_get DI key) (idempotency_get key)
    \<and> simulates (idempotencyMirror TI) (idempotencyMirror TI) (=)
      (db_idempotency_put DI key (responseJson v)) (idempotency_put key v)
    \<and> simulates (idempotencyMirror TI) (idempotencyMirror TI) (=) (db_idempotency_reserve DI key) (idempotency_reserve key)
    \<and> simulates (idempotencyMirror TI) (idempotencyMirror TI) (=) (db_idempotency_release DI key) (idempotency_release key)"
  by (intro conjI db_acceptances_append_simulates db_acceptances_supersede_simulates idempotency_get_simulates
      idempotency_put_simulates idempotency_reserve_simulates idempotency_release_simulates assms)

abbreviation acceptanceSchema_ex :: "(AcceptanceRow list, AcceptanceRow) schema" where
  "acceptanceSchema_ex \<equiv> listSchema ar_id acceptanceUnique"

abbreviation acceptanceClient_ex :: "(AcceptanceRow list, AcceptanceRow) delegate" where
  "acceptanceClient_ex \<equiv> listDelegate ar_id acceptanceUnique"

lemma servesAcceptances_ex: "servesAcceptances acceptanceSchema_ex acceptanceClient_ex"
proof -
  have "plainNames acceptanceUnique"
    by (simp add: plainNames_def acceptanceUnique_def stripQuotes_def PARTIAL_EFFECTIVE_INDEX_NAME_def)
  then show ?thesis unfolding servesAcceptances_def by (simp add: serves_list) (simp add: listSchema_def)
qed

lemma servesIdempotency_ex: "servesIdempotency (listSchema ir_key idempotencyUnique) (listDelegate ir_key idempotencyUnique)"
proof -
  have "plainNames idempotencyUnique" by (simp add: plainNames_def idempotencyUnique_def stripQuotes_def)
  then show ?thesis unfolding servesIdempotency_def by (simp add: serves_list) (simp add: listSchema_def)
qed

text \<open>A key is reserved in the empty store: once, and not again.\<close>

lemma prisma_evidence_refine_witness:
  "fst (db_idempotency_reserve (listDelegate ir_key idempotencyUnique) ''k'' []) = Inr True
   \<and> fst (db_idempotency_reserve (listDelegate ir_key idempotencyUnique) ''k''
       (snd (db_idempotency_reserve (listDelegate ir_key idempotencyUnique) ''k'' []))) = Inr False"
proof -
  let ?R = "idempotencyMirror (listSchema ir_key idempotencyUnique)"
  let ?d = "db_idempotency_reserve (listDelegate ir_key idempotencyUnique) ''k''" and ?m = "idempotency_reserve ''k''"
  have sim: "simulates ?R ?R (=) ?d ?m"
    using prisma_evidence_refine[OF servesAcceptances_ex servesIdempotency_ex, where key = "''k''"] by blast
  have "?R (emptyWorld 0) []"
    by (simp add: idempotencyMirror_def listSchema_def firstOf_def emptyWorld_def)
  with sim have one: "sameOutcome (=) (fst (?m (emptyWorld 0))) (fst (?d []))" "?R (snd (?m (emptyWorld 0))) (snd (?d []))"
    unfolding simulates_def by blast+
  from sim one(2) have two: "sameOutcome (=) (fst (?m (snd (?m (emptyWorld 0))))) (fst (?d (snd (?d []))))"
    unfolding simulates_def by blast
  have "fst (?m (emptyWorld 0)) = Inr True" "fst (?m (snd (?m (emptyWorld 0)))) = Inr False"
    by (simp_all add: idempotency_reserve_def idempotency_put_def action_defs emptyWorld_def)
  with one(1) two show ?thesis by (auto simp: sameOutcome_def split: sum.splits)
qed

end
